(* ===== verification/Lto_Prelude.thy ===== *)
theory Lto_Prelude
  imports Main "HOL-Library.Word" "HOL-Library.Char_ord" "HOL-Library.List_Lexorder"
    "HOL-Library.Sublist" "HOL-Library.Multiset"
begin

text \<open>
  Shared vocabulary of the development: machine integers with Rust's saturating operations,
  results of fallible code as sums (\<open>Inl\<close> is the error), slices as lists (\<open>position\<close>,
  \<open>windows\<close>, \<open>last\<close>), and the ordered maps and sets of the standard library
  (\<open>BTreeMap\<close>, \<open>BTreeSet\<close>) as strictly ascending association lists and lists.
  Nothing here models a file of the repository; the components are built on it.
\<close>

named_theorems lto_simps \<open>rewrite rules the components share\<close>
named_theorems lto_inv \<open>preservation of well-formedness invariants\<close>

subsection \<open>Machine integers\<close>

type_synonym u64 = "64 word"
type_synonym u32 = "32 word"

text \<open>\<open>saturating_add\<close>: the sum, or the largest value when it does not fit.\<close>

definition sat_add :: "'a::len word \<Rightarrow> 'a word \<Rightarrow> 'a word" where
  "sat_add a b = (if uint a + uint b < 2 ^ LENGTH('a) then a + b else - 1)"

definition sat_mul :: "'a::len word \<Rightarrow> 'a word \<Rightarrow> 'a word" where
  "sat_mul a b = (if uint a * uint b < 2 ^ LENGTH('a) then a * b else - 1)"

lemma unat_u64_less: "unat (w :: u64) < 18446744073709551616"
  by (rule order_less_le_trans [OF unsigned_less]) simp

lemma unat_u32_less: "unat (w :: u32) < 4294967296"
  by (rule order_less_le_trans [OF unsigned_less]) simp

lemma unat_minus_one_max: "unat (- 1 :: 'a::len word) = 2 ^ LENGTH('a) - 1"
  by (simp add: unsigned_minus_1_eq_mask mask_eq_exp_minus_1)

lemma uint_add_fits: "uint a + uint b < 2 ^ LENGTH('a) \<longleftrightarrow> unat a + unat b < 2 ^ LENGTH('a)"
  for a b :: "'a::len word"
proof -
  have "uint a + uint b = int (unat a + unat b)" by simp
  moreover have "(2::int) ^ LENGTH('a) = int (2 ^ LENGTH('a))" by simp
  ultimately show ?thesis by (simp only: of_nat_less_iff)
qed

lemma uint_mult_fits: "uint a * uint b < 2 ^ LENGTH('a) \<longleftrightarrow> unat a * unat b < 2 ^ LENGTH('a)"
  for a b :: "'a::len word"
proof -
  have "uint a * uint b = int (unat a * unat b)" by simp
  moreover have "(2::int) ^ LENGTH('a) = int (2 ^ LENGTH('a))" by simp
  ultimately show ?thesis by (simp only: of_nat_less_iff)
qed

lemma unat_sat_add:
  "unat (sat_add a b) = min (unat a + unat b) (2 ^ LENGTH('a) - 1)" for a b :: "'a::len word"
  by (auto simp: sat_add_def uint_add_fits unat_minus_one_max unat_word_ariths)

lemma unat_sat_mul:
  "unat (sat_mul a b) = min (unat a * unat b) (2 ^ LENGTH('a) - 1)" for a b :: "'a::len word"
  by (auto simp: sat_mul_def uint_mult_fits unat_minus_one_max unat_word_ariths)

lemma sat_add_0 [simp]: "sat_add 0 b = b" "sat_add b 0 = b"
  by (simp_all add: sat_add_def)

lemma sat_add_eq_0_iff: "sat_add a b = 0 \<longleftrightarrow> a = 0 \<and> b = (0 :: 'a::len word)"
proof -
  have "sat_add a b = 0 \<longleftrightarrow> unat (sat_add a b) = 0" by (simp add: unat_eq_zero)
  also have "\<dots> \<longleftrightarrow> unat a + unat b = 0"
  proof -
    have "(2::nat) \<le> 2 ^ LENGTH('a)" using one_less_power [of "2::nat" "LENGTH('a)"] by simp
    then show ?thesis by (auto simp: unat_sat_add min_def)
  qed
  finally show ?thesis by (simp add: unat_eq_zero)
qed

lemma sat_add_mono_right: "b \<le> c \<Longrightarrow> sat_add a b \<le> sat_add a c"
  by (simp add: word_le_nat_alt unat_sat_add)

subsection \<open>Results\<close>

text \<open>\<open>Result\<close> as a sum; \<open>bindr\<close> is the \<open>?\<close> operator, \<open>mapr\<close> the collection of an
  iterator of results that stops at the first error.\<close>

definition bindr :: "'e + 'a \<Rightarrow> ('a \<Rightarrow> 'e + 'b) \<Rightarrow> 'e + 'b" where
  "bindr r f = (case r of Inl e \<Rightarrow> Inl e | Inr a \<Rightarrow> f a)"

lemma bindr_simps [simp]: "bindr (Inl e) f = Inl e" "bindr (Inr a) f = f a"
  by (simp_all add: bindr_def)

lemma bindr_Inr_iff: "bindr r f = Inr b \<longleftrightarrow> (\<exists>a. r = Inr a \<and> f a = Inr b)"
  by (cases r) auto

lemma bindr_Inl_iff: "bindr r f = Inl e \<longleftrightarrow> r = Inl e \<or> (\<exists>a. r = Inr a \<and> f a = Inl e)"
  by (cases r) auto

fun mapr :: "('a \<Rightarrow> 'e + 'b) \<Rightarrow> 'a list \<Rightarrow> 'e + 'b list" where
  "mapr f [] = Inr []"
| "mapr f (x # xs) = bindr (f x) (\<lambda>y. bindr (mapr f xs) (\<lambda>ys. Inr (y # ys)))"

definition is_ok :: "'e + 'a \<Rightarrow> bool" where
  "is_ok r = (case r of Inl _ \<Rightarrow> False | Inr _ \<Rightarrow> True)"

lemma is_ok_simps [simp]: "is_ok (Inl e) = False" "is_ok (Inr a) = True"
  by (simp_all add: is_ok_def)

fun opt_mapM :: "('a \<Rightarrow> 'b option) \<Rightarrow> 'a list \<Rightarrow> 'b list option" where
  "opt_mapM f [] = Some []"
| "opt_mapM f (x # xs) =
     (case f x of None \<Rightarrow> None
      | Some y \<Rightarrow> (case opt_mapM f xs of None \<Rightarrow> None | Some ys \<Rightarrow> Some (y # ys)))"

lemma opt_mapM_Some_length: "opt_mapM f xs = Some ys \<Longrightarrow> length ys = length xs"
  by (induction xs arbitrary: ys) (auto split: option.splits)

definition opt_or :: "'a option \<Rightarrow> 'a option \<Rightarrow> 'a option" where
  "opt_or a b = (case a of None \<Rightarrow> b | Some x \<Rightarrow> Some x)"

lemma opt_or_simps [simp]: "opt_or None b = b" "opt_or (Some x) b = Some x"
  by (simp_all add: opt_or_def)

definition opt_filter :: "('a \<Rightarrow> bool) \<Rightarrow> 'a option \<Rightarrow> 'a option" where
  "opt_filter p a = (case a of None \<Rightarrow> None | Some x \<Rightarrow> if p x then Some x else None)"

lemma opt_filter_simps [simp]:
  "opt_filter p None = None" "opt_filter p (Some x) = (if p x then Some x else None)"
  by (simp_all add: opt_filter_def)

definition opt_get_or :: "'a \<Rightarrow> 'a option \<Rightarrow> 'a" where
  "opt_get_or d a = (case a of None \<Rightarrow> d | Some x \<Rightarrow> x)"

lemma opt_get_or_simps [simp]: "opt_get_or d None = d" "opt_get_or d (Some x) = x"
  by (simp_all add: opt_get_or_def)

definition opt_all :: "('a \<Rightarrow> bool) \<Rightarrow> 'a option \<Rightarrow> bool" where
  "opt_all p a = (case a of None \<Rightarrow> False | Some x \<Rightarrow> p x)"

lemma opt_all_simps [simp]: "opt_all p None = False" "opt_all p (Some x) = p x"
  by (simp_all add: opt_all_def)

subsection \<open>Slices\<close>

fun position :: "('a \<Rightarrow> bool) \<Rightarrow> 'a list \<Rightarrow> nat option" where
  "position p [] = None"
| "position p (x # xs) = (if p x then Some 0 else map_option Suc (position p xs))"

lemma position_Some: "position p xs = Some i \<Longrightarrow> i < length xs \<and> p (xs ! i)"
  by (induction xs arbitrary: i) (auto split: if_splits)

lemma position_None: "position p xs = None \<longleftrightarrow> (\<forall>x\<in>set xs. \<not> p x)"
  by (induction xs) auto

definition get_at :: "'a list \<Rightarrow> nat \<Rightarrow> 'a option" where
  "get_at xs i = (if i < length xs then Some (xs ! i) else None)"

definition last_opt :: "'a list \<Rightarrow> 'a option" where
  "last_opt xs = (if xs = [] then None else Some (last xs))"

definition first_opt :: "'a list \<Rightarrow> 'a option" where
  "first_opt xs = (case xs of [] \<Rightarrow> None | x # _ \<Rightarrow> Some x)"

text \<open>\<open>windows(2)\<close> and \<open>windows(3)\<close>.\<close>

definition windows2 :: "'a list \<Rightarrow> ('a \<times> 'a) list" where
  "windows2 xs = zip xs (tl xs)"

definition windows3 :: "'a list \<Rightarrow> ('a \<times> 'a \<times> 'a) list" where
  "windows3 xs = zip xs (zip (tl xs) (tl (tl xs)))"

lemma windows2_simps [simp]:
  "windows2 [] = []" "windows2 [x] = []" "windows2 (x # y # zs) = (x, y) # windows2 (y # zs)"
  by (simp_all add: windows2_def)

lemma windows3_simps [simp]:
  "windows3 [] = []" "windows3 [x] = []" "windows3 [x, y] = []"
  "windows3 (x # y # z # zs) = (x, y, z) # windows3 (y # z # zs)"
  by (simp_all add: windows3_def)

lemma windows2_all_iff_nth:
  "(\<forall>(a, b)\<in>set (windows2 xs). P a b) \<longleftrightarrow> (\<forall>i. Suc i < length xs \<longrightarrow> P (xs ! i) (xs ! Suc i))"
proof (induction xs)
  case Nil
  show ?case by simp
next
  case (Cons x xs)
  show ?case
  proof (cases xs)
    case Nil
    then show ?thesis by simp
  next
    case (Cons y ys)
    with Cons.IH show ?thesis
      by (auto simp: nth_Cons split: nat.splits)
  qed
qed

lemma windows2_mono: "(\<forall>(a, b)\<in>set (windows2 xs). b \<le> (a::'a::linorder)) \<longleftrightarrow> sorted_wrt (\<ge>) xs"
proof (induction xs)
  case (Cons x xs)
  then show ?case by (cases xs) (auto intro: order_trans)
qed simp

lemma windows2_strict: "(\<forall>(a, b)\<in>set (windows2 xs). b < (a::'a::linorder)) \<longleftrightarrow> sorted_wrt (>) xs"
proof (induction xs)
  case (Cons x xs)
  then show ?case by (cases xs) (auto intro: less_trans)
qed simp

lemma windows2_nth: "i < length (windows2 xs) \<Longrightarrow> windows2 xs ! i = (xs ! i, xs ! Suc i)"
  by (simp add: windows2_def nth_tl)

lemma length_windows2: "length (windows2 xs) = length xs - 1"
  by (simp add: windows2_def)

lemma last_opt_map: "last_opt (map f xs) = map_option f (last_opt xs)"
  by (simp add: last_opt_def last_map)

lemma sorted_desc_last: "sorted_wrt (\<ge>) xs \<Longrightarrow> x \<in> set xs \<Longrightarrow> last xs \<le> (x::'a::linorder)"
  by (induction xs) (auto split: if_splits)

lemma windows2_second: "(a, b) \<in> set (windows2 xs) \<Longrightarrow> b \<in> set xs"
  by (cases xs) (auto simp: windows2_def dest: set_zip_rightD)

lemma windows2_asc: "(\<forall>(a, b)\<in>set (windows2 xs). a \<le> (b::'a::linorder)) \<longleftrightarrow> sorted_wrt (\<le>) xs"
proof (induction xs)
  case (Cons x xs)
  then show ?case by (cases xs) (auto intro: order_trans)
qed simp

lemma last_opt_Some: "last_opt xs = Some v \<longleftrightarrow> xs \<noteq> [] \<and> last xs = v"
  by (simp add: last_opt_def)

lemma windows3_nth: "Suc (Suc i) < length xs \<Longrightarrow> (xs ! i, xs ! Suc i, xs ! Suc (Suc i)) \<in> set (windows3 xs)"
  by (auto simp: windows3_def set_zip nth_tl intro!: exI [of _ i])

lemma windows3_mem: "(a, b, c) \<in> set (windows3 xs) \<Longrightarrow> b \<in> set xs"
  unfolding windows3_def by (drule set_zip_rightD, drule set_zip_leftD) (cases xs, simp_all)

text \<open>\<open>sort_by\<close> with the comparison given as a not-greater test: a stable sort.\<close>

fun insort_by :: "('a \<Rightarrow> 'a \<Rightarrow> bool) \<Rightarrow> 'a \<Rightarrow> 'a list \<Rightarrow> 'a list" where
  "insort_by le x [] = [x]"
| "insort_by le x (y # ys) = (if le x y then x # y # ys else y # insort_by le x ys)"

definition sort_by :: "('a \<Rightarrow> 'a \<Rightarrow> bool) \<Rightarrow> 'a list \<Rightarrow> 'a list" where
  "sort_by le xs = foldr (insort_by le) xs []"

lemma mset_insort_by [simp]: "mset (insort_by le x ys) = add_mset x (mset ys)"
  by (induction ys) auto

lemma mset_sort_by [simp]: "mset (sort_by le xs) = mset xs"
  unfolding sort_by_def by (induction xs) auto

lemma set_sort_by [simp]: "set (sort_by le xs) = set xs"
  by (metis mset_sort_by set_mset_mset)

lemma length_sort_by [simp]: "length (sort_by le xs) = length xs"
  by (metis mset_sort_by size_mset)

lemma sorted_insort_by:
  assumes "\<And>a b. le a b \<or> le b a" "\<And>a b c. le a b \<Longrightarrow> le b c \<Longrightarrow> le a c" "sorted_wrt le ys"
  shows "sorted_wrt le (insort_by le x ys)"
  using assms(3)
proof (induction ys)
  case (Cons y ys)
  have "set (insort_by le x ys) = insert x (set ys)"
    by (metis mset_insort_by set_mset_add_mset_insert set_mset_mset)
  with Cons assms(1) [of x y] show ?case by (auto intro: assms(2))
qed simp

lemma sorted_sort_by:
  "(\<And>a b. le a b \<or> le b a) \<Longrightarrow> (\<And>a b c. le a b \<Longrightarrow> le b c \<Longrightarrow> le a c) \<Longrightarrow> sorted_wrt le (sort_by le xs)"
proof -
  assume t: "\<And>a b. le a b \<or> le b a" "\<And>a b c. le a b \<Longrightarrow> le b c \<Longrightarrow> le a c"
  show "sorted_wrt le (sort_by le xs)"
    unfolding sort_by_def by (induction xs) (simp_all add: sorted_insort_by [OF t])
qed

subsection \<open>Ordered maps and sets\<close>

text \<open>
  \<open>BTreeMap\<close>: an association list with strictly ascending keys, so that iteration order is
  the list's. \<open>bt_get\<close> is \<open>get\<close>, \<open>bt_insert\<close> is \<open>insert\<close> (replacing the value of
  a present key), \<open>bt_remove\<close> is \<open>remove\<close>.
\<close>

type_synonym ('k, 'v) btree = "('k \<times> 'v) list"

definition bt_wf :: "('k::linorder, 'v) btree \<Rightarrow> bool" where
  "bt_wf m \<longleftrightarrow> sorted_wrt (<) (map fst m)"

fun bt_get :: "('k::linorder, 'v) btree \<Rightarrow> 'k \<Rightarrow> 'v option" where
  "bt_get [] k = None"
| "bt_get ((k', v) # m) k = (if k = k' then Some v else bt_get m k)"

fun bt_insert :: "'k::linorder \<Rightarrow> 'v \<Rightarrow> ('k, 'v) btree \<Rightarrow> ('k, 'v) btree" where
  "bt_insert k v [] = [(k, v)]"
| "bt_insert k v ((k', v') # m) =
     (if k < k' then (k, v) # (k', v') # m
      else if k = k' then (k, v) # m
      else (k', v') # bt_insert k v m)"

definition bt_remove :: "'k::linorder \<Rightarrow> ('k, 'v) btree \<Rightarrow> ('k, 'v) btree" where
  "bt_remove k m = filter (\<lambda>(k', _). k' \<noteq> k) m"

definition bt_keys :: "('k::linorder, 'v) btree \<Rightarrow> 'k list" where
  "bt_keys m = map fst m"

definition bt_has :: "('k::linorder, 'v) btree \<Rightarrow> 'k \<Rightarrow> bool" where
  "bt_has m k = (bt_get m k \<noteq> None)"

definition bt_of_list :: "('k::linorder \<times> 'v) list \<Rightarrow> ('k, 'v) btree" where
  "bt_of_list kvs = foldl (\<lambda>m (k, v). bt_insert k v m) [] kvs"

lemma bt_get_insert: "bt_get (bt_insert k v m) k' = (if k' = k then Some v else bt_get m k')"
  by (induction k v m rule: bt_insert.induct) auto

lemma bt_get_insert_same [simp]: "bt_get (bt_insert k v m) k = Some v"
  by (simp add: bt_get_insert)

lemma bt_get_insert_other [simp]: "k' \<noteq> k \<Longrightarrow> bt_get (bt_insert k v m) k' = bt_get m k'"
  by (simp add: bt_get_insert)

lemma bt_keys_insert: "set (map fst (bt_insert k v m)) = insert k (set (map fst m))"
  by (induction k v m rule: bt_insert.induct) auto

lemma bt_wf_Nil [simp]: "bt_wf []"
  by (simp add: bt_wf_def)

lemma bt_wf_insert [lto_inv]: "bt_wf m \<Longrightarrow> bt_wf (bt_insert k v m)"
proof (induction k v m rule: bt_insert.induct)
  case (2 k v k' v' m)
  then show ?case
    using bt_keys_insert [of k v m] by (auto simp: bt_wf_def)
qed (simp add: bt_wf_def)

lemma bt_wf_remove [lto_inv]: "bt_wf m \<Longrightarrow> bt_wf (bt_remove k m)"
  by (induction m) (auto simp: bt_wf_def bt_remove_def)

lemma bt_get_in_keys: "bt_get m k \<noteq> None \<longleftrightarrow> k \<in> set (map fst m)"
  by (induction m k rule: bt_get.induct) auto

lemma bt_get_SomeD: "bt_get m k = Some v \<Longrightarrow> (k, v) \<in> set m"
  by (induction m k rule: bt_get.induct) (auto split: if_splits)

lemma bt_wf_distinct: "bt_wf m \<Longrightarrow> distinct (map fst m)"
  by (auto simp: bt_wf_def strict_sorted_iff)

lemma bt_get_mem: "bt_wf m \<Longrightarrow> (k, v) \<in> set m \<Longrightarrow> bt_get m k = Some v"
proof (induction m)
  case (Cons p m)
  then show ?case by (cases p) (force simp: bt_wf_def)
qed simp

lemma bt_get_Nil_iff: "(\<forall>k. bt_get m k = None) \<longleftrightarrow> m = []"
  by (cases m) (auto simp: exI)

text \<open>\<open>BTreeSet\<close> collected from an iterator: the distinct elements in ascending order.\<close>

definition bs_of_list :: "'a::linorder list \<Rightarrow> 'a list" where
  "bs_of_list xs = sort (remdups xs)"

lemma set_bs_of_list [simp]: "set (bs_of_list xs) = set xs"
  by (simp add: bs_of_list_def)

lemma bs_of_list_strict: "sorted_wrt (<) (bs_of_list xs)"
  by (simp add: bs_of_list_def strict_sorted_iff)

lemma bs_of_list_distinct [simp]: "distinct (bs_of_list xs)"
  by (simp add: bs_of_list_def)

lemma strict_sorted_eqI:
  "sorted_wrt (<) xs \<Longrightarrow> sorted_wrt (<) ys \<Longrightarrow> set xs = set ys \<Longrightarrow> xs = (ys :: 'a::linorder list)"
  by (simp add: strict_sorted_equal)

lemma bt_get_of_list: "bt_get (bt_of_list kvs) k = map_of (rev kvs) k"
proof -
  have "bt_get (foldl (\<lambda>m (k, v). bt_insert k v m) m kvs) k =
      (case map_of (rev kvs) k of None \<Rightarrow> bt_get m k | Some v \<Rightarrow> Some v)" for m
    by (induction kvs arbitrary: m) (auto simp: bt_get_insert map_add_def split: option.splits prod.splits)
  then show ?thesis by (simp add: bt_of_list_def split: option.splits)
qed

text \<open>Two ordered maps with the same lookups are the same list.\<close>

lemma bt_is_map: "bt_wf m \<Longrightarrow> m = map (\<lambda>k. (k, the (bt_get m k))) (bt_keys m)"
  by (auto simp: bt_keys_def comp_def bt_get_mem intro!: map_idI [symmetric])

lemma bt_ext: "bt_wf m \<Longrightarrow> bt_wf m' \<Longrightarrow> (\<And>k. bt_get m k = bt_get m' k) \<Longrightarrow> m = m'"
proof -
  assume w: "bt_wf m" "bt_wf m'" and g: "\<And>k. bt_get m k = bt_get m' k"
  have "set (map fst m) = set (map fst m')"
    using g by (metis bt_get_in_keys subsetI subset_antisym)
  with w have "bt_keys m = bt_keys m'"
    by (auto simp: bt_wf_def bt_keys_def intro!: strict_sorted_eqI)
  with g show ?thesis by (subst bt_is_map [OF w(1)], subst bt_is_map [OF w(2)]) simp
qed

lemma bt_wf_of_list [simp, lto_inv]: "bt_wf (bt_of_list kvs)"
proof -
  have "bt_wf m \<Longrightarrow> bt_wf (foldl (\<lambda>m (k, v). bt_insert k v m) m kvs)" for m
    by (induction kvs arbitrary: m) (auto intro: bt_wf_insert)
  then show ?thesis by (simp add: bt_of_list_def)
qed

lemma length_filter_two:
  "a \<noteq> b \<Longrightarrow> length (filter (\<lambda>x. f x = a) xs) + length (filter (\<lambda>x. f x = b) xs)
     = length (filter (\<lambda>x. f x \<in> {a, b}) xs)"
  by (induction xs) auto

lemma length_filter_all: "length (filter P xs) = length xs \<longleftrightarrow> (\<forall>x\<in>set xs. P x)"
  by (metis filter_True filter_id_conv length_filter_less less_irrefl)

lemma uint_u64_of_nat: "int n < 18446744073709551616 \<Longrightarrow> uint (of_nat n :: u64) = int n"
proof -
  assume "int n < 18446744073709551616"
  moreover have "uint (word_of_int (int n) :: u64) = int n mod 2 ^ 64"
    by (simp add: uint_word_of_int del: of_int_of_nat_eq)
  ultimately show ?thesis by simp
qed

end
