(* ===== verification/Lto_Strings.thy ===== *)
theory Lto_Strings
  imports Lto_Prelude
begin

text \<open>
  Rust's \<open>str\<close> operations that the repository uses, on strings as lists of UTF-8 bytes:
  white space is recognised by its encodings (\<open>char::is_whitespace\<close>, the Unicode
  White_Space property), so \<open>trim\<close> and \<open>split_whitespace\<close> are exact on every valid
  string and not only on ASCII. Numbers are parsed and printed in decimal as
  \<open>str::parse::<u64>\<close> and \<open>to_string\<close> do.
\<close>

subsection \<open>White space\<close>

definition ws_seqs :: "string list" where
  "ws_seqs =
    [[CHR 0x20], [CHR 0x0A], [CHR 0x09], [CHR 0x0D], [CHR 0x0B], [CHR 0x0C],
     [CHR 0xC2, CHR 0x85], [CHR 0xC2, CHR 0xA0], [CHR 0xE1, CHR 0x9A, CHR 0x80],
     [CHR 0xE2, CHR 0x80, CHR 0x80], [CHR 0xE2, CHR 0x80, CHR 0x81],
     [CHR 0xE2, CHR 0x80, CHR 0x82], [CHR 0xE2, CHR 0x80, CHR 0x83],
     [CHR 0xE2, CHR 0x80, CHR 0x84], [CHR 0xE2, CHR 0x80, CHR 0x85],
     [CHR 0xE2, CHR 0x80, CHR 0x86], [CHR 0xE2, CHR 0x80, CHR 0x87],
     [CHR 0xE2, CHR 0x80, CHR 0x88], [CHR 0xE2, CHR 0x80, CHR 0x89],
     [CHR 0xE2, CHR 0x80, CHR 0x8A], [CHR 0xE2, CHR 0x80, CHR 0xA8],
     [CHR 0xE2, CHR 0x80, CHR 0xA9], [CHR 0xE2, CHR 0x80, CHR 0xAF],
     [CHR 0xE2, CHR 0x81, CHR 0x9F], [CHR 0xE3, CHR 0x80, CHR 0x80]]"

fun strip_prefix :: "'a list \<Rightarrow> 'a list \<Rightarrow> 'a list option" where
  "strip_prefix [] s = Some s"
| "strip_prefix (p # ps) [] = None"
| "strip_prefix (p # ps) (c # cs) = (if p = c then strip_prefix ps cs else None)"

text \<open>The length of the first table entry that starts the string, \<open>0\<close> for none.\<close>

fun lead_len :: "'a list list \<Rightarrow> 'a list \<Rightarrow> nat" where
  "lead_len [] s = 0"
| "lead_len (w # ws) s = (if prefix w s then length w else lead_len ws s)"

lemma strip_prefix_Some: "strip_prefix p s = Some r \<longleftrightarrow> s = p @ r"
  by (induction p s rule: strip_prefix.induct) auto

lemma strip_prefix_None: "strip_prefix p s = None \<longleftrightarrow> \<not> prefix p s"
  by (induction p s rule: strip_prefix.induct) auto

lemma lead_len_0: "[] \<notin> set ws \<Longrightarrow> lead_len ws s = 0 \<longleftrightarrow> (\<forall>w\<in>set ws. \<not> prefix w s)"
  by (induction ws s rule: lead_len.induct) auto

text \<open>The loop of \<open>trim_start\<close>: drop white space while there is some.\<close>

function trim_with :: "'a list list \<Rightarrow> 'a list \<Rightarrow> 'a list" where
  "trim_with ws s =
     (if s = [] \<or> lead_len ws s = 0 then s else trim_with ws (drop (lead_len ws s) s))"
  by pat_completeness auto
termination
  by (relation "measure (\<lambda>(ws, s). length s)") auto

declare trim_with.simps [simp del]

lemma trim_with_suffix: "suffix (trim_with ws s) s"
proof (induction ws s rule: trim_with.induct)
  case (1 ws s)
  show ?case
  proof (cases "s = [] \<or> lead_len ws s = 0")
    case True
    then show ?thesis by (subst trim_with.simps) simp
  next
    case False
    with "1.IH" [OF False] show ?thesis
      by (subst trim_with.simps) (auto intro: suffix_order.trans [OF _ suffix_drop])
  qed
qed

lemma trim_with_fixed: "trim_with ws s = [] \<or> lead_len ws (trim_with ws s) = 0"
proof (induction ws s rule: trim_with.induct)
  case (1 ws s)
  then show ?case
    by (cases "s = [] \<or> lead_len ws s = 0") (subst (1 2) trim_with.simps, simp)+
qed

lemma trim_with_done: "s = [] \<or> lead_len ws s = 0 \<Longrightarrow> trim_with ws s = s"
  by (subst trim_with.simps) auto

lemma trim_with_idem: "trim_with ws (trim_with ws s) = trim_with ws s"
  by (rule trim_with_done [OF trim_with_fixed])

lemma trim_with_Nil [simp]: "trim_with ws [] = []"
  by (rule trim_with_done) simp

definition trim_start :: "string \<Rightarrow> string" where
  "trim_start s = trim_with ws_seqs s"

definition trim_end :: "string \<Rightarrow> string" where
  "trim_end s = rev (trim_with (map rev ws_seqs) (rev s))"

definition trim :: "string \<Rightarrow> string" where
  "trim s = trim_end (trim_start s)"

definition is_blank :: "string \<Rightarrow> bool" where
  "is_blank s = (trim s = [])"

lemma trim_Nil [simp]: "trim [] = []" "trim_start [] = []" "trim_end [] = []"
  by (simp_all add: trim_def trim_start_def trim_end_def)

lemma ws_seqs_nonempty: "[] \<notin> set ws_seqs"
  by (simp add: ws_seqs_def)

lemma trim_end_prefix: "prefix (trim_end s) s"
  using trim_with_suffix [of "map rev ws_seqs" "rev s"]
  by (simp add: trim_end_def suffix_to_prefix)

lemma trim_end_idem [simp]: "trim_end (trim_end s) = trim_end s"
  by (simp add: trim_end_def trim_with_idem)

lemma trim_start_idem [simp]: "trim_start (trim_start s) = trim_start s"
  by (simp add: trim_start_def trim_with_idem)

text \<open>What is left after trimming starts with no white space, also after the end is cut.\<close>

lemma trim_start_trim: "trim_start (trim s) = trim s"
proof -
  have p: "prefix (trim s) (trim_start s)"
    unfolding trim_def by (rule trim_end_prefix)
  have "trim s = [] \<or> lead_len ws_seqs (trim_start s) = 0"
    using trim_with_fixed [of ws_seqs s] p by (auto simp: trim_start_def)
  then have "trim s = [] \<or> lead_len ws_seqs (trim s) = 0"
    using p by (auto simp: lead_len_0 ws_seqs_nonempty dest: prefix_order.trans)
  then show ?thesis
    unfolding trim_start_def by (rule trim_with_done)
qed

lemma trim_idem [simp]: "trim (trim s) = trim s"
  by (metis trim_def trim_start_trim trim_end_idem)

lemma length_trim: "length (trim s) \<le> length s"
  by (metis le_trans prefix_length_le suffix_length_le trim_def trim_end_prefix trim_start_def
      trim_with_suffix)

text \<open>\<open>split_whitespace\<close>: the maximal runs without white space.\<close>

function split_ws_from :: "string \<Rightarrow> string \<Rightarrow> string list" where
  "split_ws_from cur [] = (if cur = [] then [] else [rev cur])"
| "split_ws_from cur (c # cs) =
     (if lead_len ws_seqs (c # cs) = 0 then split_ws_from (c # cur) cs
      else (if cur = [] then [] else [rev cur])
           @ split_ws_from [] (drop (lead_len ws_seqs (c # cs)) (c # cs)))"
  by pat_completeness auto
termination
  by (relation "measure (\<lambda>(cur, s). length s)") auto

definition split_whitespace :: "string \<Rightarrow> string list" where
  "split_whitespace s = split_ws_from [] s"

lemma split_ws_from_nonempty: "[] \<notin> set (split_ws_from cur s)"
proof (induction cur s rule: split_ws_from.induct)
  case (2 cur c cs)
  then show ?case by (cases "lead_len ws_seqs (c # cs) = 0") simp_all
qed simp

subsection \<open>Separators, lines, joins\<close>

text \<open>\<open>split(c)\<close>: one more piece than there are separators.\<close>

fun split_on :: "'a \<Rightarrow> 'a list \<Rightarrow> 'a list list" where
  "split_on c [] = [[]]"
| "split_on c (x # xs) =
     (if x = c then [] # split_on c xs
      else (case split_on c xs of [] \<Rightarrow> [[x]] | p # ps \<Rightarrow> (x # p) # ps))"

lemma split_on_nonempty [simp]: "split_on c s \<noteq> []"
  by (induction s) (auto split: list.splits)

lemma split_on_no_sep: "p \<in> set (split_on c s) \<Longrightarrow> c \<notin> set p"
  by (induction s arbitrary: p) (auto split: list.splits if_splits)

lemma split_on_id: "c \<notin> set s \<Longrightarrow> split_on c s = [s]"
  by (induction s) auto

lemma split_on_append: "c \<notin> set s \<Longrightarrow> split_on c (s @ c # t) = s # split_on c t"
  by (induction s) auto

fun join_str :: "string \<Rightarrow> string list \<Rightarrow> string" where
  "join_str sep [] = []"
| "join_str sep [x] = x"
| "join_str sep (x # y # zs) = x @ sep @ join_str sep (y # zs)"

lemma split_on_join:
  "xs \<noteq> [] \<Longrightarrow> \<forall>x\<in>set xs. c \<notin> set x \<Longrightarrow> split_on c (join_str [c] xs) = xs"
  by (induction "[c]" xs rule: join_str.induct) (auto simp: split_on_id split_on_append)

text \<open>\<open>lines()\<close>: pieces between line feeds; a carriage return before a line feed belongs to the
  line ending, and nothing follows a final line feed.\<close>

definition strip_cr :: "string \<Rightarrow> string" where
  "strip_cr l = (if l \<noteq> [] \<and> last l = CHR 0x0D then butlast l else l)"

definition str_lines :: "string \<Rightarrow> string list" where
  "str_lines s =
     (let ps = split_on (CHR 0x0A) s
      in map strip_cr (butlast ps) @ (if last ps = [] then [] else [last ps]))"

lemma str_lines_no_lf: "l \<in> set (str_lines s) \<Longrightarrow> CHR 0x0A \<notin> set l"
proof -
  have "l \<in> set (split_on c s) \<Longrightarrow> c \<notin> set (strip_cr l)" for c l and s :: string
    using split_on_no_sep [of l c s] by (auto simp: strip_cr_def dest: in_set_butlastD)
  then show "l \<in> set (str_lines s) \<Longrightarrow> CHR 0x0A \<notin> set l"
    by (auto simp: str_lines_def Let_def dest: in_set_butlastD split_on_no_sep split: if_splits)
       (metis last_in_set split_on_no_sep split_on_nonempty)
qed

text \<open>\<open>split_once(sep)\<close>: around the first occurrence.\<close>

fun split_once :: "'a list \<Rightarrow> 'a list \<Rightarrow> ('a list \<times> 'a list) option" where
  "split_once sep [] = (if sep = [] then Some ([], []) else None)"
| "split_once sep (c # cs) =
     (if prefix sep (c # cs) then Some ([], drop (length sep) (c # cs))
      else map_option (\<lambda>(a, b). (c # a, b)) (split_once sep cs))"

lemma split_once_Some: "split_once sep s = Some (a, b) \<Longrightarrow> s = a @ sep @ b"
  by (induction sep s arbitrary: a b rule: split_once.induct)
     (auto split: if_splits elim!: prefixE)

fun contains_str :: "'a list \<Rightarrow> 'a list \<Rightarrow> bool" where
  "contains_str needle [] = (needle = [])"
| "contains_str needle (c # cs) = (prefix needle (c # cs) \<or> contains_str needle cs)"

lemma contains_str_sublist: "contains_str n s \<longleftrightarrow> sublist n s"
  by (induction n s rule: contains_str.induct) (auto simp: sublist_Cons_right)

text \<open>\<open>replacen(pat, to, 1)\<close> and \<open>replace(c, d)\<close> for a character.\<close>

fun replace_first :: "'a list \<Rightarrow> 'a list \<Rightarrow> 'a list \<Rightarrow> 'a list" where
  "replace_first pat to [] = (if pat = [] then to else [])"
| "replace_first pat to (c # cs) =
     (if prefix pat (c # cs) then to @ drop (length pat) (c # cs)
      else c # replace_first pat to cs)"

definition replace_char :: "'a \<Rightarrow> 'a \<Rightarrow> 'a list \<Rightarrow> 'a list" where
  "replace_char c d s = map (\<lambda>x. if x = c then d else x) s"

lemma replace_char_gone: "c \<noteq> d \<Longrightarrow> c \<notin> set (replace_char c d s)"
  by (auto simp: replace_char_def)

definition trim_start_char :: "'a \<Rightarrow> 'a list \<Rightarrow> 'a list" where
  "trim_start_char c s = dropWhile (\<lambda>x. x = c) s"

definition trim_end_char :: "'a \<Rightarrow> 'a list \<Rightarrow> 'a list" where
  "trim_end_char c s = rev (dropWhile (\<lambda>x. x = c) (rev s))"

subsection \<open>ASCII case\<close>

definition ascii_lower :: "char \<Rightarrow> char" where
  "ascii_lower c =
     (if CHR ''A'' \<le> c \<and> c \<le> CHR ''Z'' then char_of (of_char c + (32::nat)) else c)"

definition to_ascii_lowercase :: "string \<Rightarrow> string" where
  "to_ascii_lowercase s = map ascii_lower s"

definition eq_ignore_ascii_case :: "string \<Rightarrow> string \<Rightarrow> bool" where
  "eq_ignore_ascii_case a b = (to_ascii_lowercase a = to_ascii_lowercase b)"

lemma eq_ignore_ascii_case_refl [simp]: "eq_ignore_ascii_case a a"
  by (simp add: eq_ignore_ascii_case_def)

subsection \<open>Decimal numbers\<close>

definition is_digit :: "char \<Rightarrow> bool" where
  "is_digit c \<longleftrightarrow> CHR ''0'' \<le> c \<and> c \<le> CHR ''9''"

definition is_ascii_alphabetic :: "char \<Rightarrow> bool" where
  "is_ascii_alphabetic c \<longleftrightarrow> (let n = of_char c :: nat in 65 \<le> n \<and> n \<le> 90 \<or> 97 \<le> n \<and> n \<le> 122)"

definition is_ascii_alphanumeric :: "char \<Rightarrow> bool" where
  "is_ascii_alphanumeric c \<longleftrightarrow> is_ascii_alphabetic c \<or> is_digit c"

definition digit_val :: "char \<Rightarrow> int" where
  "digit_val c = of_char c - 48"

definition digit_char :: "int \<Rightarrow> char" where
  "digit_char d = char_of (48 + d)"

definition digits_val :: "string \<Rightarrow> int" where
  "digits_val s = foldl (\<lambda>n c. 10 * n + digit_val c) 0 s"

function show_uint :: "int \<Rightarrow> string" where
  "show_uint n =
     (if n < 10 then [digit_char n] else show_uint (n div 10) @ [digit_char (n mod 10)])"
  by pat_completeness auto
termination
  by (relation "measure nat") auto

declare show_uint.simps [simp del]

definition parse_uint_below :: "int \<Rightarrow> string \<Rightarrow> int option" where
  "parse_uint_below bound s =
     (let ds = (case s of [] \<Rightarrow> [] | c # cs \<Rightarrow> if c = CHR ''+'' then cs else s)
      in if ds = [] \<or> \<not> list_all is_digit ds then None
         else if digits_val ds < bound then Some (digits_val ds) else None)"

definition parse_u64 :: "string \<Rightarrow> u64 option" where
  "parse_u64 s = map_option word_of_int (parse_uint_below 18446744073709551616 s)"

definition show_u64 :: "u64 \<Rightarrow> string" where
  "show_u64 w = show_uint (uint w)"

definition show_nat :: "nat \<Rightarrow> string" where
  "show_nat n = show_uint (int n)"

definition show_int :: "int \<Rightarrow> string" where
  "show_int n = (if n < 0 then ''-'' @ show_uint (- n) else show_uint n)"

lemma of_char_mono: "(c \<le> d) \<longleftrightarrow> (of_char c :: nat) \<le> of_char d"
  by (simp add: less_eq_char_def)

lemma of_char_mono_int: "(c \<le> d) \<longleftrightarrow> (of_char c :: int) \<le> of_char d"
proof -
  have "(of_char c :: int) = int (of_char c)" for c by (simp add: of_char_def)
  then show ?thesis by (simp only: of_char_mono of_nat_le_iff)
qed

lemma digit_char_props:
  assumes "0 \<le> d" "d < 10"
  shows "is_digit (digit_char d)" and "digit_val (digit_char d) = d"
proof -
  have "(of_char (digit_char d) :: int) = 48 + d"
    using assms by (simp add: digit_char_def of_char_of)
  then show "is_digit (digit_char d)" "digit_val (digit_char d) = d"
    using assms by (simp_all add: is_digit_def digit_val_def of_char_mono_int)
qed

lemma digits_val_snoc [simp]: "digits_val (s @ [c]) = 10 * digits_val s + digit_val c"
  by (simp add: digits_val_def)

lemma show_uint_digits:
  "0 \<le> n \<Longrightarrow>
   list_all is_digit (show_uint n) \<and> show_uint n \<noteq> [] \<and> digits_val (show_uint n) = n"
proof (induction n rule: show_uint.induct)
  case (1 n)
  show ?case
  proof (cases "n < 10")
    case True
    with "1.prems" show ?thesis
      by (subst (1 2 3) show_uint.simps) (simp add: digit_char_props digits_val_def)
  next
    case False
    with "1.IH" have "list_all is_digit (show_uint (n div 10)) \<and> show_uint (n div 10) \<noteq> []
        \<and> digits_val (show_uint (n div 10)) = n div 10" by simp
    with False show ?thesis
      by (subst (1 2 3) show_uint.simps) (simp add: digit_char_props)
  qed
qed

lemma plus_not_digit [simp]: "\<not> is_digit (CHR ''+'')"
  by (simp add: is_digit_def less_eq_char_def)

lemma parse_show_uint: "0 \<le> n \<Longrightarrow> n < bound \<Longrightarrow> parse_uint_below bound (show_uint n) = Some n"
  using show_uint_digits [of n]
  by (auto simp: parse_uint_below_def Let_def split: list.splits)

lemma uint_u64_less: "uint (w :: u64) < 18446744073709551616"
  by (rule order_less_le_trans [OF unsigned_less]) simp

lemma parse_show_u64 [simp]: "parse_u64 (show_u64 w) = Some w"
  by (simp add: parse_u64_def show_u64_def parse_show_uint uint_u64_less)

lemma show_uint_inj: "0 \<le> a \<Longrightarrow> 0 \<le> b \<Longrightarrow> show_uint a = show_uint b \<Longrightarrow> a = b"
  by (metis show_uint_digits)

lemma show_nat_inj: "show_nat a = show_nat b \<Longrightarrow> a = b"
  using show_uint_inj [of "int a" "int b"] by (simp add: show_nat_def)

lemma show_u64_inj: "show_u64 a = show_u64 b \<Longrightarrow> a = b"
  by (metis option.inject parse_show_u64)

subsection \<open>Characters\<close>

text \<open>\<open>chars()\<close> counts code points: every byte but the continuation bytes starts one.\<close>

definition is_cont :: "char \<Rightarrow> bool" where
  "is_cont c \<longleftrightarrow> CHR 0x80 \<le> c \<and> c \<le> CHR 0xBF"

definition chars_count :: "string \<Rightarrow> nat" where
  "chars_count s = length (filter (\<lambda>c. \<not> is_cont c) s)"

fun chars_take :: "nat \<Rightarrow> string \<Rightarrow> string" where
  "chars_take n [] = []"
| "chars_take n (c # cs) =
     (if is_cont c then c # chars_take n cs
      else if n = 0 then [] else c # chars_take (n - 1) cs)"

lemma chars_take_prefix: "prefix (chars_take n s) s"
  by (induction n s rule: chars_take.induct) (auto split: nat.splits)

lemma chars_take_count: "chars_count (chars_take n s) \<le> n"
  by (induction n s rule: chars_take.induct) (auto simp: chars_count_def split: nat.splits)

lemma chars_take_all: "chars_count s \<le> n \<Longrightarrow> chars_take n s = s"
  by (induction n s rule: chars_take.induct) (auto simp: chars_count_def split: nat.splits if_splits)

subsection \<open>Trimmed text, words and lines\<close>

text \<open>No white space sequence but the space itself contains a printable ASCII byte.\<close>

definition is_graph :: "char \<Rightarrow> bool" where
  "is_graph c \<longleftrightarrow> CHR 0x21 \<le> c \<and> c \<le> CHR 0x7E"

lemma ws_seqs_graph: "w \<in> set ws_seqs \<Longrightarrow> c \<in> set w \<Longrightarrow> \<not> is_graph c"
proof -
  have "list_all (list_all (\<lambda>c. \<not> is_graph c)) ws_seqs" by code_simp
  then show "w \<in> set ws_seqs \<Longrightarrow> c \<in> set w \<Longrightarrow> \<not> is_graph c"
    by (auto simp: list_all_iff)
qed

lemma ws_seqs_space: "w \<in> set ws_seqs \<Longrightarrow> CHR '' '' \<in> set w \<Longrightarrow> w = '' ''"
proof -
  have "list_all (\<lambda>w. CHR '' '' \<in> set w \<longrightarrow> w = '' '') ws_seqs" by code_simp
  then show "w \<in> set ws_seqs \<Longrightarrow> CHR '' '' \<in> set w \<Longrightarrow> w = '' ''"
    by (auto simp: list_all_iff)
qed

lemma trim_start_fixed_iff: "trim_start s = s \<longleftrightarrow> (\<forall>w\<in>set ws_seqs. \<not> prefix w s)"
proof
  assume "trim_start s = s"
  then have "s = [] \<or> lead_len ws_seqs s = 0" using trim_with_fixed [of ws_seqs s] by (simp add: trim_start_def)
  then show "\<forall>w\<in>set ws_seqs. \<not> prefix w s" by (auto simp: lead_len_0 ws_seqs_nonempty)
next
  assume "\<forall>w\<in>set ws_seqs. \<not> prefix w s"
  then show "trim_start s = s"
    unfolding trim_start_def by (intro trim_with_done) (simp add: lead_len_0 ws_seqs_nonempty)
qed

lemma trim_end_fixed_iff: "trim_end s = s \<longleftrightarrow> (\<forall>w\<in>set ws_seqs. \<not> suffix w s)"
proof -
  have ne: "[] \<notin> set (map rev ws_seqs)" using ws_seqs_nonempty by auto
  have eq: "trim_end s = s \<longleftrightarrow> trim_with (map rev ws_seqs) (rev s) = rev s"
    unfolding trim_end_def by (metis rev_rev_ident)
  have "trim_with (map rev ws_seqs) (rev s) = rev s \<longleftrightarrow> s = [] \<or> lead_len (map rev ws_seqs) (rev s) = 0"
    using trim_with_fixed [of "map rev ws_seqs" "rev s"] trim_with_done [of "rev s" "map rev ws_seqs"]
    by fastforce
  then show ?thesis
    unfolding eq using ws_seqs_nonempty by (auto simp: lead_len_0 [OF ne] suffix_to_prefix)
qed

lemma trim_fixed_iff: "trim s = s \<longleftrightarrow> (\<forall>w\<in>set ws_seqs. \<not> prefix w s \<and> \<not> suffix w s)"
proof -
  have "trim s = s \<longleftrightarrow> trim_start s = s \<and> trim_end s = s"
    by (metis trim_def trim_end_idem trim_start_trim)
  then show ?thesis by (auto simp: trim_start_fixed_iff trim_end_fixed_iff)
qed

lemma trim_graph_ends:
  "s \<noteq> [] \<Longrightarrow> is_graph (hd s) \<Longrightarrow> is_graph (last s) \<Longrightarrow> trim s = s"
  unfolding trim_fixed_iff
proof (intro ballI conjI notI)
  fix w assume s: "s \<noteq> []" "is_graph (hd s)" "is_graph (last s)" and w: "w \<in> set ws_seqs"
  then have ne: "w \<noteq> []" using ws_seqs_nonempty by auto
  show False if "prefix w s"
    using that s ne ws_seqs_graph [OF w, of "hd w"] by (auto simp: prefix_def)
  show False if "suffix w s"
    using that s ne ws_seqs_graph [OF w, of "last w"] by (auto simp: suffix_def)
qed

lemma trim_start_graph: "is_graph c \<Longrightarrow> trim_start (c # s) = c # s"
  unfolding trim_start_fixed_iff using ws_seqs_graph ws_seqs_nonempty
  by (metis hd_append2 list.sel(1) list.set_sel(1) prefix_def)

lemma trim_start_space [simp]: "trim_start (CHR '' '' # s) = trim_start s"
proof -
  have "lead_len ws_seqs (CHR '' '' # s) = 1" by (simp add: ws_seqs_def)
  then show ?thesis unfolding trim_start_def by (subst trim_with.simps) simp
qed

lemma trim_end_space [simp]: "trim_end (s @ '' '') = trim_end s"
proof -
  have "lead_len (map rev ws_seqs) (CHR '' '' # rev s) = 1" by (simp add: ws_seqs_def)
  then show ?thesis unfolding trim_end_def by (subst trim_with.simps) simp
qed

lemma trim_start_app_space:
  assumes "trim_start s = s" "s \<noteq> []"
  shows "trim_start (s @ CHR '' '' # r) = s @ CHR '' '' # r"
  unfolding trim_start_fixed_iff
proof (intro ballI notI)
  fix w assume w: "w \<in> set ws_seqs" and p: "prefix w (s @ CHR '' '' # r)"
  have ns: "\<not> prefix w s" using assms w by (auto simp: trim_start_fixed_iff)
  with p obtain us where us: "w = s @ us" "prefix us (CHR '' '' # r)" "us \<noteq> []"
    by (auto simp: prefix_append)
  then have "CHR '' '' \<in> set w" by (cases us) auto
  with ws_seqs_space [OF w] us assms(2) show False
    by (cases s) auto
qed

lemma trim_padded:
  assumes "trim c = c"
  shows "trim (CHR '' '' # c @ '' '') = c"
proof (cases "c = []")
  case True
  then show ?thesis by (simp add: trim_def)
next
  case False
  have "trim_start c = c" "trim_end c = c"
    using assms by (metis trim_start_trim, metis trim_def trim_end_idem)
  with False trim_start_app_space [of c "[]"] show ?thesis by (simp add: trim_def)
qed

text \<open>The pieces of \<open>split_whitespace\<close> contain no white space at all.\<close>

definition ws_free :: "string \<Rightarrow> bool" where
  "ws_free p \<longleftrightarrow> (\<forall>w\<in>set ws_seqs. \<not> sublist w p)"

lemma split_ws_from_free:
  assumes "\<And>us vs w. rev cur = us @ vs \<Longrightarrow> vs \<noteq> [] \<Longrightarrow> w \<in> set ws_seqs \<Longrightarrow> \<not> prefix w (vs @ s)"
    and "p \<in> set (split_ws_from cur s)"
  shows "ws_free p"
  using assms
proof (induction cur s rule: split_ws_from.induct)
  case (1 cur)
  then have p: "p = rev cur" by (simp split: if_splits)
  show ?case
    unfolding ws_free_def
  proof (intro ballI notI)
    fix w assume w: "w \<in> set ws_seqs" and "sublist w p"
    then obtain us vs where "rev cur = us @ w @ vs" unfolding p sublist_def by auto
    with 1(1) [of us "w @ vs" w] w ws_seqs_nonempty show False by auto
  qed
next
  case (2 cur c cs)
  let ?n = "lead_len ws_seqs (c # cs)"
  show ?case
  proof (cases "?n = 0")
    case True
    have "\<not> prefix w (vs @ cs)" if "rev (c # cur) = us @ vs" "vs \<noteq> []" "w \<in> set ws_seqs" for us vs w
    proof (cases vs rule: rev_cases)
      case Nil
      with that show ?thesis by simp
    next
      case (snoc vs' x)
      with that have "rev cur = us @ vs'" "x = c" by auto
      show ?thesis
      proof (cases "vs' = []")
        case False
        with 2(3) [of us vs' w] \<open>rev cur = us @ vs'\<close> that(3) snoc \<open>x = c\<close> show ?thesis by simp
      next
        case empty: True
        with True that(3) snoc \<open>x = c\<close> show ?thesis
          by (simp add: lead_len_0 ws_seqs_nonempty)
      qed
    qed
    with 2(1) [OF True] 2(4) True show ?thesis by simp
  next
    case False
    have cur: "ws_free (rev cur)"
      unfolding ws_free_def
    proof (intro ballI notI)
      fix w assume w: "w \<in> set ws_seqs" and "sublist w (rev cur)"
      then obtain us vs where "rev cur = us @ w @ vs" unfolding sublist_def by auto
      with 2(3) [of us "w @ vs" w] w ws_seqs_nonempty show False by auto
    qed
    have "p = rev cur \<or> p \<in> set (split_ws_from [] (drop ?n (c # cs)))"
      using 2(4) False by (auto split: if_splits)
    with cur 2(2) [OF False] show ?thesis by auto
  qed
qed

lemma split_whitespace_free: "p \<in> set (split_whitespace s) \<Longrightarrow> p \<noteq> [] \<and> ws_free p"
  using split_ws_from_free [of "[]" s p] split_ws_from_nonempty [of "[]" s]
  by (auto simp: split_whitespace_def)

lemma split_ws_from_bytes: "p \<in> set (split_ws_from cur s) \<Longrightarrow> set p \<subseteq> set cur \<union> set s"
proof (induction cur s rule: split_ws_from.induct)
  case (2 cur c cs)
  let ?n = "lead_len ws_seqs (c # cs)"
  show ?case
  proof (cases "?n = 0")
    case True
    with 2 show ?thesis by auto
  next
    case False
    have "p = rev cur \<or> p \<in> set (split_ws_from [] (drop ?n (c # cs)))"
      using 2(3) False by (auto split: if_splits)
    with 2(2) [OF False] set_drop_subset [of ?n "c # cs"] show ?thesis by auto
  qed
qed (auto split: if_splits)

lemma split_whitespace_bytes: "p \<in> set (split_whitespace s) \<Longrightarrow> set p \<subseteq> set s"
  using split_ws_from_bytes [of p "[]" s] by (simp add: split_whitespace_def)

lemma set_join_str: "set (join_str sep xs) \<subseteq> set sep \<union> (\<Union>x\<in>set xs. set x)"
  by (induction sep xs rule: join_str.induct) auto

lemma join_str_Cons: "join_str sep (x # xs) = (if xs = [] then x else x @ sep @ join_str sep xs)"
  by (cases xs) auto

lemma join_str_snoc: "xs \<noteq> [] \<Longrightarrow> join_str sep (xs @ [x]) = join_str sep xs @ sep @ x"
  by (induction xs) (auto simp: join_str_Cons)

lemma ws_free_ends:
  assumes "ws_free p" "p \<noteq> []" "w \<in> set ws_seqs"
  shows "\<not> prefix w (p @ CHR '' '' # r)" "\<not> suffix w (r @ CHR '' '' # p)"
    "\<not> prefix w p" "\<not> suffix w p"
proof -
  have ns: "\<not> sublist w p" using assms by (auto simp: ws_free_def)
  then show "\<not> prefix w p" "\<not> suffix w p" by auto
  have len: False if "CHR '' '' \<in> set w" "length w > 1"
    using ws_seqs_space [OF assms(3) that(1)] that(2) by simp
  show "\<not> prefix w (p @ CHR '' '' # r)"
  proof
    assume "prefix w (p @ CHR '' '' # r)"
    with \<open>\<not> prefix w p\<close> obtain us where "w = p @ us" "prefix us (CHR '' '' # r)" "us \<noteq> []"
      by (auto simp: prefix_append)
    with len assms(2) show False by (cases us) auto
  qed
  show "\<not> suffix w (r @ CHR '' '' # p)"
  proof
    assume "suffix w (r @ CHR '' '' # p)"
    with \<open>\<not> suffix w p\<close> obtain us where "w = us @ p" "suffix us (r @ '' '')" "us \<noteq> []"
      using suffix_append [of w "r @ '' ''" p] by auto
    moreover then have "last us = CHR '' ''" by (auto simp: suffix_def) (metis last_appendR last_snoc)
    ultimately show False
      using len assms(2) by (cases us rule: rev_cases) auto
  qed
qed

lemma trim_join_ws_free:
  assumes "\<forall>p\<in>set ps. p \<noteq> [] \<and> ws_free p"
  shows "trim (join_str '' '' ps) = join_str '' '' ps"
proof (cases "ps = []")
  case False
  have pre: "\<not> prefix w (join_str '' '' ps)" if "w \<in> set ws_seqs" for w
    using assms that False ws_free_ends(1,3) [of "hd ps" w]
    by (cases ps) (auto simp: join_str_Cons)
  have suf: "\<not> suffix w (join_str '' '' ps)" if "w \<in> set ws_seqs" for w
  proof (cases ps rule: rev_cases)
    case (snoc qs q)
    then show ?thesis
      using assms that ws_free_ends(2,4) [of q w] by (cases "qs = []") (auto simp: join_str_snoc)
  qed (use False in simp)
  from pre suf show ?thesis by (simp add: trim_fixed_iff)
qed simp

text \<open>Joining lines and reading them back.\<close>

lemma split_on_join_end:
  "xs \<noteq> [] \<Longrightarrow> \<forall>x\<in>set xs. c \<notin> set x \<Longrightarrow> split_on c (join_str [c] xs @ [c]) = xs @ [[]]"
  using split_on_join [of "xs @ [[]]" c] by (simp add: join_str_snoc)

definition is_line :: "string \<Rightarrow> bool" where
  "is_line l \<longleftrightarrow> CHR 0x0A \<notin> set l \<and> strip_cr l = l"

lemma str_lines_join:
  "ls \<noteq> [] \<Longrightarrow> \<forall>l\<in>set ls. is_line l \<Longrightarrow> str_lines (join_str [CHR 0x0A] ls @ [CHR 0x0A]) = ls"
  by (simp add: str_lines_def split_on_join_end is_line_def map_idI)

lemma str_lines_is_line: "CHR 0x0D \<notin> set s \<Longrightarrow> l \<in> set (str_lines s) \<Longrightarrow> is_line l"
proof -
  have sub: "p \<in> set (split_on c s) \<Longrightarrow> set p \<subseteq> set s" for p c and s :: string
    by (induction s arbitrary: p) (auto split: list.splits if_splits, blast)
  assume "CHR 0x0D \<notin> set s" and l: "l \<in> set (str_lines s)"
  then have "p \<in> set (split_on (CHR 0x0A) s) \<Longrightarrow> CHR 0x0D \<notin> set p" for p
    using sub by blast
  then have p: "p \<in> set (split_on (CHR 0x0A) s) \<Longrightarrow> strip_cr p = p" for p
    by (metis last_in_set strip_cr_def)
  from l have "l \<in> set (split_on (CHR 0x0A) s)"
    using p by (auto simp: str_lines_def Let_def dest!: in_set_butlastD split: if_splits)
  with p str_lines_no_lf [OF l] show "is_line l" by (simp add: is_line_def)
qed

lemma show_uint_graph: "0 \<le> n \<Longrightarrow> c \<in> set (show_uint n) \<Longrightarrow> is_digit c"
  using show_uint_digits [of n] by (auto simp: list_all_iff)

lemma is_digit_graph: "is_digit c \<Longrightarrow> is_graph c \<and> c \<noteq> CHR ''|'' \<and> c \<noteq> CHR '' ''"
  by (auto simp: is_digit_def is_graph_def less_eq_char_def)

lemma trim_graph: "(\<forall>c\<in>set s. is_graph c) \<Longrightarrow> trim s = s"
  by (cases "s = []") (auto intro: trim_graph_ends)

lemma trim_end_lf: "trim_end (s @ [CHR 0x0A]) = trim_end s"
proof -
  have "lead_len (map rev ws_seqs) (CHR 0x0A # rev s) = 1" by (simp add: ws_seqs_def)
  then show ?thesis unfolding trim_end_def by (subst trim_with.simps) simp
qed

lemma split_on_snoc:
  "split_on c (xs @ [x]) = (if x = c then split_on c xs @ [[]]
     else butlast (split_on c xs) @ [last (split_on c xs) @ [x]])"
proof (induction xs)
  case (Cons y ys)
  obtain p ps where "split_on c ys = p # ps" by (cases "split_on c ys") auto
  with Cons show ?case by (cases "y = c") (auto split: if_splits)
qed simp

lemma split_last_Nil: "last (split_on c s) = [] \<longleftrightarrow> s = [] \<or> last s = c"
  by (cases s rule: rev_cases) (simp_all add: split_on_snoc)

lemma split_on_app: "split_on c (t @ c # u) = split_on c t @ split_on c u"
proof (induction t)
  case (Cons x t)
  obtain p ps where "split_on c t = p # ps" by (cases "split_on c t") auto
  with Cons show ?case by simp
qed simp

text \<open>Lines appended to a text that is empty or ends with a line feed.\<close>

lemma str_lines_append:
  "t = [] \<or> last t = CHR 0x0A \<Longrightarrow> str_lines (t @ u) = str_lines t @ str_lines u"
proof (cases t rule: rev_cases)
  case (snoc t' x)
  moreover assume "t = [] \<or> last t = CHR 0x0A"
  ultimately have t: "t = t' @ [CHR 0x0A]" by simp
  show ?thesis
    by (simp add: t str_lines_def Let_def split_on_app split_on_snoc butlast_append)
qed (simp add: str_lines_def)

lemma str_lines_one: "is_line l \<Longrightarrow> str_lines (l @ [CHR 0x0A]) = [l]"
  using str_lines_join [of "[l]"] by simp

end
