(* ===== verification/Lto_Ledger.thy ===== *)
theory Lto_Ledger
  imports Lto_Strings
begin

text \<open>
  \<open>src/src/ledger.rs\<close>: the audit ledger's round table, its verdict (\<open>evaluate_ledger\<close>) and
  the advisory diagnostics (\<open>diagnose\<close>). Counts are \<open>u64\<close> with saturating addition. A
  malformed count is the only error; its message is the constructor \<open>NonNumeric\<close> with the
  column, the label and the raw text it quotes.
\<close>

subsection \<open>Rounds and verdicts\<close>

record ledger_round =
  lr_label :: string
  lr_high :: u64
  lr_critical :: u64
  lr_auditors :: "string option"
  lr_coverage :: "string option"

definition blockers :: "ledger_round \<Rightarrow> u64" where
  "blockers r = sat_add (lr_high r) (lr_critical r)"

datatype ledger_verdict = NoObservations | Converged | Converging | Rebound | Stalled

fun verdict_str :: "ledger_verdict \<Rightarrow> string" where
  "verdict_str NoObservations = ''NO_OBSERVATIONS''"
| "verdict_str Converged = ''CONVERGED''"
| "verdict_str Converging = ''CONVERGING''"
| "verdict_str Rebound = ''REBOUND''"
| "verdict_str Stalled = ''STALLED''"

text \<open>The \<open>for pair in blockers.windows(2)\<close> loop with its two early returns.\<close>

fun scan_pairs :: "bool \<Rightarrow> (u64 \<times> u64) list \<Rightarrow> ledger_verdict" where
  "scan_pairs strict [] = Converging"
| "scan_pairs strict ((a, b) # ps) =
     (if b > a then Rebound
      else if strict \<and> b = a \<and> b > 0 then Stalled
      else scan_pairs strict ps)"

definition evaluate_ledger :: "ledger_round list \<Rightarrow> bool \<Rightarrow> ledger_verdict" where
  "evaluate_ledger rounds strict =
     (if rounds = [] then NoObservations
      else let bs = map blockers rounds
           in if opt_get_or 0 (last_opt bs) = 0 then Converged
              else scan_pairs strict (windows2 bs))"

subsection \<open>Diagnostics\<close>

datatype sample_sufficiency = Insufficient | Sufficient
datatype terminal_kind = TermZero | TermNonzero
datatype direction = Improving | DirFlat | Worsening | Mixed
datatype oscillation = OscNone | SingleRebound | Alternating
datatype envelope = Shrinking | EnvFlat | Expanding | EnvUnknown
datatype diagnostic_confidence = LowNoLineage | AdvisoryLineageRecorded

fun sample_str :: "sample_sufficiency \<Rightarrow> string" where
  "sample_str Insufficient = ''insufficient''"
| "sample_str Sufficient = ''sufficient''"

fun terminal_str :: "terminal_kind \<Rightarrow> string" where
  "terminal_str TermZero = ''zero''"
| "terminal_str TermNonzero = ''nonzero''"

fun direction_str :: "direction \<Rightarrow> string" where
  "direction_str Improving = ''improving''"
| "direction_str DirFlat = ''flat''"
| "direction_str Worsening = ''worsening''"
| "direction_str Mixed = ''mixed''"

fun oscillation_str :: "oscillation \<Rightarrow> string" where
  "oscillation_str OscNone = ''none''"
| "oscillation_str SingleRebound = ''single_rebound''"
| "oscillation_str Alternating = ''alternating''"

fun envelope_str :: "envelope \<Rightarrow> string" where
  "envelope_str Shrinking = ''shrinking''"
| "envelope_str EnvFlat = ''flat''"
| "envelope_str Expanding = ''expanding''"
| "envelope_str EnvUnknown = ''unknown''"

fun confidence_str :: "diagnostic_confidence \<Rightarrow> string" where
  "confidence_str LowNoLineage = ''low (no lineage)''"
| "confidence_str AdvisoryLineageRecorded = ''advisory (lineage recorded)''"

record ledger_diagnostics =
  d_sample :: sample_sufficiency
  d_terminal :: terminal_kind
  d_direction :: direction
  d_oscillation :: oscillation
  d_envelope :: envelope
  d_confidence :: diagnostic_confidence

definition diagnostics_summary :: "ledger_diagnostics \<Rightarrow> string" where
  "diagnostics_summary d =
     ''sample_sufficiency='' @ sample_str (d_sample d)
     @ '', terminal='' @ terminal_str (d_terminal d)
     @ '', direction='' @ direction_str (d_direction d)
     @ '', oscillation='' @ oscillation_str (d_oscillation d)
     @ '', envelope='' @ envelope_str (d_envelope d)
     @ '', confidence='' @ confidence_str (d_confidence d)"

definition suggests_entropy_review :: "ledger_diagnostics \<Rightarrow> bool" where
  "suggests_entropy_review d \<longleftrightarrow>
     d_sample d = Sufficient \<and> d_oscillation d \<noteq> SingleRebound
     \<and> (d_oscillation d = Alternating \<or> d_envelope d \<noteq> Shrinking)"

datatype ordering = OLess | OEqual | OGreater

definition cmp :: "'a::linorder \<Rightarrow> 'a \<Rightarrow> ordering" where
  "cmp a b = (if a < b then OLess else if a = b then OEqual else OGreater)"

definition changes_of :: "u64 list \<Rightarrow> ordering list" where
  "changes_of bs = map (\<lambda>(a, b). cmp b a) (windows2 bs)"

definition direction_of :: "ordering list \<Rightarrow> direction" where
  "direction_of changes =
     (case (OLess \<in> set changes, OGreater \<in> set changes) of
        (True, False) \<Rightarrow> Improving
      | (False, True) \<Rightarrow> Worsening
      | (True, True) \<Rightarrow> Mixed
      | (False, False) \<Rightarrow> DirFlat)"

text \<open>The loop that counts turns: equal steps are filtered out, a change of direction counts.\<close>

fun count_turns :: "ordering option \<Rightarrow> ordering list \<Rightarrow> nat" where
  "count_turns prev [] = 0"
| "count_turns prev (c # cs) =
     (if prev \<noteq> None \<and> prev \<noteq> Some c then 1 else 0) + count_turns (Some c) cs"

definition oscillation_of :: "ordering list \<Rightarrow> oscillation" where
  "oscillation_of changes =
     (let turns = count_turns None (filter (\<lambda>c. c \<noteq> OEqual) changes)
      in if turns = 0 then OscNone else if turns = 1 then SingleRebound else Alternating)"

fun dedup_from :: "u64 list \<Rightarrow> u64 list \<Rightarrow> u64 list" where
  "dedup_from acc [] = acc"
| "dedup_from acc (v # vs) =
     (if last_opt acc \<noteq> Some v then dedup_from (acc @ [v]) vs else dedup_from acc vs)"

definition peak_values :: "u64 list \<Rightarrow> u64 list" where
  "peak_values values =
     (let ds = dedup_from [] values in
      if length ds < 2 then ds
      else (if ds ! 0 > ds ! 1 then [ds ! 0] else [])
           @ map (\<lambda>(a, b, c). b) (filter (\<lambda>(a, b, c). b > a \<and> b > c) (windows3 ds))
           @ (let l = length ds - 1 in if ds ! l > ds ! (l - 1) then [ds ! l] else []))"

definition classify_envelope :: "u64 list \<Rightarrow> envelope" where
  "classify_envelope peaks =
     (if length peaks < 2 then EnvUnknown
      else if list_all (\<lambda>(a, b). b < a) (windows2 peaks) then Shrinking
      else if list_all (\<lambda>(a, b). b > a) (windows2 peaks) then Expanding
      else if list_all (\<lambda>(a, b). b = a) (windows2 peaks) then EnvFlat
      else EnvUnknown)"

definition has_lineage :: "ledger_round \<Rightarrow> bool" where
  "has_lineage r =
     list_all (opt_all (\<lambda>v. trim v \<noteq> [])) [lr_auditors r, lr_coverage r]"

definition diagnose :: "ledger_round list \<Rightarrow> ledger_diagnostics option" where
  "diagnose rounds =
     (case last_opt rounds of
        None \<Rightarrow> None
      | Some l \<Rightarrow>
          (let bs = map blockers rounds; changes = changes_of bs in
           Some \<lparr> d_sample = (if length rounds < 3 then Insufficient else Sufficient),
                  d_terminal = (if blockers l = 0 then TermZero else TermNonzero),
                  d_direction = direction_of changes,
                  d_oscillation = oscillation_of changes,
                  d_envelope = classify_envelope (peak_values bs),
                  d_confidence = (if list_all has_lineage rounds then AdvisoryLineageRecorded
                                  else LowNoLineage) \<rparr>))"

definition ledger_sequence :: "ledger_round list \<Rightarrow> string" where
  "ledger_sequence rounds =
     join_str '' -> '' (map (\<lambda>r. lr_label r @ ''='' @ show_u64 (blockers r)) rounds)"

subsection \<open>Parsing\<close>

record summary_columns =
  col_high :: nat
  col_critical :: nat
  col_auditors :: "nat option"
  col_coverage :: "nat option"

definition columns_from_header :: "string list \<Rightarrow> summary_columns option" where
  "columns_from_header cells =
     (let pos = (\<lambda>name. position (\<lambda>cell. eq_ignore_ascii_case cell name) cells) in
      case pos ''high'' of None \<Rightarrow> None
      | Some h \<Rightarrow>
          (case pos ''critical'' of None \<Rightarrow> None
           | Some c \<Rightarrow> Some \<lparr> col_high = h, col_critical = c,
                              col_auditors = pos ''auditors'', col_coverage = pos ''coverage'' \<rparr>))"

definition columns_for_width :: "nat \<Rightarrow> summary_columns" where
  "columns_for_width w =
     (if w \<ge> 9 then \<lparr> col_high = 4, col_critical = 5, col_auditors = Some 2, col_coverage = Some 3 \<rparr>
      else if w \<ge> 8 then \<lparr> col_high = 3, col_critical = 4, col_auditors = Some 2, col_coverage = None \<rparr>
      else \<lparr> col_high = 3, col_critical = 4, col_auditors = None, col_coverage = None \<rparr>)"

definition split_cells :: "string \<Rightarrow> string list" where
  "split_cells line =
     map trim (split_on (CHR ''|'')
       (trim_end_char (CHR ''|'') (trim_start_char (CHR ''|'') (trim line))))"

definition optional_cell :: "string list \<Rightarrow> nat option \<Rightarrow> string option" where
  "optional_cell cells index =
     opt_filter (\<lambda>c. c \<noteq> []) (case index of None \<Rightarrow> None | Some i \<Rightarrow> get_at cells i)"

definition is_separator_row :: "string list \<Rightarrow> bool" where
  "is_separator_row cells =
     (let joined = concat cells
      in joined \<noteq> [] \<and> list_all (\<lambda>ch. ch = CHR ''-'' \<or> ch = CHR '':'' \<or> ch = CHR '' '') joined)"

definition is_header_row :: "string list \<Rightarrow> bool" where
  "is_header_row cells = list_ex (\<lambda>cell. eq_ignore_ascii_case cell ''round'') cells"

datatype ledger_error = NonNumeric (ne_column: string) (ne_label: string) (ne_raw: string)

fun sum_parts :: "ledger_error \<Rightarrow> u64 \<Rightarrow> string list \<Rightarrow> ledger_error + u64" where
  "sum_parts err acc [] = Inr acc"
| "sum_parts err acc (p # ps) =
     (if parse_u64 p = None then Inl err
      else sum_parts err (sat_add acc (the (parse_u64 p))) ps)"

definition parse_count :: "string \<Rightarrow> string \<Rightarrow> string \<Rightarrow> ledger_error + u64" where
  "parse_count raw label column =
     sum_parts (NonNumeric column label raw) 0
       (filter (\<lambda>p. p \<noteq> []) (map trim (split_on (CHR ''+'') raw)))"

text \<open>The loop state of \<open>parse_ledger\<close>: whether the scan is inside the summary section, and the
  columns of the last header row with that row's width.\<close>

type_synonym scan_state = "bool \<times> (nat \<times> summary_columns) option"

definition scan_heading :: "string \<Rightarrow> bool" where
  "scan_heading line = prefix ''## '' line"

definition row_columns :: "(nat \<times> summary_columns) option \<Rightarrow> string list \<Rightarrow> summary_columns" where
  "row_columns columns cells =
     (case columns of
        None \<Rightarrow> columns_for_width (length cells)
      | Some (w, c) \<Rightarrow> if w = length cells then c else columns_for_width (length cells))"

definition row_round ::
    "(nat \<times> summary_columns) option \<Rightarrow> string list \<Rightarrow> ledger_error + ledger_round option" where
  "row_round columns cells =
     (let c = row_columns columns cells;
          label = opt_get_or [] (first_opt cells);
          high_raw = opt_get_or [] (get_at cells (col_high c));
          critical_raw = opt_get_or [] (get_at cells (col_critical c)) in
      if high_raw = [] \<and> critical_raw = [] then Inr None
      else bindr (parse_count high_raw label ''high'') (\<lambda>h.
           bindr (parse_count critical_raw label ''critical'') (\<lambda>k.
           Inr (Some \<lparr> lr_label = label, lr_high = h, lr_critical = k,
                       lr_auditors = optional_cell cells (col_auditors c),
                       lr_coverage = optional_cell cells (col_coverage c) \<rparr>))))"

text \<open>One iteration of the loop over the lines: the new loop state and the round it pushes.\<close>

definition scan_line :: "scan_state \<Rightarrow> string \<Rightarrow> ledger_error + (scan_state \<times> ledger_round option)" where
  "scan_line st line =
     (if scan_heading line
      then Inr ((eq_ignore_ascii_case (trim line) ''## Round Summary'', None), None)
      else if \<not> fst st \<or> \<not> contains_str ''|'' line then Inr (st, None)
      else let cells = split_cells line in
           if length cells \<le> 4 \<or> is_separator_row cells then Inr (st, None)
           else if is_header_row cells
           then Inr ((fst st, map_option (\<lambda>c. (length cells, c)) (columns_from_header cells)), None)
           else bindr (row_round (snd st) cells) (\<lambda>r. Inr (st, r)))"

fun parse_lines :: "scan_state \<Rightarrow> string list \<Rightarrow> ledger_error + ledger_round list" where
  "parse_lines st [] = Inr []"
| "parse_lines st (l # ls) =
     bindr (scan_line st l) (\<lambda>(st', r).
     bindr (parse_lines st' ls) (\<lambda>rs.
     Inr (case r of None \<Rightarrow> rs | Some x \<Rightarrow> x # rs)))"

definition parse_ledger :: "string \<Rightarrow> ledger_error + ledger_round list" where
  "parse_ledger text = parse_lines (False, None) (str_lines text)"

definition has_real_ledger_rounds :: "string \<Rightarrow> bool" where
  "has_real_ledger_rounds text =
     (case parse_ledger text of Inl _ \<Rightarrow> False | Inr rounds \<Rightarrow> rounds \<noteq> [])"

subsection \<open>The verdict\<close>

text \<open>A step the scan accepts: no rise and, in strict mode, no plateau above zero.\<close>

definition pair_ok :: "bool \<Rightarrow> u64 \<Rightarrow> u64 \<Rightarrow> bool" where
  "pair_ok strict a b \<longleftrightarrow> b \<le> a \<and> (strict \<longrightarrow> b < a \<or> b = 0)"

lemma scan_pairs_Converging:
  "scan_pairs strict ps = Converging \<longleftrightarrow> (\<forall>(a, b)\<in>set ps. pair_ok strict a b)"
  by (induction strict ps rule: scan_pairs.induct)
     (auto simp: word_neq_0_conv not_less pair_ok_def)

lemma scan_pairs_range: "scan_pairs strict ps \<noteq> NoObservations" "scan_pairs strict ps \<noteq> Converged"
  by (induction strict ps rule: scan_pairs.induct) auto

lemma scan_pairs_first:
  assumes "v \<noteq> Converging"
  shows "scan_pairs strict ps = v \<longleftrightarrow>
   (\<exists>i < length ps. (\<forall>j<i. pair_ok strict (fst (ps ! j)) (snd (ps ! j)))
      \<and> (case ps ! i of (a, b) \<Rightarrow> (v = Rebound \<and> a < b) \<or> (v = Stalled \<and> strict \<and> a = b \<and> 0 < b)))"
  using assms
proof (induction strict ps rule: scan_pairs.induct)
  case (2 strict a b ps)
  show ?case
    using 2 by (auto simp: not_less pair_ok_def Ex_less_Suc2 All_less_Suc2
       word_neq_0_conv)
qed auto

lemma evaluate_unfold:
  "rs \<noteq> [] \<Longrightarrow> evaluate_ledger rs strict =
     (if blockers (last rs) = 0 then Converged else scan_pairs strict (windows2 (map blockers rs)))"
  by (simp add: evaluate_ledger_def Let_def last_opt_map) (simp add: last_opt_def)

lemma scan_converging_sorted:
  assumes "bs \<noteq> []" "last bs \<noteq> 0"
  shows "scan_pairs strict (windows2 bs) = Converging \<longleftrightarrow>
         sorted_wrt (if strict then (>) else (\<ge>)) bs"
proof (cases strict)
  case False
  then show ?thesis by (simp add: scan_pairs_Converging pair_ok_def windows2_mono)
next
  case True
  have "(\<forall>(a, b)\<in>set (windows2 bs). pair_ok True a b) \<longleftrightarrow> (\<forall>(a, b)\<in>set (windows2 bs). b < a)"
  proof
    assume all: "\<forall>(a, b)\<in>set (windows2 bs). pair_ok True a b"
    then have "sorted_wrt (\<ge>) bs"
      unfolding windows2_mono [symmetric] by (auto simp: pair_ok_def)
    with assms have "b \<noteq> 0" if "b \<in> set bs" for b
      using sorted_desc_last [of bs b] that by auto
    with all show "\<forall>(a, b)\<in>set (windows2 bs). b < a"
      by (fastforce simp: pair_ok_def dest: windows2_second)
  qed (auto simp: pair_ok_def)
  with True show ?thesis by (simp add: scan_pairs_Converging windows2_strict)
qed

lemma scan_windows_first:
  assumes "v \<noteq> Converging"
  shows "scan_pairs strict (windows2 bs) = v \<longleftrightarrow>
     (\<exists>i. Suc i < length bs \<and> (\<forall>j<i. pair_ok strict (bs ! j) (bs ! Suc j))
        \<and> ((v = Rebound \<and> bs ! i < bs ! Suc i)
            \<or> (v = Stalled \<and> strict \<and> bs ! i = bs ! Suc i \<and> 0 < bs ! Suc i)))"
  unfolding scan_pairs_first [OF assms]
  by (rule ex_cong1) (auto simp: length_windows2 windows2_nth)

lemma evaluate_converging_desc:
  assumes "evaluate_ledger rs strict = Converging"
  shows "sorted_wrt (\<ge>) (map blockers rs)"
proof -
  have ne: "rs \<noteq> []" using assms by (auto simp: evaluate_ledger_def)
  then have "scan_pairs strict (windows2 (map blockers rs)) = Converging"
      "last (map blockers rs) \<noteq> 0"
    using assms by (auto simp: evaluate_unfold last_map split: if_splits)
  then have "sorted_wrt (if strict then (>) else (\<ge>)) (map blockers rs)"
    using scan_converging_sorted [of "map blockers rs" strict] ne by simp
  then show ?thesis by (auto split: if_splits elim: sorted_wrt_mono_rel [rotated])
qed

text \<open>
  C14: For a nonempty table the verdict is CONVERGED exactly when the last round has no blocker;
  otherwise it is CONVERGING exactly when the blocker series never rises (strict mode: falls at
  every step), REBOUND when its first bad step rises, and STALLED when its first bad step is a
  plateau above zero in strict mode.
\<close>

theorem evaluate_ledger_verdicts:
  assumes "rs \<noteq> []" and bs: "bs = map blockers rs"
  shows "(evaluate_ledger rs strict = Converged \<longleftrightarrow> last bs = 0)
   \<and> (evaluate_ledger rs strict = Converging \<longleftrightarrow>
        last bs \<noteq> 0 \<and> sorted_wrt (if strict then (>) else (\<ge>)) bs)
   \<and> (evaluate_ledger rs strict = Rebound \<longleftrightarrow>
        last bs \<noteq> 0 \<and> (\<exists>i. Suc i < length bs \<and> bs ! i < bs ! Suc i
           \<and> (\<forall>j<i. pair_ok strict (bs ! j) (bs ! Suc j))))
   \<and> (evaluate_ledger rs strict = Stalled \<longleftrightarrow>
        strict \<and> last bs \<noteq> 0 \<and> (\<exists>i. Suc i < length bs \<and> bs ! i = bs ! Suc i \<and> 0 < bs ! i
           \<and> (\<forall>j<i. pair_ok strict (bs ! j) (bs ! Suc j))))"
proof -
  have l: "last bs = blockers (last rs)" and ne: "bs \<noteq> []" using assms by (simp_all add: last_map)
  note e = evaluate_unfold [OF assms(1), of strict, folded bs l]
  note scan = scan_windows_first [of _ strict bs]
  show ?thesis
    using scan_converging_sorted [OF ne, of strict] scan [of Rebound] scan [of Stalled]
    by (auto simp: e scan_pairs_range)
qed

lemma evaluate_ledger_verdicts_witness:
  "evaluate_ledger [\<lparr>lr_label = ''R1'', lr_high = 2, lr_critical = 1, lr_auditors = None,
      lr_coverage = None\<rparr>] True = Converging"
proof -
  let ?r = "\<lparr>lr_label = ''R1'', lr_high = 2, lr_critical = 1, lr_auditors = None,
      lr_coverage = None\<rparr>"
  have "blockers ?r \<noteq> 0" by code_simp
  then show ?thesis
    using evaluate_ledger_verdicts [of "[?r]" "map blockers [?r]" True] by simp
qed

subsection \<open>The diagnostics\<close>

lemma cmp_simps [simp]: "cmp a b = OLess \<longleftrightarrow> a < b" "cmp a b = OEqual \<longleftrightarrow> a = b"
  "cmp a b = OGreater \<longleftrightarrow> b < a"
  by (auto simp: cmp_def)

lemma changes_Less: "OLess \<in> set (changes_of bs) \<longleftrightarrow> (\<exists>(a, b)\<in>set (windows2 bs). b < a)"
  by (auto simp: changes_of_def image_iff eq_commute [of OLess] intro: bexI [of _ "(_, _)"])

lemma changes_Greater: "OGreater \<in> set (changes_of bs) \<longleftrightarrow> (\<exists>(a, b)\<in>set (windows2 bs). a < b)"
  by (auto simp: changes_of_def image_iff eq_commute [of OGreater] intro!: bexI)

lemma no_fall_iff: "OLess \<notin> set (changes_of bs) \<longleftrightarrow> sorted_wrt (\<le>) bs"
  unfolding changes_Less windows2_asc [symmetric] by (auto simp: not_less)

lemma no_rise_iff: "OGreater \<notin> set (changes_of bs) \<longleftrightarrow> sorted_wrt (\<ge>) bs"
  unfolding changes_Greater windows2_mono [symmetric] by (auto simp: not_less)

lemma count_turns_0:
  "count_turns (Some c) cs = 0 \<longleftrightarrow> set cs \<subseteq> {c}"
  by (induction cs arbitrary: c) auto

lemma count_turns_None_0: "count_turns None cs = 0 \<longleftrightarrow> (\<exists>c. set cs \<subseteq> {c})"
  by (cases cs) (auto simp: count_turns_0)

lemma ordering_subset:
  "(\<exists>c. set (filter (\<lambda>c. c \<noteq> OEqual) cs) \<subseteq> {c}) \<longleftrightarrow> OLess \<notin> set cs \<or> OGreater \<notin> set cs"
proof
  assume "OLess \<notin> set cs \<or> OGreater \<notin> set cs"
  then show "\<exists>c. set (filter (\<lambda>c. c \<noteq> OEqual) cs) \<subseteq> {c}"
  proof
    assume "OLess \<notin> set cs"
    then have "set (filter (\<lambda>c. c \<noteq> OEqual) cs) \<subseteq> {OGreater}"
      by auto (metis ordering.exhaust)
    then show ?thesis ..
  next
    assume "OGreater \<notin> set cs"
    then have "set (filter (\<lambda>c. c \<noteq> OEqual) cs) \<subseteq> {OLess}"
      by auto (metis ordering.exhaust)
    then show ?thesis ..
  qed
qed auto

lemma oscillation_none_iff:
  "oscillation_of (changes_of bs) = OscNone \<longleftrightarrow> sorted_wrt (\<le>) bs \<or> sorted_wrt (\<ge>) bs"
proof -
  have "oscillation_of (changes_of bs) = OscNone \<longleftrightarrow>
        count_turns None (filter (\<lambda>c. c \<noteq> OEqual) (changes_of bs)) = 0"
    by (simp add: oscillation_of_def Let_def)
  also have "\<dots> \<longleftrightarrow> OLess \<notin> set (changes_of bs) \<or> OGreater \<notin> set (changes_of bs)"
    unfolding count_turns_None_0 by (rule ordering_subset)
  finally show ?thesis by (simp only: no_fall_iff no_rise_iff)
qed

lemma set_dedup_from: "set (dedup_from acc vs) = set acc \<union> set vs"
proof (induction acc vs rule: dedup_from.induct)
  case (2 acc v vs)
  show ?case
  proof (cases "last_opt acc = Some v")
    case True
    then have "v \<in> set acc" by (auto simp: last_opt_Some)
    with True 2 show ?thesis by auto
  qed (use 2 in simp)
qed simp

lemma dedup_distinct_adj: "distinct_adj acc \<Longrightarrow> distinct_adj (dedup_from acc vs)"
  by (induction acc vs rule: dedup_from.induct)
     (auto simp: last_opt_def distinct_adj_append_iff)

lemma peak_values_subset: "set (peak_values bs) \<subseteq> set bs"
proof -
  let ?ds = "dedup_from [] bs"
  have "set (peak_values bs) \<subseteq> set ?ds"
    by (auto simp: peak_values_def Let_def dest!: windows3_mem split: if_splits intro: nth_mem)
  then show ?thesis by (simp add: set_dedup_from)
qed

lemma peak_values_Max:
  assumes "bs \<noteq> []"
  shows "Max (set bs) \<in> set (peak_values bs)"
proof -
  define ds where "ds = dedup_from [] bs"
  have set_ds: "set ds = set bs" and adj: "distinct_adj ds"
    by (simp_all add: ds_def set_dedup_from dedup_distinct_adj)
  have "Max (set bs) \<in> set ds" unfolding set_ds using assms by (intro Max_in) auto
  then obtain i where i: "i < length ds" "ds ! i = Max (set bs)"
    unfolding in_set_conv_nth by blast
  have le: "ds ! j \<le> ds ! i" if "j < length ds" for j
    using that i set_ds by (metis List.finite_set Max_ge nth_mem)
  have neq: "ds ! j \<noteq> ds ! Suc j" if "Suc j < length ds" for j
    using adj that by (simp add: distinct_adj_conv_nth)
  show ?thesis
  proof (cases "length ds < 2")
    case True
    then show ?thesis using i by (simp add: peak_values_def flip: ds_def) (metis nth_mem)
  next
    case False
    consider "i = 0" | "i = length ds - 1" "i \<noteq> 0" | j where "i = Suc j" "Suc (Suc j) < length ds"
      using i(1) by (cases i) (auto, linarith)
    then show ?thesis
    proof cases
      case 1
      then have "ds ! 1 < ds ! 0" using le [of 1] neq [of 0] False by fastforce
      then show ?thesis using 1 i False by (simp add: peak_values_def flip: ds_def)
    next
      case 2
      from 2 obtain j where j: "i = Suc j" using not0_implies_Suc by blast
      have "ds ! j < ds ! i" using j le [of j] neq [of j] i(1) by fastforce
      moreover have "length ds = Suc (Suc j)" using 2 j i(1) by simp
      ultimately show ?thesis using i j by (simp add: peak_values_def Let_def flip: ds_def)
    next
      case 3
      then have "ds ! j < ds ! i" "ds ! Suc (Suc j) < ds ! i"
        using le [of j] neq [of j] le [of "Suc (Suc j)"] neq [of "Suc j"] by fastforce+
      moreover note windows3_nth [OF 3(2)]
      ultimately show ?thesis
        using 3 i False by (force simp: peak_values_def Let_def simp flip: ds_def)
    qed
  qed
qed

text \<open>
  The advisory diagnostics agree with the verdict. There are none exactly when the table is
  empty; the terminal is zero exactly when the verdict is CONVERGED; the oscillation is none
  exactly when the blocker series is monotone; and a CONVERGING verdict never comes with a
  worsening or mixed direction.
\<close>

theorem diagnose_agrees_with_verdict:
  "(diagnose rs = None \<longleftrightarrow> evaluate_ledger rs strict = NoObservations)
   \<and> (\<forall>d. diagnose rs = Some d \<longrightarrow>
        (d_terminal d = TermZero \<longleftrightarrow> evaluate_ledger rs strict = Converged)
      \<and> (d_oscillation d = OscNone \<longleftrightarrow>
           sorted_wrt (\<le>) (map blockers rs) \<or> sorted_wrt (\<ge>) (map blockers rs))
      \<and> (evaluate_ledger rs strict = Converging \<longrightarrow> d_direction d \<in> {Improving, DirFlat}))"
proof (cases "rs = []")
  case True
  then show ?thesis by (simp add: diagnose_def evaluate_ledger_def last_opt_def)
next
  case False
  have ni: "evaluate_ledger rs strict = Converging \<Longrightarrow> sorted_wrt (\<ge>) (map blockers rs)"
    by (rule evaluate_converging_desc)
  show ?thesis
    using False ni
    by (auto simp: diagnose_def Let_def last_opt_def evaluate_unfold scan_pairs_range
        oscillation_none_iff direction_of_def simp flip: no_rise_iff split: bool.split)
qed

lemma diagnose_agrees_with_verdict_witness:
  "d_direction (the (diagnose [\<lparr>lr_label = ''R1'', lr_high = 2, lr_critical = 1,
      lr_auditors = None, lr_coverage = None\<rparr>])) \<in> {Improving, DirFlat}"
proof -
  let ?rs = "[\<lparr>lr_label = ''R1'', lr_high = 2, lr_critical = 1, lr_auditors = None,
      lr_coverage = None\<rparr>]"
  have "evaluate_ledger ?rs False = Converging" by code_simp
  moreover have "diagnose ?rs = Some (the (diagnose ?rs))" by (simp add: diagnose_def last_opt_def Let_def)
  ultimately show ?thesis
    using diagnose_agrees_with_verdict [of ?rs False] by blast
qed

text \<open>
  The peaks that classify the envelope are values of the series and always include its
  greatest value, so a shrinking envelope starts at that value and falls strictly from there.
\<close>

theorem peak_values_envelope:
  assumes "bs \<noteq> []"
  shows "set (peak_values bs) \<subseteq> set bs \<and> Max (set bs) \<in> set (peak_values bs)
    \<and> (classify_envelope (peak_values bs) = Shrinking \<longrightarrow>
         hd (peak_values bs) = Max (set bs) \<and> sorted_wrt (>) (peak_values bs))"
proof (intro conjI impI)
  assume "classify_envelope (peak_values bs) = Shrinking"
  then show desc: "sorted_wrt (>) (peak_values bs)"
    by (auto simp: classify_envelope_def list_all_iff simp flip: windows2_strict split: if_splits)
  have "Max (set bs) \<in> set (peak_values bs)" by (rule peak_values_Max [OF assms])
  moreover have "hd (peak_values bs) \<in> set bs"
    using calculation peak_values_subset [of bs]
    by (metis empty_iff hd_in_set list.set(1) subsetD)
  moreover from calculation(1) desc have "Max (set bs) \<le> hd (peak_values bs)"
    by (cases "peak_values bs") (auto intro: less_imp_le)
  ultimately show "hd (peak_values bs) = Max (set bs)"
    by (auto intro: antisym Max_ge)
qed (rule peak_values_subset, rule peak_values_Max [OF assms])

lemma peak_values_envelope_witness:
  "hd (peak_values [5, 1, 3, 0]) = Max (set [5, 1, 3, 0])"
proof -
  have "classify_envelope (peak_values [5, 1, 3, 0]) = Shrinking" by code_simp
  then show ?thesis using peak_values_envelope [of "[5, 1, 3, 0]"] by simp
qed

end
