(* ===== verification/Lto_Audit_Ledger.thy ===== *)
theory Lto_Audit_Ledger
  imports Lto_Ledger
begin

text \<open>
  \<open>src/src/audit_ledger.rs\<close>: appending a round to the audit ledger file. The file's content
  is a string; reading, creating (from the template) and writing the file are the caller's, so
  \<open>append\<close> (here \<open>append_round\<close>) maps the content it reads to the content it writes and the outcome it returns.
  The round number is a \<open>u64\<close> and its increment wraps, as it does in a release build.
\<close>

subsection \<open>Rows\<close>

definition split_row :: "string \<Rightarrow> string list" where
  "split_row line =
     (if \<not> prefix ''|'' (trim_start line) then []
      else map trim (split_on (CHR ''|'')
             (trim_end_char (CHR ''|'') (trim_start_char (CHR ''|'') (trim line)))))"

definition clean_cell :: "string \<Rightarrow> string" where
  "clean_cell v = join_str '' '' (split_whitespace (replace_char (CHR ''|'') (CHR ''/'') v))"

definition format_row :: "string list \<Rightarrow> string" where
  "format_row cells = ''| '' @ join_str '' | '' cells @ '' |''"

definition placeholder :: string where
  "placeholder = ''| R1 |  |  |  |  |  |  | start | open |''"

definition legacy_header :: "string list" where
  "legacy_header =
     [''round'', ''artifact'', ''auditors'', ''high'', ''critical'', ''minor'', ''trend'', ''status'']"

definition separator_row :: string where
  "separator_row = ''|---|---|---|---|---:|---:|---:|---|---|''"

definition insert_at :: "nat \<Rightarrow> 'a \<Rightarrow> 'a list \<Rightarrow> 'a list" where
  "insert_at i x xs = take i xs @ x # drop i xs"

subsection \<open>Upgrading the table\<close>

definition is_round_cell :: "string \<Rightarrow> bool" where
  "is_round_cell cell = opt_all (\<lambda>n. parse_u64 n \<noteq> None) (strip_prefix ''R'' cell)"

definition summary_state :: "bool \<Rightarrow> string \<Rightarrow> bool" where
  "summary_state in_summary line =
     (if prefix ''## '' (trim_start line) then eq_ignore_ascii_case (trim line) ''## Round Summary''
      else in_summary)"

definition upgrade_row :: "string \<Rightarrow> string" where
  "upgrade_row line =
     (let cells = split_row line in
      if cells = legacy_header then format_row (insert_at 3 ''coverage'' cells)
      else if cells \<noteq> [] \<and> list_all (\<lambda>c. c = ''---'' \<or> c = ''---:'') cells then separator_row
      else if opt_all is_round_cell (first_opt cells) \<and> length cells = 8
      then format_row (insert_at 3 [] cells)
      else line)"

fun upgrade_lines :: "bool \<Rightarrow> string list \<Rightarrow> string list" where
  "upgrade_lines s [] = []"
| "upgrade_lines s (l # ls) =
     (if summary_state s l then upgrade_row l else l) # upgrade_lines (summary_state s l) ls"

definition upgrade_schema :: "string \<Rightarrow> string" where
  "upgrade_schema content =
     join_str [CHR 0x0A] (upgrade_lines False (str_lines content)) @ [CHR 0x0A]"

subsection \<open>The next round\<close>

definition round_number :: "string \<Rightarrow> u64 option" where
  "round_number line =
     (case strip_prefix ''| R'' (trim_start line) of
        None \<Rightarrow> None
      | Some tail \<Rightarrow> parse_u64 (trim (hd (split_on (CHR ''|'') tail))))"

definition round_numbers :: "string \<Rightarrow> u64 list" where
  "round_numbers content = List.map_filter round_number (str_lines content)"

definition max_round :: "string \<Rightarrow> u64" where
  "max_round content = fold max (round_numbers content) 0"

definition next_round_label :: "string \<Rightarrow> string" where
  "next_round_label content =
     (if contains_str placeholder content \<or> max_round content = 0 then ''R1''
      else ''R'' @ show_u64 (max_round content + 1))"

definition is_round_line :: "string \<Rightarrow> bool" where
  "is_round_line line = prefix ''| R'' (trim_start line)"

text \<open>\<open>rposition\<close> of a round line, plus one; the end when there is none.\<close>

fun insert_index :: "string list \<Rightarrow> nat option" where
  "insert_index [] = None"
| "insert_index (l # ls) =
     (if insert_index ls \<noteq> None then map_option Suc (insert_index ls)
      else if is_round_line l then Some 1 else None)"

definition insert_round_row :: "string \<Rightarrow> string \<Rightarrow> string" where
  "insert_round_row content row =
     (let ls = str_lines content
      in join_str [CHR 0x0A] (insert_at (opt_get_or (length ls) (insert_index ls)) row ls)
         @ [CHR 0x0A])"

subsection \<open>Appending\<close>

record append_input =
  ai_artifact :: string
  ai_auditors :: "string list"
  ai_coverage :: string
  ai_high :: u64
  ai_critical :: u64
  ai_minor :: u64

record append_outcome =
  ao_label :: string
  ao_verdict :: ledger_verdict
  ao_diagnostics :: ledger_diagnostics

datatype append_error = ParseFailed ledger_error | NoObservation

definition round_cells :: "string \<Rightarrow> append_input \<Rightarrow> string list" where
  "round_cells label i =
     [label, clean_cell (ai_artifact i), clean_cell (join_str '' '' (ai_auditors i)),
      clean_cell (ai_coverage i), show_u64 (ai_high i), show_u64 (ai_critical i),
      show_u64 (ai_minor i), if label = ''R1'' then ''start'' else ''flat'', ''open'']"

definition append_text :: "string \<Rightarrow> append_input \<Rightarrow> string \<times> string" where
  "append_text text i =
     (let content = upgrade_schema text;
          label = next_round_label content;
          row = format_row (round_cells label i)
      in (label, if label = ''R1'' \<and> contains_str placeholder content
                 then replace_first placeholder row content
                 else insert_round_row content row))"

definition append_round :: "string \<Rightarrow> append_input \<Rightarrow> append_error + string \<times> append_outcome" where
  "append_round text i =
     (let (label, updated) = append_text text i in
      case parse_ledger updated of
        Inl e \<Rightarrow> Inl (ParseFailed e)
      | Inr rounds \<Rightarrow>
          (case diagnose rounds of
             None \<Rightarrow> Inl NoObservation
           | Some d \<Rightarrow> Inr (updated, \<lparr> ao_label = label, ao_verdict = evaluate_ledger rounds False,
                                       ao_diagnostics = d \<rparr>)))"

subsection \<open>Cells and rows\<close>

text \<open>A cell that survives the table format.\<close>

definition good_cell :: "string \<Rightarrow> bool" where
  "good_cell c \<longleftrightarrow> trim c = c \<and> CHR ''|'' \<notin> set c \<and> CHR 0x0A \<notin> set c \<and> CHR 0x0D \<notin> set c"

lemma ws_free_chars: "ws_free p \<Longrightarrow> CHR 0x0A \<notin> set p \<and> CHR 0x0D \<notin> set p"
proof -
  have single: "sublist [c] p" if "c \<in> set p" for c :: char
    using that by (auto simp: sublist_def dest!: split_list)
  have "[CHR 0x0A] \<in> set ws_seqs" "[CHR 0x0D] \<in> set ws_seqs" by (simp_all add: ws_seqs_def)
  then show "ws_free p \<Longrightarrow> ?thesis" using single by (auto simp: ws_free_def)
qed

lemma clean_cell_good: "good_cell (clean_cell v)"
proof -
  define ps where "ps = split_whitespace (replace_char (CHR ''|'') (CHR ''/'') v)"
  have ps: "p \<noteq> [] \<and> ws_free p \<and> CHR ''|'' \<notin> set p" if "p \<in> set ps" for p
    using that split_whitespace_free [of p] split_whitespace_bytes [of p]
      replace_char_gone [of "CHR ''|''" "CHR ''/''" v] unfolding ps_def by blast
  have "trim (join_str '' '' ps) = join_str '' '' ps"
    using ps by (intro trim_join_ws_free) blast
  moreover have "c \<notin> set (join_str '' '' ps)"
    if "c = CHR ''|'' \<or> c = CHR 0x0A \<or> c = CHR 0x0D" for c
    using that ps ws_free_chars set_join_str [of "'' ''" ps] by fastforce
  ultimately show ?thesis by (simp add: good_cell_def clean_cell_def ps_def)
qed

lemma not_graph [simp]:
  "\<not> is_graph (CHR 0x0A)" "\<not> is_graph (CHR 0x0D)" "is_graph (CHR ''R'')" "is_graph (CHR ''|'')"
  by (simp_all add: is_graph_def less_eq_char_def)

lemma good_cell_graph:
  assumes "\<forall>c\<in>set s. is_graph c \<and> c \<noteq> CHR ''|''"
  shows "good_cell s"
  unfolding good_cell_def using assms trim_graph [of s] not_graph by blast

lemma show_u64_good: "good_cell (show_u64 w)" "good_cell (''R'' @ show_u64 w)"
proof -
  have "\<forall>c\<in>set (show_u64 w). is_graph c \<and> c \<noteq> CHR ''|''"
    using show_uint_graph [of "uint w"] is_digit_graph unfolding show_u64_def by simp
  then show "good_cell (show_u64 w)" "good_cell (''R'' @ show_u64 w)"
    by (intro good_cell_graph; simp)+
qed

text \<open>Splitting a formatted row gives its cells back.\<close>

lemma trim_row: "trim (CHR ''|'' # s @ ''|'') = CHR ''|'' # s @ ''|''"
  by (rule trim_graph_ends) auto

lemma split_on_padded:
  assumes "cells \<noteq> []" "\<forall>c\<in>set cells. CHR ''|'' \<notin> set c"
  shows "split_on (CHR ''|'') (CHR '' '' # join_str '' | '' cells @ '' '') =
         map (\<lambda>c. CHR '' '' # c @ '' '') cells"
  using assms
proof (induction cells)
  case (Cons x xs)
  show ?case
  proof (cases "xs = []")
    case True
    with Cons.prems show ?thesis by (simp add: split_on_id)
  next
    case False
    have eq: "CHR '' '' # join_str '' | '' (x # xs) @ '' '' =
          (CHR '' '' # x @ '' '') @ CHR ''|'' # (CHR '' '' # join_str '' | '' xs @ '' '')"
      using False by (simp add: join_str_Cons)
    have "CHR ''|'' \<notin> set (CHR '' '' # x @ '' '')" using Cons.prems by simp
    then show ?thesis
      unfolding eq using Cons.IH [OF False] Cons.prems
      by (subst split_on_append) (simp_all del: split_on.simps)
  qed
qed simp

lemma format_row_strip:
  assumes "cells \<noteq> []"
  shows "trim_end_char (CHR ''|'') (trim_start_char (CHR ''|'') (trim (format_row cells))) =
         CHR '' '' # join_str '' | '' cells @ '' ''"
proof -
  have "format_row cells = CHR ''|'' # (CHR '' '' # join_str '' | '' cells @ '' '') @ ''|''"
    by (simp add: format_row_def)
  then show ?thesis
    by (simp only: trim_row) (simp add: trim_start_char_def trim_end_char_def)
qed

lemma split_format_row:
  assumes "cells \<noteq> []" "\<forall>c\<in>set cells. good_cell c"
  shows "split_row (format_row cells) = cells" "split_cells (format_row cells) = cells"
proof -
  have nb: "\<forall>c\<in>set cells. CHR ''|'' \<notin> set c" using assms by (auto simp: good_cell_def)
  have pad: "map trim (map (\<lambda>c. CHR '' '' # c @ '' '') cells) = cells"
    using assms by (auto simp: good_cell_def trim_padded intro!: map_idI)
  have p: "prefix ''|'' (trim_start (format_row cells))"
    by (simp add: format_row_def trim_start_graph)
  show "split_row (format_row cells) = cells"
    unfolding split_row_def using p pad
    by (simp add: format_row_strip [OF assms(1)] split_on_padded [OF assms(1) nb] del: split_on.simps)
  show "split_cells (format_row cells) = cells"
    unfolding split_cells_def using pad
    by (simp add: format_row_strip [OF assms(1)] split_on_padded [OF assms(1) nb] del: split_on.simps)
qed

lemma set_trim: "set (trim s) \<subseteq> set s"
proof -
  have "set (trim s) \<subseteq> set (trim_start s)"
    unfolding trim_def by (rule set_mono_prefix [OF trim_end_prefix])
  also have "\<dots> \<subseteq> set s"
    unfolding trim_start_def by (rule set_mono_suffix [OF trim_with_suffix])
  finally show ?thesis .
qed

lemma set_split_on: "p \<in> set (split_on c s) \<Longrightarrow> set p \<subseteq> set s"
  by (induction s arbitrary: p) (auto split: list.splits if_splits, blast)

lemma set_trim_char: "set (trim_end_char c (trim_start_char c s)) \<subseteq> set s"
  by (auto simp: trim_end_char_def trim_start_char_def dest!: set_dropWhileD)

lemma split_row_good:
  assumes "is_line l" "CHR 0x0D \<notin> set l" "c \<in> set (split_row l)"
  shows "good_cell c"
proof -
  have "c \<in> trim ` set (split_on (CHR ''|'')
           (trim_end_char (CHR ''|'') (trim_start_char (CHR ''|'') (trim l))))"
    using assms(3) by (simp add: split_row_def del: split_on.simps split: if_splits)
  then obtain p where p: "c = trim p"
      "p \<in> set (split_on (CHR ''|'') (trim_end_char (CHR ''|'') (trim_start_char (CHR ''|'') (trim l))))"
    by (rule imageE)
  have "set c \<subseteq> set l"
    unfolding p(1) by (rule order_trans [OF set_trim order_trans [OF set_split_on [OF p(2)]
          order_trans [OF set_trim_char set_trim]]])
  moreover have "CHR ''|'' \<notin> set c"
    using split_on_no_sep [OF p(2)] set_trim [of p] p(1) by blast
  ultimately show ?thesis using assms p(1) by (auto simp: good_cell_def is_line_def)
qed

lemma format_row_line: "(\<forall>c\<in>set cells. good_cell c) \<Longrightarrow>
    CHR 0x0A \<notin> set (format_row cells) \<and> CHR 0x0D \<notin> set (format_row cells)"
  using set_join_str [of "'' | ''" cells] by (fastforce simp: format_row_def good_cell_def)

lemma format_row_is_line: "(\<forall>c\<in>set cells. good_cell c) \<Longrightarrow> is_line (format_row cells)"
  using format_row_line [of cells] by (simp add: is_line_def strip_cr_def format_row_def)

lemma row_not_heading:
  "\<not> prefix ''## '' (trim_start (format_row cells))" "\<not> prefix ''## '' (format_row cells)"
  by (simp_all add: format_row_def trim_start_graph)

lemma set_insert_at: "set (insert_at i x xs) = insert x (set xs)"
  unfolding insert_at_def by (subst (3) append_take_drop_id [of i, symmetric]) (simp del: append_take_drop_id)

lemma length_insert_at: "length (insert_at i x xs) = Suc (length xs)"
  by (simp add: insert_at_def min_def)

lemma good_Nil [simp]: "good_cell []"
  by (simp add: good_cell_def)

lemma good_consts: "good_cell ''coverage''" "\<forall>c\<in>set legacy_header. good_cell c"
    "good_cell ''start''" "good_cell ''flat''" "good_cell ''open''"
  by (simp_all add: legacy_header_def good_cell_graph is_graph_def less_eq_char_def)

subsection \<open>The upgrade\<close>

lemma upgrade_separator: "upgrade_row separator_row = separator_row"
  by code_simp

lemma upgrade_row_cases:
  assumes "is_line l" "CHR 0x0D \<notin> set l"
  obtains "upgrade_row l = l"
  | "upgrade_row l = separator_row" "split_row l \<noteq> []"
  | cells where "upgrade_row l = format_row cells" "\<forall>c\<in>set cells. good_cell c" "length cells = 9"
      "is_graph (hd (hd cells))" "hd (hd cells) \<noteq> CHR ''-''" "hd cells \<noteq> []" "split_row l \<noteq> []"
proof -
  note good = split_row_good [OF assms]
  consider "split_row l = legacy_header"
    | "split_row l \<noteq> []" "list_all (\<lambda>c. c = ''---'' \<or> c = ''---:'') (split_row l)"
      "split_row l \<noteq> legacy_header"
    | "split_row l \<noteq> legacy_header" "opt_all is_round_cell (first_opt (split_row l))"
      "length (split_row l) = 8"
      "\<not> (split_row l \<noteq> [] \<and> list_all (\<lambda>c. c = ''---'' \<or> c = ''---:'') (split_row l))"
    | "upgrade_row l = l"
    unfolding upgrade_row_def Let_def by argo
  then show thesis
  proof cases
    case 1
    then show thesis
      by (intro that(3) [of "insert_at 3 ''coverage'' legacy_header"])
         (use good_consts in \<open>auto simp: upgrade_row_def set_insert_at length_insert_at\<close>,
          simp_all add: legacy_header_def insert_at_def is_graph_def less_eq_char_def)
  next
    case 2
    then show thesis by (intro that(2)) (auto simp: upgrade_row_def)
  next
    case 3
    then obtain c cs where cs: "split_row l = c # cs" by (cases "split_row l") auto
    with 3 have c: "is_round_cell c" by (simp add: first_opt_def)
    then obtain n where n: "c = CHR ''R'' # n"
      by (auto simp: is_round_cell_def opt_all_def strip_prefix_Some split: option.splits)
    have "upgrade_row l = format_row (insert_at 3 [] (split_row l))"
      using 3 by (auto simp: upgrade_row_def Let_def)
    then show thesis
      by (rule that(3)) (use good 3 cs n in \<open>auto simp: set_insert_at length_insert_at insert_at_def
            dest: in_set_takeD in_set_dropD\<close>)
  next
    case 4
    then show thesis by (rule that(1))
  qed
qed

lemma upgrade_row_idem:
  assumes "is_line l" "CHR 0x0D \<notin> set l"
  shows "upgrade_row (upgrade_row l) = upgrade_row l"
  using assms
proof (cases rule: upgrade_row_cases)
  case 1
  then show ?thesis by simp
next
  case 2
  then show ?thesis by (simp add: upgrade_separator)
next
  case (3 cells)
  then have ne: "cells \<noteq> []" by auto
  with 3 have sp: "split_row (format_row cells) = cells" by (intro split_format_row)
  have "hd cells \<noteq> ''---'' \<and> hd cells \<noteq> ''---:''" using 3 by auto
  with ne have nd: "\<not> list_all (\<lambda>c. c = ''---'' \<or> c = ''---:'') cells" by (cases cells) auto
  have "length legacy_header = 8" by (simp add: legacy_header_def)
  with 3 have "cells \<noteq> legacy_header" by auto
  with 3 nd sp show ?thesis by (simp add: upgrade_row_def)
qed

lemma split_row_no_heading: "split_row l \<noteq> [] \<Longrightarrow> \<not> prefix ''## '' (trim_start l)"
  by (auto simp: split_row_def prefix_def split: if_splits)

lemma upgrade_row_state:
  assumes "is_line l" "CHR 0x0D \<notin> set l"
  shows "summary_state s (upgrade_row l) = summary_state s l"
  using assms
proof (cases rule: upgrade_row_cases)
  case 2
  have "\<not> prefix ''## '' (trim_start separator_row)" by code_simp
  with 2 show ?thesis by (simp add: summary_state_def split_row_no_heading)
next
  case (3 cells)
  then show ?thesis by (simp add: summary_state_def split_row_no_heading row_not_heading)
qed simp

lemma upgrade_row_is_line:
  assumes "is_line l" "CHR 0x0D \<notin> set l"
  shows "is_line (upgrade_row l) \<and> CHR 0x0D \<notin> set (upgrade_row l)"
  using assms
proof (cases rule: upgrade_row_cases)
  case 2
  have "is_line separator_row \<and> CHR 0x0D \<notin> set separator_row" by code_simp
  with 2 show ?thesis by simp
next
  case (3 cells)
  then show ?thesis using format_row_is_line format_row_line by simp
qed (use assms in simp)

lemma upgrade_lines_idem:
  "\<forall>l\<in>set ls. is_line l \<and> CHR 0x0D \<notin> set l \<Longrightarrow>
   upgrade_lines s (upgrade_lines s ls) = upgrade_lines s ls"
  by (induction s ls rule: upgrade_lines.induct) (auto simp: upgrade_row_state upgrade_row_idem)

lemma upgrade_lines_are_lines:
  "\<forall>l\<in>set ls. is_line l \<and> CHR 0x0D \<notin> set l \<Longrightarrow>
   \<forall>l\<in>set (upgrade_lines s ls). is_line l \<and> CHR 0x0D \<notin> set l"
  by (induction s ls rule: upgrade_lines.induct) (auto simp: upgrade_row_is_line)

lemma upgrade_lines_Nil_iff [simp]: "upgrade_lines s ls = [] \<longleftrightarrow> ls = []"
  by (cases ls) auto

lemma set_str_lines: "l \<in> set (str_lines s) \<Longrightarrow> set l \<subseteq> set s"
proof -
  have sub: "set (strip_cr p) \<subseteq> set p" for p
    by (auto simp: strip_cr_def dest: in_set_butlastD)
  define ps where "ps = split_on (CHR 0x0A) s"
  have ne: "ps \<noteq> []" by (simp add: ps_def)
  assume "l \<in> set (str_lines s)"
  then have "l \<in> strip_cr ` set (butlast ps) \<or> l = last ps"
    by (auto simp: str_lines_def Let_def simp flip: ps_def split: if_splits)
  then obtain p where "p \<in> set ps" "set l \<subseteq> set p"
    using sub last_in_set [OF ne] by (blast dest: in_set_butlastD)
  moreover from calculation have "set p \<subseteq> set s" unfolding ps_def by (intro set_split_on)
  ultimately show "set l \<subseteq> set s" by (simp add: subset_trans)
qed

lemma str_lines_no_cr: "CHR 0x0D \<notin> set s \<Longrightarrow> l \<in> set (str_lines s) \<Longrightarrow> CHR 0x0D \<notin> set l"
  using set_str_lines by blast

lemma str_lines_upgrade:
  assumes "CHR 0x0D \<notin> set t"
  shows "str_lines (upgrade_schema t) =
         (if str_lines t = [] then [[]] else upgrade_lines False (str_lines t))"
proof (cases "str_lines t = []")
  case True
  then show ?thesis by (simp add: upgrade_schema_def) code_simp
next
  case False
  then show ?thesis
    unfolding upgrade_schema_def
    using upgrade_lines_are_lines [of "str_lines t" False] str_lines_is_line [OF assms]
      str_lines_no_cr [OF assms]
    by (subst str_lines_join) auto
qed

text \<open>
  The schema upgrade is idempotent on content with line-feed line endings: upgrading an
  upgraded ledger changes nothing, whatever mixture of old and new rows it holds.
\<close>

theorem upgrade_schema_idempotent:
  assumes "CHR 0x0D \<notin> set t"
  shows "upgrade_schema (upgrade_schema t) = upgrade_schema t"
proof (cases "str_lines t = []")
  case True
  then have "upgrade_schema t = [CHR 0x0A]" by (simp add: upgrade_schema_def)
  then show ?thesis by (simp only:) code_simp
next
  case False
  then have "str_lines (upgrade_schema t) = upgrade_lines False (str_lines t)"
    by (simp add: str_lines_upgrade [OF assms])
  then show ?thesis
    unfolding upgrade_schema_def [of "upgrade_schema t"]
    using upgrade_lines_idem [of "str_lines t" False] str_lines_is_line [OF assms] str_lines_no_cr [OF assms]
    by (simp add: upgrade_schema_def)
qed

subsection \<open>Scanning an appended ledger\<close>

text \<open>The scan of a ledger in two parts.\<close>

fun scan_end :: "scan_state \<Rightarrow> string list \<Rightarrow> scan_state" where
  "scan_end st [] = st"
| "scan_end st (l # ls) =
     scan_end (case scan_line st l of Inl _ \<Rightarrow> st | Inr (st', _) \<Rightarrow> st') ls"

lemma parse_lines_append:
  "parse_lines st (xs @ ys) =
     bindr (parse_lines st xs) (\<lambda>rs. bindr (parse_lines (scan_end st xs) ys) (\<lambda>rs'. Inr (rs @ rs')))"
proof (induction xs arbitrary: st)
  case Nil
  show ?case by (cases "parse_lines st ys") simp_all
next
  case (Cons l xs)
  show ?case
  proof (cases "scan_line st l")
    case (Inr p)
    obtain st' r where p: "p = (st', r)" by (cases p)
    show ?thesis
      using Cons.IH [of st'] Inr p
      by (cases "parse_lines st' xs"; cases "parse_lines (scan_end st' xs) ys"; cases r) simp_all
  qed simp
qed

lemma parse_count_show: "parse_count (show_u64 n) label column = Inr n"
proof -
  have gd: "\<forall>c\<in>set (show_u64 n). is_digit c" and ne: "show_u64 n \<noteq> []"
    using show_uint_graph [of "uint n"] show_uint_digits [of "uint n"] by (simp_all add: show_u64_def)
  then have "CHR ''+'' \<notin> set (show_u64 n)" using plus_not_digit by blast
  moreover have "trim (show_u64 n) = show_u64 n" using gd is_digit_graph by (intro trim_graph) blast
  ultimately show ?thesis using ne by (simp add: parse_count_def split_on_id)
qed

definition table_columns :: "summary_columns" where
  "table_columns = \<lparr> col_high = 4, col_critical = 5, col_auditors = Some 2, col_coverage = Some 3 \<rparr>"

definition new_round :: "string \<Rightarrow> append_input \<Rightarrow> ledger_round" where
  "new_round label i =
     \<lparr> lr_label = label, lr_high = ai_high i, lr_critical = ai_critical i,
       lr_auditors = opt_filter (\<lambda>c. c \<noteq> []) (Some (clean_cell (join_str '' '' (ai_auditors i)))),
       lr_coverage = opt_filter (\<lambda>c. c \<noteq> []) (Some (clean_cell (ai_coverage i))) \<rparr>"

definition names_no_header :: "append_input \<Rightarrow> bool" where
  "names_no_header i \<longleftrightarrow>
     \<not> is_header_row [clean_cell (ai_artifact i), clean_cell (join_str '' '' (ai_auditors i)),
                     clean_cell (ai_coverage i)]"

lemma show_u64_not_round: "\<not> eq_ignore_ascii_case (show_u64 n) ''round''"
    "\<not> eq_ignore_ascii_case (''R'' @ show_u64 n) ''round''"
proof -
  have dig: "\<forall>c\<in>set (show_u64 n). is_digit c" and ne: "show_u64 n \<noteq> []"
    using show_uint_graph [of "uint n"] show_uint_digits [of "uint n"] by (simp_all add: show_u64_def)
  then obtain c cs where c: "show_u64 n = c # cs" "is_digit c" by (cases "show_u64 n") auto
  then have low: "ascii_lower c = c"
    by (auto simp: ascii_lower_def is_digit_def less_eq_char_def)
  have nr: "c \<noteq> CHR ''r''" "c \<noteq> CHR ''o''" using c(2) by (auto simp: is_digit_def less_eq_char_def)
  show "\<not> eq_ignore_ascii_case (show_u64 n) ''round''"
    using c low nr by (simp add: eq_ignore_ascii_case_def to_ascii_lowercase_def ascii_lower_def)
  show "\<not> eq_ignore_ascii_case (''R'' @ show_u64 n) ''round''"
    using c low nr by (simp add: eq_ignore_ascii_case_def to_ascii_lowercase_def) (simp add: ascii_lower_def)
qed

lemma round_cells_not_header:
  assumes "names_no_header i"
  shows "\<not> is_header_row (round_cells (''R'' @ show_u64 n) i)"
proof -
  have "\<not> eq_ignore_ascii_case ''start'' ''round''" "\<not> eq_ignore_ascii_case ''flat'' ''round''"
    "\<not> eq_ignore_ascii_case ''open'' ''round''" by code_simp+
  with assms show_u64_not_round show ?thesis
    by (simp add: names_no_header_def is_header_row_def round_cells_def)
qed

lemma round_cells_good: "\<forall>c\<in>set (round_cells (''R'' @ show_u64 n) i). good_cell c"
  using good_consts show_u64_good clean_cell_good by (simp add: round_cells_def)

lemma contains_bar: "contains_str ''|'' (format_row cells)"
  by (simp add: format_row_def)

lemma scan_new_row:
  assumes "names_no_header i" "label = ''R'' @ show_u64 n" "row_columns cols (round_cells label i) = table_columns"
  shows "scan_line (True, cols) (format_row (round_cells label i)) =
         Inr ((True, cols), Some (new_round label i))"
proof -
  have len: "length (round_cells label i) = 9" by (simp add: round_cells_def)
  have nsep: "\<not> is_separator_row (round_cells label i)"
    by (simp add: is_separator_row_def round_cells_def assms(2))
  have ne: "show_u64 (ai_high i) \<noteq> []"
    using show_uint_digits [of "uint (ai_high i)"] by (simp add: show_u64_def)
  have split: "split_cells (format_row (round_cells label i)) = round_cells label i"
    using round_cells_good [of n i] assms(2) by (intro split_format_row) (auto simp: round_cells_def)
  have row: "row_round cols (round_cells label i) = Inr (Some (new_round label i))"
    unfolding row_round_def Let_def assms(3) using ne
    by (simp add: table_columns_def round_cells_def get_at_def first_opt_def parse_count_show
        new_round_def optional_cell_def)
  show ?thesis
    using len nsep split row round_cells_not_header [OF assms(1), of n] assms(2)
    by (simp add: scan_line_def scan_heading_def row_not_heading contains_bar Let_def)
qed

lemma insert_index_le: "insert_index ls = Some i \<Longrightarrow> i \<le> length ls"
  by (induction ls arbitrary: i) (auto split: if_splits)

lemma next_round_label_R: "\<exists>n. next_round_label c = ''R'' @ show_u64 n"
proof -
  have "''R1'' = ''R'' @ show_u64 1" by code_simp
  then show ?thesis by (metis next_round_label_def)
qed

lemma max_round_Max: "max_round c = Max (insert 0 (set (round_numbers c)))"
  unfolding max_round_def using Max.set_eq_fold [of 0 "round_numbers c"] by simp

text \<open>
  The label of an appended round is new: its number is greater than the number of every
  round row of the file, unless the template's empty first row is still there to be filled.
\<close>

theorem next_round_label_fresh:
  assumes "\<not> contains_str placeholder c" "max_round c \<noteq> - 1"
  shows "\<exists>k. next_round_label c = ''R'' @ show_u64 k \<and> (\<forall>n\<in>set (round_numbers c). n < k)"
proof (cases "max_round c = 0")
  case True
  have "''R1'' = ''R'' @ show_u64 1" by code_simp
  moreover have "n < 1" if "n \<in> set (round_numbers c)" for n
    using Max_ge [of "insert 0 (set (round_numbers c))" n] that True
    by (simp flip: max_round_Max) 
  ultimately show ?thesis using True by (auto simp: next_round_label_def)
next
  case False
  have "max_round c < max_round c + 1"
  proof -
    have "1 + max_round c \<noteq> 0" using assms(2) by (metis add.inverse_inverse add_eq_0_iff2)
    then show ?thesis using unatSuc [of "max_round c"] by (simp add: word_less_nat_alt add.commute)
  qed
  moreover have "n \<le> max_round c" if "n \<in> set (round_numbers c)" for n
    using Max_ge [of "insert 0 (set (round_numbers c))" n] that by (simp add: max_round_Max)
  ultimately show ?thesis using assms False
    by (auto simp: next_round_label_def intro!: exI [of _ "max_round c + 1"] intro: order_le_less_trans)
qed

lemma upgrade_schema_lines:
  assumes "CHR 0x0D \<notin> set t" "l \<in> set (str_lines (upgrade_schema t))"
  shows "is_line l"
proof (cases "str_lines t = []")
  case True
  with assms show ?thesis by (simp add: str_lines_upgrade is_line_def strip_cr_def)
next
  case False
  with assms show ?thesis
    using upgrade_lines_are_lines [of "str_lines t" False] str_lines_is_line [OF assms(1)]
      str_lines_no_cr [OF assms(1)] by (auto simp: str_lines_upgrade)
qed

lemma str_lines_insert:
  assumes "CHR 0x0D \<notin> set t" "\<forall>c\<in>set cells. good_cell c"
    and "ls = str_lines (upgrade_schema t)" "k = opt_get_or (length ls) (insert_index ls)"
  shows "str_lines (insert_round_row (upgrade_schema t) (format_row cells)) =
         take k ls @ format_row cells # drop k ls"
  unfolding insert_round_row_def Let_def assms(3) [symmetric] assms(4) [symmetric] insert_at_def
  using upgrade_schema_lines [OF assms(1)] format_row_is_line [OF assms(2)]
  by (intro str_lines_join) (auto simp: assms(3) dest: in_set_takeD in_set_dropD)

text \<open>
  C10: Appending a round inserts exactly that round: the updated file parses to the rounds
  before the insertion point, the new round with the counts and lineage given, and the rounds
  after it, and the returned verdict is the verdict of that sequence. (Line-feed line endings, the
  summary table's columns in force, and no cleaned cell that spells the header word.)
\<close>

theorem append_records_round:
  assumes "CHR 0x0D \<notin> set t" and names: "names_no_header i"
    and "content = upgrade_schema t" "ls = str_lines content" "label = next_round_label content"
    and place: "label = ''R1'' \<longrightarrow> \<not> contains_str placeholder content"
    and k: "k = opt_get_or (length ls) (insert_index ls)"
    and before: "parse_lines (False, None) (take k ls) = Inr rs"
    and state: "scan_end (False, None) (take k ls) = (True, cols)"
    and after: "parse_lines (True, cols) (drop k ls) = Inr rs'"
    and columns: "row_columns cols (round_cells label i) = table_columns"
  shows "parse_ledger content = Inr (rs @ rs')
    \<and> (\<exists>t' out. append_round t i = Inr (t', out)
         \<and> parse_ledger t' = Inr (rs @ new_round label i # rs')
         \<and> ao_label out = label
         \<and> ao_verdict out = evaluate_ledger (rs @ new_round label i # rs') False)"
proof -
  obtain n where n: "label = ''R'' @ show_u64 n" using next_round_label_R assms(5) by metis
  let ?row = "format_row (round_cells label i)" and ?new = "new_round label i"
  define t' where "t' = insert_round_row content ?row"
  have at: "append_text t i = (label, t')"
    using place by (auto simp: append_text_def Let_def t'_def simp flip: assms(3,5))
  have lines: "str_lines t' = take k ls @ ?row # drop k ls"
    unfolding t'_def assms(3)
    using str_lines_insert [OF assms(1) _ _ k] round_cells_good [of n i] n assms(3,4) by simp
  have split: "str_lines content = take k ls @ drop k ls" using assms(4) by simp
  have old: "parse_ledger content = Inr (rs @ rs')"
    unfolding parse_ledger_def split by (simp only: parse_lines_append before state after bindr_simps)
  have new: "parse_ledger t' = Inr (rs @ ?new # rs')"
    unfolding parse_ledger_def lines
    by (simp add: parse_lines_append before state after scan_new_row [OF names n columns])
  obtain d where "diagnose (rs @ ?new # rs') = Some d"
    by (simp add: diagnose_def last_opt_def Let_def)
  then have "append_round t i = Inr (t', \<lparr> ao_label = label,
      ao_verdict = evaluate_ledger (rs @ ?new # rs') False, ao_diagnostics = d \<rparr>)"
    by (simp add: append_round_def at new)
  with old new show ?thesis by simp
qed


text \<open>
  A round whose artifact is the word "round" is written to the table but read back as a
  header row: the scan pushes no round for it, so its counts never reach the verdict.
\<close>

theorem append_header_word_lost:
  assumes "eq_ignore_ascii_case (clean_cell (ai_artifact i)) ''round''"
  shows "\<exists>cols'. scan_line (True, cols) (format_row (round_cells (''R'' @ show_u64 n) i)) =
           Inr ((True, cols'), None)"
proof -
  let ?cells = "round_cells (''R'' @ show_u64 n) i"
  have len: "length ?cells = 9" by (simp add: round_cells_def)
  have nsep: "\<not> is_separator_row ?cells" by (simp add: is_separator_row_def round_cells_def)
  have split: "split_cells (format_row ?cells) = ?cells"
    using round_cells_good [of n i] by (intro split_format_row) (auto simp: round_cells_def)
  have "is_header_row ?cells" using assms by (simp add: is_header_row_def round_cells_def)
  with len nsep split show ?thesis
    by (simp add: scan_line_def scan_heading_def row_not_heading contains_bar Let_def)
qed

definition sample_ledger :: string where
  "sample_ledger = join_str [CHR 0x0A]
     [''## Round Summary'',
      ''| round | artifact | auditors | high | critical | minor | trend | status |'',
      ''|---|---|---|---:|---:|---:|---|---|'',
      ''| R1 | old | pi | 2 | 1 | 0 | start | open |'', []]"

definition sample_input :: append_input where
  "sample_input = \<lparr> ai_artifact = ''new'', ai_auditors = [''agy''], ai_coverage = ''T2'',
     ai_high = 1, ai_critical = 0, ai_minor = 0 \<rparr>"

lemma append_records_round_witness:
  "\<exists>t' out. append_round sample_ledger sample_input = Inr (t', out) \<and> ao_label out = ''R2''
     \<and> ao_verdict out = Converging"
proof -
  let ?c = "upgrade_schema sample_ledger"
  let ?old = "\<lparr>lr_label = ''R1'', lr_high = 2, lr_critical = 1, lr_auditors = Some ''pi'',
      lr_coverage = None\<rparr>"
  have "CHR 0x0D \<notin> set sample_ledger" "names_no_header sample_input"
    "next_round_label ?c = ''R2''" "\<not> contains_str placeholder ?c"
    "opt_get_or (length (str_lines ?c)) (insert_index (str_lines ?c)) = 4"
    "parse_lines (False, None) (take 4 (str_lines ?c)) = Inr [?old]"
    "scan_end (False, None) (take 4 (str_lines ?c)) = (True, Some (9, table_columns))"
    "parse_lines (True, Some (9, table_columns)) (drop 4 (str_lines ?c)) = Inr []"
    "row_columns (Some (9, table_columns)) (round_cells ''R2'' sample_input) = table_columns"
    "evaluate_ledger [?old, new_round ''R2'' sample_input] False = Converging"
    by code_simp+
  then show ?thesis
    using append_records_round [of sample_ledger sample_input ?c "str_lines ?c" "''R2''" 4
        "[?old]" "Some (9, table_columns)" "[]"] by auto
qed

lemma append_header_word_lost_witness:
  "\<exists>cols'. scan_line (True, None) (format_row (round_cells (''R'' @ show_u64 2)
       (sample_input\<lparr>ai_artifact := ''Round''\<rparr>))) = Inr ((True, cols'), None)"
proof -
  have "eq_ignore_ascii_case (clean_cell (ai_artifact (sample_input\<lparr>ai_artifact := ''Round''\<rparr>))) ''round''"
    by code_simp
  then show ?thesis by (rule append_header_word_lost)
qed

lemma upgrade_schema_idempotent_witness:
  "upgrade_schema (upgrade_schema sample_ledger) = upgrade_schema sample_ledger"
proof -
  have "CHR 0x0D \<notin> set sample_ledger" by code_simp
  then show ?thesis by (rule upgrade_schema_idempotent)
qed

lemma next_round_label_fresh_witness:
  "\<exists>k. next_round_label sample_ledger = ''R'' @ show_u64 k
     \<and> (\<forall>n\<in>set (round_numbers sample_ledger). n < k)"
proof -
  have "\<not> contains_str placeholder sample_ledger" "max_round sample_ledger \<noteq> - 1" by code_simp+
  then show ?thesis by (rule next_round_label_fresh)
qed

end
