(* ===== verification/Lto_Float.thy ===== *)
theory Lto_Float
  imports Lto_Prelude "HOL-Library.Log_Nat"
begin

text \<open>
  Rust's \<open>f64\<close> as the repository uses it (budget ratios, retry back-off): IEEE binary64 values
  as rationals with the two infinities and NaN, every operation rounded to nearest with ties to
  even. The sign of zero is not kept: no code modelled here divides by a float zero it computed
  or prints one.
\<close>

datatype f64 = Fin rat | PInf | NInf | NaN

subsection \<open>Rounding\<close>

definition pow2 :: "int \<Rightarrow> rat" where
  "pow2 e = (if 0 \<le> e then of_int (2 ^ nat e) else 1 / of_int (2 ^ nat (- e)))"

lemma pow2_powi [simp]: "pow2 e = 2 powi e"
  by (simp add: pow2_def power_int_def inverse_eq_divide power_one_over)

text \<open>\<open>flog2 q\<close> is the exponent of the leading bit of a positive rational.\<close>

definition flog2 :: "rat \<Rightarrow> int" where
  "flog2 q =
     (let (n, d) = quotient_of q; e = bitlen n - bitlen d
      in if pow2 e \<le> q then e else e - 1)"

definition round_even :: "rat \<Rightarrow> int" where
  "round_even q =
     (let f = \<lfloor>q\<rfloor>; r = q - of_int f
      in if r < 1 / 2 then f else if 1 / 2 < r then f + 1 else if even f then f else f + 1)"

definition ulp_exp :: "rat \<Rightarrow> int" where
  "ulp_exp q = max (- 1074) (flog2 q - 52)"

definition round_pos :: "rat \<Rightarrow> rat" where
  "round_pos q = of_int (round_even (q / pow2 (ulp_exp q))) * pow2 (ulp_exp q)"

definition fl :: "rat \<Rightarrow> f64" where
  "fl q =
     (if q = 0 then Fin 0
      else let r = round_pos \<bar>q\<bar>
           in if 1024 \<le> flog2 r then (if q < 0 then NInf else PInf)
              else Fin (if q < 0 then - r else r))"

subsection \<open>Operations\<close>

definition f_of_int :: "int \<Rightarrow> f64" where
  "f_of_int n = fl (of_int n)"

definition f_of_u64 :: "u64 \<Rightarrow> f64" where
  "f_of_u64 w = f_of_int (uint w)"

fun f_add :: "f64 \<Rightarrow> f64 \<Rightarrow> f64" where
  "f_add (Fin a) (Fin b) = fl (a + b)"
| "f_add NaN _ = NaN"
| "f_add _ NaN = NaN"
| "f_add PInf NInf = NaN"
| "f_add NInf PInf = NaN"
| "f_add PInf _ = PInf"
| "f_add NInf _ = NInf"
| "f_add _ PInf = PInf"
| "f_add _ NInf = NInf"

fun f_neg :: "f64 \<Rightarrow> f64" where
  "f_neg (Fin a) = Fin (- a)"
| "f_neg PInf = NInf"
| "f_neg NInf = PInf"
| "f_neg NaN = NaN"

definition f_inf_sign :: "rat \<Rightarrow> f64" where
  "f_inf_sign a = (if a = 0 then NaN else if a > 0 then PInf else NInf)"

fun f_mul :: "f64 \<Rightarrow> f64 \<Rightarrow> f64" where
  "f_mul (Fin a) (Fin b) = fl (a * b)"
| "f_mul NaN _ = NaN"
| "f_mul _ NaN = NaN"
| "f_mul (Fin a) PInf = f_inf_sign a"
| "f_mul PInf (Fin b) = f_inf_sign b"
| "f_mul (Fin a) NInf = f_neg (f_inf_sign a)"
| "f_mul NInf (Fin b) = f_neg (f_inf_sign b)"
| "f_mul PInf PInf = PInf"
| "f_mul NInf NInf = PInf"
| "f_mul PInf NInf = NInf"
| "f_mul NInf PInf = NInf"

text \<open>Division by a zero is that of a positive zero.\<close>

fun f_div :: "f64 \<Rightarrow> f64 \<Rightarrow> f64" where
  "f_div (Fin a) (Fin b) = (if b = 0 then f_inf_sign a else fl (a / b))"
| "f_div NaN _ = NaN"
| "f_div _ NaN = NaN"
| "f_div (Fin a) _ = Fin 0"
| "f_div PInf (Fin b) = (if b < 0 then NInf else PInf)"
| "f_div NInf (Fin b) = (if b < 0 then PInf else NInf)"
| "f_div _ _ = NaN"

fun f_le :: "f64 \<Rightarrow> f64 \<Rightarrow> bool" where
  "f_le NaN _ = False"
| "f_le _ NaN = False"
| "f_le (Fin a) (Fin b) = (a \<le> b)"
| "f_le NInf _ = True"
| "f_le _ PInf = True"
| "f_le _ _ = False"

definition f_lt :: "f64 \<Rightarrow> f64 \<Rightarrow> bool" where
  "f_lt a b \<longleftrightarrow> f_le a b \<and> \<not> f_le b a"

definition f_eq :: "f64 \<Rightarrow> f64 \<Rightarrow> bool" where
  "f_eq a b \<longleftrightarrow> f_le a b \<and> f_le b a"

text \<open>\<open>f64::min\<close> and \<open>f64::max\<close> return the other argument when one is NaN.\<close>

definition f_min :: "f64 \<Rightarrow> f64 \<Rightarrow> f64" where
  "f_min a b = (if a = NaN then b else if b = NaN then a else if f_le a b then a else b)"

definition f_max :: "f64 \<Rightarrow> f64 \<Rightarrow> f64" where
  "f_max a b = (if a = NaN then b else if b = NaN then a else if f_le a b then b else a)"

text \<open>\<open>2_f64.powi(e)\<close>: repeated squaring, inverted for a negative exponent.\<close>

definition f_powi2 :: "int \<Rightarrow> f64" where
  "f_powi2 e = (if e \<ge> 1024 then PInf else if e \<le> - 1024 then Fin 0 else Fin (pow2 e))"

definition f_finite :: "f64 \<Rightarrow> bool" where
  "f_finite x = (case x of Fin _ \<Rightarrow> True | _ \<Rightarrow> False)"

subsection \<open>Facts about rounding\<close>

lemma flog2_bounds:
  assumes "0 < q"
  shows "2 powi (flog2 q) \<le> q \<and> q < 2 powi (flog2 q + 1)"
proof -
  obtain n d where nd: "quotient_of q = (n, d)" by fastforce
  have d: "d > 0" using quotient_of_denom_pos [OF nd] .
  have q: "q = of_int n / of_int d" using quotient_of_div [OF nd] .
  have n: "n > 0" using assms d q by (simp add: zero_less_divide_iff)
  have pw: "(2::rat) powi (bitlen x - 1) \<le> of_int x \<and> of_int x < (2::rat) powi bitlen x" if "x > 0" for x
  proof -
    have "bitlen x \<ge> 1" using that by (simp add: bitlen_ge_iff_power)
    moreover have "(of_int (2 ^ nat (bitlen x - 1)) :: rat) \<le> of_int x"
      "(of_int x :: rat) < of_int (2 ^ nat (bitlen x))"
      using bitlen_bounds [OF that] by (simp_all only: of_int_le_iff of_int_less_iff)
    ultimately show ?thesis by (simp add: power_int_def)
  qed
  let ?e = "bitlen n - bitlen d"
  have dp: "(of_int d :: rat) > 0" using d by simp
  have up: "q < 2 powi (?e + 1)"
  proof -
    have "of_int n < (2::rat) powi (?e + 1) * 2 powi (bitlen d - 1)"
      using pw [OF n] by (simp flip: power_int_add)
    also have "\<dots> \<le> 2 powi (?e + 1) * of_int d"
      using pw [OF d] by (intro mult_left_mono) auto
    finally show ?thesis using dp by (simp add: q divide_simps)
  qed
  have lo: "2 powi (?e - 1) < q"
  proof -
    have "(2::rat) powi (?e - 1) * of_int d < 2 powi (?e - 1) * 2 powi bitlen d"
      using pw [OF d] by (intro mult_strict_left_mono) auto
    also have "\<dots> \<le> of_int n" using pw [OF n] by (simp add: algebra_simps flip: power_int_add)
    finally show ?thesis using dp by (simp add: q divide_simps)
  qed
  show ?thesis
    using up lo by (auto simp: flog2_def nd Let_def not_le less_imp_le)
qed

lemma powi2_mono: "a \<le> b \<Longrightarrow> (2::rat) powi a \<le> 2 powi b"
  by (simp add: power_int_increasing)

lemma powi2_less_iff: "(2::rat) powi a < 2 powi b \<longleftrightarrow> a < b"
  by (metis linorder_not_less one_less_numeral_iff power_int_increasing power_int_strict_increasing
      semiring_norm(76) one_le_numeral)

lemma flog2_unique: "2 powi e \<le> q \<Longrightarrow> q < 2 powi (e + 1) \<Longrightarrow> flog2 q = e"
proof -
  assume a: "2 powi e \<le> q" "q < 2 powi (e + 1)"
  then have "0 < q" using zero_less_power_int [of "2::rat" e] by linarith
  from flog2_bounds [OF this] a have "2 powi (flog2 q) < (2::rat) powi (e + 1)"
    "(2::rat) powi e < 2 powi (flog2 q + 1)" by linarith+
  then show ?thesis by (simp add: powi2_less_iff)
qed

lemma flog2_mono: "0 < a \<Longrightarrow> a \<le> b \<Longrightarrow> flog2 a \<le> flog2 b"
proof -
  assume "0 < a" "a \<le> b"
  then have "(2::rat) powi (flog2 a) < 2 powi (flog2 b + 1)"
    using flog2_bounds [of a] flog2_bounds [of b] by linarith
  then show ?thesis by (simp add: powi2_less_iff)
qed

lemma round_even_int [simp]: "round_even (of_int n) = n"
  by (simp add: round_even_def)

lemma round_even_mono: "a \<le> b \<Longrightarrow> round_even a \<le> round_even b"
proof -
  assume ab: "a \<le> b"
  then have f: "\<lfloor>a\<rfloor> \<le> \<lfloor>b\<rfloor>" by (rule floor_mono)
  show ?thesis
  proof (cases "\<lfloor>a\<rfloor> = \<lfloor>b\<rfloor>")
    case True
    then show ?thesis using ab by (auto simp: round_even_def Let_def)
  next
    case False
    with f have "\<lfloor>a\<rfloor> + 1 \<le> \<lfloor>b\<rfloor>" by simp
    then show ?thesis by (auto simp: round_even_def Let_def)
  qed
qed

lemma round_pos_upper: "0 < q \<Longrightarrow> - 1074 \<le> flog2 q - 52 \<Longrightarrow> round_pos q \<le> 2 powi (flog2 q + 1)"
proof -
  assume q: "0 < q" and n: "- 1074 \<le> flog2 q - 52"
  let ?u = "flog2 q - 52"
  have "q / 2 powi ?u \<le> of_int (2 ^ 53)"
    using flog2_bounds [OF q] power_int_add [of "2::rat" 53 ?u]
    by (simp add: divide_simps add.commute less_imp_le)
  then have "round_even (q / 2 powi ?u) \<le> 2 ^ 53"
    by (metis round_even_int round_even_mono)
  then have "of_int (round_even (q / 2 powi ?u)) * 2 powi ?u \<le> (of_int (2 ^ 53) :: rat) * 2 powi ?u"
    by (intro mult_right_mono) (simp only: of_int_le_iff, simp)
  also have "\<dots> = 2 powi (flog2 q + 1)"
    using power_int_add [of "2::rat" 53 ?u] by (simp add: add.commute)
  finally show ?thesis using n by (simp add: round_pos_def ulp_exp_def max_def)
qed

lemma round_pos_lower: "0 < q \<Longrightarrow> - 1074 \<le> flog2 q - 52 \<Longrightarrow> 2 powi flog2 q \<le> round_pos q"
proof -
  assume q: "0 < q" and n: "- 1074 \<le> flog2 q - 52"
  let ?u = "flog2 q - 52"
  have "of_int (2 ^ 52) \<le> q / 2 powi ?u"
    using flog2_bounds [OF q] power_int_add [of "2::rat" 52 ?u] by (simp add: divide_simps)
  then have "2 ^ 52 \<le> round_even (q / 2 powi ?u)"
    by (metis round_even_int round_even_mono)
  then have "(of_int (2 ^ 52) :: rat) \<le> of_int (round_even (q / 2 powi ?u))"
    by (simp only: of_int_le_iff)
  then have "(of_int (2 ^ 52) :: rat) * 2 powi ?u \<le> of_int (round_even (q / 2 powi ?u)) * 2 powi ?u"
    by (rule mult_right_mono) simp
  also have "(of_int (2 ^ 52) :: rat) * 2 powi ?u = 2 powi flog2 q"
    using power_int_add [of "2::rat" 52 ?u] by simp
  finally show ?thesis using n by (simp add: round_pos_def ulp_exp_def max_def)
qed

lemma round_pos_mono:
  assumes "0 < a" "a \<le> b"
  shows "round_pos a \<le> round_pos b"
proof (cases "ulp_exp a = ulp_exp b")
  case True
  have "a / 2 powi ulp_exp b \<le> b / 2 powi ulp_exp b"
    using assms(2) by (simp add: divide_right_mono)
  then show ?thesis
    unfolding round_pos_def True by (intro mult_right_mono) (simp_all add: round_even_mono)
next
  case False
  with flog2_mono [OF assms] have lt: "flog2 a < flog2 b" and nb: "- 1074 < flog2 b - 52"
    by (auto simp: ulp_exp_def max_def split: if_splits)
  have lower: "2 powi flog2 b \<le> round_pos b"
    using assms nb by (intro round_pos_lower) auto
  show ?thesis
  proof (cases "- 1074 \<le> flog2 a - 52")
    case True
    have "round_pos a \<le> 2 powi (flog2 a + 1)" using assms True by (intro round_pos_upper)
    also have "\<dots> \<le> 2 powi flog2 b" using lt by (intro powi2_mono) simp
    finally show ?thesis using lower by simp
  next
    case False
    then have ua: "ulp_exp a = - 1074" by (simp add: ulp_exp_def max_def)
    have "a < 2 powi (- 1022)"
      using flog2_bounds [OF assms(1)] powi2_mono [of "flog2 a + 1" "- 1022"] False by linarith
    then have "a / 2 powi (- 1074) \<le> of_int (2 ^ 52)"
      using power_int_add [of "2::rat" 52 "- 1074"] by (simp add: divide_simps less_imp_le)
    then have "round_even (a / 2 powi (- 1074)) \<le> 2 ^ 52"
      by (metis round_even_int round_even_mono)
    then have "of_int (round_even (a / 2 powi (- 1074))) * 2 powi (- 1074)
        \<le> (of_int (2 ^ 52) :: rat) * 2 powi (- 1074)"
      by (intro mult_right_mono) (simp_all only: of_int_le_iff, simp)
    also have "\<dots> = 2 powi (- 1022)" using power_int_add [of "2::rat" 52 "- 1074"] by simp
    also have "\<dots> \<le> 2 powi flog2 b" using nb by (intro powi2_mono) simp
    finally show ?thesis using lower by (simp add: round_pos_def ua)
  qed
qed

lemma round_pos_exact:
  assumes "0 < q" "q = of_int m * 2 powi ulp_exp q"
  shows "round_pos q = q"
proof -
  have "q / 2 powi ulp_exp q = of_int m" using assms(2) by (metis nonzero_mult_div_cancel_right
        power_int_eq_0_iff zero_neq_numeral)
  then show ?thesis using assms(2) by (simp add: round_pos_def)
qed

lemma round_pos_int:
  assumes "0 < n" "n \<le> 2 ^ 53"
  shows "round_pos (of_int n) = of_int n"
proof (cases "n = 2 ^ 53")
  case True
  have "flog2 (of_int n) = 53" by (rule flog2_unique) (simp_all add: True)
  then have "ulp_exp (of_int n) = 1" by (simp add: ulp_exp_def)
  then show ?thesis
    by (intro round_pos_exact [where m = "2 ^ 52"]) (simp_all add: True)
next
  case False
  let ?q = "of_int n :: rat"
  have q: "0 < ?q" using assms by simp
  have "?q < of_int (2 ^ 53)" using assms False by (simp only: of_int_less_iff)
  then have "(2::rat) powi flog2 ?q < 2 powi 53" using flog2_bounds [OF q] by simp
  then have hi: "flog2 ?q \<le> 52" by (simp only: powi2_less_iff)
  have "(1::rat) \<le> ?q" using assms by simp
  then have "(2::rat) powi 0 < 2 powi (flog2 ?q + 1)" using flog2_bounds [OF q] by simp
  then have lo: "0 \<le> flog2 ?q" by (simp only: powi2_less_iff)
  obtain k where k: "52 - flog2 ?q = int k" using hi nonneg_int_cases [of "52 - flog2 ?q"] by auto
  have u: "ulp_exp ?q = - int k" using lo hi k by (simp add: ulp_exp_def)
  show ?thesis
  proof (rule round_pos_exact [where m = "n * 2 ^ k", OF q])
    show "?q = of_int (n * 2 ^ k) * 2 powi ulp_exp ?q"
      unfolding u by (simp add: power_int_minus)
  qed
qed

lemma round_pos_nonneg: "0 < q \<Longrightarrow> 0 \<le> round_pos q"
proof -
  assume "0 < q"
  then have "of_int 0 \<le> q / 2 powi ulp_exp q" by simp
  then have "0 \<le> round_even (q / 2 powi ulp_exp q)" by (metis round_even_int round_even_mono)
  then show ?thesis by (simp add: round_pos_def)
qed

lemma flog2_ge: "0 < q \<Longrightarrow> e \<le> flog2 q \<longleftrightarrow> 2 powi e \<le> q"
  using flog2_bounds [of q] powi2_mono [of e "flog2 q"] powi2_less_iff [of e "flog2 q + 1"] by linarith

lemma fl_pos: "0 < q \<Longrightarrow> fl q = (if 1024 \<le> flog2 (round_pos q) then PInf else Fin (round_pos q))"
  by (simp add: fl_def Let_def)

lemma fl_small: "0 < q \<Longrightarrow> 0 \<le> round_pos q \<Longrightarrow> round_pos q < 2 powi 1024 \<Longrightarrow> fl q = Fin (round_pos q)"
proof -
  assume a: "0 < q" "0 \<le> round_pos q" "round_pos q < 2 powi 1024"
  have "flog2 0 < 1024" by code_simp
  with a have "\<not> 1024 \<le> flog2 (round_pos q)"
    using flog2_ge [of "round_pos q" 1024] by (cases "round_pos q = 0") auto
  with a(1) show ?thesis by (simp add: fl_pos)
qed

lemma fl_int: "0 \<le> n \<Longrightarrow> n \<le> 2 ^ 53 \<Longrightarrow> fl (of_int n) = Fin (of_int n)"
proof -
  assume n: "0 \<le> n" "n \<le> 2 ^ 53"
  have "(of_int n :: rat) \<le> of_int (2 ^ 53)" using n by (simp only: of_int_le_iff)
  also have "\<dots> < 2 powi 1024" using powi2_less_iff [of 53 1024] by simp
  finally have lt: "(of_int n :: rat) < 2 powi 1024" .
  show ?thesis
  proof (cases "n = 0")
    case False
    with n have r: "round_pos (of_int n) = of_int n" by (intro round_pos_int) simp_all
    then show ?thesis using fl_small [of "of_int n"] lt n False by simp
  qed (simp add: fl_def)
qed


text \<open>A quotient of counts below \<open>2 ^ 53\<close> reaches one exactly when the counts do.\<close>

lemma round_pos_below_one:
  assumes "0 < q" "q \<le> 1 - 2 powi (- 53)"
  shows "round_pos q < 1"
proof -
  let ?m = "1 - 2 powi (- 53) :: rat"
  have "flog2 ?m = - 1"
    by (rule flog2_unique) (simp_all add: power_int_minus)
  then have u: "ulp_exp ?m = - 53" by (simp add: ulp_exp_def)
  have "round_pos ?m = ?m"
  proof (rule round_pos_exact [where m = "2 ^ 53 - 1"])
    show "?m = of_int (2 ^ 53 - 1) * 2 powi ulp_exp ?m" unfolding u by (simp add: power_int_minus)
  qed (simp add: power_int_minus)
  moreover have "round_pos q \<le> round_pos ?m" using assms by (rule round_pos_mono)
  moreover have "?m < 1" by (simp add: power_int_minus)
  ultimately show ?thesis by linarith
qed

lemma round_pos_one: "round_pos 1 = 1"
  using round_pos_int [of 1] by simp

lemma f_div_counts:
  assumes "0 \<le> a" "0 < b" "a \<le> 2 ^ 53" "b \<le> 2 ^ 53"
  shows "f_le (Fin 1) (f_div (f_of_int a) (f_of_int b)) \<longleftrightarrow> b \<le> a"
proof -
  have ab: "f_of_int a = Fin (of_int a)" "f_of_int b = Fin (of_int b)"
    using assms by (simp_all add: f_of_int_def fl_int)
  let ?q = "of_int a / of_int b :: rat"
  have big: "f_le (Fin 1) (fl ?q)" if "1 \<le> round_pos ?q" "0 < ?q"
    using that by (simp add: fl_pos)
  show ?thesis
  proof (cases "b \<le> a")
    case True
    then have q: "1 \<le> ?q" using assms by simp
    then have "round_pos 1 \<le> round_pos ?q" by (intro round_pos_mono) auto
    with q True big show ?thesis using assms by (simp add: ab round_pos_one)
  next
    case False
    show ?thesis
    proof (cases "a = 0")
      case True
      then have "f_of_int a = Fin 0" by (simp add: f_of_int_def fl_def)
      with True assms show ?thesis by (simp add: ab(2) fl_def)
    next
      case a0: False
      have q0: "0 < ?q" using a0 assms by simp
      have "of_int (a + 1) \<le> (of_int b :: rat)" using False by (simp only: of_int_le_iff)
      moreover have "(of_int b :: rat) \<le> of_int (2 ^ 53)" using assms by (simp only: of_int_le_iff)
      ultimately have "?q \<le> 1 - 2 powi (- 53)"
        using assms by (simp add: power_int_minus field_simps)
      with q0 have "round_pos ?q < 1" by (rule round_pos_below_one)
      moreover have "(1::rat) < 2 powi 1024" using powi2_less_iff [of 0 1024] by simp
      ultimately have "fl ?q = Fin (round_pos ?q)" using q0 round_pos_nonneg [OF q0]
        by (intro fl_small) linarith+
      with \<open>round_pos ?q < 1\<close> show ?thesis using False assms by (simp add: ab)
    qed
  qed
qed

text \<open>Order and \<open>min\<close>.\<close>

lemma f_min_le: "b \<noteq> NaN \<Longrightarrow> f_le (f_min a b) b"
  by (cases a; cases b) (auto simp: f_min_def)

lemma f_min_not_NaN: "a \<noteq> NaN \<or> b \<noteq> NaN \<Longrightarrow> f_min a b \<noteq> NaN"
  by (auto simp: f_min_def)

lemma f_le_total: "a \<noteq> NaN \<Longrightarrow> b \<noteq> NaN \<Longrightarrow> f_le a b \<or> f_le b a"
  by (cases a; cases b) auto

lemma f_le_trans: "f_le a b \<Longrightarrow> f_le b c \<Longrightarrow> f_le a c"
  by (cases a; cases b; cases c) auto

end
