(* ===== verification/Lto_Json.thy ===== *)
theory Lto_Json
  imports Lto_Strings Lto_Float
begin

text \<open>
  JSON values as \<open>serde_json::Value\<close> keeps them: integers apart from floats (an integer is a
  \<open>u64\<close> or a negative \<open>i64\<close>), objects as \<open>BTreeMap\<close>s with ascending keys. The accessors
  are \<open>Value\<close>'s own. Reading and writing the text form is the library's and is a parameter
  where a component needs it.
\<close>

datatype json =
    JNull
  | JBool bool
  | JInt int
  | JFloat f64
  | JStr string
  | JArr "json list"
  | JObj "(string \<times> json) list"

type_synonym json_map = "(string, json) btree"

definition jget :: "json \<Rightarrow> string \<Rightarrow> json option" where
  "jget v k = (case v of JObj m \<Rightarrow> bt_get m k | _ \<Rightarrow> None)"

definition as_str :: "json \<Rightarrow> string option" where
  "as_str v = (case v of JStr s \<Rightarrow> Some s | _ \<Rightarrow> None)"

definition as_bool :: "json \<Rightarrow> bool option" where
  "as_bool v = (case v of JBool b \<Rightarrow> Some b | _ \<Rightarrow> None)"

definition as_u64 :: "json \<Rightarrow> u64 option" where
  "as_u64 v = (case v of JInt n \<Rightarrow> if 0 \<le> n then Some (word_of_int n) else None | _ \<Rightarrow> None)"

definition as_i64 :: "json \<Rightarrow> int option" where
  "as_i64 v = (case v of JInt n \<Rightarrow> if n < 9223372036854775808 then Some n else None | _ \<Rightarrow> None)"

definition as_f64 :: "json \<Rightarrow> f64 option" where
  "as_f64 v = (case v of JInt n \<Rightarrow> Some (f_of_int n) | JFloat f \<Rightarrow> Some f | _ \<Rightarrow> None)"

definition as_array :: "json \<Rightarrow> json list option" where
  "as_array v = (case v of JArr xs \<Rightarrow> Some xs | _ \<Rightarrow> None)"

definition as_object :: "json \<Rightarrow> json_map option" where
  "as_object v = (case v of JObj m \<Rightarrow> Some m | _ \<Rightarrow> None)"

definition is_null :: "json \<Rightarrow> bool" where
  "is_null v = (case v of JNull \<Rightarrow> True | _ \<Rightarrow> False)"

definition is_array :: "json \<Rightarrow> bool" where
  "is_array v = (case v of JArr _ \<Rightarrow> True | _ \<Rightarrow> False)"

definition is_object :: "json \<Rightarrow> bool" where
  "is_object v = (case v of JObj _ \<Rightarrow> True | _ \<Rightarrow> False)"

text \<open>\<open>value.get(k).and_then(f)\<close>, the shape of most lookups.\<close>

definition jget_with :: "(json \<Rightarrow> 'a option) \<Rightarrow> json \<Rightarrow> string \<Rightarrow> 'a option" where
  "jget_with f v k = (case jget v k of None \<Rightarrow> None | Some x \<Rightarrow> f x)"

abbreviation jget_str :: "json \<Rightarrow> string \<Rightarrow> string option" where
  "jget_str \<equiv> jget_with as_str"

abbreviation jget_u64 :: "json \<Rightarrow> string \<Rightarrow> u64 option" where
  "jget_u64 \<equiv> jget_with as_u64"

abbreviation jget_bool :: "json \<Rightarrow> string \<Rightarrow> bool option" where
  "jget_bool \<equiv> jget_with as_bool"

definition jobj :: "(string \<times> json) list \<Rightarrow> json" where
  "jobj kvs = JObj (bt_of_list kvs)"

definition ju64 :: "u64 \<Rightarrow> json" where
  "ju64 w = JInt (uint w)"

definition jnat :: "nat \<Rightarrow> json" where
  "jnat n = JInt (int n)"

definition jopt :: "('a \<Rightarrow> json) \<Rightarrow> 'a option \<Rightarrow> json" where
  "jopt f x = (case x of None \<Rightarrow> JNull | Some y \<Rightarrow> f y)"

text \<open>\<open>obj.insert(k, v)\<close> on a value that is an object; other values stay as they are.\<close>

definition jset :: "string \<Rightarrow> json \<Rightarrow> json \<Rightarrow> json" where
  "jset k x v = (case v of JObj m \<Rightarrow> JObj (bt_insert k x m) | _ \<Rightarrow> v)"

lemma jget_jset_same [simp]: "is_object v \<Longrightarrow> jget (jset k x v) k = Some x"
  by (cases v) (auto simp: jget_def jset_def is_object_def)

lemma jget_jset_other [simp]: "k' \<noteq> k \<Longrightarrow> jget (jset k x v) k' = jget v k'"
  by (cases v) (auto simp: jget_def jset_def)

lemma is_object_jset [simp]: "is_object (jset k x v) = is_object v"
  by (cases v) (auto simp: is_object_def jset_def)

lemma as_u64_ju64 [simp]: "as_u64 (ju64 w) = Some w"
  by (simp add: as_u64_def ju64_def)

lemma as_str_JStr [simp]: "as_str (JStr s) = Some s"
  by (simp add: as_str_def)

lemma is_object_jobj [simp]: "is_object (jobj kvs)"
  by (simp add: jobj_def is_object_def)

lemma jget_jobj: "jget (jobj kvs) k = map_of (rev kvs) k"
  by (simp add: jobj_def jget_def bt_get_of_list)

end
