(* ===== verification/Lto_Worktree.thy ===== *)
theory Lto_Worktree
  imports Lto_Strings
begin

text \<open>
  \<open>src/src/process.rs\<close>, \<open>src/src/worktree.rs\<close> and \<open>src/src/merge_review.rs\<close>: git
  worktrees, the lease table, and the merge review of a worktree's diff. The world outside (git,
  the file system, the test command) is a state \<open>'w\<close> with the operations of the record
  \<open>world\<close>; the code here decides which of them run, in which order, and what is made of
  their results.
\<close>

subsection \<open>Shell quoting and git\<close>

definition shell_single_quote :: "string \<Rightarrow> string" where
  "shell_single_quote v =
     CHR 0x27 # concat (map (\<lambda>c. if c = CHR 0x27 then [CHR 0x27, CHR 0x5C, CHR 0x27, CHR 0x27] else [c]) v)
     @ [CHR 0x27]"

text \<open>What a POSIX shell reads as one word: single quotes keep everything up to the next one,
  a backslash outside of them keeps the next character.\<close>

fun sh_word :: "bool \<Rightarrow> string \<Rightarrow> string option" where
  "sh_word quoted [] = (if quoted then None else Some [])"
| "sh_word True (c # cs) =
     (if c = CHR 0x27 then sh_word False cs else map_option (Cons c) (sh_word True cs))"
| "sh_word False (c # cs) =
     (if c = CHR 0x27 then sh_word True cs
      else if c = CHR 0x5C
      then (if cs = [] then None else map_option (Cons (hd cs)) (sh_word False (tl cs)))
      else if c \<in> set '' |&;<>()$`*?[#~=%!{}'' \<or> c = CHR 0x22 \<or> c = CHR 0x09 \<or> c = CHR 0x0A then None
      else map_option (Cons c) (sh_word False cs))"

datatype git_error =
    GitIo string
  | NotGitRepo string
  | GitNonZero (gz_args: string) (gz_stderr: string)

record command_output =
  co_success :: bool
  co_code :: "int option"
  co_stdout :: string
  co_stderr :: string

text \<open>The outside: git in a directory, a shell command in a directory, and the file system.\<close>

record 'w world =
  w_git :: "'w \<Rightarrow> string \<Rightarrow> string list \<Rightarrow> (string + command_output) \<times> 'w"
  w_shell :: "'w \<Rightarrow> string \<Rightarrow> string \<Rightarrow> (string + command_output) \<times> 'w"
  w_exists :: "'w \<Rightarrow> string \<Rightarrow> bool"
  w_mkdir :: "'w \<Rightarrow> string \<Rightarrow> (string + unit) \<times> 'w"

definition path_join :: "string \<Rightarrow> string \<Rightarrow> string" where
  "path_join p q = (if prefix ''/'' q then q else if p = [] \<or> suffix ''/'' p then p @ q else p @ ''/'' @ q)"

definition display_args :: "string list \<Rightarrow> string" where
  "display_args args = join_str '' '' args"

definition ensure_git_repo :: "'w world \<Rightarrow> 'w \<Rightarrow> string \<Rightarrow> (git_error + unit) \<times> 'w" where
  "ensure_git_repo W s repo =
     (case w_git W s repo [''rev-parse'', ''--is-inside-work-tree''] of
        (Inl e, s') \<Rightarrow> (Inl (GitIo e), s')
      | (Inr out, s') \<Rightarrow>
          (if co_success out \<and> trim (co_stdout out) = ''true'' then (Inr (), s')
           else (Inl (NotGitRepo repo), s')))"

definition git :: "'w world \<Rightarrow> 'w \<Rightarrow> string \<Rightarrow> string list \<Rightarrow> (git_error + unit) \<times> 'w" where
  "git W s repo args =
     (case w_git W s repo args of
        (Inl e, s') \<Rightarrow> (Inl (GitIo e), s')
      | (Inr out, s') \<Rightarrow>
          (if co_success out then (Inr (), s')
           else (Inl (GitNonZero (display_args args) (trim (co_stderr out))), s')))"

definition git_stdout :: "'w world \<Rightarrow> 'w \<Rightarrow> string \<Rightarrow> string list \<Rightarrow> (git_error + string) \<times> 'w" where
  "git_stdout W s repo args =
     (case w_git W s repo args of
        (Inl e, s') \<Rightarrow> (Inl (GitIo e), s')
      | (Inr out, s') \<Rightarrow>
          (if co_success out then (Inr (trim (co_stdout out)), s')
           else (Inl (GitNonZero (display_args args) (trim (co_stderr out))), s')))"

subsection \<open>Worktrees\<close>

datatype worktree_error =
    WtGit git_error
  | AlreadyLeased string
  | WtIo string

record worktree_handle =
  wh_run_id :: string
  wh_task_id :: string
  wh_path :: string
  wh_base_commit :: string
  wh_keep :: bool

definition worktree_root :: "string \<Rightarrow> string \<Rightarrow> string" where
  "worktree_root repo run_id = path_join (path_join (path_join repo ''.lto'') ''worktrees'') run_id"

definition add_persistent_worktree ::
    "'w world \<Rightarrow> 'w \<Rightarrow> string \<Rightarrow> string \<Rightarrow> string \<Rightarrow> (worktree_error + worktree_handle) \<times> 'w" where
  "add_persistent_worktree W s repo run_id task_id =
     (case ensure_git_repo W s repo of
        (Inl e, s1) \<Rightarrow> (Inl (WtGit e), s1)
      | (Inr _, s1) \<Rightarrow>
     (case git_stdout W s1 repo [''rev-parse'', ''HEAD''] of
        (Inl e, s2) \<Rightarrow> (Inl (WtGit e), s2)
      | (Inr base, s2) \<Rightarrow>
     (case w_mkdir W s2 (worktree_root repo run_id) of
        (Inl e, s3) \<Rightarrow> (Inl (WtIo e), s3)
      | (Inr _, s3) \<Rightarrow>
     (let path = path_join (worktree_root repo run_id) task_id in
      if w_exists W s3 path
      then (Inl (WtIo (''worktree path already exists: '' @ path)), s3)
      else (case git W s3 repo [''worktree'', ''add'', ''--detach'', path, ''HEAD''] of
              (Inl e, s4) \<Rightarrow> (Inl (WtGit e), s4)
            | (Inr _, s4) \<Rightarrow>
                (Inr \<lparr> wh_run_id = run_id, wh_task_id = task_id, wh_path = path,
                       wh_base_commit = base, wh_keep = False \<rparr>, s4))))))"

text \<open>The results of the two git calls are dropped.\<close>

definition prune_worktree :: "'w world \<Rightarrow> 'w \<Rightarrow> string \<Rightarrow> worktree_handle \<Rightarrow> 'w" where
  "prune_worktree W s repo h =
     (if wh_keep h then s
      else let s1 = (if w_exists W s (wh_path h)
                     then snd (git W s repo [''worktree'', ''remove'', ''--force'', wh_path h]) else s)
           in snd (git W s1 repo [''worktree'', ''prune'']))"

text \<open>The lease table: paths and their owners.\<close>

type_synonym lease_table = "string \<rightharpoonup> string"

record lease_guard =
  lg_path :: string
  lg_owner :: string

definition lease_acquire ::
    "lease_table \<Rightarrow> string \<Rightarrow> string \<Rightarrow> worktree_error + (lease_guard \<times> lease_table)" where
  "lease_acquire t path owner =
     (case t path of
        Some existing \<Rightarrow> Inl (AlreadyLeased existing)
      | None \<Rightarrow> Inr (\<lparr> lg_path = path, lg_owner = owner \<rparr>, t(path \<mapsto> owner)))"

definition lease_release :: "lease_table \<Rightarrow> lease_guard \<Rightarrow> lease_table" where
  "lease_release t g =
     (if t (lg_path g) = Some (lg_owner g) then t(lg_path g := None) else t)"

subsection \<open>Merge reviews\<close>

datatype test_status = Passed | TestFailed int | NotRun

record test_result =
  tr_status :: test_status
  tr_command :: "string option"
  tr_stdout :: string
  tr_stderr :: string

record diff_with_tests =
  dw_base_commit :: string
  dw_diff :: string
  dw_test_result :: test_result

datatype test_gate_action = Batchable | ImmediateReport

record audit_opinion =
  op_source :: string
  op_summary :: string

record merge_review =
  mr_diff :: diff_with_tests
  mr_touched_paths :: "string list"
  mr_suggest_audit :: bool
  mr_audit_opinion :: "audit_opinion option"

definition run_test_command :: "'w world \<Rightarrow> 'w \<Rightarrow> string \<Rightarrow> string \<Rightarrow> (string + test_result) \<times> 'w" where
  "run_test_command W s dir cmd =
     (case w_shell W s dir cmd of
        (Inl e, s') \<Rightarrow> (Inl e, s')
      | (Inr out, s') \<Rightarrow>
          (Inr \<lparr> tr_status = (if co_success out then Passed
                               else TestFailed (opt_get_or (- 1) (co_code out))),
                 tr_command = Some cmd, tr_stdout = co_stdout out, tr_stderr = co_stderr out \<rparr>, s'))"

definition has_uncommitted_changes :: "'w world \<Rightarrow> 'w \<Rightarrow> string \<Rightarrow> (git_error + bool) \<times> 'w" where
  "has_uncommitted_changes W s path =
     (case git_stdout W s path [''status'', ''--porcelain''] of
        (Inl e, s') \<Rightarrow> (Inl e, s')
      | (Inr out, s') \<Rightarrow> (Inr (out \<noteq> []), s'))"

definition diff_against_base ::
    "'w world \<Rightarrow> 'w \<Rightarrow> worktree_handle \<Rightarrow> (git_error + string) \<times> 'w" where
  "diff_against_base W s h =
     (let s0 = snd (w_git W s (wh_path h) [''add'', ''-N'', ''.'']) in
      case has_uncommitted_changes W s0 (wh_path h) of
        (Inl e, s1) \<Rightarrow> (Inl e, s1)
      | (Inr changed, s1) \<Rightarrow>
          (if changed
           then git_stdout W s1 (wh_path h) [''diff'', ''--binary'', wh_base_commit h, ''--'']
           else git_stdout W s1 (wh_path h)
                  [''diff'', ''--binary'', wh_base_commit h @ ''...HEAD'', ''--'']))"

datatype diff_error = DiffTest string | DiffGit git_error

definition emit_diff ::
    "'w world \<Rightarrow> 'w \<Rightarrow> worktree_handle \<Rightarrow> string option \<Rightarrow> (diff_error + diff_with_tests) \<times> 'w" where
  "emit_diff W s h test_cmd =
     (case (case test_cmd of
              Some cmd \<Rightarrow> run_test_command W s (wh_path h) cmd
            | None \<Rightarrow> (Inr \<lparr> tr_status = NotRun, tr_command = None, tr_stdout = [], tr_stderr = [] \<rparr>, s)) of
        (Inl e, s1) \<Rightarrow> (Inl (DiffTest e), s1)
      | (Inr t, s1) \<Rightarrow>
          (case diff_against_base W s1 h of
             (Inl e, s2) \<Rightarrow> (Inl (DiffGit e), s2)
           | (Inr d, s2) \<Rightarrow>
               (Inr \<lparr> dw_base_commit = wh_base_commit h, dw_diff = d, dw_test_result = t \<rparr>, s2)))"

definition touched_paths_from_diff :: "string \<Rightarrow> string list" where
  "touched_paths_from_diff diff =
     List.map_filter (\<lambda>rest. map_option snd (split_once '' b/'' rest))
       (List.map_filter (strip_prefix ''diff --git a/'') (str_lines diff))"

definition sensitive_path :: "string \<Rightarrow> bool" where
  "sensitive_path path \<longleftrightarrow>
     contains_str ''security'' path \<or> contains_str ''auth'' path
     \<or> contains_str ''migration'' path \<or> suffix ''.sql'' path"

definition build_merge_review :: "diff_with_tests \<Rightarrow> merge_review" where
  "build_merge_review d =
     (let paths = touched_paths_from_diff (dw_diff d)
      in \<lparr> mr_diff = d, mr_touched_paths = paths,
           mr_suggest_audit =
             (list_ex sensitive_path paths \<or> tr_status (dw_test_result d) \<noteq> Passed),
           mr_audit_opinion = None \<rparr>)"

definition test_gate_action :: "diff_with_tests \<Rightarrow> test_gate_action" where
  "test_gate_action d =
     (case tr_status (dw_test_result d) of
        TestFailed _ \<Rightarrow> ImmediateReport
      | Passed \<Rightarrow> Batchable
      | NotRun \<Rightarrow> Batchable)"

datatype merge_error = MergeGit git_error | NothingToMerge

definition commit_changes ::
    "'w world \<Rightarrow> 'w \<Rightarrow> string \<Rightarrow> string \<Rightarrow> (git_error + unit) \<times> 'w" where
  "commit_changes W s path message =
     (case has_uncommitted_changes W s path of
        (Inl e, s1) \<Rightarrow> (Inl e, s1)
      | (Inr False, s1) \<Rightarrow> (Inr (), s1)
      | (Inr True, s1) \<Rightarrow>
          (case git W s1 path [''add'', ''-A''] of
             (Inl e, s2) \<Rightarrow> (Inl e, s2)
           | (Inr _, s2) \<Rightarrow> git W s2 path [''commit'', ''-m'', message]))"

definition merge_worktree ::
    "'w world \<Rightarrow> 'w \<Rightarrow> string \<Rightarrow> worktree_handle \<Rightarrow> string \<Rightarrow> (merge_error + string) \<times> 'w" where
  "merge_worktree W s repo h message =
     (case commit_changes W s (wh_path h) message of
        (Inl e, s1) \<Rightarrow> (Inl (MergeGit e), s1)
      | (Inr _, s1) \<Rightarrow>
          (case git_stdout W s1 (wh_path h) [''rev-parse'', ''HEAD''] of
             (Inl e, s2) \<Rightarrow> (Inl (MergeGit e), s2)
           | (Inr head, s2) \<Rightarrow>
               (if head = wh_base_commit h then (Inl NothingToMerge, s2)
                else (case git W s2 repo [''merge'', ''--no-ff'', head, ''-m'', message] of
                        (Inl e, s3) \<Rightarrow> (Inl (MergeGit e), s3)
                      | (Inr _, s3) \<Rightarrow> (Inr head, s3)))))"

subsection \<open>Properties\<close>

text \<open>
  A shell that reads the single-quoted form of any value as a word gets exactly that value
  back, with quotes, white space and operators in it taken literally.
\<close>

theorem shell_single_quote_safe: "sh_word False (shell_single_quote v) = Some v"
proof -
  have "sh_word True (concat (map (\<lambda>c. if c = CHR 0x27
      then [CHR 0x27, CHR 0x5C, CHR 0x27, CHR 0x27] else [c]) v) @ [CHR 0x27]) = Some v"
    by (induction v) auto
  then show ?thesis by (simp add: shell_single_quote_def)
qed

lemma lease_acquire_release:
  "lease_acquire t p ow = Inr (g, t') \<Longrightarrow> lease_release t' g = t"
  by (auto simp: lease_acquire_def lease_release_def fun_upd_idem split: option.splits)

end
