(* ===== verification/Lto_Agent_Job.thy ===== *)
theory Lto_Agent_Job
  imports Lto_Json Lto_Worktree
begin

text \<open>
  \<open>src/src/agent_job.rs\<close>: agent jobs, their permission policies and results. Enums that derive
  \<open>Ord\<close> are instances of \<open>linorder\<close> in declaration order.
\<close>

subsection \<open>Vocabulary\<close>

definition KNOWN_RUNNERS :: "string list" where
  "KNOWN_RUNNERS = [''codex'', ''pi'', ''agy'', ''aix'', ''gemini'', ''claude'', ''tmux'']"

definition CODEX_SANDBOXES :: "string list" where
  "CODEX_SANDBOXES = [''read-only'', ''workspace-write'', ''danger-full-access'']"

datatype sandbox = ReadOnly | WorkspaceWrite | DangerFullAccess

datatype agent_job_error =
    UnknownRunner string
  | InvalidSandbox string
  | MissingWorkspaceWriteReason
  | MissingDangerReason
  | MissingDangerApproval
  | HeadlessWriteDenied string sandbox
  | CodexSandboxConflict (csc_actual: string) (csc_expected: string)
  | CannotEnforceReadOnly string
  | ReadOnlyToolsExceeded string "string list"
  | MissingPromptRef
  | InvalidIsolation string
  | InvalidPattern string
  | InvalidEnv

fun sandbox_str :: "sandbox \<Rightarrow> string" where
  "sandbox_str ReadOnly = ''read-only''"
| "sandbox_str WorkspaceWrite = ''workspace-write''"
| "sandbox_str DangerFullAccess = ''danger-full-access''"

definition sandbox_from_str :: "string \<Rightarrow> agent_job_error + sandbox" where
  "sandbox_from_str s =
     (if s = ''read-only'' then Inr ReadOnly
      else if s = ''workspace-write'' then Inr WorkspaceWrite
      else if s = ''danger-full-access'' then Inr DangerFullAccess
      else Inl (InvalidSandbox s))"

lemma sandbox_round_trip: "sandbox_from_str (sandbox_str s) = Inr s"
  by (cases s) (simp_all add: sandbox_from_str_def)

datatype task_size = Small | Medium | Large | UnknownSize

fun size_rank :: "task_size \<Rightarrow> nat" where
  "size_rank Small = 0"
| "size_rank Medium = 1"
| "size_rank Large = 2"
| "size_rank UnknownSize = 3"

lemma size_rank_inj: "size_rank a = size_rank b \<Longrightarrow> a = b"
  by (cases a; cases b) auto

instantiation task_size :: linorder
begin

definition less_eq_task_size :: "task_size \<Rightarrow> task_size \<Rightarrow> bool" where
  "less_eq_task_size a b \<longleftrightarrow> size_rank a \<le> size_rank b"

definition less_task_size :: "task_size \<Rightarrow> task_size \<Rightarrow> bool" where
  "less_task_size a b \<longleftrightarrow> size_rank a < size_rank b"

instance
  by standard (auto simp: less_eq_task_size_def less_task_size_def dest: size_rank_inj)

end

datatype job_status =
    Pending | Running | JobOk | JobFailed | JobTimeout | RateLimited | QuotaExhausted | Skipped

fun job_status_str :: "job_status \<Rightarrow> string" where
  "job_status_str Pending = ''pending''"
| "job_status_str Running = ''running''"
| "job_status_str JobOk = ''ok''"
| "job_status_str JobFailed = ''failed''"
| "job_status_str JobTimeout = ''timeout''"
| "job_status_str RateLimited = ''rate_limited''"
| "job_status_str QuotaExhausted = ''quota_exhausted''"
| "job_status_str Skipped = ''skipped''"

text \<open>The derived \<open>Debug\<close> form, which dependency messages print.\<close>

fun job_status_debug :: "job_status \<Rightarrow> string" where
  "job_status_debug Pending = ''Pending''"
| "job_status_debug Running = ''Running''"
| "job_status_debug JobOk = ''Ok''"
| "job_status_debug JobFailed = ''Failed''"
| "job_status_debug JobTimeout = ''Timeout''"
| "job_status_debug RateLimited = ''RateLimited''"
| "job_status_debug QuotaExhausted = ''QuotaExhausted''"
| "job_status_debug Skipped = ''Skipped''"

definition JOB_STATUS_VALUES :: "string list" where
  "JOB_STATUS_VALUES =
     [''pending'', ''running'', ''ok'', ''failed'', ''timeout'', ''rate_limited'',
      ''quota_exhausted'', ''skipped'']"

definition JOB_STATUS_INPUT_VALUES :: "string list" where
  "JOB_STATUS_INPUT_VALUES =
     [''pending'', ''running'', ''ok'', ''failed'', ''timeout'', ''rate_limited'',
      ''quota_exhausted'', ''skipped'', ''returned'']"

datatype exit_state = ExitOk int | ExitFailed int | SignalKilled | ExitTimeout

definition from_status_code :: "int option \<Rightarrow> bool \<Rightarrow> exit_state" where
  "from_status_code code timed_out =
     (if timed_out then ExitTimeout
      else case code of
        None \<Rightarrow> SignalKilled
      | Some c \<Rightarrow> if c = 0 then ExitOk 0 else if c = 124 then ExitTimeout else ExitFailed c)"

datatype pattern = Linear | FanOut | Adversarial | Tournament | LoopPattern

subsection \<open>Permission policies\<close>

record permission_policy =
  pp_sandbox :: sandbox
  pp_reason :: string
  pp_user_approved :: bool
  pp_allow_headless_write :: bool
  pp_tools :: "string list"

definition default_policy :: permission_policy where
  "default_policy = \<lparr> pp_sandbox = ReadOnly, pp_reason = [], pp_user_approved = False,
     pp_allow_headless_write = False, pp_tools = [] \<rparr>"

definition readonly_tool_allowlist :: "string \<Rightarrow> string list" where
  "readonly_tool_allowlist runner =
     (if runner = ''claude'' then [''Glob'', ''Grep'', ''Read'', ''WebFetch'']
      else if runner = ''pi'' then [''find'', ''grep'', ''ls'', ''read'']
      else [])"

text \<open>The \<open>match self.sandbox\<close> with its guards.\<close>

definition check_sandbox_reason :: "permission_policy \<Rightarrow> agent_job_error + unit" where
  "check_sandbox_reason p =
     (case pp_sandbox p of
        ReadOnly \<Rightarrow> Inr ()
      | WorkspaceWrite \<Rightarrow> if trim (pp_reason p) = [] then Inl MissingWorkspaceWriteReason else Inr ()
      | DangerFullAccess \<Rightarrow>
          if trim (pp_reason p) = [] then Inl MissingDangerReason
          else if \<not> pp_user_approved p then Inl MissingDangerApproval
          else Inr ())"

definition extra_tools :: "permission_policy \<Rightarrow> string \<Rightarrow> string list" where
  "extra_tools p runner = sort (filter (\<lambda>t. t \<notin> set (readonly_tool_allowlist runner)) (pp_tools p))"

text \<open>The arms of \<open>match runner\<close>.\<close>

definition cannot_enforce_read_only :: "string \<Rightarrow> bool" where
  "cannot_enforce_read_only runner \<longleftrightarrow> runner \<in> set [''agy'', ''gemini'', ''tmux'']"

definition takes_tool_list :: "string \<Rightarrow> bool" where
  "takes_tool_list runner \<longleftrightarrow> runner \<in> set [''claude'', ''pi'']"

definition check_runner_limits ::
    "permission_policy \<Rightarrow> string \<Rightarrow> (string, string) btree \<Rightarrow> agent_job_error + unit" where
  "check_runner_limits p runner env =
     (if runner = ''codex'' then
        (let actual = opt_get_or (sandbox_str (pp_sandbox p)) (bt_get env ''CODEX_SANDBOX'')
         in if actual \<noteq> sandbox_str (pp_sandbox p)
            then Inl (CodexSandboxConflict actual (sandbox_str (pp_sandbox p))) else Inr ())
      else if cannot_enforce_read_only runner \<and> pp_sandbox p = ReadOnly
      then Inl (CannotEnforceReadOnly runner)
      else if takes_tool_list runner \<and> pp_sandbox p = ReadOnly \<and> pp_tools p \<noteq> [] then
        (let extra = extra_tools p runner
         in if extra \<noteq> [] then Inl (ReadOnlyToolsExceeded runner extra) else Inr ())
      else Inr ())"

definition validate_for_runner ::
    "permission_policy \<Rightarrow> string \<Rightarrow> (string, string) btree \<Rightarrow> agent_job_error + unit" where
  "validate_for_runner p runner env =
     (if runner \<notin> set KNOWN_RUNNERS then Inl (UnknownRunner runner)
      else bindr (check_sandbox_reason p) (\<lambda>_.
        if pp_sandbox p \<noteq> ReadOnly \<and> runner \<noteq> ''tmux'' \<and> \<not> pp_allow_headless_write p
        then Inl (HeadlessWriteDenied runner (pp_sandbox p))
        else check_runner_limits p runner env))"

definition effective_readonly_tools :: "permission_policy \<Rightarrow> string \<Rightarrow> string list" where
  "effective_readonly_tools p runner =
     (if pp_sandbox p \<noteq> ReadOnly \<or> \<not> takes_tool_list runner then []
      else if pp_tools p \<noteq> [] then pp_tools p
      else readonly_tool_allowlist runner)"

definition readonly_intent_to_policy :: "string \<Rightarrow> permission_policy" where
  "readonly_intent_to_policy runner =
     (if runner \<in> set [''agy'', ''tmux''] then
        \<lparr> pp_sandbox = WorkspaceWrite,
          pp_reason =
            (if runner = ''tmux''
             then ''tmux targets an existing pane and cannot enforce read-only; workspace-write is the honest minimum permission snapshot''
             else ''agy has no read-only sandbox; workspace-write is the minimal enforceable level to keep agy'' @ [CHR 0x27] @ ''s heterogeneous review lens''),
          pp_user_approved = False, pp_allow_headless_write = (runner = ''agy''), pp_tools = [] \<rparr>
      else default_policy)"

subsection \<open>Jobs and results\<close>

record job_budget =
  jb_timeout_sec :: u64
  jb_max_tokens :: "u64 option"

definition default_job_budget :: job_budget where
  "default_job_budget = \<lparr> jb_timeout_sec = 300, jb_max_tokens = None \<rparr>"

record retry_policy =
  rp_max_retries :: u32
  rp_backoff_sec :: f64
  rp_retry_on :: "job_status list"

definition default_retry_policy :: retry_policy where
  "default_retry_policy = \<lparr> rp_max_retries = 1, rp_backoff_sec = Fin 5,
     rp_retry_on = [RateLimited, JobTimeout] \<rparr>"

record agent_job =
  aj_job_id :: string
  aj_prompt_ref :: string
  aj_runner :: string
  aj_prompt_is_inline :: bool
  aj_model :: "string option"
  aj_env :: "(string, string) btree"
  aj_permission_policy :: permission_policy
  aj_isolation :: string
  aj_output_schema :: "json option"
  aj_parent_pattern :: pattern
  aj_budget :: job_budget
  aj_retry_policy :: retry_policy
  aj_verifier_of :: "string option"
  aj_children :: "string list"
  aj_task_type :: "string option"
  aj_size :: task_size
  aj_test_cmd :: "string option"
  aj_needs_worktree :: bool
  aj_meta :: json_map

definition job_validate :: "agent_job \<Rightarrow> agent_job_error + unit" where
  "job_validate j =
     (if aj_runner j \<notin> set KNOWN_RUNNERS then Inl (UnknownRunner (aj_runner j))
      else if aj_isolation j \<notin> set [''none'', ''worktree''] then Inl (InvalidIsolation (aj_isolation j))
      else if aj_prompt_ref j = [] then Inl MissingPromptRef
      else validate_for_runner (aj_permission_policy j) (aj_runner j) (aj_env j))"

record agent_result =
  ar_job_id :: string
  ar_runner :: string
  ar_model :: "string option"
  ar_status :: job_status
  ar_exit_code :: "int option"
  ar_findings :: "json list"
  ar_reply_text :: string
  ar_cost :: json_map
  ar_permissions :: json_map
  ar_artifacts :: "string list"
  ar_attempts :: u32
  ar_error :: string
  ar_task_type :: "string option"
  ar_size :: task_size
  ar_merge_review :: "merge_review option"

definition result_ok :: "agent_result \<Rightarrow> bool" where
  "result_ok r \<longleftrightarrow> ar_status r = JobOk"

definition finding_severity :: "json \<Rightarrow> string option" where
  "finding_severity f = jget_str f ''severity''"

text \<open>One finding: an entry of the table is counted, another severity is not.\<close>

definition count_severity :: "(string, nat) btree \<Rightarrow> json \<Rightarrow> (string, nat) btree" where
  "count_severity counts f =
     (case finding_severity f of
        None \<Rightarrow> counts
      | Some sev \<Rightarrow>
          (case bt_get counts (to_ascii_lowercase sev) of
             None \<Rightarrow> counts
           | Some n \<Rightarrow> bt_insert (to_ascii_lowercase sev) (n + 1) counts))"

definition severity_counts :: "agent_result \<Rightarrow> (string, nat) btree" where
  "severity_counts r =
     foldl count_severity
       (bt_of_list [(''critical'', 0), (''high'', 0), (''medium'', 0), (''low'', 0)])
       (ar_findings r)"

subsection \<open>Properties\<close>

lemma extra_tools_Nil: "extra_tools p runner = [] \<longleftrightarrow> set (pp_tools p) \<subseteq> set (readonly_tool_allowlist runner)"
proof -
  have "extra_tools p runner = [] \<longleftrightarrow> filter (\<lambda>t. t \<notin> set (readonly_tool_allowlist runner)) (pp_tools p) = []"
    unfolding extra_tools_def by (simp del: length_0_conv flip: length_0_conv)
  then show ?thesis by (auto simp: filter_empty_conv)
qed

lemma check_sandbox_reason_ok:
  "check_sandbox_reason p = Inr () \<longleftrightarrow>
     (pp_sandbox p = ReadOnly \<or> trim (pp_reason p) \<noteq> [] \<and> (pp_sandbox p = DangerFullAccess \<longrightarrow> pp_user_approved p))"
  by (cases "pp_sandbox p") (auto simp: check_sandbox_reason_def)

lemma codex_limit:
  "check_runner_limits p ''codex'' env = Inr () \<longleftrightarrow>
     bt_get env ''CODEX_SANDBOX'' \<in> {None, Some (sandbox_str (pp_sandbox p))}"
  by (cases "bt_get env ''CODEX_SANDBOX''") (auto simp: check_runner_limits_def Let_def)

lemma other_limits:
  assumes "runner \<noteq> ''codex''"
  shows "check_runner_limits p runner env = Inr () \<longleftrightarrow>
     (pp_sandbox p = ReadOnly \<longrightarrow> \<not> cannot_enforce_read_only runner
        \<and> (takes_tool_list runner \<longrightarrow>
             set (effective_readonly_tools p runner) \<subseteq> set (readonly_tool_allowlist runner)))"
proof (cases "pp_sandbox p = ReadOnly \<and> takes_tool_list runner \<and> pp_tools p \<noteq> []")
  case True
  with assms show ?thesis
    by (simp add: check_runner_limits_def effective_readonly_tools_def extra_tools_Nil Let_def)
next
  case False
  with assms show ?thesis
    by (auto simp add: check_runner_limits_def effective_readonly_tools_def)
qed

text \<open>
  C32: The permission policy a runner accepts: the runner is known; a read-only policy needs a
  runner that can enforce it, and the tools it would expose are within the runner's read-only
  allowlist; a writing policy needs a reason, a dangerous one also the user's approval, and a
  headless runner the explicit permission to write; and codex is never given an environment that
  contradicts the policy's sandbox.
\<close>

theorem validate_for_runner_accepts:
  "validate_for_runner p runner env = Inr () \<longleftrightarrow>
     runner \<in> set KNOWN_RUNNERS
     \<and> (if pp_sandbox p = ReadOnly
        then \<not> cannot_enforce_read_only runner
             \<and> (takes_tool_list runner \<longrightarrow>
                  set (effective_readonly_tools p runner) \<subseteq> set (readonly_tool_allowlist runner))
        else trim (pp_reason p) \<noteq> [] \<and> (pp_sandbox p = DangerFullAccess \<longrightarrow> pp_user_approved p)
             \<and> (runner = ''tmux'' \<or> pp_allow_headless_write p))
     \<and> (runner = ''codex'' \<longrightarrow>
          bt_get env ''CODEX_SANDBOX'' \<in> {None, Some (sandbox_str (pp_sandbox p))})"
proof -
  have "validate_for_runner p runner env = Inr () \<longleftrightarrow>
      runner \<in> set KNOWN_RUNNERS \<and> check_sandbox_reason p = Inr ()
      \<and> (pp_sandbox p = ReadOnly \<or> runner = ''tmux'' \<or> pp_allow_headless_write p)
      \<and> check_runner_limits p runner env = Inr ()"
    by (cases "check_sandbox_reason p") (auto simp: validate_for_runner_def)
  note split = this [unfolded check_sandbox_reason_ok]
  show ?thesis
  proof (cases "runner = ''codex''")
    case True
    have "check_runner_limits p runner env = Inr () \<longleftrightarrow>
        bt_get env ''CODEX_SANDBOX'' \<in> {None, Some (sandbox_str (pp_sandbox p))}"
      unfolding True by (rule codex_limit)
    moreover have "runner \<noteq> ''tmux'' \<and> \<not> cannot_enforce_read_only runner \<and> \<not> takes_tool_list runner"
      unfolding True by code_simp
    ultimately show ?thesis
      using split True by argo
  next
    case False
    show ?thesis using split other_limits [OF False, of p env] False by argo
  qed
qed

lemma validate_for_runner_accepts_witness:
  "set (effective_readonly_tools (default_policy\<lparr>pp_tools := [''ls'']\<rparr>) ''pi'')
     \<subseteq> set (readonly_tool_allowlist ''pi'')"
proof -
  have "validate_for_runner (default_policy\<lparr>pp_tools := [''ls'']\<rparr>) ''pi'' [] = Inr ()"
    and "takes_tool_list ''pi''" by code_simp+
  then show ?thesis
    unfolding validate_for_runner_accepts by (simp add: default_policy_def)
qed

text \<open>
  The policy built for a read-only intent passes the runner's own validation for every known
  runner except gemini, which cannot enforce the read-only policy it is given.
\<close>

theorem readonly_intent_validates:
  "validate_for_runner (readonly_intent_to_policy runner) runner [] = Inr ()
     \<longleftrightarrow> runner \<in> set KNOWN_RUNNERS \<and> runner \<noteq> ''gemini''"
proof -
  have "runner \<in> set KNOWN_RUNNERS \<Longrightarrow>
      list_all (\<lambda>r. (validate_for_runner (readonly_intent_to_policy r) r [] = Inr ()) = (r \<noteq> ''gemini'')) KNOWN_RUNNERS"
    by code_simp
  then show ?thesis
    by (cases "runner \<in> set KNOWN_RUNNERS") (auto simp: list_all_iff validate_for_runner_def)
qed

lemma count_severity_fold:
  "bt_get (foldl count_severity counts fs) k =
     map_option (\<lambda>n. n + length (filter (\<lambda>f. map_option to_ascii_lowercase (finding_severity f) = Some k) fs))
       (bt_get counts k)"
  by (induction fs arbitrary: counts)
     (auto simp: count_severity_def bt_get_insert option.map_comp comp_def option.map_ident split: option.splits)

lemma severity_counts_spec:
  "bt_get (severity_counts r) k =
     (if k \<in> {''critical'', ''high'', ''medium'', ''low''}
      then Some (length (filter (\<lambda>f. map_option to_ascii_lowercase (finding_severity f) = Some k) (ar_findings r)))
      else None)"
proof -
  have b: "bt_get (bt_of_list [(''critical'', 0), (''high'', 0), (''medium'', 0), (''low'', 0)]) k =
      (if k \<in> {''critical'', ''high'', ''medium'', ''low''} then Some (0::nat) else None)"
    by (simp add: bt_of_list_def bt_get_insert)
  show ?thesis unfolding severity_counts_def count_severity_fold b by simp
qed

end
