(* ===== verification/Lto_Dispatch.thy ===== *)
theory Lto_Dispatch
  imports Lto_Agent_Job
begin

text \<open>
  \<open>src/src/dispatch.rs\<close>: task sizes, capability cells from past results, and the ranking of
  runners. Instants are nanoseconds; \<open>0.5_f64.powf\<close> is the parameter \<open>half_pow\<close> (the standard
  library leaves its rounding open).
\<close>

definition PRIOR_WEIGHT_K :: f64 where
  "PRIOR_WEIGHT_K = Fin 5"

definition HALF_LIFE_DAYS :: f64 where
  "HALF_LIFE_DAYS = Fin 30"

record capability_cell =
  cc_runner :: string
  cc_task_type :: string
  cc_size :: task_size
  cc_n :: u32
  cc_posterior :: f64
  cc_prior :: f64
  cc_last_seen :: "int option"

definition num_seconds :: "int \<Rightarrow> int" where
  "num_seconds d = (if 0 \<le> d then d div 1000000000 else - ((- d) div 1000000000))"

definition decayed_n :: "(f64 \<Rightarrow> f64) \<Rightarrow> capability_cell \<Rightarrow> int \<Rightarrow> f64" where
  "decayed_n half_pow c now =
     (case cc_last_seen c of
        None \<Rightarrow> f_of_int (uint (cc_n c))
      | Some t \<Rightarrow>
          (let age_days = f_div (f_of_int (max 0 (num_seconds (now - t)))) (Fin 86400)
           in f_mul (f_of_int (uint (cc_n c))) (half_pow (f_div age_days HALF_LIFE_DAYS))))"

definition cell_score :: "(f64 \<Rightarrow> f64) \<Rightarrow> capability_cell \<Rightarrow> int \<Rightarrow> f64" where
  "cell_score half_pow c now =
     (let d = decayed_n half_pow c now
      in f_add (f_mul (f_div d (f_add d PRIOR_WEIGHT_K)) (cc_posterior c))
               (f_mul (f_div PRIOR_WEIGHT_K (f_add d PRIOR_WEIGHT_K)) (cc_prior c)))"

record task_descriptor =
  td_task_type :: string
  td_size :: task_size
  td_prompt_tokens :: u64
  td_expected_output_tokens :: u64

definition size_of_tokens :: "u64 \<Rightarrow> task_size" where
  "size_of_tokens n = (if n \<le> 8000 then Small else if n \<le> 40000 then Medium else Large)"

definition from_tokens :: "string \<Rightarrow> u64 \<Rightarrow> u64 \<Rightarrow> task_descriptor" where
  "from_tokens task_type p e =
     \<lparr> td_task_type = task_type, td_size = size_of_tokens (sat_add p e),
       td_prompt_tokens = p, td_expected_output_tokens = e \<rparr>"

record ranked_candidate =
  rc_runner :: string
  rc_rank :: nat
  rc_score :: f64
  rc_p_complete :: f64
  rc_expected_seconds_p50 :: "f64 option"
  rc_hard_constraints :: "string list"
  rc_facts :: json_map

type_synonym cell_key = "string \<times> string \<times> task_size"

text \<open>The key \<open>(String, String, TaskSize)\<close> compares lexicographically.\<close>

definition cell_key_less :: "cell_key \<Rightarrow> cell_key \<Rightarrow> bool" where
  "cell_key_less a b =
     (case (a, b) of ((r, t, s), (r', t', s')) \<Rightarrow>
        r < r' \<or> (r = r' \<and> (t < t' \<or> (t = t' \<and> s < s'))))"

fun count_result :: "cell_key \<Rightarrow> bool \<Rightarrow> (cell_key \<times> u32 \<times> u32) list \<Rightarrow> (cell_key \<times> u32 \<times> u32) list" where
  "count_result k ok [] = [(k, 1, if ok then 1 else 0)]"
| "count_result k ok ((k', n, m) # rest) =
     (if k = k' then (k', n + 1, if ok then m + 1 else m) # rest
      else if cell_key_less k k' then (k, 1, if ok then 1 else 0) # (k', n, m) # rest
      else (k', n, m) # count_result k ok rest)"

definition result_key :: "agent_result \<Rightarrow> cell_key" where
  "result_key r = (ar_runner r, opt_get_or ''unknown'' (ar_task_type r), ar_size r)"

definition grouped_results :: "agent_result list \<Rightarrow> (cell_key \<times> u32 \<times> u32) list" where
  "grouped_results rs = foldl (\<lambda>g r. count_result (result_key r) (ar_status r = JobOk) g) [] rs"

definition cell_of_group :: "cell_key \<times> u32 \<times> u32 \<Rightarrow> capability_cell" where
  "cell_of_group g =
     (case g of ((r, t, s), n, ok) \<Rightarrow>
        \<lparr> cc_runner = r, cc_task_type = t, cc_size = s, cc_n = n,
          cc_posterior = f_div (f_of_int (uint ok)) (f_of_int (max 1 (uint n))),
          cc_prior = fl (55 / 100), cc_last_seen = None \<rparr>)"

definition build_cells_from_results :: "agent_result list \<Rightarrow> capability_cell list" where
  "build_cells_from_results rs = map cell_of_group (grouped_results rs)"

text \<open>\<open>total_cmp\<close>, with a NaN above the infinities.\<close>

definition f_total_le :: "f64 \<Rightarrow> f64 \<Rightarrow> bool" where
  "f_total_le a b \<longleftrightarrow> b = NaN \<or> f_le a b"

definition candidate_le :: "ranked_candidate \<Rightarrow> ranked_candidate \<Rightarrow> bool" where
  "candidate_le a b \<longleftrightarrow>
     (if rc_score a = rc_score b then rc_runner a \<le> rc_runner b
      else f_total_le (rc_score b) (rc_score a))"

definition candidate_of ::
    "(f64 \<Rightarrow> f64) \<Rightarrow> task_descriptor \<Rightarrow> capability_cell list \<Rightarrow> int \<Rightarrow> string \<times> f64 \<Rightarrow> ranked_candidate" where
  "candidate_of half_pow task cells now rp =
     (case rp of (runner, prior) \<Rightarrow>
        (let matching = find (\<lambda>c. cc_runner c = runner \<and> cc_task_type c = td_task_type task
                                  \<and> cc_size c = td_size task) cells;
             (score, n, posterior) =
               (case matching of
                  Some c \<Rightarrow> (cell_score half_pow c now, cc_n c, cc_posterior c)
                | None \<Rightarrow> (prior, 0, prior))
         in \<lparr> rc_runner = runner, rc_rank = 0, rc_score = score, rc_p_complete = score,
              rc_expected_seconds_p50 = None, rc_hard_constraints = [],
              rc_facts = bt_of_list [(''sample_count'', JInt (uint n)),
                                     (''posterior'', JFloat posterior), (''prior'', JFloat prior)] \<rparr>))"

definition number_ranks :: "ranked_candidate list \<Rightarrow> ranked_candidate list" where
  "number_ranks cs = map (\<lambda>(i, c). c\<lparr>rc_rank := i + 1\<rparr>) (enumerate 0 cs)"

definition dispatch_candidates ::
    "(f64 \<Rightarrow> f64) \<Rightarrow> task_descriptor \<Rightarrow> capability_cell list \<Rightarrow> (string, f64) btree \<Rightarrow> int
     \<Rightarrow> ranked_candidate list" where
  "dispatch_candidates half_pow task cells priors now =
     number_ranks (sort_by candidate_le (map (candidate_of half_pow task cells now) priors))"

definition same_cell_failure :: "string \<Rightarrow> string \<Rightarrow> task_size \<Rightarrow> agent_result \<Rightarrow> bool" where
  "same_cell_failure runner task_type sz r \<longleftrightarrow>
     ar_runner r = runner \<and> opt_get_or ''unknown'' (ar_task_type r) = task_type
     \<and> ar_size r = sz \<and> ar_status r \<noteq> JobOk"

definition should_escalate_same_cell ::
    "agent_result list \<Rightarrow> string \<Rightarrow> string \<Rightarrow> task_size \<Rightarrow> bool" where
  "should_escalate_same_cell failures runner task_type sz =
     (2 \<le> length (take 2 (filter (same_cell_failure runner task_type sz) (rev failures))))"

subsection \<open>Properties\<close>

lemma f_total_le_order:
  "f_total_le a b \<or> f_total_le b a"
  "f_total_le a b \<Longrightarrow> f_total_le b a \<Longrightarrow> a = b"
  "f_total_le a b \<Longrightarrow> f_total_le b c \<Longrightarrow> f_total_le a c"
proof -
  show "f_total_le a b \<or> f_total_le b a"
    by (cases a; cases b) (auto simp: f_total_le_def)
  show "f_total_le a b \<Longrightarrow> f_total_le b a \<Longrightarrow> a = b"
    by (cases a; cases b) (auto simp: f_total_le_def)
  show "f_total_le a b \<Longrightarrow> f_total_le b c \<Longrightarrow> f_total_le a c"
    by (cases a; cases b; cases c) (auto simp: f_total_le_def)
qed

lemma candidate_le_total: "candidate_le a b \<or> candidate_le b a"
  using f_total_le_order(1) [of "rc_score a" "rc_score b"] linear [of "rc_runner a" "rc_runner b"]
  by (auto simp: candidate_le_def)

lemma candidate_le_score: "candidate_le a b \<Longrightarrow> f_total_le (rc_score b) (rc_score a)"
  using f_total_le_order(1) [of "rc_score a" "rc_score a"]
  by (cases "rc_score a = rc_score b") (simp_all add: candidate_le_def)

lemma candidate_le_trans:
  assumes "candidate_le a b" "candidate_le b c"
  shows "candidate_le a c"
proof (cases "rc_score a = rc_score b \<and> rc_score b = rc_score c")
  case True
  with assms order_trans [of "rc_runner a" "rc_runner b" "rc_runner c"] show ?thesis
    by (simp add: candidate_le_def)
next
  case False
  have ba: "f_total_le (rc_score b) (rc_score a)" and cb: "f_total_le (rc_score c) (rc_score b)"
    using assms by (simp_all add: candidate_le_score)
  have "rc_score a \<noteq> rc_score c"
  proof
    assume eq: "rc_score a = rc_score c"
    with ba have "f_total_le (rc_score b) (rc_score c)" by (simp only:)
    then have "rc_score b = rc_score c" using cb by (rule f_total_le_order(2))
    with eq False show False by (simp only: simp_thms)
  qed
  with f_total_le_order(3) [OF cb ba] show ?thesis by (simp add: candidate_le_def)
qed

lemma map_snd_of_enumerate: "map (\<lambda>x. f (snd x)) (enumerate n xs) = map f xs"
  using map_map [of f snd "enumerate n xs"] by (simp add: comp_def)

lemma number_ranks_fields:
  "map rc_runner (number_ranks cs) = map rc_runner cs"
  "map rc_rank (number_ranks cs) = [1..<length cs + 1]"
  "map rc_score (number_ranks cs) = map rc_score cs"
proof -
  show "map rc_runner (number_ranks cs) = map rc_runner cs"
    "map rc_score (number_ranks cs) = map rc_score cs"
    by (simp_all add: number_ranks_def comp_def split_beta map_snd_of_enumerate)
  show "map rc_rank (number_ranks cs) = [1..<length cs + 1]"
    by (rule nth_equalityI) (simp_all add: number_ranks_def nth_enumerate_eq del: upt_Suc)
qed

text \<open>
  The ranking lists every runner that has a prior exactly once, numbers the ranks from 1, and
  never places a runner below one with a smaller score (a NaN score ranks first).
\<close>

theorem dispatch_candidates_ranking:
  "mset (map rc_runner (dispatch_candidates h task cells priors now)) = mset (map fst priors)
   \<and> map rc_rank (dispatch_candidates h task cells priors now) = [1..<length priors + 1]
   \<and> sorted_wrt (\<lambda>a b. f_total_le (rc_score b) (rc_score a))
       (dispatch_candidates h task cells priors now)"
proof -
  let ?cs = "sort_by candidate_le (map (candidate_of h task cells now) priors)"
  have runner: "rc_runner (candidate_of h task cells now p) = fst p" for p
    by (cases p) (simp add: candidate_of_def Let_def split: option.splits)
  have "mset (map rc_runner ?cs) = mset (map fst priors)"
    by (simp add: multiset.map_comp comp_def runner)
  moreover have "sorted_wrt candidate_le ?cs"
    by (rule sorted_sort_by [OF candidate_le_total candidate_le_trans])
  then have "sorted_wrt (\<lambda>a b. f_total_le (rc_score b) (rc_score a)) ?cs"
    by (rule sorted_wrt_mono_rel [rotated]) (rule candidate_le_score)
  then have "sorted_wrt (\<lambda>a b. f_total_le b a) (map rc_score ?cs)"
    by (simp add: sorted_wrt_map)
  then have "sorted_wrt (\<lambda>a b. f_total_le (rc_score b) (rc_score a)) (number_ranks ?cs)"
    using sorted_wrt_map [of "\<lambda>a b. f_total_le b a" rc_score] by (metis number_ranks_fields(3))
  ultimately show ?thesis
    unfolding dispatch_candidates_def by (simp add: number_ranks_fields)
qed

end
