(* ===== verification/Lto_Scheduler.thy ===== *)
theory Lto_Scheduler
  imports Lto_Dispatch
begin

text \<open>
  \<open>src/src/scheduler.rs\<close>: batch validation, the health probe, retries with back-off, one
  attempt of a job, and the execution of a dependency graph of jobs. What happens outside (the
  processes, the clock, the order in which parallel tasks finish) is an argument: the record
  \<open>attempt_world\<close> for one attempt, \<open>once\<close> for the attempts of a job, \<open>run\<close> for the
  finished jobs and \<open>picks\<close> for the completion order. \<open>None\<close> as a result is a panic.
\<close>

subsection \<open>Configuration and errors\<close>

record scheduler_config =
  sc_max_total_agents :: nat
  sc_max_concurrency :: nat
  sc_max_backoff_sec :: f64
  sc_total_retry_wall_sec :: f64
  sc_healthcheck_retries :: u32
  sc_stall_timeout_sec :: "u64 option"
  sc_heartbeat_interval_sec :: u64
  sc_drain_after_exit_timeout_sec :: u64

definition default_config :: scheduler_config where
  "default_config = \<lparr> sc_max_total_agents = 50, sc_max_concurrency = 4,
     sc_max_backoff_sec = Fin 60, sc_total_retry_wall_sec = Fin 300, sc_healthcheck_retries = 1,
     sc_stall_timeout_sec = None, sc_heartbeat_interval_sec = 30,
     sc_drain_after_exit_timeout_sec = 5 \<rparr>"

datatype scheduler_error =
    TooManyJobs (tmj_count: nat) (tmj_limit: nat)
  | DuplicateJobId string
  | DependencyCycle
  | InvalidJob (ij_job_id: string) (ij_source: agent_job_error)
  | JoinError
  | RuntimeError string

fun validate_jobs :: "string list \<Rightarrow> agent_job list \<Rightarrow> scheduler_error + unit" where
  "validate_jobs seen [] = Inr ()"
| "validate_jobs seen (j # js) =
     (if aj_job_id j \<in> set seen then Inl (DuplicateJobId (aj_job_id j))
      else case job_validate j of
        Inl e \<Rightarrow> Inl (InvalidJob (aj_job_id j) e)
      | Inr _ \<Rightarrow> validate_jobs (aj_job_id j # seen) js)"

definition validate_batch :: "agent_job list \<Rightarrow> scheduler_config \<Rightarrow> scheduler_error + unit" where
  "validate_batch jobs config =
     (if length jobs > sc_max_total_agents config
      then Inl (TooManyJobs (length jobs) (sc_max_total_agents config))
      else validate_jobs [] jobs)"

subsection \<open>Exit classification\<close>

definition RATE_LIMIT_MARKERS :: "string list" where
  "RATE_LIMIT_MARKERS =
     [''429'', ''too many requests'', ''rate limit'', ''rate_limit'', ''rate limited'']"

definition QUOTA_EXHAUSTED_MARKERS :: "string list" where
  "QUOTA_EXHAUSTED_MARKERS =
     [''insufficient_quota'', ''insufficient quota'', ''exceeded your current quota'',
      ''quota exceeded'', ''quota reached'', ''upgrade your subscription'', ''out of credits'',
      ''credits_depleted'', ''credit balance'', ''billing hard limit'',
      ''check your plan and billing'']"

definition contains_ascii_case_insensitive :: "string \<Rightarrow> string \<Rightarrow> bool" where
  "contains_ascii_case_insensitive haystack needle \<longleftrightarrow>
     needle \<noteq> [] \<and> contains_str (to_ascii_lowercase needle) (to_ascii_lowercase haystack)"

definition contains_rate_limit_marker :: "string \<Rightarrow> bool" where
  "contains_rate_limit_marker text = list_ex (contains_ascii_case_insensitive text) RATE_LIMIT_MARKERS"

definition contains_quota_exhausted_marker :: "string \<Rightarrow> bool" where
  "contains_quota_exhausted_marker text =
     list_ex (contains_ascii_case_insensitive text) QUOTA_EXHAUSTED_MARKERS"

record classified_exit =
  ce_exit_code :: int
  ce_status :: job_status
  ce_error :: string

definition exit_error :: "int \<Rightarrow> string \<Rightarrow> string" where
  "exit_error code stderr =
     ''exit code '' @ show_int code
     @ (let s = trim stderr in
        if s = [] then []
        else '': '' @ chars_take 500 s @ (if chars_count s > 500 then ''...'' else []))"

definition quota_error :: "string \<Rightarrow> int \<Rightarrow> string" where
  "quota_error runner code =
     runner @ '' quota/credits exhausted (exit='' @ show_int code
     @ ''); retrying will not help '' @ [CHR 0xE2, CHR 0x80, CHR 0x94]
     @ '' switch runner or top up the account''"

definition classify_exit :: "string \<Rightarrow> int \<Rightarrow> string \<Rightarrow> string \<Rightarrow> classified_exit" where
  "classify_exit runner code reply stderr =
     (if code = 0 then
        (if reply = []
         then \<lparr> ce_exit_code = code, ce_status = JobFailed, ce_error = ''exit 0 but empty reply'' \<rparr>
         else \<lparr> ce_exit_code = code, ce_status = JobOk, ce_error = [] \<rparr>)
      else if contains_quota_exhausted_marker stderr \<or> contains_quota_exhausted_marker reply
      then \<lparr> ce_exit_code = code, ce_status = QuotaExhausted, ce_error = quota_error runner code \<rparr>
      else if contains_rate_limit_marker stderr \<or> contains_rate_limit_marker reply
      then \<lparr> ce_exit_code = code, ce_status = RateLimited,
             ce_error = ''rate limited (exit='' @ show_int code @ '')'' \<rparr>
      else if code = 124
      then \<lparr> ce_exit_code = code, ce_status = JobTimeout, ce_error = ''timeout (exit 124)'' \<rparr>
      else \<lparr> ce_exit_code = code, ce_status = JobFailed, ce_error = exit_error code stderr \<rparr>)"

subsection \<open>Results\<close>

definition permission_snapshot :: "permission_policy \<Rightarrow> json_map" where
  "permission_snapshot p =
     bt_of_list [(''sandbox'', JStr (sandbox_str (pp_sandbox p))), (''reason'', JStr (pp_reason p)),
                 (''user_approved'', JBool (pp_user_approved p)),
                 (''allow_headless_write'', JBool (pp_allow_headless_write p))]"

definition blank_result :: "agent_job \<Rightarrow> job_status \<Rightarrow> agent_result" where
  "blank_result j st =
     \<lparr> ar_job_id = aj_job_id j, ar_runner = aj_runner j, ar_model = aj_model j, ar_status = st,
       ar_exit_code = None, ar_findings = [], ar_reply_text = [], ar_cost = [],
       ar_permissions = [], ar_artifacts = [], ar_attempts = 0, ar_error = [],
       ar_task_type = aj_task_type j, ar_size = aj_size j, ar_merge_review = None \<rparr>"

definition result_from_attempt ::
    "agent_job \<Rightarrow> int \<Rightarrow> string \<Rightarrow> string \<Rightarrow> u32 \<Rightarrow> agent_result" where
  "result_from_attempt j code reply stderr attempts =
     (let c = classify_exit (aj_runner j) code reply stderr
      in (blank_result j (ce_status c))
           \<lparr> ar_exit_code := Some (ce_exit_code c), ar_reply_text := reply,
             ar_attempts := attempts, ar_error := ce_error c \<rparr>)"

definition skipped_for_unhealthy :: "agent_job \<Rightarrow> agent_result" where
  "skipped_for_unhealthy j =
     (blank_result j Skipped)\<lparr> ar_error := ''runner unhealthy: '' @ aj_runner j \<rparr>"

definition failure_result :: "agent_job \<Rightarrow> u32 \<Rightarrow> int option \<Rightarrow> string \<Rightarrow> agent_result" where
  "failure_result j attempts code err =
     (blank_result j JobFailed)
       \<lparr> ar_exit_code := code, ar_permissions := permission_snapshot (aj_permission_policy j),
         ar_attempts := attempts, ar_error := err \<rparr>"

definition timeout_result :: "agent_job \<Rightarrow> u32 \<Rightarrow> string \<Rightarrow> string \<Rightarrow> agent_result" where
  "timeout_result j attempts reply err =
     (failure_result j attempts (Some 124) [])
       \<lparr> ar_status := JobTimeout, ar_exit_code := Some 124, ar_reply_text := reply, ar_error := err \<rparr>"

definition skipped_for_dependency :: "agent_job \<Rightarrow> string \<Rightarrow> agent_result" where
  "skipped_for_dependency j reason =
     (blank_result j Skipped)
       \<lparr> ar_permissions := permission_snapshot (aj_permission_policy j), ar_error := reason \<rparr>"

subsection \<open>Retries\<close>

definition next_backoff_sec ::
    "retry_policy \<Rightarrow> u32 \<Rightarrow> scheduler_config \<Rightarrow> f64 \<Rightarrow> u64 \<Rightarrow> f64 option" where
  "next_backoff_sec p retry_number config elapsed timeout =
     (if retry_number = 0 \<or> retry_number > rp_max_retries p then None
      else let raw = f_mul (rp_backoff_sec p) (f_powi2 (sint (retry_number - 1)));
               capped = f_min raw (sc_max_backoff_sec config);
               budget = f_min (sc_total_retry_wall_sec config) (f_of_u64 timeout)
           in if f_lt budget (f_add elapsed capped) then None else Some capped)"

definition retry_delay_after_attempt ::
    "job_status \<Rightarrow> retry_policy \<Rightarrow> u32 \<Rightarrow> scheduler_config \<Rightarrow> f64 \<Rightarrow> u64 \<Rightarrow> f64 option" where
  "retry_delay_after_attempt st p used config elapsed timeout =
     (if st \<notin> set (rp_retry_on p) then None
      else next_backoff_sec p (used + 1) config elapsed timeout)"

record retry_entry =
  re_attempt :: u32
  re_status :: job_status
  re_exit_code :: "int option"
  re_delay :: f64

definition retry_json :: "retry_entry \<Rightarrow> json" where
  "retry_json e =
     jobj [(''attempt'', JInt (uint (re_attempt e))), (''status'', JStr (job_status_str (re_status e))),
           (''exit_code'', jopt JInt (re_exit_code e)), (''delay_sec'', JFloat (re_delay e))]"

text \<open>\<open>Duration::from_secs_f64\<close> panics on a negative, non-finite or overflowing delay.\<close>

definition duration_ok :: "f64 \<Rightarrow> bool" where
  "duration_ok d = (case d of Fin q \<Rightarrow> 0 \<le> q \<and> q < 18446744073709551616 | _ \<Rightarrow> False)"

text \<open>
  The \<open>for attempt_idx in 0..max_attempts\<close> loop: \<open>n\<close> attempts are left and \<open>idx\<close> is the
  next; \<open>once\<close> is what an attempt returns.
\<close>

definition attempt_delay ::
    "(u32 \<Rightarrow> agent_result) \<Rightarrow> agent_job \<Rightarrow> scheduler_config \<Rightarrow> u32 \<Rightarrow> f64 \<Rightarrow> f64 option" where
  "attempt_delay once j config idx elapsed =
     retry_delay_after_attempt (ar_status (once (sat_add idx 1))) (aj_retry_policy j) idx config elapsed
       (jb_timeout_sec (aj_budget j))"

definition retry_entry_of :: "u32 \<Rightarrow> agent_result \<Rightarrow> f64 \<Rightarrow> retry_entry" where
  "retry_entry_of attempt r d =
     \<lparr> re_attempt = attempt, re_status = ar_status r, re_exit_code = ar_exit_code r, re_delay = d \<rparr>"

fun retry_loop ::
    "(u32 \<Rightarrow> agent_result) \<Rightarrow> agent_job \<Rightarrow> scheduler_config \<Rightarrow> nat \<Rightarrow> u32 \<Rightarrow> f64 \<Rightarrow> retry_entry list
     \<Rightarrow> agent_result option \<Rightarrow> (agent_result \<times> retry_entry list) option" where
  "retry_loop once j config 0 idx elapsed lg prev =
     Some (opt_get_or (failure_result j 0 None ''no attempt executed'') prev, lg)"
| "retry_loop once j config (Suc n) idx elapsed lg prev =
     (if attempt_delay once j config idx elapsed = None then Some (once (sat_add idx 1), lg)
      else if \<not> duration_ok (the (attempt_delay once j config idx elapsed)) then None
      else retry_loop once j config n (idx + 1)
             (f_add elapsed (the (attempt_delay once j config idx elapsed)))
             (lg @ [retry_entry_of (sat_add idx 1) (once (sat_add idx 1))
                      (the (attempt_delay once j config idx elapsed))])
             (Some (once (sat_add idx 1))))"

definition run_job ::
    "(u32 \<Rightarrow> agent_result) \<Rightarrow> agent_job \<Rightarrow> scheduler_config \<Rightarrow> agent_result option" where
  "run_job once j config =
     map_option (\<lambda>(r, lg). if lg = [] then r
                  else r\<lparr> ar_cost := bt_insert ''retry_attempts'' (JArr (map retry_json lg)) (ar_cost r) \<rparr>)
       (retry_loop once j config (unat (sat_add (rp_max_retries (aj_retry_policy j)) 1)) 0 (Fin 0) [] None)"

subsection \<open>Health\<close>

type_synonym health_probe = "(string, bool) btree"

datatype healthcheck_error =
    ScriptUnavailable string
  | HealthIo string
  | HealthNonZero string
  | HealthInvalidJson string

definition probe_ok :: "health_probe \<Rightarrow> string \<Rightarrow> bool" where
  "probe_ok h r = opt_get_or False (bt_get h r)"

definition empty_health_probe :: "string list \<Rightarrow> health_probe" where
  "empty_health_probe runners = bt_of_list (map (\<lambda>r. (r, False)) runners)"

definition still_bad :: "string list \<Rightarrow> health_probe \<Rightarrow> string list" where
  "still_bad runners healthy = filter (\<lambda>r. \<not> probe_ok healthy r) runners"

definition merge_probe :: "health_probe \<Rightarrow> string list \<Rightarrow> health_probe \<Rightarrow> health_probe" where
  "merge_probe probe bad healthy =
     foldl (\<lambda>h r. if probe_ok probe r then bt_insert r True h else h) healthy bad"

text \<open>Entries of the health script's output update only runners that were asked for.\<close>

definition apply_entries :: "(string \<times> string) list \<Rightarrow> health_probe \<Rightarrow> health_probe" where
  "apply_entries entries health =
     foldl (\<lambda>h (agent, verdict). if bt_has h agent
              then bt_insert agent (eq_ignore_ascii_case verdict ''OK'') h else h) health entries"

text \<open>\<open>out\<close> is the script's output and \<open>parse\<close> the library's reading of its JSON.\<close>

definition run_healthcheck_probe_checked ::
    "(string \<Rightarrow> string + (string \<times> string) list) \<Rightarrow> string \<Rightarrow> bool \<Rightarrow> (string + command_output)
     \<Rightarrow> string list \<Rightarrow> healthcheck_error + health_probe" where
  "run_healthcheck_probe_checked parse script script_exists out runners =
     (if \<not> script_exists then Inl (ScriptUnavailable script)
      else case out of
        Inl e \<Rightarrow> Inl (HealthIo e)
      | Inr o' \<Rightarrow>
          if \<not> co_success o' then Inl (HealthNonZero (trim (co_stderr o')))
          else case parse (co_stdout o') of
            Inl e \<Rightarrow> Inl (HealthInvalidJson e)
          | Inr entries \<Rightarrow>
              if length entries > length runners
              then Inl (HealthInvalidJson ''more health entries than requested runners'')
              else Inr (apply_entries entries (empty_health_probe runners)))"

text \<open>\<open>probe i\<close> is what the \<open>i\<close>-th call of the probe returns.\<close>

fun health_loop ::
    "(nat \<Rightarrow> string list \<Rightarrow> healthcheck_error + health_probe) \<Rightarrow> nat \<Rightarrow> nat \<Rightarrow> string list
     \<Rightarrow> health_probe \<Rightarrow> health_probe" where
  "health_loop probe i 0 runners healthy = healthy"
| "health_loop probe i (Suc n) runners healthy =
     (let bad = still_bad runners healthy in
      if bad = [] then healthy
      else let retry = (case probe i bad of Inl _ \<Rightarrow> empty_health_probe bad | Inr h \<Rightarrow> h)
           in health_loop probe (Suc i) n runners (merge_probe retry bad healthy))"

definition healthcheck ::
    "(nat \<Rightarrow> string list \<Rightarrow> healthcheck_error + health_probe) \<Rightarrow> scheduler_config \<Rightarrow> string list
     \<Rightarrow> health_probe" where
  "healthcheck probe config runners =
     (case probe 0 runners of
        Inl _ \<Rightarrow> empty_health_probe runners
      | Inr h \<Rightarrow> health_loop probe 1 (unat (sc_healthcheck_retries config)) runners h)"

fun health_loop_checked ::
    "(nat \<Rightarrow> string list \<Rightarrow> healthcheck_error + health_probe) \<Rightarrow> nat \<Rightarrow> nat \<Rightarrow> string list
     \<Rightarrow> health_probe \<Rightarrow> healthcheck_error + health_probe" where
  "health_loop_checked probe i 0 runners healthy = Inr healthy"
| "health_loop_checked probe i (Suc n) runners healthy =
     (let bad = still_bad runners healthy in
      if bad = [] then Inr healthy
      else bindr (probe i bad) (\<lambda>retry.
             health_loop_checked probe (Suc i) n runners (merge_probe retry bad healthy)))"

definition healthcheck_checked ::
    "(nat \<Rightarrow> string list \<Rightarrow> healthcheck_error + health_probe) \<Rightarrow> scheduler_config \<Rightarrow> string list
     \<Rightarrow> healthcheck_error + health_probe" where
  "healthcheck_checked probe config runners =
     bindr (probe 0 runners) (\<lambda>h.
       health_loop_checked probe 1 (unat (sc_healthcheck_retries config)) runners h)"

fun retry_probes :: "string list \<Rightarrow> health_probe list \<Rightarrow> health_probe \<Rightarrow> health_probe" where
  "retry_probes runners [] healthy = healthy"
| "retry_probes runners (p # ps) healthy =
     (let bad = still_bad runners healthy in
      if bad = [] then healthy else retry_probes runners ps (merge_probe p bad healthy))"

definition healthcheck_with_retries ::
    "string list \<Rightarrow> health_probe list \<Rightarrow> u32 \<Rightarrow> health_probe" where
  "healthcheck_with_retries runners probes retries =
     retry_probes runners (take (unat retries) (drop 1 probes))
       (bt_of_list (map (\<lambda>r. (r, case first_opt probes of None \<Rightarrow> False | Some p \<Rightarrow> probe_ok p r)) runners))"

definition unique_runners :: "agent_job list \<Rightarrow> string list" where
  "unique_runners jobs = bs_of_list (map aj_runner jobs)"

subsection \<open>One attempt\<close>

definition is_write_task_type :: "agent_job \<Rightarrow> bool" where
  "is_write_task_type j =
     (opt_get_or [] (aj_task_type j)
        \<in> set [''write'', ''implementation'', ''feature'', ''migration'', ''refactor''])"

definition job_needs_worktree :: "agent_job \<Rightarrow> bool" where
  "job_needs_worktree j \<longleftrightarrow>
     aj_needs_worktree j \<or> aj_isolation j = ''worktree''
     \<or> (pp_sandbox (aj_permission_policy j) = WorkspaceWrite \<and> is_write_task_type j)"

definition runner_env :: "agent_job \<Rightarrow> (string, string) btree" where
  "runner_env j =
     (let env = bt_insert ''CODEX_SANDBOX'' (sandbox_str (pp_sandbox (aj_permission_policy j))) (aj_env j)
      in case aj_model j of None \<Rightarrow> env | Some m \<Rightarrow> bt_insert ''CODEX_MODEL'' m env)"

text \<open>The prompt file: written from the inline text, or found at \<open>prompt_ref\<close>.\<close>

definition materialize_prompt ::
    "agent_job \<Rightarrow> string \<Rightarrow> string \<Rightarrow> string option \<Rightarrow> (string \<Rightarrow> bool) \<Rightarrow> string + string" where
  "materialize_prompt j repo attempt_dir write_error file_exists =
     (if aj_prompt_is_inline j then
        (case write_error of
           None \<Rightarrow> Inr (path_join attempt_dir ''prompt.md'')
         | Some e \<Rightarrow> Inl (''write inline prompt: '' @ e))
      else let path = path_join repo (aj_prompt_ref j)
           in if file_exists path then Inr path else Inl (''prompt_ref not found: '' @ path))"

definition estimate_prompt_tokens :: "string option \<Rightarrow> u64" where
  "estimate_prompt_tokens text =
     (case text of None \<Rightarrow> 0
      | Some t \<Rightarrow> sat_add (word_of_nat (chars_count t)) 3 div 4)"

definition with_effective_dimensions :: "agent_job \<Rightarrow> string option \<Rightarrow> agent_job" where
  "with_effective_dimensions j prompt_text =
     (if aj_size j \<noteq> UnknownSize then j
      else j\<lparr> aj_size := td_size (from_tokens (opt_get_or ''unknown'' (aj_task_type j))
                (estimate_prompt_tokens prompt_text) (opt_get_or 0 (jb_max_tokens (aj_budget j)))) \<rparr>)"

text \<open>The \<open>.meta.json\<close> sidecar of the reply, when it reads as an object.\<close>

definition merge_reply_meta_sidecar :: "json option \<Rightarrow> json_map \<Rightarrow> json_map" where
  "merge_reply_meta_sidecar sidecar cost =
     (case sidecar of
        None \<Rightarrow> cost
      | Some v \<Rightarrow> (case as_object v of None \<Rightarrow> cost
                   | Some obj \<Rightarrow> foldl (\<lambda>c (k, x). bt_insert k x c) cost obj))"

datatype wait_outcome =
    Exited "int option"
  | TimedOut
  | Stalled
  | WaitFailed string

text \<open>
  One iteration of \<open>wait_with_deadlines\<close>: which branch of the \<open>select!\<close> fires, with the time
  since the last output in the stall branch.
\<close>

datatype select_event = ChildExit "string + int option" | DeadlineReached | StallTick u64

fun wait_with_deadlines :: "u64 option \<Rightarrow> select_event list \<Rightarrow> wait_outcome option" where
  "wait_with_deadlines stall [] = None"
| "wait_with_deadlines stall (ev # evs) =
     (case ev of
        ChildExit (Inr code) \<Rightarrow> Some (Exited code)
      | ChildExit (Inl e) \<Rightarrow> Some (WaitFailed e)
      | DeadlineReached \<Rightarrow> Some TimedOut
      | StallTick quiet \<Rightarrow>
          if opt_all (\<lambda>limit. limit \<le> quiet) stall then Some Stalled
          else wait_with_deadlines stall evs)"

datatype 'a joined = Joined "string + 'a" | JoinFailed string

record tmux_outcome =
  to_status :: job_status
  to_exit_code :: "int option"
  to_reply_text :: string
  to_error :: string
  to_cost :: json_map
  to_artifacts :: "string list"

text \<open>Everything an attempt learns from outside, in the order it asks.\<close>

record attempt_world =
  aw_tempdir :: "string + string"
  aw_prompt_write :: "string option"
  aw_file_exists :: "string \<Rightarrow> bool"
  aw_prompt_text :: "string option"
  aw_tmux :: "string + tmux_outcome"
  aw_add_worktree :: "worktree_handle joined"
  aw_live_dir :: "string option"
  aw_live_log :: "string option"
  aw_spawn :: "string option"
  aw_wait :: wait_outcome
  aw_stdout :: "string \<times> string option"
  aw_stderr :: "string \<times> string option"
  aw_reply :: string
  aw_elapsed :: f64
  aw_sidecar :: "json option"
  aw_emit_diff :: "diff_with_tests joined"

text \<open>What an attempt does to worktrees; pruning a kept handle does nothing.\<close>

datatype wt_action = AddWorktree worktree_handle | PruneWorktree worktree_handle

definition gate_name :: "test_gate_action \<Rightarrow> string" where
  "gate_name g = (case g of Batchable \<Rightarrow> ''batchable'' | ImmediateReport \<Rightarrow> ''immediate_report'')"

definition attach_review :: "agent_result \<Rightarrow> worktree_handle \<Rightarrow> diff_with_tests \<Rightarrow> agent_result" where
  "attach_review r h d =
     (let r' = r\<lparr> ar_artifacts := ar_artifacts r @ [''worktree:'' @ wh_path h],
                  ar_merge_review := Some (build_merge_review d),
                  ar_cost := bt_insert ''test_gate_action'' (JStr (gate_name (test_gate_action d))) (ar_cost r) \<rparr>
      in if test_gate_action d = ImmediateReport
         then r'\<lparr> ar_status := JobFailed,
                  ar_error := ''test gate failed; merge review requires immediate host attention'' \<rparr>
         else r')"

definition finalize_write_task ::
    "agent_result \<Rightarrow> worktree_handle \<Rightarrow> diff_with_tests joined \<Rightarrow> agent_result \<times> wt_action list" where
  "finalize_write_task r h emitted =
     (if ar_status r \<noteq> JobOk then (r, [PruneWorktree h])
      else case (case emitted of Joined x \<Rightarrow> x | JoinFailed e \<Rightarrow> Inl (''emit diff task: '' @ e)) of
        Inl e \<Rightarrow> (r\<lparr> ar_status := JobFailed, ar_error := ''emit diff: '' @ e \<rparr>, [PruneWorktree h])
      | Inr d \<Rightarrow>
          if trim (dw_diff d) = []
          then (r\<lparr> ar_status := JobFailed, ar_error := ''write task produced no worktree changes'' \<rparr>,
                [PruneWorktree h])
          else (attach_review r h d, []))"

definition tmux_result :: "agent_job \<Rightarrow> u32 \<Rightarrow> string + tmux_outcome \<Rightarrow> agent_result" where
  "tmux_result j attempt out =
     (case out of
        Inl e \<Rightarrow> failure_result j attempt None e
      | Inr t \<Rightarrow> (blank_result j (to_status t))
          \<lparr> ar_exit_code := to_exit_code t, ar_reply_text := to_reply_text t, ar_cost := to_cost t,
            ar_artifacts := to_artifacts t, ar_attempts := attempt, ar_error := to_error t \<rparr>)
     \<lparr> ar_permissions := permission_snapshot (aj_permission_policy j) \<rparr>"

definition attempt_result :: "agent_job \<Rightarrow> u32 \<Rightarrow> attempt_world \<Rightarrow> agent_result" where
  "attempt_result j attempt w =
     (case aw_wait w of
        Exited (Some code) \<Rightarrow> result_from_attempt j code (aw_reply w) (fst (aw_stderr w)) attempt
      | Exited None \<Rightarrow> failure_result j attempt None ''runner terminated by signal''
      | TimedOut \<Rightarrow> timeout_result j attempt (aw_reply w) ''timeout''
      | Stalled \<Rightarrow> timeout_result j attempt (aw_reply w) ''stalled without output''
      | WaitFailed e \<Rightarrow> failure_result j attempt None e)"

definition opt_cost :: "string \<Rightarrow> string option \<Rightarrow> json_map \<Rightarrow> json_map" where
  "opt_cost k e cost = (case e of None \<Rightarrow> cost | Some x \<Rightarrow> bt_insert k (JStr x) cost)"

definition attempt_cost :: "attempt_world \<Rightarrow> json_map \<Rightarrow> json_map" where
  "attempt_cost w cost =
     opt_cost ''stderr_drain_error'' (snd (aw_stderr w))
       (opt_cost ''stdout_drain_error'' (snd (aw_stdout w))
         (bt_insert ''stdout_bytes'' (jnat (length (fst (aw_stdout w))))
           (merge_reply_meta_sidecar (aw_sidecar w)
             (bt_insert ''elapsed_sec'' (JFloat (aw_elapsed w)) cost))))"

text \<open>
  After the worktree: each early return prunes it, the end of the attempt hands it to
  \<open>finalize_write_task\<close>.
\<close>

definition run_command ::
    "agent_job \<Rightarrow> u32 \<Rightarrow> attempt_world \<Rightarrow> worktree_handle option \<Rightarrow> agent_result \<times> wt_action list" where
  "run_command j attempt w guard =
     (let stop = (\<lambda>e. (failure_result j attempt None e, case guard of None \<Rightarrow> [] | Some h \<Rightarrow> [PruneWorktree h])) in
      case aw_live_dir w of Some e \<Rightarrow> stop (''live log dir: '' @ e) | None \<Rightarrow>
      case aw_live_log w of Some e \<Rightarrow> stop (''live log: '' @ e) | None \<Rightarrow>
      case aw_spawn w of Some e \<Rightarrow> stop (''spawn: '' @ e) | None \<Rightarrow>
      (let r = attempt_result j attempt w;
           r' = r\<lparr> ar_cost := attempt_cost w (ar_cost r),
                   ar_permissions := permission_snapshot (aj_permission_policy j) \<rparr>
       in case guard of None \<Rightarrow> (r', [])
          | Some h \<Rightarrow> finalize_write_task r' h (aw_emit_diff w)))"

definition run_effective ::
    "string \<Rightarrow> agent_job \<Rightarrow> u32 \<Rightarrow> attempt_world \<Rightarrow> agent_result \<times> wt_action list" where
  "run_effective runners_dir j attempt w =
     (if aj_runner j = ''tmux'' then
        (if job_needs_worktree j
         then (failure_result j attempt None ''tmux runner does not support scheduler-managed worktree isolation; target a pane already in the intended workspace or use a headless runner'', [])
         else (tmux_result j attempt (aw_tmux w), []))
      else let runner = path_join runners_dir (aj_runner j @ ''.sh'') in
        if \<not> aw_file_exists w runner
        then (failure_result j attempt None (''runner script not found: '' @ runner), [])
        else if job_needs_worktree j then
          (case aw_add_worktree w of
             JoinFailed e \<Rightarrow> (failure_result j attempt None (''persistent worktree task: '' @ e), [])
           | Joined (Inl e) \<Rightarrow> (failure_result j attempt None (''persistent worktree: '' @ e), [])
           | Joined (Inr h) \<Rightarrow>
               (let (r, acts) = run_command j attempt w (Some h) in (r, AddWorktree h # acts)))
        else run_command j attempt w None)"

definition run_once ::
    "string \<Rightarrow> string \<Rightarrow> agent_job \<Rightarrow> u32 \<Rightarrow> attempt_world \<Rightarrow> agent_result \<times> wt_action list" where
  "run_once repo runners_dir j attempt w =
     (case aw_tempdir w of
        Inl e \<Rightarrow> (failure_result j attempt None (''tempdir: '' @ e), [])
      | Inr dir \<Rightarrow>
          (case materialize_prompt j repo dir (aw_prompt_write w) (aw_file_exists w) of
             Inl e \<Rightarrow> (failure_result j attempt None e, [])
           | Inr path \<Rightarrow>
               run_effective runners_dir (with_effective_dimensions j (aw_prompt_text w)) attempt w))"

subsection \<open>Dependencies\<close>

text \<open>The parents of each job, ascending; a repeated id belongs to its last job.\<close>

definition job_index :: "agent_job list \<Rightarrow> (string, nat) btree" where
  "job_index jobs = bt_of_list (zip (map aj_job_id jobs) [0..<length jobs])"

definition add_parent :: "(string, nat) btree \<Rightarrow> nat \<Rightarrow> nat list list \<Rightarrow> string \<Rightarrow> nat list list" where
  "add_parent index parent ps child =
     (case bt_get index child of
        None \<Rightarrow> ps
      | Some c \<Rightarrow> ps[c := insort_insert parent (ps ! c)])"

definition dependency_plan :: "agent_job list \<Rightarrow> nat list list" where
  "dependency_plan jobs =
     foldl (\<lambda>ps (i, j). foldl (add_parent (job_index jobs) i) ps (aj_children j))
       (replicate (length jobs) []) (enumerate 0 jobs)"

definition has_edges :: "nat list list \<Rightarrow> bool" where
  "has_edges plan = list_ex (\<lambda>ps. ps \<noteq> []) plan"

type_synonym slots = "agent_result option list"

definition dependency_reason :: "agent_result \<Rightarrow> string option" where
  "dependency_reason p =
     (if ar_status p \<noteq> JobOk
      then Some (''dependency '' @ ar_job_id p @ '' did not complete successfully (''
                 @ job_status_debug (ar_status p) @ '')'')
      else if ar_merge_review p \<noteq> None
      then Some (''dependency '' @ ar_job_id p
                 @ '' produced a merge review; host must merge it before this job opens'')
      else None)"

text \<open>The first finished parent that blocks, in ascending order.\<close>

fun first_block :: "slots \<Rightarrow> nat list \<Rightarrow> string option" where
  "first_block results [] = None"
| "first_block results (p # ps) =
     (if results ! p = None \<or> dependency_reason (the (results ! p)) = None
      then first_block results ps
      else dependency_reason (the (results ! p)))"

definition dependency_blocked_jobs :: "nat list \<Rightarrow> slots \<Rightarrow> nat list list \<Rightarrow> (nat \<times> string) list" where
  "dependency_blocked_jobs remaining results plan =
     List.map_filter (\<lambda>i. map_option (\<lambda>reason. (i, reason)) (first_block results (plan ! i))) remaining"

definition slot_satisfied :: "agent_result option \<Rightarrow> bool" where
  "slot_satisfied s = opt_all (\<lambda>r. ar_status r = JobOk \<and> ar_merge_review r = None) s"

definition dependencies_satisfied :: "nat list \<Rightarrow> slots \<Rightarrow> bool" where
  "dependencies_satisfied parents results =
     list_all (\<lambda>i. i < length results \<and> slot_satisfied (results ! i)) parents"

subsection \<open>Running batches\<close>

text \<open>
  \<open>join_next\<close> until the set is empty: each pick chooses one of the tasks still running to finish
  next, the rest finish in order. A task that panicked makes the batch an error.
\<close>

fun join_all :: "nat list \<Rightarrow> (nat \<times> agent_result option) list \<Rightarrow> scheduler_error + (nat \<times> agent_result) list" where
  "join_all picks [] = Inr []"
| "join_all [] ((i, r) # ts) =
     (if r = None then Inl JoinError
      else bindr (join_all [] ts) (\<lambda>rest. Inr ((i, the r) # rest)))"
| "join_all (p # picks) (t # ts) =
     (let ts' = t # ts; k = p mod length ts'; (i, r) = ts' ! k in
      if r = None then Inl JoinError
      else bindr (join_all picks (take k ts' @ drop (Suc k) ts')) (\<lambda>rest. Inr ((i, the r) # rest)))"

definition run_parallel_jobs ::
    "(agent_job \<Rightarrow> agent_result option) \<Rightarrow> nat list \<Rightarrow> health_probe \<Rightarrow> (nat \<times> agent_job) list
     \<Rightarrow> scheduler_error + (nat \<times> agent_result) list" where
  "run_parallel_jobs run picks health ready =
     (let sick = filter (\<lambda>(i, j). \<not> probe_ok health (aj_runner j)) ready;
          well = filter (\<lambda>(i, j). probe_ok health (aj_runner j)) ready
      in bindr (join_all picks (map (\<lambda>(i, j). (i, run j)) well)) (\<lambda>done.
           Inr (map (\<lambda>(i, j). (i, skipped_for_unhealthy j)) sick @ done)))"

definition fill_slots :: "(nat \<times> agent_result) list \<Rightarrow> slots \<Rightarrow> slots" where
  "fill_slots out results = foldl (\<lambda>rs (i, r). rs[i := Some r]) results out"

definition skip_blocked :: "agent_job list \<Rightarrow> (nat \<times> string) list \<Rightarrow> slots \<Rightarrow> slots" where
  "skip_blocked jobs blocked results =
     foldl (\<lambda>rs (i, reason). rs[i := Some (skipped_for_dependency (jobs ! i) reason)]) results blocked"

definition without :: "(nat \<times> 'a) list \<Rightarrow> nat list \<Rightarrow> nat list" where
  "without out remaining = filter (\<lambda>i. i \<notin> fst ` set out) remaining"

text \<open>The order of completion does not change what a batch returns as a set.\<close>

lemma mset_pick: "k < length ts \<Longrightarrow> mset (take k ts @ drop (Suc k) ts) + {# ts ! k #} = mset ts"
  by (metis add_mset_add_single id_take_nth_drop mset.simps(2) mset_append union_mset_add_mset_right)

lemma join_all_Inr:
  "join_all picks ts = Inr out \<Longrightarrow>
   (\<forall>(i, r)\<in>set ts. r \<noteq> None) \<and> mset out = mset (map (\<lambda>(i, r). (i, the r)) ts)"
proof (induction picks ts arbitrary: out rule: join_all.induct)
  case (3 p picks t ts)
  define k where "k = p mod length (t # ts)"
  have k: "k < length (t # ts)" by (simp add: k_def)
  obtain i r where ir: "(t # ts) ! k = (i, r)" by fastforce
  have "join_all (p # picks) (t # ts) = (if r = None then Inl JoinError
      else bindr (join_all picks (take k (t # ts) @ drop (Suc k) (t # ts))) (\<lambda>rest. Inr ((i, the r) # rest)))"
    by (simp only: join_all.simps(3) Let_def k_def [symmetric] ir prod.case)
  with 3(2) obtain rest where r: "r \<noteq> None"
    and rest: "join_all picks (take k (t # ts) @ drop (Suc k) (t # ts)) = Inr rest"
    and out: "out = (i, the r) # rest"
    by (auto simp only: bindr_Inr_iff sum.distinct sum.inject split: if_splits)
  note IH = 3(1) [OF refl k_def ir [symmetric] refl r rest]
  have ms: "mset (t # ts) = add_mset (i, r) (mset (take k (t # ts) @ drop (Suc k) (t # ts)))"
    using mset_pick [OF k] ir by simp
  then have "set (t # ts) = insert (i, r) (set (take k (t # ts) @ drop (Suc k) (t # ts)))"
    by (metis set_mset_add_mset_insert set_mset_mset)
  moreover have "mset (map (\<lambda>(i, r). (i, the r)) (t # ts)) = mset out"
    unfolding mset_map ms using IH by (simp add: out)
  ultimately show ?case using IH r by auto
qed (auto simp: bindr_Inr_iff split: if_splits)

end
