(* ===== verification/Lto_Submit.thy ===== *)
theory Lto_Submit
  imports Lto_Scheduler
begin

text \<open>
  \<open>src/src/scheduler.rs\<close>, continued: \<open>run_dependency_plan\<close> and \<open>submit\<close>. The locale
  \<open>batch_runner\<close> is what the loop relies on of a batch (every job finishes exactly once, in
  some order, or the batch fails because a job panicked); \<open>run_parallel_jobs\<close> provides it.
\<close>

subsection \<open>Batches\<close>

definition job_outcome ::
    "(agent_job \<Rightarrow> agent_result option) \<Rightarrow> health_probe \<Rightarrow> agent_job \<Rightarrow> agent_result option" where
  "job_outcome run health j =
     (if probe_ok health (aj_runner j) then run j else Some (skipped_for_unhealthy j))"

lemma join_all_Inl: "join_all picks ts = Inl e \<Longrightarrow> e = JoinError \<and> (\<exists>(i, r)\<in>set ts. r = None)"
proof (induction picks ts rule: join_all.induct)
  case (3 p picks t ts)
  define k where "k = p mod length (t # ts)"
  have k: "k < length (t # ts)" by (simp add: k_def)
  obtain i r where ir: "(t # ts) ! k = (i, r)" by fastforce
  then have mem: "(i, r) \<in> set (t # ts)" using k by (metis nth_mem)
  have "join_all (p # picks) (t # ts) = (if r = None then Inl JoinError
      else bindr (join_all picks (take k (t # ts) @ drop (Suc k) (t # ts))) (\<lambda>rest. Inr ((i, the r) # rest)))"
    by (simp only: join_all.simps(3) Let_def k_def [symmetric] ir prod.case)
  with 3(2) have "(r = None \<and> e = JoinError) \<or>
      (r \<noteq> None \<and> join_all picks (take k (t # ts) @ drop (Suc k) (t # ts)) = Inl e)"
    by (auto simp only: bindr_Inl_iff sum.distinct sum.inject split: if_splits)
  then show ?case
  proof
    assume "r = None \<and> e = JoinError"
    with mem show ?thesis by blast
  next
    assume r: "r \<noteq> None \<and> join_all picks (take k (t # ts) @ drop (Suc k) (t # ts)) = Inl e"
    have "set (take k (t # ts) @ drop (Suc k) (t # ts)) \<subseteq> set (t # ts)"
      using set_take_subset [of k "t # ts"] set_drop_subset [of "Suc k" "t # ts"] by auto
    with 3(1) [OF refl k_def ir [symmetric] refl _] r show ?thesis by blast
  qed
qed (auto simp: bindr_Inl_iff split: if_splits)

text \<open>A batch as its client sees it: every job of it finishes once, in some order.\<close>

locale batch_runner =
  fixes run_batch :: "nat list \<Rightarrow> (nat \<times> agent_job) list \<Rightarrow> scheduler_error + (nat \<times> agent_result) list"
    and outcome :: "agent_job \<Rightarrow> agent_result option"
  assumes all_run: "run_batch picks ready = Inr out \<Longrightarrow>
      (\<forall>(i, j)\<in>set ready. outcome j \<noteq> None) \<and> mset out = mset (map (\<lambda>(i, j). (i, the (outcome j))) ready)"
    and fails: "run_batch picks ready = Inl e \<Longrightarrow> e = JoinError \<and> (\<exists>(i, j)\<in>set ready. outcome j = None)"
begin

lemma entries: "run_batch picks ready = Inr out \<Longrightarrow>
    set out = (\<lambda>(i, j). (i, the (outcome j))) ` set ready"
  using all_run [of picks ready out] by (metis list.set_map mset_eq_setD)

lemma indices: "run_batch picks ready = Inr out \<Longrightarrow> fst ` set out = fst ` set ready"
  by (drule entries) (simp add: image_image split_beta)

lemma distinct_indices:
  "run_batch picks ready = Inr out \<Longrightarrow> distinct (map fst ready) \<Longrightarrow> distinct (map fst out)"
proof -
  assume r: "run_batch picks ready = Inr out" and d: "distinct (map fst ready)"
  have "mset (map fst out) = mset (map fst ready)"
    using all_run [OF r] by (simp add: comp_def split_beta flip: mset_map) (simp add: multiset.map_comp comp_def split_beta)
  with d show ?thesis by (metis mset_eq_imp_distinct_iff)
qed

lemma ok_iff: "is_ok (run_batch picks ready) \<longleftrightarrow> (\<forall>(i, j)\<in>set ready. outcome j \<noteq> None)"
proof (cases "run_batch picks ready")
  case (Inl e)
  with fails show ?thesis by fastforce
next
  case (Inr out)
  with all_run show ?thesis by simp
qed

lemma order_irrelevant:
  "is_ok (run_batch picks ready) = is_ok (run_batch picks' ready)"
  "run_batch picks ready = Inr out \<Longrightarrow> run_batch picks' ready = Inr out' \<Longrightarrow> mset out = mset out'"
  using ok_iff all_run by (blast, metis)

end

interpretation par: batch_runner
  "\<lambda>picks ready. run_parallel_jobs run picks health ready" "job_outcome run health" for run health
proof
  fix picks ready out
  assume a: "run_parallel_jobs run picks health ready = Inr out"
  let ?sick = "filter (\<lambda>(i, j). \<not> probe_ok health (aj_runner j)) ready"
  let ?well = "filter (\<lambda>(i, j). probe_ok health (aj_runner j)) ready"
  from a obtain fin where "done": "join_all picks (map (\<lambda>(i, j). (i, run j)) ?well) = Inr fin"
    and out: "out = map (\<lambda>(i, j). (i, skipped_for_unhealthy j)) ?sick @ fin"
    by (auto simp: run_parallel_jobs_def Let_def bindr_Inr_iff)
  note j = join_all_Inr [OF "done"]
  have ms: "mset ready = mset ?sick + mset ?well"
    by (induction ready) auto
  have "image_mset (\<lambda>(i, j). (i, the (job_outcome run health j))) (mset ?sick)
        = mset (map (\<lambda>(i, j). (i, skipped_for_unhealthy j)) ?sick)"
    unfolding mset_map by (rule image_mset_cong) (auto simp: job_outcome_def)
  moreover have "image_mset (\<lambda>(i, j). (i, the (job_outcome run health j))) (mset ?well) = mset fin"
    using j by (auto simp: comp_def split_beta job_outcome_def multiset.map_comp intro!: image_mset_cong)
  moreover have "image_mset (\<lambda>(i, j). (i, the (job_outcome run health j))) (mset ready)
      = image_mset (\<lambda>(i, j). (i, the (job_outcome run health j))) (mset ?sick)
        + image_mset (\<lambda>(i, j). (i, the (job_outcome run health j))) (mset ?well)"
    by (metis image_mset_union ms)
  ultimately have "mset out = mset (map (\<lambda>(i, j). (i, the (job_outcome run health j))) ready)"
    unfolding mset_map out mset_append by simp
  moreover have "\<forall>(i, j)\<in>set ready. job_outcome run health j \<noteq> None"
    using j by (auto simp: job_outcome_def)
  ultimately show "(\<forall>(i, j)\<in>set ready. job_outcome run health j \<noteq> None)
      \<and> mset out = mset (map (\<lambda>(i, j). (i, the (job_outcome run health j))) ready)" by blast
next
  fix picks ready e
  assume "run_parallel_jobs run picks health ready = Inl e"
  then have "join_all picks (map (\<lambda>(i, j). (i, run j))
      (filter (\<lambda>(i, j). probe_ok health (aj_runner j)) ready)) = Inl e"
    by (auto simp: run_parallel_jobs_def Let_def bindr_Inl_iff)
  from join_all_Inl [OF this]
  show "e = JoinError \<and> (\<exists>(i, j)\<in>set ready. job_outcome run health j = None)"
    by (auto simp: job_outcome_def split: if_splits)
qed

lemma without_shrinks:
  assumes "ready = map f (filter P (without blocked remaining))" "\<And>i. fst (f i) = i" "ready \<noteq> []"
    and "run_parallel_jobs run picks health ready = Inr out"
  shows "length (without out (without blocked remaining)) < length remaining"
proof -
  have ix: "fst ` set out = fst ` set ready" by (rule par.indices [OF assms(4)])
  obtain i where i: "i \<in> set (without blocked remaining)" "P i"
    using assms(1,3) by (auto simp: filter_empty_conv)
  then have "i \<in> fst ` set ready" using assms(1,2) by (force simp: image_iff)
  with ix have "length (without out (without blocked remaining)) < length (without blocked remaining)"
    unfolding without_def [of out] using i(1) by (intro length_filter_less) auto
  also have "\<dots> \<le> length remaining" by (simp add: without_def)
  finally show ?thesis .
qed

text \<open>
  The loop over the remaining jobs: block, collect the ready ones, run them as one batch. Round
  \<open>n\<close> finishes in the order \<open>picks n\<close>.
\<close>

function run_plan_loop ::
    "(agent_job \<Rightarrow> agent_result option) \<Rightarrow> (nat \<Rightarrow> nat list) \<Rightarrow> health_probe \<Rightarrow> agent_job list
     \<Rightarrow> nat list list \<Rightarrow> nat \<Rightarrow> nat list \<Rightarrow> slots \<Rightarrow> scheduler_error + slots" where
  "run_plan_loop run picks health jobs plan n remaining results =
     (if remaining = [] then Inr results
      else let blocked = dependency_blocked_jobs remaining results plan;
               results1 = skip_blocked jobs blocked results;
               remaining1 = without blocked remaining;
               ready = map (\<lambda>i. (i, jobs ! i))
                         (filter (\<lambda>i. dependencies_satisfied (plan ! i) results1) remaining1);
               batch = run_parallel_jobs run (picks n) health ready
           in if ready = [] then (if remaining1 = [] then Inr results1 else Inl DependencyCycle)
              else if isl batch then Inl (projl batch)
              else run_plan_loop run picks health jobs plan (Suc n)
                     (without (projr batch) remaining1) (fill_slots (projr batch) results1))"
  by pat_completeness auto

termination
proof (relation "measure (\<lambda>(run, picks, health, jobs, plan, n, remaining, results). length remaining)", goal_cases)
  case (2 run picks health jobs plan n remaining results blocked results1 remaining1 ready batch)
  have "run_parallel_jobs run (picks n) health ready = Inr (projr batch)"
    using 2(6) sum.collapse(2) [OF 2(8)] by simp
  from without_shrinks [OF 2(5) [unfolded 2(4)] _ 2(7) this] 2(4) show ?case by simp
qed simp

declare run_plan_loop.simps [simp del]

definition fill_all ::
    "(agent_job \<Rightarrow> agent_result option) \<Rightarrow> (nat \<Rightarrow> nat list) \<Rightarrow> health_probe \<Rightarrow> agent_job list
     \<Rightarrow> scheduler_error + slots" where
  "fill_all run picks health jobs =
     (let plan = dependency_plan jobs; empty = replicate (length jobs) None in
      if has_edges plan
      then run_plan_loop run picks health jobs plan 0 [0..<length jobs] empty
      else bindr (run_parallel_jobs run (picks 0) health (enumerate 0 jobs)) (\<lambda>out.
             Inr (fill_slots out empty)))"

text \<open>\<open>None\<close> is the panic of an empty slot.\<close>

definition submit ::
    "(agent_job \<Rightarrow> agent_result option) \<Rightarrow> (nat \<Rightarrow> nat list)
     \<Rightarrow> (nat \<Rightarrow> string list \<Rightarrow> healthcheck_error + health_probe) \<Rightarrow> scheduler_config
     \<Rightarrow> agent_job list \<Rightarrow> (scheduler_error + agent_result list) option" where
  "submit run picks probe config jobs =
     (case validate_batch jobs config of
        Inl e \<Rightarrow> Some (Inl e)
      | Inr _ \<Rightarrow>
          (case fill_all run picks (healthcheck probe config (unique_runners jobs)) jobs of
             Inl e \<Rightarrow> Some (Inl e)
           | Inr slots \<Rightarrow> map_option Inr (opt_mapM id slots)))"

subsection \<open>Slots\<close>

lemma fill_slots_length [simp]: "length (fill_slots out rs) = length rs"
  unfolding fill_slots_def by (induction out arbitrary: rs) auto

lemma fill_slots_nth:
  assumes "distinct (map fst out)" "i < length rs"
  shows "fill_slots out rs ! i = (case map_of out i of None \<Rightarrow> rs ! i | Some r \<Rightarrow> Some r)"
  using assms unfolding fill_slots_def
proof (induction out arbitrary: rs)
  case (Cons p out)
  obtain k r where p: "p = (k, r)" by (cases p)
  with Cons.prems have "map_of out k = None" by (auto simp: map_of_eq_None_iff)
  with Cons p show ?case by (auto split: option.splits)
qed simp

lemma skip_blocked_length [simp]: "length (skip_blocked jobs blocked rs) = length rs"
  unfolding skip_blocked_def by (induction blocked arbitrary: rs) auto

lemma skip_blocked_nth:
  assumes "distinct (map fst blocked)" "i < length rs"
  shows "skip_blocked jobs blocked rs ! i =
    (case map_of blocked i of None \<Rightarrow> rs ! i | Some reason \<Rightarrow> Some (skipped_for_dependency (jobs ! i) reason))"
  using assms unfolding skip_blocked_def
proof (induction blocked arbitrary: rs)
  case (Cons p out)
  obtain k r where p: "p = (k, r)" by (cases p)
  with Cons.prems have "map_of out k = None" by (auto simp: map_of_eq_None_iff)
  with Cons p show ?case by (auto split: option.splits)
qed simp

lemma map_filter_indexed:
  "map fst (List.map_filter (\<lambda>i. map_option (\<lambda>x. (i, x)) (f i)) xs) = filter (\<lambda>i. f i \<noteq> None) xs"
  "distinct xs \<Longrightarrow> map_of (List.map_filter (\<lambda>i. map_option (\<lambda>x. (i, x)) (f i)) xs) i =
     (if i \<in> set xs then f i else None)"
  by (induction xs) (auto simp: List.map_filter_simps split: option.splits)

lemma first_block_Some:
  "first_block rs ps = Some reason \<Longrightarrow>
   \<exists>p\<in>set ps. \<exists>r. rs ! p = Some r \<and> dependency_reason r = Some reason"
  by (induction ps) (auto split: if_splits)

lemma first_block_None:
  "first_block rs ps = None \<Longrightarrow> p \<in> set ps \<Longrightarrow> rs ! p = Some r \<Longrightarrow> dependency_reason r = None"
  by (induction ps) (auto split: if_splits)

lemma slot_satisfied_iff: "slot_satisfied s \<longleftrightarrow> (\<exists>r. s = Some r \<and> dependency_reason r = None)"
  by (cases s) (auto simp: slot_satisfied_def dependency_reason_def)

text \<open>What a filled slot must hold.\<close>

definition slot_right ::
    "(agent_job \<Rightarrow> agent_result option) \<Rightarrow> health_probe \<Rightarrow> agent_job list \<Rightarrow> nat list list \<Rightarrow> slots
     \<Rightarrow> nat \<Rightarrow> agent_result \<Rightarrow> bool" where
  "slot_right run health jobs plan rs i r \<longleftrightarrow>
     (if \<forall>p\<in>set (plan ! i). slot_satisfied (rs ! p) then job_outcome run health (jobs ! i) = Some r
      else \<exists>p\<in>set (plan ! i). \<exists>pr reason. rs ! p = Some pr \<and> dependency_reason pr = Some reason
             \<and> r = skipped_for_dependency (jobs ! i) reason)"

definition plan_ok :: "agent_job list \<Rightarrow> nat list list \<Rightarrow> bool" where
  "plan_ok jobs plan \<longleftrightarrow> length plan = length jobs \<and> (\<forall>ps\<in>set plan. \<forall>p\<in>set ps. p < length jobs)"

definition slots_inv ::
    "(agent_job \<Rightarrow> agent_result option) \<Rightarrow> health_probe \<Rightarrow> agent_job list \<Rightarrow> nat list list
     \<Rightarrow> nat list \<Rightarrow> slots \<Rightarrow> bool" where
  "slots_inv run health jobs plan remaining rs \<longleftrightarrow>
     length rs = length jobs \<and> distinct remaining
     \<and> set remaining = {i. i < length jobs \<and> rs ! i = None}
     \<and> (\<forall>i<length jobs. \<forall>r. rs ! i = Some r \<longrightarrow> slot_right run health jobs plan rs i r)"

definition extends :: "slots \<Rightarrow> slots \<Rightarrow> bool" where
  "extends rs rs' \<longleftrightarrow> length rs' = length rs \<and> (\<forall>i<length rs. rs ! i \<noteq> None \<longrightarrow> rs' ! i = rs ! i)"

lemma slot_right_extends:
  assumes "slot_right run health jobs plan rs i r" "extends rs rs'" "\<forall>p\<in>set (plan ! i). p < length rs"
  shows "slot_right run health jobs plan rs' i r"
proof (cases "\<forall>p\<in>set (plan ! i). slot_satisfied (rs ! p)")
  case True
  with assms have "\<forall>p\<in>set (plan ! i). slot_satisfied (rs' ! p)"
    by (auto simp: slot_satisfied_iff extends_def)
  with True assms(1) show ?thesis by (simp add: slot_right_def)
next
  case False
  then obtain p pr reason where p: "p \<in> set (plan ! i)" "rs ! p = Some pr"
      "dependency_reason pr = Some reason" "r = skipped_for_dependency (jobs ! i) reason"
    using assms(1) unfolding slot_right_def if_not_P [OF False] by blast
  moreover from p assms have "rs' ! p = Some pr" by (auto simp: extends_def)
  moreover from this p have "\<not> slot_satisfied (rs' ! p)" by (simp add: slot_satisfied_iff)
  ultimately show ?thesis by (auto simp: slot_right_def)
qed

lemma plan_ok_parents: "plan_ok jobs plan \<Longrightarrow> i < length jobs \<Longrightarrow> p \<in> set (plan ! i) \<Longrightarrow> p < length jobs"
  by (auto simp: plan_ok_def)

text \<open>The two steps of a round.\<close>

lemma inv_extend:
  assumes "slots_inv run health jobs plan remaining rs" "plan_ok jobs plan" "extends rs rs'"
    and "distinct remaining'" "set remaining' = {i \<in> set remaining. rs' ! i = None}"
    and new: "\<And>i r. i \<in> set remaining \<Longrightarrow> rs' ! i = Some r \<Longrightarrow> slot_right run health jobs plan rs' i r"
  shows "slots_inv run health jobs plan remaining' rs'"
  unfolding slots_inv_def
proof (intro conjI allI impI)
  show "length rs' = length jobs" using assms(1,3) by (simp add: slots_inv_def extends_def)
  show "set remaining' = {i. i < length jobs \<and> rs' ! i = None}"
    using assms(1,3,5) by (auto simp: slots_inv_def extends_def)
  fix i r assume i: "i < length jobs" "rs' ! i = Some r"
  show "slot_right run health jobs plan rs' i r"
  proof (cases "i \<in> set remaining")
    case False
    with i assms(1,3) have "rs ! i = Some r" by (auto simp: slots_inv_def extends_def) 
    with i assms(1) have "slot_right run health jobs plan rs i r" by (simp add: slots_inv_def)
    moreover have "\<forall>p\<in>set (plan ! i). p < length rs"
      using plan_ok_parents [OF assms(2) i(1)] assms(1) by (simp add: slots_inv_def)
    ultimately show ?thesis by (rule slot_right_extends [OF _ assms(3)])
  next
    case True
    then show ?thesis using i(2) by (rule new)
  qed
qed (use assms in auto)

lemma blocked_map_of:
  assumes "distinct remaining"
  shows "distinct (map fst (dependency_blocked_jobs remaining rs plan))"
    "fst ` set (dependency_blocked_jobs remaining rs plan)
       = {i \<in> set remaining. first_block rs (plan ! i) \<noteq> None}"
    "map_of (dependency_blocked_jobs remaining rs plan) i =
       (if i \<in> set remaining then first_block rs (plan ! i) else None)"
proof -
  note m = map_filter_indexed(1) [of "\<lambda>i. first_block rs (plan ! i)" remaining]
  show "distinct (map fst (dependency_blocked_jobs remaining rs plan))"
    unfolding dependency_blocked_jobs_def m using assms by simp
  show "fst ` set (dependency_blocked_jobs remaining rs plan)
       = {i \<in> set remaining. first_block rs (plan ! i) \<noteq> None}"
    using arg_cong [OF m, of set] by (simp add: dependency_blocked_jobs_def)
  show "map_of (dependency_blocked_jobs remaining rs plan) i =
       (if i \<in> set remaining then first_block rs (plan ! i) else None)"
    unfolding dependency_blocked_jobs_def by (rule map_filter_indexed(2) [OF assms])
qed

lemma skip_step:
  assumes inv: "slots_inv run health jobs plan remaining rs" and plan: "plan_ok jobs plan"
    and b: "blocked = dependency_blocked_jobs remaining rs plan"
  shows "slots_inv run health jobs plan (without blocked remaining) (skip_blocked jobs blocked rs)"
proof -
  have d: "distinct remaining" and len: "length rs = length jobs"
    and rem: "set remaining = {i. i < length jobs \<and> rs ! i = None}"
    using inv by (simp_all add: slots_inv_def)
  note bm = blocked_map_of [OF d, of rs plan, folded b]
  have nth: "skip_blocked jobs blocked rs ! i =
      (if i \<in> set remaining \<and> first_block rs (plan ! i) \<noteq> None
       then Some (skipped_for_dependency (jobs ! i) (the (first_block rs (plan ! i)))) else rs ! i)"
    if "i < length rs" for i
    using skip_blocked_nth [OF bm(1) that, of jobs] bm(2,3) rem len
    by (auto split: option.splits if_splits)
  have ext: "extends rs (skip_blocked jobs blocked rs)"
    unfolding extends_def using nth rem len by auto
  show ?thesis
  proof (rule inv_extend [OF inv plan ext])
    show "set (without blocked remaining) = {i \<in> set remaining. skip_blocked jobs blocked rs ! i = None}"
      using bm(2) nth rem len by (auto simp: without_def)
  next
    fix i r assume i: "i \<in> set remaining" "skip_blocked jobs blocked rs ! i = Some r"
    then have il: "i < length rs" using rem len by auto
    then obtain reason where fb: "first_block rs (plan ! i) = Some reason"
        and r: "r = skipped_for_dependency (jobs ! i) reason"
      using nth [OF il] i rem by (auto split: if_splits)
    from first_block_Some [OF fb] obtain p pr where p: "p \<in> set (plan ! i)" "rs ! p = Some pr"
        "dependency_reason pr = Some reason" by blast
    have "p < length rs" using plan_ok_parents [OF plan _ p(1)] il len by simp
    with ext p have "skip_blocked jobs blocked rs ! p = Some pr" by (auto simp: extends_def)
    with p r show "slot_right run health jobs plan (skip_blocked jobs blocked rs) i r"
      by (auto simp: slot_right_def slot_satisfied_iff)
  qed (use d in \<open>simp add: without_def\<close>)
qed

lemma run_step:
  assumes inv: "slots_inv run health jobs plan remaining rs" and plan: "plan_ok jobs plan"
    and ready: "ready = map (\<lambda>i. (i, jobs ! i)) (filter (\<lambda>i. dependencies_satisfied (plan ! i) rs) remaining)"
    and out: "run_parallel_jobs run picks health ready = Inr out"
  shows "slots_inv run health jobs plan (without out remaining) (fill_slots out rs)"
proof -
  have d: "distinct remaining" and len: "length rs = length jobs"
    and rem: "set remaining = {i. i < length jobs \<and> rs ! i = None}"
    using inv by (simp_all add: slots_inv_def)
  have fst_ready: "map fst ready = filter (\<lambda>i. dependencies_satisfied (plan ! i) rs) remaining"
    by (simp add: ready comp_def)
  have dout: "distinct (map fst out)"
    using par.distinct_indices [OF out] d by (simp add: fst_ready)
  have ix: "fst ` set out = {i \<in> set remaining. dependencies_satisfied (plan ! i) rs}"
    using par.indices [OF out] arg_cong [OF fst_ready, of set] by simp
  have mo: "map_of out i = Some (the (job_outcome run health (jobs ! i)))"
    "job_outcome run health (jobs ! i) \<noteq> None"
    if "i \<in> set remaining" "dependencies_satisfied (plan ! i) rs" for i
  proof -
    have m: "(i, jobs ! i) \<in> set ready" using that by (auto simp: ready)
    then show "job_outcome run health (jobs ! i) \<noteq> None" using par.all_run [OF out] by auto
    have "(i, the (job_outcome run health (jobs ! i))) \<in> set out"
      unfolding par.entries [OF out] using m by force
    then show "map_of out i = Some (the (job_outcome run health (jobs ! i)))"
      by (rule map_of_is_SomeI [OF dout])
  qed
  have nth: "fill_slots out rs ! i = (if i \<in> fst ` set out
       then Some (the (job_outcome run health (jobs ! i))) else rs ! i)" if "i < length rs" for i
  proof -
    have "fill_slots out rs ! i = (case map_of out i of None \<Rightarrow> rs ! i | Some r \<Rightarrow> Some r)"
      using fill_slots_nth [OF dout that] ix rem len by auto
    moreover have "i \<notin> fst ` set out \<Longrightarrow> map_of out i = None" by (simp add: map_of_eq_None_iff)
    moreover have "i \<in> fst ` set out \<Longrightarrow> map_of out i = Some (the (job_outcome run health (jobs ! i)))"
      using mo(1) ix by blast
    ultimately show ?thesis by simp
  qed
  have ext: "extends rs (fill_slots out rs)"
    unfolding extends_def using nth rem len ix by auto
  show ?thesis
  proof (rule inv_extend [OF inv plan ext])
    show "set (without out remaining) = {i \<in> set remaining. fill_slots out rs ! i = None}"
      using nth rem len unfolding without_def set_filter by (force split: if_splits)
  next
    fix i r assume i: "i \<in> set remaining" "fill_slots out rs ! i = Some r"
    then have il: "i < length rs" using rem len by auto
    then have "i \<in> fst ` set out" and r: "r = the (job_outcome run health (jobs ! i))"
      using nth [OF il] i rem by (auto split: if_splits)
    then have dep: "dependencies_satisfied (plan ! i) rs" using ix by auto
    have "slot_satisfied (fill_slots out rs ! p)" if "p \<in> set (plan ! i)" for p
      using dep that ext by (auto simp: dependencies_satisfied_def list_all_iff slot_satisfied_iff extends_def)
    with mo [OF i(1) dep] r show "slot_right run health jobs plan (fill_slots out rs) i r"
      by (auto simp: slot_right_def)
  qed (use d in \<open>simp add: without_def\<close>)
qed

lemma run_plan_loop_inv:
  "slots_inv run health jobs plan remaining rs \<Longrightarrow> plan_ok jobs plan \<Longrightarrow>
   run_plan_loop run picks health jobs plan n remaining rs = Inr rs' \<Longrightarrow>
   slots_inv run health jobs plan [] rs'"
proof (induction run picks health jobs plan n remaining rs rule: run_plan_loop.induct)
  case (1 run picks health jobs plan n remaining results)
  show ?case
  proof (cases "remaining = []")
    case True
    with 1 show ?thesis by (simp add: run_plan_loop.simps)
  next
    case False
    let ?blocked = "dependency_blocked_jobs remaining results plan"
    let ?rs1 = "skip_blocked jobs ?blocked results" and ?rem1 = "without ?blocked remaining"
    define ready where "ready = map (\<lambda>i. (i, jobs ! i))
        (filter (\<lambda>i. dependencies_satisfied (plan ! i) ?rs1) ?rem1)"
    define batch where "batch = run_parallel_jobs run (picks n) health ready"
    note inv1 = skip_step [OF 1(2,3) refl]
    have step: "run_plan_loop run picks health jobs plan n remaining results =
       (if ready = [] then (if ?rem1 = [] then Inr ?rs1 else Inl DependencyCycle)
        else if isl batch then Inl (projl batch)
        else run_plan_loop run picks health jobs plan (Suc n)
               (without (projr batch) ?rem1) (fill_slots (projr batch) ?rs1))"
      unfolding batch_def ready_def by (subst run_plan_loop.simps) (simp add: False Let_def)
    show ?thesis
    proof (cases "ready = []")
      case True
      with 1(4) step inv1 show ?thesis by (auto split: if_splits)
    next
      case rne: False
      with 1(4) step have b: "\<not> isl batch" by (auto split: if_splits)
      then have bo: "run_parallel_jobs run (picks n) health ready = Inr (projr batch)"
        by (simp add: batch_def)
      note inv2 = run_step [OF inv1 1(3) ready_def bo]
      show ?thesis
        by (rule 1(1) [OF False refl refl refl ready_def batch_def rne b inv2 1(3)])
           (use 1(4) step rne b in simp)
    qed
  qed
qed

definition index_ok :: "(string, nat) btree \<Rightarrow> nat \<Rightarrow> bool" where
  "index_ok idx n \<longleftrightarrow> (\<forall>ch c. bt_get idx ch = Some c \<longrightarrow> c < n)"

subsection \<open>The plan\<close>

lemma add_parents_fold:
  "index_ok idx (length ps) \<Longrightarrow>
   length (foldl (add_parent idx i) ps chs) = length ps
   \<and> (\<forall>c<length ps. set (foldl (add_parent idx i) ps chs ! c) =
       set (ps ! c) \<union> (if \<exists>ch\<in>set chs. bt_get idx ch = Some c then {i} else {}))"
proof (induction chs arbitrary: ps)
  case (Cons ch chs)
  have len: "length (add_parent idx i ps ch) = length ps"
    by (auto simp: add_parent_def split: option.splits)
  have "set (add_parent idx i ps ch ! c) = set (ps ! c) \<union> (if bt_get idx ch = Some c then {i} else {})"
    if "c < length ps" for c
    using that Cons.prems
    by (auto simp: add_parent_def index_ok_def set_insort_insert nth_list_update split: option.splits)
  with Cons.IH [of "add_parent idx i ps ch"] Cons.prems len show ?case by auto
qed auto

definition add_children :: "(string, nat) btree \<Rightarrow> nat list list \<Rightarrow> nat \<times> agent_job \<Rightarrow> nat list list" where
  "add_children idx ps p = (case p of (i, j) \<Rightarrow> foldl (add_parent idx i) ps (aj_children j))"

lemma plan_fold:
  "index_ok idx (length ps) \<Longrightarrow>
   length (foldl (add_children idx) ps js) = length ps
   \<and> (\<forall>c<length ps. set (foldl (add_children idx) ps js ! c) =
       set (ps ! c) \<union> {i. \<exists>j. (i, j) \<in> set js \<and> (\<exists>ch\<in>set (aj_children j). bt_get idx ch = Some c)})"
proof (induction js arbitrary: ps)
  case (Cons p js)
  obtain i j where p: "p = (i, j)" by (cases p)
  note ap = add_parents_fold [OF Cons.prems, of i "aj_children j"]
  have F: "add_children idx ps (i, j) = foldl (add_parent idx i) ps (aj_children j)"
    by (simp add: add_children_def)
  have "index_ok idx (length (add_children idx ps (i, j)))" using Cons.prems ap by (simp add: F)
  from Cons.IH [OF this] ap show ?case by (auto simp: F p)
qed auto

lemma dependency_plan_fold:
  "dependency_plan jobs = foldl (add_children (job_index jobs)) (replicate (length jobs) []) (enumerate 0 jobs)"
  by (simp add: dependency_plan_def add_children_def [abs_def])

lemma job_index_bound: "bt_get (job_index jobs) ch = Some c \<Longrightarrow> c < length jobs"
  by (auto simp: job_index_def bt_get_of_list dest!: map_of_SomeD set_zip_rightD)

lemma job_index_ok: "index_ok (job_index jobs) (length jobs)"
  unfolding index_ok_def using job_index_bound by blast

lemma dependency_plan_set:
  "length (dependency_plan jobs) = length jobs"
  "c < length jobs \<Longrightarrow> set (dependency_plan jobs ! c) =
     {i. i < length jobs \<and> (\<exists>ch\<in>set (aj_children (jobs ! i)). bt_get (job_index jobs) ch = Some c)}"
proof -
  have ok: "index_ok (job_index jobs) (length (replicate (length jobs) [] :: nat list list))"
    using job_index_ok by simp
  note f = plan_fold [OF ok, of "enumerate 0 jobs"]
  show "length (dependency_plan jobs) = length jobs"
    using f by (simp add: dependency_plan_fold)
  show "c < length jobs \<Longrightarrow> set (dependency_plan jobs ! c) =
     {i. i < length jobs \<and> (\<exists>ch\<in>set (aj_children (jobs ! i)). bt_get (job_index jobs) ch = Some c)}"
    using f by (auto simp: dependency_plan_fold in_set_enumerate_eq)
qed

lemma dependency_plan_ok: "plan_ok jobs (dependency_plan jobs)"
  unfolding plan_ok_def
proof (intro conjI ballI)
  show "length (dependency_plan jobs) = length jobs" by (rule dependency_plan_set(1))
  fix ps p assume ps: "ps \<in> set (dependency_plan jobs)" "p \<in> set ps"
  then obtain c where "c < length jobs" "ps = dependency_plan jobs ! c"
    by (metis dependency_plan_set(1) in_set_conv_nth)
  with ps(2) show "p < length jobs" by (simp add: dependency_plan_set(2))
qed

lemma dependency_plan_parents:
  assumes "distinct (map aj_job_id jobs)" "i < length jobs"
  shows "p \<in> set (dependency_plan jobs ! i) \<longleftrightarrow>
         p < length jobs \<and> aj_job_id (jobs ! i) \<in> set (aj_children (jobs ! p))"
proof -
  have idx: "bt_get (job_index jobs) ch = Some i \<longleftrightarrow> ch = aj_job_id (jobs ! i)" for ch
  proof -
    have d: "distinct (map fst (rev (zip (map aj_job_id jobs) [0..<length jobs])))"
      using assms(1) by (simp flip: rev_map)
    have "bt_get (job_index jobs) ch = Some i \<longleftrightarrow>
        (ch, i) \<in> set (rev (zip (map aj_job_id jobs) [0..<length jobs]))"
      unfolding job_index_def bt_get_of_list using d by (metis map_of_eq_Some_iff)
    also have "\<dots> \<longleftrightarrow> ch = aj_job_id (jobs ! i)"
      using assms(2) by (auto simp: set_zip intro!: exI [of _ i])
    finally show ?thesis .
  qed
  then show ?thesis
    unfolding dependency_plan_set(2) [OF assms(2)] by auto
qed

lemma validate_jobs_distinct:
  "validate_jobs seen jobs = Inr u \<Longrightarrow> distinct (map aj_job_id jobs) \<and> set (map aj_job_id jobs) \<inter> set seen = {}
     \<and> (\<forall>j\<in>set jobs. job_validate j = Inr ())"
  by (induction seen jobs rule: validate_jobs.induct) (auto split: if_splits sum.splits)

lemma validate_batch_distinct:
  "validate_batch jobs config = Inr u \<Longrightarrow> distinct (map aj_job_id jobs)"
  using validate_jobs_distinct [of "[]" jobs] by (auto simp: validate_batch_def split: if_splits)

subsection \<open>Submitting a batch\<close>

lemma empty_slots_inv: "plan_ok jobs plan \<Longrightarrow>
    slots_inv run health jobs plan [0..<length jobs] (replicate (length jobs) None)"
  by (auto simp: slots_inv_def)

lemma no_edges_satisfied:
  "\<not> has_edges plan \<Longrightarrow> i < length plan \<Longrightarrow> plan ! i = []"
  by (auto simp: has_edges_def list_ex_iff)

lemma enumerate_map_upt: "enumerate 0 xs = map (\<lambda>i. (i, xs ! i)) [0..<length xs]"
  by (rule nth_equalityI) (simp_all add: nth_enumerate_eq)

lemma fill_all_inv:
  assumes "fill_all run picks health jobs = Inr slots"
  shows "slots_inv run health jobs (dependency_plan jobs) [] slots"
proof -
  let ?plan = "dependency_plan jobs" and ?empty = "replicate (length jobs) None"
  note plan = dependency_plan_ok [of jobs]
  note inv0 = empty_slots_inv [OF plan, of run health]
  show ?thesis
  proof (cases "has_edges ?plan")
    case True
    with assms have "run_plan_loop run picks health jobs ?plan 0 [0..<length jobs] ?empty = Inr slots"
      by (simp add: fill_all_def Let_def)
    from run_plan_loop_inv [OF inv0 plan this] show ?thesis .
  next
    case False
    then obtain out where out: "run_parallel_jobs run (picks 0) health (enumerate 0 jobs) = Inr out"
        and slots: "slots = fill_slots out ?empty"
      using assms by (auto simp: fill_all_def Let_def bindr_Inr_iff)
    have "length ?plan = length jobs" using plan by (simp add: plan_ok_def)
    then have "filter (\<lambda>i. dependencies_satisfied (?plan ! i) ?empty) [0..<length jobs] = [0..<length jobs]"
      using no_edges_satisfied [OF False] by (intro filter_True) (simp add: dependencies_satisfied_def)
    then have ready: "enumerate 0 jobs = map (\<lambda>i. (i, jobs ! i))
        (filter (\<lambda>i. dependencies_satisfied (?plan ! i) ?empty) [0..<length jobs])"
      by (simp add: enumerate_map_upt)
    have "slots_inv run health jobs ?plan (without out [0..<length jobs]) slots"
      unfolding slots by (rule run_step [OF inv0 plan ready out])
    moreover have "without out [0..<length jobs] = []"
    proof -
      have "fst ` set out = set (map fst (enumerate 0 jobs))"
        by (simp only: list.set_map par.indices [OF out])
      then show ?thesis by (simp add: without_def filter_empty_conv)
    qed
    ultimately show ?thesis by simp
  qed
qed

lemma opt_mapM_id: "(\<forall>x\<in>set xs. x \<noteq> None) \<Longrightarrow> opt_mapM id xs = Some (map the xs)"
  by (induction xs) auto

lemma submit_cases:
  obtains e where "submit run picks probe config jobs = Some (Inl e)"
  | slots where "validate_batch jobs config = Inr ()"
      "fill_all run picks (healthcheck probe config (unique_runners jobs)) jobs = Inr slots"
      "submit run picks probe config jobs = Some (Inr (map the slots))"
      "\<forall>i<length jobs. slots ! i \<noteq> None"
proof (cases "validate_batch jobs config")
  case (Inl e)
  then show thesis by (intro that(1)) (simp add: submit_def)
next
  case v: (Inr u)
  let ?health = "healthcheck probe config (unique_runners jobs)"
  show thesis
  proof (cases "fill_all run picks ?health jobs")
    case (Inl e)
    then show thesis using v by (intro that(1)) (simp add: submit_def)
  next
    case (Inr slots)
    from fill_all_inv [OF this] have full: "\<forall>i<length jobs. slots ! i \<noteq> None" and "length slots = length jobs"
      by (auto simp: slots_inv_def)
    then have "opt_mapM id slots = Some (map the slots)"
      by (intro opt_mapM_id) (metis in_set_conv_nth)
    then show thesis using v Inr full by (intro that(2)) (auto simp: submit_def)
  qed
qed

text \<open>
  C1: When a submitted batch returns results there is one per job, in order, and each is what
  the dependency graph says: a job whose parents all succeeded without a pending merge review has
  its own outcome, any other job is skipped with a reason that names a parent that failed or waits
  for a merge.
\<close>

theorem submit_results:
  assumes "submit run picks probe config jobs = Some (Inr rs)"
    and "health = healthcheck probe config (unique_runners jobs)"
  shows "length rs = length jobs \<and> (\<forall>i<length jobs.
     let parents = {p. p < length jobs \<and> aj_job_id (jobs ! i) \<in> set (aj_children (jobs ! p))}
     in if \<forall>p\<in>parents. ar_status (rs ! p) = JobOk \<and> ar_merge_review (rs ! p) = None
        then job_outcome run health (jobs ! i) = Some (rs ! i)
        else \<exists>p\<in>parents. \<exists>reason. dependency_reason (rs ! p) = Some reason
               \<and> rs ! i = skipped_for_dependency (jobs ! i) reason)"
proof (cases rule: submit_cases [of run picks probe config jobs])
  case (1 e)
  with assms show ?thesis by simp
next
  case (2 slots)
  note inv = fill_all_inv [OF 2(2), folded assms(2)]
  have rs: "rs = map the slots" using assms 2 by simp
  have len: "length slots = length jobs" using inv by (simp add: slots_inv_def)
  have some: "slots ! i = Some (rs ! i)" if "i < length jobs" for i
    using 2(4) that len by (auto simp: rs)
  note dist = validate_batch_distinct [OF 2(1)]
  have sat: "slot_satisfied (slots ! p) \<longleftrightarrow> ar_status (rs ! p) = JobOk \<and> ar_merge_review (rs ! p) = None"
    if "p < length jobs" for p
    using some [OF that] by (simp add: slot_satisfied_def)
  show ?thesis
  proof (intro conjI allI impI)
    show "length rs = length jobs" using len by (simp add: rs)
    fix i assume i: "i < length jobs"
    define parents where "parents = {p. p < length jobs \<and> aj_job_id (jobs ! i) \<in> set (aj_children (jobs ! p))}"
    have par_eq: "set (dependency_plan jobs ! i) = parents"
      using dependency_plan_parents [OF dist i] by (auto simp: parents_def)
    have lt: "p < length jobs" if "p \<in> parents" for p using that by (simp add: parents_def)
    have "slot_right run health jobs (dependency_plan jobs) slots i (rs ! i)"
      using inv i some by (simp add: slots_inv_def)
    then have "if \<forall>p\<in>parents. slot_satisfied (slots ! p) then job_outcome run health (jobs ! i) = Some (rs ! i)
      else \<exists>p\<in>parents. \<exists>pr reason. slots ! p = Some pr \<and> dependency_reason pr = Some reason
             \<and> rs ! i = skipped_for_dependency (jobs ! i) reason"
      unfolding slot_right_def par_eq .
    then show "let parents = {p. p < length jobs \<and> aj_job_id (jobs ! i) \<in> set (aj_children (jobs ! p))}
     in if \<forall>p\<in>parents. ar_status (rs ! p) = JobOk \<and> ar_merge_review (rs ! p) = None
        then job_outcome run health (jobs ! i) = Some (rs ! i)
        else \<exists>p\<in>parents. \<exists>reason. dependency_reason (rs ! p) = Some reason
               \<and> rs ! i = skipped_for_dependency (jobs ! i) reason"
      unfolding Let_def parents_def [symmetric] using sat lt some
      by (smt (verit, ccfv_threshold) option.sel)
  qed
qed

text \<open>
  C16: Submitting a batch always returns a value: the dependency loop terminates on every graph
  and every slot is filled when it ends without an error, so the final \<open>expect\<close> never fires.
\<close>

theorem submit_never_panics: "submit run picks probe config jobs \<noteq> None"
  by (cases rule: submit_cases [of run picks probe config jobs]) auto

subsection \<open>Completion order\<close>

lemma fill_slots_perm:
  assumes "distinct (map fst out)" "mset out = mset out'"
  shows "fill_slots out rs = fill_slots out' rs"
proof (rule nth_equalityI)
  have d': "distinct (map fst out')" using assms by (metis mset_eq_imp_distinct_iff mset_map)
  have "map_of out = map_of out'"
    using assms d' by (metis map_of_inject_set mset_eq_setD)
  then show "fill_slots out rs ! i = fill_slots out' rs ! i" if "i < length (fill_slots out rs)" for i
    using that fill_slots_nth [OF assms(1)] fill_slots_nth [OF d'] by simp
qed simp

lemma without_perm: "mset out = mset out' \<Longrightarrow> without out rem = without out' rem"
  unfolding without_def by (metis mset_eq_setD)

lemma distinct_without: "distinct rem \<Longrightarrow> distinct (without out rem)"
  by (simp add: without_def)

lemma run_plan_loop_order:
  "distinct remaining \<Longrightarrow>
   run_plan_loop run picks health jobs plan n remaining rs
     = run_plan_loop run picks' health jobs plan n remaining rs"
proof (induction run picks health jobs plan n remaining rs rule: run_plan_loop.induct)
  case (1 run picks health jobs plan n remaining results)
  show ?case
  proof (cases "remaining = []")
    case True
    then show ?thesis by (simp add: run_plan_loop.simps)
  next
    case False
    let ?blocked = "dependency_blocked_jobs remaining results plan"
    let ?rs1 = "skip_blocked jobs ?blocked results" and ?rem1 = "without ?blocked remaining"
    define ready where "ready = map (\<lambda>i. (i, jobs ! i))
        (filter (\<lambda>i. dependencies_satisfied (plan ! i) ?rs1) ?rem1)"
    define batch where "batch p = run_parallel_jobs run (p n) health ready" for p :: "nat \<Rightarrow> nat list"
    have step: "run_plan_loop run p health jobs plan n remaining results =
       (if ready = [] then (if ?rem1 = [] then Inr ?rs1 else Inl DependencyCycle)
        else if isl (batch p) then Inl (projl (batch p))
        else run_plan_loop run p health jobs plan (Suc n)
               (without (projr (batch p)) ?rem1) (fill_slots (projr (batch p)) ?rs1))" for p
      unfolding batch_def ready_def by (subst run_plan_loop.simps) (simp add: False Let_def)
    have dready: "distinct (map fst ready)"
      using 1(2) by (simp add: ready_def comp_def distinct_without)
    show ?thesis
    proof (cases "ready = []")
      case True
      then show ?thesis by (simp add: step)
    next
      case rne: False
      show ?thesis
      proof (cases "batch picks")
        case (Inl e)
        then have "\<not> is_ok (batch picks')"
          using par.order_irrelevant(1) [of run "picks n" health ready "picks' n"] by (simp add: batch_def)
        then obtain e' where e': "batch picks' = Inl e'" by (cases "batch picks'") auto
        have "e = e'"
          using par.fails [OF Inl [unfolded batch_def]] par.fails [OF e' [unfolded batch_def]] by simp
        then show ?thesis by (simp add: step rne Inl e')
      next
        case (Inr out)
        then have "is_ok (batch picks')"
          using par.order_irrelevant(1) [of run "picks n" health ready "picks' n"] by (simp add: batch_def)
        then obtain out' where o': "batch picks' = Inr out'" by (cases "batch picks'") auto
        have m: "mset out = mset out'"
          by (rule par.order_irrelevant(2) [OF Inr [unfolded batch_def] o' [unfolded batch_def]])
        have d: "distinct (map fst out)"
          by (rule par.distinct_indices [OF Inr [unfolded batch_def] dready])
        have "run_plan_loop run picks health jobs plan (Suc n) (without out ?rem1) (fill_slots out ?rs1)
            = run_plan_loop run picks' health jobs plan (Suc n) (without out ?rem1) (fill_slots out ?rs1)"
          using 1(1) [OF False refl refl refl ready_def batch_def [of picks] rne] Inr 1(2)
          by (simp add: distinct_without)
        then show ?thesis
          by (simp add: step rne Inr o' without_perm [OF m] fill_slots_perm [OF d m])
      qed
    qed
  qed
qed

lemma fill_all_order: "fill_all run picks health jobs = fill_all run picks' health jobs"
proof (cases "has_edges (dependency_plan jobs)")
  case True
  then show ?thesis by (simp add: fill_all_def Let_def run_plan_loop_order [of _ _ picks _ _ _ _ _ picks'])
next
  case False
  let ?b = "\<lambda>p. run_parallel_jobs run (p 0) health (enumerate 0 jobs)"
  show ?thesis
  proof (cases "?b picks")
    case (Inl e)
    then have "\<not> is_ok (?b picks')" using par.order_irrelevant(1) [of run "picks 0" health "enumerate 0 jobs" "picks' 0"] by simp
    then obtain e' where e': "?b picks' = Inl e'" by (cases "?b picks'") auto
    have "e = e'" using par.fails [OF Inl] par.fails [OF e'] by simp
    with Inl e' False show ?thesis by (simp add: fill_all_def Let_def)
  next
    case (Inr out)
    then have "is_ok (?b picks')" using par.order_irrelevant(1) [of run "picks 0" health "enumerate 0 jobs" "picks' 0"] by simp
    then obtain out' where o': "?b picks' = Inr out'" by (cases "?b picks'") auto
    have m: "mset out = mset out'" by (rule par.order_irrelevant(2) [OF Inr o'])
    have d: "distinct (map fst out)" by (rule par.distinct_indices [OF Inr]) simp
    show ?thesis using Inr o' False fill_slots_perm [OF d m] by (simp add: fill_all_def Let_def)
  qed
qed


subsection \<open>Progress\<close>

lemma dependency_reason_None:
  "dependency_reason r = None \<longleftrightarrow> ar_status r = JobOk \<and> ar_merge_review r = None"
  by (simp add: dependency_reason_def)

lemma dependency_blocked_Nil:
  "(\<And>i. i \<in> set remaining \<Longrightarrow> first_block rs (plan ! i) = None) \<Longrightarrow>
   dependency_blocked_jobs remaining rs plan = []"
  by (induction remaining) (auto simp: dependency_blocked_jobs_def List.map_filter_simps)

definition all_good :: "slots \<Rightarrow> bool" where
  "all_good rs \<longleftrightarrow> (\<forall>s\<in>set rs. s = None \<or> slot_satisfied s)"

lemma all_good_no_block:
  assumes "all_good rs" "\<forall>p\<in>set ps. p < length rs"
  shows "first_block rs ps = None"
proof (rule ccontr)
  assume "first_block rs ps \<noteq> None"
  then obtain reason where "first_block rs ps = Some reason" by blast
  from first_block_Some [OF this] assms obtain p r where "p \<in> set ps" "rs ! p = Some r"
    "dependency_reason r \<noteq> None" by auto
  with assms have "slot_satisfied (Some r)" by (metis all_good_def nth_mem option.distinct(1))
  with \<open>dependency_reason r \<noteq> None\<close> show False by (simp add: slot_satisfied_iff)
qed

lemma run_plan_loop_progress:
  assumes "plan_ok jobs plan" and rank: "\<forall>i<length jobs. \<forall>p\<in>set (plan ! i). rank p < (rank i :: nat)"
    and good: "\<forall>j\<in>set jobs. \<exists>r. job_outcome run health j = Some r \<and> dependency_reason r = None"
    and "slots_inv run health jobs plan remaining rs" "all_good rs"
  shows "\<exists>rs'. run_plan_loop run picks health jobs plan n remaining rs = Inr rs'"
  using assms(4,5)
proof (induction "length remaining" arbitrary: remaining rs n rule: less_induct)
  case less
  show ?case
  proof (cases "remaining = []")
    case True
    then show ?thesis by (simp add: run_plan_loop.simps)
  next
    case False
    have rem: "set remaining = {i. i < length jobs \<and> rs ! i = None}" and len: "length rs = length jobs"
      using less.prems by (simp_all add: slots_inv_def)
    have nob: "dependency_blocked_jobs remaining rs plan = []"
      using less.prems(2) rem len plan_ok_parents [OF assms(1)]
      by (intro dependency_blocked_Nil all_good_no_block) auto
    define ready where "ready = map (\<lambda>i. (i, jobs ! i))
        (filter (\<lambda>i. dependencies_satisfied (plan ! i) rs) remaining)"
    define batch where "batch = run_parallel_jobs run (picks n) health ready"
    have step: "run_plan_loop run picks health jobs plan n remaining rs =
       (if ready = [] then Inl DependencyCycle
        else if isl batch then Inl (projl batch)
        else run_plan_loop run picks health jobs plan (Suc n)
               (without (projr batch) remaining) (fill_slots (projr batch) rs))"
      unfolding batch_def ready_def
      by (subst run_plan_loop.simps) (simp add: False Let_def nob without_def skip_blocked_def)
    obtain i where i: "i \<in> set remaining" "\<And>k. k \<in> set remaining \<Longrightarrow> rank i \<le> rank k"
      using arg_min_nat_lemma [of "\<lambda>i. i \<in> set remaining" "hd remaining" rank] False by auto
    have "dependencies_satisfied (plan ! i) rs"
      unfolding dependencies_satisfied_def list_all_iff
    proof (intro ballI conjI)
      fix p assume p: "p \<in> set (plan ! i)"
      have il: "i < length jobs" using i rem by auto
      then show pl: "p < length rs" using p plan_ok_parents [OF assms(1)] len by simp
      have "rank p < rank i" using rank il p by blast
      then have "p \<notin> set remaining" using i(2) by (meson not_le)
      with pl rem len have "rs ! p \<noteq> None" by auto
      with pl less.prems(2) show "slot_satisfied (rs ! p)" by (metis all_good_def nth_mem)
    qed
    then have rne: "ready \<noteq> []" using i(1) by (auto simp: ready_def filter_empty_conv)
    have jobs_in: "\<forall>(i, j)\<in>set ready. j \<in> set jobs"
      using rem by (auto simp: ready_def)
    have "is_ok batch"
      unfolding batch_def par.ok_iff using jobs_in good by fastforce
    then obtain out where out: "batch = Inr out" by (cases batch) auto
    note out' = out [unfolded batch_def]
    have inv: "slots_inv run health jobs plan (without out remaining) (fill_slots out rs)"
      by (rule run_step [OF less.prems(1) assms(1) ready_def out'])
    have shrink: "length (without out remaining) < length remaining"
      using without_shrinks [of ready "\<lambda>i. (i, jobs ! i)" "\<lambda>i. dependencies_satisfied (plan ! i) rs"
          "[]" remaining run "picks n" health out] out' rne
      by (simp add: ready_def without_def)
    have gd: "all_good (fill_slots out rs)"
    proof -
      have d: "distinct (map fst out)"
        using par.distinct_indices [OF out'] less.prems(1)
        by (simp add: ready_def comp_def slots_inv_def)
      have "slot_satisfied (Some r)" if "map_of out i = Some r" for i r
      proof -
        have mem: "(i, r) \<in> set out" using that by (rule map_of_SomeD)
        obtain j where "(i, j) \<in> set ready" "r = the (job_outcome run health j)"
          using mem unfolding par.entries [OF out'] by auto
        with jobs_in good show ?thesis by (fastforce simp: slot_satisfied_iff)
      qed
      then show ?thesis
        using less.prems(2) fill_slots_nth [OF d]
        by (auto simp: all_good_def in_set_conv_nth split: option.splits) (metis nth_mem option.distinct(1))+
    qed
    show ?thesis using less.hyps [OF shrink inv gd] step rne out by simp
  qed
qed

text \<open>
  C15: A valid batch on an acyclic graph whose jobs all succeed without a merge review returns
  results, never an error.
\<close>

theorem submit_completes:
  assumes "validate_batch jobs config = Inr ()"
    and "\<forall>p<length jobs. \<forall>i<length jobs. aj_job_id (jobs ! i) \<in> set (aj_children (jobs ! p)) \<longrightarrow> rank p < (rank i :: nat)"
    and "\<forall>j\<in>set jobs. \<exists>r. job_outcome run (healthcheck probe config (unique_runners jobs)) j = Some r
           \<and> ar_status r = JobOk \<and> ar_merge_review r = None"
  shows "\<exists>rs. submit run picks probe config jobs = Some (Inr rs)"
proof -
  let ?health = "healthcheck probe config (unique_runners jobs)" and ?plan = "dependency_plan jobs"
  note plan = dependency_plan_ok [of jobs]
  have good: "\<forall>j\<in>set jobs. \<exists>r. job_outcome run ?health j = Some r \<and> dependency_reason r = None"
    using assms(3) unfolding dependency_reason_None .
  have "\<exists>slots. fill_all run picks ?health jobs = Inr slots"
  proof (cases "has_edges ?plan")
    case True
    have rank: "\<forall>i<length jobs. \<forall>p\<in>set (?plan ! i). rank p < rank i"
      using assms(2) dependency_plan_parents [OF validate_batch_distinct [OF assms(1)]] by simp
    show ?thesis
      using run_plan_loop_progress [OF plan rank good empty_slots_inv [OF plan]] True
      by (auto simp: fill_all_def Let_def all_good_def)
  next
    case False
    have "is_ok (run_parallel_jobs run (picks 0) ?health (enumerate 0 jobs))"
      unfolding par.ok_iff using good by (fastforce simp: in_set_enumerate_eq)
    then show ?thesis using False
      by (cases "run_parallel_jobs run (picks 0) ?health (enumerate 0 jobs)")
         (auto simp: fill_all_def Let_def)
  qed
  with assms(1) submit_never_panics [of run picks probe config jobs] show ?thesis
    by (auto simp: submit_def split: option.splits)
qed

lemma run_single:
  assumes "job_outcome run health j = Some r"
  shows "run_parallel_jobs run picks health [(i, j)] = Inr [(i, r)]"
proof -
  have "is_ok (run_parallel_jobs run picks health [(i, j)])"
    unfolding par.ok_iff using assms by simp
  then obtain out where out: "run_parallel_jobs run picks health [(i, j)] = Inr out"
    by (cases "run_parallel_jobs run picks health [(i, j)]") auto
  then show ?thesis using par.all_run [OF out] assms by simp
qed

lemma chain_plan:
  assumes "distinct [aj_job_id a, aj_job_id b, aj_job_id c]"
    and "aj_children a = [aj_job_id b]" "aj_children b = [aj_job_id c]" "aj_children c = []"
  shows "dependency_plan [a, b, c] = [[], [0], [1]]"
proof -
  have upt: "[0..<length [a, b, c]] = [0, 1, 2]" by (simp add: upt_rec)
  have "bt_get (job_index [a, b, c]) (aj_job_id b) = Some 1"
    "bt_get (job_index [a, b, c]) (aj_job_id c) = Some 2"
    unfolding job_index_def bt_get_of_list upt using assms(1) by auto
  then show ?thesis
    using assms by (simp add: dependency_plan_def add_parent_def numeral_2_eq_2 insort_insert_key_def)
qed

text \<open>
  In a chain of three jobs whose first job fails, the batch is not answered with one
  failed and two skipped results: it fails as a dependency cycle, although the graph has none.
\<close>

theorem chain_with_failed_root_is_a_cycle_error:
  assumes valid: "validate_batch [a, b, c] config = Inr ()"
    and children: "aj_children a = [aj_job_id b]" "aj_children b = [aj_job_id c]" "aj_children c = []"
    and failed: "job_outcome run (healthcheck probe config (unique_runners [a, b, c])) a = Some r"
      "ar_status r \<noteq> JobOk"
  shows "submit run picks probe config [a, b, c] = Some (Inl DependencyCycle)"
proof -
  let ?health = "healthcheck probe config (unique_runners [a, b, c])"
  have plan: "dependency_plan [a, b, c] = [[], [0], [1]]"
    using validate_batch_distinct [OF valid] children by (intro chain_plan) simp_all
  obtain reason where reason: "dependency_reason r = Some reason"
    using failed(2) by (auto simp: dependency_reason_def)
  have upt: "[0..<length [a, b, c]] = [0, 1, 2]" by (simp add: upt_rec)
  have round2: "run_plan_loop run picks ?health [a, b, c] [[], [0], [1]] (Suc 0) [1, 2] [Some r, None, None]
      = Inl DependencyCycle"
    by (subst run_plan_loop.simps)
       (simp add: dependency_blocked_jobs_def List.map_filter_simps reason skip_blocked_def without_def
          dependencies_satisfied_def slot_satisfied_def skipped_for_dependency_def blank_result_def
          numeral_2_eq_2)
  have "run_plan_loop run picks ?health [a, b, c] [[], [0], [1]] 0 [0, 1, 2] [None, None, None]
      = run_plan_loop run picks ?health [a, b, c] [[], [0], [1]] (Suc 0) [1, 2] [Some r, None, None]"
    by (subst run_plan_loop.simps)
       (simp add: dependency_blocked_jobs_def List.map_filter_simps skip_blocked_def without_def
          dependencies_satisfied_def slot_satisfied_def run_single [OF failed(1)] fill_slots_def
          numeral_2_eq_2)
  with round2 have "fill_all run picks ?health [a, b, c] = Inl DependencyCycle"
    unfolding fill_all_def Let_def plan upt by (simp add: has_edges_def)
  then show ?thesis by (simp add: submit_def valid)
qed


subsection \<open>Sample batches\<close>

definition sample_job :: "string \<Rightarrow> string list \<Rightarrow> agent_job" where
  "sample_job i children =
     \<lparr> aj_job_id = i, aj_prompt_ref = ''p.md'', aj_runner = ''codex'', aj_prompt_is_inline = False,
       aj_model = None, aj_env = [], aj_permission_policy = default_policy, aj_isolation = ''none'',
       aj_output_schema = None, aj_parent_pattern = Linear, aj_budget = default_job_budget,
       aj_retry_policy = default_retry_policy, aj_verifier_of = None, aj_children = children,
       aj_task_type = None, aj_size = Small, aj_test_cmd = None, aj_needs_worktree = False,
       aj_meta = [] \<rparr>"

definition sample_probe :: "nat \<Rightarrow> string list \<Rightarrow> healthcheck_error + health_probe" where
  "sample_probe i runners = Inr (map (\<lambda>r. (r, True)) runners)"

text \<open>Jobs whose id starts with \<open>x\<close> exit with an error, the others reply.\<close>

definition sample_run :: "agent_job \<Rightarrow> agent_result option" where
  "sample_run j = Some (result_from_attempt j (if prefix ''x'' (aj_job_id j) then 1 else 0) ''ok'' [] 1)"

definition sample_chain :: "string \<Rightarrow> agent_job list" where
  "sample_chain rid = [sample_job rid [''b''], sample_job ''b'' [''c''], sample_job ''c'' []]"

lemma chain_with_failed_root_is_a_cycle_error_witness:
  "submit sample_run (\<lambda>_. []) sample_probe default_config (sample_chain ''xa'')
     = Some (Inl DependencyCycle)"
proof -
  let ?h = "healthcheck sample_probe default_config (unique_runners (sample_chain ''xa''))"
  have "validate_batch (sample_chain ''xa'') default_config = Inr ()" by code_simp
  moreover have "ar_status (the (job_outcome sample_run ?h (sample_job ''xa'' [''b'']))) = JobFailed"
    "job_outcome sample_run ?h (sample_job ''xa'' [''b'']) \<noteq> None" by code_simp+
  moreover have "aj_children (sample_job i ch) = ch" "aj_job_id (sample_job i ch) = i" for i ch
    by (simp_all add: sample_job_def)
  ultimately show ?thesis
    unfolding sample_chain_def
    by (intro chain_with_failed_root_is_a_cycle_error
          [where r = "the (job_outcome sample_run ?h (sample_job ''xa'' [''b'']))"])
       (simp_all add: sample_chain_def)
qed

lemma submit_completes_witness:
  "\<exists>rs. submit sample_run (\<lambda>_. [3, 1]) sample_probe default_config (sample_chain ''a'') = Some (Inr rs)"
proof (rule submit_completes [where rank = id])
  show "validate_batch (sample_chain ''a'') default_config = Inr ()" by code_simp
  have "list_all (\<lambda>p. list_all (\<lambda>i. aj_job_id (sample_chain ''a'' ! i) \<in> set (aj_children (sample_chain ''a'' ! p))
      \<longrightarrow> p < i) [0, 1, 2]) [0, 1, 2::nat]" by code_simp
  moreover have "i < length (sample_chain ''a'') \<Longrightarrow> i \<in> set [0, 1, 2]" for i
    by (auto simp: sample_chain_def)
  ultimately show "\<forall>p<length (sample_chain ''a''). \<forall>i<length (sample_chain ''a'').
      aj_job_id (sample_chain ''a'' ! i) \<in> set (aj_children (sample_chain ''a'' ! p)) \<longrightarrow> id p < id i"
    unfolding list_all_iff id_def by blast
  have "list_all (\<lambda>j. case job_outcome sample_run (healthcheck sample_probe default_config
       (unique_runners (sample_chain ''a''))) j of None \<Rightarrow> False
      | Some r \<Rightarrow> ar_status r = JobOk \<and> ar_merge_review r = None) (sample_chain ''a'')" by code_simp
  then show "\<forall>j\<in>set (sample_chain ''a''). \<exists>r. job_outcome sample_run
       (healthcheck sample_probe default_config (unique_runners (sample_chain ''a''))) j = Some r
       \<and> ar_status r = JobOk \<and> ar_merge_review r = None"
    by (auto simp: list_all_iff split: option.splits)
qed

lemma submit_results_witness:
  "\<exists>rs. submit sample_run (\<lambda>_. []) sample_probe default_config [sample_job ''xa'' [''b''], sample_job ''b'' []]
      = Some (Inr rs) \<and> ar_status (rs ! 1) = Skipped"
proof -
  let ?jobs = "[sample_job ''xa'' [''b''], sample_job ''b'' []]"
  let ?s = "submit sample_run (\<lambda>_. []) sample_probe default_config ?jobs"
  have ok: "\<not> isl (the ?s)" by code_simp
  obtain rs where rs: "?s = Some (Inr rs)"
    using submit_never_panics [of sample_run "\<lambda>_. []" sample_probe default_config ?jobs] ok
    by (cases ?s; cases "the ?s") auto
  have parent: "ar_status (rs ! 0) \<noteq> JobOk"
  proof -
    have "ar_status (projr (the ?s) ! 0) = JobFailed" by code_simp
    with rs show ?thesis by simp
  qed
  have sj: "aj_children (sample_job i ch) = ch" "aj_job_id (sample_job i ch) = i" for i ch
    by (simp_all add: sample_job_def)
  have par: "{p. p < length ?jobs \<and> aj_job_id (?jobs ! 1) \<in> set (aj_children (?jobs ! p))} = {0}"
    by (auto simp: sj less_Suc_eq)
  have one: "1 < length ?jobs" by simp
  note at1 = submit_results [OF rs refl, THEN conjunct2, rule_format, OF one, unfolded Let_def par]
  from at1 parent obtain reason where "rs ! 1 = skipped_for_dependency (?jobs ! 1) reason" by auto
  then show ?thesis using rs by (auto simp: skipped_for_dependency_def blank_result_def)
qed

end
