(* ===== verification/Lto_Attempts.thy ===== *)
theory Lto_Attempts
  imports Lto_Submit
begin

text \<open>
  Properties of single jobs in \<open>src/src/scheduler.rs\<close>: the retry loop, the health probe, exit
  classification, and what an attempt does to its worktree.
\<close>

subsection \<open>Retries\<close>

lemma f_add_not_NaN: "a \<noteq> NaN \<Longrightarrow> a \<noteq> NInf \<Longrightarrow> duration_ok d \<Longrightarrow> f_add a d \<noteq> NaN \<and> f_add a d \<noteq> NInf \<or> d = NaN \<or> (\<exists>x. a = Fin x)"
  by (cases a; cases d) (auto simp: duration_ok_def)

lemma fl_nonneg: "0 \<le> q \<Longrightarrow> fl q \<noteq> NaN \<and> fl q \<noteq> NInf \<and> f_le (Fin 0) (fl q)"
  using round_pos_nonneg [of q] by (cases "q = 0") (auto simp: fl_def Let_def)

lemma f_add_nonneg:
  assumes "f_le (Fin 0) a" "f_le (Fin 0) b"
  shows "f_le (Fin 0) (f_add a b)"
  using assms by (cases a; cases b) (auto dest: fl_nonneg [OF add_nonneg_nonneg])

lemma backoff_bounds:
  assumes "next_backoff_sec p k config elapsed t = Some d"
    and "sc_max_backoff_sec config \<noteq> NaN" "sc_total_retry_wall_sec config \<noteq> NaN"
    and "f_le (Fin 0) elapsed" "duration_ok d"
  shows "0 < k \<and> k \<le> rp_max_retries p \<and> f_le d (sc_max_backoff_sec config)
    \<and> f_le (f_add elapsed d) (f_min (sc_total_retry_wall_sec config) (f_of_u64 t))
    \<and> f_le (Fin 0) d"
proof -
  let ?b = "f_min (sc_total_retry_wall_sec config) (f_of_u64 t)"
  have k: "0 < k" "k \<le> rp_max_retries p" and d: "d = f_min (f_mul (rp_backoff_sec p)
      (f_powi2 (sint (k - 1)))) (sc_max_backoff_sec config)" and nl: "\<not> f_lt ?b (f_add elapsed d)"
    using assms(1) by (auto simp: next_backoff_sec_def Let_def word_gt_0 not_less split: if_splits)
  have d0: "f_le (Fin 0) d" using assms(5) by (cases d) (auto simp: duration_ok_def)
  then have "f_le (Fin 0) (f_add elapsed d)" by (rule f_add_nonneg [OF assms(4)])
  then have "f_add elapsed d \<noteq> NaN" by auto
  moreover have "?b \<noteq> NaN" using assms(3) by (intro f_min_not_NaN) simp
  ultimately have "f_le (f_add elapsed d) ?b" using nl f_le_total by (auto simp: f_lt_def)
  moreover have "f_le d (sc_max_backoff_sec config)" unfolding d by (rule f_min_le [OF assms(2)])
  ultimately show ?thesis using k d0 by simp
qed

definition log_ok :: "agent_job \<Rightarrow> scheduler_config \<Rightarrow> retry_entry list \<Rightarrow> bool" where
  "log_ok j config lg \<longleftrightarrow>
     length lg \<le> unat (rp_max_retries (aj_retry_policy j))
     \<and> (\<forall>e\<in>set lg. re_status e \<in> set (rp_retry_on (aj_retry_policy j))
          \<and> f_le (Fin 0) (re_delay e) \<and> f_le (re_delay e) (sc_max_backoff_sec config))
     \<and> (lg \<noteq> [] \<longrightarrow> f_le (foldl f_add (Fin 0) (map re_delay lg))
          (f_min (sc_total_retry_wall_sec config) (f_of_u64 (jb_timeout_sec (aj_budget j)))))"

lemma retry_loop_ok:
  assumes "sc_max_backoff_sec config \<noteq> NaN" "sc_total_retry_wall_sec config \<noteq> NaN"
  shows "retry_loop once j config n idx elapsed lg prev = Some (r, lg') \<Longrightarrow>
     idx = of_nat (length lg) \<Longrightarrow> elapsed = foldl f_add (Fin 0) (map re_delay lg) \<Longrightarrow>
     f_le (Fin 0) elapsed \<Longrightarrow> log_ok j config lg \<Longrightarrow> length lg + n < 2 ^ 32 \<Longrightarrow>
     log_ok j config lg' \<and> (length lg' < length lg + n \<longrightarrow> r = once (of_nat (length lg' + 1)))"
proof (induction n arbitrary: idx elapsed lg prev)
  case (Suc n)
  define result where "result = once (sat_add idx 1)"
  define delay where "delay = attempt_delay once j config idx elapsed"
  have small: "length lg + 1 < 2 ^ 32" using Suc.prems(6) by simp
  then have ui: "unat idx = length lg" by (simp add: Suc.prems(2) unsigned_of_nat take_bit_nat_eq_self)
  have att: "sat_add idx 1 = of_nat (length lg + 1)"
  proof -
    have "unat (sat_add idx 1) = length lg + 1" using small by (simp add: unat_sat_add ui)
    then show ?thesis
      using small by (simp add: word_unat_eq_iff unsigned_of_nat take_bit_nat_eq_self del: of_nat_Suc)
  qed
  have step: "retry_loop once j config (Suc n) idx elapsed lg prev =
     (if delay = None then Some (result, lg) else if \<not> duration_ok (the delay) then None
      else retry_loop once j config n (idx + 1) (f_add elapsed (the delay))
        (lg @ [retry_entry_of (sat_add idx 1) result (the delay)]) (Some result))"
    by (simp only: retry_loop.simps result_def delay_def)
  show ?case
  proof (cases delay)
    case None
    with Suc.prems(1) step have "r = result" "lg' = lg" by auto
    with Suc.prems(5) show ?thesis by (simp only: result_def att simp_thms)
  next
    case (Some d)
    with Suc.prems(1) have ok: "duration_ok d" and
      rec: "retry_loop once j config n (idx + 1) (f_add elapsed d)
        (lg @ [retry_entry_of (sat_add idx 1) result d]) (Some result) = Some (r, lg')"
      unfolding step by (auto split: if_splits)
    from Some have st: "ar_status result \<in> set (rp_retry_on (aj_retry_policy j))"
      and nb: "next_backoff_sec (aj_retry_policy j) (idx + 1) config elapsed (jb_timeout_sec (aj_budget j)) = Some d"
      by (auto simp: delay_def attempt_delay_def result_def retry_delay_after_attempt_def split: if_splits)
    note bb = backoff_bounds [OF nb assms Suc.prems(4) ok]
    have ui1: "unat (idx + 1) = length lg + 1"
    proof -
      have "idx + 1 = of_nat (length lg + 1)" by (simp add: Suc.prems(2))
      then show ?thesis using small by (simp add: unsigned_of_nat take_bit_nat_eq_self del: of_nat_Suc of_nat_add)
    qed
    let ?lg = "lg @ [retry_entry_of (sat_add idx 1) result d]"
    have a: "idx + 1 = of_nat (length ?lg)" by (simp add: Suc.prems(2))
    have b: "f_add elapsed d = foldl f_add (Fin 0) (map re_delay ?lg)"
      by (simp add: Suc.prems(3) retry_entry_of_def)
    have c: "f_le (Fin 0) (f_add elapsed d)" using bb Suc.prems(4) by (intro f_add_nonneg) simp_all
    have "length lg + 1 \<le> unat (rp_max_retries (aj_retry_policy j))"
      using bb ui1 by (simp add: word_le_nat_alt)
    then have e: "log_ok j config ?lg"
      using Suc.prems(5) bb st unfolding log_ok_def b [symmetric] by (simp add: retry_entry_of_def)
    have f: "length ?lg + n < 2 ^ 32" using Suc.prems(6) by simp
    from Suc.IH [OF rec a b c e f] show ?thesis by simp
  qed
qed simp

text \<open>
  C18: Retries are bounded: at most \<open>max_retries\<close> delays, each only after a status the policy
  retries, none negative or above the back-off cap, their accumulated sum within the retry budget;
  and the result returned is that of the attempt after the last delay. (Neither limit is NaN, and
  the retry count is not the greatest \<open>u32\<close>.)
\<close>

theorem retry_bounds:
  assumes "retry_loop once j config (unat (sat_add (rp_max_retries (aj_retry_policy j)) 1)) 0 (Fin 0) [] None
      = Some (r, lg)"
    and "sc_max_backoff_sec config \<noteq> NaN" "sc_total_retry_wall_sec config \<noteq> NaN"
    and "rp_max_retries (aj_retry_policy j) \<noteq> - 1"
  shows "log_ok j config lg \<and> r = once (of_nat (length lg + 1))"
proof -
  let ?m = "rp_max_retries (aj_retry_policy j)"
  have lt: "unat ?m < 2 ^ 32 - 1"
  proof -
    have "unat ?m < 2 ^ 32" using unat_u32_less [of ?m] by simp
    moreover have "unat ?m \<noteq> 2 ^ 32 - 1"
    proof
      assume "unat ?m = 2 ^ 32 - 1"
      then have "unat ?m = unat (- 1 :: u32)" by (simp add: unat_minus_one_max)
      with assms(4) show False by (simp only: word_unat_eq_iff)
    qed
    ultimately show ?thesis by simp
  qed
  then have n: "unat (sat_add ?m 1) = unat ?m + 1" by (simp add: unat_sat_add)
  have "log_ok j config lg \<and> (length lg < 0 + unat (sat_add ?m 1) \<longrightarrow> r = once (of_nat (length lg + 1)))"
    using retry_loop_ok [OF assms(2,3,1)] lt n by (simp add: log_ok_def)
  then show ?thesis using n by (auto simp: log_ok_def)
qed

subsection \<open>Health\<close>

lemma probe_ok_merge: "probe_ok (merge_probe p bad h) r \<longleftrightarrow> probe_ok h r \<or> (r \<in> set bad \<and> probe_ok p r)"
  unfolding merge_probe_def
  by (induction bad arbitrary: h) (auto simp: probe_ok_def bt_get_insert split: if_splits)

lemma probe_ok_retry: "probe_ok (retry_probes runners ps h) r \<longleftrightarrow>
    probe_ok h r \<or> (r \<in> set runners \<and> (\<exists>p\<in>set ps. probe_ok p r))"
  by (induction runners ps h rule: retry_probes.induct)
     (auto simp: probe_ok_merge still_bad_def Let_def filter_empty_conv)

lemma probe_ok_of_map: "probe_ok (bt_of_list (map (\<lambda>r. (r, f r)) rs)) r \<longleftrightarrow> r \<in> set rs \<and> f r"
  by (simp add: probe_ok_def bt_get_of_list opt_get_or_def rev_map map_of_map_restrict restrict_map_def)

text \<open>
  A runner is healthy after the retries exactly when it was asked for and one of the first
  probe and the allowed retries reports it healthy.
\<close>

theorem healthcheck_retries_spec:
  "probe_ok (healthcheck_with_retries runners probes retries) r \<longleftrightarrow>
     r \<in> set runners \<and> (\<exists>p\<in>set (take (unat retries + 1) probes). probe_ok p r)"
proof (cases probes)
  case Nil
  then show ?thesis
    by (simp add: healthcheck_with_retries_def first_opt_def probe_ok_of_map)
next
  case (Cons p ps)
  then show ?thesis
    by (auto simp: healthcheck_with_retries_def first_opt_def probe_ok_of_map probe_ok_retry)
qed

subsection \<open>Exit classification\<close>

text \<open>
  The status of an exit: success needs exit code zero and a reply; a quota marker wins over
  a rate-limit marker, which wins over the timeout code; and a quota exhaustion is never retried
  under the default policy.
\<close>

theorem classify_exit_table:
  "ce_status (classify_exit runner code reply stderr) =
     (let quota = contains_quota_exhausted_marker stderr \<or> contains_quota_exhausted_marker reply;
          rate = contains_rate_limit_marker stderr \<or> contains_rate_limit_marker reply
      in if code = 0 then (if reply = [] then JobFailed else JobOk)
         else if quota then QuotaExhausted
         else if rate then RateLimited
         else if code = 124 then JobTimeout else JobFailed)
   \<and> ce_exit_code (classify_exit runner code reply stderr) = code
   \<and> retry_delay_after_attempt QuotaExhausted default_retry_policy used config elapsed t = None"
  by (simp add: classify_exit_def Let_def retry_delay_after_attempt_def default_retry_policy_def)

subsection \<open>Worktrees of an attempt\<close>

lemma finalize_review:
  assumes "finalize_write_task r h em = (r', acts)" "ar_merge_review r = None"
  shows "(ar_merge_review r' = None \<longrightarrow> acts = [PruneWorktree h])
    \<and> (ar_merge_review r' \<noteq> None \<longrightarrow> acts = [])
    \<and> (ar_status r' = JobOk \<longrightarrow> (\<exists>mr. ar_merge_review r' = Some mr \<and> trim (dw_diff (mr_diff mr)) \<noteq> []
          \<and> test_gate_action (mr_diff mr) = Batchable))"
  using assms
  by (auto simp: finalize_write_task_def attach_review_def Let_def build_merge_review_def
      split: if_splits sum.splits joined.splits) (metis test_gate_action.exhaust)+

definition review_invariant :: "agent_job \<Rightarrow> agent_result \<Rightarrow> wt_action list \<Rightarrow> bool" where
  "review_invariant j r acts \<longleftrightarrow>
     (\<forall>h. AddWorktree h \<in> set acts \<longrightarrow> (PruneWorktree h \<in> set acts \<longleftrightarrow> ar_merge_review r = None))
     \<and> (\<forall>h. PruneWorktree h \<in> set acts \<longrightarrow> AddWorktree h \<in> set acts)
     \<and> (ar_merge_review r \<noteq> None \<longrightarrow> (\<exists>h. AddWorktree h \<in> set acts))
     \<and> (job_needs_worktree j \<and> ar_status r = JobOk \<longrightarrow>
          (\<exists>mr. ar_merge_review r = Some mr \<and> trim (dw_diff (mr_diff mr)) \<noteq> []
             \<and> test_gate_action (mr_diff mr) = Batchable))"

lemma attempt_result_no_review: "ar_merge_review (attempt_result j n w) = None"
  by (auto simp: attempt_result_def result_from_attempt_def failure_result_def timeout_result_def
      blank_result_def Let_def split: wait_outcome.splits option.splits)

lemma failure_no_review [simp]: "ar_merge_review (failure_result j n c e) = None"
    "ar_status (failure_result j n c e) = JobFailed"
  by (simp_all add: failure_result_def blank_result_def)

lemma run_command_review:
  assumes "run_command j n w (Some h) = (r, acts)" "job_needs_worktree j"
  shows "review_invariant j r (AddWorktree h # acts)"
proof (cases "aw_live_dir w = None \<and> aw_live_log w = None \<and> aw_spawn w = None")
  case True
  then have f: "finalize_write_task ((attempt_result j n w)
      \<lparr> ar_cost := attempt_cost w (ar_cost (attempt_result j n w)),
        ar_permissions := permission_snapshot (aj_permission_policy j) \<rparr>) h (aw_emit_diff w) = (r, acts)"
    using assms(1) by (simp add: run_command_def Let_def)
  show ?thesis
    using finalize_review [OF f] attempt_result_no_review [of j n w]
    by (auto simp: review_invariant_def)
next
  case False
  then show ?thesis
    using assms(1) by (auto simp: run_command_def Let_def review_invariant_def split: option.splits)
qed

lemma needs_worktree_size: "job_needs_worktree (j\<lparr>aj_size := s\<rparr>) = job_needs_worktree j"
  by (simp add: job_needs_worktree_def is_write_task_type_def)

lemma run_effective_review:
  assumes "run_effective dir j n w = (r, acts)"
  shows "review_invariant j r acts"
proof (cases "aj_runner j = ''tmux'' \<or> \<not> job_needs_worktree j")
  case True
  then show ?thesis
    using assms attempt_result_no_review [of j n w]
    by (auto simp: run_effective_def run_command_def Let_def review_invariant_def tmux_result_def
        blank_result_def split: if_splits option.splits sum.splits)
next
  case False
  show ?thesis
  proof (cases "aw_file_exists w (path_join dir (aj_runner j @ ''.sh''))")
    case exists: True
    show ?thesis
    proof (cases "\<exists>h. aw_add_worktree w = Joined (Inr h)")
      case True
      then obtain h r1 a1 where h: "aw_add_worktree w = Joined (Inr h)"
          and rc: "run_command j n w (Some h) = (r1, a1)" by fastforce
      then have "r = r1" "acts = AddWorktree h # a1"
        using assms exists False by (simp_all add: run_effective_def Let_def)
      with run_command_review [OF rc] False show ?thesis by simp
    next
      case nw: False
      then show ?thesis
        using assms exists False
        by (auto simp: run_effective_def Let_def review_invariant_def split: joined.splits sum.splits)
    qed
  next
    case nf: False
    then show ?thesis using assms False by (auto simp: run_effective_def Let_def review_invariant_def)
  qed
qed

text \<open>
  C20: An attempt that created a worktree either prunes it or attaches a merge review for it, and
  a job that needs a worktree is successful only with a merge review of a nonempty diff whose test
  gate did not fail.
\<close>

theorem run_once_worktrees:
  assumes "run_once repo dir j n w = (r, acts)"
  shows "(\<forall>h. AddWorktree h \<in> set acts \<longrightarrow> (PruneWorktree h \<in> set acts \<longleftrightarrow> ar_merge_review r = None))
     \<and> (ar_merge_review r \<noteq> None \<longrightarrow> (\<exists>h. AddWorktree h \<in> set acts))
     \<and> (job_needs_worktree j \<and> ar_status r = JobOk \<longrightarrow>
          (\<exists>mr. ar_merge_review r = Some mr \<and> trim (dw_diff (mr_diff mr)) \<noteq> []
             \<and> test_gate_action (mr_diff mr) = Batchable))"
proof -
  have "review_invariant j r acts"
    using assms run_effective_review [of dir "with_effective_dimensions j (aw_prompt_text w)" n w r acts]
    by (auto simp: run_once_def review_invariant_def with_effective_dimensions_def needs_worktree_size
        split: sum.splits if_splits)
  then show ?thesis by (auto simp: review_invariant_def)
qed


lemma retry_bounds_witness:
  "\<exists>r lg. retry_loop (\<lambda>n. result_from_attempt (sample_job ''a'' []) 1 [] ''429'' n) (sample_job ''a'' [])
       default_config 2 0 (Fin 0) [] None = Some (r, lg)
     \<and> log_ok (sample_job ''a'' []) default_config lg"
proof -
  let ?o = "\<lambda>n. result_from_attempt (sample_job ''a'' []) 1 [] ''429'' n" and ?j = "sample_job ''a'' []"
  have n: "unat (sat_add (rp_max_retries (aj_retry_policy ?j)) 1) = 2" by code_simp
  have "retry_loop ?o ?j default_config 2 0 (Fin 0) [] None \<noteq> None" by code_simp
  then obtain r lg where rl: "retry_loop ?o ?j default_config 2 0 (Fin 0) [] None = Some (r, lg)" by auto
  have side: "sc_max_backoff_sec default_config \<noteq> NaN" "sc_total_retry_wall_sec default_config \<noteq> NaN"
      "rp_max_retries (aj_retry_policy ?j) \<noteq> - 1" by code_simp+
  have "log_ok ?j default_config lg \<and> r = ?o (of_nat (length lg + 1))"
    using rl side unfolding n [symmetric] by (intro retry_bounds) simp_all
  with rl show ?thesis by blast
qed

definition sample_world :: attempt_world where
  "sample_world =
     \<lparr> aw_tempdir = Inr ''/tmp/a'', aw_prompt_write = None, aw_file_exists = (\<lambda>_. True),
       aw_prompt_text = Some ''hello'', aw_tmux = Inl [],
       aw_add_worktree = Joined (Inr \<lparr> wh_run_id = ''r'', wh_task_id = ''a'', wh_path = ''/wt'',
          wh_base_commit = ''abc'', wh_keep = False \<rparr>),
       aw_live_dir = None, aw_live_log = None, aw_spawn = None, aw_wait = Exited (Some 0),
       aw_stdout = ([], None), aw_stderr = ([], None), aw_reply = ''done'', aw_elapsed = Fin 1,
       aw_sidecar = None,
       aw_emit_diff = Joined (Inr \<lparr> dw_base_commit = ''abc'', dw_diff = ''diff --git a/x b/x'',
          dw_test_result = \<lparr> tr_status = Passed, tr_command = None, tr_stdout = [], tr_stderr = [] \<rparr> \<rparr>) \<rparr>"

lemma run_once_worktrees_witness:
  "ar_merge_review (fst (run_once ''/r'' ''/b'' ((sample_job ''a'' [])\<lparr>aj_needs_worktree := True\<rparr>) 1 sample_world))
     \<noteq> None"
proof -
  let ?j = "(sample_job ''a'' [])\<lparr>aj_needs_worktree := True\<rparr>"
  have "job_needs_worktree ?j" by code_simp
  moreover have "ar_status (fst (run_once ''/r'' ''/b'' ?j 1 sample_world)) = JobOk" by code_simp
  moreover have "run_once ''/r'' ''/b'' ?j 1 sample_world =
      (fst (run_once ''/r'' ''/b'' ?j 1 sample_world), snd (run_once ''/r'' ''/b'' ?j 1 sample_world))" by simp
  from run_once_worktrees [OF this] calculation show ?thesis by blast
qed

end
