(* ===== verification/Lto_Findings.thy ===== *)
theory Lto_Findings
  imports Lto_Json
begin

text \<open>
  \<open>src/src/audit.rs\<close>: severities, runner families and the parsing of review findings. The JSON
  reader and the regular expression for fenced blocks belong to libraries: \<open>parse\<close> reads a text as
  a JSON value and \<open>fences\<close> lists the bodies of a text's fenced blocks. Warnings on the error
  stream are not modelled.
\<close>

datatype severity = SevCritical | SevHigh | SevMedium | SevLow

datatype confidence_level = ConfHigh | ConfMedium | ConfLow

record reported_confidence =
  rf_level :: "confidence_level option"
  rf_rationale :: "string option"

record finding =
  fi_severity :: severity
  fi_claim :: string
  fi_reported_confidence :: "reported_confidence option"
  fi_invalidated_when :: "string option"
  fi_evidence_to_check :: "string option"
  fi_file :: "string option"
  fi_source :: "string option"

fun confidence_level_str :: "confidence_level \<Rightarrow> string" where
  "confidence_level_str ConfHigh = ''high''"
| "confidence_level_str ConfMedium = ''medium''"
| "confidence_level_str ConfLow = ''low''"

definition normalize_reported_confidence_level :: "string \<Rightarrow> confidence_level option" where
  "normalize_reported_confidence_level input =
     (let s = to_ascii_lowercase (trim input) in
      if s = ''high'' then Some ConfHigh
      else if s = ''medium'' then Some ConfMedium
      else if s = ''low'' then Some ConfLow
      else None)"

text \<open>Deserializing never fails: a value of another kind is an empty report.\<close>

definition reported_confidence_of :: "json \<Rightarrow> reported_confidence" where
  "reported_confidence_of v =
     (case v of
        JStr level \<Rightarrow> \<lparr> rf_level = normalize_reported_confidence_level level, rf_rationale = None \<rparr>
      | JObj _ \<Rightarrow>
          \<lparr> rf_level = (case jget_str v ''level'' of None \<Rightarrow> None
                         | Some l \<Rightarrow> normalize_reported_confidence_level l),
            rf_rationale = jget_str v ''rationale'' \<rparr>
      | _ \<Rightarrow> \<lparr> rf_level = None, rf_rationale = None \<rparr>)"

definition optional_string_value :: "json option \<Rightarrow> string option" where
  "optional_string_value v = (case v of Some (JStr s) \<Rightarrow> Some s | _ \<Rightarrow> None)"

subsection \<open>Families and severities\<close>

datatype runner_family = FamClaude | FamCodex | FamPi | FamAgy | FamUnknown string

definition family_keys :: "(string \<times> runner_family) list" where
  "family_keys =
     [(''claude'', FamClaude), (''anthropic'', FamClaude), (''codex'', FamCodex), (''gpt'', FamCodex),
      (''openai'', FamCodex), (''pi'', FamPi), (''deepseek'', FamPi), (''agy'', FamAgy),
      (''gemini'', FamAgy), (''google'', FamAgy)]"

definition family :: "string \<Rightarrow> runner_family" where
  "family runtime =
     (let lower = to_ascii_lowercase runtime in
      case find (\<lambda>(key, _). contains_str key lower) family_keys of
        Some (_, fam) \<Rightarrow> fam
      | None \<Rightarrow> FamUnknown lower)"

definition same_family :: "string \<Rightarrow> string \<Rightarrow> bool" where
  "same_family a b \<longleftrightarrow> family a = family b"

definition normalize_severity :: "string \<Rightarrow> severity option" where
  "normalize_severity input =
     (let s = to_ascii_lowercase (trim input) in
      if s \<in> set [''critical'', [CHR 0xE4, CHR 0xB8, CHR 0xA5, CHR 0xE9, CHR 0x87, CHR 0x8D], [CHR 0xE8, CHR 0x87, CHR 0xB4, CHR 0xE5, CHR 0x91, CHR 0xBD], [CHR 0xE9, CHR 0x98, CHR 0xBB, CHR 0xE6, CHR 0x96, CHR 0xAD]] then Some SevCritical
      else if s \<in> set [''high'', [CHR 0xE8, CHR 0xAD, CHR 0xA6, CHR 0xE5, CHR 0x91, CHR 0x8A], [CHR 0xE9, CHR 0xAB, CHR 0x98, CHR 0xE5, CHR 0x8D, CHR 0xB1]] then Some SevHigh
      else if s \<in> set [''medium'', [CHR 0xE4, CHR 0xB8, CHR 0xAD, CHR 0xE5, CHR 0x8D, CHR 0xB1]] then Some SevMedium
      else if s \<in> set [''low'', [CHR 0xE6, CHR 0x8F, CHR 0x90, CHR 0xE7, CHR 0xA4, CHR 0xBA], [CHR 0xE5, CHR 0xBB, CHR 0xBA, CHR 0xE8, CHR 0xAE, CHR 0xAE]] then Some SevLow
      else None)"

subsection \<open>Findings\<close>

definition finding_file :: "json \<Rightarrow> string option" where
  "finding_file v =
     opt_or (jget_str v ''file'') (jget_with (\<lambda>l. jget_str l ''file'') v ''location'')"

definition parse_finding_value :: "json \<Rightarrow> finding option" where
  "parse_finding_value v =
     (case (jget_str v ''severity'', jget_str v ''claim'') of
        (Some sev, Some claim) \<Rightarrow>
          (case normalize_severity sev of
             None \<Rightarrow> None
           | Some s \<Rightarrow>
               Some \<lparr> fi_severity = s, fi_claim = claim,
                      fi_reported_confidence =
                        map_option reported_confidence_of
                          (opt_filter (\<lambda>x. \<not> is_null x) (jget v ''reported_confidence'')),
                      fi_invalidated_when = optional_string_value (jget v ''invalidated_when''),
                      fi_evidence_to_check = jget_str v ''evidence_to_check'',
                      fi_file = finding_file v, fi_source = jget_str v ''source'' \<rparr>)
      | _ \<Rightarrow> None)"

definition parse_findings_values :: "json list \<Rightarrow> finding list option" where
  "parse_findings_values items = (if items = [] then None else opt_mapM parse_finding_value items)"

definition parse_valid_findings_values :: "json list \<Rightarrow> finding list" where
  "parse_valid_findings_values items = List.map_filter parse_finding_value items"

definition findings_items :: "json \<Rightarrow> json list option" where
  "findings_items v = opt_or (as_array v) (jget_with as_array v ''findings'')"

definition parse_findings_json :: "(string \<Rightarrow> json option) \<Rightarrow> string \<Rightarrow> finding list option" where
  "parse_findings_json parse text =
     (case parse (trim text) of
        None \<Rightarrow> None
      | Some v \<Rightarrow> (case findings_items v of None \<Rightarrow> None | Some items \<Rightarrow> parse_findings_values items))"

text \<open>\<open>find_map\<close> over an iterator.\<close>

fun find_map :: "('a \<Rightarrow> 'b option) \<Rightarrow> 'a list \<Rightarrow> 'b option" where
  "find_map f [] = None"
| "find_map f (x # xs) = (if f x = None then find_map f xs else f x)"

definition parse_findings_text ::
    "(string \<Rightarrow> json option) \<Rightarrow> (string \<Rightarrow> string list) \<Rightarrow> string \<Rightarrow> finding list option" where
  "parse_findings_text parse fences text =
     opt_or (parse_findings_json parse text)
       (find_map (parse_findings_json parse) (fences text))"

subsection \<open>Judgments\<close>

datatype blocker_quality = BqStrong | BqAdequate | BqWeak | BqNone

record judge_verdict =
  jv_blocker_quality :: blocker_quality
  jv_false_positive_suspected :: bool
  jv_rationale :: "string option"

record subjective_judgment =
  sj_kind :: string
  sj_note :: string
  sj_verdict :: judge_verdict

definition new_subjective_judgment :: "judge_verdict \<Rightarrow> subjective_judgment" where
  "new_subjective_judgment v =
     \<lparr> sj_kind = ''subjective_judgment'', sj_note = ''judge does NOT affect promote'', sj_verdict = v \<rparr>"

subsection \<open>Lemmas\<close>

lemma find_map_Some: "find_map f xs = Some y \<Longrightarrow> \<exists>x\<in>set xs. f x = Some y"
  by (induction xs) (auto split: if_splits)

lemma opt_mapM_Cons_nonempty: "opt_mapM f (x # xs) = Some ys \<Longrightarrow> ys \<noteq> []"
  by (auto split: option.splits)

lemma parse_findings_values_nonempty: "parse_findings_values items \<noteq> Some []"
  by (cases items) (auto simp: parse_findings_values_def split: option.splits)

lemma parse_findings_json_nonempty: "parse_findings_json parse text \<noteq> Some []"
  using parse_findings_values_nonempty
  by (auto simp: parse_findings_json_def split: option.splits)

lemma parse_findings_text_nonempty: "parse_findings_text parse fences text \<noteq> Some []"
  using parse_findings_json_nonempty
  by (auto simp: parse_findings_text_def opt_or_def split: option.splits dest!: find_map_Some)

end
