(* ===== verification/Lto_Decision.thy ===== *)
theory Lto_Decision
  imports Lto_Findings Lto_Agent_Job
begin

text \<open>
  \<open>src/src/decision.rs\<close>: the decision round. Votes on the direction are validated and tallied,
  optionally after a round of candidates; findings of the reviewers are merged; the outcome is a
  status, a payload, the dissent and a Markdown brief. \<open>parse\<close> and \<open>fences\<close> are the readers of
  \<open>Lto_Findings\<close>.
\<close>

subsection \<open>Votes\<close>

datatype decision_kind = KDirection | KReview | KBoth

datatype decision_status = Converged | NeedsInfo | NeedsHuman

datatype direction_decision = PickTask | PickPattern | VoteHuman

record direction_vote =
  dv_decision :: direction_decision
  dv_value :: string
  dv_reasoning :: string
  dv_source :: string

record candidate_pool =
  cp_candidates :: "direction_vote list"
  cp_invalid_candidates :: "direction_vote list"
  cp_sources :: "string list"

record tally =
  ta_supermajority_met :: bool
  ta_majority_pick :: "string option"
  ta_majority_count :: nat
  ta_total_voters :: nat
  ta_votes :: "direction_vote list"
  ta_minority :: "direction_vote list"
  ta_needs_human_votes :: nat
  ta_needs_info :: bool
  ta_invalid_votes :: "direction_vote list"

definition is_legal_pattern :: "string \<Rightarrow> bool" where
  "is_legal_pattern v \<longleftrightarrow> v \<in> set [''linear'', ''fan-out'', ''adversarial'', ''tournament'', ''loop'']"

fun vote_key :: "direction_vote \<Rightarrow> string" where
  "vote_key v =
     (case dv_decision v of
        PickTask \<Rightarrow> (''pick_task:'' @ (dv_value v))
      | PickPattern \<Rightarrow> (''pick_pattern:'' @ (dv_value v))
      | VoteHuman \<Rightarrow> ''needs_human'')"

text \<open>A set of task ids is a list; \<open>None\<close> is the absent set.\<close>

definition is_valid_vote :: "direction_vote \<Rightarrow> string list option \<Rightarrow> bool" where
  "is_valid_vote v ids =
     (case dv_decision v of
        PickTask \<Rightarrow> (case ids of None \<Rightarrow> True | Some xs \<Rightarrow> dv_value v \<in> set xs)
      | PickPattern \<Rightarrow> is_legal_pattern (dv_value v)
      | VoteHuman \<Rightarrow> True)"

definition count_vote :: "(string, nat) btree \<Rightarrow> direction_vote \<Rightarrow> (string, nat) btree" where
  "count_vote counts v =
     (if dv_decision v = VoteHuman then counts
      else bt_insert (vote_key v) (opt_get_or 0 (bt_get counts (vote_key v)) + 1) counts)"

text \<open>\<open>max_by\<close> keeps the last of equal elements; here no two are equal.\<close>

definition better_pick :: "string \<times> nat \<Rightarrow> string \<times> nat \<Rightarrow> bool" where
  "better_pick a b \<longleftrightarrow> snd a < snd b \<or> (snd a = snd b \<and> fst b \<le> fst a)"

definition max_pick :: "(string \<times> nat) option \<Rightarrow> string \<times> nat \<Rightarrow> (string \<times> nat) option" where
  "max_pick best x =
     (case best of None \<Rightarrow> Some x | Some b \<Rightarrow> if better_pick b x then Some x else Some b)"

definition majority_of :: "(string, nat) btree \<Rightarrow> (string \<times> nat) option" where
  "majority_of counts = foldl max_pick None counts"

definition tally_votes :: "direction_vote list \<Rightarrow> string list option \<Rightarrow> tally" where
  "tally_votes votes ids =
     (let valid = filter (\<lambda>v. is_valid_vote v ids) votes;
          humans = length (filter (\<lambda>v. dv_decision v = VoteHuman) valid);
          best = majority_of (foldl count_vote [] valid);
          pick = map_option fst best;
          count = (case best of None \<Rightarrow> 0 | Some b \<Rightarrow> snd b)
      in \<lparr> ta_supermajority_met = (count \<ge> 2), ta_majority_pick = pick, ta_majority_count = count,
           ta_total_voters = length valid, ta_votes = valid,
           ta_minority = filter (\<lambda>v. Some (vote_key v) \<noteq> pick) valid,
           ta_needs_human_votes = humans, ta_needs_info = (\<not> count \<ge> 2 \<or> humans \<ge> 1),
           ta_invalid_votes = filter (\<lambda>v. \<not> is_valid_vote v ids) votes \<rparr>)"

subsection \<open>Parsing votes\<close>

text \<open>The derived reader of \<open>RawDirectionVote\<close>: an object, or its fields as an array; a unit
  variant is its name, or an object with that name and \<open>null\<close>.\<close>

definition decision_of_name :: "string \<Rightarrow> direction_decision option" where
  "decision_of_name s =
     (if s = ''pick_task'' then Some PickTask
      else if s = ''pick_pattern'' then Some PickPattern
      else if s = ''needs_human'' then Some VoteHuman
      else None)"

definition parse_decision_tag :: "json \<Rightarrow> direction_decision option" where
  "parse_decision_tag v =
     (case v of
        JStr s \<Rightarrow> decision_of_name s
      | JObj [(s, JNull)] \<Rightarrow> decision_of_name s
      | _ \<Rightarrow> None)"

definition raw_vote :: "json option \<Rightarrow> json option \<Rightarrow> json option \<Rightarrow> json option \<Rightarrow> direction_vote option" where
  "raw_vote d v r s =
     (case (opt_filter (\<lambda>_. True) d, v, r, opt_get_or (JStr []) s) of
        (Some d', Some (JStr v'), Some (JStr r'), JStr s') \<Rightarrow>
          map_option (\<lambda>dec. \<lparr> dv_decision = dec, dv_value = v', dv_reasoning = r', dv_source = s' \<rparr>)
            (parse_decision_tag d')
      | _ \<Rightarrow> None)"

definition parse_direction_vote_object :: "json \<Rightarrow> direction_vote option" where
  "parse_direction_vote_object j =
     (case j of
        JObj _ \<Rightarrow> raw_vote (jget j ''decision'') (jget j ''value'') (jget j ''reasoning'') (jget j ''source'')
      | JArr [d, v, r] \<Rightarrow> raw_vote (Some d) (Some v) (Some r) None
      | JArr [d, v, r, s] \<Rightarrow> raw_vote (Some d) (Some v) (Some r) (Some s)
      | _ \<Rightarrow> None)"

text \<open>Parsed votes are the candidates; the number of skipped values only feeds a warning. \<open>Some\<close>
  always holds at least one candidate.\<close>

definition some_if_any :: "'a list \<Rightarrow> 'a list option" where
  "some_if_any xs = (if xs = [] then None else Some xs)"

definition candidates_field :: "json \<Rightarrow> json list option" where
  "candidates_field v = jget_with as_array v ''candidates''"

lemma candidates_field_size:
  "candidates_field v = Some items \<Longrightarrow> x \<in> set items \<Longrightarrow> size x < size v"
proof -
  assume a: "candidates_field v = Some items" and x: "x \<in> set items"
  from a obtain m where v: "v = JObj m" and g: "bt_get m ''candidates'' = Some (JArr items)"
    by (auto simp: candidates_field_def jget_with_def jget_def as_array_def split: option.splits json.splits)
  have "size x < size (JArr items)"
    using x by (simp add: less_Suc_eq_le size_list_estimation')
  also have "\<dots> \<le> size_list (size_prod (\<lambda>_. 0) size) m"
    using bt_get_SomeD [OF g] by (intro size_list_estimation') auto
  also have "\<dots> < size v" by (simp add: v)
  finally show ?thesis .
qed

function parse_direction_vote_value :: "json \<Rightarrow> direction_vote list option" where
  "parse_direction_vote_value v =
     (if is_array v
      then some_if_any (List.map_filter parse_direction_vote_object (the (as_array v)))
      else if candidates_field v \<noteq> None
      then (if the (candidates_field v) = [] then None
            else some_if_any (concat (map (\<lambda>x. opt_get_or [] x)
                   (map parse_direction_vote_value (the (candidates_field v))))))
      else if jget v ''decision'' \<noteq> None
      then map_option (\<lambda>d. [d]) (parse_direction_vote_object v)
      else None)"
  by pat_completeness auto
termination
  by (relation "measure size") (auto intro: candidates_field_size)

declare parse_direction_vote_value.simps [simp del]

definition parse_direction_vote_values :: "json list \<Rightarrow> direction_vote list option" where
  "parse_direction_vote_values vs =
     (if vs = [] then None
      else some_if_any (concat (map (\<lambda>x. opt_get_or [] x) (map parse_direction_vote_value vs))))"

definition parse_direction_votes_json :: "(string \<Rightarrow> json option) \<Rightarrow> string \<Rightarrow> direction_vote list option" where
  "parse_direction_votes_json parse text =
     (case parse (trim text) of None \<Rightarrow> None | Some v \<Rightarrow> parse_direction_vote_value v)"

definition parse_direction_votes_text ::
    "(string \<Rightarrow> json option) \<Rightarrow> (string \<Rightarrow> string list) \<Rightarrow> string \<Rightarrow> direction_vote list option" where
  "parse_direction_votes_text parse fences text =
     opt_or (parse_direction_votes_json parse (trim text))
       (find_map (parse_direction_votes_json parse) (fences text))"

definition fill_missing_sources :: "string \<Rightarrow> direction_vote list \<Rightarrow> direction_vote list" where
  "fill_missing_sources runner cs =
     map (\<lambda>c. if trim (dv_source c) = [] then c\<lparr>dv_source := runner\<rparr> else c) cs"

definition result_candidates ::
    "(string \<Rightarrow> json option) \<Rightarrow> (string \<Rightarrow> string list) \<Rightarrow> agent_result \<Rightarrow> direction_vote list" where
  "result_candidates parse fences r =
     (if ar_status r \<noteq> JobOk then []
      else fill_missing_sources (ar_runner r)
        (opt_get_or []
          (opt_or (if ar_findings r = [] then None else parse_direction_vote_values (ar_findings r))
             (parse_direction_votes_text parse fences (ar_reply_text r)))))"

definition merge_candidates ::
    "(string \<Rightarrow> json option) \<Rightarrow> (string \<Rightarrow> string list) \<Rightarrow> agent_result list \<Rightarrow> direction_vote list" where
  "merge_candidates parse fences results = concat (map (result_candidates parse fences) results)"

subsection \<open>Merging findings\<close>

definition with_source :: "string \<Rightarrow> finding list \<Rightarrow> finding list" where
  "with_source runner fs =
     map (\<lambda>f. if fi_source f = None then f\<lparr>fi_source := Some runner\<rparr> else f) fs"

definition raw_finding :: "agent_result \<Rightarrow> finding" where
  "raw_finding r =
     \<lparr> fi_severity = SevMedium, fi_claim = ar_reply_text r, fi_reported_confidence = None,
       fi_invalidated_when = None, fi_evidence_to_check = None, fi_file = None,
       fi_source = Some (ar_runner r) \<rparr>"

definition structured_findings :: "agent_result \<Rightarrow> finding list" where
  "structured_findings r =
     (if ar_findings r = [] then []
      else opt_get_or (parse_valid_findings_values (ar_findings r))
             (parse_findings_values (ar_findings r)))"

definition result_findings ::
    "(string \<Rightarrow> json option) \<Rightarrow> (string \<Rightarrow> string list) \<Rightarrow> agent_result \<Rightarrow> finding list" where
  "result_findings parse fences r =
     (if ar_status r \<noteq> JobOk then []
      else if structured_findings r \<noteq> [] then with_source (ar_runner r) (structured_findings r)
      else case parse_findings_text parse fences (ar_reply_text r) of
        Some fs \<Rightarrow> with_source (ar_runner r) fs
      | None \<Rightarrow> if trim (ar_reply_text r) \<noteq> [] then [raw_finding r] else [])"

definition merge_findings ::
    "(string \<Rightarrow> json option) \<Rightarrow> (string \<Rightarrow> string list) \<Rightarrow> agent_result list \<Rightarrow> finding list" where
  "merge_findings parse fences results = concat (map (result_findings parse fences) results)"

subsection \<open>The round\<close>

definition families_of :: "string list \<Rightarrow> runner_family list" where
  "families_of names = foldl (\<lambda>fs n. if family n \<in> set fs then fs else fs @ [family n]) [] names"

definition has_minimum_valid_reviewers :: "agent_result list \<Rightarrow> bool" where
  "has_minimum_valid_reviewers results \<longleftrightarrow>
     length (families_of (map ar_runner
       (filter (\<lambda>r. ar_status r = JobOk \<and> trim (ar_reply_text r) \<noteq> []) results))) \<ge> 2"

definition has_minimum_vote_families :: "direction_vote list \<Rightarrow> bool" where
  "has_minimum_vote_families votes \<longleftrightarrow> length (families_of (map dv_source votes)) \<ge> 2"

record decision_request =
  dr_kind :: decision_kind
  dr_auditors :: "string list"
  dr_budget_remaining :: u64
  dr_escalate_key :: string
  dr_diverge :: bool
  dr_spawned_escalate_keys :: "string list"
  dr_valid_task_ids :: "string list option"
  dr_task_universe :: "string list"
  dr_candidate_results :: "agent_result list"
  dr_direction_votes :: "direction_vote list"
  dr_review_results :: "agent_result list"

record direction_payload =
  dp_converged :: bool
  dp_pick :: "string option"
  dp_count :: nat
  dp_total :: nat
  dp_votes :: "direction_vote list"
  dp_minority :: "direction_vote list"
  dp_candidate_pool :: "candidate_pool option"

datatype decision_payload =
    DirectionResult direction_payload
  | ReviewResult "finding list"
  | BothResult direction_payload "finding list"

record decision_dissent =
  dd_reason :: "string option"
  dd_minority_votes :: "direction_vote list"
  dd_invalid_votes :: "direction_vote list"
  dd_invalid_candidates :: "direction_vote list"
  dd_needs_human_votes :: nat
  dd_findings :: "finding list"

record decision_outcome =
  do_status :: decision_status
  do_kind :: decision_kind
  do_result :: "decision_payload option"
  do_dissent :: decision_dissent
  do_brief :: string
  do_dispatched_to :: "string list"
  do_budget_consumed_est :: u64
  do_record_escalate_key :: "string option"

definition EST_TOKENS_PER_ROUND :: u64 where
  "EST_TOKENS_PER_ROUND = 18000"

fun rounds_needed :: "decision_kind \<Rightarrow> bool \<Rightarrow> u64" where
  "rounds_needed KBoth True = 3"
| "rounds_needed KBoth False = 2"
| "rounds_needed KDirection True = 2"
| "rounds_needed KDirection False = 1"
| "rounds_needed KReview _ = 1"

definition validate_candidate :: "direction_vote \<Rightarrow> string list option \<Rightarrow> bool" where
  "validate_candidate c base =
     (case dv_decision c of
        PickTask \<Rightarrow> (case base of None \<Rightarrow> False | Some ids \<Rightarrow> dv_value c \<in> set ids)
      | PickPattern \<Rightarrow> is_legal_pattern (dv_value c)
      | VoteHuman \<Rightarrow> True)"

definition candidate_task_base :: "decision_request \<Rightarrow> string list option" where
  "candidate_task_base q =
     (if dr_task_universe q \<noteq> [] then Some (dr_task_universe q) else dr_valid_task_ids q)"

definition candidate_task_ids :: "candidate_pool \<Rightarrow> string list" where
  "candidate_task_ids pool =
     bs_of_list (map dv_value (filter (\<lambda>c. dv_decision c = PickTask) (cp_candidates pool)))"

definition candidate_sources :: "direction_vote list \<Rightarrow> direction_vote list \<Rightarrow> string list" where
  "candidate_sources cs bad = bs_of_list (map dv_source (cs @ bad))"

definition diverge_phase ::
    "(string \<Rightarrow> json option) \<Rightarrow> (string \<Rightarrow> string list) \<Rightarrow> decision_request \<Rightarrow> candidate_pool" where
  "diverge_phase parse fences q =
     (let proposed = merge_candidates parse fences (dr_candidate_results q);
          base = candidate_task_base q;
          good = filter (\<lambda>c. validate_candidate c base) proposed;
          bad = filter (\<lambda>c. \<not> validate_candidate c base) proposed
      in \<lparr> cp_candidates = good, cp_invalid_candidates = bad, cp_sources = candidate_sources good bad \<rparr>)"

definition diverge_fallback :: string where
  "diverge_fallback = ''direction diverge: fewer than two heterogeneous candidate sources; fell back to single-stage convergence''"

definition run_direction_phases ::
    "(string \<Rightarrow> json option) \<Rightarrow> (string \<Rightarrow> string list) \<Rightarrow> decision_request
     \<Rightarrow> tally \<times> candidate_pool option \<times> string option" where
  "run_direction_phases parse fences q =
     (if \<not> dr_diverge q \<or> dr_candidate_results q = []
      then (tally_votes (dr_direction_votes q) (dr_valid_task_ids q), None, None)
      else let pool = diverge_phase parse fences q in
        if \<not> has_minimum_vote_families (cp_candidates pool)
        then (tally_votes (dr_direction_votes q) (dr_valid_task_ids q), Some pool, Some diverge_fallback)
        else (tally_votes (dr_direction_votes q) (Some (candidate_task_ids pool)), Some pool, None))"

definition direction_payload :: "tally \<Rightarrow> candidate_pool option \<Rightarrow> direction_payload" where
  "direction_payload t pool =
     \<lparr> dp_converged = ta_supermajority_met t, dp_pick = ta_majority_pick t,
       dp_count = ta_majority_count t, dp_total = ta_total_voters t, dp_votes = ta_votes t,
       dp_minority = ta_minority t, dp_candidate_pool = pool \<rparr>"

definition compose_status :: "decision_kind \<Rightarrow> direction_payload option \<Rightarrow> decision_status" where
  "compose_status kind direction =
     (if kind = KReview then Converged
      else case direction of
        None \<Rightarrow> NeedsInfo
      | Some d \<Rightarrow>
          if \<not> dp_converged d \<or> list_ex (\<lambda>v. dv_decision v = VoteHuman) (dp_minority d)
          then NeedsInfo else Converged)"

definition compose_payload ::
    "decision_kind \<Rightarrow> direction_payload option \<Rightarrow> finding list option \<Rightarrow> decision_payload option" where
  "compose_payload kind direction review =
     (case kind of
        KDirection \<Rightarrow> map_option DirectionResult direction
      | KReview \<Rightarrow> map_option ReviewResult review
      | KBoth \<Rightarrow> (case (direction, review) of (Some d, Some r) \<Rightarrow> Some (BothResult d r) | _ \<Rightarrow> None))"

subsection \<open>The brief\<close>

fun decision_kind_label :: "decision_kind \<Rightarrow> string" where
  "decision_kind_label KDirection = ''direction''"
| "decision_kind_label KReview = ''review''"
| "decision_kind_label KBoth = ''both''"

fun decision_status_label :: "decision_status \<Rightarrow> string" where
  "decision_status_label Converged = ''converged''"
| "decision_status_label NeedsInfo = ''needs_human''"
| "decision_status_label NeedsHuman = ''needs_human''"

fun direction_decision_label :: "direction_decision \<Rightarrow> string" where
  "direction_decision_label PickTask = ''pick_task''"
| "direction_decision_label PickPattern = ''pick_pattern''"
| "direction_decision_label VoteHuman = ''needs_human''"

fun severity_debug :: "severity \<Rightarrow> string" where
  "severity_debug SevCritical = ''Critical''"
| "severity_debug SevHigh = ''High''"
| "severity_debug SevMedium = ''Medium''"
| "severity_debug SevLow = ''Low''"

definition show_bool :: "bool \<Rightarrow> string" where
  "show_bool b = (if b then ''true'' else ''false'')"

definition join_or_none :: "string list \<Rightarrow> string" where
  "join_or_none xs = (if xs = [] then ''none'' else join_str '', '' xs)"

definition md_inline :: "string \<Rightarrow> string" where
  "md_inline v = trim (replace_char CHR 0x0A CHR '' '' v)"

definition md_cell :: "string \<Rightarrow> string" where
  "md_cell v = concat (map (\<lambda>c. if c = CHR ''|'' then [CHR 0x5C, CHR ''|''] else [c]) (md_inline v))"

definition budget_footer :: "u64 \<Rightarrow> u64 \<Rightarrow> u64 \<Rightarrow> string" where
  "budget_footer consumed available next_cost =
     (let remaining = (if consumed \<le> available then available - consumed else 0);
          enough = (next_cost = 0 \<or> next_cost \<le> remaining)
      in join_str [CHR 0x0A] [[], ''---'',
           (''**Budget note**: consumed_est='' @ (show_u64 consumed) @ '' tokens; remaining_est='' @ (show_u64 remaining) @ '' tokens; enough_for_next_round='' @ (show_bool enough) @ ''. Token counts are approximate runner estimates.'')])"

definition build_budget_brief :: "decision_kind \<Rightarrow> string list \<Rightarrow> u64 \<Rightarrow> u64 \<Rightarrow> string" where
  "build_budget_brief kind auditors remaining required =
     join_str [CHR 0x0A] [''# LTO Decision Convergence Brief'', [], ''## Budget Exhausted'', [],
       ''- **Status**: NEEDS_HUMAN'',
       (''- **Kind**: '' @ (decision_kind_label kind)),
       (''- **Available agents**: '' @ (join_or_none auditors)),
       (''- **Budget remaining**: ~'' @ (show_u64 remaining) @ '' tokens''),
       (''- **Estimated cost for this round**: ~'' @ (show_u64 required) @ '' tokens''), [],
       ''Insufficient budget to spawn this deterministic decision round.'',
       ''Host judgment is required; no decision has been made by the tool.'',
       budget_footer 0 remaining required]"

definition build_needs_human_brief :: "decision_kind \<Rightarrow> string list \<Rightarrow> string \<Rightarrow> u64 \<Rightarrow> u64 \<Rightarrow> string" where
  "build_needs_human_brief kind auditors reason remaining est =
     join_str [CHR 0x0A] [''# LTO Decision Convergence Brief'', [], ''## Needs Human'', [],
       ''- **Status**: NEEDS_HUMAN'',
       (''- **Kind**: '' @ (decision_kind_label kind)),
       (''- **Reason**: '' @ (md_inline reason)),
       (''- **Available agents**: '' @ (join_or_none auditors)), [],
       ''The deterministic gate could not continue. The host must decide the next action.'',
       budget_footer 0 remaining est]"

definition vote_row :: "direction_vote \<Rightarrow> string" where
  "vote_row v =
     (''| '' @ (md_cell (dv_source v)) @ '' | '' @ (direction_decision_label (dv_decision v)) @ '' | '' @ (md_cell (dv_value v)) @ '' | '' @ (md_cell (dv_reasoning v)) @ '' |'')"

definition vote_item :: "direction_vote \<Rightarrow> string" where
  "vote_item v =
     (''- '' @ (md_inline (dv_source v)) @ '': '' @ (direction_decision_label (dv_decision v)) @ '' -> '' @ (md_inline (dv_value v)) @ '' ('' @ (md_inline (dv_reasoning v)) @ '')'')"

definition direction_convergence_instruction :: "candidate_pool \<Rightarrow> string" where
  "direction_convergence_instruction pool =
     (let cs = join_str '', '' (bs_of_list (map vote_key (cp_candidates pool)))
      in (''Evaluate every merged candidate, including candidates proposed by other agents. Do not favor your own proposal. Valid candidates: '' @ (if cs = [] then ''none'' else cs)))"

definition vote_section :: "string \<Rightarrow> direction_vote list \<Rightarrow> string list" where
  "vote_section title votes = (if votes = [] then [] else [] # title # map vote_item votes)"

definition candidate_pool_brief :: "candidate_pool \<Rightarrow> nat \<Rightarrow> string list" where
  "candidate_pool_brief pool votes =
     [[], ''### Divergence Candidate Pool'',
      (''- **Sources**: '' @ (join_or_none (cp_sources pool))),
      (''- **Produced candidates**: '' @ (show_nat (length (cp_candidates pool) + length (cp_invalid_candidates pool)))),
      (''- **Accepted into pool**: '' @ (show_nat (length (cp_candidates pool)))),
      (''- **Rejected by candidate gate**: '' @ (show_nat (length (cp_invalid_candidates pool)))),
      (''- **Convergence votes**: '' @ (show_nat votes)),
      (''- **Convergence instruction**: '' @ (md_inline (direction_convergence_instruction pool))), [],
      ''| source | proposal | value | reasoning |'', ''|---|---|---|---|'']
     @ map vote_row (cp_candidates pool)
     @ vote_section ''#### Invalid Candidates'' (cp_invalid_candidates pool)"

definition direction_brief :: "direction_payload \<Rightarrow> decision_dissent \<Rightarrow> string list" where
  "direction_brief d dis =
     [''## Direction Track'', [],
      (''- **Majority pick**: '' @ (opt_get_or ''none'' (dp_pick d))),
      (''- **Majority count**: '' @ (show_nat (dp_count d)) @ ''/'' @ (show_nat (dp_total d))),
      (''- **NEEDS_HUMAN votes**: '' @ (show_nat (dd_needs_human_votes dis)))]
     @ (if dd_needs_human_votes dis \<ge> 2
        then [''- **Escalation signal**: >=2 reviewers voted NEEDS_HUMAN; this is a strong display signal, distinct from the >=1 hard veto gate.'']
        else [])
     @ (case dd_reason dis of None \<Rightarrow> [] | Some r \<Rightarrow> [(''- **Divergence note**: '' @ (md_inline r))])
     @ (case dp_candidate_pool d of None \<Rightarrow> [] | Some p \<Rightarrow> candidate_pool_brief p (length (dp_votes d)))
     @ [[], ''| source | decision | value | reasoning |'', ''|---|---|---|---|'']
     @ map vote_row (dp_votes d)
     @ vote_section ''### Invalid Votes'' (dd_invalid_votes dis)
     @ vote_section ''### Minority / Dissent'' (dp_minority d)
     @ [[]]"

definition confidence_line :: "reported_confidence \<Rightarrow> string" where
  "confidence_line c =
     (let level = (case rf_level c of None \<Rightarrow> ''unknown'' | Some l \<Rightarrow> confidence_level_str l);
          rationale = (case rf_rationale c of None \<Rightarrow> [] | Some r \<Rightarrow> ('' '' @ [CHR 0xE2, CHR 0x80, CHR 0x94] @ '' '' @ (md_inline r)))
      in (''  - [confidence: '' @ level @ rationale @ '']''))"

definition opt_line :: "('a \<Rightarrow> string) \<Rightarrow> 'a option \<Rightarrow> string list" where
  "opt_line f x = (case x of None \<Rightarrow> [] | Some a \<Rightarrow> [f a])"

definition finding_lines :: "finding \<Rightarrow> string list" where
  "finding_lines f =
     [(''- **'' @ (severity_debug (fi_severity f)) @ ''** ['' @ (opt_get_or ''unknown'' (fi_source f)) @ ''] '' @ (md_inline (fi_claim f)))]
     @ opt_line (\<lambda>x. (''  - File: '' @ [CHR 0x60] @ (md_inline x) @ [CHR 0x60])) (fi_file f)
     @ opt_line (\<lambda>x. (''  - Evidence: '' @ (md_inline x))) (fi_evidence_to_check f)
     @ opt_line confidence_line (fi_reported_confidence f)
     @ opt_line (\<lambda>x. (''  - '' @ [CHR 0xE5, CHR 0xA4, CHR 0xB1, CHR 0xE6, CHR 0x95, CHR 0x88, CHR 0xE6, CHR 0x9D, CHR 0xA1, CHR 0xE4, CHR 0xBB, CHR 0xB6] @ '': '' @ (md_inline x))) (fi_invalidated_when f)"

definition review_brief :: "finding list \<Rightarrow> string list" where
  "review_brief fs =
     [''## Review Track'', [], (''- **Merged findings**: '' @ (show_nat (length fs)))]
     @ concat (map finding_lines fs) @ [[]]"

definition payload_brief :: "decision_payload option \<Rightarrow> decision_dissent \<Rightarrow> string list" where
  "payload_brief result dis =
     (case result of
        Some (DirectionResult d) \<Rightarrow> direction_brief d dis
      | Some (ReviewResult fs) \<Rightarrow> review_brief fs
      | Some (BothResult d fs) \<Rightarrow> direction_brief d dis @ review_brief fs
      | None \<Rightarrow> [])"

definition build_decision_brief ::
    "decision_kind \<Rightarrow> decision_status \<Rightarrow> decision_payload option \<Rightarrow> decision_dissent \<Rightarrow> string list
     \<Rightarrow> u64 \<Rightarrow> u64 \<Rightarrow> string" where
  "build_decision_brief kind status result dis auditors consumed available =
     join_str [CHR 0x0A]
       ([''# LTO Decision Convergence Brief'', [],
         ''This is a deterministic fact brief. It presents votes, findings, and budget; the host owns the final judgment.'', [],
         (''- **Status**: '' @ (decision_status_label status)),
         (''- **Kind**: '' @ (decision_kind_label kind)),
         (''- **Dispatched to**: '' @ (join_or_none auditors)),
         (''- **Budget consumed (est)**: ~'' @ (show_u64 consumed) @ '' tokens''), []]
        @ payload_brief result dis
        @ [''## Host Readout'', [],
           (if status = Converged
            then ''The deterministic gates converged. Review the facts above before acting.''
            else ''The deterministic gates did not converge cleanly. Host judgment is required.''),
           budget_footer consumed available consumed])"

subsection \<open>The decision\<close>

definition empty_dissent :: decision_dissent where
  "empty_dissent = \<lparr> dd_reason = None, dd_minority_votes = [], dd_invalid_votes = [],
     dd_invalid_candidates = [], dd_needs_human_votes = 0, dd_findings = [] \<rparr>"

definition edge_outcome :: "decision_kind \<Rightarrow> string \<Rightarrow> string \<Rightarrow> decision_outcome" where
  "edge_outcome kind reason brief =
     \<lparr> do_status = NeedsHuman, do_kind = kind, do_result = None,
       do_dissent = empty_dissent\<lparr>dd_reason := Some reason\<rparr>, do_brief = brief,
       do_dispatched_to = [], do_budget_consumed_est = 0, do_record_escalate_key = None \<rparr>"

definition with_record :: "decision_outcome \<Rightarrow> string \<Rightarrow> decision_outcome" where
  "with_record out key = out\<lparr>do_record_escalate_key := Some key\<rparr>"

definition respawn_reason :: string where
  "respawn_reason = ''same escalate point already spawned once - refusing re-spawn (G5 limit)''"

definition direction_reason :: string where
  "direction_reason = ''direction track: fewer than two valid heterogeneous reviewers''"

definition review_reason :: string where
  "review_reason = ''review track: fewer than two valid heterogeneous reviewers''"

definition est_cost :: "decision_request \<Rightarrow> u64" where
  "est_cost q = sat_mul EST_TOKENS_PER_ROUND (rounds_needed (dr_kind q) (dr_diverge q))"

definition human_edge :: "decision_request \<Rightarrow> string \<Rightarrow> decision_outcome" where
  "human_edge q reason =
     edge_outcome (dr_kind q) reason
       (build_needs_human_brief (dr_kind q) (dr_auditors q) reason (dr_budget_remaining q) (est_cost q))"

text \<open>The two tracks: an early outcome, or what the track adds.\<close>

definition direction_track ::
    "(string \<Rightarrow> json option) \<Rightarrow> (string \<Rightarrow> string list) \<Rightarrow> decision_request
     \<Rightarrow> decision_outcome + (direction_payload option \<times> decision_dissent)" where
  "direction_track parse fences q =
     (if dr_kind q = KReview then Inr (None, empty_dissent)
      else let (t, pool, fallback) = run_direction_phases parse fences q in
        if \<not> has_minimum_vote_families (ta_votes t)
        then Inl (with_record (human_edge q direction_reason) (dr_escalate_key q))
        else Inr (Some (direction_payload t pool),
               empty_dissent\<lparr> dd_reason := fallback, dd_minority_votes := ta_minority t,
                 dd_invalid_votes := ta_invalid_votes t,
                 dd_invalid_candidates := (case pool of None \<Rightarrow> [] | Some p \<Rightarrow> cp_invalid_candidates p),
                 dd_needs_human_votes := ta_needs_human_votes t \<rparr>))"

definition review_track ::
    "(string \<Rightarrow> json option) \<Rightarrow> (string \<Rightarrow> string list) \<Rightarrow> decision_request \<Rightarrow> decision_dissent
     \<Rightarrow> decision_outcome + (finding list option \<times> decision_dissent)" where
  "review_track parse fences q dis =
     (if dr_kind q = KDirection then Inr (None, dis)
      else if \<not> has_minimum_valid_reviewers (dr_review_results q)
      then Inl (with_record (human_edge q review_reason) (dr_escalate_key q))
      else let fs = merge_findings parse fences (dr_review_results q)
           in Inr (Some fs, dis\<lparr>dd_findings := fs\<rparr>))"

definition decided ::
    "decision_request \<Rightarrow> direction_payload option \<Rightarrow> finding list option \<Rightarrow> decision_dissent
     \<Rightarrow> decision_outcome" where
  "decided q direction review dis =
     (let status = compose_status (dr_kind q) direction;
          result = compose_payload (dr_kind q) direction review
      in \<lparr> do_status = status, do_kind = dr_kind q, do_result = result, do_dissent = dis,
           do_brief = build_decision_brief (dr_kind q) status result dis (dr_auditors q)
                        (est_cost q) (dr_budget_remaining q),
           do_dispatched_to = dr_auditors q, do_budget_consumed_est = est_cost q,
           do_record_escalate_key = Some (dr_escalate_key q) \<rparr>)"

definition run_decision ::
    "(string \<Rightarrow> json option) \<Rightarrow> (string \<Rightarrow> string list) \<Rightarrow> decision_request \<Rightarrow> decision_outcome" where
  "run_decision parse fences q =
     (if dr_budget_remaining q < est_cost q
      then edge_outcome (dr_kind q) ''budget_exhausted''
             (build_budget_brief (dr_kind q) (dr_auditors q) (dr_budget_remaining q) (est_cost q))
      else if dr_escalate_key q \<in> set (dr_spawned_escalate_keys q) then human_edge q respawn_reason
      else case direction_track parse fences q of
        Inl out \<Rightarrow> out
      | Inr (direction, dis) \<Rightarrow>
          (case review_track parse fences q dis of
             Inl out \<Rightarrow> out
           | Inr (review, dis') \<Rightarrow> decided q direction review dis'))"

subsection \<open>The tally\<close>

declare vote_key.simps [simp del]

definition votes_for :: "string \<Rightarrow> direction_vote list \<Rightarrow> nat" where
  "votes_for k vs = length (filter (\<lambda>v. dv_decision v \<noteq> VoteHuman \<and> vote_key v = k) vs)"

lemma votes_for_simps [simp]:
  "votes_for k [] = 0"
  "votes_for k (v # vs) = (if dv_decision v \<noteq> VoteHuman \<and> vote_key v = k then 1 else 0) + votes_for k vs"
  by (simp_all add: votes_for_def)

lemma count_vote_get:
  "bt_get (count_vote m v) k =
     (if dv_decision v \<noteq> VoteHuman \<and> vote_key v = k then Some (opt_get_or 0 (bt_get m k) + 1) else bt_get m k)"
  by (simp add: count_vote_def bt_get_insert)

lemma count_votes_get:
  "bt_get (foldl count_vote m vs) k =
     (if votes_for k vs = 0 then bt_get m k else Some (opt_get_or 0 (bt_get m k) + votes_for k vs))"
proof (induction vs arbitrary: m)
  case (Cons v vs)
  have "bt_get (foldl count_vote m (v # vs)) k =
      (if votes_for k vs = 0 then bt_get (count_vote m v) k
       else Some (opt_get_or 0 (bt_get (count_vote m v) k) + votes_for k vs))"
    unfolding foldl_Cons by (rule Cons.IH)
  then show ?case unfolding count_vote_get votes_for_simps by (simp split: if_split)
qed simp

lemma count_votes_wf: "bt_wf m \<Longrightarrow> bt_wf (foldl count_vote m vs)"
  by (induction vs arbitrary: m) (auto simp: count_vote_def bt_wf_insert)

lemma votes_for_mset: "mset vs = mset vs' \<Longrightarrow> votes_for k vs = votes_for k vs'"
  unfolding votes_for_def by (rule mset_eq_length) simp

lemma count_votes_mset: "mset vs = mset vs' \<Longrightarrow> foldl count_vote [] vs = foldl count_vote [] vs'"
  by (rule bt_ext) (simp_all only: count_votes_wf bt_wf_Nil count_votes_get votes_for_mset [of vs vs'])

lemma max_pick_fold:
  "foldl max_pick (Some b) xs = Some r \<Longrightarrow>
     (r = b \<or> r \<in> set xs) \<and> better_pick b r \<and> (\<forall>x\<in>set xs. better_pick x r)"
proof (induction xs arbitrary: b)
  case (Cons x xs)
  have tr: "better_pick x y \<Longrightarrow> better_pick y z \<Longrightarrow> better_pick x z" for x y z
    by (auto simp: better_pick_def)
  show ?case
  proof (cases "better_pick b x")
    case True
    with Cons have "(r = x \<or> r \<in> set xs) \<and> better_pick x r \<and> (\<forall>x\<in>set xs. better_pick x r)"
      by (simp add: max_pick_def)
    with True tr show ?thesis by auto
  next
    case False
    then have "better_pick x b" by (auto simp: better_pick_def)
    moreover from False Cons have "(r = b \<or> r \<in> set xs) \<and> better_pick b r \<and> (\<forall>x\<in>set xs. better_pick x r)"
      by (simp add: max_pick_def)
    ultimately show ?thesis using tr by auto
  qed
qed (auto simp: better_pick_def)

lemma max_pick_None: "foldl max_pick b xs = None \<longleftrightarrow> b = None \<and> xs = []"
  by (induction xs arbitrary: b) (auto simp: max_pick_def split: option.splits)

lemma majority_of_Some: "majority_of m = Some r \<Longrightarrow> r \<in> set m \<and> (\<forall>x\<in>set m. better_pick x r)"
  by (cases m) (auto simp: majority_of_def max_pick_def dest: max_pick_fold)

lemma majority_votes:
  assumes "majority_of (foldl count_vote [] vs) = Some (p, n)"
  shows "n = votes_for p vs \<and> 0 < n \<and> (\<forall>k. votes_for k vs < n \<or> (votes_for k vs = n \<and> p \<le> k))"
proof -
  let ?m = "foldl count_vote [] vs"
  have wf: "bt_wf ?m" by (simp add: count_votes_wf)
  from majority_of_Some [OF assms] have mem: "(p, n) \<in> set ?m"
    and best: "\<And>x. x \<in> set ?m \<Longrightarrow> better_pick x (p, n)" by auto
  from bt_get_mem [OF wf mem] have n: "n = votes_for p vs" "0 < n"
    by (auto simp: count_votes_get split: if_splits)
  have "votes_for k vs < n \<or> (votes_for k vs = n \<and> p \<le> k)" for k
  proof (cases "votes_for k vs = 0")
    case False
    then have "bt_get ?m k = Some (votes_for k vs)" by (simp add: count_votes_get)
    from best [OF bt_get_SomeD [OF this]] show ?thesis by (auto simp: better_pick_def)
  qed (use n in simp)
  with n show ?thesis by blast
qed

lemma majority_None: "majority_of (foldl count_vote [] vs) = None \<longleftrightarrow> (\<forall>v\<in>set vs. dv_decision v = VoteHuman)"
proof -
  have "majority_of (foldl count_vote [] vs) = None \<longleftrightarrow> foldl count_vote [] vs = []"
    by (simp add: majority_of_def max_pick_None)
  also have "\<dots> \<longleftrightarrow> (\<forall>k. votes_for k vs = 0)"
    unfolding bt_get_Nil_iff [symmetric] by (auto simp: count_votes_get)
  also have "\<dots> \<longleftrightarrow> (\<forall>v\<in>set vs. dv_decision v = VoteHuman)"
    by (auto simp: votes_for_def filter_empty_conv)
  finally show ?thesis .
qed

text \<open>
  A tally's pick is a most voted key: its count is the number of valid votes for it, no key has
  more, and among keys with equally many it is the smallest. The tally asks for information exactly
  when the pick has fewer than two votes or some valid vote asks for a human.
\<close>

theorem tally_votes_majority:
  "ta_majority_pick (tally_votes votes ids) = Some p \<Longrightarrow>
     let n = (\<lambda>k. votes_for k (ta_votes (tally_votes votes ids))) in
       ta_majority_count (tally_votes votes ids) = n p \<and> 0 < n p
       \<and> (\<forall>k. n k < n p \<or> (n k = n p \<and> p \<le> k))
       \<and> (ta_needs_info (tally_votes votes ids) \<longleftrightarrow>
            n p < 2 \<or> (\<exists>v\<in>set (ta_votes (tally_votes votes ids)). dv_decision v = VoteHuman))"
proof -
  let ?vs = "filter (\<lambda>v. is_valid_vote v ids) votes"
  let ?b = "majority_of (foldl count_vote [] ?vs)"
  assume "ta_majority_pick (tally_votes votes ids) = Some p"
  then obtain n where b: "?b = Some (p, n)" by (auto simp: tally_votes_def Let_def)
  have h: "1 \<le> length (filter (\<lambda>v. dv_decision v = VoteHuman) ?vs) \<longleftrightarrow> (\<exists>v\<in>set ?vs. dv_decision v = VoteHuman)"
    by (simp add: Suc_le_eq filter_empty_conv del: filter_filter)
  from majority_votes [OF b] have n: "n = votes_for p ?vs" "0 < n"
    and best: "\<forall>k. votes_for k ?vs < n \<or> (votes_for k ?vs = n \<and> p \<le> k)" by auto
  have t: "ta_votes (tally_votes votes ids) = ?vs" "ta_majority_count (tally_votes votes ids) = n"
    "ta_needs_info (tally_votes votes ids) \<longleftrightarrow> n < 2 \<or> (\<exists>v\<in>set ?vs. dv_decision v = VoteHuman)"
    using h by (simp_all add: tally_votes_def Let_def not_le b del: filter_filter)
  show ?thesis using best n(2) unfolding Let_def t n(1) [symmetric] by simp
qed

text \<open>
  The order in which votes arrive does not change the tally: pick, count and the need for
  information are equal, the minority and the invalid votes are the same up to order.
\<close>

theorem tally_order_irrelevant:
  assumes "mset votes = mset votes'"
  shows "ta_majority_pick (tally_votes votes ids) = ta_majority_pick (tally_votes votes' ids)
    \<and> ta_majority_count (tally_votes votes ids) = ta_majority_count (tally_votes votes' ids)
    \<and> ta_needs_info (tally_votes votes ids) = ta_needs_info (tally_votes votes' ids)
    \<and> mset (ta_minority (tally_votes votes ids)) = mset (ta_minority (tally_votes votes' ids))
    \<and> mset (ta_invalid_votes (tally_votes votes ids)) = mset (ta_invalid_votes (tally_votes votes' ids))"
proof -
  let ?f = "filter (\<lambda>v. is_valid_vote v ids)"
  have m: "mset (?f votes) = mset (?f votes')" using assms by simp
  note c = count_votes_mset [OF m]
  have l: "length (filter P (?f votes)) = length (filter P (?f votes'))" for P
    by (rule mset_eq_length) (simp add: assms)
  show ?thesis using assms m by (simp add: tally_votes_def Let_def c l del: filter_filter)
qed

subsection \<open>The outcome\<close>

lemma families_fold:
  "distinct fs \<Longrightarrow> distinct (foldl (\<lambda>fs n. if family n \<in> set fs then fs else fs @ [family n]) fs ns)
     \<and> set (foldl (\<lambda>fs n. if family n \<in> set fs then fs else fs @ [family n]) fs ns) = set fs \<union> family ` set ns"
proof (induction ns arbitrary: fs)
  case (Cons n ns)
  show ?case
  proof (cases "family n \<in> set fs")
    case True
    with Cons show ?thesis by auto
  next
    case False
    with Cons.prems have "distinct (fs @ [family n])" by simp
    with Cons.IH [of "fs @ [family n]"] False show ?thesis by simp
  qed
qed simp

lemma families_of_card: "length (families_of ns) = card (family ` set ns)"
  using families_fold [of "[]" ns] by (metis distinct.simps(1) distinct_card empty_set families_of_def sup_bot_left)

lemma minimum_vote_families: "has_minimum_vote_families vs \<longleftrightarrow> 2 \<le> card ((\<lambda>v. family (dv_source v)) ` set vs)"
  by (simp add: has_minimum_vote_families_def families_of_card image_image)

lemma tally_fields:
  "ta_votes (tally_votes votes ids) = filter (\<lambda>v. is_valid_vote v ids) votes"
  "ta_minority (tally_votes votes ids) =
     filter (\<lambda>v. Some (vote_key v) \<noteq> ta_majority_pick (tally_votes votes ids)) (ta_votes (tally_votes votes ids))"
  "ta_supermajority_met (tally_votes votes ids) \<longleftrightarrow> 2 \<le> ta_majority_count (tally_votes votes ids)"
  by (simp_all add: tally_votes_def Let_def)

lemma phases_tally:
  "run_direction_phases parse fences q = (t, pool, fb) \<Longrightarrow> \<exists>ids. t = tally_votes (dr_direction_votes q) ids"
  by (auto simp: run_direction_phases_def Let_def split: if_splits)

lemma majority_pick_votes:
  assumes "2 \<le> ta_majority_count (tally_votes votes ids)"
  obtains p where "ta_majority_pick (tally_votes votes ids) = Some p"
    "ta_majority_count (tally_votes votes ids) = votes_for p (ta_votes (tally_votes votes ids))"
proof (cases "majority_of (foldl count_vote [] (filter (\<lambda>v. is_valid_vote v ids) votes))")
  case None
  with assms show ?thesis by (simp add: tally_votes_def Let_def)
next
  case (Some b)
  obtain p n where b: "b = (p, n)" by (cases b)
  from majority_votes [OF Some [unfolded b]] Some b that [of p] show ?thesis
    by (simp add: tally_votes_def Let_def)
qed

lemma vote_key_human: "dv_decision v = VoteHuman \<Longrightarrow> dv_decision w \<noteq> VoteHuman \<Longrightarrow> vote_key v \<noteq> vote_key w"
  by (cases "dv_decision w") (simp_all add: vote_key.simps)

lemma no_human_votes:
  assumes "ta_majority_pick (tally_votes votes ids) = Some p" "0 < votes_for p (ta_votes (tally_votes votes ids))"
    and "\<not> list_ex (\<lambda>v. dv_decision v = VoteHuman) (ta_minority (tally_votes votes ids))"
    and "v \<in> set (ta_votes (tally_votes votes ids))"
  shows "dv_decision v \<noteq> VoteHuman"
proof
  assume h: "dv_decision v = VoteHuman"
  from assms(2) obtain w where w: "dv_decision w \<noteq> VoteHuman" "vote_key w = p"
    by (auto simp: votes_for_def filter_empty_conv simp flip: length_greater_0_conv)
  from vote_key_human [OF h w(1)] w(2) assms(1,4) have "v \<in> set (ta_minority (tally_votes votes ids))"
    by (subst tally_fields(2)) auto
  with assms(3) h show False by (auto simp: list_ex_iff)
qed

lemma run_decision_cases:
  "run_decision parse fences q =
     (if dr_budget_remaining q < est_cost q
      then edge_outcome (dr_kind q) ''budget_exhausted''
             (build_budget_brief (dr_kind q) (dr_auditors q) (dr_budget_remaining q) (est_cost q))
      else if dr_escalate_key q \<in> set (dr_spawned_escalate_keys q) then human_edge q respawn_reason
      else if dr_kind q \<noteq> KReview
              \<and> \<not> has_minimum_vote_families (ta_votes (fst (run_direction_phases parse fences q)))
      then with_record (human_edge q direction_reason) (dr_escalate_key q)
      else if dr_kind q \<noteq> KDirection \<and> \<not> has_minimum_valid_reviewers (dr_review_results q)
      then with_record (human_edge q review_reason) (dr_escalate_key q)
      else decided q
             (if dr_kind q = KReview then None
              else Some (direction_payload (fst (run_direction_phases parse fences q))
                          (fst (snd (run_direction_phases parse fences q)))))
             (if dr_kind q = KDirection then None
              else Some (merge_findings parse fences (dr_review_results q)))
             (do_dissent (run_decision parse fences q)))"
  by (cases "run_direction_phases parse fences q")
    (auto simp: run_decision_def direction_track_def review_track_def decided_def Let_def
      simp del: has_minimum_vote_families_def)

lemma decided_status:
  "do_status (decided q d r dis) = compose_status (dr_kind q) d"
  "do_result (decided q d r dis) = compose_payload (dr_kind q) d r"
  "do_record_escalate_key (decided q d r dis) = Some (dr_escalate_key q)"
  "do_dispatched_to (decided q d r dis) = dr_auditors q"
  "do_budget_consumed_est (decided q d r dis) = est_cost q"
  by (simp_all add: decided_def Let_def)

lemma human_edge_fields:
  "do_status (human_edge q e) = NeedsHuman" "do_result (human_edge q e) = None"
  "do_budget_consumed_est (human_edge q e) = 0" "do_dispatched_to (human_edge q e) = []"
  by (simp_all add: human_edge_def edge_outcome_def)

lemma with_record_fields:
  "do_status (with_record out k) = do_status out" "do_result (with_record out k) = do_result out"
  "do_budget_consumed_est (with_record out k) = do_budget_consumed_est out"
  "do_dispatched_to (with_record out k) = do_dispatched_to out"
  by (simp_all add: with_record_def)

lemma edge_outcome_fields:
  "do_status (edge_outcome k e b) = NeedsHuman" "do_result (edge_outcome k e b) = None"
  "do_budget_consumed_est (edge_outcome k e b) = 0" "do_dispatched_to (edge_outcome k e b) = []"
  by (simp_all add: edge_outcome_def)

lemma compose_status_not_human: "compose_status k d \<noteq> NeedsHuman"
  by (auto simp: compose_status_def split: option.splits)

lemmas outcome_fields = decided_status human_edge_fields with_record_fields edge_outcome_fields

text \<open>
  A round ends as NEEDS_HUMAN exactly when the budget is below its cost, the escalation point was
  spawned before, the valid votes come from fewer than two runner families, or fewer than two
  families of reviewers answered.
\<close>

theorem run_decision_needs_human:
  "do_status (run_decision parse fences q) = NeedsHuman \<longleftrightarrow>
     dr_budget_remaining q < est_cost q
     \<or> dr_escalate_key q \<in> set (dr_spawned_escalate_keys q)
     \<or> (dr_kind q \<noteq> KReview
        \<and> card ((\<lambda>v. family (dv_source v)) ` set (ta_votes (fst (run_direction_phases parse fences q)))) < 2)
     \<or> (dr_kind q \<noteq> KDirection \<and> \<not> has_minimum_valid_reviewers (dr_review_results q))"
  by (subst run_decision_cases)
    (simp add: outcome_fields compose_status_not_human minimum_vote_families not_le)

lemma decided_converged:
  assumes "do_status (run_decision parse fences q) = Converged" "dr_kind q \<noteq> KReview"
  obtains t pool fb review where "run_direction_phases parse fences q = (t, pool, fb)"
    "has_minimum_vote_families (ta_votes t)"
    "compose_status (dr_kind q) (Some (direction_payload t pool)) = Converged"
    "do_result (run_decision parse fences q) = compose_payload (dr_kind q) (Some (direction_payload t pool)) review"
    "dr_kind q = KBoth \<Longrightarrow> review \<noteq> None"
    "est_cost q \<le> dr_budget_remaining q" "dr_escalate_key q \<notin> set (dr_spawned_escalate_keys q)"
proof -
  obtain t pool fb where ph: "run_direction_phases parse fences q = (t, pool, fb)"
    by (cases "run_direction_phases parse fences q")
  let ?out = "run_decision parse fences q"
  from assms have g: "\<not> dr_budget_remaining q < est_cost q" "dr_escalate_key q \<notin> set (dr_spawned_escalate_keys q)"
      "has_minimum_vote_families (ta_votes t)"
      "dr_kind q \<noteq> KDirection \<Longrightarrow> has_minimum_valid_reviewers (dr_review_results q)"
    using run_decision_cases [of parse fences q]
    by (auto simp: ph outcome_fields minimum_vote_families split: if_splits)
  obtain review where "?out = decided q (Some (direction_payload t pool)) review (do_dissent ?out)"
    "dr_kind q = KBoth \<Longrightarrow> review \<noteq> None"
    using run_decision_cases [of parse fences q] g assms(2) by (auto simp: ph split: if_splits)
  with that [OF ph g(3)] g(1,2) assms(1) show ?thesis
    by (metis decided_status(1) decided_status(2) not_le)
qed

text \<open>
  C5: A converged direction has a pick with at least two valid votes and at least as many as any other
  key, no valid vote asks for a human, the votes come from at least two families and all from the
  request, the budget covered the round and the escalation point was new.
\<close>

theorem run_decision_converged:
  assumes "do_status (run_decision parse fences q) = Converged" "dr_kind q \<noteq> KReview"
  shows "\<exists>d p. (do_result (run_decision parse fences q) = Some (DirectionResult d)
           \<or> (\<exists>fs. do_result (run_decision parse fences q) = Some (BothResult d fs)))
     \<and> dp_pick d = Some p \<and> 2 \<le> votes_for p (dp_votes d)
     \<and> (\<forall>k. votes_for k (dp_votes d) \<le> votes_for p (dp_votes d))
     \<and> set (dp_votes d) \<subseteq> set (dr_direction_votes q)
     \<and> (\<forall>v\<in>set (dp_votes d). dv_decision v \<noteq> VoteHuman)
     \<and> 2 \<le> card ((\<lambda>v. family (dv_source v)) ` set (dp_votes d))
     \<and> est_cost q \<le> dr_budget_remaining q
     \<and> dr_escalate_key q \<notin> set (dr_spawned_escalate_keys q)"
proof -
  from decided_converged [OF assms] obtain t pool fb review where
    ph: "run_direction_phases parse fences q = (t, pool, fb)" and fam: "has_minimum_vote_families (ta_votes t)"
    and st: "compose_status (dr_kind q) (Some (direction_payload t pool)) = Converged"
    and res: "do_result (run_decision parse fences q)
                = compose_payload (dr_kind q) (Some (direction_payload t pool)) review"
    and rv: "dr_kind q = KBoth \<Longrightarrow> review \<noteq> None"
    and b: "est_cost q \<le> dr_budget_remaining q" "dr_escalate_key q \<notin> set (dr_spawned_escalate_keys q)" by metis
  from phases_tally [OF ph] obtain ids where t: "t = tally_votes (dr_direction_votes q) ids" by blast
  from st assms(2) have c: "2 \<le> ta_majority_count t" "\<not> list_ex (\<lambda>v. dv_decision v = VoteHuman) (ta_minority t)"
    by (auto simp: compose_status_def direction_payload_def t tally_fields(3) split: if_splits)
  obtain p where p: "ta_majority_pick t = Some p" "ta_majority_count t = votes_for p (ta_votes t)"
    using majority_pick_votes [OF c(1) [unfolded t]] t by blast
  from majority_votes [of "ta_votes t" p "ta_majority_count t"] p
  have best: "\<forall>k. votes_for k (ta_votes t) \<le> votes_for p (ta_votes t)"
    using tally_votes_majority [of "dr_direction_votes q" ids p] unfolding t Let_def by (metis less_imp_le order_refl)
  have nh: "\<forall>v\<in>set (ta_votes t). dv_decision v \<noteq> VoteHuman"
    using no_human_votes [of "dr_direction_votes q" ids p] p c unfolding t by auto
  let ?d = "direction_payload t pool"
  have d: "dp_pick ?d = Some p" "dp_votes ?d = ta_votes t"
    by (simp_all add: direction_payload_def p)
  have sub: "set (ta_votes t) \<subseteq> set (dr_direction_votes q)" by (auto simp: t tally_fields(1))
  have r: "do_result (run_decision parse fences q) = Some (DirectionResult ?d)
      \<or> (\<exists>fs. do_result (run_decision parse fences q) = Some (BothResult ?d fs))"
    using rv assms(2) by (cases "dr_kind q") (auto simp: res compose_payload_def)
  show ?thesis
    using r p c best nh sub fam b unfolding minimum_vote_families
    by (intro exI [of _ ?d] exI [of _ p]) (simp add: d)
qed

text \<open>
  No reviewer is lost: each review that finished with a non-blank reply contributes a finding with a
  source to the merged findings, whether its reply parses or not.
\<close>

theorem review_findings_cover:
  assumes "do_result (run_decision parse fences q) = Some (ReviewResult fs)
     \<or> do_result (run_decision parse fences q) = Some (BothResult d fs)"
    and "r \<in> set (dr_review_results q)" "ar_status r = JobOk" "trim (ar_reply_text r) \<noteq> []"
  shows "\<exists>f\<in>set fs. f \<in> set (result_findings parse fences r) \<and> fi_source f \<noteq> None"
proof -
  have fs: "fs = merge_findings parse fences (dr_review_results q)"
    using assms(1) by (subst (asm) (1 2) run_decision_cases)
      (auto simp: outcome_fields compose_payload_def split: if_splits decision_kind.splits)
  have src: "f \<in> set (with_source n gs) \<Longrightarrow> fi_source f \<noteq> None" for f n gs
    by (auto simp: with_source_def split: if_splits)
  have "\<exists>f\<in>set (result_findings parse fences r). fi_source f \<noteq> None"
  proof (cases "structured_findings r = []")
    case False
    then obtain g gs where "structured_findings r = g # gs" by (cases "structured_findings r") auto
    then show ?thesis using assms(3)
      by (auto simp: result_findings_def with_source_def)
  next
    case True
    show ?thesis
    proof (cases "parse_findings_text parse fences (ar_reply_text r)")
      case None
      with True assms(3,4) show ?thesis by (simp add: result_findings_def raw_finding_def)
    next
      case (Some gs)
      with parse_findings_text_nonempty have "gs \<noteq> []" by auto
      with Some True assms(3) show ?thesis
        by (cases gs) (auto simp: result_findings_def with_source_def)
    qed
  qed
  with assms(2) show ?thesis by (auto simp: fs merge_findings_def)
qed

subsection \<open>Instances\<close>

definition sample_vote :: "string \<Rightarrow> string \<Rightarrow> direction_vote" where
  "sample_vote src task = \<lparr> dv_decision = PickTask, dv_value = task, dv_reasoning = [], dv_source = src \<rparr>"

definition sample_review :: "string \<Rightarrow> string \<Rightarrow> agent_result" where
  "sample_review runner reply =
     \<lparr> ar_job_id = runner, ar_runner = runner, ar_model = None, ar_status = JobOk,
       ar_exit_code = Some 0, ar_findings = [], ar_reply_text = reply, ar_cost = [],
       ar_permissions = [], ar_artifacts = [], ar_attempts = 1, ar_error = [],
       ar_task_type = None, ar_size = UnknownSize, ar_merge_review = None \<rparr>"

definition sample_request :: "decision_kind \<Rightarrow> decision_request" where
  "sample_request k =
     \<lparr> dr_kind = k, dr_auditors = [''codex'', ''claude''], dr_budget_remaining = 60000,
       dr_escalate_key = ''k1'', dr_diverge = False, dr_spawned_escalate_keys = [],
       dr_valid_task_ids = Some [''t1'', ''t2''], dr_task_universe = [], dr_candidate_results = [],
       dr_direction_votes = [sample_vote ''codex'' ''t1'', sample_vote ''claude'' ''t1'', sample_vote ''pi'' ''t2''],
       dr_review_results = [sample_review ''codex'' ''looks fine'', sample_review ''claude'' ''a defect''] \<rparr>"

lemma tally_votes_majority_witness:
  "ta_majority_pick (tally_votes [sample_vote ''codex'' ''t1'', sample_vote ''pi'' ''t2''] None) = Some ''pick_task:t1''
   \<and> 0 < votes_for ''pick_task:t1'' (ta_votes (tally_votes [sample_vote ''codex'' ''t1'', sample_vote ''pi'' ''t2''] None))"
proof -
  have p: "ta_majority_pick (tally_votes [sample_vote ''codex'' ''t1'', sample_vote ''pi'' ''t2''] None) = Some ''pick_task:t1''"
    by code_simp
  with tally_votes_majority [OF p] show ?thesis by (simp add: Let_def)
qed

lemma tally_order_irrelevant_witness:
  "ta_majority_pick (tally_votes [sample_vote ''codex'' ''t1'', sample_vote ''pi'' ''t2''] None)
     = ta_majority_pick (tally_votes [sample_vote ''pi'' ''t2'', sample_vote ''codex'' ''t1''] None)"
  using tally_order_irrelevant [of "[sample_vote ''codex'' ''t1'', sample_vote ''pi'' ''t2'']"
      "[sample_vote ''pi'' ''t2'', sample_vote ''codex'' ''t1'']" None] by simp

lemma run_decision_converged_witness:
  "\<exists>d p. do_result (run_decision (\<lambda>_. None) (\<lambda>_. []) (sample_request KDirection)) = Some (DirectionResult d)
     \<and> dp_pick d = Some p \<and> 2 \<le> votes_for p (dp_votes d)"
proof -
  have c: "do_status (run_decision (\<lambda>_. None) (\<lambda>_. []) (sample_request KDirection)) = Converged"
    by code_simp
  have k: "dr_kind (sample_request KDirection) \<noteq> KReview" by (simp add: sample_request_def)
  have n: "do_result (run_decision (\<lambda>_. None) (\<lambda>_. []) (sample_request KDirection)) \<noteq> Some (BothResult d fs)" for d fs
    by (subst run_decision_cases) (simp add: outcome_fields compose_payload_def sample_request_def)
  from run_decision_converged [OF c k] n show ?thesis by blast
qed

lemma review_findings_cover_witness:
  "\<exists>fs f. do_result (run_decision (\<lambda>_. None) (\<lambda>_. []) (sample_request KReview)) = Some (ReviewResult fs)
     \<and> f \<in> set fs \<and> fi_source f \<noteq> None"
proof -
  define fs where "fs = merge_findings (\<lambda>_. None) (\<lambda>_. []) (dr_review_results (sample_request KReview))"
  have g: "\<not> dr_budget_remaining (sample_request KReview) < est_cost (sample_request KReview)"
    "has_minimum_valid_reviewers (dr_review_results (sample_request KReview))" by code_simp+
  have k: "dr_kind (sample_request KReview) = KReview" "dr_spawned_escalate_keys (sample_request KReview) = []"
    by (simp_all add: sample_request_def)
  have r: "do_result (run_decision (\<lambda>_. None) (\<lambda>_. []) (sample_request KReview)) = Some (ReviewResult fs)"
    by (subst run_decision_cases) (simp add: g k outcome_fields compose_payload_def fs_def)
  have m: "sample_review ''codex'' ''looks fine'' \<in> set (dr_review_results (sample_request KReview))"
    "ar_status (sample_review ''codex'' ''looks fine'') = JobOk"
    by (simp_all add: sample_request_def sample_review_def)
  have t: "trim (ar_reply_text (sample_review ''codex'' ''looks fine'')) \<noteq> []" by code_simp
  from review_findings_cover [OF disjI1 [OF r] m t] r show ?thesis by blast
qed

end
