(* ===== verification/Lto_Budget.thy ===== *)
theory Lto_Budget
  imports Lto_Json
begin

text \<open>
  \<open>src/src/budget.rs\<close>: turn, token and deadline budgets of a run. Times are chrono's: the
  parameters \<open>rfc\<close> (an RFC 3339 text as local time in nanoseconds and its offset in seconds) and
  \<open>naive\<close> (a text without offset, by either of the two formats, or the error text) read them.
\<close>

subsection \<open>Numbers and text\<close>

text \<open>\<open>as u64\<close> of a float saturates, and takes a NaN to zero.\<close>

definition f_to_u64 :: "f64 \<Rightarrow> u64" where
  "f_to_u64 f =
     (case f of
        Fin q \<Rightarrow> if q < 0 then 0 else if 18446744073709551616 \<le> q then - 1 else word_of_int (floor q)
      | PInf \<Rightarrow> - 1 | NInf \<Rightarrow> 0 | NaN \<Rightarrow> 0)"

text \<open>A float that is not finite becomes \<open>null\<close>.\<close>

definition jfloat :: "f64 \<Rightarrow> json" where
  "jfloat f = (case f of Fin _ \<Rightarrow> JFloat f | _ \<Rightarrow> JNull)"

definition hex_digit :: "nat \<Rightarrow> char" where
  "hex_digit n = (if n < 10 then char_of (48 + n) else char_of (87 + n))"

text \<open>The \<open>Debug\<close> form of a string. Bytes of non-ASCII characters are kept; the library escapes
  those that are not printable.\<close>

definition debug_char :: "char \<Rightarrow> string" where
  "debug_char c =
     (let n = of_char c :: nat in
      if c = CHR 0x22 \<or> c = CHR 0x5C then [CHR 0x5C, c]
      else if n = 10 then [CHR 0x5C, CHR ''n'']
      else if n = 13 then [CHR 0x5C, CHR ''r'']
      else if n = 9 then [CHR 0x5C, CHR ''t'']
      else if n = 0 then [CHR 0x5C, CHR ''0'']
      else if n < 16 then CHR 0x5C # ''u{'' @ [hex_digit n] @ ''}''
      else if n < 32 \<or> n = 127 then CHR 0x5C # ''u{'' @ [hex_digit (n div 16), hex_digit (n mod 16)] @ ''}''
      else [c])"

definition str_debug :: "string \<Rightarrow> string" where
  "str_debug s = CHR 0x22 # concat (map debug_char s) @ [CHR 0x22]"

subsection \<open>Status of a dimension\<close>

datatype budget_status = BudgetOk | BudgetWarn | BudgetExceeded

fun budget_rank :: "budget_status \<Rightarrow> nat" where
  "budget_rank BudgetOk = 0"
| "budget_rank BudgetWarn = 1"
| "budget_rank BudgetExceeded = 2"

lemma budget_rank_inj: "budget_rank a = budget_rank b \<Longrightarrow> a = b"
  by (cases a; cases b) auto

instantiation budget_status :: linorder
begin

definition less_eq_budget_status :: "budget_status \<Rightarrow> budget_status \<Rightarrow> bool" where
  "less_eq_budget_status a b \<longleftrightarrow> budget_rank a \<le> budget_rank b"

definition less_budget_status :: "budget_status \<Rightarrow> budget_status \<Rightarrow> bool" where
  "less_budget_status a b \<longleftrightarrow> budget_rank a < budget_rank b"

instance
  by standard (auto simp: less_eq_budget_status_def less_budget_status_def dest: budget_rank_inj)

end

fun budget_status_str :: "budget_status \<Rightarrow> string" where
  "budget_status_str BudgetOk = ''ok''"
| "budget_status_str BudgetWarn = ''warn''"
| "budget_status_str BudgetExceeded = ''exceeded''"

record dimension =
  dim_limit :: "f64 option"
  dim_used :: f64
  dim_ratio :: "f64 option"
  dim_status :: budget_status

definition ratio_status :: "f64 \<Rightarrow> f64 \<Rightarrow> budget_status" where
  "ratio_status ratio warn =
     (if f_le (Fin 1) ratio then BudgetExceeded
      else if f_le warn ratio then BudgetWarn
      else BudgetOk)"

definition dimension_status :: "f64 option \<Rightarrow> f64 \<Rightarrow> f64 \<Rightarrow> dimension" where
  "dimension_status limit used warn =
     (case limit of
        None \<Rightarrow> \<lparr> dim_limit = None, dim_used = used, dim_ratio = None, dim_status = BudgetOk \<rparr>
      | Some l \<Rightarrow>
          (let ratio = (if f_eq l (Fin 0) then PInf else f_div used l)
           in \<lparr> dim_limit = Some l, dim_used = used, dim_ratio = Some ratio,
                dim_status = ratio_status ratio warn \<rparr>))"

subsection \<open>The deadline\<close>

record deadline =
  dl_limit :: "string option"
  dl_used :: string
  dl_ratio :: "f64 option"
  dl_status :: budget_status

definition z_offset :: "string \<Rightarrow> string" where
  "z_offset s = concat (map (\<lambda>c. if c = CHR ''Z'' then ''+00:00'' else [c]) s)"

text \<open>The local time; the offset is dropped.\<close>

definition parse_iso_naive ::
    "(string \<Rightarrow> (int \<times> int) option) \<Rightarrow> (string \<Rightarrow> string + int) \<Rightarrow> string \<Rightarrow> string + int" where
  "parse_iso_naive rfc naive v =
     (case rfc (z_offset v) of Some (local_ns, _) \<Rightarrow> Inr local_ns | None \<Rightarrow> naive v)"

definition seconds_between :: "int \<Rightarrow> int \<Rightarrow> int" where
  "seconds_between a b =
     (if 0 \<le> a - b then (a - b) div 1000000000 else - ((b - a) div 1000000000))"

definition plain_deadline :: "string option \<Rightarrow> string \<Rightarrow> f64 option \<Rightarrow> budget_status \<Rightarrow> deadline" where
  "plain_deadline limit now ratio status =
     \<lparr> dl_limit = limit, dl_used = now, dl_ratio = ratio, dl_status = status \<rparr>"

definition running_deadline ::
    "string \<Rightarrow> string \<Rightarrow> int option \<Rightarrow> int \<Rightarrow> int \<Rightarrow> f64 \<Rightarrow> deadline" where
  "running_deadline limit now st dl nw warn =
     (if st = None \<or> dl \<le> the st then plain_deadline (Some limit) now (Some (Fin 0)) BudgetOk
      else let ratio = f_div (f_of_int (seconds_between nw (the st))) (f_of_int (seconds_between dl (the st)))
           in plain_deadline (Some limit) now (Some ratio)
                (if f_le warn ratio then BudgetWarn else BudgetOk))"

definition deadline_status_with_warnings ::
    "(string \<Rightarrow> (int \<times> int) option) \<Rightarrow> (string \<Rightarrow> string + int) \<Rightarrow> string option \<Rightarrow> string \<Rightarrow> string \<Rightarrow> f64
     \<Rightarrow> deadline \<times> string list" where
  "deadline_status_with_warnings rfc naive limit started now warn =
     (case opt_filter (\<lambda>s. s \<noteq> []) limit of
        None \<Rightarrow> (plain_deadline None now None BudgetOk, [])
      | Some d \<Rightarrow>
     (case parse_iso_naive rfc naive d of
        Inl e \<Rightarrow> (plain_deadline (Some d) now None BudgetOk,
                 [(''budget: invalid hard_deadline '' @ (str_debug d) @ '' ignored: '' @ e)])
      | Inr dl \<Rightarrow>
     (case parse_iso_naive rfc naive now of
        Inl e \<Rightarrow> (plain_deadline (Some d) now None BudgetOk,
                 [(''budget: invalid now '' @ (str_debug now) @ '' ignored: '' @ e)])
      | Inr nw \<Rightarrow>
          if dl \<le> nw then (plain_deadline (Some d) now (Some (Fin 1)) BudgetExceeded, [])
          else if started = [] then (running_deadline d now None dl nw warn, [])
          else (case parse_iso_naive rfc naive started of
                  Inl e \<Rightarrow> (running_deadline d now None dl nw warn,
                           [(''budget: invalid started_at '' @ (str_debug started) @ '' ignored: '' @ e)])
                | Inr st \<Rightarrow> (running_deadline d now (Some st) dl nw warn, [])))))"

definition deadline_status ::
    "(string \<Rightarrow> (int \<times> int) option) \<Rightarrow> (string \<Rightarrow> string + int) \<Rightarrow> string option \<Rightarrow> string \<Rightarrow> string \<Rightarrow> f64
     \<Rightarrow> deadline" where
  "deadline_status rfc naive limit started now warn =
     fst (deadline_status_with_warnings rfc naive limit started now warn)"

subsection \<open>The check\<close>

record run_budget =
  rb_max_turns :: "u64 option"
  rb_max_tokens :: "u64 option"
  rb_hard_deadline :: "string option"
  rb_turns_used :: u64
  rb_warn_ratio :: f64

definition default_warn_ratio :: f64 where
  "default_warn_ratio = fl (8 / 10)"

definition default_run_budget :: run_budget where
  "default_run_budget = \<lparr> rb_max_turns = None, rb_max_tokens = None, rb_hard_deadline = None,
     rb_turns_used = 0, rb_warn_ratio = default_warn_ratio \<rparr>"

record budget_check =
  bc_overall :: budget_status
  bc_dimensions :: json_map
  bc_warnings :: "string list"

definition push_warning :: "string \<Rightarrow> dimension \<Rightarrow> f64 \<Rightarrow> string list" where
  "push_warning name d warn =
     (case (dim_ratio d, dim_limit d) of
        (Some ratio, Some limit) \<Rightarrow>
          if f_le warn ratio
          then [(''budget: '' @ name @ '' '' @ (show_u64 (f_to_u64 (f_mul ratio (Fin 100)))) @ ''% ('' @ (show_u64 (f_to_u64 (dim_used d))) @ ''/'' @ (show_u64 (f_to_u64 limit)) @ '')'')]
          else []
      | _ \<Rightarrow> [])"

definition deadline_warning :: "deadline \<Rightarrow> string list" where
  "deadline_warning d =
     (case dl_ratio d of
        Some ratio \<Rightarrow>
          if dl_status d \<noteq> BudgetOk
          then [(''budget: deadline '' @ (show_u64 (f_to_u64 (f_mul ratio (Fin 100)))) @ ''% ('' @ (dl_used d) @ ''/'' @ (opt_get_or [] (dl_limit d)) @ '')'')]
          else []
      | None \<Rightarrow> [])"

definition dimension_json :: "dimension \<Rightarrow> json" where
  "dimension_json d =
     jobj [(''limit'', jopt jfloat (dim_limit d)), (''used'', jfloat (dim_used d)),
           (''ratio'', jopt jfloat (dim_ratio d)), (''status'', JStr (budget_status_str (dim_status d)))]"

definition deadline_json :: "deadline \<Rightarrow> json" where
  "deadline_json d =
     jobj [(''limit'', jopt JStr (dl_limit d)), (''used'', JStr (dl_used d)),
           (''ratio'', jopt jfloat (dl_ratio d)), (''status'', JStr (budget_status_str (dl_status d)))]"

definition effective_warn_ratio :: "run_budget \<Rightarrow> f64" where
  "effective_warn_ratio b =
     (if f_eq (rb_warn_ratio b) (Fin 0) then default_warn_ratio else rb_warn_ratio b)"

definition check_budget ::
    "(string \<Rightarrow> (int \<times> int) option) \<Rightarrow> (string \<Rightarrow> string + int) \<Rightarrow> run_budget option \<Rightarrow> string \<Rightarrow> u64 \<Rightarrow> string
     \<Rightarrow> budget_check" where
  "check_budget rfc naive budget started token_total now =
     (let b = opt_get_or default_run_budget budget;
          warn = effective_warn_ratio b;
          turns = dimension_status (map_option f_of_u64 (rb_max_turns b)) (f_of_u64 (rb_turns_used b)) warn;
          tokens = dimension_status (map_option f_of_u64 (rb_max_tokens b)) (f_of_u64 token_total) warn;
          dw = deadline_status_with_warnings rfc naive (rb_hard_deadline b) started now warn
      in \<lparr> bc_overall = max (dim_status turns) (max (dim_status tokens) (dl_status (fst dw))),
           bc_dimensions = bt_of_list [(''turns'', dimension_json turns), (''tokens'', dimension_json tokens),
                                       (''deadline'', deadline_json (fst dw))],
           bc_warnings = snd dw @ push_warning ''turns'' turns warn @ push_warning ''tokens'' tokens warn
                         @ deadline_warning (fst dw) \<rparr>)"

subsection \<open>Properties\<close>

lemma exceeded_is_top: "s \<le> BudgetExceeded"
  by (cases s) (simp_all add: less_eq_budget_status_def)

lemma max_exceeded: "max a b = BudgetExceeded \<longleftrightarrow> a = BudgetExceeded \<or> b = BudgetExceeded"
  using exceeded_is_top by (metis antisym max_def)

lemma ratio_exceeded: "ratio_status r w = BudgetExceeded \<longleftrightarrow> f_le (Fin 1) r"
  by (simp add: ratio_status_def)

lemma f_of_u64_eq_0: "uint l \<le> 2 ^ 53 \<Longrightarrow> f_eq (f_of_u64 l) (Fin 0) \<longleftrightarrow> l = 0"
proof -
  assume "uint l \<le> 2 ^ 53"
  then have "f_of_u64 l = Fin (of_int (uint l))"
    unfolding f_of_u64_def f_of_int_def by (intro fl_int) simp_all
  moreover have "f_eq (Fin (of_int (uint l))) (Fin 0) \<longleftrightarrow> uint l = 0"
    by (auto simp del: of_int_uint simp add: f_eq_def)
  ultimately show ?thesis by (simp add: unsigned_eq_0_iff)
qed

lemma dimension_exceeded:
  assumes "\<And>l. limit = Some l \<Longrightarrow> uint l \<le> 2 ^ 53" "uint used \<le> 2 ^ 53"
  shows "dim_status (dimension_status (map_option f_of_u64 limit) (f_of_u64 used) warn) = BudgetExceeded
     \<longleftrightarrow> (\<exists>l. limit = Some l \<and> l \<le> used)"
proof (cases limit)
  case None
  then show ?thesis by (simp add: dimension_status_def)
next
  case (Some l)
  show ?thesis
  proof (cases "l = 0")
    case True
    have "f_eq (f_of_u64 0) (Fin 0)" by (simp add: f_of_u64_eq_0)
    with True Some show ?thesis by (simp add: dimension_status_def ratio_exceeded)
  next
    case False
    then have "0 < uint l" by (simp add: order_less_le unsigned_eq_0_iff)
    with assms(1) [OF Some] assms(2) f_div_counts [of "uint used" "uint l"]
    have "f_le (Fin 1) (f_div (f_of_u64 used) (f_of_u64 l)) \<longleftrightarrow> l \<le> used"
      by (simp add: f_of_u64_def word_le_def)
    with False Some assms(1) [OF Some] show ?thesis
      by (simp add: dimension_status_def Let_def ratio_exceeded f_of_u64_eq_0)
  qed
qed

lemma running_not_exceeded: "dl_status (running_deadline d now st dl nw warn) \<noteq> BudgetExceeded"
  by (simp add: running_deadline_def plain_deadline_def Let_def)

lemma deadline_exceeded:
  "dl_status (fst (deadline_status_with_warnings rfc naive limit started now warn)) = BudgetExceeded
   \<longleftrightarrow> (\<exists>d dl nw. limit = Some d \<and> d \<noteq> [] \<and> parse_iso_naive rfc naive d = Inr dl
         \<and> parse_iso_naive rfc naive now = Inr nw \<and> dl \<le> nw)"
  by (cases limit)
    (auto simp: deadline_status_with_warnings_def plain_deadline_def running_not_exceeded
      split: sum.splits)

text \<open>
  C19: A run's budget is exceeded exactly when the turns used reach the turn limit, the tokens reach
  the token limit, or both the deadline and the current time read as times and the deadline is not
  later. Limits and counts are at most \<open>2 ^ 53\<close>, where the floating-point ratio is exact enough; a
  limit of zero is always exceeded.
\<close>

theorem check_budget_exceeded:
  assumes "\<And>l. rb_max_turns b = Some l \<Longrightarrow> uint l \<le> 2 ^ 53" "uint (rb_turns_used b) \<le> 2 ^ 53"
    and "\<And>l. rb_max_tokens b = Some l \<Longrightarrow> uint l \<le> 2 ^ 53" "uint toks \<le> 2 ^ 53"
  shows "bc_overall (check_budget rfc naive (Some b) started toks now) = BudgetExceeded \<longleftrightarrow>
     (\<exists>l. rb_max_turns b = Some l \<and> l \<le> rb_turns_used b)
     \<or> (\<exists>l. rb_max_tokens b = Some l \<and> l \<le> toks)
     \<or> (\<exists>d dl nw. rb_hard_deadline b = Some d \<and> d \<noteq> [] \<and> parse_iso_naive rfc naive d = Inr dl
          \<and> parse_iso_naive rfc naive now = Inr nw \<and> dl \<le> nw)"
proof -
  note turns = dimension_exceeded [OF assms(1,2)]
  note tokens = dimension_exceeded [OF assms(3,4)]
  show ?thesis
    unfolding check_budget_def Let_def
    by (simp add: max_exceeded turns tokens deadline_exceeded)
qed

text \<open>
  Deadlines are compared by local time: a deadline in another offset counts as later whenever its
  clock reads later than the current one, even when it has passed.
\<close>

lemma deadline_offset_dropped:
  assumes "rfc (z_offset d) = Some (ld, off_d)" "rfc (z_offset now) = Some (nl, off_n)" "nl < ld" "d \<noteq> []"
  shows "dl_status (deadline_status rfc naive (Some d) started now warn) \<noteq> BudgetExceeded"
proof
  assume "dl_status (deadline_status rfc naive (Some d) started now warn) = BudgetExceeded"
  then show False
    using assms unfolding deadline_status_def deadline_exceeded by (auto simp: parse_iso_naive_def)
qed

text \<open>Noon at \<open>+08:00\<close> is eight hours before noon UTC, and yet not exceeded at 05:00 UTC.\<close>

lemma deadline_offset_dropped_witness:
  "let rfc = (\<lambda>s. if s = ''2025-01-01T12:00:00+08:00'' then Some (43200000000000, 28800)
                  else if s = ''2025-01-01T05:00:00+00:00'' then Some (18000000000000, 0) else None) in
     (43200000000000::int) - 28800 * 1000000000 < 18000000000000
     \<and> dl_status (deadline_status rfc Inl (Some ''2025-01-01T12:00:00+08:00'') []
         ''2025-01-01T05:00:00Z'' default_warn_ratio) \<noteq> BudgetExceeded"
proof -
  let ?rfc = "\<lambda>s. if s = ''2025-01-01T12:00:00+08:00'' then Some (43200000000000, 28800)
                  else if s = ''2025-01-01T05:00:00+00:00'' then Some (18000000000000, 0) else None"
  have r: "?rfc (z_offset ''2025-01-01T12:00:00+08:00'') = Some (43200000000000, 28800)"
    "?rfc (z_offset ''2025-01-01T05:00:00Z'') = Some (18000000000000, 0)"
    by (simp_all add: z_offset_def)
  show ?thesis
    unfolding Let_def using deadline_offset_dropped [OF r, of Inl "[]" default_warn_ratio] by simp
qed

lemma check_budget_exceeded_witness:
  "let b = default_run_budget\<lparr>rb_max_turns := Some 3, rb_turns_used := 3\<rparr> in
     bc_overall (check_budget (\<lambda>_. None) Inl (Some b) [] 0 []) = BudgetExceeded"
proof -
  let ?b = "default_run_budget\<lparr>rb_max_turns := Some 3, rb_turns_used := 3\<rparr>"
  have "bc_overall (check_budget (\<lambda>_. None) Inl (Some ?b) [] 0 []) = BudgetExceeded \<longleftrightarrow>
     (\<exists>l. rb_max_turns ?b = Some l \<and> l \<le> rb_turns_used ?b)
     \<or> (\<exists>l. rb_max_tokens ?b = Some l \<and> l \<le> 0)
     \<or> (\<exists>d dl nw. rb_hard_deadline ?b = Some d \<and> d \<noteq> [] \<and> parse_iso_naive (\<lambda>_. None) Inl d = Inr dl
          \<and> parse_iso_naive (\<lambda>_. None) Inl [] = Inr nw \<and> dl \<le> nw)"
    by (rule check_budget_exceeded) (auto simp: default_run_budget_def)
  then show ?thesis by (simp add: Let_def)
qed

end
