(* ===== verification/Lto_State.thy ===== *)
theory Lto_State
  imports Lto_Budget Lto_Agent_Job
begin

text \<open>
  \<open>src/src/state.rs\<close>: the state of a run, its delivery contract, its decision entries and the
  validation of run ids. Serde's derived readers and writers of whole records are parameters; the
  loosely typed parts of the state are JSON values, as in the code.
\<close>

subsection \<open>Records\<close>

record workspace_snapshot =
  ws_repo_root :: string
  ws_branch :: string
  ws_head :: string
  ws_dirty_fingerprint :: string
  ws_extra :: json_map

record environment_snapshot =
  es_sandbox :: string
  es_network :: string
  es_mcp_services :: "string list"
  es_write_roots :: "string list"
  es_captured_at :: string
  es_extra :: json_map

record delivery_contract =
  dc_schema_version :: u64
  dc_targets :: "string list"
  dc_constraints :: "string list"
  dc_instruments :: "string list"
  dc_forced_entropy :: "string list"
  dc_extra :: json_map

record decision_scope =
  sc_phase :: "string option"
  sc_paths :: "string list"

record decision_anchor =
  an_head :: string
  an_phase :: string
  an_recorded_at :: string

record decision_record =
  de_id :: string
  de_text :: string
  de_scope :: decision_scope
  de_anchor :: decision_anchor
  de_reaffirmed_at :: "string option"

datatype decision_entry = Typed decision_record | Legacy json

record dispatch_window =
  wi_window_id :: string
  wi_target :: string
  wi_runner :: string
  wi_backend :: string
  wi_tmux_bin :: string
  wi_cleanup_on_success :: bool
  wi_status :: string
  wi_created_at :: string
  wi_finished_at :: "string option"
  wi_retention_reason :: "string option"

record lto_state =
  st_schema_version :: u64
  st_run_id :: string
  st_goal :: string
  st_why :: string
  st_done_when :: string
  st_started_at :: string
  st_host_runtime :: string
  st_workspace :: workspace_snapshot
  st_environment_snapshot :: environment_snapshot
  st_current_phase :: string
  st_original_user_request :: string
  st_phase_transitions :: json
  st_tasks :: json
  st_active_task_id :: json
  st_risk_points :: json
  st_agent_runs :: json
  st_decision_escalate_points :: json
  st_gates :: json
  st_budget :: run_budget
  st_delivery_contract :: delivery_contract
  st_last_failure :: json
  st_user_decisions :: json
  st_next_action :: json
  st_blocked_by :: json
  st_notify_cmd :: "string option"
  st_dispatch_windows :: "dispatch_window list"
  st_artifacts :: json
  st_extra :: json_map

definition default_contract :: delivery_contract where
  "default_contract = \<lparr> dc_schema_version = 1, dc_targets = [], dc_constraints = [],
     dc_instruments = [], dc_forced_entropy = [], dc_extra = [] \<rparr>"

definition default_workspace :: workspace_snapshot where
  "default_workspace = \<lparr> ws_repo_root = [], ws_branch = [], ws_head = [], ws_dirty_fingerprint = [],
     ws_extra = [] \<rparr>"

definition default_environment :: environment_snapshot where
  "default_environment = \<lparr> es_sandbox = [], es_network = [], es_mcp_services = [],
     es_write_roots = [], es_captured_at = [], es_extra = [] \<rparr>"

definition default_state :: "string \<Rightarrow> lto_state" where
  "default_state now =
     \<lparr> st_schema_version = 1, st_run_id = [], st_goal = [], st_why = [], st_done_when = [],
       st_started_at = now, st_host_runtime = [], st_workspace = default_workspace,
       st_environment_snapshot = default_environment, st_current_phase = ''intake'',
       st_original_user_request = [], st_phase_transitions = JArr [], st_tasks = JArr [],
       st_active_task_id = JNull, st_risk_points = JArr [], st_agent_runs = JArr [],
       st_decision_escalate_points = JArr [], st_gates = JObj [],
       st_budget = default_run_budget, st_delivery_contract = default_contract,
       st_last_failure = JNull, st_user_decisions = JArr [], st_next_action = JNull,
       st_blocked_by = JNull, st_notify_cmd = None, st_dispatch_windows = [],
       st_artifacts = JObj [], st_extra = [] \<rparr>"

subsection \<open>Decision entries\<close>

definition as_record :: "decision_entry \<Rightarrow> decision_record option" where
  "as_record e = (case e of Typed r \<Rightarrow> Some r | Legacy _ \<Rightarrow> None)"

definition into_value :: "(decision_record \<Rightarrow> json) \<Rightarrow> decision_entry \<Rightarrow> json" where
  "into_value write e = (case e of Typed r \<Rightarrow> write r | Legacy v \<Rightarrow> v)"

definition parse_decision_entry :: "(json \<Rightarrow> decision_record option) \<Rightarrow> json \<Rightarrow> decision_entry" where
  "parse_decision_entry rd v = (case rd v of Some r \<Rightarrow> Typed r | None \<Rightarrow> Legacy v)"

definition parse_decision_entries :: "(json \<Rightarrow> decision_record option) \<Rightarrow> json \<Rightarrow> decision_entry list" where
  "parse_decision_entries rd v =
     (case v of
        JArr entries \<Rightarrow> map (parse_decision_entry rd) entries
      | JNull \<Rightarrow> []
      | _ \<Rightarrow> [Legacy v])"

definition decision_entries_to_value :: "(decision_record \<Rightarrow> json) \<Rightarrow> decision_entry list \<Rightarrow> json" where
  "decision_entries_to_value write entries = JArr (map (into_value write) entries)"

subsection \<open>Readiness and the delivery contract\<close>

record readiness =
  ra_missing :: "string list"
  ra_advisory :: "string list"

definition run_is_ready :: "readiness \<Rightarrow> bool" where
  "run_is_ready r \<longleftrightarrow> ra_missing r = []"

definition assess_run_readiness :: "string \<Rightarrow> string \<Rightarrow> string \<Rightarrow> string \<Rightarrow> readiness" where
  "assess_run_readiness goal done_when why host =
     \<lparr> ra_missing = (if trim goal = [] then [''--goal''] else [])
                    @ (if trim done_when = [] then [''--done-when''] else []),
       ra_advisory = (if trim why = [] then [''--why''] else [])
                     @ (if trim host = [] \<or> eq_ignore_ascii_case (trim host) ''unknown''
                        then [''--host''] else []) \<rparr>"

record completeness =
  co_present :: bool
  co_missing :: "string list"
  co_advisory :: "string list"

definition squash :: "string \<Rightarrow> string" where
  "squash v = join_str '' '' (split_whitespace v)"

definition clean_list :: "string list \<Rightarrow> string list" where
  "clean_list vs = filter (\<lambda>v. v \<noteq> []) (map squash vs)"

definition clean_instruments :: "string list \<Rightarrow> string list" where
  "clean_instruments vs = map squash vs"

definition new_contract ::
    "string list \<Rightarrow> string list \<Rightarrow> string list \<Rightarrow> string list \<Rightarrow> delivery_contract" where
  "new_contract targets constraints instruments entropy =
     default_contract\<lparr> dc_targets := clean_list targets, dc_constraints := clean_list constraints,
       dc_instruments := clean_instruments instruments, dc_forced_entropy := clean_list entropy \<rparr>"

definition contract_is_empty :: "delivery_contract \<Rightarrow> bool" where
  "contract_is_empty c \<longleftrightarrow>
     dc_targets c = [] \<and> dc_constraints c = [] \<and> dc_instruments c = [] \<and> dc_forced_entropy c = []
     \<and> dc_extra c = []"

definition missing_sections :: "delivery_contract \<Rightarrow> string list" where
  "missing_sections c =
     (if dc_targets c = [] then [''targets''] else [])
     @ (if dc_constraints c = [] then [''constraints''] else [])
     @ (if dc_instruments c = [] then [''instruments''] else [])
     @ (if dc_forced_entropy c = [] then [''forced_entropy''] else [])"

definition split_instrument :: "string \<Rightarrow> string option \<times> string" where
  "split_instrument raw =
     (case split_once ''::'' (trim raw) of
        Some (label, cmd) \<Rightarrow> (opt_filter (\<lambda>l. l \<noteq> []) (Some (trim label)), trim cmd)
      | None \<Rightarrow> (None, trim raw))"

definition instrument_has_command :: "string \<Rightarrow> bool" where
  "instrument_has_command i \<longleftrightarrow> snd (split_instrument i) \<noteq> []"

definition required_missing :: "delivery_contract \<Rightarrow> string list" where
  "required_missing c =
     (let valid = list_ex instrument_has_command (dc_instruments c) in
      if dc_targets c = [] \<and> \<not> valid then [''--target'', ''--instrument'']
      else (if dc_targets c = [] then [''--target''] else [])
           @ (if dc_targets c \<noteq> [] \<and> \<not> valid then [''--instrument''] else []))"

definition completeness_missing :: "delivery_contract \<Rightarrow> completeness" where
  "completeness_missing c =
     (if dc_targets c = [] \<and> dc_constraints c = [] \<and> dc_instruments c = [] \<and> dc_forced_entropy c = []
      then \<lparr> co_present = False, co_missing = [], co_advisory = [] \<rparr>
      else let missing = required_missing c;
               invalid = list_ex (\<lambda>i. \<not> instrument_has_command i) (dc_instruments c)
        in \<lparr> co_present = True,
             co_missing = (if invalid \<and> ''--instrument'' \<notin> set missing
                           then missing @ [''--instrument''] else missing),
             co_advisory = (if dc_constraints c = [] then [''--constraint''] else [])
                           @ (if dc_forced_entropy c = [] then [''--entropy-check''] else []) \<rparr>)"

definition contract_is_complete :: "delivery_contract \<Rightarrow> bool" where
  "contract_is_complete c \<longleftrightarrow> co_missing (completeness_missing c) = []"

subsection \<open>Files and ids\<close>

definition state_path :: "string \<Rightarrow> string \<Rightarrow> string" where
  "state_path repo run_id = path_join (path_join (path_join repo ''.lto'') run_id) ''state.json''"

text \<open>Errors are messages.\<close>

definition validate_run_id :: "string \<Rightarrow> string + string" where
  "validate_run_id run_id =
     (if run_id = [] \<or> CHR ''/'' \<in> set run_id \<or> CHR 0x5C \<in> set run_id
         \<or> contains_str ''..'' run_id \<or> prefix ''.'' run_id
      then Inl (''invalid run_id: '' @ (str_debug run_id)) else Inr run_id)"

definition entries_of :: "(json \<Rightarrow> agent_result option) \<Rightarrow> json \<Rightarrow> agent_result list" where
  "entries_of rd v = (case v of JArr xs \<Rightarrow> List.map_filter rd xs | _ \<Rightarrow> [])"

definition agent_results_from_agent_runs :: "(json \<Rightarrow> agent_result option) \<Rightarrow> json \<Rightarrow> agent_result list" where
  "agent_results_from_agent_runs rd runs =
     (case runs of
        JObj by_job \<Rightarrow> concat (map (\<lambda>(_, v). entries_of rd v) by_job)
      | JArr xs \<Rightarrow> List.map_filter rd xs
      | _ \<Rightarrow> [])"

subsection \<open>Properties\<close>

lemma parse_written_entries:
  "(\<And>r. rd (write r) = Some r) \<Longrightarrow> (\<And>v. Legacy v \<in> set entries \<Longrightarrow> rd v = None) \<Longrightarrow>
     parse_decision_entries rd (decision_entries_to_value write entries) = entries"
  by (induction entries)
    (auto simp: parse_decision_entries_def decision_entries_to_value_def into_value_def
      parse_decision_entry_def split: decision_entry.splits)

lemma written_parsed_entries:
  assumes "\<And>v r. rd v = Some r \<Longrightarrow> write r = v"
  shows "decision_entries_to_value write (parse_decision_entries rd (JArr vs)) = JArr vs"
proof -
  have "into_value write (parse_decision_entry rd v) = v" for v
    using assms by (auto simp: into_value_def parse_decision_entry_def split: option.splits)
  then show ?thesis
    by (simp add: parse_decision_entries_def decision_entries_to_value_def comp_def)
qed

lemma required_missing_Nil:
  "required_missing c = [] \<longleftrightarrow> dc_targets c \<noteq> [] \<and> list_ex instrument_has_command (dc_instruments c)"
  by (auto simp: required_missing_def Let_def)

text \<open>
  A delivery contract is complete exactly when all four sections are empty, or it has a target
  and at least one instrument, and every instrument has a command.
\<close>

theorem contract_complete_iff:
  "contract_is_complete c \<longleftrightarrow>
     (dc_targets c = [] \<and> dc_constraints c = [] \<and> dc_instruments c = [] \<and> dc_forced_entropy c = [])
     \<or> (dc_targets c \<noteq> [] \<and> dc_instruments c \<noteq> []
        \<and> (\<forall>i\<in>set (dc_instruments c). instrument_has_command i))"
proof -
  have "''--instrument'' \<notin> set (required_missing c)" if "required_missing c = []"
    using that by simp
  then show ?thesis
    by (cases "dc_instruments c")
      (auto simp: contract_is_complete_def completeness_missing_def Let_def required_missing_Nil list_ex_iff)
qed

theorem contract_complete_iff_witness:
  "contract_is_complete (default_contract\<lparr> dc_targets := [''parser''], dc_instruments := [''unit:: cargo test''] \<rparr>)
   \<and> \<not> contract_is_complete (default_contract\<lparr> dc_targets := [''parser''], dc_instruments := [''unit::''] \<rparr>)"
  unfolding contract_complete_iff by code_simp

end
