(* ===== verification/Lto_Run_Store.thy ===== *)
theory Lto_Run_Store
  imports Lto_State
begin

text \<open>
  \<open>src/src/commands/util.rs\<close>: loading and saving the run state, the merge of concurrent writers,
  risks, statuses, token totals, git queries, the synchronised Markdown and the artifact manifest.
  \<open>show\<close> is serde's compact text of a JSON value, \<open>rd\<close> and \<open>wr\<close> its readers and writers of records;
  git and the shell are the \<open>world\<close> of \<open>Lto_Worktree\<close>.
\<close>

subsection \<open>Vocabulary\<close>

definition VALID_PHASES :: "string list" where
  "VALID_PHASES = [''intake'', ''spec'', ''audit'', ''implementation'', ''deploy'', ''observe'', ''closed'']"

definition VALID_TASK_STATUSES :: "string list" where
  "VALID_TASK_STATUSES = [''pending'', ''in_progress'', ''blocked'', ''done'', ''skipped'']"

definition VALID_EVIDENCE_KINDS :: "string list" where
  "VALID_EVIDENCE_KINDS = [''test'', ''lint'', ''build'', ''manual'', ''review'', ''deploy'', ''worker'']"

definition UTIL_KNOWN_RUNNERS :: "string list" where
  "UTIL_KNOWN_RUNNERS = [''codex'', ''pi'', ''agy'', ''gemini'', ''claude'']"

subsection \<open>Helpers on JSON values\<close>

definition single_line :: "string \<Rightarrow> string" where
  "single_line v = join_str '' '' (split_whitespace v)"

definition json_array :: "json \<Rightarrow> json list" where
  "json_array v = opt_get_or [] (as_array v)"

text \<open>A value that is forced to be an array or an object before it is changed.\<close>

definition json_object_mut :: "json \<Rightarrow> json_map" where
  "json_object_mut v = opt_get_or [] (as_object v)"

definition json_push :: "json \<Rightarrow> json \<Rightarrow> json" where
  "json_push x v = JArr (json_array v @ [x])"

definition append_to_object_array :: "json \<Rightarrow> string \<Rightarrow> json \<Rightarrow> json" where
  "append_to_object_array obj key v =
     (let m = json_object_mut obj
      in JObj (bt_insert key (json_push v (opt_get_or (JArr []) (bt_get m key))) m))"

definition json_collection_is_empty :: "json \<Rightarrow> bool" where
  "json_collection_is_empty v \<longleftrightarrow> as_array v = Some [] \<or> as_object v = Some []"

definition json_u64 :: "json option \<Rightarrow> u64 option" where
  "json_u64 v = (case v of Some (JInt n) \<Rightarrow> as_u64 (JInt n) | _ \<Rightarrow> None)"

definition json_f64 :: "json option \<Rightarrow> f64 option" where
  "json_f64 v = (case v of Some (JInt n) \<Rightarrow> as_f64 (JInt n) | Some (JFloat f) \<Rightarrow> Some f | _ \<Rightarrow> None)"

subsection \<open>Merging concurrent writers\<close>

text \<open>The index of each key; a later item takes the place of an earlier one.\<close>

definition key_positions :: "('a \<Rightarrow> string) \<Rightarrow> 'a list \<Rightarrow> (string, nat) btree" where
  "key_positions key xs = foldl (\<lambda>m (i, x). bt_insert (key x) i m) [] (enumerate 0 xs)"

definition merge_step ::
    "('a \<Rightarrow> string) \<Rightarrow> 'a list \<times> (string, nat) btree \<Rightarrow> 'a \<Rightarrow> 'a list \<times> (string, nat) btree" where
  "merge_step key s x =
     (case bt_get (snd s) (key x) of
        Some i \<Rightarrow> ((fst s)[i := x], snd s)
      | None \<Rightarrow> (fst s @ [x], bt_insert (key x) (length (fst s)) (snd s)))"

definition merge_stable_by_key :: "('a \<Rightarrow> string) \<Rightarrow> 'a list \<Rightarrow> 'a list \<Rightarrow> 'a list" where
  "merge_stable_by_key key current next =
     fst (foldl (merge_step key) (current, key_positions key current) next)"

definition merge_json_array_by_key :: "(json \<Rightarrow> string) \<Rightarrow> json \<Rightarrow> json \<Rightarrow> json" where
  "merge_json_array_by_key key current next =
     (case (as_array current, as_array next) of
        (Some c, Some n) \<Rightarrow> JArr (merge_stable_by_key key c n)
      | _ \<Rightarrow> if json_collection_is_empty next \<and> \<not> json_collection_is_empty current
            then current else next)"

definition json_field_key :: "(json \<Rightarrow> string) \<Rightarrow> json \<Rightarrow> string \<Rightarrow> string option" where
  "json_field_key show v field =
     map_option (\<lambda>x. (field @ '':'' @ (show x))) (opt_filter (\<lambda>x. \<not> is_null x) (jget v field))"

definition json_id_key :: "(json \<Rightarrow> string) \<Rightarrow> json \<Rightarrow> string" where
  "json_id_key show v = opt_get_or (show v) (json_field_key show v ''id'')"

definition decision_escalate_key :: "(json \<Rightarrow> string) \<Rightarrow> json \<Rightarrow> string" where
  "decision_escalate_key show v =
     opt_get_or (show v) (opt_or (json_field_key show v ''id'') (json_field_key show v ''key''))"

definition phase_transition_key :: "(json \<Rightarrow> string) \<Rightarrow> json \<Rightarrow> string" where
  "phase_transition_key show v =
     (case opt_mapM (\<lambda>f. opt_filter (\<lambda>x. \<not> is_null x) (jget v f)) [''from'', ''to'', ''at'', ''head''] of
        Some parts \<Rightarrow> join_str ''|'' (map show parts)
      | None \<Rightarrow> show v)"

definition agent_run_key :: "(json \<Rightarrow> string) \<Rightarrow> json \<Rightarrow> string" where
  "agent_run_key show v =
     (case (jget_str v ''job_id'', jget v ''attempts'') of
        (Some job, Some attempts) \<Rightarrow> (job @ ''#'' @ (show attempts))
      | _ \<Rightarrow> show v)"

definition merge_run_entry ::
    "(json \<Rightarrow> string) \<Rightarrow> json_map \<Rightarrow> string \<times> json \<Rightarrow> json_map" where
  "merge_run_entry show merged kv =
     (case kv of (k, entries) \<Rightarrow>
        bt_insert k (case bt_get merged k of
                       Some cur \<Rightarrow> merge_json_array_by_key (agent_run_key show) cur entries
                     | None \<Rightarrow> entries) merged)"

definition merge_agent_runs :: "(json \<Rightarrow> string) \<Rightarrow> json \<Rightarrow> json \<Rightarrow> json" where
  "merge_agent_runs show current next =
     (case (as_object current, as_object next) of
        (Some c, Some n) \<Rightarrow> JObj (foldl (merge_run_entry show) c n)
      | _ \<Rightarrow> merge_json_array_by_key (agent_run_key show) current next)"

definition merge_concurrent_state :: "(json \<Rightarrow> string) \<Rightarrow> lto_state \<Rightarrow> lto_state \<Rightarrow> lto_state" where
  "merge_concurrent_state show cur next =
     next\<lparr>
       st_dispatch_windows :=
         merge_stable_by_key wi_window_id (st_dispatch_windows cur) (st_dispatch_windows next),
       st_risk_points :=
         merge_json_array_by_key (json_id_key show) (st_risk_points cur) (st_risk_points next),
       st_phase_transitions :=
         merge_json_array_by_key (phase_transition_key show) (st_phase_transitions cur)
           (st_phase_transitions next),
       st_user_decisions :=
         merge_json_array_by_key (json_id_key show) (st_user_decisions cur) (st_user_decisions next),
       st_decision_escalate_points :=
         merge_json_array_by_key (decision_escalate_key show) (st_decision_escalate_points cur)
           (st_decision_escalate_points next),
       st_agent_runs := merge_agent_runs show (st_agent_runs cur) (st_agent_runs next),
       st_notify_cmd := opt_or (st_notify_cmd next) (st_notify_cmd cur),
       st_goal := st_goal cur, st_why := st_why cur, st_done_when := st_done_when cur,
       st_host_runtime := st_host_runtime cur, st_delivery_contract := st_delivery_contract cur \<rparr>"

text \<open>
  The state file: \<open>None\<close> when it does not exist. Each save happens under the run's exclusive lock;
  it writes the merged state over the state that is on disk.
\<close>

definition save_state_preserving_c2 ::
    "(json \<Rightarrow> string) \<Rightarrow> string \<Rightarrow> string \<Rightarrow> lto_state option \<Rightarrow> lto_state \<Rightarrow> string + lto_state" where
  "save_state_preserving_c2 show path run_id disk next =
     (case disk of
        None \<Rightarrow> Inl (''no state.json for '' @ run_id @ '': '' @ path)
      | Some cur \<Rightarrow> Inr (merge_concurrent_state show cur next))"

definition resolve_run_id :: "string \<Rightarrow> string + string \<Rightarrow> string option \<Rightarrow> string + string" where
  "resolve_run_id current_path current run_id =
     (case run_id of
        Some r \<Rightarrow> validate_run_id r
      | None \<Rightarrow>
          (case current of
             Inl _ \<Rightarrow> Inl (''missing --run-id and '' @ current_path)
           | Inr text \<Rightarrow>
               if trim text = [] then Inl (''missing --run-id and empty '' @ current_path)
               else validate_run_id (trim text)))"

subsection \<open>Risks and statuses\<close>

definition risk_text :: "json \<Rightarrow> string \<Rightarrow> string option" where
  "risk_text risk field = map_option trim (jget_str risk field)"

definition risk_is_open :: "json \<Rightarrow> bool" where
  "risk_is_open risk =
     (case opt_filter (\<lambda>t. t \<noteq> []) (risk_text risk ''disposition'') of
        Some d \<Rightarrow> eq_ignore_ascii_case d ''open''
      | None \<Rightarrow> opt_all (\<lambda>s. eq_ignore_ascii_case s ''open'') (risk_text risk ''status''))"

definition risk_is_verified :: "json \<Rightarrow> bool" where
  "risk_is_verified risk \<longleftrightarrow>
     opt_all (\<lambda>d. eq_ignore_ascii_case d ''verified'') (risk_text risk ''disposition'')
     \<or> opt_all (\<lambda>v. opt_all (\<lambda>t. trim t \<noteq> []) (as_str v) \<or> as_bool v = Some True)
         (jget risk ''verified_by'')"

definition risk_is_open_unverified :: "json \<Rightarrow> bool" where
  "risk_is_open_unverified risk \<longleftrightarrow> risk_is_open risk \<and> \<not> risk_is_verified risk"

definition status_str :: "agent_result \<Rightarrow> string" where
  "status_str r = job_status_str (ar_status r)"

definition parse_status :: "string \<Rightarrow> string + job_status" where
  "parse_status v =
     (if v = ''pending'' then Inr Pending
      else if v = ''running'' then Inr Running
      else if v = ''ok'' \<or> v = ''returned'' then Inr JobOk
      else if v = ''failed'' then Inr JobFailed
      else if v = ''timeout'' then Inr JobTimeout
      else if v = ''rate_limited'' then Inr RateLimited
      else if v = ''quota_exhausted'' then Inr QuotaExhausted
      else if v = ''skipped'' then Inr Skipped
      else Inl (''invalid job status: '' @ (str_debug v) @ ''; expected one of: '' @ (join_str '', '' JOB_STATUS_INPUT_VALUES)))"

subsection \<open>Token totals\<close>

record runner_rollup =
  rr_tokens :: u64
  rr_runs_with_tokens :: u64
  rr_runs_total :: u64

record token_rollup =
  tr_total_tokens :: u64
  tr_tokens_in :: u64
  tr_tokens_out :: u64
  tr_runs_with_tokens :: u64
  tr_runs_total :: u64
  tr_total_elapsed_sec :: f64
  tr_by_runner :: "(string, runner_rollup) btree"

definition empty_rollup :: token_rollup where
  "empty_rollup = \<lparr> tr_total_tokens = 0, tr_tokens_in = 0, tr_tokens_out = 0,
     tr_runs_with_tokens = 0, tr_runs_total = 0, tr_total_elapsed_sec = Fin 0, tr_by_runner = [] \<rparr>"

definition cost_u64 :: "agent_result \<Rightarrow> string \<Rightarrow> u64" where
  "cost_u64 r k = opt_get_or 0 (json_u64 (bt_get (ar_cost r) k))"

definition result_tokens :: "agent_result \<Rightarrow> u64" where
  "result_tokens r =
     (let ti = cost_u64 r ''tokens_in''; to = cost_u64 r ''tokens_out''; t = cost_u64 r ''tokens'' in
      if t = 0 \<and> (0 < ti \<or> 0 < to) then sat_add ti to else t)"

definition add_elapsed :: "agent_result \<Rightarrow> f64 \<Rightarrow> f64" where
  "add_elapsed r x =
     (case json_f64 (bt_get (ar_cost r) ''elapsed_sec'') of
        Some e \<Rightarrow> if f_le (Fin 0) e then f_add x e else x
      | None \<Rightarrow> x)"

definition roll_runner :: "u64 \<Rightarrow> runner_rollup \<Rightarrow> runner_rollup" where
  "roll_runner tokens slot =
     (let s = slot\<lparr>rr_runs_total := rr_runs_total slot + 1\<rparr> in
      if 0 < tokens
      then s\<lparr> rr_tokens := sat_add (rr_tokens s) tokens,
              rr_runs_with_tokens := rr_runs_with_tokens s + 1 \<rparr>
      else s)"

definition empty_runner_rollup :: runner_rollup where
  "empty_runner_rollup = \<lparr> rr_tokens = 0, rr_runs_with_tokens = 0, rr_runs_total = 0 \<rparr>"

definition roll_result :: "token_rollup \<Rightarrow> agent_result \<Rightarrow> token_rollup" where
  "roll_result out r =
     (let tokens = result_tokens r;
          out1 = out\<lparr> tr_runs_total := tr_runs_total out + 1,
            tr_total_elapsed_sec := add_elapsed r (tr_total_elapsed_sec out),
            tr_by_runner := bt_insert (ar_runner r)
              (roll_runner tokens (opt_get_or empty_runner_rollup (bt_get (tr_by_runner out) (ar_runner r))))
              (tr_by_runner out) \<rparr>
      in if 0 < tokens
         then out1\<lparr> tr_total_tokens := sat_add (tr_total_tokens out) tokens,
                    tr_tokens_in := sat_add (tr_tokens_in out) (cost_u64 r ''tokens_in''),
                    tr_tokens_out := sat_add (tr_tokens_out out) (cost_u64 r ''tokens_out''),
                    tr_runs_with_tokens := tr_runs_with_tokens out + 1 \<rparr>
         else out1)"

definition token_rollup_of :: "(json \<Rightarrow> agent_result option) \<Rightarrow> lto_state \<Rightarrow> token_rollup" where
  "token_rollup_of rd st =
     foldl roll_result empty_rollup (agent_results_from_agent_runs rd (st_agent_runs st))"

definition append_agent_result ::
    "(agent_result \<Rightarrow> json) \<Rightarrow> string option \<Rightarrow> json_map \<Rightarrow> agent_result \<Rightarrow> json_map" where
  "append_agent_result wr task_key runs r =
     (let key = opt_get_or (ar_job_id r) task_key
      in bt_insert key (json_push (wr r) (opt_get_or (JArr []) (bt_get runs key))) runs)"

definition append_agent_results_to_state ::
    "(agent_result \<Rightarrow> json) \<Rightarrow> lto_state \<Rightarrow> string option \<Rightarrow> agent_result list \<Rightarrow> lto_state" where
  "append_agent_results_to_state wr st task_key results =
     st\<lparr> st_agent_runs :=
           JObj (foldl (append_agent_result wr task_key) (json_object_mut (st_agent_runs st)) results) \<rparr>"

definition append_phase_transition ::
    "string \<Rightarrow> lto_state \<Rightarrow> string \<Rightarrow> string \<Rightarrow> string \<Rightarrow> lto_state" where
  "append_phase_transition now st from to head =
     st\<lparr> st_phase_transitions :=
           json_push (jobj [(''from'', JStr from), (''to'', JStr to), (''at'', JStr now), (''head'', JStr head)])
             (st_phase_transitions st),
         st_current_phase := to \<rparr>"

subsection \<open>The merge by key\<close>

text \<open>The last item with a key is the one that counts.\<close>

definition last_by :: "('a \<Rightarrow> string) \<Rightarrow> string \<Rightarrow> 'a list \<Rightarrow> 'a option" where
  "last_by key k xs = find (\<lambda>x. key x = k) (rev xs)"

lemma last_by_Nil [simp]: "last_by key k [] = None"
  by (simp add: last_by_def)

lemma last_by_snoc [simp]: "last_by key k (xs @ [x]) = (if key x = k then Some x else last_by key k xs)"
  by (simp add: last_by_def)

lemma last_by_None: "last_by key k xs = None \<longleftrightarrow> k \<notin> key ` set xs"
  by (auto simp: last_by_def find_None_iff)

lemma last_by_SomeD: "last_by key k xs = Some x \<Longrightarrow> x \<in> set xs \<and> key x = k"
  by (auto simp: last_by_def find_Some_iff rev_nth)

lemma last_by_distinct: "distinct (map key xs) \<Longrightarrow> x \<in> set xs \<Longrightarrow> last_by key (key x) xs = Some x"
proof (induction xs rule: rev_induct)
  case (snoc y ys)
  then show ?case by (auto simp: image_iff)
qed simp

lemma last_by_update:
  assumes "i < length xs" "key (xs ! i) = key x" "\<And>j. i < j \<Longrightarrow> j < length xs \<Longrightarrow> key (xs ! j) \<noteq> key x"
  shows "last_by key k (xs[i := x]) = (if key x = k then Some x else last_by key k xs)"
  using assms
proof (induction xs rule: rev_induct)
  case (snoc y ys)
  show ?case
  proof (cases "i = length ys")
    case True
    with snoc.prems show ?thesis by (auto simp: list_update_append)
  next
    case False
    with snoc.prems(1) have i: "i < length ys" by simp
    have y: "key y \<noteq> key x" using snoc.prems(3) [of "length ys"] i by simp
    have "last_by key k (ys[i := x]) = (if key x = k then Some x else last_by key k ys)"
      using snoc.prems(2) i snoc.prems(3)
      by (intro snoc.IH) (auto simp: nth_append split: if_splits, metis less_SucI)
    with y i show ?thesis by (auto simp: list_update_append1)
  qed
qed simp

text \<open>What a merge of stored and new items promises, whatever the items are.\<close>

locale keyed_merge =
  fixes key :: "'a \<Rightarrow> string" and merge :: "'a list \<Rightarrow> 'a list \<Rightarrow> 'a list"
  assumes lookup: "last_by key k (merge cur nxt) = opt_or (last_by key k nxt) (last_by key k cur)"
    and order: "\<exists>new. map key (merge cur nxt) = map key cur @ new \<and> distinct new
                  \<and> set new = key ` set nxt - key ` set cur"
    and members: "set (merge cur nxt) \<subseteq> set cur \<union> set nxt"
begin

lemma distinct_keys: "distinct (map key cur) \<Longrightarrow> distinct (map key (merge cur nxt))"
  using order [of cur nxt] by auto

lemma present: "last_by key k (merge cur nxt) = Some x \<Longrightarrow> x \<in> set (merge cur nxt)"
  by (drule last_by_SomeD) simp

lemma next_wins:
  assumes "distinct (map key nxt)" "x \<in> set nxt"
  shows "x \<in> set (merge cur nxt)"
  using present [of "key x"] lookup [of "key x" cur nxt] last_by_distinct [OF assms] by simp

lemma current_kept:
  assumes "distinct (map key cur)" "x \<in> set cur" "key x \<notin> key ` set nxt"
  shows "x \<in> set (merge cur nxt)"
  using present [of "key x"] lookup [of "key x" cur nxt] last_by_distinct [OF assms(1,2)] assms(3)
  by (simp add: last_by_None [THEN iffD2])

lemma idem:
  assumes "distinct (map key cur)"
  shows "merge (merge cur nxt) nxt = merge cur nxt"
proof -
  let ?m = "merge cur nxt"
  from order [of cur nxt] obtain new where "map key ?m = map key cur @ new"
    "set new = key ` set nxt - key ` set cur" by blast
  then have ks: "key ` set nxt \<subseteq> key ` set ?m" by (auto simp flip: set_map)
  from order [of ?m nxt] obtain new' where "map key (merge ?m nxt) = map key ?m @ new'"
    "set new' = key ` set nxt - key ` set ?m" by blast
  with ks have "map key (merge ?m nxt) = map key ?m @ new'" "set new' = {}" by auto
  then have k: "map key (merge ?m nxt) = map key ?m" by simp
  have d: "distinct (map key ?m)" by (rule distinct_keys [OF assms])
  show ?thesis
  proof (rule nth_equalityI)
    show len: "length (merge ?m nxt) = length ?m" using k by (metis length_map)
    fix i assume i: "i < length (merge ?m nxt)"
    have ki: "key (merge ?m nxt ! i) = key (?m ! i)" using k i len by (metis nth_map)
    have "Some (merge ?m nxt ! i) = last_by key (key (?m ! i)) (merge ?m nxt)"
      using last_by_distinct [of key "merge ?m nxt" "merge ?m nxt ! i"] d k i ki by simp
    also have "\<dots> = last_by key (key (?m ! i)) ?m"
      by (cases "last_by key (key (?m ! i)) nxt") (simp_all add: lookup)
    also have "\<dots> = Some (?m ! i)"
      using last_by_distinct [OF d] i len by simp
    finally show "merge ?m nxt ! i = ?m ! i" by simp
  qed
qed

text \<open>Two writers that changed different keys do not undo each other, in either order.\<close>

lemma writers_commute:
  assumes "key ` set a \<inter> key ` set b = {}"
  shows "last_by key k (merge (merge cur a) b) = last_by key k (merge (merge cur b) a)"
proof (cases "k \<in> key ` set a")
  case True
  with assms have "last_by key k b = None" by (auto simp: last_by_None)
  then show ?thesis by (simp add: lookup)
next
  case False
  then have "last_by key k a = None" by (simp add: last_by_None)
  then show ?thesis by (simp add: lookup)
qed

end

text \<open>The positions of the code's merge point at the last item of each key.\<close>

definition positions_ok :: "('a \<Rightarrow> string) \<Rightarrow> 'a list \<times> (string, nat) btree \<Rightarrow> bool" where
  "positions_ok key s \<longleftrightarrow>
     (\<forall>k. bt_get (snd s) k = None \<longrightarrow> k \<notin> key ` set (fst s))
     \<and> (\<forall>k i. bt_get (snd s) k = Some i \<longrightarrow> i < length (fst s) \<and> key (fst s ! i) = k
          \<and> (\<forall>j>i. j < length (fst s) \<longrightarrow> key (fst s ! j) \<noteq> k))"

lemma positions_okI:
  "(\<And>k. bt_get p k = None \<Longrightarrow> k \<notin> key ` set xs) \<Longrightarrow>
   (\<And>k i. bt_get p k = Some i \<Longrightarrow> i < length xs \<and> key (xs ! i) = k
      \<and> (\<forall>j>i. j < length xs \<longrightarrow> key (xs ! j) \<noteq> k)) \<Longrightarrow> positions_ok key (xs, p)"
  unfolding positions_ok_def by simp

lemma positions_okD:
  assumes "positions_ok key s"
  shows "bt_get (snd s) k = None \<Longrightarrow> k \<notin> key ` set (fst s)"
    and "bt_get (snd s) k = Some i \<Longrightarrow> i < length (fst s) \<and> key (fst s ! i) = k
           \<and> (\<forall>j>i. j < length (fst s) \<longrightarrow> key (fst s ! j) \<noteq> k)"
  using assms unfolding positions_ok_def by blast+

lemma positions_snoc:
  assumes ok: "positions_ok key (xs, p)"
  shows "positions_ok key (xs @ [x], bt_insert (key x) (length xs) p)"
proof (rule positions_okI)
  fix k assume "bt_get (bt_insert (key x) (length xs) p) k = None"
  then have "key x \<noteq> k" "bt_get p k = None" by (auto simp: bt_get_insert split: if_splits)
  with positions_okD(1) [OF ok, of k] show "k \<notin> key ` set (xs @ [x])" by simp
next
  fix k i assume g: "bt_get (bt_insert (key x) (length xs) p) k = Some i"
  show "i < length (xs @ [x]) \<and> key ((xs @ [x]) ! i) = k
      \<and> (\<forall>j>i. j < length (xs @ [x]) \<longrightarrow> key ((xs @ [x]) ! j) \<noteq> k)"
  proof (cases "k = key x")
    case True
    with g have "i = length xs" by simp
    with True show ?thesis by simp
  next
    case False
    with g have "bt_get p k = Some i" by simp
    from positions_okD(2) [OF ok, of k i] this False show ?thesis
      by (auto simp: nth_append less_Suc_eq)
  qed
qed

lemma key_positions_snoc:
  "key_positions key (xs @ [x]) = bt_insert (key x) (length xs) (key_positions key xs)"
  by (simp add: key_positions_def enumerate_append_eq)

lemma key_positions_ok: "positions_ok key (xs, key_positions key xs)"
proof (induction xs rule: rev_induct)
  case Nil
  show ?case by (simp add: positions_ok_def key_positions_def)
next
  case (snoc x xs)
  then show ?case unfolding key_positions_snoc by (rule positions_snoc)
qed

lemma merge_step_props:
  assumes ok: "positions_ok key s"
  shows "positions_ok key (merge_step key s x)"
    and "last_by key k (fst (merge_step key s x)) = (if key x = k then Some x else last_by key k (fst s))"
    and "map key (fst (merge_step key s x))
           = map key (fst s) @ (if key x \<in> key ` set (fst s) then [] else [key x])"
    and "set (fst (merge_step key s x)) \<subseteq> insert x (set (fst s))"
proof -
  obtain xs p where s: "s = (xs, p)" by (cases s)
  have "positions_ok key (merge_step key s x)
    \<and> last_by key k (fst (merge_step key s x)) = (if key x = k then Some x else last_by key k (fst s))
    \<and> map key (fst (merge_step key s x))
        = map key (fst s) @ (if key x \<in> key ` set (fst s) then [] else [key x])
    \<and> set (fst (merge_step key s x)) \<subseteq> insert x (set (fst s))"
  proof (cases "bt_get p (key x)")
    case None
    with positions_okD(1) [OF ok, of "key x"] s have "key x \<notin> key ` set xs" by simp
    with None ok s positions_snoc [of key xs p x] show ?thesis by (auto simp: merge_step_def)
  next
    case (Some i)
    with positions_okD(2) [OF ok, of "key x" i] s
    have i: "i < length xs" "key (xs ! i) = key x" "\<And>j. i < j \<Longrightarrow> j < length xs \<Longrightarrow> key (xs ! j) \<noteq> key x"
      by auto
    have m: "map key (xs[i := x]) = map key xs"
      using i(1,2) by (metis list_update_id map_update)
    then have "key (xs[i := x] ! j) = key (xs ! j)" if "j < length xs" for j
      using that by (metis length_list_update nth_map)
    moreover have "key ` set (xs[i := x]) = key ` set xs"
      using m by (metis set_map)
    ultimately have "positions_ok key (xs[i := x], p)"
      using positions_okD [OF ok] s by (intro positions_okI) auto
    moreover have "key x \<in> key ` set xs" using i(1,2) by (metis image_eqI nth_mem)
    ultimately show ?thesis
      using Some s i m last_by_update [OF i] set_update_subset_insert [of xs i x]
      by (simp add: merge_step_def)
  qed
  then show "positions_ok key (merge_step key s x)"
    "last_by key k (fst (merge_step key s x)) = (if key x = k then Some x else last_by key k (fst s))"
    "map key (fst (merge_step key s x))
       = map key (fst s) @ (if key x \<in> key ` set (fst s) then [] else [key x])"
    "set (fst (merge_step key s x)) \<subseteq> insert x (set (fst s))" by auto
qed

lemma merge_fold:
  assumes "positions_ok key s"
  shows "positions_ok key (foldl (merge_step key) s nxt)
    \<and> last_by key k (fst (foldl (merge_step key) s nxt)) = opt_or (last_by key k nxt) (last_by key k (fst s))
    \<and> (\<exists>new. map key (fst (foldl (merge_step key) s nxt)) = map key (fst s) @ new \<and> distinct new
          \<and> set new = key ` set nxt - key ` set (fst s))
    \<and> set (fst (foldl (merge_step key) s nxt)) \<subseteq> set (fst s) \<union> set nxt"
proof (induction nxt rule: rev_induct)
  case Nil
  show ?case by (simp add: assms)
next
  case (snoc x nxt)
  let ?t = "foldl (merge_step key) s nxt"
  from snoc obtain new where ok: "positions_ok key ?t"
    and new: "map key (fst ?t) = map key (fst s) @ new" "distinct new"
      "set new = key ` set nxt - key ` set (fst s)" by blast
  note step = merge_step_props [OF ok]
  have keys: "key ` set (fst ?t) = key ` set (fst s) \<union> key ` set nxt"
    using new by (metis Un_Diff_cancel set_append set_map)
  let ?new = "new @ (if key x \<in> key ` set (fst ?t) then [] else [key x])"
  have "map key (fst (merge_step key ?t x)) = map key (fst s) @ ?new"
    using step(3) new(1) by simp
  moreover have "distinct ?new" using new(2,3) keys by auto
  moreover have "set ?new = key ` set (nxt @ [x]) - key ` set (fst s)"
    using new(3) keys by auto
  moreover have "set (fst (merge_step key ?t x)) \<subseteq> set (fst s) \<union> set (nxt @ [x])"
    using step(4) snoc by auto
  ultimately show ?case using step(1,2) snoc by auto
qed

interpretation stable: keyed_merge key "merge_stable_by_key key" for key
proof
  fix k cur nxt
  note f = merge_fold [OF key_positions_ok [of key cur], of nxt k, folded merge_stable_by_key_def, unfolded fst_conv]
  show "last_by key k (merge_stable_by_key key cur nxt) = opt_or (last_by key k nxt) (last_by key k cur)"
    "\<exists>new. map key (merge_stable_by_key key cur nxt) = map key cur @ new \<and> distinct new
       \<and> set new = key ` set nxt - key ` set cur"
    "set (merge_stable_by_key key cur nxt) \<subseteq> set cur \<union> set nxt" using f by blast+
qed

subsection \<open>Saving\<close>

lemma saved_fields:
  "st_dispatch_windows (merge_concurrent_state show cur next)
     = merge_stable_by_key wi_window_id (st_dispatch_windows cur) (st_dispatch_windows next)"
  "st_delivery_contract (merge_concurrent_state show cur next) = st_delivery_contract cur"
  "st_tasks (merge_concurrent_state show cur next) = st_tasks next"
  by (simp_all add: merge_concurrent_state_def)

text \<open>
  C13: Two writers that loaded the run's state and save one after the other do not lose each other's
  dispatch windows: all of the second writer's are stored, and those of the first with other ids;
  ids stay distinct. The delivery contract on disk is kept, and the task list is the last writer's.
\<close>

theorem concurrent_saves_keep_windows:
  assumes "save_state_preserving_c2 show p r (Some base) a = Inr s1"
    and "save_state_preserving_c2 show p r (Some s1) b = Inr s2"
    and "distinct (map wi_window_id (st_dispatch_windows base))"
    and "distinct (map wi_window_id (st_dispatch_windows a))"
    and "distinct (map wi_window_id (st_dispatch_windows b))"
  shows "set (st_dispatch_windows b) \<subseteq> set (st_dispatch_windows s2)
    \<and> (\<forall>w\<in>set (st_dispatch_windows a). wi_window_id w \<notin> wi_window_id ` set (st_dispatch_windows b)
          \<longrightarrow> w \<in> set (st_dispatch_windows s2))
    \<and> distinct (map wi_window_id (st_dispatch_windows s2))
    \<and> st_delivery_contract s2 = st_delivery_contract base
    \<and> st_tasks s2 = st_tasks b"
proof -
  let ?w = "st_dispatch_windows"
  have s: "s1 = merge_concurrent_state show base a" "s2 = merge_concurrent_state show s1 b"
    using assms(1,2) by (simp_all add: save_state_preserving_c2_def)
  have d1: "distinct (map wi_window_id (?w s1))"
    unfolding s saved_fields by (rule stable.distinct_keys [OF assms(3)])
  have w2: "?w s2 = merge_stable_by_key wi_window_id (?w s1) (?w b)" unfolding s(2) saved_fields ..
  have a1: "set (?w a) \<subseteq> set (?w s1)"
    using stable.next_wins [OF assms(4)] unfolding s(1) saved_fields by blast
  have "set (?w b) \<subseteq> set (?w s2)" using stable.next_wins [OF assms(5)] unfolding w2 by blast
  moreover have "w \<in> set (?w s2)" if "w \<in> set (?w a)" "wi_window_id w \<notin> wi_window_id ` set (?w b)" for w
    unfolding w2 using that a1 by (intro stable.current_kept [OF d1]) auto
  moreover have "distinct (map wi_window_id (?w s2))"
    unfolding w2 by (rule stable.distinct_keys [OF d1])
  ultimately show ?thesis by (auto simp: s saved_fields)
qed

lemma parse_status_str: "parse_status (status_str r) = Inr (ar_status r)"
  by (cases "ar_status r") (simp_all add: parse_status_def status_str_def)


definition sample_window :: "string \<Rightarrow> dispatch_window" where
  "sample_window i = \<lparr> wi_window_id = i, wi_target = [], wi_runner = ''codex'', wi_backend = ''tmux'',
     wi_tmux_bin = ''tmux'', wi_cleanup_on_success = True, wi_status = ''running'', wi_created_at = [],
     wi_finished_at = None, wi_retention_reason = None \<rparr>"

lemma concurrent_saves_keep_windows_witness:
  "\<exists>s1 s2. save_state_preserving_c2 (\<lambda>_. []) [] [] (Some (default_state [])) ((default_state [])\<lparr>st_dispatch_windows := [sample_window ''w1'']\<rparr>) = Inr s1
     \<and> save_state_preserving_c2 (\<lambda>_. []) [] [] (Some s1) ((default_state [])\<lparr>st_dispatch_windows := [sample_window ''w2'']\<rparr>) = Inr s2
     \<and> sample_window ''w1'' \<in> set (st_dispatch_windows s2)"
proof -
  let ?a = "(default_state [])\<lparr>st_dispatch_windows := [sample_window ''w1'']\<rparr>"
  let ?b = "(default_state [])\<lparr>st_dispatch_windows := [sample_window ''w2'']\<rparr>"
  obtain s1 where s1: "save_state_preserving_c2 (\<lambda>_. []) [] [] (Some (default_state [])) ?a = Inr s1"
    by (simp add: save_state_preserving_c2_def)
  obtain s2 where s2: "save_state_preserving_c2 (\<lambda>_. []) [] [] (Some s1) ?b = Inr s2"
    by (simp add: save_state_preserving_c2_def)
  have "sample_window ''w1'' \<in> set (st_dispatch_windows s2)"
    using concurrent_saves_keep_windows [OF s1 s2] by (simp add: default_state_def sample_window_def)
  with s1 s2 show ?thesis by blast
qed

end
