(* ===== verification/Lto_Workspace.thy ===== *)
theory Lto_Workspace
  imports Lto_Run_Store
begin

text \<open>
  The workspace side of \<open>src/src/commands/util.rs\<close>: what git says about the repository, the fields
  of \<open>run-state.md\<close> that follow the state, durations and token counts as text, and the artifact
  manifest. Hashes (\<open>sha\<close>) and the file system's answers are arguments.
\<close>

subsection \<open>Git\<close>

record git_status =
  gs_head :: string
  gs_branch :: string
  gs_dirty :: bool

definition git_dirty :: "'w world \<Rightarrow> 'w \<Rightarrow> string \<Rightarrow> bool \<times> 'w" where
  "git_dirty W s repo =
     (case git_stdout W s repo [''status'', ''--porcelain''] of
        (Inr out, s') \<Rightarrow> (trim out \<noteq> [], s')
      | (Inl _, s') \<Rightarrow> (False, s'))"

definition git_head :: "'w world \<Rightarrow> 'w \<Rightarrow> string \<Rightarrow> string \<times> 'w" where
  "git_head W s repo =
     (case git_stdout W s repo [''rev-parse'', ''HEAD''] of
        (Inr h, s') \<Rightarrow> (h, s') | (Inl _, s') \<Rightarrow> (''unknown'', s'))"

definition git_branch :: "'w world \<Rightarrow> 'w \<Rightarrow> string \<Rightarrow> string \<times> 'w" where
  "git_branch W s repo =
     (case git_stdout W s repo [''branch'', ''--show-current''] of
        (Inr b, s') \<Rightarrow> (if b = [] then ''unknown'' else b, s') | (Inl _, s') \<Rightarrow> (''unknown'', s'))"

definition git_status :: "'w world \<Rightarrow> 'w \<Rightarrow> string \<Rightarrow> git_status \<times> 'w" where
  "git_status W s repo =
     (let (head, s1) = git_head W s repo;
          (branch, s2) = git_branch W s1 repo;
          (dirty, s3) = git_dirty W s2 repo
      in (\<lparr> gs_head = head, gs_branch = branch, gs_dirty = dirty \<rparr>, s3))"

text \<open>\<open>str::get(n..)\<close>: the bytes from \<open>n\<close> on, when \<open>n\<close> is a character boundary of the string.\<close>

definition get_from :: "nat \<Rightarrow> string \<Rightarrow> string option" where
  "get_from n s = (if n = length s \<or> (n < length s \<and> \<not> is_cont (s ! n)) then Some (drop n s) else None)"

definition get_to :: "nat \<Rightarrow> string \<Rightarrow> string option" where
  "get_to n s = (if n = length s \<or> (n < length s \<and> \<not> is_cont (s ! n)) then Some (take n s) else None)"

definition porcelain_path :: "string \<Rightarrow> string option" where
  "porcelain_path line =
     opt_filter (\<lambda>p. \<not> prefix ''.lto/'' p) (map_option trim (get_from 3 line))"

definition tracked_line :: "string \<Rightarrow> string option" where
  "tracked_line line =
     (case get_to 2 line of
        None \<Rightarrow> None
      | Some status \<Rightarrow> if prefix ''??'' status then None else porcelain_path line)"

definition untracked_line :: "string \<Rightarrow> string option" where
  "untracked_line line = (if prefix ''??'' line then porcelain_path line else None)"

definition tracked_dirty_paths :: "'w world \<Rightarrow> 'w \<Rightarrow> string \<Rightarrow> string list \<times> 'w" where
  "tracked_dirty_paths W s repo =
     (case git_stdout W s repo [''status'', ''--porcelain''] of
        (Inr out, s') \<Rightarrow> (List.map_filter tracked_line (str_lines out), s')
      | (Inl _, s') \<Rightarrow> ([], s'))"

definition untracked_paths :: "'w world \<Rightarrow> 'w \<Rightarrow> string \<Rightarrow> string list \<times> 'w" where
  "untracked_paths W s repo =
     (case git_stdout W s repo [''status'', ''--porcelain''] of
        (Inr out, s') \<Rightarrow> (List.map_filter untracked_line (str_lines out), s')
      | (Inl _, s') \<Rightarrow> ([], s'))"

definition commit_exists :: "'w world \<Rightarrow> 'w \<Rightarrow> string \<Rightarrow> string \<Rightarrow> bool \<times> 'w" where
  "commit_exists W s repo head =
     (if head = [] \<or> head = ''unknown'' then (False, s)
      else case git W s repo [''cat-file'', ''-e'', head @ ''^{commit}''] of (r, s') \<Rightarrow> (is_ok r, s'))"

definition is_ancestor :: "'w world \<Rightarrow> 'w \<Rightarrow> string \<Rightarrow> string \<Rightarrow> string \<Rightarrow> bool \<times> 'w" where
  "is_ancestor W s repo old new =
     (case git W s repo [''merge-base'', ''--is-ancestor'', old, new] of (r, s') \<Rightarrow> (is_ok r, s'))"

definition head_drift :: "'w world \<Rightarrow> 'w \<Rightarrow> string \<Rightarrow> string \<Rightarrow> string \<Rightarrow> string \<times> 'w" where
  "head_drift W s repo recorded actual =
     (if recorded = [] \<or> recorded = ''unknown'' \<or> actual = [] \<or> actual = ''unknown''
      then (''unreachable'', s)
      else if recorded = actual then (''none'', s)
      else let (known, s1) = commit_exists W s repo recorded in
        if \<not> known then (''unreachable'', s1)
        else let (anc, s2) = is_ancestor W s1 repo recorded actual in
          (if anc then ''forward'' else ''rewrite'', s2))"

definition git_changed_paths :: "'w world \<Rightarrow> 'w \<Rightarrow> string \<Rightarrow> string \<Rightarrow> string \<Rightarrow> string list \<times> 'w" where
  "git_changed_paths W s repo old new =
     (case git_stdout W s repo [''diff'', ''--name-only'', old, new] of
        (Inr out, s') \<Rightarrow> (str_lines out, s') | (Inl _, s') \<Rightarrow> ([], s'))"

definition git_add_plan_commands :: "string \<Rightarrow> string list" where
  "git_add_plan_commands tag =
     [''git add VERSION CHANGELOG.md'', (''git commit -m '' @ [CHR 0x27] @ ''chore(release): '' @ tag @ [CHR 0x27]), (''git tag '' @ tag)]"

subsection \<open>Numbers as text\<close>

definition elapsed_human :: "(string \<Rightarrow> (int \<times> int) option) \<Rightarrow> int \<Rightarrow> string \<Rightarrow> string" where
  "elapsed_human rfc now started =
     (if trim started = [] then [CHR 0xEF, CHR 0xBC, CHR 0x88, CHR 0xE6, CHR 0x97, CHR 0xA0, CHR 0xE5, CHR 0xBC, CHR 0x80, CHR 0xE5, CHR 0xA7, CHR 0x8B, CHR 0xE6, CHR 0x97, CHR 0xB6, CHR 0xE9, CHR 0x97, CHR 0xB4, CHR 0xEF, CHR 0xBC, CHR 0x89]
      else case rfc (z_offset started) of
        None \<Rightarrow> started
      | Some (local_ns, off) \<Rightarrow>
          (let seconds = max 0 (seconds_between now (local_ns - off * 1000000000));
               days = seconds div 86400; hours = seconds mod 86400 div 3600
           in if 0 < days
              then (if 0 < hours then ((show_uint days) @ '' '' @ [CHR 0xE5, CHR 0xA4, CHR 0xA9] @ '' '' @ (show_uint hours) @ '' '' @ [CHR 0xE5, CHR 0xB0, CHR 0x8F, CHR 0xE6, CHR 0x97, CHR 0xB6])
                    else ((show_uint days) @ '' '' @ [CHR 0xE5, CHR 0xA4, CHR 0xA9]))
              else if 0 < hours then ((show_uint hours) @ '' '' @ [CHR 0xE5, CHR 0xB0, CHR 0x8F, CHR 0xE6, CHR 0x97, CHR 0xB6])
              else ((show_uint (seconds mod 3600 div 60)) @ '' '' @ [CHR 0xE5, CHR 0x88, CHR 0x86, CHR 0xE9, CHR 0x92, CHR 0x9F])))"

definition format_duration :: "f64 \<Rightarrow> string" where
  "format_duration seconds =
     (let n = uint (f_to_u64 (f_max seconds (Fin 0))) in
      if n < 60 then ((show_uint n) @ ''s'')
      else if n < 3600 then ((show_uint (n div 60)) @ ''m'' @ (show_uint (n mod 60)) @ ''s'')
      else ((show_uint (n div 3600)) @ ''h'' @ (show_uint (n mod 3600 div 60)) @ ''m''))"

text \<open>One decimal of a non-negative number, a tie to the even digit.\<close>

definition show_fixed1 :: "rat \<Rightarrow> string" where
  "show_fixed1 q =
     (let t = round_even (q * 10) in ((show_uint (t div 10)) @ ''.'' @ (show_uint (t mod 10))))"

definition show_tenths :: "f64 \<Rightarrow> string" where
  "show_tenths f = (case f of Fin q \<Rightarrow> show_fixed1 q | PInf \<Rightarrow> ''inf'' | NInf \<Rightarrow> ''-inf'' | NaN \<Rightarrow> ''NaN'')"

definition format_tokens :: "u64 \<Rightarrow> string" where
  "format_tokens v =
     (if 1000000 \<le> v then ((show_tenths (f_div (f_of_u64 v) (Fin 1000000))) @ ''M'')
      else if 1000 \<le> v then ((show_tenths (f_div (f_of_u64 v) (Fin 1000))) @ ''k'')
      else show_u64 v)"

text \<open>Instants in nanoseconds; the gap between consecutive transitions, in hours.\<close>

definition transition_instants :: "(string \<Rightarrow> (int \<times> int) option) \<Rightarrow> lto_state \<Rightarrow> int list" where
  "transition_instants rfc st =
     List.map_filter (\<lambda>it. case jget_str it ''at'' of
          None \<Rightarrow> None
        | Some t \<Rightarrow> map_option (\<lambda>(l, off). l - off * 1000000000) (rfc (z_offset t)))
       (json_array (st_phase_transitions st))"

definition max_session_gap_hours :: "(string \<Rightarrow> (int \<times> int) option) \<Rightarrow> lto_state \<Rightarrow> f64" where
  "max_session_gap_hours rfc st =
     foldl (\<lambda>g (a, b). f_max g (f_div (f_of_int (seconds_between b a)) (Fin 3600))) (Fin 0)
       (windows2 (transition_instants rfc st))"

subsection \<open>The synchronised Markdown\<close>

definition md_field_line :: "string \<Rightarrow> string \<Rightarrow> string" where
  "md_field_line field v =
     (if single_line v = [] then (''- '' @ field @ '':'') else (''- '' @ field @ '': '' @ (single_line v)))"

definition md_needle :: "string \<Rightarrow> string" where
  "md_needle field = (''- '' @ field @ '':'')"

text \<open>Only the first line of the field is replaced.\<close>

fun replace_first_line :: "string \<Rightarrow> string \<Rightarrow> string list \<Rightarrow> string list" where
  "replace_first_line needle new [] = []"
| "replace_first_line needle new (l # ls) =
     (if prefix needle l then new # ls else l # replace_first_line needle new ls)"

definition join_lines :: "string \<Rightarrow> string list \<Rightarrow> string" where
  "join_lines content ls =
     join_str [CHR 0x0A] ls @ (if suffix [CHR 0x0A] content then [CHR 0x0A] else [])"

definition replace_md_field :: "string \<Rightarrow> string \<Rightarrow> string \<Rightarrow> string" where
  "replace_md_field content field v =
     join_lines content (replace_first_line (md_needle field) (md_field_line field v) (str_lines content))"

text \<open>Blank lines before the heading stay between the new line and the heading.\<close>

fun back_over_blank :: "string list \<Rightarrow> nat \<Rightarrow> nat" where
  "back_over_blank ls 0 = 0"
| "back_over_blank ls (Suc n) = (if trim (ls ! n) = [] then back_over_blank ls n else Suc n)"

definition md_insert_at :: "string \<Rightarrow> string list \<Rightarrow> nat" where
  "md_insert_at heading ls =
     back_over_blank ls (opt_get_or (length ls) (position (\<lambda>l. trim l = heading) ls))"

definition upsert_md_field :: "string \<Rightarrow> string \<Rightarrow> string \<Rightarrow> string \<Rightarrow> string" where
  "upsert_md_field content field v heading =
     (if list_ex (prefix (md_needle field)) (str_lines content)
      then replace_md_field content field v
      else let ls = str_lines content; i = md_insert_at heading ls
        in join_lines content (take i ls @ md_field_line field v # drop i ls))"

definition identity_fields :: "lto_state \<Rightarrow> (string \<times> string) list" where
  "identity_fields st =
     [(''run_id'', st_run_id st), (''feature / goal'', st_goal st), (''why'', st_why st),
      (''done_when'', st_done_when st), (''started_at'', st_started_at st),
      (''host_runtime'', st_host_runtime st), (''repo'', ws_repo_root (st_workspace st)),
      (''initial_user_request'', st_original_user_request st),
      (''current_phase'', st_current_phase st), (''current_git_head'', ws_head (st_workspace st)),
      (''current_branch'', ws_branch (st_workspace st))]"

definition delivery_fields :: "lto_state \<Rightarrow> (string \<times> string) list" where
  "delivery_fields st =
     (let c = st_delivery_contract st in
      [(''delivery_targets'', join_str '' | '' (dc_targets c)),
       (''delivery_constraints'', join_str '' | '' (dc_constraints c)),
       (''delivery_instruments'', join_str '' | '' (dc_instruments c)),
       (''delivery_forced_entropy'', join_str '' | '' (dc_forced_entropy c))])"

definition replace_only_fields :: "lto_state \<Rightarrow> (string \<times> string) list" where
  "replace_only_fields st =
     [(''next_command_or_question'', opt_get_or [] (as_str (st_next_action st))),
      (''blocked_by'', opt_get_or ''none'' (as_str (st_blocked_by st)))]"

definition render_synced_run_state_md :: "string \<Rightarrow> lto_state \<Rightarrow> string" where
  "render_synced_run_state_md content st =
     (let c1 = foldl (\<lambda>c (f, v). upsert_md_field c f v ''## Delivery Contract'') content (identity_fields st);
          c2 = foldl (\<lambda>c (f, v). upsert_md_field c f v ''## Host Preconditions'') c1 (delivery_fields st)
      in foldl (\<lambda>c (f, v). if v \<noteq> [] then replace_md_field c f v else c) c2 (replace_only_fields st))"

definition sync_run_state_md :: "string option \<Rightarrow> lto_state \<Rightarrow> string option" where
  "sync_run_state_md content st = map_option (\<lambda>c. render_synced_run_state_md c st) content"

subsection \<open>Artifacts\<close>

record artifact_meta =
  am_kind :: string
  am_producer :: string
  am_host_runtime :: string
  am_phase :: string
  am_summary :: string
  am_tags :: "string list"

definition artifact_id :: "(string \<Rightarrow> string) \<Rightarrow> string \<Rightarrow> string \<Rightarrow> string" where
  "artifact_id sha kind rel = take 19 ((''af_'' @ (sha ((kind @ ''|'' @ rel)))))"

text \<open>\<open>data\<close> is the content of the file when it exists.\<close>

definition artifact_entry ::
    "(string \<Rightarrow> string) \<Rightarrow> string \<Rightarrow> string \<Rightarrow> string \<Rightarrow> string option \<Rightarrow> artifact_meta \<Rightarrow> json" where
  "artifact_entry sha now run_id rel data meta =
     (let run_rel = opt_get_or rel (strip_prefix ((''.lto/'' @ run_id @ ''/'')) rel);
          entry = jobj [(''id'', JStr (artifact_id sha (am_kind meta) rel)), (''kind'', JStr (am_kind meta)),
            (''relative_path'', JStr rel), (''run_relative_path'', JStr run_rel),
            (''producer'', JStr (am_producer meta)), (''host_runtime'', JStr (am_host_runtime meta)),
            (''runner'', JNull), (''task_id'', JNull), (''job_id'', JNull), (''phase'', JStr (am_phase meta)),
            (''source'', JStr ''registered''), (''volatile'', JBool (am_kind meta = ''changelog'')),
            (''created_at'', JStr now), (''summary'', JStr (single_line (am_summary meta))),
            (''consumed_by'', JArr []), (''tags'', JArr (map JStr (am_tags meta)))]
      in case data of
           Some d \<Rightarrow> if am_kind meta \<noteq> ''changelog''
                    then jset ''sha256'' (JStr (sha d)) (jset ''bytes'' (jnat (length d)) entry) else entry
         | None \<Rightarrow> entry)"

definition new_manifest :: "string \<Rightarrow> string \<Rightarrow> json" where
  "new_manifest now run_id =
     jobj [(''schema_version'', JInt 1), (''run_id'', JStr run_id), (''created_at'', JStr now),
           (''updated_at'', JStr now), (''artifacts'', JArr [])]"

definition put_artifact :: "json \<Rightarrow> json list \<Rightarrow> json list" where
  "put_artifact entry items =
     filter (\<lambda>i. jget_str i ''id'' \<noteq> Some (opt_get_or [] (jget_str entry ''id''))) items @ [entry]"

text \<open>\<open>manifest\<close> is the parsed file, \<open>None\<close> when there is none.\<close>

definition register_artifact ::
    "string \<Rightarrow> string \<Rightarrow> json option \<Rightarrow> json \<Rightarrow> string + json" where
  "register_artifact now run_id manifest entry =
     (let m = opt_get_or (new_manifest now run_id) manifest in
      if \<not> is_object m then Inl ''artifact manifest is not an object''
      else Inr (jset ''updated_at'' (JStr now)
             (jset ''artifacts''
               (JArr (put_artifact entry (json_array (opt_get_or (JArr []) (jget m ''artifacts''))))) m)))"

definition created_key :: "json \<Rightarrow> string" where
  "created_key v = opt_get_or [] (jget_str v ''created_at'')"

definition latest_artifacts :: "json option \<Rightarrow> nat \<Rightarrow> json list" where
  "latest_artifacts manifest limit =
     (case manifest of
        None \<Rightarrow> []
      | Some m \<Rightarrow>
          take limit (sort_by (\<lambda>a b. created_key b \<le> created_key a)
            (opt_get_or [] (jget_with as_array m ''artifacts''))))"

text \<open>A command that runs out of its time is killed and reported as 124; one without an exit code
  as 1.\<close>

definition capture_rc :: "bool \<Rightarrow> int option \<Rightarrow> int" where
  "capture_rc timed_out code = (if timed_out then 124 else opt_get_or 1 code)"

subsection \<open>Dirty paths\<close>

text \<open>
  git's porcelain lines start with two status columns, the first blank for a change that is not
  staged. The output has been trimmed when it is split, so on the first line the columns are cut one
  byte late.
\<close>

lemma trim_modified_line:
  assumes "p \<noteq> []" "\<forall>c\<in>set p. is_graph c"
  shows "trim ('' M '' @ p @ [CHR 0x0A]) = ''M '' @ p"
proof -
  have e: "trim (''M '' @ p) = ''M '' @ p"
    by (rule trim_graph_ends) (use assms in \<open>auto simp: is_graph_def less_eq_char_def\<close>)
  have s: "trim_start (''M '' @ p @ [CHR 0x0A]) = ''M '' @ p @ [CHR 0x0A]"
    using trim_start_graph [of "CHR ''M''" "'' '' @ p @ [CHR 0x0A]"]
    by (simp add: is_graph_def less_eq_char_def)
  have "trim ('' M '' @ p @ [CHR 0x0A]) = trim_end ((''M '' @ p) @ [CHR 0x0A])"
    unfolding trim_def using s by simp
  also have "\<dots> = trim_end (''M '' @ p)" by (rule trim_end_lf)
  also have "\<dots> = ''M '' @ p"
    using e trim_start_graph [of "CHR ''M''" "'' '' @ p"]
    by (simp add: trim_def is_graph_def less_eq_char_def)
  finally show ?thesis .
qed

lemma graph_not_cont: "is_graph c \<Longrightarrow> \<not> is_cont c"
  by (auto simp: is_graph_def is_cont_def less_eq_char_def)

lemma graph_line: "\<forall>c\<in>set p. is_graph c \<Longrightarrow> p \<noteq> [] \<Longrightarrow> str_lines (''M '' @ p) = [''M '' @ p]"
proof -
  assume g: "\<forall>c\<in>set p. is_graph c" and "p \<noteq> []"
  have "CHR 0x0A \<notin> set (''M '' @ p)" using g by (auto simp: is_graph_def less_eq_char_def)
  then show ?thesis by (simp add: str_lines_def split_on_id)
qed

text \<open>
  When the only change is an unstaged modification of a tracked file, the reported path lacks its
  first character.
\<close>

theorem tracked_dirty_path_cut:
  assumes "w_git W s repo [''status'', ''--porcelain'']
      = (Inr \<lparr> co_success = True, co_code = Some 0, co_stdout = '' M '' @ c # p @ [CHR 0x0A], co_stderr = e \<rparr>, s')"
    and "is_graph c" "p \<noteq> []" "\<forall>c\<in>set p. is_graph c" "\<not> prefix ''.lto/'' p"
  shows "tracked_dirty_paths W s repo = ([p], s')"
proof -
  have t: "trim ('' M '' @ c # p @ [CHR 0x0A]) = ''M '' @ c # p"
    using trim_modified_line [of "c # p"] assms(2,4) by simp
  have l: "str_lines (''M '' @ c # p) = [''M '' @ c # p]"
    using graph_line [of "c # p"] assms(2,4) by simp
  obtain d q where p: "p = d # q" using assms(3) by (cases p) auto
  have nd: "\<not> is_cont d" "\<not> is_cont c" using assms(2,4) p graph_not_cont by auto
  have "tracked_line (''M '' @ c # p) = Some p"
    using nd p assms(4,5) trim_graph [of p]
    by (auto simp: tracked_line_def porcelain_path_def get_to_def get_from_def)
  then show ?thesis
    using assms(1) t l by (simp add: tracked_dirty_paths_def git_stdout_def List.map_filter_def)
qed

subsection \<open>The synchronised Markdown\<close>

definition synced :: "string list \<Rightarrow> string \<Rightarrow> string \<Rightarrow> bool" where
  "synced ls field v \<longleftrightarrow> find (prefix (md_needle field)) ls = Some (md_field_line field v)"

definition plain_text :: "string \<Rightarrow> bool" where
  "plain_text s \<longleftrightarrow> CHR 0x0D \<notin> set s"

lemma find_replace_same:
  "list_ex P ls \<Longrightarrow> P new \<Longrightarrow> P = prefix needle \<Longrightarrow> find P (replace_first_line needle new ls) = Some new"
  by (induction ls) auto

lemma find_replace_other:
  assumes "\<not> P new" "\<And>l. prefix needle l \<Longrightarrow> \<not> P l"
  shows "find P (replace_first_line needle new ls) = find P ls"
  using assms by (induction ls) auto

lemma find_insert_other: "\<not> P new \<Longrightarrow> find P (take i ls @ new # drop i ls) = find P ls"
proof -
  assume "\<not> P new"
  then have "find P (xs @ new # ys) = find P (xs @ ys)" for xs ys by (induction xs) auto
  from this [of "take i ls" "drop i ls"] show ?thesis by simp
qed

lemma find_insert_same:
  assumes "\<not> list_ex P ls" "P new"
  shows "find P (take i ls @ new # drop i ls) = Some new"
proof -
  have "find P (xs @ new # ys) = Some new" if "\<not> list_ex P xs" for xs ys
    using that assms(2) by (induction xs) auto
  moreover have "\<not> list_ex P (take i ls)" using assms(1) by (auto simp: list_ex_iff dest: in_set_takeD)
  ultimately show ?thesis by blast
qed

lemma needle_of_line: "prefix (md_needle f) (md_field_line f v)"
  by (simp add: md_needle_def md_field_line_def)

lemma colon_prefix:
  "c \<notin> set f \<Longrightarrow> c \<notin> set g \<Longrightarrow> prefix (f @ [c]) (g @ c # r) \<longleftrightarrow> f = g"
  by (induction f arbitrary: g) (case_tac g; auto)+

lemma needle_other:
  assumes "CHR '':'' \<notin> set f" "CHR '':'' \<notin> set g" "f \<noteq> g"
  shows "\<not> prefix (md_needle f) (md_field_line g v)" "prefix (md_needle f) l \<Longrightarrow> \<not> prefix (md_needle g) l"
proof -
  obtain r where "md_field_line g v = ''- '' @ g @ CHR '':'' # r"
    by (cases "single_line v = []") (auto simp: md_field_line_def)
  then show "\<not> prefix (md_needle f) (md_field_line g v)"
    using colon_prefix [OF assms(1,2), of r] assms(3) by (simp add: md_needle_def)
  show "\<not> prefix (md_needle g) l" if "prefix (md_needle f) l"
  proof
    assume "prefix (md_needle g) l"
    from that obtain r where l: "l = ''- '' @ f @ CHR '':'' # r" by (auto simp: md_needle_def prefix_def)
    with \<open>prefix (md_needle g) l\<close> colon_prefix [OF assms(2,1), of r] assms(3)
    show False by (simp add: md_needle_def)
  qed
qed

lemma single_line_plain: "CHR 0x0A \<notin> set (single_line v) \<and> CHR 0x0D \<notin> set (single_line v)"
proof -
  have w: "[CHR 0x0A] \<in> set ws_seqs" "[CHR 0x0D] \<in> set ws_seqs" by (simp_all add: ws_seqs_def)
  have "c \<notin> set p" if "p \<in> set (split_whitespace v)" "[c] \<in> set ws_seqs" for p c
  proof
    assume "c \<in> set p"
    then have "sublist [c] p" by (metis append_Cons append_Nil split_list sublist_appendI)
    with split_whitespace_free [OF that(1)] that(2) show False by (auto simp: ws_free_def)
  qed
  with w have "CHR 0x0A \<notin> (\<Union>p\<in>set (split_whitespace v). set p)"
    "CHR 0x0D \<notin> (\<Union>p\<in>set (split_whitespace v). set p)" by blast+
  then show ?thesis
    using set_join_str [of "'' ''" "split_whitespace v"] unfolding single_line_def by auto
qed

lemma plain_is_line: "CHR 0x0A \<notin> set l \<Longrightarrow> CHR 0x0D \<notin> set l \<Longrightarrow> is_line l"
  by (auto simp: is_line_def strip_cr_def dest: last_in_set)

text \<open>Field names: no colon and no line break.\<close>

definition field_name :: "string \<Rightarrow> bool" where
  "field_name f \<longleftrightarrow> CHR '':'' \<notin> set f \<and> CHR 0x0A \<notin> set f \<and> CHR 0x0D \<notin> set f"

lemma field_line_plain:
  "field_name f \<Longrightarrow> CHR 0x0A \<notin> set (md_field_line f v) \<and> CHR 0x0D \<notin> set (md_field_line f v)"
  using single_line_plain [of v] by (auto simp: md_field_line_def field_name_def)

lemma lines_last: "s \<noteq> [] \<Longrightarrow> \<not> suffix [CHR 0x0A] s \<Longrightarrow> str_lines s \<noteq> [] \<and> last (str_lines s) \<noteq> []"
proof -
  assume "s \<noteq> []" "\<not> suffix [CHR 0x0A] s"
  then have "last (split_on CHR 0x0A s) \<noteq> []"
    unfolding split_last_Nil by (metis append_butlast_last_id suffixI)
  then show ?thesis by (simp add: str_lines_def Let_def)
qed

lemma lines_of_join_lines:
  assumes "\<forall>l\<in>set ls. is_line l" "ls \<noteq> []" "suffix [CHR 0x0A] c \<or> last ls \<noteq> []"
  shows "str_lines (join_lines c ls) = ls"
proof (cases "suffix [CHR 0x0A] c")
  case True
  then show ?thesis using str_lines_join [OF assms(2,1)] by (simp add: join_lines_def)
next
  case False
  have nolf: "\<forall>l\<in>set ls. CHR 0x0A \<notin> set l" and cr: "\<forall>l\<in>set ls. strip_cr l = l"
    using assms(1) by (auto simp: is_line_def)
  have "map strip_cr (butlast ls) @ [last ls] = ls"
    using cr assms(2) by (metis append_butlast_last_id in_set_butlastD map_idI)
  then show ?thesis
    using split_on_join [OF assms(2) nolf] False assms(2,3)
    by (simp add: join_lines_def str_lines_def)
qed

lemma plain_join_lines: "\<forall>l\<in>set ls. CHR 0x0D \<notin> set l \<Longrightarrow> plain_text (join_lines c ls)"
  using set_join_str [of "[CHR 0x0A]" ls] by (auto simp: join_lines_def plain_text_def)

lemma plain_lines: "plain_text c \<Longrightarrow> l \<in> set (str_lines c) \<Longrightarrow> is_line l \<and> CHR 0x0D \<notin> set l"
proof -
  assume c: "plain_text c" and l: "l \<in> set (str_lines c)"
  have sub: "p \<in> set (split_on x s) \<Longrightarrow> set p \<subseteq> set s" for p x and s :: string
    by (induction s arbitrary: p) (auto split: list.splits if_splits, blast)
  have "set (strip_cr q) \<subseteq> set q" for q by (auto simp: strip_cr_def dest: in_set_butlastD)
  moreover from l obtain p where "p \<in> set (split_on CHR 0x0A c)" "l = p \<or> l = strip_cr p"
    by (auto simp: str_lines_def Let_def dest: in_set_butlastD split: if_splits)
      (metis last_in_set split_on_nonempty)
  ultimately have "set l \<subseteq> set c" using sub by fastforce
  with c str_lines_is_line l show ?thesis by (auto simp: plain_text_def)
qed

text \<open>One field: what both ways of writing it have in common.\<close>

definition put_lines :: "string \<Rightarrow> string \<Rightarrow> string \<Rightarrow> string list \<Rightarrow> string list" where
  "put_lines f v heading ls =
     (if list_ex (prefix (md_needle f)) ls
      then replace_first_line (md_needle f) (md_field_line f v) ls
      else take (md_insert_at heading ls) ls @ md_field_line f v # drop (md_insert_at heading ls) ls)"

lemma upsert_put: "upsert_md_field c f v h = join_lines c (put_lines f v h (str_lines c))"
  by (simp add: upsert_md_field_def replace_md_field_def put_lines_def Let_def)

lemma set_replace_first: "set (replace_first_line n new ls) \<subseteq> insert new (set ls)"
  by (induction ls) auto

lemma replace_first_Nil: "replace_first_line n new ls = [] \<longleftrightarrow> ls = []"
  by (induction ls) auto

lemma last_replace_first:
  "ls \<noteq> [] \<Longrightarrow> last (replace_first_line n new ls) = last ls \<or> last (replace_first_line n new ls) = new"
  by (induction ls) (auto simp: replace_first_Nil)

lemma upsert_lines:
  assumes "plain_text c" "field_name f"
  shows "str_lines (upsert_md_field c f v h) = put_lines f v h (str_lines c)"
    and "plain_text (upsert_md_field c f v h)"
proof -
  let ?ls = "put_lines f v h (str_lines c)"
  have new: "is_line (md_field_line f v)" "CHR 0x0D \<notin> set (md_field_line f v)" "md_field_line f v \<noteq> []"
    using field_line_plain [OF assms(2), of v] plain_is_line by (auto simp: md_field_line_def)
  have sub: "set ?ls \<subseteq> insert (md_field_line f v) (set (str_lines c))"
    using set_replace_first by (auto simp: put_lines_def dest: in_set_takeD in_set_dropD split: if_splits)
  have ne: "?ls \<noteq> []" by (auto simp: put_lines_def replace_first_Nil)
  have "suffix [CHR 0x0A] c \<or> last ?ls \<noteq> []"
  proof (cases "c = [] \<or> suffix [CHR 0x0A] c")
    case True
    then show ?thesis using new(3) by (auto simp: put_lines_def str_lines_def)
  next
    case False
    with lines_last [of c] have l: "str_lines c \<noteq> []" "last (str_lines c) \<noteq> []" by auto
    have "last (take i (str_lines c) @ md_field_line f v # drop i (str_lines c)) \<noteq> []" for i
      using l new(3) by (cases "drop i (str_lines c) = []") (auto simp: last_drop not_le)
    with l new(3) last_replace_first [OF l(1)] show ?thesis
      by (auto simp: put_lines_def) (metis)+
  qed
  with ne sub new plain_lines [OF assms(1)] show "str_lines (upsert_md_field c f v h) = ?ls"
    unfolding upsert_put by (intro lines_of_join_lines) auto
  show "plain_text (upsert_md_field c f v h)"
    unfolding upsert_put using sub new plain_lines [OF assms(1)] by (intro plain_join_lines) auto
qed

lemma upsert_same: "plain_text c \<Longrightarrow> field_name f \<Longrightarrow> synced (str_lines (upsert_md_field c f v h)) f v"
  unfolding synced_def
  using find_replace_same [of "prefix (md_needle f)" "str_lines c" "md_field_line f v" "md_needle f"]
    find_insert_same [of "prefix (md_needle f)" "str_lines c" "md_field_line f v"]
  by (simp add: upsert_lines put_lines_def needle_of_line)

lemma upsert_other:
  assumes "plain_text c" "field_name f" "field_name g" "f \<noteq> g" "synced (str_lines c) g w"
  shows "synced (str_lines (upsert_md_field c f v h)) g w"
proof -
  have o: "\<not> prefix (md_needle g) (md_field_line f v)"
    "\<And>l. prefix (md_needle f) l \<Longrightarrow> \<not> prefix (md_needle g) l"
    using needle_other [of g f v] needle_other(2) [of f g] assms(2,3,4) by (auto simp: field_name_def)
  show ?thesis
    using assms(5) find_replace_other [of "prefix (md_needle g)", OF o]
      find_insert_other [of "prefix (md_needle g)", OF o(1)]
    unfolding synced_def by (simp add: upsert_lines [OF assms(1,2)] put_lines_def)
qed

lemma upsert_fields:
  assumes "plain_text c" "\<forall>(f, v)\<in>set fs. field_name f" "distinct (map fst fs)"
    and "\<forall>(g, w)\<in>set done. field_name g \<and> g \<notin> fst ` set fs \<and> synced (str_lines c) g w"
  shows "let c' = foldl (\<lambda>c (f, v). upsert_md_field c f v h) c fs in
     plain_text c' \<and> (\<forall>(g, w)\<in>set done \<union> set fs. synced (str_lines c') g w)"
  using assms
proof (induction fs arbitrary: c "done")
  case (Cons p fs)
  obtain f v where p: "p = (f, v)" by (cases p)
  let ?c = "upsert_md_field c f v h"
  have f: "field_name f" using Cons.prems(2) p by simp
  have "plain_text ?c" using upsert_lines(2) [OF Cons.prems(1) f] .
  moreover have "\<forall>(g, w)\<in>set ((f, v) # done). field_name g \<and> g \<notin> fst ` set fs \<and> synced (str_lines ?c) g w"
  proof -
    have "field_name g \<and> g \<notin> fst ` set fs \<and> synced (str_lines ?c) g w" if "(g, w) \<in> set done" for g w
      using Cons.prems(4) that p upsert_other [OF Cons.prems(1) f, of g w v h] by auto
    moreover have "f \<notin> fst ` set fs" using Cons.prems(3) p by simp
    ultimately show ?thesis using f upsert_same [OF Cons.prems(1) f, of v h] by auto
  qed
  ultimately have "let c' = foldl (\<lambda>c (f, v). upsert_md_field c f v h) ?c fs in
     plain_text c' \<and> (\<forall>(g, w)\<in>set ((f, v) # done) \<union> set fs. synced (str_lines c') g w)"
    using Cons.prems(2,3) p by (intro Cons.IH) auto
  then show ?case by (auto simp: p Let_def)
qed auto

lemma replace_other:
  assumes "plain_text c" "field_name f" "field_name g" "f \<noteq> g" "synced (str_lines c) g w"
  shows "plain_text (replace_md_field c f v) \<and> synced (str_lines (replace_md_field c f v)) g w"
proof (cases "list_ex (prefix (md_needle f)) (str_lines c)")
  case True
  then have "replace_md_field c f v = upsert_md_field c f v []" by (simp add: upsert_md_field_def)
  with upsert_lines(2) [OF assms(1,2)] upsert_other [OF assms] show ?thesis by simp
next
  case False
  have same: "\<not> list_ex (prefix n) ls \<Longrightarrow> replace_first_line n new ls = ls" for n new ls
    by (induction ls) auto
  have ne: "str_lines c \<noteq> []" using assms(5) by (auto simp: synced_def)
  then have "c \<noteq> []" by (auto simp: str_lines_def)
  with lines_last [of c] have "suffix [CHR 0x0A] c \<or> last (str_lines c) \<noteq> []" by auto
  with ne plain_lines [OF assms(1)] have "str_lines (join_lines c (str_lines c)) = str_lines c"
    by (intro lines_of_join_lines) auto
  moreover have "plain_text (join_lines c (str_lines c))"
    using plain_lines [OF assms(1)] by (intro plain_join_lines) auto
  ultimately show ?thesis using assms(5) by (simp add: replace_md_field_def same [OF False])
qed

lemma replace_fields:
  assumes "plain_text c" "\<forall>(f, v)\<in>set fs. field_name f"
    and "\<forall>(g, w)\<in>set done. field_name g \<and> g \<notin> fst ` set fs \<and> synced (str_lines c) g w"
  shows "\<forall>(g, w)\<in>set done. synced
     (str_lines (foldl (\<lambda>c (f, v). if v \<noteq> [] then replace_md_field c f v else c) c fs)) g w"
  using assms
proof (induction fs arbitrary: c)
  case (Cons p fs)
  obtain f v where p: "p = (f, v)" by (cases p)
  show ?case
  proof (cases "done = [] \<or> v = []")
    case True
    have "\<forall>(g, w)\<in>set done. field_name g \<and> g \<notin> fst ` set fs \<and> synced (str_lines c) g w"
      using Cons.prems(3) by auto
    from Cons.IH [OF Cons.prems(1) _ this] Cons.prems(2) True show ?thesis by (auto simp: p)
  next
    case False
    have f: "field_name f" using Cons.prems(2) p by simp
    have step: "plain_text (replace_md_field c f v) \<and> synced (str_lines (replace_md_field c f v)) g w"
      if "(g, w) \<in> set done" for g w
      using Cons.prems(3) that p by (intro replace_other [OF Cons.prems(1) f]) auto
    with False have "plain_text (replace_md_field c f v)" by (cases "done") auto
    then have "\<forall>(g, w)\<in>set done. synced (str_lines (foldl (\<lambda>c (f, v). if v \<noteq> [] then replace_md_field c f v else c)
        (replace_md_field c f v) fs)) g w"
      using Cons.prems(2,3) step by (intro Cons.IH) auto
    with False show ?thesis by (simp add: p)
  qed
qed auto



definition modified_world :: "unit world" where
  "modified_world = \<lparr> w_git = (\<lambda>s _ _. (Inr \<lparr> co_success = True, co_code = Some 0,
       co_stdout = '' M '' @ ''src/a.rs'' @ [CHR 0x0A], co_stderr = [] \<rparr>, s)),
     w_shell = (\<lambda>s _ _. (Inl [], s)), w_exists = (\<lambda>_ _. True), w_mkdir = (\<lambda>s _. (Inr (), s)) \<rparr>"

lemma tracked_dirty_path_cut_witness:
  "tracked_dirty_paths modified_world () [] = ([''rc/a.rs''], ())"
  by (rule tracked_dirty_path_cut [of _ _ _ "CHR ''s''" "''rc/a.rs''" "[]"])
    (simp_all add: modified_world_def is_graph_def less_eq_char_def)


end
