(* ===== verification/Lto_Task_View.thy ===== *)
theory Lto_Task_View
  imports Lto_Json
begin

text \<open>
  The read-only view of the tasks (\<open>resources/task.rs\<close>): the projection of one element of
  \<open>state.tasks\<close> onto a typed view, the list with its filters, the search by id, the JSON envelopes
  and the printed forms of \<open>get\<close> and \<open>describe\<close>. \<open>serde\<close>'s derived reader and writer are written
  out on JSON values (the fields that are known, their defaults, the rest into \<open>extra\<close>); the text of
  its errors and the compact printing of a JSON value are parameters.
\<close>

record task_view =
  tv_id :: string
  tv_title :: string
  tv_status :: string
  tv_phase :: string
  tv_depends_on :: "json list"
  tv_evidence :: "json list"
  tv_blockers :: "json list"
  tv_last_update :: string
  tv_extra :: json_map
  tv_degraded :: bool
  tv_raw :: "json option"

record schema_warning =
  sw_index :: "nat option"
  sw_id :: "string option"
  sw_message :: string

record task_list =
  tl_items :: "task_view list"
  tl_schema_warnings :: "schema_warning list"

record task_filter =
  tf_status :: "string option"
  tf_phase :: "string option"

definition type_name :: "json \<Rightarrow> string" where
  "type_name v =
     (case v of JNull \<Rightarrow> ''null'' | JBool _ \<Rightarrow> ''bool'' | JInt _ \<Rightarrow> ''number'' | JFloat _ \<Rightarrow> ''number''
      | JStr _ \<Rightarrow> ''string'' | JArr _ \<Rightarrow> ''array'' | JObj _ \<Rightarrow> ''object'')"

definition truncate_text :: "string \<Rightarrow> nat \<Rightarrow> string" where
  "truncate_text s n =
     (if chars_count s \<le> n then s else ((chars_take (n - 1) s) @ [CHR 0xE2, CHR 0x80, CHR 0xA6]))"

definition nonempty :: "string \<Rightarrow> string \<Rightarrow> string" where
  "nonempty value fallback = (if trim value = [] then fallback else value)"

subsection \<open>The projection of one element\<close>

text \<open>\<open>#[serde(default)]\<close> fields: absent gives the default, another type is an error.\<close>

definition str_field :: "json_map \<Rightarrow> string \<Rightarrow> string option" where
  "str_field m k = (case bt_get m k of None \<Rightarrow> Some [] | Some v \<Rightarrow> as_str v)"

definition list_field :: "json_map \<Rightarrow> string \<Rightarrow> json list option" where
  "list_field m k = (case bt_get m k of None \<Rightarrow> Some [] | Some v \<Rightarrow> as_array v)"

definition task_str_keys :: "string list" where
  "task_str_keys = [''id'', ''title'', ''status'', ''phase'', ''last_update'']"

definition task_list_keys :: "string list" where
  "task_list_keys = [''depends_on'', ''evidence'', ''blockers'']"

definition task_keys :: "string list" where
  "task_keys = task_str_keys @ task_list_keys"

definition task_view_of_map :: "json_map \<Rightarrow> task_view option" where
  "task_view_of_map m =
     (case (str_field m ''id'', str_field m ''title'', str_field m ''status'', str_field m ''phase'',
            list_field m ''depends_on'', list_field m ''evidence'', list_field m ''blockers'',
            str_field m ''last_update'') of
        (Some i, Some t, Some s, Some p, Some d, Some e, Some b, Some u) \<Rightarrow>
          Some \<lparr> tv_id = i, tv_title = t, tv_status = s, tv_phase = p, tv_depends_on = d,
                 tv_evidence = e, tv_blockers = b, tv_last_update = u,
                 tv_extra = filter (\<lambda>(k, _). k \<notin> set task_keys) m,
                 tv_degraded = False, tv_raw = None \<rparr>
      | _ \<Rightarrow> None)"

definition index_id :: "nat \<Rightarrow> string" where
  "index_id i = (''<index:'' @ (show_nat i) @ ''>'')"

definition bare_view :: "string \<Rightarrow> json \<Rightarrow> task_view" where
  "bare_view i raw =
     \<lparr> tv_id = i, tv_title = [], tv_status = [], tv_phase = [], tv_depends_on = [], tv_evidence = [],
       tv_blockers = [], tv_last_update = [], tv_extra = [], tv_degraded = True, tv_raw = Some raw \<rparr>"

definition named_id :: "string \<Rightarrow> string option" where
  "named_id i = opt_filter (\<lambda>s. \<not> prefix ''<'' s) (Some i)"

text \<open>The branch of a reading that succeeded.\<close>

definition settle_view :: "nat \<Rightarrow> json \<Rightarrow> task_view \<Rightarrow> task_view \<times> schema_warning option" where
  "settle_view i raw v0 =
     (let v1 = v0\<lparr> tv_raw := Some raw \<rparr>;
          no_id = tv_id v1 = [];
          v2 = (if no_id then v1\<lparr> tv_id := index_id i, tv_degraded := True \<rparr> else v1);
          bad_status =
            (case jget raw ''status'' of None \<Rightarrow> None
             | Some x \<Rightarrow> if as_str x = None \<and> \<not> is_null x
                        then Some (''status is not a string (got '' @ (type_name x) @ '')'') else None);
          v3 = (if bad_status \<noteq> None then v2\<lparr> tv_degraded := True \<rparr> else v2);
          messages = (if no_id then [''missing or empty id''] else [])
            @ (case bad_status of None \<Rightarrow> [] | Some s \<Rightarrow> [s])
      in (v3, if messages = [] then None
              else Some \<lparr> sw_index = Some i, sw_id = named_id (tv_id v3),
                          sw_message = join_str ''; '' messages \<rparr>))"

text \<open>The branch of a reading that failed: what can be salvaged from the raw keys.\<close>

definition salvage_view :: "(json \<Rightarrow> string) \<Rightarrow> nat \<Rightarrow> json \<Rightarrow> task_view \<times> schema_warning option" where
  "salvage_view err i raw =
     (let i' = opt_get_or (index_id i) (jget_str raw ''id'')
      in ((bare_view i' raw)\<lparr> tv_title := opt_get_or [] (jget_str raw ''title''),
            tv_status := opt_get_or [] (jget_str raw ''status''),
            tv_phase := opt_get_or [] (jget_str raw ''phase''),
            tv_extra := opt_get_or [] (as_object raw) \<rparr>,
          Some \<lparr> sw_index = Some i, sw_id = named_id i',
                 sw_message = (''failed to project task: '' @ (err raw)) \<rparr>))"

definition project_one :: "(json \<Rightarrow> string) \<Rightarrow> nat \<Rightarrow> json \<Rightarrow> task_view \<times> schema_warning option" where
  "project_one err i raw =
     (case raw of
        JObj m \<Rightarrow>
          (case task_view_of_map m of
             Some v \<Rightarrow> settle_view i raw v
           | None \<Rightarrow> salvage_view err i raw)
      | _ \<Rightarrow> (bare_view (index_id i) raw,
             Some \<lparr> sw_index = Some i, sw_id = None,
                    sw_message = (''element is not an object (got '' @ (type_name raw) @ '')'') \<rparr>))"

subsection \<open>The list and the search\<close>

definition matches_filter :: "task_view \<Rightarrow> task_filter \<Rightarrow> bool" where
  "matches_filter v f \<longleftrightarrow>
     (case tf_status f of None \<Rightarrow> True | Some s \<Rightarrow> tv_status v = s)
     \<and> (case tf_phase f of None \<Rightarrow> True | Some p \<Rightarrow> tv_phase v = p)"

definition not_array_warning :: "json \<Rightarrow> schema_warning" where
  "not_array_warning tasks =
     \<lparr> sw_index = None, sw_id = None,
       sw_message = (''tasks is not an array (got '' @ (type_name tasks) @ ''); treating as empty'') \<rparr>"

fun project_from :: "(json \<Rightarrow> string) \<Rightarrow> task_filter \<Rightarrow> nat \<Rightarrow> json list \<Rightarrow> task_list" where
  "project_from err f i [] = \<lparr> tl_items = [], tl_schema_warnings = [] \<rparr>"
| "project_from err f i (raw # rest) =
     (let (v, w) = project_one err i raw; l = project_from err f (Suc i) rest
      in \<lparr> tl_items = (if matches_filter v f then [v] else []) @ tl_items l,
           tl_schema_warnings = (case w of None \<Rightarrow> [] | Some x \<Rightarrow> [x]) @ tl_schema_warnings l \<rparr>)"

definition project_tasks :: "(json \<Rightarrow> string) \<Rightarrow> json \<Rightarrow> task_filter \<Rightarrow> task_list" where
  "project_tasks err tasks f =
     (case as_array tasks of
        Some items \<Rightarrow> project_from err f 0 items
      | None \<Rightarrow> \<lparr> tl_items = [], tl_schema_warnings =
                   (if is_null tasks then [] else [not_array_warning tasks]) \<rparr>)"

fun find_from ::
    "(json \<Rightarrow> string) \<Rightarrow> string \<Rightarrow> nat \<Rightarrow> schema_warning list \<Rightarrow> json list
     \<Rightarrow> task_view option \<times> schema_warning list" where
  "find_from err task_id i ws [] = (None, ws)"
| "find_from err task_id i ws (raw # rest) =
     (let (v, w) = project_one err i raw; ws' = ws @ (case w of None \<Rightarrow> [] | Some x \<Rightarrow> [x])
      in if tv_id v = task_id
         then (Some v, filter (\<lambda>x. sw_index x = Some i \<or> sw_index x = None) ws')
         else find_from err task_id (Suc i) ws' rest)"

definition find_task ::
    "(json \<Rightarrow> string) \<Rightarrow> json \<Rightarrow> string \<Rightarrow> task_view option \<times> schema_warning list" where
  "find_task err tasks task_id =
     (case as_array tasks of
        Some items \<Rightarrow> find_from err task_id 0 [] items
      | None \<Rightarrow> (None, if is_null tasks then [] else [not_array_warning tasks]))"

definition available_ids :: "(json \<Rightarrow> string) \<Rightarrow> json \<Rightarrow> nat \<Rightarrow> string list" where
  "available_ids show tasks limit =
     (case as_array tasks of None \<Rightarrow> []
      | Some items \<Rightarrow>
          take limit (List.map_filter (\<lambda>raw. opt_or (jget_str raw ''id'') (map_option show (jget raw ''id''))) items))"

subsection \<open>JSON output\<close>

text \<open>
  The derived writer: the known fields, then the entries of \<open>extra\<close> flattened into the same object,
  so an entry of \<open>extra\<close> with a known name replaces the field.
\<close>

definition view_map :: "task_view \<Rightarrow> (string \<times> json) list" where
  "view_map v =
     [(''id'', JStr (tv_id v)), (''title'', JStr (tv_title v)), (''status'', JStr (tv_status v)),
      (''phase'', JStr (tv_phase v)), (''depends_on'', JArr (tv_depends_on v)),
      (''evidence'', JArr (tv_evidence v)), (''blockers'', JArr (tv_blockers v)),
      (''last_update'', JStr (tv_last_update v))]"

definition view_to_json :: "task_view \<Rightarrow> json" where
  "view_to_json v =
     (let value = jobj (view_map v @ tv_extra v)
      in if tv_degraded v
         then (case tv_raw v of
                 None \<Rightarrow> jset ''degraded'' (JBool True) value
               | Some raw \<Rightarrow> jset ''raw'' raw (jset ''degraded'' (JBool True) value))
         else value)"

definition warning_json :: "schema_warning \<Rightarrow> json" where
  "warning_json w =
     jobj [(''index'', jopt jnat (sw_index w)), (''id'', jopt JStr (sw_id w)), (''message'', JStr (sw_message w))]"

definition SCHEMA_VERSION :: nat where
  "SCHEMA_VERSION = 1"

definition list_envelope :: "task_list \<Rightarrow> json" where
  "list_envelope l =
     jobj [(''schema_version'', jnat SCHEMA_VERSION), (''resource'', JStr ''task''),
           (''items'', JArr (map view_to_json (tl_items l))),
           (''schema_warnings'', JArr (map warning_json (tl_schema_warnings l)))]"

definition describe_envelope :: "task_view \<Rightarrow> schema_warning list \<Rightarrow> json" where
  "describe_envelope v ws =
     jobj [(''schema_version'', jnat SCHEMA_VERSION), (''resource'', JStr ''task''),
           (''items'', JArr [view_to_json v]), (''schema_warnings'', JArr (map warning_json ws))]"

subsection \<open>Printed output\<close>

text \<open>\<open>{:<n}\<close>: filled with blanks on the right up to \<open>n\<close> characters.\<close>

definition pad_right :: "nat \<Rightarrow> string \<Rightarrow> string" where
  "pad_right n s = s @ replicate (n - chars_count s) (CHR '' '')"

definition table_row :: "string \<Rightarrow> string \<Rightarrow> string \<Rightarrow> string \<Rightarrow> string" where
  "table_row i s p t = ((pad_right 20 i) @ '' '' @ (pad_right 12 s) @ '' '' @ (pad_right 14 p) @ '' '' @ t)"

definition item_row :: "task_view \<Rightarrow> string" where
  "item_row v =
     table_row (truncate_text (tv_id v) 20)
       (if tv_degraded v \<and> tv_status v = [] then ''?'' else truncate_text (tv_status v) 12)
       (truncate_text (tv_phase v) 14)
       (if tv_title v = [] \<and> tv_degraded v then ''(degraded)'' else tv_title v)"

definition warning_place :: "schema_warning \<Rightarrow> string" where
  "warning_place w =
     (case (sw_id w, sw_index w) of
        (Some i, Some n) \<Rightarrow> (''['' @ (show_nat n) @ ''] id='' @ i)
      | (Some i, None) \<Rightarrow> (''id='' @ i)
      | (None, Some n) \<Rightarrow> (''['' @ (show_nat n) @ '']'')
      | (None, None) \<Rightarrow> ''tasks'')"

definition render_list_human :: "task_list \<Rightarrow> string" where
  "render_list_human l =
     (let items = tl_items l; ws = tl_schema_warnings l in
      join_str [CHR 0x0A]
        ((if items = [] then [''No tasks matched.'']
          else [table_row ''ID'' ''STATUS'' ''PHASE'' ''TITLE'', table_row ''----'' ''------'' ''-----'' ''-----'']
               @ map item_row items)
         @ (if ws = [] then []
            else [[], (''schema_warnings: '' @ (show_nat (length ws)) @ '' (see --json for details)'')]
                 @ map (\<lambda>w. (''  - '' @ (warning_place w) @ '': '' @ (sw_message w))) (take 3 ws)
                 @ (if length ws > 3 then [(''  '' @ [CHR 0xE2, CHR 0x80, CHR 0xA6] @ '' and '' @ (show_nat (length ws - 3)) @ '' more'')] else []))))"

definition compact_value :: "(json \<Rightarrow> string) \<Rightarrow> json \<Rightarrow> string" where
  "compact_value show v = truncate_text (show v) 60"

definition evidence_summary :: "(json \<Rightarrow> string) \<Rightarrow> json \<Rightarrow> string" where
  "evidence_summary show ev =
     (case ev of
        JObj m \<Rightarrow>
          (let kind = opt_get_or ''?'' (jget_str ev ''kind'');
               summary = opt_get_or [] (opt_or (jget_str ev ''summary'') (jget_str ev ''note''));
               path = opt_or (jget_str ev ''path'') (jget_str ev ''artifact'');
               recorded = opt_or (jget_str ev ''recorded_at'') (jget_str ev ''at'')
           in join_str '' ''
                ([(''kind='' @ kind)]
                 @ (if summary = [] then [] else [(''summary='' @ (truncate_text summary 80))])
                 @ (case path of None \<Rightarrow> [] | Some p \<Rightarrow> [(''path='' @ p)])
                 @ (case recorded of None \<Rightarrow> [] | Some r \<Rightarrow> [(''at='' @ r)])))
      | JStr s \<Rightarrow> truncate_text s 80
      | _ \<Rightarrow> compact_value show ev)"

definition blocker_summary :: "(json \<Rightarrow> string) \<Rightarrow> json \<Rightarrow> string" where
  "blocker_summary show b =
     (case b of
        JObj m \<Rightarrow>
          (case jget_str b ''reason'' of
             Some r \<Rightarrow> truncate_text r 100
           | None \<Rightarrow>
               (case jget_str b ''summary'' of
                  Some s \<Rightarrow> truncate_text s 100
                | None \<Rightarrow> compact_value show b))
      | JStr s \<Rightarrow> truncate_text s 100
      | _ \<Rightarrow> compact_value show b)"

definition numbered :: "(json \<Rightarrow> string) \<Rightarrow> json list \<Rightarrow> string list" where
  "numbered f xs =
     (if xs = [] then [''  (none)'']
      else map (\<lambda>(i, x). (''  ['' @ (show_nat i) @ ''] '' @ (f x))) (enumerate 0 xs))"

definition render_describe_human :: "(json \<Rightarrow> string) \<Rightarrow> task_view \<Rightarrow> schema_warning list \<Rightarrow> string" where
  "render_describe_human show v ws =
     (let extras = List.map_filter
            (\<lambda>k. map_option (\<lambda>x. (k @ ''='' @ (compact_value show x))) (bt_get (tv_extra v) k))
            [''planned_command'', ''instrument_ref'', ''retry_count''];
          dep = (\<lambda>d. case d of JStr s \<Rightarrow> s | _ \<Rightarrow> show d)
      in join_str [CHR 0x0A]
        ([(''Task: '' @ (nonempty (tv_id v) ''(missing id)''))]
         @ (if tv_degraded v then [(''  (degraded projection '' @ [CHR 0xE2, CHR 0x80, CHR 0x94] @ '' some fields may be incomplete)'')] else [])
         @ [[], ''Fields'',
            (''  status:      '' @ (nonempty (tv_status v) ''-'')), (''  phase:       '' @ (nonempty (tv_phase v) ''-'')),
            (''  title:       '' @ (nonempty (tv_title v) ''-'')),
            (''  last_update: '' @ (nonempty (tv_last_update v) ''-'')),
            (''  depends_on:  '' @ (if tv_depends_on v = [] then ''(none)''
                              else join_str '', '' (map dep (tv_depends_on v)))),
            [], (''Evidence ('' @ (show_nat (length (tv_evidence v))) @ '')'')]
         @ numbered (evidence_summary show) (tv_evidence v)
         @ [[], (''Blockers ('' @ (show_nat (length (tv_blockers v))) @ '')'')]
         @ numbered (blocker_summary show) (tv_blockers v)
         @ (if extras = [] then [] else [[], (''Notes: '' @ (join_str ''; '' extras))])
         @ (if ws = [] then []
            else [[], (''schema_warnings: '' @ (show_nat (length ws)))] @ map (\<lambda>w. (''  - '' @ (sw_message w))) ws)))"

subsection \<open>The commands\<close>

record get_options =
  go_resource :: string
  go_status :: "string option"
  go_phase :: "string option"
  go_json :: bool

text \<open>What the command prints, from the tasks of the run it loads: JSON or text.\<close>

definition get_task :: "(json \<Rightarrow> string) \<Rightarrow> get_options \<Rightarrow> json \<Rightarrow> json + string" where
  "get_task err opts tasks =
     (let l = project_tasks err tasks \<lparr> tf_status = go_status opts, tf_phase = go_phase opts \<rparr>
      in if go_json opts then Inl (list_envelope l) else Inr (render_list_human l))"

definition cmd_get :: "(json \<Rightarrow> string) \<Rightarrow> (string + json) \<Rightarrow> get_options \<Rightarrow> string + (json + string)" where
  "cmd_get err load opts =
     (if go_resource opts = ''task''
      then bindr load (\<lambda>tasks. Inr (get_task err opts tasks))
      else Inl (''resource '' @ [CHR 0x27] @ (go_resource opts) @ [CHR 0x27] @ '' is not yet supported (supported: task)''))"

record describe_options =
  do_resource :: string
  do_id :: string
  do_json :: bool

definition describe_task ::
    "(json \<Rightarrow> string) \<Rightarrow> (json \<Rightarrow> string) \<Rightarrow> describe_options \<Rightarrow> json \<Rightarrow> string + (json + string)" where
  "describe_task err show opts tasks =
     (case find_task err tasks (do_id opts) of
        (None, _) \<Rightarrow>
          (let ids = available_ids show tasks 5;
               hint = (if ids = [] then '' (no tasks in run)'' else ('' (available: '' @ (join_str '', '' ids) @ '')''))
           in Inl (''no such task: '' @ (do_id opts) @ hint))
      | (Some v, ws) \<Rightarrow>
          Inr (if do_json opts then Inl (describe_envelope v ws) else Inr (render_describe_human show v ws)))"

definition cmd_describe ::
    "(json \<Rightarrow> string) \<Rightarrow> (json \<Rightarrow> string) \<Rightarrow> (string + json) \<Rightarrow> describe_options \<Rightarrow> string + (json + string)" where
  "cmd_describe err show load opts =
     (if do_resource opts = ''task''
      then bindr load (describe_task err show opts)
      else Inl (''resource '' @ [CHR 0x27] @ (do_resource opts) @ [CHR 0x27] @ '' is not yet supported (supported: task)''))"

subsection \<open>What a task must look like\<close>

text \<open>The typing the view asks of an element: its known fields, where present, have their type and
  its id is not empty.\<close>

definition has_type_name :: "json \<Rightarrow> string \<Rightarrow> string \<Rightarrow> bool" where
  "has_type_name v k t \<longleftrightarrow> (case jget v k of None \<Rightarrow> True | Some x \<Rightarrow> type_name x = t)"

definition task_typed :: "json \<Rightarrow> bool" where
  "task_typed v \<longleftrightarrow> type_name v = ''object''
     \<and> list_all (\<lambda>k. has_type_name v k ''string'') task_str_keys
     \<and> list_all (\<lambda>k. has_type_name v k ''array'') task_list_keys
     \<and> jget_str v ''id'' \<noteq> None \<and> jget_str v ''id'' \<noteq> Some []"

lemma type_name_iff [simp]:
  "type_name v = ''string'' \<longleftrightarrow> as_str v \<noteq> None"
  "type_name v = ''array'' \<longleftrightarrow> as_array v \<noteq> None"
  "type_name v = ''object'' \<longleftrightarrow> is_object v"
  by (cases v; simp add: type_name_def as_str_def as_array_def is_object_def)+

lemma has_type_string: "has_type_name (JObj m) k ''string'' \<longleftrightarrow> str_field m k \<noteq> None"
  unfolding has_type_name_def type_name_iff by (simp add: str_field_def jget_def split: option.splits)

lemma has_type_array: "has_type_name (JObj m) k ''array'' \<longleftrightarrow> list_field m k \<noteq> None"
  unfolding has_type_name_def type_name_iff by (simp add: list_field_def jget_def split: option.splits)

lemma task_view_of_map_Some:
  "task_view_of_map m \<noteq> None \<longleftrightarrow>
     list_all (\<lambda>k. has_type_name (JObj m) k ''string'') task_str_keys
     \<and> list_all (\<lambda>k. has_type_name (JObj m) k ''array'') task_list_keys"
  unfolding task_view_of_map_def task_str_keys_def task_list_keys_def list.pred_inject
    has_type_string has_type_array
  by (simp split: option.split)

lemma task_view_of_map_fields:
  assumes "task_view_of_map m = Some v"
  shows "str_field m ''id'' = Some (tv_id v)" "str_field m ''title'' = Some (tv_title v)"
    "str_field m ''status'' = Some (tv_status v)" "str_field m ''phase'' = Some (tv_phase v)"
    "list_field m ''depends_on'' = Some (tv_depends_on v)" "list_field m ''evidence'' = Some (tv_evidence v)"
    "list_field m ''blockers'' = Some (tv_blockers v)" "str_field m ''last_update'' = Some (tv_last_update v)"
    "tv_extra v = filter (\<lambda>(k, _). k \<notin> set task_keys) m" "\<not> tv_degraded v"
  using assms by (auto simp: task_view_of_map_def split: option.splits)

text \<open>A status of another type already fails the reading: the test for it afterwards never fires.\<close>

lemma settled_view:
  assumes "task_view_of_map m = Some v"
  shows "settle_view i (JObj m) v =
    (if tv_id v = []
     then (v\<lparr> tv_raw := Some (JObj m), tv_id := index_id i, tv_degraded := True \<rparr>,
           Some \<lparr> sw_index = Some i, sw_id = named_id (index_id i), sw_message = ''missing or empty id'' \<rparr>)
     else (v\<lparr> tv_raw := Some (JObj m) \<rparr>, None))"
proof -
  have "jget (JObj m) ''status'' = Some x \<Longrightarrow> as_str x \<noteq> None" for x
    using task_view_of_map_fields(3) [OF assms] by (auto simp: str_field_def jget_def)
  then show ?thesis
    by (cases "jget (JObj m) ''status''") (auto simp: settle_view_def Let_def)
qed

lemma str_field_id: "str_field m ''id'' = Some s \<Longrightarrow> s \<noteq> [] \<longleftrightarrow> jget_str (JObj m) ''id'' \<noteq> None \<and> jget_str (JObj m) ''id'' \<noteq> Some []"
  by (auto simp: str_field_def jget_with_def jget_def split: option.splits)

lemma task_typed_JObj:
  "task_typed (JObj m) \<longleftrightarrow> (\<exists>v. task_view_of_map m = Some v \<and> tv_id v \<noteq> [])"
proof (cases "task_view_of_map m")
  case None
  with task_view_of_map_Some [of m] show ?thesis by (auto simp only: task_typed_def)
next
  case (Some v)
  with task_view_of_map_Some [of m] have
    "list_all (\<lambda>k. has_type_name (JObj m) k ''string'') task_str_keys
     \<and> list_all (\<lambda>k. has_type_name (JObj m) k ''array'') task_list_keys" by simp
  with Some str_field_id [OF task_view_of_map_fields(1) [OF Some]] show ?thesis
    unfolding task_typed_def type_name_iff by (simp add: is_object_def)
qed

lemma project_typed:
  assumes "task_typed raw"
  obtains m v where "raw = JObj m" "task_view_of_map m = Some v"
    "project_one err i raw = (v\<lparr> tv_raw := Some raw \<rparr>, None)"
proof -
  obtain m where m: "raw = JObj m"
    using assms unfolding task_typed_def type_name_iff by (cases raw) (auto simp: is_object_def)
  with assms obtain v where "task_view_of_map m = Some v" "tv_id v \<noteq> []" by (auto simp: task_typed_JObj)
  with m that [of m v] show ?thesis by (simp add: project_one_def settled_view)
qed

lemma project_untyped:
  assumes "\<not> task_typed raw"
  shows "tv_degraded (fst (project_one err i raw)) \<and> tv_raw (fst (project_one err i raw)) = Some raw
     \<and> snd (project_one err i raw) \<noteq> None"
proof (cases raw)
  case (JObj m)
  with assms show ?thesis
    by (cases "task_view_of_map m")
      (auto simp: project_one_def salvage_view_def bare_view_def Let_def settled_view task_typed_JObj)
qed (simp_all add: project_one_def bare_view_def)

text \<open>
  An element is shown without a warning, and without being marked as degraded, exactly when it is
  an object whose known fields, where present, are strings and arrays as the view declares them and
  whose id is a string that is not empty.
\<close>

theorem shown_clean_iff_typed:
  "(snd (project_one err i raw) = None \<longleftrightarrow> task_typed raw)
   \<and> (tv_degraded (fst (project_one err i raw)) \<longleftrightarrow> \<not> task_typed raw)"
proof (cases "task_typed raw")
  case True
  then obtain m v where "raw = JObj m" "task_view_of_map m = Some v"
    "project_one err i raw = (v\<lparr> tv_raw := Some raw \<rparr>, None)" by (rule project_typed)
  with True task_view_of_map_fields(10) show ?thesis by simp
next
  case False
  with project_untyped [OF False] show ?thesis by simp
qed

subsection \<open>Nothing is lost\<close>

definition default_fields :: "(string \<times> json) list" where
  "default_fields = map (\<lambda>k. (k, JStr [])) task_str_keys @ map (\<lambda>k. (k, JArr [])) task_list_keys"

definition with_defaults :: "json \<Rightarrow> json" where
  "with_defaults v = (case v of JObj m \<Rightarrow> jobj (default_fields @ m) | _ \<Rightarrow> v)"

lemma map_of_wf: "bt_wf m \<Longrightarrow> map_of (rev m) k = bt_get m k"
proof -
  assume "bt_wf m"
  then have "map_of (rev m) = map_of m"
    using bt_wf_distinct [of m] by (subst map_of_inject_set) (simp_all add: rev_map [symmetric])
  moreover have "map_of m k = bt_get m k" by (induction m k rule: bt_get.induct) auto
  ultimately show ?thesis by simp
qed

lemma bt_get_filter: "bt_get (filter (\<lambda>(k, _). P k) m) k = (if P k then bt_get m k else None)"
  by (induction m) auto

lemma str_field_shown: "str_field m k = Some s \<Longrightarrow> opt_get_or (JStr []) (bt_get m k) = JStr s"
  by (auto simp: str_field_def as_str_def split: option.splits json.splits)

lemma list_field_shown: "list_field m k = Some s \<Longrightarrow> opt_get_or (JArr []) (bt_get m k) = JArr s"
  by (auto simp: list_field_def as_array_def split: option.splits json.splits)

lemma view_keys:
  assumes "task_view_of_map m = Some v"
  shows "map_of (rev (view_map v)) k =
    (if k \<in> set task_keys then Some (opt_get_or (the (map_of default_fields k)) (bt_get m k)) else None)"
proof -
  note f = task_view_of_map_fields [OF assms]
  note shown = f(1-4,8) [THEN str_field_shown] f(5-7) [THEN list_field_shown]
  show ?thesis
  proof (cases "k \<in> set task_keys")
    case True
    then have "k = ''id'' \<or> k = ''title'' \<or> k = ''status'' \<or> k = ''phase'' \<or> k = ''last_update''
        \<or> k = ''depends_on'' \<or> k = ''evidence'' \<or> k = ''blockers''"
      by (simp add: task_keys_def task_str_keys_def task_list_keys_def)
    with True show ?thesis
      by (elim disjE) (simp_all add: shown view_map_def default_fields_def task_keys_def task_str_keys_def task_list_keys_def)
  next
    case False
    then show ?thesis by (simp add: view_map_def task_keys_def task_str_keys_def task_list_keys_def)
  qed
qed

lemma view_to_json_typed:
  assumes "task_view_of_map m = Some v" "bt_wf m"
  shows "view_to_json (v\<lparr> tv_raw := r \<rparr>) = with_defaults (JObj m)"
proof -
  have v: "view_map (v\<lparr> tv_raw := r \<rparr>) = view_map v" by (simp add: view_map_def)
  have d: "map_of (rev default_fields) k = (if k \<in> set task_keys then map_of default_fields k else None)" for k
    by (simp add: default_fields_def task_keys_def task_str_keys_def task_list_keys_def)
  have map_of_default: "k \<in> set task_keys \<Longrightarrow> map_of default_fields k \<noteq> None" for k
    by (auto simp: default_fields_def task_keys_def task_str_keys_def task_list_keys_def)
  have "bt_wf (filter (\<lambda>(k, _). k \<notin> set task_keys) m)"
    using assms(2) by (auto simp: bt_wf_def sorted_wrt_map intro: sorted_wrt_filter)
  then have e: "map_of (rev (tv_extra v)) k = (if k \<notin> set task_keys then bt_get m k else None)" for k
    unfolding task_view_of_map_fields(9) [OF assms(1)] by (simp add: map_of_wf bt_get_filter)
  have "bt_get (bt_of_list (view_map v @ tv_extra v)) k = bt_get (bt_of_list (default_fields @ m)) k" for k
    using view_keys [OF assms(1), of k] d [of k] e [of k] map_of_wf [OF assms(2), of k]
    by (auto simp: bt_get_of_list map_add_def dest: map_of_default split: option.splits)
  then have "bt_of_list (view_map v @ tv_extra v) = bt_of_list (default_fields @ m)"
    by (intro bt_ext) auto
  with task_view_of_map_fields(10) [OF assms(1)] show ?thesis
    by (simp add: view_to_json_def with_defaults_def jobj_def v)
qed

text \<open>
  The JSON of an element loses nothing of it. A well-typed task comes out with all its own
  entries, the known fields it lacks added with their defaults; any other element comes out
  marked as degraded with the whole element under \<open>raw\<close>.
\<close>

theorem task_json_loses_nothing:
  assumes "\<And>m. raw = JObj m \<Longrightarrow> bt_wf m"
  shows "if task_typed raw then view_to_json (fst (project_one err i raw)) = with_defaults raw
     else jget (view_to_json (fst (project_one err i raw))) ''raw'' = Some raw
          \<and> jget (view_to_json (fst (project_one err i raw))) ''degraded'' = Some (JBool True)"
proof (cases "task_typed raw")
  case True
  then obtain m v where r: "raw = JObj m" "task_view_of_map m = Some v"
    and p: "project_one err i raw = (v\<lparr> tv_raw := Some raw \<rparr>, None)" by (rule project_typed)
  from True view_to_json_typed [OF r(2) assms [OF r(1)], of "Some raw"] show ?thesis
    unfolding p by (simp add: r(1))
next
  case False
  with project_untyped [OF False, of err i] show ?thesis by (simp add: view_to_json_def Let_def)
qed

theorem task_json_loses_nothing_witness:
  "view_to_json (fst (project_one (\<lambda>_. []) 0 (jobj [(''id'', JStr ''T1''), (''rc'', JInt 3)])))
     = with_defaults (jobj [(''id'', JStr ''T1''), (''rc'', JInt 3)])
   \<and> jget (view_to_json (fst (project_one (\<lambda>_. []) 1 (JStr ''x'')))) ''raw'' = Some (JStr ''x'')"
proof -
  have "task_typed (jobj [(''id'', JStr ''T1''), (''rc'', JInt 3)])" "\<not> task_typed (JStr ''x'')" by code_simp+
  with task_json_loses_nothing [of "jobj [(''id'', JStr ''T1''), (''rc'', JInt 3)]" "\<lambda>_. []" 0]
    task_json_loses_nothing [of "JStr ''x''" "\<lambda>_. []" 1]
  show ?thesis by (simp add: jobj_def)
qed

subsection \<open>The list against the search\<close>

lemma project_from_items:
  "tl_items (project_from err \<lparr> tf_status = None, tf_phase = None \<rparr> i xs)
   = map (\<lambda>(k, x). fst (project_one err k x)) (enumerate i xs)"
  by (induction xs arbitrary: i) (auto simp: Let_def matches_filter_def split: prod.splits)

lemma project_from_filter:
  "tl_items (project_from err f i xs) =
     filter (\<lambda>v. matches_filter v f) (tl_items (project_from err \<lparr> tf_status = None, tf_phase = None \<rparr> i xs))
   \<and> tl_schema_warnings (project_from err f i xs)
     = tl_schema_warnings (project_from err \<lparr> tf_status = None, tf_phase = None \<rparr> i xs)"
  by (induction xs arbitrary: i) (auto simp: Let_def matches_filter_def split: prod.splits)

lemma find_from_items:
  "fst (find_from err k i ws xs)
   = List.find (\<lambda>v. tv_id v = k) (tl_items (project_from err \<lparr> tf_status = None, tf_phase = None \<rparr> i xs))"
  by (induction xs arbitrary: i ws) (auto simp: Let_def matches_filter_def split: prod.splits)

text \<open>
  \<open>get\<close> and \<open>describe\<close> see the same tasks: the list without filters holds one view for every
  element, in order; a filtered list is that list filtered; and the search by id returns its first view
  with the id, so every listed id, also the made up ones of degraded elements, can be described.
\<close>

theorem list_and_find_agree:
  "tl_items (project_tasks err (JArr xs) \<lparr> tf_status = None, tf_phase = None \<rparr>)
     = map (\<lambda>(k, x). fst (project_one err k x)) (enumerate 0 xs)
   \<and> tl_items (project_tasks err tasks f) = filter (\<lambda>v. matches_filter v f)
       (tl_items (project_tasks err tasks \<lparr> tf_status = None, tf_phase = None \<rparr>))
   \<and> fst (find_task err tasks k) = List.find (\<lambda>v. tv_id v = k)
       (tl_items (project_tasks err tasks \<lparr> tf_status = None, tf_phase = None \<rparr>))"
  using project_from_items [of err 0 xs] project_from_filter [of err f 0] find_from_items [of err k 0 "[]"]
  by (auto simp: project_tasks_def find_task_def as_array_def split: option.splits)

end
