(* ===== verification/Lto_Observability.thy ===== *)
theory Lto_Observability
  imports Lto_Workspace "HOL-Library.Product_Lexorder"
begin

text \<open>
  The gates before autonomous work: \<open>src/src/run_observability.rs\<close> (is there evidence that the run
  measures what it promised), \<open>src/src/autonomous_gate.rs\<close> (have runners been reliable lately) and
  the levels of \<open>src/src/effect.rs\<close>. SHA-256 in hex is the argument \<open>sha\<close>, the answers of the
  regular expressions are arguments.
\<close>

subsection \<open>Instruments\<close>

record instrument_spec =
  in_reference :: string
  in_command :: string

text \<open>White space is what separates words, so dropping it joins the words.\<close>

definition normalize_command :: "string \<Rightarrow> string" where
  "normalize_command c =
     filter (\<lambda>x. x \<noteq> CHR 0x27 \<and> x \<noteq> CHR 0x22) (concat (split_whitespace c))"

definition command_reference :: "(string \<Rightarrow> string) \<Rightarrow> string \<Rightarrow> string" where
  "command_reference sha c = ''sha256:'' @ sha (normalize_command c)"

definition parse_instrument :: "(string \<Rightarrow> string) \<Rightarrow> string \<Rightarrow> instrument_spec option" where
  "parse_instrument sha raw =
     (let (label, command) = (case split_once ''::'' (trim raw) of
            Some (l, c) \<Rightarrow> (trim l, trim c) | None \<Rightarrow> ([], trim raw))
      in if command = [] then None
         else Some \<lparr> in_reference = (if label = [] then command_reference sha command else label),
                     in_command = command \<rparr>)"

definition parse_instruments :: "(string \<Rightarrow> string) \<Rightarrow> delivery_contract \<Rightarrow> instrument_spec list" where
  "parse_instruments sha c = List.map_filter (parse_instrument sha) (dc_instruments c)"

definition validate_instrument_ref ::
    "(string \<Rightarrow> string) \<Rightarrow> delivery_contract \<Rightarrow> string \<Rightarrow> string + string" where
  "validate_instrument_ref sha c r =
     (let r = trim r in
      if r = [] then Inl ''--instrument-ref must not be empty''
      else if r \<in> set (map in_reference (parse_instruments sha c)) then Inr r
      else Inl (''--instrument-ref '' @ (str_debug r) @ '' does not match a current delivery contract instrument''))"

definition resolve_instrument_ref ::
    "(string \<Rightarrow> string) \<Rightarrow> delivery_contract \<Rightarrow> string option \<Rightarrow> string option \<Rightarrow> string
     \<Rightarrow> string + string option" where
  "resolve_instrument_ref sha c explicit inherited command =
     (case opt_or explicit inherited of
        Some r \<Rightarrow> (case validate_instrument_ref sha c r of Inl e \<Rightarrow> Inl e | Inr r' \<Rightarrow> Inr (Some r'))
      | None \<Rightarrow>
          Inr (map_option in_reference
                 (find (\<lambda>i. normalize_command (in_command i) = normalize_command command)
                    (parse_instruments sha c))))"

subsection \<open>Evidence of the current run\<close>

datatype observability_status = ObservableVerified | SignalDeclared | Missing

record observability_report =
  ob_status :: observability_status
  ob_reason :: string
  ob_missing :: "string list"

definition is_command_evidence :: "json \<Rightarrow> bool" where
  "is_command_evidence e \<longleftrightarrow> jget_str e ''command'' \<noteq> None \<and> jget_with as_i64 e ''rc'' \<noteq> None"

definition evidence_time :: "json \<Rightarrow> string" where
  "evidence_time e =
     (case opt_or (jget e ''ended_at'') (jget e ''recorded_at'') of
        None \<Rightarrow> [] | Some v \<Rightarrow> opt_get_or [] (as_str v))"

text \<open>\<open>max_by_key\<close> keeps the last of equal maxima.\<close>

definition later_evidence :: "json option \<Rightarrow> json \<Rightarrow> json option" where
  "later_evidence best e =
     (case best of
        None \<Rightarrow> Some e
      | Some b \<Rightarrow> if evidence_time b \<le> evidence_time e then Some e else Some b)"

definition task_evidence :: "json \<Rightarrow> json list" where
  "task_evidence task = opt_get_or [] (jget_with as_array task ''evidence'')"

definition latest_command_evidence :: "json \<Rightarrow> json option" where
  "latest_command_evidence tasks =
     (case as_array tasks of
        None \<Rightarrow> None
      | Some ts \<Rightarrow> foldl later_evidence None (filter is_command_evidence (concat (map task_evidence ts))))"

definition declared :: "string \<Rightarrow> observability_report" where
  "declared what =
     \<lparr> ob_status = SignalDeclared,
       ob_reason = (''instrument signal is declared but not verified; missing '' @ what),
       ob_missing = [what] \<rparr>"

definition missing_basics :: "(string \<Rightarrow> string) \<Rightarrow> lto_state \<Rightarrow> string list" where
  "missing_basics sha st =
     (if trim (st_goal st) = [] then [''goal''] else [])
     @ (if trim (st_done_when st) = [] then [''done_when''] else [])
     @ (if parse_instruments sha (st_delivery_contract st) = [] then [''delivery_contract.instruments''] else [])"

definition is_referenced :: "instrument_spec list \<Rightarrow> json \<Rightarrow> bool" where
  "is_referenced ins e =
     opt_all (\<lambda>r. trim r \<in> set (map in_reference ins)) (jget_str e ''instrument_ref'')"

definition legacy_command_match :: "instrument_spec list \<Rightarrow> json \<Rightarrow> bool" where
  "legacy_command_match ins e =
     opt_all (\<lambda>c. normalize_command c \<in> set (map (\<lambda>i. normalize_command (in_command i)) ins))
       (jget_str e ''command'')"

definition assess :: "(string \<Rightarrow> string) \<Rightarrow> lto_state \<Rightarrow> observability_report" where
  "assess sha st =
     (let missing = missing_basics sha st;
          ins = parse_instruments sha (st_delivery_contract st) in
      if missing \<noteq> [] then
        \<lparr> ob_status = Missing, ob_reason = (''current run is missing '' @ (join_str '', '' missing)),
          ob_missing = missing \<rparr>
      else (case latest_command_evidence (st_tasks st) of
        None \<Rightarrow> declared ''latest runner evidence with command and numeric rc''
      | Some e \<Rightarrow>
          if is_referenced ins e \<or> legacy_command_match ins e then
            \<lparr> ob_status = ObservableVerified,
              ob_reason = ''latest runner evidence is parseable and linked by ''
                @ (if is_referenced ins e then ''structured instrument_ref''
                   else ''legacy normalized command fallback''),
              ob_missing = [] \<rparr>
          else declared ''instrument_ref or normalized legacy command association''))"

subsection \<open>Effects of a command\<close>

datatype effect_level = Reversible | Network | NeedsSemanticJudgement

record effect_class =
  ef_level :: effect_level
  ef_reason :: string

text \<open>\<open>matches p t\<close> is whether the regular expression \<open>p\<close> matches in \<open>t\<close>; the three lists are the tables
  of patterns.\<close>

definition first_match :: "(string \<Rightarrow> string \<Rightarrow> bool) \<Rightarrow> string list \<Rightarrow> string \<Rightarrow> string option" where
  "first_match matches ps t = find (\<lambda>p. matches p t) ps"

definition classify_effect ::
    "(string \<Rightarrow> string \<Rightarrow> bool) \<Rightarrow> string list \<Rightarrow> string list \<Rightarrow> string list \<Rightarrow> string \<Rightarrow> effect_class" where
  "classify_effect matches dangerous escape network command =
     (let lower = to_ascii_lowercase command in
      case first_match matches dangerous lower of
        Some p \<Rightarrow> \<lparr> ef_level = NeedsSemanticJudgement, ef_reason = (''dangerous pattern: '' @ p) \<rparr>
      | None \<Rightarrow> (case first_match matches escape command of
          Some p \<Rightarrow> \<lparr> ef_level = NeedsSemanticJudgement, ef_reason = (''absolute/escape path: '' @ p) \<rparr>
        | None \<Rightarrow> (case first_match matches network lower of
            Some p \<Rightarrow> \<lparr> ef_level = Network, ef_reason = (''network op: '' @ p) \<rparr>
          | None \<Rightarrow> \<lparr> ef_level = Reversible,
                     ef_reason = ''no recognized dangerous/escape/network pattern'' \<rparr>)))"

subsection \<open>Reliability of runners\<close>

datatype reliability_status = RelPass | RelFail

record reliability_report =
  re_status :: reliability_status
  re_reason :: string
  re_warnings :: "string list"

definition reliability_pass :: "string \<Rightarrow> string list \<Rightarrow> reliability_report" where
  "reliability_pass reason warnings = \<lparr> re_status = RelPass, re_reason = reason, re_warnings = warnings \<rparr>"

definition reliability_fail :: "string \<Rightarrow> reliability_report" where
  "reliability_fail reason = \<lparr> re_status = RelFail, re_reason = reason, re_warnings = [] \<rparr>"

record gate_report =
  gr_reliability :: reliability_report
  gr_observability :: observability_report

definition gate_passes :: "gate_report \<Rightarrow> bool" where
  "gate_passes g \<longleftrightarrow> re_status (gr_reliability g) = RelPass \<and> ob_status (gr_observability g) = ObservableVerified"

record completion_sample =
  cs_completion_id :: string
  cs_run_id :: string
  cs_at :: string
  cs_event_id :: u64
  cs_status :: string

record evidence_entry =
  ee_runner :: string
  ee_model :: string
  ee_task_type :: string
  ee_distinct_runs :: nat
  ee_subjective :: bool
  ee_recent :: "completion_sample list"

record recent_assessment =
  ra_failure :: "string option"
  ra_warnings :: "string list"

definition is_completed_outcome :: "string \<Rightarrow> bool" where
  "is_completed_outcome s \<longleftrightarrow>
     s \<in> set [''ok'', ''failed'', ''timeout'', ''rate_limited'', ''quota_exhausted'']"

definition is_failure :: "string \<Rightarrow> bool" where
  "is_failure s \<longleftrightarrow> s \<in> set [''failed'', ''timeout'', ''rate_limited'', ''quota_exhausted'']"

type_synonym sample_slot = "string \<times> string \<times> string"

definition add_sample ::
    "(string, completion_sample) btree \<Rightarrow> completion_sample \<Rightarrow> (string, completion_sample) btree" where
  "add_sample m s = bt_insert (cs_completion_id s) s m"

definition add_entry ::
    "(sample_slot, (string, completion_sample) btree) btree \<Rightarrow> evidence_entry
     \<Rightarrow> (sample_slot, (string, completion_sample) btree) btree" where
  "add_entry g e =
     (let k = (ee_runner e, ee_model e, ee_task_type e)
      in bt_insert k (foldl add_sample (opt_get_or [] (bt_get g k)) (ee_recent e)) g)"

definition sample_key :: "completion_sample \<Rightarrow> string \<times> u64 \<times> string \<times> string" where
  "sample_key s = (cs_at s, cs_event_id s, cs_run_id s, cs_completion_id s)"

definition sample_le :: "completion_sample \<Rightarrow> completion_sample \<Rightarrow> bool" where
  "sample_le a b \<longleftrightarrow> sample_key a \<le> sample_key b"

definition recent_samples :: "nat \<Rightarrow> (string, completion_sample) btree \<Rightarrow> completion_sample list" where
  "recent_samples window m =
     (let xs = sort_by sample_le (filter (\<lambda>s. is_completed_outcome (cs_status s)) (map snd m))
      in drop (length xs - window) xs)"

definition failed_count :: "completion_sample list \<Rightarrow> nat" where
  "failed_count xs = length (filter (\<lambda>s. is_failure (cs_status s)) xs)"

definition trailing_failures :: "completion_sample list \<Rightarrow> nat" where
  "trailing_failures xs = length (takeWhile (\<lambda>s. is_failure (cs_status s)) (rev xs))"

definition failure_rate :: "completion_sample list \<Rightarrow> f64" where
  "failure_rate xs = f_div (f_of_int (int (failed_count xs))) (f_of_int (int (length xs)))"

definition slot_name :: "sample_slot \<Rightarrow> string" where
  "slot_name k = (case k of (runner, model, task_type) \<Rightarrow> (runner @ ''/'' @ model @ ''/'' @ task_type))"

definition slot_failure :: "nat \<Rightarrow> f64 \<Rightarrow> nat \<Rightarrow> sample_slot \<Rightarrow> completion_sample list \<Rightarrow> string option" where
  "slot_failure min_rate limit cold k xs =
     (if min_rate \<le> length xs then
        (if f_le limit (failure_rate xs)
         then Some (''cross-run reliability risk for '' @ (slot_name k) @ '': failure_rate='' @ (show_tenths (f_mul (failure_rate xs) (Fin 100))) @ ''% over '' @ (show_nat (length xs)) @ '' recent completions'')
         else None)
      else if cold \<le> trailing_failures xs
      then Some (''cross-run reliability risk for '' @ (slot_name k) @ '': '' @ (show_nat (trailing_failures xs)) @ '' consecutive failures in '' @ (show_nat (length xs)) @ '' cold-start completions'')
      else None)"

definition slot_warning :: "nat \<Rightarrow> sample_slot \<Rightarrow> completion_sample list \<Rightarrow> string list" where
  "slot_warning streak k xs =
     (if streak \<le> trailing_failures xs
      then [((slot_name k) @ '': '' @ (show_nat (trailing_failures xs)) @ '' consecutive recent failures; host intervention advised'')]
      else [])"

text \<open>The first slot with a risk ends the assessment.\<close>

fun assess_slots ::
    "nat \<Rightarrow> nat \<Rightarrow> f64 \<Rightarrow> nat \<Rightarrow> nat \<Rightarrow> string list \<Rightarrow> (sample_slot \<times> (string, completion_sample) btree) list
     \<Rightarrow> recent_assessment" where
  "assess_slots window min_rate limit cold streak ws [] = \<lparr> ra_failure = None, ra_warnings = ws \<rparr>"
| "assess_slots window min_rate limit cold streak ws (g # gs) =
     (let xs = recent_samples window (snd g);
          ws' = ws @ slot_warning streak (fst g) xs
      in if slot_failure min_rate limit cold (fst g) xs \<noteq> None
         then \<lparr> ra_failure = slot_failure min_rate limit cold (fst g) xs, ra_warnings = ws' \<rparr>
         else assess_slots window min_rate limit cold streak ws' gs)"

definition assess_recent_reliability ::
    "evidence_entry list \<Rightarrow> nat \<Rightarrow> nat \<Rightarrow> f64 \<Rightarrow> nat \<Rightarrow> nat \<Rightarrow> recent_assessment" where
  "assess_recent_reliability es window min_rate limit cold streak =
     assess_slots window min_rate limit cold streak [] (foldl add_entry [] es)"

subsection \<open>The reliability of a repository\<close>

text \<open>\<open>counts\<close> holds, for each run whose state was read, the number of its agent results; \<open>evidence\<close> is
  the run count and the entries of the cross-run evidence.\<close>

definition operational_reliability ::
    "nat list option \<Rightarrow> (string + nat \<times> evidence_entry list) \<Rightarrow> reliability_report" where
  "operational_reliability counts evidence =
     (case counts of
        None \<Rightarrow> reliability_fail ''no .lto directory''
      | Some cs \<Rightarrow>
          (let runs = length (filter (\<lambda>c. 0 < c) cs); results = sum_list cs in
           if runs < 5 \<or> results < 10
           then reliability_fail (''autonomous requires >=5 real agent-run runs and >=10 results; current '' @ (show_nat runs) @ ''/'' @ (show_nat results))
           else (case evidence of
             Inl e \<Rightarrow> reliability_fail (''cross-run evidence unavailable: '' @ e)
           | Inr (run_count, es) \<Rightarrow>
               (let distinct = sum_list (map ee_distinct_runs es) in
                if es = [] then reliability_fail ''cross-run evidence has no runner.finished or agent.dispatch.completed entries''
                else if run_count < 5 \<or> distinct < 10
                then reliability_fail (''autonomous requires cross-run evidence >=5 runs and >=10 distinct-runs sum; current '' @ (show_nat run_count) @ ''/'' @ (show_nat distinct))
                else if list_all ee_subjective es
                then reliability_fail ''cross-run evidence is only subjective/non-measurement runs''
                else (let recent = assess_recent_reliability es 20 5 (Fin (1 / 2)) 3 2 in
                  case ra_failure recent of
                    Some f \<Rightarrow> reliability_fail f
                  | None \<Rightarrow> reliability_pass
                      ((show_nat runs) @ '' state-agent-run runs / '' @ (show_nat results) @ '' results; evidence runs='' @ (show_nat run_count) @ '' distinct-runs sum='' @ (show_nat distinct))
                      (ra_warnings recent))))))"

definition autonomous_gate ::
    "(string \<Rightarrow> string) \<Rightarrow> nat list option \<Rightarrow> (string + nat \<times> evidence_entry list) \<Rightarrow> lto_state \<Rightarrow> gate_report" where
  "autonomous_gate sha counts evidence st =
     \<lparr> gr_reliability = operational_reliability counts evidence, gr_observability = assess sha st \<rparr>"

subsection \<open>When the reliability gate closes\<close>

lemma assess_slots_failure:
  "ra_failure (assess_slots w r l c k ws gs) \<noteq> None
   \<longleftrightarrow> (\<exists>g\<in>set gs. slot_failure r l c (fst g) (recent_samples w (snd g)) \<noteq> None)"
  by (induction gs arbitrary: ws) (auto simp: Let_def)

text \<open>The samples of at most twenty completions: the rate in floating point is the rate in integers.\<close>

lemma round_half: "round_pos (1 / 2) = 1 / 2" "round_pos (19 / 40) < 1 / 2"
  by code_simp+

lemma half_rate:
  assumes n: "1 \<le> n" "n \<le> 20" and f: "0 \<le> f" "f \<le> (n :: int)"
  shows "f_le (Fin (1 / 2)) (f_div (f_of_int f) (f_of_int n)) \<longleftrightarrow> n \<le> 2 * f"
proof (cases "f = 0")
  case False
  let ?q = "(of_int f :: rat) / of_int n"
  have q: "0 < ?q" "?q \<le> 1" using n f False by simp_all
  have "round_pos ?q \<le> 1" using round_pos_mono [OF q] by (simp add: round_pos_one)
  moreover have "(1 :: rat) < 2 powi 1024" by (simp add: power_int_def)
  ultimately have fl: "fl ?q = Fin (round_pos ?q)"
    using fl_small [OF q(1)] round_pos_nonneg [OF q(1)] by linarith
  have "f_of_int f = Fin (of_int f)" "f_of_int n = Fin (of_int n)"
    using n f fl_int [of f] fl_int [of n] by (simp_all add: f_of_int_def)
  with n fl have div: "f_div (f_of_int f) (f_of_int n) = Fin (round_pos ?q)" by simp
  show ?thesis
  proof (cases "n \<le> 2 * f")
    case True
    then have "1 / 2 \<le> ?q" using n by (simp add: field_simps flip: of_int_mult of_int_le_iff)
    from round_pos_mono [OF _ this] True show ?thesis by (simp add: div round_half)
  next
    case less: False
    then have "40 * f \<le> 19 * n" using n by linarith
    then have "?q \<le> 19 / 40" using n by (simp add: field_simps flip: of_int_mult of_int_le_iff)
    from round_pos_mono [OF q(1) this] round_half(2) less show ?thesis by (simp add: div)
  qed
next
  case True
  have "f_of_int n = Fin (of_int n)" using n fl_int [of n] by (simp add: f_of_int_def)
  moreover have "f_of_int 0 = Fin 0" "fl 0 = Fin 0" by code_simp+
  ultimately show ?thesis using n True by simp
qed

lemma failed_count_le: "failed_count xs \<le> length xs"
  by (simp add: failed_count_def)

lemma length_recent: "length (recent_samples w m) \<le> w"
  by (simp add: recent_samples_def Let_def)

definition slot_at_risk :: "completion_sample list \<Rightarrow> bool" where
  "slot_at_risk xs \<longleftrightarrow>
     (if 5 \<le> length xs then length xs \<le> 2 * failed_count xs else 3 \<le> trailing_failures xs)"

lemma slot_failure_at_risk:
  assumes "length xs \<le> 20"
  shows "slot_failure 5 (Fin (1 / 2)) 3 k xs \<noteq> None \<longleftrightarrow> slot_at_risk xs"
proof (cases "5 \<le> length xs")
  case True
  then have "f_le (Fin (1 / 2)) (failure_rate xs) \<longleftrightarrow> int (length xs) \<le> 2 * int (failed_count xs)"
    unfolding failure_rate_def using assms failed_count_le [of xs] by (intro half_rate) auto
  with True show ?thesis by (simp add: slot_failure_def slot_at_risk_def)
next
  case False
  then show ?thesis by (simp add: slot_failure_def slot_at_risk_def)
qed

lemma recent_risk:
  "ra_failure (assess_recent_reliability es 20 5 (Fin (1 / 2)) 3 2) \<noteq> None
   \<longleftrightarrow> (\<exists>g\<in>set (foldl add_entry [] es). slot_at_risk (recent_samples 20 (snd g)))"
  unfolding assess_recent_reliability_def assess_slots_failure
  using slot_failure_at_risk [OF length_recent] by blast

lemma no_recent_risk:
  "ra_failure (assess_recent_reliability es 20 5 (Fin (1 / 2)) 3 2) = None
   \<Longrightarrow> g \<in> set (foldl add_entry [] es) \<Longrightarrow> \<not> slot_at_risk (recent_samples 20 (snd g))"
  using recent_risk [of es] by blast

text \<open>
  With the limits the gate uses, it closes exactly when some runner, model and task type has, among its
  last twenty completions, five or more of which at least half failed, or fewer than five that end
  in three failures: the rate compared in floating point is the comparison of the integers.
\<close>

theorem recent_failures_close_the_gate:
  "ra_failure (assess_recent_reliability es 20 5 (Fin (1 / 2)) 3 2) \<noteq> None
   \<longleftrightarrow> (\<exists>g\<in>set (foldl add_entry [] es). slot_at_risk (recent_samples 20 (snd g)))"
  by (rule recent_risk)

text \<open>The latest evidence is an evidence, and no other is later.\<close>

lemma foldl_later:
  "foldl later_evidence best es = Some e \<Longrightarrow>
   (e \<in> set es \<or> best = Some e) \<and> (\<forall>e'\<in>set es. evidence_time e' \<le> evidence_time e)
   \<and> (\<forall>b. best = Some b \<longrightarrow> evidence_time b \<le> evidence_time e)"
proof (induction es arbitrary: best)
  case (Cons x es)
  have "foldl later_evidence (later_evidence best x) es = Some e" using Cons.prems by simp
  note ih = Cons.IH [OF this]
  show ?case
  proof (cases best)
    case None
    with ih show ?thesis by (auto simp: later_evidence_def)
  next
    case (Some b)
    with ih show ?thesis
      by (cases "evidence_time b \<le> evidence_time x") (auto simp: later_evidence_def)
  qed
qed simp

lemma latest_command_evidence_Some:
  assumes "latest_command_evidence tasks = Some e"
  shows "\<exists>ts t. as_array tasks = Some ts \<and> t \<in> set ts \<and> e \<in> set (task_evidence t)"
    and "is_command_evidence e"
    and "\<And>ts t e'. as_array tasks = Some ts \<Longrightarrow> t \<in> set ts \<Longrightarrow> e' \<in> set (task_evidence t)
      \<Longrightarrow> is_command_evidence e' \<Longrightarrow> evidence_time e' \<le> evidence_time e"
  using assms by (auto simp: latest_command_evidence_def split: option.splits dest!: foldl_later)

lemma gate_passes_facts:
  assumes "gate_passes (autonomous_gate sha counts evidence st)"
  shows "trim (st_goal st) \<noteq> [] \<and> trim (st_done_when st) \<noteq> []"
    and "\<exists>e ts t. as_array (st_tasks st) = Some ts \<and> t \<in> set ts \<and> e \<in> set (task_evidence t)
      \<and> is_command_evidence e
      \<and> (is_referenced (parse_instruments sha (st_delivery_contract st)) e
         \<or> legacy_command_match (parse_instruments sha (st_delivery_contract st)) e)
      \<and> (\<forall>t'\<in>set ts. \<forall>e'\<in>set (task_evidence t'). is_command_evidence e' \<longrightarrow> evidence_time e' \<le> evidence_time e)"
    and "\<exists>cs n es. counts = Some cs \<and> evidence = Inr (n, es) \<and> 5 \<le> length (filter (\<lambda>c. 0 < c) cs)
      \<and> 10 \<le> sum_list cs \<and> 5 \<le> n \<and> (\<exists>x\<in>set es. \<not> ee_subjective x)
      \<and> (\<forall>g\<in>set (foldl add_entry [] es). \<not> slot_at_risk (recent_samples 20 (snd g)))"
proof -
  have r: "re_status (operational_reliability counts evidence) = RelPass"
    and o: "ob_status (assess sha st) = ObservableVerified"
    using assms by (simp_all add: gate_passes_def autonomous_gate_def)
  show "trim (st_goal st) \<noteq> [] \<and> trim (st_done_when st) \<noteq> []"
    using o by (auto simp: assess_def missing_basics_def Let_def split: if_splits)
  obtain e where e: "latest_command_evidence (st_tasks st) = Some e"
    "is_referenced (parse_instruments sha (st_delivery_contract st)) e
     \<or> legacy_command_match (parse_instruments sha (st_delivery_contract st)) e"
    using o by (auto simp: assess_def declared_def Let_def split: if_splits option.splits)
  show "\<exists>e ts t. as_array (st_tasks st) = Some ts \<and> t \<in> set ts \<and> e \<in> set (task_evidence t)
      \<and> is_command_evidence e
      \<and> (is_referenced (parse_instruments sha (st_delivery_contract st)) e
         \<or> legacy_command_match (parse_instruments sha (st_delivery_contract st)) e)
      \<and> (\<forall>t'\<in>set ts. \<forall>e'\<in>set (task_evidence t'). is_command_evidence e' \<longrightarrow> evidence_time e' \<le> evidence_time e)"
    using latest_command_evidence_Some [OF e(1)] e(2) by metis
  show "\<exists>cs n es. counts = Some cs \<and> evidence = Inr (n, es) \<and> 5 \<le> length (filter (\<lambda>c. 0 < c) cs)
      \<and> 10 \<le> sum_list cs \<and> 5 \<le> n \<and> (\<exists>x\<in>set es. \<not> ee_subjective x)
      \<and> (\<forall>g\<in>set (foldl add_entry [] es). \<not> slot_at_risk (recent_samples 20 (snd g)))"
    using r no_recent_risk
    by (auto simp: operational_reliability_def reliability_fail_def reliability_pass_def Let_def not_less
        list_all_iff split: option.splits sum.splits if_splits)
qed

text \<open>
  C33: What autonomous work needs: a goal and a condition for being done, a latest piece of evidence with a
  command and an exit code that belongs to an instrument of the contract and that no other evidence
  is later than, five runs with ten agent results, five runs of cross-run evidence that is not all
  subjective, and no runner with a recent risk.
\<close>

theorem autonomous_gate_requires:
  assumes "gate_passes (autonomous_gate sha counts evidence st)"
  shows "trim (st_goal st) \<noteq> [] \<and> trim (st_done_when st) \<noteq> []
     \<and> (\<exists>e ts t. as_array (st_tasks st) = Some ts \<and> t \<in> set ts \<and> e \<in> set (task_evidence t)
      \<and> is_command_evidence e
      \<and> (is_referenced (parse_instruments sha (st_delivery_contract st)) e
         \<or> legacy_command_match (parse_instruments sha (st_delivery_contract st)) e)
      \<and> (\<forall>t'\<in>set ts. \<forall>e'\<in>set (task_evidence t'). is_command_evidence e' \<longrightarrow> evidence_time e' \<le> evidence_time e))
     \<and> (\<exists>cs n es. counts = Some cs \<and> evidence = Inr (n, es) \<and> 5 \<le> length (filter (\<lambda>c. 0 < c) cs)
      \<and> 10 \<le> sum_list cs \<and> 5 \<le> n \<and> (\<exists>x\<in>set es. \<not> ee_subjective x)
      \<and> (\<forall>g\<in>set (foldl add_entry [] es). \<not> slot_at_risk (recent_samples 20 (snd g))))"
  using gate_passes_facts [OF assms] by blast

definition gate_demo_state :: lto_state where
  "gate_demo_state =
     (default_state ''t'')\<lparr> st_goal := ''ship'', st_done_when := ''tests pass'',
       st_delivery_contract := default_contract\<lparr> dc_instruments := [''unit:: cargo test''] \<rparr>,
       st_tasks := JArr [jobj [(''id'', JStr ''T1''),
         (''evidence'', JArr [jobj [(''command'', JStr (''cargo  '' @ [CHR 0x22] @ ''test'' @ [CHR 0x22])), (''rc'', JInt 0)]])]] \<rparr>"

definition gate_demo_entry :: evidence_entry where
  "gate_demo_entry =
     \<lparr> ee_runner = ''codex'', ee_model = ''m'', ee_task_type = ''impl'', ee_distinct_runs = 10,
       ee_subjective = False,
       ee_recent = [\<lparr> cs_completion_id = ''c1'', cs_run_id = ''r1'', cs_at = ''t'', cs_event_id = 1, cs_status = ''ok'' \<rparr>] \<rparr>"

theorem autonomous_gate_requires_witness:
  "trim (st_goal gate_demo_state) \<noteq> [] \<and> trim (st_done_when gate_demo_state) \<noteq> []"
proof -
  have "gate_passes (autonomous_gate id (Some [2, 2, 2, 2, 2]) (Inr (5, [gate_demo_entry])) gate_demo_state)"
    by code_simp
  from autonomous_gate_requires [OF this] show ?thesis by blast
qed

end
