(* ===== verification/Lto_Redact.thy ===== *)
theory Lto_Redact
  imports Lto_Json
begin

text \<open>
  \<open>src/src/redact.rs\<close>: what leaves the tool in events is redacted. The three regular expressions
  are the regex library's: a \<open>redactor\<close> holds what replacing their matches makes of a text.
\<close>

record redactor =
  rx_secrets :: "string \<Rightarrow> string"
  rx_private_paths :: "string \<Rightarrow> string"
  rx_spaces :: "string \<Rightarrow> string"

definition TRUNCATE :: nat where
  "TRUNCATE = 240"

definition FORBIDDEN_KEY_EXACT :: "string list" where
  "FORBIDDEN_KEY_EXACT = [''stdout'', ''stderr'', ''reply_text'', ''transcript'', ''output'']"

definition FORBIDDEN_KEY_SUFFIXES :: "string list" where
  "FORBIDDEN_KEY_SUFFIXES = [''_excerpt'', ''_tail'']"

definition FORBIDDEN_KEY_SUBSTRINGS :: "string list" where
  "FORBIDDEN_KEY_SUBSTRINGS = [''output'', ''stdout'', ''stderr'', ''transcript'']"

definition redact_secrets_and_paths :: "redactor \<Rightarrow> string \<Rightarrow> string" where
  "redact_secrets_and_paths R v = rx_private_paths R (rx_secrets R v)"

definition redact_text :: "redactor \<Rightarrow> string \<Rightarrow> string" where
  "redact_text R v = chars_take TRUNCATE (trim (rx_spaces R (redact_secrets_and_paths R v)))"

definition is_forbidden_key :: "string \<Rightarrow> bool" where
  "is_forbidden_key key =
     (let k = to_ascii_lowercase key in
      k \<in> set FORBIDDEN_KEY_EXACT
      \<or> list_ex (\<lambda>s. suffix s k) FORBIDDEN_KEY_SUFFIXES
      \<or> list_ex (\<lambda>n. contains_str n k) FORBIDDEN_KEY_SUBSTRINGS)"

fun redact_value :: "redactor \<Rightarrow> json \<Rightarrow> json" where
  "redact_value R (JObj m) =
     JObj (bt_of_list (map (\<lambda>(k, v). (redact_text R k, redact_value R v))
                           (filter (\<lambda>(k, v). \<not> is_forbidden_key k) m)))"
| "redact_value R (JArr xs) = JArr (map (redact_value R) xs)"
| "redact_value R (JStr s) = JStr (redact_text R s)"
| "redact_value R JNull = JNull"
| "redact_value R (JBool b) = JBool b"
| "redact_value R (JInt n) = JInt n"
| "redact_value R (JFloat f) = JFloat f"

text \<open>The keys of objects, at any depth, and the strings of a value.\<close>

fun all_keys :: "json \<Rightarrow> string set" where
  "all_keys (JObj m) = fst ` set m \<union> \<Union> (all_keys ` snd ` set m)"
| "all_keys (JArr xs) = \<Union> (all_keys ` set xs)"
| "all_keys _ = {}"

fun all_strings :: "json \<Rightarrow> string set" where
  "all_strings (JObj m) = \<Union> (all_strings ` snd ` set m)"
| "all_strings (JArr xs) = \<Union> (all_strings ` set xs)"
| "all_strings (JStr s) = {s}"
| "all_strings _ = {}"

lemma bt_insert_set: "set (bt_insert k v m) \<subseteq> insert (k, v) (set m)"
  by (induction k v m rule: bt_insert.induct) auto

lemma bt_of_list_set: "set (bt_of_list kvs) \<subseteq> set kvs"
proof -
  have "set (foldl (\<lambda>m (k, v). bt_insert k v m) acc kvs) \<subseteq> set acc \<union> set kvs" for acc
  proof (induction kvs arbitrary: acc)
    case (Cons p kvs)
    obtain k v where p: "p = (k, v)" by (cases p)
    from Cons [of "bt_insert k v acc"] bt_insert_set [of k v acc] show ?case by (auto simp: p)
  qed simp
  from this [of "[]"] show ?thesis by (simp add: bt_of_list_def)
qed

text \<open>What may be shown of a value: the strings and keys that no forbidden key leads to.\<close>

fun visible_strings :: "json \<Rightarrow> string set" where
  "visible_strings (JObj m) = \<Union> (visible_strings ` snd ` {p \<in> set m. \<not> is_forbidden_key (fst p)})"
| "visible_strings (JArr xs) = \<Union> (visible_strings ` set xs)"
| "visible_strings (JStr s) = {s}"
| "visible_strings _ = {}"

fun visible_keys :: "json \<Rightarrow> string set" where
  "visible_keys (JObj m) =
     fst ` {p \<in> set m. \<not> is_forbidden_key (fst p)}
     \<union> \<Union> (visible_keys ` snd ` {p \<in> set m. \<not> is_forbidden_key (fst p)})"
| "visible_keys (JArr xs) = \<Union> (visible_keys ` set xs)"
| "visible_keys _ = {}"

lemma redact_text_bounded: "chars_count (redact_text R s) \<le> TRUNCATE"
  by (simp add: redact_text_def chars_take_count)

lemma redact_value_visible:
  "all_strings (redact_value R v) \<subseteq> redact_text R ` visible_strings v
   \<and> all_keys (redact_value R v) \<subseteq> redact_text R ` visible_keys v"
proof (induction R v rule: redact_value.induct)
  case (1 R m)
  let ?m = "filter (\<lambda>(k, v). \<not> is_forbidden_key k) m"
  have out: "\<exists>k' v'. (k', v') \<in> set m \<and> \<not> is_forbidden_key k' \<and> fst p = redact_text R k'
      \<and> snd p = redact_value R v'"
    if "p \<in> set (bt_of_list (map (\<lambda>(k, v). (redact_text R k, redact_value R v)) ?m))" for p
    using subsetD [OF bt_of_list_set that] by force
  have strings: "all_strings (redact_value R v) \<subseteq> redact_text R ` visible_strings (JObj m)"
    and keys: "all_keys (redact_value R v) \<subseteq> redact_text R ` visible_keys (JObj m)"
    and key: "redact_text R k \<in> redact_text R ` visible_keys (JObj m)"
    if "(k, v) \<in> set m" "\<not> is_forbidden_key k" for k v
  proof -
    have "all_strings (redact_value R v) \<subseteq> redact_text R ` visible_strings v
        \<and> all_keys (redact_value R v) \<subseteq> redact_text R ` visible_keys v"
      using 1 [of "(k, v)" k v] that by simp
    moreover have "visible_strings v \<subseteq> visible_strings (JObj m)" "visible_keys v \<subseteq> visible_keys (JObj m)"
      using that by force+
    ultimately show "all_strings (redact_value R v) \<subseteq> redact_text R ` visible_strings (JObj m)"
      "all_keys (redact_value R v) \<subseteq> redact_text R ` visible_keys (JObj m)" by blast+
    show "redact_text R k \<in> redact_text R ` visible_keys (JObj m)" using that by force
  qed
  have below: "all_strings (snd p) \<subseteq> redact_text R ` visible_strings (JObj m)
      \<and> all_keys (snd p) \<subseteq> redact_text R ` visible_keys (JObj m)
      \<and> fst p \<in> redact_text R ` visible_keys (JObj m)"
    if "p \<in> set (bt_of_list (map (\<lambda>(k, v). (redact_text R k, redact_value R v)) ?m))" for p
    using out [OF that] strings keys key by metis
  then show ?case
    by (simp only: redact_value.simps all_strings.simps all_keys.simps) blast
qed force+

text \<open>
  C34: Whatever the fields of an event hold, every string and key of the redacted value, at any depth,
  is the redaction of one that no forbidden key leads to: the values under forbidden keys are gone
  with everything below them. Each is at most 240 characters long.
\<close>

theorem redact_value_covers:
  "all_strings (redact_value R v) \<subseteq> redact_text R ` visible_strings v
   \<and> all_keys (redact_value R v) \<subseteq> redact_text R ` visible_keys v
   \<and> (\<forall>s\<in>all_strings (redact_value R v) \<union> all_keys (redact_value R v). chars_count s \<le> TRUNCATE)"
  using redact_value_visible [of R v] redact_text_bounded by blast

theorem redact_value_covers_witness:
  "all_strings (redact_value \<lparr> rx_secrets = (\<lambda>s. s), rx_private_paths = (\<lambda>s. s), rx_spaces = (\<lambda>s. s) \<rparr>
      (JObj [(''note'', JStr ''ok''), (''reply_text'', JArr [JStr ''raw''])]))
   \<subseteq> redact_text \<lparr> rx_secrets = (\<lambda>s. s), rx_private_paths = (\<lambda>s. s), rx_spaces = (\<lambda>s. s) \<rparr> ` {''ok''}"
proof -
  have "visible_strings (JObj [(''note'', JStr ''ok''), (''reply_text'', JArr [JStr ''raw''])]) = {''ok''}"
    by code_simp
  with redact_value_covers [of "\<lparr> rx_secrets = (\<lambda>s. s), rx_private_paths = (\<lambda>s. s), rx_spaces = (\<lambda>s. s) \<rparr>"
      "JObj [(''note'', JStr ''ok''), (''reply_text'', JArr [JStr ''raw''])]"]
  show ?thesis by argo
qed

text \<open>
  The key is tested before its white space is trimmed: a blank after \<open>reply_text\<close> carries the reply
  through, under the forbidden key itself.
\<close>

lemma forbidden_key_with_blank_passes:
  "redact_value \<lparr> rx_secrets = (\<lambda>s. s), rx_private_paths = (\<lambda>s. s), rx_spaces = (\<lambda>s. s) \<rparr>
     (JObj [(''reply_text '', JStr ''raw'')]) = JObj [(''reply_text'', JStr ''raw'')]"
  by code_simp

end
