(* ===== verification/Lto_Events.thy ===== *)
theory Lto_Events
  imports Lto_Redact Lto_State
begin

text \<open>
  \<open>src/src/events.rs\<close>: the append-only event log of a run. The state is the two files behind it,
  the log and the counter; what the file system and the clock answer during an emission is the
  record \<open>emit_io\<close>, so that a run can fail at every step the code can fail at. \<open>pr\<close> writes a JSON
  value as one line of text and \<open>parse\<close> reads one.
\<close>

subsection \<open>Vocabulary\<close>

definition HARD_STOP_AT :: int where
  "HARD_STOP_AT = 50000"

definition KNOWN_EVENT_TYPES :: "string list" where
  "KNOWN_EVENT_TYPES =
     [''run.started'', ''run.closed'', ''contract.updated'', ''phase.changed'', ''task.created'',
      ''task.status_changed'', ''runner.started'', ''runner.finished'', ''runner.retry'',
      ''runner.healthcheck'', ''agent.turn.completed'', ''agent.session.ended'',
      ''agent.dispatch.completed'', ''runner.window.cleaned'', ''artifact.registered'',
      ''audit.dispatched'', ''audit.finding'', ''audit.round.recorded'', ''audit.ledger.evaluated'',
      ''gate.evaluated'', ''gate.blocked'', ''budget.warned'', ''budget.exceeded'', ''sandbox.rejected'',
      ''judge.skipped'', ''decision.voted'', ''decision.escalated'', ''decision.recorded'',
      ''decision.reaffirmed'']"

definition ACTOR_KINDS :: "string list" where
  "ACTOR_KINDS = [''host'', ''lto'', ''runner'', ''auditor'', ''human'']"

record event_record =
  er_event_type :: string
  er_actor_kind :: string
  er_actor_id :: "string option"
  er_phase :: "string option"
  er_task_id :: "string option"
  er_object_id :: "string option"
  er_object_type :: "string option"
  er_summary :: string
  er_artifact_refs :: "string list"
  er_contains_raw_output :: bool
  er_fields :: json
  er_force :: bool

text \<open>The two files: \<open>None\<close> is a file that does not exist. A write that fails either could not open
  the file, or has opened it and written a number of bytes (the counter is truncated first, the log
  is appended to).\<close>

record event_store =
  ev_counter :: "string option"
  ev_log :: "string option"

record emit_io =
  ei_state_path :: string
  ei_state_file :: bool
  ei_mkdir :: "string option"
  ei_lock :: "string + unit"
  ei_read :: "string option"
  ei_counter_write :: "(string \<times> nat option) option"
  ei_append :: "(string \<times> nat option) option"
  ei_now :: string

subsection \<open>The counter\<close>

definition log_lines :: "event_store \<Rightarrow> string list" where
  "log_lines st = filter (\<lambda>l. trim l \<noteq> []) (str_lines (opt_get_or [] (ev_log st)))"

definition count_file_events :: "event_store \<Rightarrow> int" where
  "count_file_events st = int (length (log_lines st))"

text \<open>A counter that does not read as a number is removed and the log's lines are counted.\<close>

definition counter_value :: "event_store \<Rightarrow> int option" where
  "counter_value st =
     (case ev_counter st of None \<Rightarrow> None | Some t \<Rightarrow> parse_uint_below 18446744073709551616 (trim t))"

definition read_event_counter :: "event_store \<Rightarrow> int \<times> event_store" where
  "read_event_counter st =
     (case counter_value st of
        Some n \<Rightarrow> (n, st)
      | None \<Rightarrow> (count_file_events st, st\<lparr>ev_counter := None\<rparr>))"

definition write_event_counter :: "int \<Rightarrow> event_store \<Rightarrow> event_store" where
  "write_event_counter n st = st\<lparr>ev_counter := Some (show_uint n)\<rparr>"

subsection \<open>Emitting\<close>

definition redact_opt :: "redactor \<Rightarrow> string option \<Rightarrow> json" where
  "redact_opt R v = jopt (\<lambda>s. JStr (redact_text R s)) v"

definition no_fields :: "json \<Rightarrow> bool" where
  "no_fields v \<longleftrightarrow> is_null v \<or> as_object v = Some []"

definition event_json :: "redactor \<Rightarrow> string \<Rightarrow> int \<Rightarrow> string \<Rightarrow> event_record \<Rightarrow> json" where
  "event_json R run_id n now r =
     (let event = jobj [(''schema_version'', JInt 1), (''event_id'', JInt n), (''run_id'', JStr run_id),
            (''at'', JStr now), (''type'', JStr (er_event_type r)),
            (''actor'', jobj [(''kind'', JStr (er_actor_kind r)), (''id'', redact_opt R (er_actor_id r))]),
            (''phase'', redact_opt R (er_phase r)), (''task_id'', redact_opt R (er_task_id r)),
            (''object_id'', redact_opt R (er_object_id r)),
            (''object_type'', redact_opt R (er_object_type r)),
            (''summary'', JStr (redact_text R (er_summary r))),
            (''artifact_refs'', JArr (map (\<lambda>s. JStr (redact_text R s)) (er_artifact_refs r))),
            (''privacy'', jobj [(''contains_raw_output'', JBool False),
               (''redaction_status'', JStr (if er_summary r = [] \<and> is_null (er_fields r)
                                          then ''not_required'' else ''passed''))])];
          fields = redact_value R (er_fields r)
      in if no_fields fields then event else jset ''fields'' fields event)"

definition append_line :: "string \<Rightarrow> event_store \<Rightarrow> event_store" where
  "append_line l st = st\<lparr>ev_log := Some (opt_get_or [] (ev_log st) @ l @ [CHR 0x0A])\<rparr>"

definition torn_counter :: "nat option \<Rightarrow> int \<Rightarrow> event_store \<Rightarrow> event_store" where
  "torn_counter k n st =
     (case k of None \<Rightarrow> st | Some b \<Rightarrow> st\<lparr>ev_counter := Some (take b (show_uint n))\<rparr>)"

definition torn_append :: "nat option \<Rightarrow> string \<Rightarrow> event_store \<Rightarrow> event_store" where
  "torn_append k l st =
     (case k of
        None \<Rightarrow> st
      | Some b \<Rightarrow> st\<lparr>ev_log := Some (opt_get_or [] (ev_log st) @ take b (l @ [CHR 0x0A]))\<rparr>)"

text \<open>The checks before anything is touched.\<close>

definition emit_check :: "string \<Rightarrow> event_record \<Rightarrow> emit_io \<Rightarrow> string option" where
  "emit_check run_id r io =
     (case validate_run_id run_id of
        Inl e \<Rightarrow> Some e
      | Inr _ \<Rightarrow>
          if er_event_type r \<notin> set KNOWN_EVENT_TYPES
          then Some (''invalid or deferred event type: '' @ (er_event_type r))
          else if er_actor_kind r \<notin> set ACTOR_KINDS
          then Some (''invalid actor kind: '' @ (er_actor_kind r))
          else if er_contains_raw_output r
          then Some ''contains_raw_output events are forbidden; store output as artifact''
          else if \<not> ei_state_file io then Some (''no state.json for '' @ run_id @ '': '' @ (ei_state_path io))
          else if ei_mkdir io \<noteq> None then ei_mkdir io
          else (case ei_lock io of Inl e \<Rightarrow> Some e | Inr _ \<Rightarrow> ei_read io))"

text \<open>\<open>count + 1\<close> wraps at the width of \<open>usize\<close>.\<close>

definition next_event_id :: "int \<Rightarrow> int" where
  "next_event_id n = (n + 1) mod 18446744073709551616"

definition emit ::
    "(json \<Rightarrow> string) \<Rightarrow> redactor \<Rightarrow> string \<Rightarrow> event_record \<Rightarrow> emit_io \<Rightarrow> event_store
     \<Rightarrow> (string + json) \<times> event_store" where
  "emit pr R run_id r io st =
     (if emit_check run_id r io \<noteq> None then (Inl (the (emit_check run_id r io)), st)
      else let (count, st1) = read_event_counter st in
        if HARD_STOP_AT \<le> count \<and> \<not> er_force r
        then (Inl (''event log hard stop at 50000 events ('' @ (show_uint count) @ '' present)''), st1)
        else case ei_counter_write io of
          Some (e, k) \<Rightarrow> (Inl e, torn_counter k (next_event_id count) st1)
        | None \<Rightarrow>
            let st2 = write_event_counter (next_event_id count) st1;
                event = event_json R run_id (next_event_id count) (ei_now io) r
            in case ei_append io of
                 Some (e, k) \<Rightarrow> (Inl e, torn_append k (pr event) st2)
               | None \<Rightarrow> (Inr event, append_line (pr event) st2))"

definition safe_emit ::
    "(json \<Rightarrow> string) \<Rightarrow> redactor \<Rightarrow> string \<Rightarrow> event_record \<Rightarrow> emit_io \<Rightarrow> event_store
     \<Rightarrow> json option \<times> event_store" where
  "safe_emit pr R run_id r io st =
     (case emit pr R run_id r io st of (Inr e, st') \<Rightarrow> (Some e, st') | (Inl _, st') \<Rightarrow> (None, st'))"

subsection \<open>Reading\<close>

definition event_id :: "json \<Rightarrow> u64 option" where
  "event_id e = jget_u64 e ''event_id''"

text \<open>Of events with the same id the first is kept.\<close>

fun dedup_events :: "u64 list \<Rightarrow> json list \<Rightarrow> json list" where
  "dedup_events seen [] = []"
| "dedup_events seen (e # es) =
     (if event_id e = None then e # dedup_events seen es
      else if the (event_id e) \<in> set seen then dedup_events seen es
      else e # dedup_events (the (event_id e) # seen) es)"

definition logged :: "(string \<Rightarrow> json option) \<Rightarrow> event_store \<Rightarrow> json list" where
  "logged parse st = List.map_filter parse (log_lines st)"

definition read_events ::
    "(string \<Rightarrow> json option) \<Rightarrow> string \<Rightarrow> event_store \<Rightarrow> string + json list" where
  "read_events parse run_id st =
     (case validate_run_id run_id of
        Inl e \<Rightarrow> Inl e
      | Inr _ \<Rightarrow> Inr (dedup_events [] (logged parse st)))"

subsection \<open>Waiting\<close>

definition event_matches :: "string \<Rightarrow> u64 \<Rightarrow> json \<Rightarrow> bool" where
  "event_matches ty after e \<longleftrightarrow>
     (case event_id e of
        None \<Rightarrow> False
      | Some n \<Rightarrow> after < n \<and> opt_get_or [] (jget_str e ''type'') = ty)"

definition start_cursor :: "u64 option \<Rightarrow> json list \<Rightarrow> u64" where
  "start_cursor after existing =
     (case after of
        Some n \<Rightarrow> n
      | None \<Rightarrow> foldl max 0 (List.map_filter event_id existing))"

text \<open>The polls until the deadline, each what a read returned; the server only shortens the sleep.\<close>

fun poll_events :: "(json \<Rightarrow> bool) \<Rightarrow> (string + json list) list \<Rightarrow> string + json option" where
  "poll_events m [] = Inr None"
| "poll_events m (r # rs) =
     (if isl r then Inl (projl r)
      else if find m (projr r) \<noteq> None then Inr (find m (projr r))
      else poll_events m rs)"

definition wait_for ::
    "string \<Rightarrow> u64 option \<Rightarrow> (string + json list) \<Rightarrow> (string + json list) list \<Rightarrow> string + json option" where
  "wait_for ty after first polls =
     (case first of
        Inl e \<Rightarrow> Inl e
      | Inr existing \<Rightarrow>
          (let m = event_matches ty (start_cursor after existing) in
           if find m existing \<noteq> None then Inr (find m existing) else poll_events m polls))"

subsection \<open>The lock\<close>

datatype process_probe = ProcAlive | ProcDead | ProcUnknown

definition process_probe_from_kill_output :: "bool \<Rightarrow> string \<Rightarrow> process_probe" where
  "process_probe_from_kill_output success stderr =
     (if success then ProcAlive
      else let e = to_ascii_lowercase stderr in
        if contains_str ''no such process'' e then ProcDead
        else if contains_str ''operation not permitted'' e \<or> contains_str ''not permitted'' e then ProcAlive
        else ProcUnknown)"

definition LOCK_ABANDONED_MS :: u64 where
  "LOCK_ABANDONED_MS = 86400000"

definition sat_sub :: "u64 \<Rightarrow> u64 \<Rightarrow> u64" where
  "sat_sub a b = (if b \<le> a then a - b else 0)"

definition process_exe_name :: "string option \<Rightarrow> string option" where
  "process_exe_name link_name =
     map_option (\<lambda>n. if suffix '' (deleted)'' n then take (length n - length '' (deleted)'') n else n) link_name"

definition owner_exe_mismatch :: "json \<Rightarrow> string option \<Rightarrow> bool option" where
  "owner_exe_mismatch v live =
     (case (jget_str v ''owner_exe'', live) of
        (Some owner, Some l) \<Rightarrow> Some (owner \<noteq> l)
      | _ \<Rightarrow> None)"

definition probe_says_stale :: "process_probe \<Rightarrow> bool option \<Rightarrow> u64 option \<Rightarrow> u64 \<Rightarrow> bool" where
  "probe_says_stale p mismatch age stale_after =
     (case p of
        ProcDead \<Rightarrow> True
      | ProcAlive \<Rightarrow> opt_get_or False mismatch \<or> opt_all (\<lambda>a. LOCK_ABANDONED_MS \<le> a) age
      | ProcUnknown \<Rightarrow> opt_all (\<lambda>a. stale_after \<le> a) age)"

text \<open>\<open>owner\<close> is the parsed content of the lock file, \<open>probe\<close> and \<open>exe\<close> ask about a process, \<open>mtime_age\<close>
  is the age of the file when its content says nothing.\<close>

definition events_lock_is_stale ::
    "u64 \<Rightarrow> (u64 \<Rightarrow> process_probe) \<Rightarrow> (u64 \<Rightarrow> string option) \<Rightarrow> (string + u64) \<Rightarrow> u64 \<Rightarrow> json option
     \<Rightarrow> string + bool" where
  "events_lock_is_stale now probe exe mtime_age stale_after owner =
     (let age = (case owner of None \<Rightarrow> None
                 | Some v \<Rightarrow> map_option (sat_sub now) (jget_u64 v ''created_at_unix_ms''));
          pid = (case owner of None \<Rightarrow> None | Some v \<Rightarrow> jget_u64 v ''pid'') in
      case pid of
        Some p \<Rightarrow>
          if 4294967295 < p then Inr True
          else Inr (probe_says_stale (probe p) (owner_exe_mismatch (the owner) (exe p)) age stale_after)
      | None \<Rightarrow>
          (case age of
             Some a \<Rightarrow> Inr (stale_after \<le> a)
           | None \<Rightarrow> (case mtime_age of Inl e \<Rightarrow> Inl e | Inr a \<Rightarrow> Inr (stale_after \<le> a))))"

definition says_stale :: "string + bool \<Rightarrow> bool" where
  "says_stale r = (case r of Inr b \<Rightarrow> b | Inl _ \<Rightarrow> False)"

text \<open>Reclaiming: two checks of the lock, one of the hard link made of it, and its identity.
  \<open>Inr True\<close> is the removal of the lock file.\<close>

definition try_reclaim_stale_events_lock ::
    "(string + bool) \<Rightarrow> (string + bool) \<Rightarrow> (string + bool) \<Rightarrow> (string + unit) \<Rightarrow> (string + bool)
     \<Rightarrow> (string + bool) \<Rightarrow> string + bool" where
  "try_reclaim_stale_events_lock check1 guard check2 link check3 same_file =
     (if \<not> says_stale check1 then Inr False
      else bindr guard (\<lambda>got.
        if \<not> got then Inr False
        else if \<not> says_stale check2 then Inr False
        else bindr link (\<lambda>_. Inr (says_stale check3 \<and> says_stale same_file))))"

datatype lock_try =
    LockCreated "string option"
  | LockExists (le_reclaimed: bool) (le_past_deadline: bool)
  | LockError string

fun acquire_events_lock :: "lock_try list \<Rightarrow> (string + unit) option" where
  "acquire_events_lock [] = None"
| "acquire_events_lock (LockCreated None # _) = Some (Inr ())"
| "acquire_events_lock (LockCreated (Some e) # _) = Some (Inl e)"
| "acquire_events_lock (LockError e # _) = Some (Inl e)"
| "acquire_events_lock (LockExists reclaimed late # ts) =
     (if reclaimed then acquire_events_lock ts
      else if late
      then Some (Inl ''events lock timeout; refusing best-effort write to avoid interleave'')
      else acquire_events_lock ts)"

subsection \<open>What the log keeps\<close>

definition event_ids :: "(string \<Rightarrow> json option) \<Rightarrow> event_store \<Rightarrow> u64 list" where
  "event_ids parse st = List.map_filter event_id (logged parse st)"

abbreviation event_count :: "event_store \<Rightarrow> int" where
  "event_count st \<equiv> fst (read_event_counter st)"

text \<open>The log is empty or closed by a line feed, its ids ascend, and the counter is not behind them.\<close>

definition log_ok :: "(string \<Rightarrow> json option) \<Rightarrow> event_store \<Rightarrow> bool" where
  "log_ok parse st \<longleftrightarrow>
     (let t = opt_get_or [] (ev_log st) in t = [] \<or> last t = CHR 0x0A)
     \<and> sorted_wrt (<) (event_ids parse st)
     \<and> (\<forall>i\<in>set (event_ids parse st). uint i \<le> event_count st)
     \<and> 0 \<le> event_count st"

text \<open>Failures that leave the files whole: the file could not be opened.\<close>

definition whole_failures :: "emit_io \<Rightarrow> bool" where
  "whole_failures io \<longleftrightarrow>
     (case ei_counter_write io of None \<Rightarrow> True | Some (_, k) \<Rightarrow> k = None)
     \<and> (case ei_append io of None \<Rightarrow> True | Some (_, k) \<Rightarrow> k = None)"

text \<open>What is used of the JSON library: a line that was written reads as the value it came from.\<close>

definition reads_back :: "(json \<Rightarrow> string) \<Rightarrow> (string \<Rightarrow> json option) \<Rightarrow> json \<Rightarrow> bool" where
  "reads_back pr parse e \<longleftrightarrow> parse (pr e) = Some e \<and> is_line (pr e) \<and> trim (pr e) \<noteq> []"

lemma dedup_distinct:
  "distinct (seen @ List.map_filter event_id es) \<Longrightarrow> dedup_events seen es = es"
proof (induction es arbitrary: seen)
  case (Cons e es)
  show ?case
  proof (cases "event_id e")
    case (Some n)
    with Cons.prems have d: "distinct ((n # seen) @ List.map_filter event_id es)" and n: "n \<notin> set seen"
      by (auto simp: List.map_filter_simps)
    from Cons.IH [OF d] n Some show ?thesis by simp
  qed (use Cons in \<open>simp add: List.map_filter_simps\<close>)
qed simp

lemma sorted_lt_distinct: "sorted_wrt (<) (xs :: u64 list) \<Longrightarrow> distinct xs"
  using strict_sorted_iff by blast

lemma read_events_all:
  "log_ok parse st \<Longrightarrow> validate_run_id run_id = Inr u \<Longrightarrow> read_events parse run_id st = Inr (logged parse st)"
  using dedup_distinct [of "[]" "logged parse st"] sorted_lt_distinct [of "event_ids parse st"]
  by (simp add: read_events_def log_ok_def event_ids_def)

lemma digits_val_nonneg: "list_all is_digit s \<Longrightarrow> 0 \<le> digits_val s"
proof (induction s rule: rev_induct)
  case (snoc c s)
  then have "is_digit c" "0 \<le> digits_val s" by simp_all
  then show ?case by (simp add: is_digit_def digit_val_def of_char_mono_int)
qed (simp add: digits_val_def)

lemma counter_bounds: "counter_value st = Some n \<Longrightarrow> 0 \<le> n \<and> n < 18446744073709551616"
  by (auto simp: counter_value_def parse_uint_below_def Let_def split: option.splits if_splits
      intro: digits_val_nonneg)

lemma event_count_nonneg: "0 \<le> event_count st"
  using counter_bounds [of st]
  by (auto simp: read_event_counter_def count_file_events_def split: option.splits)

lemma read_event_counter_store:
  "snd (read_event_counter st) = st \<or> snd (read_event_counter st) = st\<lparr>ev_counter := None\<rparr> \<and> counter_value st = None"
  by (auto simp: read_event_counter_def split: option.splits)

lemma read_counter_keeps [simp]:
  "ev_log (snd (read_event_counter st)) = ev_log st"
  "event_count (snd (read_event_counter st)) = event_count st"
  by (auto simp: read_event_counter_def counter_value_def count_file_events_def log_lines_def
      split: option.splits)

lemma logged_cong: "ev_log st = ev_log st' \<Longrightarrow> logged parse st = logged parse st'"
  by (simp add: logged_def log_lines_def)

lemma logged_counter [simp]:
  "logged parse (snd (read_event_counter st)) = logged parse st"
  "logged parse (write_event_counter n st) = logged parse st"
  by (auto intro: logged_cong simp: write_event_counter_def)

lemma logged_append:
  assumes "opt_get_or [] (ev_log st) = [] \<or> last (opt_get_or [] (ev_log st)) = CHR 0x0A"
    and "reads_back pr parse e"
  shows "logged parse (append_line (pr e) st) = logged parse st @ [e]"
  using assms str_lines_append [of "opt_get_or [] (ev_log st)" "pr e @ [CHR 0x0A]"]
  by (simp add: logged_def log_lines_def append_line_def reads_back_def str_lines_one List.map_filter_def
      del: append.simps flip: append_assoc)

lemma event_count_written:
  "0 \<le> n \<Longrightarrow> n < 18446744073709551616 \<Longrightarrow> event_count (write_event_counter n st) = n"
  using show_uint_graph [of n] trim_graph [of "show_uint n"] is_digit_graph
  by (simp add: read_event_counter_def counter_value_def write_event_counter_def parse_show_uint)

lemma jget_event:
  "jget (event_json R run_id n now r) ''event_id'' = Some (JInt n)"
  "jget (event_json R run_id n now r) ''type'' = Some (JStr (er_event_type r))"
  by (simp_all add: event_json_def Let_def jobj_def is_object_def)
     (simp_all add: jget_def bt_get_of_list)

lemma event_id_event: "0 \<le> n \<Longrightarrow> event_id (event_json R run_id n now r) = Some (word_of_int n)"
  by (simp add: event_id_def jget_with_def jget_event as_u64_def)

text \<open>One emission, whatever fails in it.\<close>

lemma emit_step:
  assumes ok: "log_ok parse st" and w: "whole_failures io"
    and room: "event_count st + 1 < 18446744073709551616"
    and pr: "reads_back pr parse (event_json R run_id (event_count st + 1) (ei_now io) r)"
    and emit: "emit pr R run_id r io st = (res, st')"
  shows "log_ok parse st' \<and> event_count st' \<le> event_count st + 1
    \<and> logged parse st' = logged parse st @ (case res of Inl _ \<Rightarrow> [] | Inr e \<Rightarrow> [e])
    \<and> (\<forall>e. res = Inr e \<longrightarrow> event_id e = Some (word_of_int (event_count st + 1))
         \<and> jget_str e ''type'' = Some (er_event_type r))"
proof -
  let ?n = "event_count st + 1" and ?s1 = "snd (read_event_counter st)"
  let ?e = "event_json R run_id ?n (ei_now io) r" and ?s2 = "write_event_counter ?n ?s1"
  have n: "0 \<le> event_count st" "next_event_id (event_count st) = ?n"
    using event_count_nonneg [of st] room by (simp_all add: next_event_id_def)
  have same: "log_ok parse ?s1" using ok by (simp add: log_ok_def event_ids_def)
  have log2: "ev_log ?s2 = ev_log st" by (simp add: write_event_counter_def)
  have c2: "event_count ?s2 = ?n" using n room by (simp add: event_count_written)
  then have ok2: "log_ok parse ?s2"
    using ok n log2 by (force simp: log_ok_def event_ids_def)
  have app: "logged parse (append_line (pr ?e) ?s2) = logged parse st @ [?e]"
    using logged_append [OF _ pr, of ?s2] ok log2 by (simp add: log_ok_def Let_def)
  have c3: "event_count (append_line (pr ?e) ?s2) = ?n"
    using c2 n room show_uint_graph [of ?n] trim_graph [of "show_uint ?n"] is_digit_graph
    by (simp add: read_event_counter_def counter_value_def write_event_counter_def append_line_def parse_show_uint)
  have nn: "uint (word_of_int ?n :: u64) = ?n" using n room by (simp add: uint_word_of_int del: of_int_add)
  have lt: "i < word_of_int ?n" if "i \<in> set (event_ids parse st)" for i :: u64
  proof -
    from that ok have "uint i \<le> event_count st" by (simp add: log_ok_def)
    then show ?thesis unfolding word_less_def nn by linarith
  qed
  have ids: "List.map_filter event_id (logged parse st @ [?e]) = event_ids parse st @ [word_of_int ?n]"
    using event_id_event [of ?n R run_id "ei_now io" r] n
    by (simp add: event_ids_def List.map_filter_def)
  have le_succ: "uint i \<le> ?n" if "i \<in> set (event_ids parse st)" for i
    using that ok by (force simp: log_ok_def)
  have ok3: "log_ok parse (append_line (pr ?e) ?s2)"
    unfolding log_ok_def event_ids_def app c3 ids
    using ok lt n nn le_succ by (auto simp: log_ok_def append_line_def sorted_wrt_append simp flip: event_ids_def)
  show ?thesis
    using emit w same ok ok2 ok3 c2 c3 n app event_id_event [of ?n R run_id "ei_now io" r] jget_event
    by (auto simp: emit_def whole_failures_def Let_def case_prod_beta torn_counter_def torn_append_def
        jget_with_def split: if_splits option.splits)
qed

subsection \<open>Histories\<close>

fun emit_all ::
    "(json \<Rightarrow> string) \<Rightarrow> redactor \<Rightarrow> string \<Rightarrow> (event_record \<times> emit_io) list \<Rightarrow> event_store
     \<Rightarrow> (string + json) list \<times> event_store" where
  "emit_all pr R run_id [] st = ([], st)"
| "emit_all pr R run_id (q # qs) st =
     (let (res, st1) = emit pr R run_id (fst q) (snd q) st;
          (rest, st2) = emit_all pr R run_id qs st1
      in (res # rest, st2))"

definition emitted :: "(string + json) list \<Rightarrow> json list" where
  "emitted rs = List.map_filter (\<lambda>r. case r of Inl _ \<Rightarrow> None | Inr e \<Rightarrow> Some e) rs"

lemma emitted_simps [simp]:
  "emitted [] = []" "emitted (Inl x # rs) = emitted rs" "emitted (Inr e # rs) = e # emitted rs"
  by (simp_all add: emitted_def List.map_filter_simps)

definition history_ok ::
    "(json \<Rightarrow> string) \<Rightarrow> (string \<Rightarrow> json option) \<Rightarrow> redactor \<Rightarrow> string \<Rightarrow> (event_record \<times> emit_io) list \<Rightarrow> bool" where
  "history_ok pr parse R run_id qs \<longleftrightarrow>
     (\<forall>(r, io)\<in>set qs. whole_failures io
        \<and> (\<forall>n. 0 < n \<and> n < 18446744073709551616 \<longrightarrow> reads_back pr parse (event_json R run_id n (ei_now io) r)))"

lemma emit_all_ok:
  assumes "log_ok parse st" and "history_ok pr parse R run_id qs"
    and "event_count st + int (length qs) < 18446744073709551616"
    and "emit_all pr R run_id qs st = (rs, st')"
  shows "log_ok parse st' \<and> logged parse st' = logged parse st @ emitted rs
    \<and> (\<forall>e\<in>set (emitted rs). (\<exists>n. event_id e = Some n \<and> 0 < n) \<and> jget_str e ''type'' \<noteq> None)"
  using assms
proof (induction qs arbitrary: st rs)
  case (Cons q qs)
  obtain res st1 where e: "emit pr R run_id (fst q) (snd q) st = (res, st1)" by fastforce
  obtain rest where r: "emit_all pr R run_id qs st1 = (rest, st')" and rs: "rs = res # rest"
    using Cons.prems(4) e by (auto simp: Let_def split: prod.splits)
  have h: "whole_failures (snd q)" "history_ok pr parse R run_id qs"
    and law: "0 < n \<Longrightarrow> n < 18446744073709551616
        \<Longrightarrow> reads_back pr parse (event_json R run_id n (ei_now (snd q)) (fst q))" for n
    using Cons.prems(2) by (auto simp: history_ok_def split: prod.splits)
  have room: "event_count st + 1 < 18446744073709551616"
    and pos: "0 < event_count st + 1"
    using Cons.prems(3) event_count_nonneg [of st] by simp_all
  note step = emit_step [OF Cons.prems(1) h(1) room law [OF pos room] e]
  have "event_count st1 + int (length qs) < 18446744073709551616"
    using step Cons.prems(3) by simp
  note ih = Cons.IH [OF conjunct1 [OF step] h(2) this r]
  have "uint (word_of_int (event_count st + 1) :: u64) = event_count st + 1"
    using pos room by (simp add: uint_word_of_int del: of_int_add)
  then have "(0 :: u64) < word_of_int (event_count st + 1)"
    unfolding word_less_def using pos by simp
  then show ?case
    using step ih by (cases res) (auto simp: rs)
qed simp

text \<open>
  C11: Refinement of the event log by the list of accepted events: after any sequence of emissions on a
  well-formed log, each refused or failing before it touched the file or not, a read returns the
  events that were there followed by exactly the events whose emission succeeded, in order, and
  their ids ascend strictly.
\<close>

theorem events_log_keeps_emitted:
  assumes "log_ok parse st" and "validate_run_id run_id = Inr u"
    and "history_ok pr parse R run_id qs"
    and "event_count st + int (length qs) < 18446744073709551616"
    and "emit_all pr R run_id qs st = (rs, st')"
  shows "read_events parse run_id st' = Inr (logged parse st @ emitted rs)
    \<and> sorted_wrt (<) (event_ids parse st')
    \<and> length (event_ids parse st') = length (event_ids parse st) + length (emitted rs)"
proof -
  note ok = emit_all_ok [OF assms(1,3,4,5)]
  have "length (List.map_filter event_id es) = length es" if "\<forall>e\<in>set es. \<exists>n. event_id e = Some n \<and> 0 < n" for es
    using that by (induction es) (auto simp: List.map_filter_simps)
  with ok show ?thesis
    using read_events_all [OF conjunct1 [OF ok] assms(2)]
    by (auto simp: log_ok_def event_ids_def List.map_filter_def)
qed

lemma find_none: "(\<And>x. x \<in> set xs \<Longrightarrow> \<not> P x) \<Longrightarrow> find P (xs @ ys) = find P ys"
  by (induction xs) auto

lemma find_cong_set: "(\<And>x. x \<in> set xs \<Longrightarrow> P x = Q x) \<Longrightarrow> find P xs = find Q xs"
  by (induction xs) auto

lemma foldl_max_bound:
  "foldl max (a :: u64) xs = Max (insert a (set xs))"
proof (induction xs arbitrary: a)
  case (Cons x xs)
  have "Max (insert a (insert x (set xs))) = Max (insert (max a x) (set xs))"
    by (cases "xs = []") (auto simp: max.assoc)
  with Cons show ?case by simp
qed simp

lemma map_filter_app: "List.map_filter f (xs @ ys) = List.map_filter f xs @ List.map_filter f ys"
  by (simp add: List.map_filter_def)

text \<open>
  C36: A waiter that starts without a cursor and polls until it sees the log after some emissions
  returns the first of the newly emitted events with the awaited type, and never an event that was
  in the log when it started; it returns nothing exactly when no such event was emitted.
\<close>

theorem wait_for_returns_next:
  assumes "log_ok parse st" and "validate_run_id run_id = Inr u"
    and "history_ok pr parse R run_id qs"
    and "event_count st + int (length qs) < 18446744073709551616"
    and "emit_all pr R run_id qs st = (rs, st')"
  shows "wait_for ty None (read_events parse run_id st)
       (replicate k (read_events parse run_id st) @ [read_events parse run_id st'])
     = Inr (find (\<lambda>e. jget_str e ''type'' = Some ty) (emitted rs))"
proof -
  note ok = emit_all_ok [OF assms(1,3,4,5)]
  let ?c = "start_cursor None (logged parse st)" and ?t = "\<lambda>e. jget_str e ''type'' = Some ty"
  let ?m = "event_matches ty ?c"
  have c: "?c = Max (insert 0 (set (event_ids parse st)))"
    by (simp add: start_cursor_def foldl_max_bound event_ids_def)
  have old: "\<not> ?m e" if "e \<in> set (logged parse st)" for e
  proof (cases "event_id e")
    case (Some n)
    with that have "n \<in> set (event_ids parse st)" by (force simp: event_ids_def List.map_filter_def)
    then have "n \<le> ?c" unfolding c by simp
    with Some show ?thesis by (simp add: event_matches_def not_less)
  qed (simp add: event_matches_def)
  have new: "?m e = ?t e" if "e \<in> set (emitted rs)" for e
  proof -
    from ok that obtain n t where n: "event_id e = Some n" "0 < n" and t: "jget_str e ''type'' = Some t" by blast
    have "n \<in> set (List.map_filter event_id (emitted rs))"
      using n that by (force simp: List.map_filter_def)
    moreover have "sorted_wrt (<) (event_ids parse st @ List.map_filter event_id (emitted rs))"
      using ok by (metis log_ok_def event_ids_def map_filter_app)
    ultimately have "i < n" if "i \<in> set (event_ids parse st)" for i
      using that by (simp add: sorted_wrt_append)
    with n have "?c < n" unfolding c by auto
    with n t show ?thesis by (simp add: event_matches_def)
  qed
  have none: "find ?m (logged parse st) = None" using old by (simp add: find_None_iff)
  have some: "find ?m (logged parse st @ emitted rs) = find ?t (emitted rs)"
    using find_none [where P = ?m and xs = "logged parse st" and ys = "emitted rs"] old
      find_cong_set [where P = ?m and Q = ?t and xs = "emitted rs"] new by simp
  have rd: "read_events parse run_id st = Inr (logged parse st)"
    "read_events parse run_id st' = Inr (logged parse st @ emitted rs)"
    using read_events_all [OF assms(1,2)] read_events_all [OF conjunct1 [OF ok] assms(2)] ok by simp_all
  have "poll_events ?m (replicate k (Inr (logged parse st)) @ ps) = poll_events ?m ps" for ps
    by (induction k) (simp_all add: none)
  then show ?thesis by (simp add: wait_for_def rd none some Let_def)
qed

text \<open>A codec of the events of one record and time, for the concrete runs: an event is its id.\<close>

definition demo_record :: event_record where
  "demo_record = \<lparr>er_event_type = ''run.started'', er_actor_kind = ''host'', er_actor_id = None, er_phase = None,
     er_task_id = None, er_object_id = None, er_object_type = None, er_summary = ''go'',
     er_artifact_refs = [], er_contains_raw_output = False, er_fields = JNull, er_force = False\<rparr>"

definition demo_io :: emit_io where
  "demo_io = \<lparr>ei_state_path = [], ei_state_file = True, ei_mkdir = None, ei_lock = Inr (), ei_read = None,
     ei_counter_write = None, ei_append = None, ei_now = ''t0''\<rparr>"

definition demo_redactor :: redactor where
  "demo_redactor = \<lparr>rx_secrets = id, rx_private_paths = id, rx_spaces = id\<rparr>"

definition demo_event :: "int \<Rightarrow> json" where
  "demo_event n = event_json demo_redactor ''r1'' n ''t0'' demo_record"

definition demo_print :: "json \<Rightarrow> string" where
  "demo_print e = show_u64 (opt_get_or 0 (event_id e))"

definition demo_parse :: "string \<Rightarrow> json option" where
  "demo_parse l = map_option demo_event (parse_uint_below 18446744073709551616 l)"

lemma demo_reads_back:
  assumes "0 \<le> n" "n < 18446744073709551616" shows "reads_back demo_print demo_parse (demo_event n)"
proof -
  have u: "uint (word_of_int n :: u64) = n" using assms by (simp add: uint_word_of_int)
  then have p: "demo_print (demo_event n) = show_uint n"
    using assms by (simp add: demo_print_def demo_event_def event_id_event show_u64_def)
  have g: "\<forall>c\<in>set (show_uint n). is_digit c" using show_uint_graph assms by blast
  then have "CHR 0x0D \<notin> set (show_uint n)" "CHR 0x0A \<notin> set (show_uint n)" by (auto simp: is_digit_def)
  then have "is_line (show_uint n)"
    using last_in_set [of "show_uint n"] by (fastforce simp: is_line_def strip_cr_def)
  moreover have "trim (show_uint n) = show_uint n" "show_uint n \<noteq> []"
    using trim_graph [of "show_uint n"] g is_digit_graph show_uint_digits [of n] assms by auto
  ultimately show ?thesis
    using assms by (simp add: reads_back_def p demo_parse_def parse_show_uint)
qed

definition demo_history :: "(event_record \<times> emit_io) list" where
  "demo_history =
     [(demo_record, demo_io),
      (demo_record, demo_io\<lparr>ei_append := Some (''disk full'', None)\<rparr>),
      (demo_record, demo_io)]"

definition empty_store :: event_store where
  "empty_store = \<lparr>ev_counter = None, ev_log = None\<rparr>"

lemma demo_history_ok: "history_ok demo_print demo_parse demo_redactor ''r1'' demo_history"
  using demo_reads_back [unfolded demo_event_def]
  by (auto simp: history_ok_def demo_history_def demo_io_def whole_failures_def)

lemma demo_log_ok: "log_ok demo_parse empty_store"
  by (simp add: log_ok_def empty_store_def event_ids_def logged_def log_lines_def str_lines_def
      List.map_filter_def read_event_counter_def counter_value_def count_file_events_def)

definition demo_result :: "(string + json) list \<times> event_store" where
  "demo_result = emit_all demo_print demo_redactor ''r1'' demo_history empty_store"

lemma demo_emitted: "emitted (fst demo_result) = [demo_event 1, demo_event 3]"
  by code_simp

lemma demo_room: "event_count empty_store + int (length demo_history) < 18446744073709551616"
  by code_simp

theorem events_log_keeps_emitted_witness:
  "read_events demo_parse ''r1'' (snd demo_result) = Inr [demo_event 1, demo_event 3]"
  using events_log_keeps_emitted [OF demo_log_ok _ demo_history_ok demo_room, of "''r1''" "fst demo_result" "snd demo_result"]
    demo_emitted
  by (simp add: demo_result_def validate_run_id_def logged_def log_lines_def empty_store_def
      str_lines_def List.map_filter_def)

theorem wait_for_returns_next_witness:
  "wait_for ''run.started'' None (read_events demo_parse ''r1'' empty_store)
     [read_events demo_parse ''r1'' empty_store, read_events demo_parse ''r1'' (snd demo_result)]
   = Inr (Some (demo_event 1))"
  using wait_for_returns_next [OF demo_log_ok _ demo_history_ok demo_room, of "''r1''" "fst demo_result" "snd demo_result"
      "''run.started''" 1] demo_emitted
  by (simp add: demo_result_def validate_run_id_def demo_event_def jget_with_def jget_event demo_record_def)

subsection \<open>What a broken counter or a torn line loses\<close>

lemma dedup_snoc:
  "event_id e = Some n \<Longrightarrow> n \<in> set seen \<union> set (List.map_filter event_id es)
   \<Longrightarrow> dedup_events seen (es @ [e]) = dedup_events seen es"
  by (induction es arbitrary: seen) (auto simp: List.map_filter_simps split: option.splits)

text \<open>
  With the counter lost and an id missing from the log (its append failed after the counter was
  written), counting lines gives an id that is in use: the emission succeeds and no read shows it.
\<close>

lemma emitted_event_with_a_used_id_is_never_read:
  assumes closed: "opt_get_or [] (ev_log st) = [] \<or> last (opt_get_or [] (ev_log st)) = CHR 0x0A"
    and "reads_back pr parse e" and "event_id e = Some n" and "n \<in> set (event_ids parse st)"
  shows "read_events parse run_id (append_line (pr e) st) = read_events parse run_id st"
  using logged_append [OF assms(1,2)] dedup_snoc [OF assms(3), of "[]" "logged parse st"] assms(4)
  by (simp add: read_events_def event_ids_def split: sum.splits)

lemma lost_counter_reuses_an_id:
  "let st = snd demo_result;
       (res, st') = emit demo_print demo_redactor ''r1'' demo_record demo_io (st\<lparr>ev_counter := Some []\<rparr>)
   in res = Inr (demo_event 3) \<and> read_events demo_parse ''r1'' st' = Inr [demo_event 1, demo_event 3]"
  by code_simp

text \<open>An append that stopped inside the line takes the next event with it.\<close>

lemma torn_line_takes_the_next_event:
  assumes "opt_get_or [] (ev_log st) = [] \<or> last (opt_get_or [] (ev_log st)) = CHR 0x0A"
    and "ev_log st' = Some (opt_get_or [] (ev_log st) @ half)"
    and "is_line (half @ l)" and "parse (half @ l) = None"
  shows "logged parse (append_line l st') = logged parse st"
proof -
  have "str_lines (opt_get_or [] (ev_log st) @ (half @ l) @ [CHR 0x0A])
      = str_lines (opt_get_or [] (ev_log st)) @ [half @ l]"
    using str_lines_append [OF assms(1)] str_lines_one [OF assms(3)] by simp
  with assms show ?thesis
    by (simp add: logged_def log_lines_def append_line_def List.map_filter_def)
qed

subsection \<open>The lock\<close>

text \<open>A lock is taken only by creating its file.\<close>

lemma acquire_created:
  "acquire_events_lock ts = Some (Inr ()) \<Longrightarrow> LockCreated None \<in> set ts"
  by (induction ts rule: acquire_events_lock.induct) (auto split: if_splits)

text \<open>
  The log's lock is never taken from a live owner: while the process in the lock file runs, is not
  known to run another program and took the lock less than a day ago, reclaiming leaves the lock
  alone, whatever the later checks would say.
\<close>

theorem live_lock_is_kept:
  assumes "jget_u64 owner ''pid'' = Some p" and "p \<le> 4294967295"
    and "probe p = ProcAlive" and "owner_exe_mismatch owner (exe p) \<noteq> Some True"
    and "jget_u64 owner ''created_at_unix_ms'' = Some t" and "sat_sub now t < LOCK_ABANDONED_MS"
  shows "try_reclaim_stale_events_lock
       (events_lock_is_stale now probe exe mtime_age stale_after (Some owner)) guard check2 link check3 same
     = Inr False"
proof -
  have "opt_get_or False (owner_exe_mismatch owner (exe p)) = False"
    using assms(4) by (cases "owner_exe_mismatch owner (exe p)") (auto simp: opt_get_or_def)
  with assms(1-3,5,6) show ?thesis
    by (simp add: try_reclaim_stale_events_lock_def events_lock_is_stale_def Let_def says_stale_def
        probe_says_stale_def not_le [symmetric])
qed

theorem live_lock_is_kept_witness:
  "try_reclaim_stale_events_lock
     (events_lock_is_stale 5000 (\<lambda>_. ProcAlive) (\<lambda>_. Some ''lto'') (Inr 0) 30
        (Some (jobj [(''pid'', JInt 7), (''created_at_unix_ms'', JInt 1000), (''owner_exe'', JStr ''lto'')])))
     (Inr True) (Inr True) (Inr ()) (Inr True) (Inr True) = Inr False"
  by (rule live_lock_is_kept [of _ 7 _ _ 1000]) code_simp+

end
