(* ===== verification/Lto_Tasks.thy ===== *)
theory Lto_Tasks
  imports Lto_Observability Lto_Events
begin

text \<open>
  The tasks of a run and what is decided from them, from \<open>src/src/commands/ops.rs\<close>: \<open>task add\<close>,
  \<open>task update\<close>, \<open>phase\<close>, a command run for a task (\<open>runner --command\<close>), the facts \<open>lto next\<close> states and
  the route it suggests, and the progress digest of the autopilot. Commands take the loaded state
  and return the state they save and the event they emit; loading, saving and printing are the
  caller's. \<open>clock\<close> gives the successive readings of the clock, \<open>sha\<close> is SHA-256 in hex, \<open>show\<close> writes
  a JSON value.
\<close>

subsection \<open>Vocabulary\<close>

text \<open>An error that is returned, and an index assignment that panics.\<close>

datatype op_error = OpErr string | OpPanic

definition ensure_valid_phase :: "string \<Rightarrow> string + unit" where
  "ensure_valid_phase phase =
     (if phase \<in> set VALID_PHASES then Inr ()
      else Inl (''invalid phase: '' @ (str_debug phase) @ '' (valid: '' @ (join_str '', '' VALID_PHASES) @ '')''))"

definition ensure_valid_status :: "string \<Rightarrow> string + unit" where
  "ensure_valid_status status =
     (if status \<in> set VALID_TASK_STATUSES then Inr ()
      else Inl (''invalid status: '' @ (str_debug status) @ '' (valid: '' @ (join_str '', '' VALID_TASK_STATUSES) @ '')''))"

definition ensure_valid_kind :: "string \<Rightarrow> string + unit" where
  "ensure_valid_kind kind =
     (if kind \<in> set VALID_EVIDENCE_KINDS then Inr ()
      else Inl (''invalid evidence kind: '' @ (str_debug kind) @ '' (valid: '' @ (join_str '', '' VALID_EVIDENCE_KINDS) @ '')''))"

definition task_id :: "json \<Rightarrow> string option" where
  "task_id task = jget_str task ''id''"

definition task_status :: "json \<Rightarrow> string option" where
  "task_status task = jget_str task ''status''"

text \<open>\<open>find_task_mut\<close> with the change that follows it: the first task with the id is replaced.\<close>

definition find_task_mut :: "json \<Rightarrow> string \<Rightarrow> string + nat" where
  "find_task_mut tasks i =
     (case position (\<lambda>t. task_id t = Some i) (json_array tasks) of
        None \<Rightarrow> Inl (''no such task: '' @ i)
      | Some n \<Rightarrow> Inr n)"

definition put_task :: "json \<Rightarrow> nat \<Rightarrow> json \<Rightarrow> json" where
  "put_task tasks n t = JArr ((json_array tasks)[n := t])"

definition default_event :: event_record where
  "default_event = \<lparr>er_event_type = [], er_actor_kind = [], er_actor_id = None, er_phase = None,
     er_task_id = None, er_object_id = None, er_object_type = None, er_summary = [],
     er_artifact_refs = [], er_contains_raw_output = False, er_fields = JNull, er_force = False\<rparr>"

subsection \<open>Adding and updating a task\<close>

record task_add_options =
  ta_task_id :: string
  ta_title :: string
  ta_phase :: "string option"
  ta_command :: "string option"
  ta_instrument_ref :: "string option"

definition set_opt :: "string \<Rightarrow> string option \<Rightarrow> json \<Rightarrow> json" where
  "set_opt k v t = (case v of None \<Rightarrow> t | Some s \<Rightarrow> jset k (JStr s) t)"

definition new_task :: "string \<Rightarrow> task_add_options \<Rightarrow> string \<Rightarrow> string option \<Rightarrow> json" where
  "new_task now opts phase ref =
     set_opt ''instrument_ref'' ref (set_opt ''planned_command'' (ta_command opts)
       (jobj [(''id'', JStr (ta_task_id opts)), (''title'', JStr (ta_title opts)),
          (''status'', JStr ''pending''), (''phase'', JStr phase), (''depends_on'', JArr []),
          (''last_update'', JStr now), (''touched_files'', JArr []), (''commands_run'', JArr []),
          (''evidence'', JArr []), (''blockers'', JArr []), (''assumptions'', JArr []),
          (''retry_count'', JInt 0), (''retry_by_command'', jobj [])]))"

definition task_created :: "task_add_options \<Rightarrow> string \<Rightarrow> event_record" where
  "task_created opts phase =
     default_event\<lparr>er_event_type := ''task.created'', er_actor_kind := ''host'', er_phase := Some phase,
       er_task_id := Some (ta_task_id opts), er_object_id := Some (ta_task_id opts),
       er_object_type := Some ''task'', er_summary := ta_title opts\<rparr>"

definition check_ref ::
    "(string \<Rightarrow> string) \<Rightarrow> delivery_contract \<Rightarrow> string option \<Rightarrow> string + string option" where
  "check_ref sha c r =
     (case r of None \<Rightarrow> Inr None
      | Some x \<Rightarrow> (case validate_instrument_ref sha c x of Inl e \<Rightarrow> Inl e | Inr y \<Rightarrow> Inr (Some y)))"

definition cmd_task_add ::
    "(string \<Rightarrow> string) \<Rightarrow> string \<Rightarrow> task_add_options \<Rightarrow> lto_state \<Rightarrow> string + lto_state \<times> event_record" where
  "cmd_task_add sha now opts st =
     (let phase = opt_get_or (st_current_phase st) (ta_phase opts) in
      if list_ex (\<lambda>t. task_id t = Some (ta_task_id opts)) (json_array (st_tasks st))
      then Inl (''task id already exists: '' @ (ta_task_id opts))
      else case ensure_valid_phase phase of
        Inl e \<Rightarrow> Inl e
      | Inr _ \<Rightarrow>
          (case check_ref sha (st_delivery_contract st) (ta_instrument_ref opts) of
             Inl e \<Rightarrow> Inl e
           | Inr ref \<Rightarrow>
               Inr (st\<lparr>st_tasks := json_push (new_task now opts phase ref) (st_tasks st)\<rparr>,
                    task_created opts phase)))"

record task_update_options =
  tu_task_id :: string
  tu_status :: "string option"
  tu_phase :: "string option"
  tu_note :: "string option"
  tu_touch :: "string list"

text \<open>An array of strings extended by those it lacks; \<open>entry(key).or_insert(\[\])\<close> first.\<close>

definition push_unique :: "json \<Rightarrow> string \<Rightarrow> json" where
  "push_unique arr s =
     (if list_ex (\<lambda>v. as_str v = Some s) (json_array arr) then JArr (json_array arr) else json_push (JStr s) arr)"

definition append_unique_strings :: "json \<Rightarrow> string \<Rightarrow> string list \<Rightarrow> json" where
  "append_unique_strings task key vs =
     jset key (foldl push_unique (JArr (json_array (opt_get_or (JArr []) (jget task key)))) vs) task"

definition append_string :: "json \<Rightarrow> string \<Rightarrow> string \<Rightarrow> json" where
  "append_string task key v = jset key (json_push (JStr v) (opt_get_or (JArr []) (jget task key))) task"

definition add_note :: "string \<Rightarrow> string \<Rightarrow> json \<Rightarrow> json" where
  "add_note now note task =
     append_to_object_array task ''evidence''
       (jobj [(''kind'', JStr ''manual''), (''summary'', JStr note), (''recorded_at'', JStr now)])"

definition check_opt :: "(string \<Rightarrow> string + unit) \<Rightarrow> string option \<Rightarrow> string + unit" where
  "check_opt f v = (case v of None \<Rightarrow> Inr () | Some s \<Rightarrow> f s)"

definition updated_task :: "(nat \<Rightarrow> string) \<Rightarrow> task_update_options \<Rightarrow> json \<Rightarrow> json" where
  "updated_task clock opts task =
     (let t1 = set_opt ''status'' (tu_status opts) task;
          t2 = set_opt ''phase'' (tu_phase opts) t1;
          t3 = (case tu_note opts of None \<Rightarrow> t2 | Some n \<Rightarrow> add_note (clock 0) n t2);
          t4 = (if tu_touch opts = [] then t3 else append_unique_strings t3 ''touched_files'' (tu_touch opts))
      in jset ''last_update'' (JStr (clock 1)) t4)"

definition status_changed :: "task_update_options \<Rightarrow> json \<Rightarrow> string \<Rightarrow> event_record" where
  "status_changed opts task status =
     default_event\<lparr>er_event_type := ''task.status_changed'', er_actor_kind := ''host'',
       er_phase := jget_str task ''phase'', er_task_id := Some (tu_task_id opts),
       er_object_id := Some (tu_task_id opts), er_object_type := Some ''task'',
       er_summary := (''task '' @ (tu_task_id opts) @ '' -> '' @ status),
       er_fields := jobj [(''status'', JStr status)]\<rparr>"

definition cmd_task_update ::
    "(nat \<Rightarrow> string) \<Rightarrow> task_update_options \<Rightarrow> lto_state \<Rightarrow> string + lto_state \<times> event_record option" where
  "cmd_task_update clock opts st =
     (if tu_status opts = None \<and> tu_phase opts = None \<and> tu_note opts = None \<and> tu_touch opts = []
      then Inl ''task update is a no-op: pass at least one of --status / --phase / --note / --touch''
      else case find_task_mut (st_tasks st) (tu_task_id opts) of
        Inl e \<Rightarrow> Inl e
      | Inr n \<Rightarrow>
          (case check_opt ensure_valid_status (tu_status opts) of
             Inl e \<Rightarrow> Inl e
           | Inr _ \<Rightarrow>
               (case check_opt ensure_valid_phase (tu_phase opts) of
                  Inl e \<Rightarrow> Inl e
                | Inr _ \<Rightarrow>
                    (let task = updated_task clock opts (json_array (st_tasks st) ! n)
                     in Inr (st\<lparr>st_tasks := put_task (st_tasks st) n task\<rparr>,
                             map_option (status_changed opts task) (tu_status opts))))))"

subsection \<open>The phase\<close>

definition phase_changed :: "string \<Rightarrow> string \<Rightarrow> event_record" where
  "phase_changed current to =
     default_event\<lparr>er_event_type := ''phase.changed'', er_actor_kind := ''host'', er_phase := Some to,
       er_summary := (current @ '' -> '' @ to),
       er_fields := jobj [(''from'', JStr current), (''to'', JStr to)]\<rparr>"

text \<open>Without a phase to set, or with the current one, nothing is saved.\<close>

definition cmd_phase ::
    "string \<Rightarrow> string \<Rightarrow> string option \<Rightarrow> lto_state \<Rightarrow> string + (lto_state \<times> event_record) option" where
  "cmd_phase now head set_phase st =
     (case set_phase of
        None \<Rightarrow> Inr None
      | Some to \<Rightarrow>
          (case ensure_valid_phase to of
             Inl e \<Rightarrow> Inl e
           | Inr _ \<Rightarrow>
               if to = st_current_phase st then Inr None
               else Inr (Some (append_phase_transition now st (st_current_phase st) to head,
                               phase_changed (st_current_phase st) to))))"

text \<open>Phases from first to last.\<close>

definition phase_direction :: "string \<Rightarrow> string \<Rightarrow> string" where
  "phase_direction current target =
     (case (position (\<lambda>p. p = current) VALID_PHASES, position (\<lambda>p. p = target) VALID_PHASES) of
        (Some c, Some t) \<Rightarrow> if c < t then ''forward'' else if c = t then ''same'' else ''backward''
      | _ \<Rightarrow> ''unknown'')"

subsection \<open>A command run for a task\<close>

definition tail_lines :: "string \<Rightarrow> nat \<Rightarrow> string list" where
  "tail_lines text n = (let ls = str_lines text in drop (length ls - n) ls)"

definition command_fingerprint :: "(string \<Rightarrow> string) \<Rightarrow> string \<Rightarrow> string" where
  "command_fingerprint sha command = sha (join_str '' '' (split_whitespace command))"

definition retry_of :: "json \<Rightarrow> string \<Rightarrow> u64" where
  "retry_of task fp =
     sat_add (opt_get_or 0 (jget_u64 (JObj (json_object_mut (opt_get_or (jobj []) (jget task ''retry_by_command'')))) fp)) 1"

definition bump_retry :: "(string \<Rightarrow> string) \<Rightarrow> json \<Rightarrow> string \<Rightarrow> json" where
  "bump_retry sha task command =
     (let fp = command_fingerprint sha command;
          current = retry_of task fp;
          retries = bt_insert fp (ju64 current)
            (json_object_mut (opt_get_or (jobj []) (jget task ''retry_by_command'')))
      in jset ''retry_count'' (ju64 current) (jset ''retry_by_command'' (JObj retries) task))"

definition resolved_blocker :: "json \<Rightarrow> json \<Rightarrow> json" where
  "resolved_blocker evidence b =
     (let ended = opt_get_or [] (jget_str evidence ''ended_at'') in
      jset ''superseded_by'' (jobj [(''kind'', opt_get_or JNull (jget evidence ''kind'')),
            (''command'', opt_get_or JNull (jget evidence ''command'')), (''ended_at'', JStr ended)])
        (jset ''resolved_by'' (JStr ''runner_success'') (jset ''resolved_at'' (JStr ended) b)))"

definition resolve_blockers :: "json \<Rightarrow> json \<Rightarrow> json" where
  "resolve_blockers task evidence =
     jset ''blockers'' (JArr [])
       (foldl (\<lambda>t b. append_to_object_array t ''resolved_blockers'' (resolved_blocker evidence b)) task
          (opt_get_or [] (jget_with as_array task ''blockers'')))"

record runner_options =
  ro_task_id :: string
  ro_kind :: string
  ro_command :: string
  ro_cwd :: string
  ro_touch :: "string list"
  ro_note :: "string option"
  ro_instrument_ref :: "string option"
  ro_status_on_fail :: string

record captured =
  ca_rc :: int
  ca_stdout :: string
  ca_stderr :: string
  ca_elapsed :: f64
  ca_head_before :: string
  ca_head_after :: string

definition rc_word :: "int \<Rightarrow> string" where
  "rc_word rc = (if rc = 0 then ''PASS'' else if rc = 124 then ''TIMEOUT'' else ''FAIL'')"

definition show_rc :: "int \<Rightarrow> string" where
  "show_rc rc = (if rc < 0 then CHR ''-'' # show_uint (- rc) else show_uint rc)"

definition run_evidence :: "string \<Rightarrow> runner_options \<Rightarrow> captured \<Rightarrow> string option \<Rightarrow> json" where
  "run_evidence now opts c ref =
     set_opt ''instrument_ref'' ref
       (jobj [(''kind'', JStr (ro_kind opts)), (''command'', JStr (ro_command opts)), (''cwd'', JStr (ro_cwd opts)),
          (''rc'', JInt (ca_rc c)), (''started_at'', JNull), (''ended_at'', JStr now),
          (''head_before'', JStr (ca_head_before c)), (''head_after'', JStr (ca_head_after c)),
          (''verified_by'', JStr ''runner''),
          (''summary'', JStr (opt_get_or ((ro_kind opts) @ '': '' @ (rc_word (ca_rc c))) (ro_note opts))),
          (''stdout_tail'', JArr (map JStr (tail_lines (ca_stdout c) 20))),
          (''stderr_tail'', JArr (map JStr (tail_lines (ca_stderr c) 20))),
          (''elapsed_sec'', jfloat (ca_elapsed c))])"

definition run_blocker :: "string \<Rightarrow> runner_options \<Rightarrow> captured \<Rightarrow> json" where
  "run_blocker now opts c =
     jobj [(''reason'', JStr (''command failed (rc='' @ (show_rc (ca_rc c)) @ '')'')), (''command'', JStr (ro_command opts)),
       (''evidence_kind'', JStr (ro_kind opts)), (''at'', JStr now)]"

definition recorded_run :: "string \<Rightarrow> runner_options \<Rightarrow> captured \<Rightarrow> string option \<Rightarrow> json \<Rightarrow> json" where
  "recorded_run now opts c ref task =
     append_string
       (append_unique_strings (append_to_object_array task ''evidence'' (run_evidence now opts c ref))
          ''touched_files'' (ro_touch opts))
       ''commands_run'' (ro_command opts)"

definition run_passed :: "(nat \<Rightarrow> string) \<Rightarrow> runner_options \<Rightarrow> captured \<Rightarrow> string option \<Rightarrow> json \<Rightarrow> json" where
  "run_passed clock opts c ref task =
     jset ''last_update'' (JStr (clock 2))
       (resolve_blockers (jset ''status'' (JStr ''done'') (recorded_run (clock 0) opts c ref task))
          (run_evidence (clock 0) opts c ref))"

definition run_failed ::
    "(string \<Rightarrow> string) \<Rightarrow> (nat \<Rightarrow> string) \<Rightarrow> runner_options \<Rightarrow> captured \<Rightarrow> string option \<Rightarrow> json \<Rightarrow> json" where
  "run_failed sha clock opts c ref task =
     jset ''last_update'' (JStr (clock 2))
       (append_to_object_array
          (jset ''status'' (JStr (ro_status_on_fail opts))
             (bump_retry sha (recorded_run (clock 0) opts c ref task) (ro_command opts)))
          ''blockers'' (run_blocker (clock 1) opts c))"

text \<open>\<open>gates[key] = value\<close>: a null becomes an object, another value panics.\<close>

definition index_set :: "string \<Rightarrow> json \<Rightarrow> json \<Rightarrow> op_error + json" where
  "index_set k x v =
     (case v of JObj m \<Rightarrow> Inr (JObj (bt_insert k x m)) | JNull \<Rightarrow> Inr (jobj [(k, x)]) | _ \<Rightarrow> Inl OpPanic)"

definition inherited_ref :: "json \<Rightarrow> string option" where
  "inherited_ref task = jget_str task ''instrument_ref''"

text \<open>What is saved: the run of a command for the task at position \<open>n\<close>.\<close>

definition record_run ::
    "(string \<Rightarrow> string) \<Rightarrow> (nat \<Rightarrow> string) \<Rightarrow> runner_options \<Rightarrow> captured \<Rightarrow> string option \<Rightarrow> nat \<Rightarrow> lto_state
     \<Rightarrow> op_error + lto_state" where
  "record_run sha clock opts c ref n st =
     (let task = json_array (st_tasks st) ! n in
      if ca_rc c = 0 then
        (let st1 = st\<lparr>st_tasks := put_task (st_tasks st) n (run_passed clock opts c ref task)\<rparr> in
         if ro_kind opts = ''test'' then
           (case index_set ''last_tested_head'' (JStr (ca_head_after c)) (st_gates st) of
              Inl e \<Rightarrow> Inl e
            | Inr g \<Rightarrow> Inr (st1\<lparr>st_gates := g\<rparr>))
         else Inr st1)
      else
        (let retry = retry_of (recorded_run (clock 0) opts c ref task) (command_fingerprint sha (ro_command opts))
         in Inr (st\<lparr>st_tasks := put_task (st_tasks st) n (run_failed sha clock opts c ref task),
              st_last_failure := JStr ((ro_task_id opts) @ '': '' @ (ro_kind opts) @ '' rc='' @ (show_rc (ca_rc c)) @ '' (retry '' @ (show_u64 retry) @ '')'')\<rparr>)))"

definition rc_status :: "int \<Rightarrow> string" where
  "rc_status rc = (if rc = 0 then ''ok'' else if rc = 124 then ''timeout'' else ''failed'')"

definition run_finished ::
    "(string \<Rightarrow> string) \<Rightarrow> runner_options \<Rightarrow> captured \<Rightarrow> string option \<Rightarrow> string \<Rightarrow> event_record" where
  "run_finished sha opts c ref phase =
     default_event\<lparr>er_event_type := ''runner.finished'', er_actor_kind := ''runner'',
       er_actor_id := Some ''lto-runner'', er_phase := Some phase, er_task_id := Some (ro_task_id opts),
       er_object_id := Some (ro_task_id opts), er_object_type := Some ''task'',
       er_summary := ((ro_kind opts) @ '' rc='' @ (show_rc (ca_rc c))),
       er_fields := set_opt ''instrument_ref'' ref
         (jobj [(''kind'', JStr (ro_kind opts)), (''command_hash'', JStr (sha (ro_command opts))),
            (''rc'', JInt (ca_rc c)), (''status'', JStr (rc_status (ca_rc c))),
            (''elapsed_sec'', jfloat (ca_elapsed c)), (''timeout'', JBool (ca_rc c = 124))])\<rparr>"

text \<open>The saved state, the event and whether the exit code makes the command an error.\<close>

definition run_task_command ::
    "(string \<Rightarrow> string) \<Rightarrow> (nat \<Rightarrow> string) \<Rightarrow> runner_options \<Rightarrow> (string + captured) \<Rightarrow> lto_state
     \<Rightarrow> op_error + lto_state \<times> event_record \<times> string option" where
  "run_task_command sha clock opts capture st =
     (case ensure_valid_kind (ro_kind opts) of
        Inl e \<Rightarrow> Inl (OpErr e)
      | Inr _ \<Rightarrow>
     (case find_task_mut (st_tasks st) (ro_task_id opts) of
        Inl e \<Rightarrow> Inl (OpErr e)
      | Inr n \<Rightarrow>
     (case resolve_instrument_ref sha (st_delivery_contract st) (ro_instrument_ref opts)
             (inherited_ref (json_array (st_tasks st) ! n)) (ro_command opts) of
        Inl e \<Rightarrow> Inl (OpErr e)
      | Inr ref \<Rightarrow>
     (case capture of
        Inl e \<Rightarrow> Inl (OpErr e)
      | Inr c \<Rightarrow>
     (case record_run sha clock opts c ref n st of
        Inl e \<Rightarrow> Inl e
      | Inr st' \<Rightarrow> Inr (st', run_finished sha opts c ref (st_current_phase st),
          if ca_rc c = 0 then None else Some (''runner command failed rc='' @ (show_rc (ca_rc c)))))))))"

end
