(* ===== verification/Lto_Autopilot.thy ===== *)
theory Lto_Autopilot
  imports Lto_Tasks
begin

text \<open>
  What is decided and done from the tasks of a run, from \<open>src/src/commands/ops.rs\<close>: the facts and the
  route of \<open>lto next\<close>, the progress digest that tells a stalled run from a moving one, the sandbox of
  \<open>src/src/worktree.rs\<close> and the pass of the autopilot over the tasks. \<open>sha\<close> is SHA-256 in hex and
  \<open>show\<close> writes a JSON value; git, the shell and the worker in a terminal are arguments.
\<close>

subsection \<open>Facts and route\<close>

definition status_or_pending :: "json \<Rightarrow> string" where
  "status_or_pending task = opt_get_or ''pending'' (task_status task)"

definition count_status :: "json_map \<Rightarrow> json \<Rightarrow> json_map" where
  "count_status m task =
     (let s = status_or_pending task
      in bt_insert s (ju64 (opt_get_or 0 (jget_u64 (JObj m) s) + 1)) m)"

definition task_summary :: "json \<Rightarrow> json" where
  "task_summary task =
     jobj [(''id'', JStr (opt_get_or [] (jget_str task ''id''))),
       (''title'', JStr (opt_get_or [] (jget_str task ''title''))), (''status'', JStr (status_or_pending task))]"

definition summaries :: "string \<Rightarrow> json list \<Rightarrow> json" where
  "summaries s tasks = JArr (map task_summary (filter (\<lambda>t. status_or_pending t = s) tasks))"

definition unresolved_blocks :: "lto_state \<Rightarrow> json list" where
  "unresolved_blocks st = opt_get_or [] (jget_with as_array (st_gates st) ''unresolved_blocks'')"

definition open_unverified_risks :: "lto_state \<Rightarrow> json list" where
  "open_unverified_risks st = filter risk_is_open_unverified (json_array (st_risk_points st))"

definition risk_keywords :: "string list" where
  "risk_keywords =
     [''auth'', ''authorization'', ''authentication'', ''permission'', ''secret'', ''token'', ''migration'',
      ''database'', ''deploy'', ''persistence'', ''security'', ''payment'', ''callback'', ''webhook'', ''tenant'']"

definition has_high_risk_task :: "(json \<Rightarrow> string) \<Rightarrow> json \<Rightarrow> bool" where
  "has_high_risk_task show tasks =
     list_ex (\<lambda>t. list_ex (\<lambda>k. contains_str k (to_ascii_lowercase (show t))) risk_keywords) (json_array tasks)"

definition counted :: "json_map \<Rightarrow> string \<Rightarrow> u64" where
  "counted m s = opt_get_or 0 (jget_u64 (JObj m) s)"

definition analyze_state :: "(json \<Rightarrow> string) \<Rightarrow> string \<Rightarrow> lto_state \<Rightarrow> json" where
  "analyze_state show head st =
     (let tasks = json_array (st_tasks st);
          counts = foldl count_status [] tasks;
          unresolved = unresolved_blocks st;
          n = int (length tasks) in
      jobj [(''phase'', JStr (st_current_phase st)), (''has_tasks'', JBool (tasks \<noteq> [])),
        (''task_counts'', JObj counts), (''total_tasks'', JInt n),
        (''all_done'', JBool (tasks \<noteq> [] \<and> uint (counted counts ''done'') = n)),
        (''all_non_skipped_done'',
           JBool (tasks \<noteq> [] \<and> uint (counted counts ''done'' + counted counts ''skipped'') = n)),
        (''blocked'', summaries ''blocked'' tasks), (''pending'', summaries ''pending'' tasks),
        (''in_progress'', summaries ''in_progress'' tasks), (''done'', summaries ''done'' tasks),
        (''unverified_risk_points'', JInt (int (length (open_unverified_risks st)))),
        (''has_high_risk_unreviewed'', JBool (has_high_risk_task show (st_tasks st))),
        (''last_failure'', st_last_failure st),
        (''gates'',
           jobj [(''last_tested_head'', opt_get_or JNull (jget (st_gates st) ''last_tested_head'')),
             (''last_reviewed_head'', opt_get_or JNull (jget (st_gates st) ''last_reviewed_head'')),
             (''actual_head'', JStr head), (''has_unresolved'', JBool (unresolved \<noteq> [])),
             (''unresolved_blocks'', JArr unresolved)])])"

definition list_len :: "json \<Rightarrow> string \<Rightarrow> nat" where
  "list_len facts k = length (opt_get_or [] (jget_with as_array facts k))"

definition count_part :: "string \<Rightarrow> nat \<Rightarrow> string list" where
  "count_part word n = (if 0 < n then [((show_nat n) @ '' '' @ word @ '' tasks'')] else [])"

definition escalate :: "string \<Rightarrow> json" where
  "escalate reason =
     jobj [(''action'', JStr ''escalate''), (''unambiguous'', JBool False), (''reason'', JStr reason)]"

definition closeout_route :: json where
  "closeout_route =
     jobj [(''action'', JStr ''run''),
       (''argv'', JArr [JStr ''closeout'', JStr ''--summary'', JStr ''all tasks done (lto next)'']),
       (''cmd'', JStr (''lto closeout --summary '' @ [CHR 0x22] @ ''all tasks done (lto next)'' @ [CHR 0x22])), (''pattern'', JStr ''linear''),
       (''unambiguous'', JBool True), (''reason'', JStr ''all tasks done, gates clear'')]"

definition judge_route :: "string \<Rightarrow> json" where
  "judge_route phase =
     jobj [(''action'', JStr ''run''), (''argv'', JArr [JStr ''judge'', JStr ''--phase'', JStr phase]),
       (''cmd'', JStr (''lto judge --phase '' @ phase)), (''pattern'', JStr ''judge''), (''unambiguous'', JBool True),
       (''reason'', JStr (''all tasks in phase '' @ [CHR 0x27] @ phase @ [CHR 0x27] @ '' done, needs judgement''))]"

definition route_next :: "json \<Rightarrow> json" where
  "route_next facts =
     (let phase = opt_get_or [] (jget_str facts ''phase'');
          all_done = opt_get_or False (jget_bool facts ''all_non_skipped_done'');
          gates = opt_get_or JNull (jget facts ''gates'');
          has_unresolved = opt_get_or False (jget_bool gates ''has_unresolved'');
          unverified = opt_get_or 0 (jget_u64 facts ''unverified_risk_points'');
          parts = count_part ''blocked'' (list_len facts ''blocked'')
            @ count_part ''pending'' (list_len facts ''pending'')
            @ count_part ''in-progress'' (list_len facts ''in_progress'') in
      if \<not> opt_get_or False (jget_bool facts ''has_tasks'')
      then escalate (''phase '' @ [CHR 0x27] @ phase @ [CHR 0x27] @ '' has no tasks -- cannot auto-advance, host LLM must decide'')
      else if all_done \<and> \<not> has_unresolved \<and> unverified = 0 \<and> phase \<in> set VALID_PHASES then closeout_route
      else if all_done \<and> phase \<in> set VALID_PHASES then judge_route phase
      else escalate (if parts = [] then ''no unambiguous routing matches''
                     else (''ambiguous state: '' @ (join_str '', '' parts))))"

text \<open>\<open>facts[key]\<close> is null when the key is missing; a count is written as JSON.\<close>

definition fact :: "json \<Rightarrow> string \<Rightarrow> json" where
  "fact facts k = opt_get_or JNull (jget facts k)"

definition brief_count :: "json \<Rightarrow> string \<Rightarrow> string" where
  "brief_count facts s = show_u64 (opt_get_or 0 (jget_u64 (fact facts ''task_counts'') s))"

definition decision_brief :: "(json \<Rightarrow> string) \<Rightarrow> lto_state \<Rightarrow> json \<Rightarrow> string" where
  "decision_brief show st facts =
     join_str [CHR 0x0A]
       ([''# LTO Decision Brief'', [],
         ''This brief is deterministic state only. The host agent must decide the next pattern.'', [],
         ''## Current State'', [], (''- **Goal**: '' @ (st_goal st)),
         (''- **Phase**: '' @ (opt_get_or ''unknown'' (as_str (fact facts ''phase'')))),
         (''- **Tasks**: '' @ (show (fact facts ''total_tasks'')) @ '' total (done='' @ (brief_count facts ''done'') @ '', in_progress='' @ (brief_count facts ''in_progress'') @ '', blocked='' @ (brief_count facts ''blocked'') @ '', pending='' @ (brief_count facts ''pending'') @ '')''),
         (''- **Unverified risk points**: '' @ (show_u64 (opt_get_or 0 (as_u64 (fact facts ''unverified_risk_points''))))),
         [], ''## Candidate Actions'', []]
        @ (if 0 < list_len facts ''blocked''
           then [(''1. **Fix blocked tasks** -- '' @ [CHR 0x60] @ ''linear'' @ [CHR 0x60] @ '' or '' @ [CHR 0x60] @ ''fan-out'' @ [CHR 0x60])] else [])
        @ (if 0 < list_len facts ''pending'' \<or> 0 < list_len facts ''in_progress''
           then [(''2. **Pursue remaining work** -- '' @ [CHR 0x60] @ ''linear'' @ [CHR 0x60] @ '' or '' @ [CHR 0x60] @ ''fan-out'' @ [CHR 0x60])] else [])
        @ (if opt_get_or False (as_bool (fact facts ''all_non_skipped_done''))
           then [''3. **Judge or closeout** -- gates determine the next primitive''] else [])
        @ [[], ''---'', ''Facts only; host reasoning remains authoritative.''])"

subsection \<open>The progress digest\<close>

definition evidence_rc :: "json \<Rightarrow> int option" where
  "evidence_rc e = jget_with as_i64 e ''rc''"

definition rc0_count :: "json \<Rightarrow> nat" where
  "rc0_count task = length (filter (\<lambda>e. evidence_rc e = Some 0) (task_evidence task))"

definition str_items :: "json \<Rightarrow> string \<Rightarrow> string list" where
  "str_items v k = List.map_filter as_str (opt_get_or [] (jget_with as_array v k))"

definition failure_fingerprint :: "(string \<Rightarrow> string) \<Rightarrow> json \<Rightarrow> string" where
  "failure_fingerprint sha task =
     (case find (\<lambda>e. opt_get_or 0 (evidence_rc e) \<noteq> 0) (rev (task_evidence task)) of
        None \<Rightarrow> []
      | Some e \<Rightarrow> sha (show_rc (opt_get_or 1 (evidence_rc e)) @ [CHR 0x0A]
                       @ join_str [CHR 0x0A] (str_items e ''stderr_tail'')))"

definition task_digest_projection :: "(string \<Rightarrow> string) \<Rightarrow> json \<Rightarrow> json" where
  "task_digest_projection sha task =
     jobj [(''id'', fact task ''id''), (''status'', fact task ''status''),
       (''commands_run'', fact task ''commands_run''), (''blockers'', fact task ''blockers''),
       (''retry_count'', fact task ''retry_count''), (''failure_fp'', JStr (failure_fingerprint sha task)),
       (''rc0_count'', jnat (rc0_count task))]"

definition by_id :: "(json \<Rightarrow> json) \<Rightarrow> json list \<Rightarrow> json" where
  "by_id f tasks = jobj (List.map_filter (\<lambda>t. map_option (\<lambda>i. (i, f t)) (task_id t)) tasks)"

text \<open>\<open>artifacts\<close> are the bytes of the artifact manifest, when it can be read.\<close>

definition progress_digest ::
    "(string \<Rightarrow> string) \<Rightarrow> (json \<Rightarrow> string) \<Rightarrow> string option \<Rightarrow> lto_state \<Rightarrow> json" where
  "progress_digest sha show artifacts st =
     (let tasks = json_array (st_tasks st);
          blocked = filter (\<lambda>t. task_status t = Some ''blocked'') tasks;
          ledger = ju64 (opt_get_or 0 (jget_u64 (st_gates st) ''ledger_blockers''));
          projection = jobj [(''phase'', JStr (st_current_phase st)),
            (''tasks'', JArr (map (task_digest_projection sha) tasks)),
            (''unresolved_blocks'', JArr (unresolved_blocks st)),
            (''risk_points'', st_risk_points st), (''ledger_blockers'', ledger)] in
      jobj [(''state_hash'', JStr (sha (show projection))),
        (''artifact_hash'', JStr (opt_get_or [] (map_option sha artifacts))),
        (''done'', jnat (length (filter (\<lambda>t. task_status t = Some ''done'') tasks))),
        (''blocked_count'', jnat (length blocked)),
        (''blocked_fp'', by_id (\<lambda>t. JStr (failure_fingerprint sha t)) blocked),
        (''rc0_evidence'', by_id (\<lambda>t. jnat (rc0_count t)) tasks),
        (''ledger_blockers'', ledger),
        (''verified_risks'', jnat (length (filter risk_is_verified (json_array (st_risk_points st)))))])"

definition json_u64_field :: "json \<Rightarrow> string \<Rightarrow> u64" where
  "json_u64_field v k = opt_get_or 0 (jget_u64 v k)"

definition object_field :: "json \<Rightarrow> string \<Rightarrow> json_map" where
  "object_field v k = opt_get_or [] (jget_with as_object v k)"

definition rc0_of :: "json \<Rightarrow> string \<Rightarrow> u64" where
  "rc0_of v i = opt_get_or 0 (jget_u64 (fact v ''rc0_evidence'') i)"

definition blocked_task_got_success :: "json \<Rightarrow> json \<Rightarrow> bool" where
  "blocked_task_got_success prev cur =
     list_ex (\<lambda>i. rc0_of prev i < rc0_of cur i)
       (filter (\<lambda>i. \<not> bt_has (object_field cur ''blocked_fp'') i) (bt_keys (object_field prev ''blocked_fp'')))"

definition failure_fingerprints_changed :: "json \<Rightarrow> json \<Rightarrow> bool" where
  "failure_fingerprints_changed prev cur =
     list_ex (\<lambda>(i, fp). opt_all (\<lambda>fp'. fp' \<noteq> fp) (bt_get (object_field cur ''blocked_fp'') i))
       (object_field prev ''blocked_fp'')"

definition arrow :: "string \<Rightarrow> u64 \<Rightarrow> u64 \<Rightarrow> string" where
  "arrow what a b = (what @ '' '' @ (show_u64 a) @ ''->'' @ (show_u64 b))"

definition has_progressed :: "json \<Rightarrow> json \<Rightarrow> bool \<times> string" where
  "has_progressed prev cur =
     (let d = json_u64_field prev ''done''; d' = json_u64_field cur ''done'';
          l = json_u64_field prev ''ledger_blockers''; l' = json_u64_field cur ''ledger_blockers'';
          r = json_u64_field prev ''verified_risks''; r' = json_u64_field cur ''verified_risks'';
          b = json_u64_field prev ''blocked_count''; b' = json_u64_field cur ''blocked_count'' in
      if \<not> is_object prev \<or> as_object prev = Some [] then (True, ''first step (no baseline)'')
      else if d < d' then (True, arrow ''done'' d d')
      else if l' < l then (True, arrow ''ledger blockers'' l l')
      else if r < r' then (True, arrow ''verified risks'' r r')
      else if b' < b \<and> blocked_task_got_success prev cur
      then (True, arrow ''blocked'' b b' @ '' with passing evidence'')
      else if failure_fingerprints_changed prev cur then (True, ''failure fingerprint changed'')
      else if jget_str prev ''artifact_hash'' \<noteq> jget_str cur ''artifact_hash''
      then (True, ''artifact manifest changed'')
      else (False, ''no monotone improvement; same progress digest''))"

text \<open>The marks are those of the gates after the digest was put there.\<close>

definition default_high_water :: json where
  "default_high_water = jobj [(''done'', JInt 0), (''verified_risks'', JInt 0)]"

definition raise_high_water :: "json \<Rightarrow> json \<Rightarrow> json" where
  "raise_high_water digest hw =
     (let m = json_object_mut hw;
          done = max (json_u64_field (JObj m) ''done'') (json_u64_field digest ''done'');
          risks = max (json_u64_field (JObj m) ''verified_risks'') (json_u64_field digest ''verified_risks'')
      in JObj (bt_insert ''verified_risks'' (ju64 risks) (bt_insert ''done'' (ju64 done) m)))"

definition update_autopilot_digest :: "json \<Rightarrow> lto_state \<Rightarrow> op_error + lto_state" where
  "update_autopilot_digest digest st =
     (case index_set ''autopilot_last_digest'' digest (st_gates st) of
        Inl e \<Rightarrow> Inl e
      | Inr g \<Rightarrow>
          Inr (st\<lparr>st_gates := jset ''progress_high_water''
                 (raise_high_water digest (opt_get_or default_high_water (jget g ''progress_high_water''))) g\<rparr>))"

subsection \<open>The sandbox\<close>

record sandbox_result =
  sr_executed :: bool
  sr_effect :: effect_class
  sr_rc :: "int option"
  sr_stdout :: string
  sr_stderr :: string
  sr_worktree :: "string option"
  sr_note :: string

definition refused :: "effect_class \<Rightarrow> string \<Rightarrow> sandbox_result" where
  "refused e note =
     \<lparr> sr_executed = False, sr_effect = e, sr_rc = None, sr_stdout = [], sr_stderr = [],
       sr_worktree = None, sr_note = note \<rparr>"

text \<open>\<open>w_shell\<close> runs the command in the new worktree, in its own environment; \<open>wt\<close> is the path in the
  temporary directory.\<close>

definition run_in_ephemeral_worktree ::
    "'w world \<Rightarrow> 'w \<Rightarrow> string \<Rightarrow> (string \<Rightarrow> effect_class) \<Rightarrow> (string + string) \<Rightarrow> string \<Rightarrow> bool
     \<Rightarrow> (worktree_error + sandbox_result) \<times> 'w" where
  "run_in_ephemeral_worktree W s repo classify wt command allow_network =
     (case ensure_git_repo W s repo of
        (Inl e, s1) \<Rightarrow> (Inl (WtGit e), s1)
      | (Inr _, s1) \<Rightarrow>
     (let e = classify command in
      if ef_level e = NeedsSemanticJudgement then (Inr (refused e ''refused: needs human judgement''), s1)
      else if ef_level e = Network \<and> \<not> allow_network
      then (Inr (refused e ''refused: network disabled''), s1)
      else case wt of
        Inl err \<Rightarrow> (Inl (WtIo err), s1)
      | Inr dir \<Rightarrow>
     (case git W s1 repo [''worktree'', ''add'', ''--detach'', dir, ''HEAD''] of
        (Inl err, s2) \<Rightarrow> (Inl (WtGit err), s2)
      | (Inr _, s2) \<Rightarrow>
     (case w_shell W s2 dir command of
        (Inl err, s3) \<Rightarrow> (Inl (WtIo err), s3)
      | (Inr out, s3) \<Rightarrow>
          (Inr \<lparr> sr_executed = True, sr_effect = e, sr_rc = co_code out, sr_stdout = co_stdout out,
                 sr_stderr = co_stderr out, sr_worktree = Some dir,
                 sr_note = ''executed in ephemeral worktree sandbox'' \<rparr>,
           snd (git W (snd (git W s3 repo [''worktree'', ''remove'', ''--force'', dir])) repo
                  [''worktree'', ''prune'']))))))"

subsection \<open>The pass over the tasks\<close>

record autopilot_options =
  ao_auto_exec :: bool
  ao_autonomous :: bool

datatype worker_carrier = CarrierSandbox | CarrierTmux

text \<open>\<open>auto\<close> is whether a target or a terminal is there and the binary answers.\<close>

definition select_worker_carrier :: "string \<Rightarrow> bool \<Rightarrow> worker_carrier" where
  "select_worker_carrier worker_runner auto =
     (if worker_runner = ''sandbox'' then CarrierSandbox
      else if worker_runner = ''tmux'' then CarrierTmux
      else if auto then CarrierTmux else CarrierSandbox)"

definition carrier_str :: "worker_carrier \<Rightarrow> string" where
  "carrier_str c = (case c of CarrierSandbox \<Rightarrow> ''sandbox'' | CarrierTmux \<Rightarrow> ''tmux'')"

definition planned_or_last_command :: "json \<Rightarrow> string option" where
  "planned_or_last_command task =
     opt_or (case opt_get_or [] (jget_with as_array task ''commands_run'') of
               [] \<Rightarrow> None | c # cs \<Rightarrow> as_str (last (c # cs)))
       (jget_str task ''planned_command'')"

definition retry_count :: "json \<Rightarrow> u64" where
  "retry_count task = opt_get_or 0 (jget_u64 task ''retry_count'')"

definition is_open_task :: "json \<Rightarrow> bool" where
  "is_open_task task \<longleftrightarrow> status_or_pending task \<in> set [''pending'', ''in_progress'']"

definition has_actionable_autopilot_task ::
    "(string \<Rightarrow> effect_class) \<Rightarrow> worker_carrier \<Rightarrow> autopilot_options \<Rightarrow> lto_state \<Rightarrow> bool" where
  "has_actionable_autopilot_task classify carrier opts st =
     list_ex (\<lambda>task.
         is_open_task task \<and> retry_count task < 3
         \<and> opt_all (\<lambda>c. carrier = CarrierTmux
               \<or> ef_level (classify c) \<noteq> NeedsSemanticJudgement
                 \<and> (\<not> ao_autonomous opts \<or> ef_level (classify c) \<noteq> Network))
             (planned_or_last_command task))
       (json_array (st_tasks st))"

text \<open>The worker in a terminal: the job's result, then the contract file it left.\<close>

datatype tmux_outcome =
    TmuxHeld string "agent_result option"
  | TmuxRan int string agent_result

definition sanitize_worker_id :: "string \<Rightarrow> string" where
  "sanitize_worker_id v =
     (let s = map (\<lambda>c. if is_ascii_alphanumeric c \<or> c \<in> set ''-_.'' then c else CHR ''-'')
                  (filter (\<lambda>c. \<not> is_cont c) v)
      in if s = [] then ''task'' else s)"

definition tmux_worker_evidence ::
    "string \<Rightarrow> string \<Rightarrow> string \<Rightarrow> string \<Rightarrow> agent_result \<Rightarrow> int \<Rightarrow> string \<Rightarrow> json" where
  "tmux_worker_evidence now command contract_path job_id result rc summary =
     jobj [(''kind'', JStr ''worker''), (''carrier'', JStr ''tmux''), (''command'', JStr command),
       (''job_id'', JStr job_id), (''runner_status'', JStr (job_status_str (ar_status result))),
       (''runner_error'', JStr (ar_error result)), (''contract'', JStr contract_path), (''rc'', JInt rc),
       (''summary'', JStr summary), (''verified_by'', JStr ''autopilot''), (''ended_at'', JStr now),
       (''reply_tail'', JArr (map JStr (tail_lines (ar_reply_text result) 20)))]"

definition contract_rc :: "json option \<Rightarrow> int" where
  "contract_rc contract =
     (case contract of
        None \<Rightarrow> 1
      | Some v \<Rightarrow> (case jget_with as_i64 v ''rc'' of
          None \<Rightarrow> 1
        | Some n \<Rightarrow> if - 2147483648 \<le> n \<and> n < 2147483648 then n else 1))"

definition contract_summary :: "json option \<Rightarrow> string" where
  "contract_summary contract =
     (if contract = None then ''autopilot tmux worker: missing completion contract''
      else (''autopilot tmux worker: '' @ (if contract_rc contract = 0 then ''PASS'' else ''FAIL'')))"

text \<open>\<open>submitted\<close> is what the scheduler returned (the results were also emitted, which may fail), \<open>contract\<close>
  what reading the contract file gave: an error, no file, or its value.\<close>

definition tmux_worker_done ::
    "string \<Rightarrow> string \<Rightarrow> json \<Rightarrow> string \<Rightarrow> (string + string + agent_result list)
     \<Rightarrow> (string + json option) \<Rightarrow> string + json \<times> tmux_outcome" where
  "tmux_worker_done now contract_path task command submitted contract =
     (let job_id = ''autopilot-'' @ sanitize_worker_id (opt_get_or ''task'' (task_id task)) in
      case submitted of
        Inl e \<Rightarrow> Inl e
      | Inr (Inl e) \<Rightarrow> Inr (task, TmuxHeld (''tmux worker submission failed: '' @ e) None)
      | Inr (Inr []) \<Rightarrow> Inr (task, TmuxHeld ''tmux worker returned no result'' None)
      | Inr (Inr (result # _)) \<Rightarrow>
          (if ar_status result \<noteq> JobOk then
             (let reason = (''tmux worker '' @ (job_status_str (ar_status result)) @ '': '' @ (ar_error result)) in
              Inr (append_to_object_array task ''evidence''
                     (tmux_worker_evidence now command contract_path job_id result 1 reason),
                   TmuxHeld reason (Some result)))
           else (case contract of
             Inl e \<Rightarrow> Inl e
           | Inr c \<Rightarrow>
               Inr (append_to_object_array task ''evidence''
                      (tmux_worker_evidence now command contract_path job_id result
                         (contract_rc c) (contract_summary c)),
                    TmuxRan (contract_rc c) job_id result))))"

text \<open>What the pass does with one task.\<close>

datatype exec_note =
    ExSkip
  | ExRetryBlocked string
  | ExHeld string "agent_result option"
  | ExRan int "agent_result option"

definition sandbox_evidence :: "string \<Rightarrow> string \<Rightarrow> sandbox_result \<Rightarrow> int \<Rightarrow> json" where
  "sandbox_evidence now command r rc =
     jobj [(''kind'', JStr ''test''), (''command'', JStr command),
       (''cwd'', JStr (opt_get_or [] (sr_worktree r))), (''rc'', JInt rc),
       (''summary'', JStr (''autopilot sandbox: '' @ (if rc = 0 then ''PASS'' else ''FAIL''))),
       (''verified_by'', JStr ''autopilot''), (''ended_at'', JStr now), (''carrier'', JStr ''sandbox'')]"

definition last_evidence :: "json \<Rightarrow> json" where
  "last_evidence task = (case task_evidence task of [] \<Rightarrow> jobj [] | e # es \<Rightarrow> last (e # es))"

definition settle_task :: "(string \<Rightarrow> string) \<Rightarrow> string \<Rightarrow> string \<Rightarrow> int \<Rightarrow> json \<Rightarrow> json" where
  "settle_task sha now command rc task =
     jset ''last_update'' (JStr now)
       (if rc = 0
        then (let t = jset ''status'' (JStr ''done'') task in resolve_blockers t (last_evidence t))
        else jset ''status'' (JStr ''blocked'') (bump_retry sha task command))"

definition exec_sandbox ::
    "(string \<Rightarrow> string) \<Rightarrow> string \<Rightarrow> string \<Rightarrow> json \<Rightarrow> sandbox_result \<Rightarrow> json \<times> exec_note" where
  "exec_sandbox sha now command task r =
     (if \<not> sr_executed r then (task, ExHeld (sr_note r) None)
      else let rc = opt_get_or 1 (sr_rc r) in
        (settle_task sha now command rc
           (append_to_object_array task ''evidence'' (sandbox_evidence now command r rc)),
         ExRan rc None))"

definition exec_tmux ::
    "(string \<Rightarrow> string) \<Rightarrow> string \<Rightarrow> string \<Rightarrow> json \<times> tmux_outcome \<Rightarrow> json \<times> exec_note" where
  "exec_tmux sha now command p =
     (case p of
        (task, TmuxHeld reason r) \<Rightarrow> (task, ExHeld reason r)
      | (task, TmuxRan rc job r) \<Rightarrow> (settle_task sha now command rc task, ExRan rc (Some r)))"

text \<open>
  The two ways to run a command: in the sandbox, and for a task in a terminal, by submitting a job
  and reading the contract file it leaves.
\<close>

record 'w workers =
  wk_sandbox :: "'w \<Rightarrow> string \<Rightarrow> (string + sandbox_result) \<times> 'w"
  wk_submit :: "'w \<Rightarrow> json \<Rightarrow> string \<Rightarrow> (string + string + agent_result list) \<times> 'w"
  wk_contract :: "'w \<Rightarrow> string \<Rightarrow> string + json option"
  wk_live_dir :: string

definition run_tmux_autopilot_worker ::
    "'w workers \<Rightarrow> string \<Rightarrow> 'w \<Rightarrow> json \<Rightarrow> string \<Rightarrow> (string + json \<times> tmux_outcome) \<times> 'w" where
  "run_tmux_autopilot_worker K now s task command =
     (let path = path_join (wk_live_dir K)
            (sanitize_worker_id (opt_get_or ''task'' (task_id task)) @ ''.worker.json'');
          (sub, s') = wk_submit K s task command
      in (tmux_worker_done now path task command sub (wk_contract K s' path), s'))"

definition exec_task ::
    "(string \<Rightarrow> string) \<Rightarrow> string \<Rightarrow> 'w workers \<Rightarrow> worker_carrier \<Rightarrow> 'w \<Rightarrow> json
     \<Rightarrow> (string + json \<times> exec_note) \<times> 'w" where
  "exec_task sha now K carrier s task =
     (case planned_or_last_command task of
        None \<Rightarrow> (Inr (task, ExSkip), s)
      | Some command \<Rightarrow>
          (if \<not> is_open_task task then (Inr (task, ExSkip), s)
           else if 3 \<le> retry_count task
           then (Inr (task, ExRetryBlocked (''refused: retry_count='' @ (show_u64 (retry_count task)) @ '' >= 3'')), s)
           else (case carrier of
             CarrierSandbox \<Rightarrow>
               (case wk_sandbox K s command of
                  (Inl e, s') \<Rightarrow> (Inl e, s')
                | (Inr r, s') \<Rightarrow> (Inr (exec_sandbox sha now command task r), s'))
           | CarrierTmux \<Rightarrow>
               (case run_tmux_autopilot_worker K now s task command of
                  (Inl e, s') \<Rightarrow> (Inl e, s')
                | (Inr p, s') \<Rightarrow> (Inr (exec_tmux sha now command p), s')))))"

text \<open>An error ends the pass, and what was recorded before it is not saved.\<close>

fun exec_tasks ::
    "(string \<Rightarrow> string) \<Rightarrow> string \<Rightarrow> 'w workers \<Rightarrow> worker_carrier \<Rightarrow> 'w \<Rightarrow> json list
     \<Rightarrow> (string + (json \<times> exec_note) list) \<times> 'w" where
  "exec_tasks sha now K carrier s [] = (Inr [], s)"
| "exec_tasks sha now K carrier s (t # ts) =
     (case exec_task sha now K carrier s t of
        (Inl e, s') \<Rightarrow> (Inl e, s')
      | (Inr p, s') \<Rightarrow>
          (case exec_tasks sha now K carrier s' ts of
             (Inl e, s'') \<Rightarrow> (Inl e, s'')
           | (Inr ps, s'') \<Rightarrow> (Inr (p # ps), s'')))"

definition pass_status :: "exec_note list \<Rightarrow> string" where
  "pass_status ns =
     (if list_ex (\<lambda>n. case n of ExRetryBlocked _ \<Rightarrow> True | _ \<Rightarrow> False) ns then ''NEEDS_HUMAN''
      else if list_ex (\<lambda>n. case n of ExRan rc _ \<Rightarrow> rc \<noteq> 0 | _ \<Rightarrow> False) ns then ''NEEDS_HOST''
      else if list_ex (\<lambda>n. case n of ExHeld _ _ \<Rightarrow> True | _ \<Rightarrow> False) ns then ''NEEDS_CONFIRM''
      else ''DONE'')"

definition note_result :: "json \<times> exec_note \<Rightarrow> (string \<times> agent_result) option" where
  "note_result p =
     (case snd p of
        ExHeld _ (Some r) \<Rightarrow> Some (opt_get_or ''?'' (task_id (fst p)), r)
      | ExRan _ (Some r) \<Rightarrow> Some (opt_get_or ''?'' (task_id (fst p)), r)
      | _ \<Rightarrow> None)"

definition auto_exec_tasks ::
    "(string \<Rightarrow> string) \<Rightarrow> (agent_result \<Rightarrow> json) \<Rightarrow> string \<Rightarrow> 'w workers \<Rightarrow> worker_carrier \<Rightarrow> 'w \<Rightarrow> lto_state
     \<Rightarrow> (string + lto_state \<times> string) \<times> 'w" where
  "auto_exec_tasks sha wr now K carrier s st =
     (case exec_tasks sha now K carrier s (json_array (st_tasks st)) of
        (Inl e, s') \<Rightarrow> (Inl e, s')
      | (Inr ps, s') \<Rightarrow>
          (let st1 = st\<lparr>st_tasks := JArr (map fst ps)\<rparr> in
           (Inr (foldl (\<lambda>x (i, r). append_agent_results_to_state wr x (Some i) [r]) st1
                   (List.map_filter note_result ps),
                 pass_status (map snd ps)), s')))"

subsection \<open>The command\<close>

text \<open>
  What the autopilot asks of the outside: the chrono parsers, the reader and writer of agent
  results, the hash, the JSON writer, the classifier of commands, the agent results of the
  repository's runs and its cross-run evidence, the carrier, and the bytes of the artifact manifest
  before and after the pass.
\<close>

record autopilot_env =
  ae_rfc :: "string \<Rightarrow> (int \<times> int) option"
  ae_naive :: "string \<Rightarrow> string + int"
  ae_read :: "json \<Rightarrow> agent_result option"
  ae_write :: "agent_result \<Rightarrow> json"
  ae_sha :: "string \<Rightarrow> string"
  ae_show :: "json \<Rightarrow> string"
  ae_classify :: "string \<Rightarrow> effect_class"
  ae_counts :: "nat list option"
  ae_evidence :: "string + nat \<times> evidence_entry list"
  ae_carrier :: worker_carrier
  ae_artifacts :: "string option"
  ae_artifacts_after :: "string option"
  ae_now :: string

definition budget_is_exceeded :: "autopilot_env \<Rightarrow> lto_state \<Rightarrow> bool" where
  "budget_is_exceeded E st \<longleftrightarrow>
     bc_overall (check_budget (ae_rfc E) (ae_naive E) (Some (st_budget st)) (st_started_at st)
       (tr_total_tokens (token_rollup_of (ae_read E) st)) (ae_now E)) = BudgetExceeded"

definition gate_is_open :: "autopilot_env \<Rightarrow> lto_state \<Rightarrow> bool" where
  "gate_is_open E st \<longleftrightarrow> gate_passes (autonomous_gate (ae_sha E) (ae_counts E) (ae_evidence E) st)"

text \<open>The result is the printed status and the state saved last, or the error and what was saved before.\<close>

datatype 's autopilot_result =
    Blocked string
  | Finished (ap_status: string) (ap_state: 's)
  | FailedPass op_error "'s option"

definition autopilot_digest :: "lto_state \<Rightarrow> json" where
  "autopilot_digest st = opt_get_or (jobj []) (jget (st_gates st) ''autopilot_last_digest'')"

definition take_turn :: "lto_state \<Rightarrow> lto_state" where
  "take_turn st = st\<lparr>st_budget := (st_budget st)\<lparr>rb_turns_used := sat_add (rb_turns_used (st_budget st)) 1\<rparr>\<rparr>"

definition with_digest :: "string \<Rightarrow> json \<Rightarrow> lto_state \<Rightarrow> lto_state option \<Rightarrow> lto_state autopilot_result" where
  "with_digest status digest st saved =
     (case update_autopilot_digest digest st of
        Inl e \<Rightarrow> FailedPass e saved
      | Inr st' \<Rightarrow> Finished status st')"

definition is_stalled :: "autopilot_env \<Rightarrow> lto_state \<Rightarrow> bool" where
  "is_stalled E st \<longleftrightarrow>
     \<not> fst (has_progressed (autopilot_digest st) (progress_digest (ae_sha E) (ae_show E) (ae_artifacts E) st))
     \<and> is_object (autopilot_digest st) \<and> as_object (autopilot_digest st) \<noteq> Some []"

definition run_pass ::
    "autopilot_env \<Rightarrow> 'w workers \<Rightarrow> autopilot_options \<Rightarrow> 'w \<Rightarrow> lto_state \<Rightarrow> lto_state autopilot_result \<times> 'w" where
  "run_pass E K opts s st =
     (let turn = has_actionable_autopilot_task (ae_classify E) (ae_carrier E) opts st;
          st1 = (if turn then take_turn st else st);
          saved = (if turn then Some st1 else None) in
      case auto_exec_tasks (ae_sha E) (ae_write E) (ae_now E) K (ae_carrier E) s st1 of
        (Inl e, s') \<Rightarrow> (FailedPass (OpErr e) saved, s')
      | (Inr (st2, status), s') \<Rightarrow>
          (with_digest status (progress_digest (ae_sha E) (ae_show E) (ae_artifacts_after E) st2) st2 saved, s'))"

definition cmd_autopilot ::
    "autopilot_env \<Rightarrow> 'w workers \<Rightarrow> autopilot_options \<Rightarrow> 'w \<Rightarrow> lto_state \<Rightarrow> lto_state autopilot_result \<times> 'w" where
  "cmd_autopilot E K opts s st =
     (if budget_is_exceeded E st \<or> ao_autonomous opts \<and> \<not> gate_is_open E st
      then (Blocked ''NEEDS_CONFIRM'', s)
      else if is_stalled E st
      then (with_digest ''STALLED'' (progress_digest (ae_sha E) (ae_show E) (ae_artifacts E) st) st None, s)
      else if ao_auto_exec opts \<or> ao_autonomous opts then run_pass E K opts s st
      else (with_digest ''NEEDS_HOST'' (progress_digest (ae_sha E) (ae_show E) (ae_artifacts E) st) st None, s))"

end
