(* ===== verification/Lto_Run_Steps.thy ===== *)
theory Lto_Run_Steps
  imports Lto_Autopilot
begin

text \<open>
  What holds of the commands of \<open>Lto_Tasks\<close> and \<open>Lto_Autopilot\<close> together: when the route closes out,
  what counts as progress, what the autopilot's pass may do to a task, and what every sequence of
  commands keeps of the tasks of a run (a step relation, and the invariant by rule induction).
\<close>

subsection \<open>The route\<close>

lemma counted_count_status:
  "counted (count_status m t) s = counted m s + (if status_or_pending t = s then 1 else 0)"
  by (simp add: counted_def count_status_def jget_with_def jget_def bt_get_insert Let_def)

lemma counted_fold:
  "counted (foldl count_status m ts) s
   = counted m s + of_nat (length (filter (\<lambda>t. status_or_pending t = s) ts))"
  by (induction ts arbitrary: m) (simp_all add: counted_count_status)

lemma counted_Nil: "counted [] s = 0"
  by (simp add: counted_def jget_with_def jget_def opt_get_or_def)

lemma all_settled_count:
  assumes "int (length ts) < 18446744073709551616"
  shows "uint (counted (foldl count_status [] ts) ''done'' + counted (foldl count_status [] ts) ''skipped'')
       = int (length ts)
     \<longleftrightarrow> (\<forall>t\<in>set ts. status_or_pending t \<in> {''done'', ''skipped''})"
proof -
  let ?n = "length (filter (\<lambda>t. status_or_pending t \<in> {''done'', ''skipped''}) ts)"
  let ?c = "\<lambda>s. length (filter (\<lambda>t. status_or_pending t = s) ts)"
  have "counted (foldl count_status [] ts) ''done'' + counted (foldl count_status [] ts) ''skipped''
      = of_nat (?c ''done'') + of_nat (?c ''skipped'')"
    by (simp add: counted_fold counted_Nil)
  also have "\<dots> = (of_nat (?c ''done'' + ?c ''skipped'') :: u64)" by (simp only: of_nat_add)
  also have "?c ''done'' + ?c ''skipped'' = ?n" by (rule length_filter_two) simp
  finally have "counted (foldl count_status [] ts) ''done'' + counted (foldl count_status [] ts) ''skipped''
      = (of_nat ?n :: u64)" .
  moreover have "int ?n < 18446744073709551616"
    using assms length_filter_le [of "\<lambda>t. status_or_pending t \<in> {''done'', ''skipped''}" ts] by linarith
  then have "uint (of_nat ?n :: u64) = int ?n" by (rule uint_u64_of_nat)
  ultimately show ?thesis using length_filter_all [of "\<lambda>t. status_or_pending t \<in> {''done'', ''skipped''}" ts] by simp
qed

lemma facts_of_state:
  "jget_str (analyze_state show head st) ''phase'' = Some (st_current_phase st)"
  "jget_bool (analyze_state show head st) ''has_tasks'' = Some (json_array (st_tasks st) \<noteq> [])"
  "jget_bool (analyze_state show head st) ''all_non_skipped_done''
     = Some (json_array (st_tasks st) \<noteq> []
         \<and> uint (counted (foldl count_status [] (json_array (st_tasks st))) ''done''
               + counted (foldl count_status [] (json_array (st_tasks st))) ''skipped'')
           = int (length (json_array (st_tasks st))))"
  "jget_u64 (analyze_state show head st) ''unverified_risk_points''
     = Some (of_nat (length (open_unverified_risks st)))"
  "jget_bool (opt_get_or JNull (jget (analyze_state show head st) ''gates'')) ''has_unresolved''
     = Some (unresolved_blocks st \<noteq> [])"
  by (simp_all add: analyze_state_def Let_def jget_with_def jget_def jobj_def bt_get_of_list as_str_def
      as_bool_def as_u64_def opt_get_or_def)

lemma routes_differ:
  "closeout_route \<noteq> judge_route p" "closeout_route \<noteq> escalate r"
proof -
  have "jget closeout_route ''pattern'' = Some (JStr ''linear'')" by code_simp
  moreover have "jget (judge_route p) ''pattern'' = Some (JStr ''judge'')"
    "jget (escalate r) ''pattern'' = None"
    by (simp_all add: judge_route_def escalate_def jget_def jobj_def bt_get_of_list)
  ultimately show "closeout_route \<noteq> judge_route p" "closeout_route \<noteq> escalate r" by auto
qed

lemma route_closeout:
  "route_next facts = closeout_route
   \<longleftrightarrow> opt_get_or False (jget_bool facts ''has_tasks'')
      \<and> opt_get_or False (jget_bool facts ''all_non_skipped_done'')
      \<and> \<not> opt_get_or False (jget_bool (opt_get_or JNull (jget facts ''gates'')) ''has_unresolved'')
      \<and> opt_get_or 0 (jget_u64 facts ''unverified_risk_points'') = 0
      \<and> opt_get_or [] (jget_str facts ''phase'') \<in> set VALID_PHASES"
  unfolding route_next_def Let_def
  by (simp only: routes_differ [symmetric] split: if_split) blast

text \<open>
  C37: The route of \<open>lto next\<close> is to close out exactly when there are tasks, each is done or skipped, no
  block is unresolved, no risk is open and unverified, and the phase is one of the known phases.
\<close>

theorem next_closes_out_iff:
  assumes "int (length (json_array (st_tasks st))) < 18446744073709551616"
    and "int (length (open_unverified_risks st)) < 18446744073709551616"
  shows "route_next (analyze_state show head st) = closeout_route
     \<longleftrightarrow> json_array (st_tasks st) \<noteq> []
        \<and> (\<forall>t\<in>set (json_array (st_tasks st)). status_or_pending t \<in> {''done'', ''skipped''})
        \<and> unresolved_blocks st = [] \<and> open_unverified_risks st = []
        \<and> st_current_phase st \<in> set VALID_PHASES"
proof -
  have "(of_nat (length (open_unverified_risks st)) :: u64) = 0 \<longleftrightarrow> open_unverified_risks st = []"
  proof
    assume "(of_nat (length (open_unverified_risks st)) :: u64) = 0"
    with uint_u64_of_nat [OF assms(2)] have "int (length (open_unverified_risks st)) = 0" by simp
    then show "open_unverified_risks st = []" by simp
  qed simp
  then show ?thesis
    unfolding route_closeout facts_of_state using all_settled_count [OF assms(1)]
    by (simp add: opt_get_or_def conj_ac)
qed

definition demo_done_state :: lto_state where
  "demo_done_state = (default_state ''t'')\<lparr> st_current_phase := ''deploy'',
     st_tasks := JArr [jobj [(''id'', JStr ''T1''), (''status'', JStr ''done'')],
                       jobj [(''id'', JStr ''T2''), (''status'', JStr ''skipped'')]] \<rparr>"

theorem next_closes_out_iff_witness:
  "route_next (analyze_state (\<lambda>_. []) ''h'' demo_done_state) = closeout_route"
  by (subst next_closes_out_iff) code_simp+

subsection \<open>Progress\<close>

lemma bt_get_wf: "bt_wf m \<Longrightarrow> (k, v) \<in> set m \<Longrightarrow> bt_get m k = Some v"
  by (simp add: bt_get_mem)

lemma no_progress_refl:
  assumes "is_object d" "as_object d \<noteq> Some []" "bt_wf (object_field d ''blocked_fp'')"
  shows "has_progressed d d = (False, ''no monotone improvement; same progress digest'')"
proof -
  have "\<not> failure_fingerprints_changed d d"
    using bt_get_wf [OF assms(3)] by (auto simp: failure_fingerprints_changed_def list_ex_iff)
  with assms(1,2) show ?thesis by (simp add: has_progressed_def Let_def)
qed

lemma object_field_jobj: "jget v k = Some (JObj m) \<Longrightarrow> object_field v k = m"
  by (simp add: object_field_def jget_with_def as_object_def opt_get_or_def)

lemma digest_object:
  "is_object (progress_digest sha show a st)" "as_object (progress_digest sha show a st) \<noteq> Some []"
  "bt_wf (object_field (progress_digest sha show a st) ''blocked_fp'')"
proof -
  have j: "jget (progress_digest sha show a st) ''blocked_fp''
      = Some (by_id (\<lambda>t. JStr (failure_fingerprint sha t))
          (filter (\<lambda>t. task_status t = Some ''blocked'') (json_array (st_tasks st))))"
    by (simp add: progress_digest_def Let_def jget_def jobj_def bt_get_of_list)
  then show "bt_wf (object_field (progress_digest sha show a st) ''blocked_fp'')"
    by (simp add: object_field_jobj by_id_def jobj_def)
  show "is_object (progress_digest sha show a st)"
    by (simp add: progress_digest_def Let_def jobj_def is_object_def)
  show "as_object (progress_digest sha show a st) \<noteq> Some []"
    using j by (auto simp: as_object_def jget_def split: json.splits)
qed

lemma index_set_get:
  "index_set k x v = Inr g \<Longrightarrow> is_object g \<and> jget g k = Some x \<and> (\<forall>k'. k' \<noteq> k \<longrightarrow> jget g k' = jget v k')"
  by (cases v) (auto simp: index_set_def is_object_def jget_def jobj_def bt_get_of_list)

lemma update_digest_gates:
  assumes "update_autopilot_digest d st = Inr st'"
  shows "jget (st_gates st') ''autopilot_last_digest'' = Some d"
    and "k \<notin> {''autopilot_last_digest'', ''progress_high_water''} \<Longrightarrow> jget (st_gates st') k = jget (st_gates st) k"
    and "jget (st_gates st') ''progress_high_water''
      = Some (raise_high_water d (opt_get_or default_high_water (jget (st_gates st) ''progress_high_water'')))"
    and "st' = st\<lparr>st_gates := st_gates st'\<rparr>"
  using assms index_set_get [of "''autopilot_last_digest''" d "st_gates st"]
  by (auto simp: update_autopilot_digest_def split: sum.splits)

lemma digest_ignores_digest:
  assumes "update_autopilot_digest d st = Inr st'"
  shows "progress_digest sha show a st' = progress_digest sha show a st"
proof -
  note g = update_digest_gates(2) [OF assms]
  have "unresolved_blocks st' = unresolved_blocks st"
    using g by (simp add: unresolved_blocks_def jget_with_def)
  moreover have "jget_u64 (st_gates st') ''ledger_blockers'' = jget_u64 (st_gates st) ''ledger_blockers''"
    using g by (simp add: jget_with_def)
  moreover obtain g' where "st' = st\<lparr>st_gates := g'\<rparr>" using update_digest_gates(4) [OF assms] by blast
  ultimately show ?thesis by (simp add: progress_digest_def)
qed

lemma high_water_raised:
  "json_u64_field d k \<le> json_u64_field (raise_high_water d hw) k
   \<and> (is_object hw \<longrightarrow> json_u64_field hw k \<le> json_u64_field (raise_high_water d hw) k)"
  if "k \<in> {''done'', ''verified_risks''}"
  using that
  by (auto simp: raise_high_water_def Let_def json_u64_field_def jget_with_def jget_def json_object_mut_def
      as_object_def is_object_def opt_get_or_def bt_get_insert split: json.splits)

lemma gates_is_object:
  "update_autopilot_digest d st = Inr st' \<Longrightarrow> is_object (st_gates st')"
  using index_set_get [of "''autopilot_last_digest''" d "st_gates st"]
  by (auto simp: update_autopilot_digest_def split: sum.splits)

lemma update_digest_of_object:
  "is_object (st_gates st) \<Longrightarrow> \<exists>st'. update_autopilot_digest d st = Inr st' \<and> st_tasks st' = st_tasks st"
  by (auto simp: update_autopilot_digest_def index_set_def is_object_def split: json.splits)

lemma autopilot_saves_digest:
  assumes "cmd_autopilot E K opts s st = (Finished status st', s')"
    and "ae_artifacts_after E = ae_artifacts E"
  shows "\<exists>st2. update_autopilot_digest (progress_digest (ae_sha E) (ae_show E) (ae_artifacts E) st2) st2 = Inr st'"
  using assms
  by (auto simp: cmd_autopilot_def run_pass_def with_digest_def Let_def split: if_splits sum.splits prod.splits)

text \<open>
  After a call of the autopilot that finished, a second call finds the run stalled and runs no task when
  nothing changed in between, whatever its options and workers: the digest that the first call saved is
  not changed by saving it.
\<close>

theorem autopilot_stalls_when_nothing_changed:
  assumes fin: "cmd_autopilot E K opts s st = (Finished status st', s')"
    and same: "ae_artifacts_after E = ae_artifacts E"
    and env: "ae_sha E' = ae_sha E" "ae_show E' = ae_show E" "ae_artifacts E' = ae_artifacts E"
    and allowed: "\<not> budget_is_exceeded E' st'" "ao_autonomous opts' \<longrightarrow> gate_is_open E' st'"
  shows "\<exists>st''. cmd_autopilot E' K' opts' w st' = (Finished ''STALLED'' st'', w) \<and> st_tasks st'' = st_tasks st'"
proof -
  obtain st2 where u: "update_autopilot_digest (progress_digest (ae_sha E) (ae_show E) (ae_artifacts E) st2) st2 = Inr st'"
    using autopilot_saves_digest [OF fin same] by blast
  let ?d = "progress_digest (ae_sha E) (ae_show E) (ae_artifacts E) st2"
  have d: "autopilot_digest st' = ?d"
    using update_digest_gates(1) [OF u] by (simp add: autopilot_digest_def opt_get_or_def)
  have d': "progress_digest (ae_sha E') (ae_show E') (ae_artifacts E') st' = ?d"
    using digest_ignores_digest [OF u] env by simp
  have "is_stalled E' st'"
    unfolding is_stalled_def d d' using no_progress_refl [OF digest_object] digest_object by simp
  moreover obtain st'' where "update_autopilot_digest ?d st' = Inr st''" "st_tasks st'' = st_tasks st'"
    using update_digest_of_object [OF gates_is_object [OF u]] by blast
  ultimately show ?thesis using allowed by (auto simp: cmd_autopilot_def d' with_digest_def)
qed

text \<open>A task added by the host changes the state's hash, and nothing the comparison looks at.\<close>

text \<open>
  Adding a pending task is no progress to the autopilot: although the hash of the state changes, the
  comparison of the digests reports that the digest is the same, so a stalled run stays stalled.
\<close>

theorem added_task_is_no_progress:
  assumes "task_status t = Some ''pending''"
  shows "\<not> fst (has_progressed (progress_digest sha show a st)
              (progress_digest sha show a (st\<lparr>st_tasks := json_push t (st_tasks st)\<rparr>)))"
proof -
  let ?st = "st\<lparr>st_tasks := json_push t (st_tasks st)\<rparr>"
  let ?d = "progress_digest sha show a st" and ?e = "progress_digest sha show a ?st"
  have k: "jget ?e k = jget ?d k"
    if "k \<in> {''done'', ''ledger_blockers'', ''verified_risks'', ''blocked_count'', ''blocked_fp'', ''artifact_hash''}" for k
    using that assms
    by (auto simp: progress_digest_def Let_def jget_def jobj_def bt_get_of_list json_push_def json_array_def
        opt_get_or_def as_array_def unresolved_blocks_def)
  then have u: "json_u64_field ?e k = json_u64_field ?d k"
    if "k \<in> {''done'', ''ledger_blockers'', ''verified_risks'', ''blocked_count''}" for k
  proof -
    from that have "jget ?e k = jget ?d k" by (intro k) auto
    then show ?thesis by (simp add: json_u64_field_def jget_with_def)
  qed
  have o: "object_field ?e ''blocked_fp'' = object_field ?d ''blocked_fp''"
    using k by (simp add: object_field_def jget_with_def)
  have "\<not> failure_fingerprints_changed ?d ?e"
    unfolding failure_fingerprints_changed_def o
    using bt_get_wf [OF digest_object(3)] by (auto simp: list_ex_iff)
  then show ?thesis
    using digest_object u k by (simp add: has_progressed_def Let_def jget_with_def)
qed

theorem added_task_is_no_progress_witness:
  "\<not> fst (has_progressed (progress_digest id (\<lambda>_. []) None (default_state ''t''))
       (progress_digest id (\<lambda>_. []) None
          ((default_state ''t'')\<lparr>st_tasks := json_push (jobj [(''status'', JStr ''pending'')]) (st_tasks (default_state ''t''))\<rparr>)))"
  by (rule added_task_is_no_progress) code_simp

subsection \<open>The sandbox\<close>

text \<open>A command that is refused is neither run nor given a worktree.\<close>

lemma refused_runs_nothing:
  assumes "run_in_ephemeral_worktree W s repo classify wt command allow = (Inr r, s')"
  shows "if sr_executed r
    then ef_level (classify command) \<noteq> NeedsSemanticJudgement
       \<and> (ef_level (classify command) = Network \<longrightarrow> allow)
    else s' = snd (ensure_git_repo W s repo)"
  using assms
  by (auto simp: run_in_ephemeral_worktree_def refused_def Let_def split: prod.splits sum.splits if_splits)

subsection \<open>What the pass makes of a task\<close>

lemma jget_append_array:
  "k \<noteq> key \<Longrightarrow> is_object t \<Longrightarrow> jget (append_to_object_array t key v) k = jget t k"
  by (cases t) (auto simp: append_to_object_array_def json_object_mut_def as_object_def jget_def Let_def
      is_object_def opt_get_or_def bt_get_insert)

lemma is_object_append_array [simp]: "is_object (append_to_object_array t key v)"
  by (simp add: append_to_object_array_def Let_def is_object_def)

lemma resolve_blockers_keeps:
  assumes "is_object t" "k \<noteq> ''blockers''" "k \<noteq> ''resolved_blockers''"
  shows "jget (resolve_blockers t e) k = jget t k \<and> is_object (resolve_blockers t e)"
proof -
  have "jget (foldl (\<lambda>t b. append_to_object_array t ''resolved_blockers'' (f b)) u bs) k = jget u k
      \<and> is_object (foldl (\<lambda>t b. append_to_object_array t ''resolved_blockers'' (f b)) u bs)"
    if "is_object u" for u f and bs :: "json list"
    using that assms by (induction bs arbitrary: u) (auto simp: jget_append_array)
  from this [OF assms(1)] assms(2) show ?thesis by (simp add: resolve_blockers_def)
qed

lemma is_object_resolve [simp]: "is_object t \<Longrightarrow> is_object (resolve_blockers t e)"
  using resolve_blockers_keeps [of t "[]" e] by simp

lemma bump_retry_keeps:
  "is_object t \<Longrightarrow> k \<noteq> ''retry_count'' \<Longrightarrow> k \<noteq> ''retry_by_command'' \<Longrightarrow> jget (bump_retry sha t c) k = jget t k"
  "is_object t \<Longrightarrow> is_object (bump_retry sha t c)"
  by (simp_all add: bump_retry_def Let_def)

lemma settle_task_status:
  assumes "is_object t"
  shows "task_status (settle_task sha now c rc t) = Some (if rc = 0 then ''done'' else ''blocked'')"
    and "task_id (settle_task sha now c rc t) = task_id t"
    and "jget_str (settle_task sha now c rc t) ''phase'' = jget_str t ''phase''"
    and "is_object (settle_task sha now c rc t)"
  using assms
  by (simp_all add: settle_task_def Let_def task_status_def task_id_def jget_with_def resolve_blockers_keeps
      bump_retry_keeps)

lemma task_id_object: "task_id t = Some i \<Longrightarrow> is_object t"
  by (auto simp: task_id_def jget_with_def jget_def is_object_def split: json.splits)

lemma is_open_task_object: "planned_or_last_command t = Some c \<Longrightarrow> is_object t"
  by (cases t) (auto simp: planned_or_last_command_def jget_with_def jget_def is_object_def opt_or_def opt_get_or_def)

definition exec_ok :: "json \<Rightarrow> json \<times> exec_note \<Rightarrow> bool" where
  "exec_ok t p \<longleftrightarrow>
     task_id (fst p) = task_id t \<and> jget_str (fst p) ''phase'' = jget_str t ''phase''
     \<and> (is_object t \<longrightarrow> is_object (fst p))
     \<and> (case snd p of
          ExRan rc _ \<Rightarrow> task_status (fst p) = Some (if rc = 0 then ''done'' else ''blocked'')
            \<and> is_open_task t \<and> retry_count t < 3
        | _ \<Rightarrow> task_status (fst p) = task_status t)"

lemma tmux_worker_done_keeps:
  assumes "tmux_worker_done now path t c sub con = Inr (t', out)" "is_object t" "k \<noteq> ''evidence''"
  shows "is_object t' \<and> jget t' k = jget t k"
  using assms by (auto simp: tmux_worker_done_def Let_def jget_append_array split: sum.splits list.splits if_splits)

lemma exec_task_ok:
  assumes "exec_task sha now K carrier s t = (Inr p, s')"
  shows "exec_ok t p"
proof (cases "planned_or_last_command t")
  case (Some c)
  have obj: "is_object t" using is_open_task_object [OF Some] .
  show ?thesis
  proof (cases "is_open_task t \<and> retry_count t < 3")
    case True
    then have run: "\<not> 3 \<le> retry_count t" by (simp add: not_le)
    show ?thesis
    proof (cases carrier)
      case CarrierSandbox
      have keep: "task_id (append_to_object_array t ''evidence'' v) = task_id t"
        "jget_str (append_to_object_array t ''evidence'' v) ''phase'' = jget_str t ''phase''" for v
        using obj by (simp_all add: task_id_def jget_with_def jget_append_array)
      from CarrierSandbox assms Some True run show ?thesis
        by (auto simp: exec_task_def exec_sandbox_def exec_ok_def Let_def keep
            settle_task_status [OF is_object_append_array] split: sum.splits prod.splits if_splits)
    next
      case CarrierTmux
      then obtain t' out where w: "tmux_worker_done now
            (path_join (wk_live_dir K) (sanitize_worker_id (opt_get_or ''task'' (task_id t)) @ ''.worker.json''))
            t c (fst (wk_submit K s t c)) (wk_contract K (snd (wk_submit K s t c))
              (path_join (wk_live_dir K) (sanitize_worker_id (opt_get_or ''task'' (task_id t)) @ ''.worker.json'')))
          = Inr (t', out)" and p: "p = exec_tmux sha now c (t', out)"
        using assms Some True run
        by (auto simp: exec_task_def run_tmux_autopilot_worker_def Let_def case_prod_beta split: sum.splits)
      note keep = tmux_worker_done_keeps [OF w obj]
      have "is_object t'" "task_id t' = task_id t" "task_status t' = task_status t"
        "jget_str t' ''phase'' = jget_str t ''phase''"
        using keep [of "''id''"] keep [of "''status''"] keep [of "''phase''"]
        by (simp_all add: task_id_def task_status_def jget_with_def)
      with True show ?thesis
        by (cases out) (auto simp: p exec_tmux_def exec_ok_def settle_task_status)
    qed
  next
    case False
    with assms Some show ?thesis
      by (auto simp: exec_task_def exec_ok_def not_le split: if_splits)
  qed
qed (use assms in \<open>auto simp: exec_task_def exec_ok_def\<close>)

lemma exec_tasks_ok:
  "exec_tasks sha now K carrier s ts = (Inr ps, s') \<Longrightarrow> list_all2 exec_ok ts ps"
proof (induction ts arbitrary: s ps)
  case (Cons t ts)
  then show ?case
    by (auto split: sum.splits prod.splits dest!: exec_task_ok)
qed simp

lemma exec_task_not_skipped:
  "exec_task sha now K carrier s t = (Inr p, s') \<Longrightarrow> is_open_task t \<Longrightarrow> planned_or_last_command t \<noteq> None
   \<Longrightarrow> snd p \<noteq> ExSkip"
  by (auto simp: exec_task_def exec_sandbox_def exec_tmux_def Let_def
      split: if_splits worker_carrier.splits sum.splits prod.splits tmux_outcome.splits)

lemma exec_tasks_not_skipped:
  "exec_tasks sha now K carrier s ts = (Inr ps, s') \<Longrightarrow>
   list_all2 (\<lambda>t p. is_open_task t \<and> planned_or_last_command t \<noteq> None \<longrightarrow> snd p \<noteq> ExSkip) ts ps"
proof (induction ts arbitrary: s ps)
  case (Cons t ts)
  then obtain p s1 ps' where p: "exec_task sha now K carrier s t = (Inr p, s1)"
    "exec_tasks sha now K carrier s1 ts = (Inr ps', s')" "ps = p # ps'"
    by (auto split: sum.splits prod.splits)
  from Cons.IH [OF p(2)] exec_task_not_skipped [OF p(1)] show ?case by (simp add: p(3))
qed simp

lemma pass_status_done:
  "pass_status ns = ''DONE'' \<Longrightarrow> n \<in> set ns \<Longrightarrow> n = ExSkip \<or> (\<exists>r. n = ExRan 0 r)"
  by (cases n) (auto simp: pass_status_def list_ex_iff split: if_splits)


subsection \<open>The tasks of a run\<close>

text \<open>What every command keeps of a task, and of the tasks of a run.\<close>

definition task_ok :: "json \<Rightarrow> bool" where
  "task_ok t \<longleftrightarrow>
     task_id t \<noteq> None \<and> opt_all (\<lambda>s. s \<in> set VALID_TASK_STATUSES) (task_status t)
     \<and> opt_all (\<lambda>p. p \<in> set VALID_PHASES) (jget_str t ''phase'')"

definition run_ok :: "lto_state \<Rightarrow> bool" where
  "run_ok st \<longleftrightarrow>
     st_current_phase st \<in> set VALID_PHASES
     \<and> (\<exists>ts. st_tasks st = JArr ts \<and> list_all task_ok ts \<and> distinct (map task_id ts))"

abbreviation run_ids :: "lto_state \<Rightarrow> string option list" where
  "run_ids st \<equiv> map task_id (json_array (st_tasks st))"

text \<open>One saved command. A failed command of a task names the status its task gets.\<close>

inductive run_step :: "'w workers \<Rightarrow> lto_state \<Rightarrow> lto_state \<Rightarrow> bool" for K where
  step_add: "cmd_task_add sha now opts st = Inr (st', ev) \<Longrightarrow> run_step K st st'"
| step_update: "cmd_task_update clock opts st = Inr (st', ev) \<Longrightarrow> run_step K st st'"
| step_phase: "cmd_phase now head ph st = Inr (Some (st', ev)) \<Longrightarrow> run_step K st st'"
| step_run: "run_task_command sha clock opts cap st = Inr (st', ev, err)
     \<Longrightarrow> ro_status_on_fail opts \<in> set VALID_TASK_STATUSES \<Longrightarrow> run_step K st st'"
| step_autopilot: "cmd_autopilot E K opts w st = (Finished status st', w') \<Longrightarrow> run_step K st st'"

lemma json_array_JArr [simp]: "json_array (JArr ts) = ts"
  by (simp add: json_array_def as_array_def opt_get_or_def)

lemma find_task_bound:
  "find_task_mut tasks i = Inr n \<Longrightarrow> n < length (json_array tasks) \<and> task_id (json_array tasks ! n) = Some i"
  by (auto simp: find_task_mut_def split: option.splits dest!: position_Some)

lemma put_task_ok:
  assumes "run_ok st" "find_task_mut (st_tasks st) i = Inr n"
    and "task_ok (json_array (st_tasks st) ! n) \<Longrightarrow> task_ok t"
    and "task_id t = task_id (json_array (st_tasks st) ! n)"
    and "st_current_phase st' = st_current_phase st" "st_tasks st' = put_task (st_tasks st) n t"
  shows "run_ok st' \<and> run_ids st' = run_ids st"
proof -
  obtain ts where ts: "st_tasks st = JArr ts" "list_all task_ok ts" "distinct (map task_id ts)"
    using assms(1) by (auto simp: run_ok_def)
  have n: "n < length ts" using find_task_bound [OF assms(2)] ts(1) by simp
  have ids: "map task_id (ts[n := t]) = map task_id ts"
    using assms(4) ts(1) n by (simp add: map_update list_update_same_conv)
  have "list_all task_ok (ts[n := t])"
    using ts(1,2) assms(3) n by (auto simp: list_all_iff dest!: set_update_subset_insert [THEN subsetD])
  with ids ts assms(1,5,6) show ?thesis by (simp add: run_ok_def put_task_def)
qed

lemma set_opt_keeps: "is_object t \<Longrightarrow> k' \<noteq> k \<Longrightarrow> jget (set_opt k v t) k' = jget t k'"
  by (simp add: set_opt_def split: option.splits)

lemma is_object_set_opt [simp]: "is_object (set_opt k v t) = is_object t"
  by (simp add: set_opt_def split: option.splits)

lemma task_core:
  "jget t' ''id'' = jget t ''id'' \<Longrightarrow> jget t' ''phase'' = jget t ''phase''
   \<Longrightarrow> task_status t' = Some s \<Longrightarrow> s \<in> set VALID_TASK_STATUSES
   \<Longrightarrow> (task_ok t \<longrightarrow> task_ok t') \<and> task_id t' = task_id t"
  by (simp add: task_ok_def task_id_def jget_with_def)

lemma check_opt_ok:
  "check_opt ensure_valid_status v = Inr u \<longleftrightarrow> (\<forall>s. v = Some s \<longrightarrow> s \<in> set VALID_TASK_STATUSES)"
  "check_opt ensure_valid_phase v = Inr u \<longleftrightarrow> (\<forall>s. v = Some s \<longrightarrow> s \<in> set VALID_PHASES)"
  by (auto simp: check_opt_def ensure_valid_status_def ensure_valid_phase_def split: option.splits)

lemma add_note_keeps: "is_object t \<Longrightarrow> k \<noteq> ''evidence'' \<Longrightarrow> jget (add_note now n t) k = jget t k"
  by (simp add: add_note_def jget_append_array)

lemma is_object_add_note [simp]: "is_object (add_note now n t)"
  by (simp add: add_note_def)

lemma jget_set_opt: "is_object t \<Longrightarrow> jget (set_opt k v t) k = (case v of None \<Rightarrow> jget t k | Some s \<Rightarrow> Some (JStr s))"
  by (simp add: set_opt_def split: option.splits)

lemma updated_task_get:
  assumes "is_object t" "k \<notin> {''last_update'', ''touched_files'', ''evidence''}"
  shows "jget (updated_task clock opts t) k
    = jget (set_opt ''phase'' (tu_phase opts) (set_opt ''status'' (tu_status opts) t)) k"
  using assms
  by (simp add: updated_task_def Let_def append_unique_strings_def add_note_keeps split: option.splits)

lemma updated_task_ok:
  assumes "is_object t" "check_opt ensure_valid_status (tu_status opts) = Inr u"
    and "check_opt ensure_valid_phase (tu_phase opts) = Inr u'"
  shows "(task_ok t \<longrightarrow> task_ok (updated_task clock opts t)) \<and> task_id (updated_task clock opts t) = task_id t"
  using assms
  by (auto simp: task_ok_def task_id_def task_status_def jget_with_def updated_task_get jget_set_opt
      set_opt_keeps check_opt_ok split: option.splits)

lemma recorded_run_get:
  "is_object t \<Longrightarrow> k \<notin> {''evidence'', ''touched_files'', ''commands_run''}
   \<Longrightarrow> jget (recorded_run now opts c ref t) k = jget t k"
  by (simp add: recorded_run_def append_string_def append_unique_strings_def jget_append_array)

lemma is_object_recorded [simp]: "is_object (recorded_run now opts c ref t)"
  by (simp add: recorded_run_def append_string_def append_unique_strings_def)

lemma run_task_get:
  assumes "is_object t" "k \<in> {''id'', ''phase''}"
  shows "jget (run_passed clock opts c ref t) k = jget t k"
    and "jget (run_failed sha clock opts c ref t) k = jget t k"
  using assms
  by (auto simp: run_passed_def run_failed_def resolve_blockers_keeps recorded_run_get jget_append_array
      bump_retry_keeps)

lemma run_task_status:
  assumes "is_object t"
  shows "task_status (run_passed clock opts c ref t) = Some ''done''"
    and "task_status (run_failed sha clock opts c ref t) = Some (ro_status_on_fail opts)"
  using assms
  by (auto simp: run_passed_def run_failed_def resolve_blockers_keeps recorded_run_get jget_append_array
      bump_retry_keeps task_status_def jget_with_def)

lemma new_task_get:
  "jget (new_task now opts ph ref) ''id'' = Some (JStr (ta_task_id opts))"
  "jget (new_task now opts ph ref) ''status'' = Some (JStr ''pending'')"
  "jget (new_task now opts ph ref) ''phase'' = Some (JStr ph)"
  by (simp_all add: new_task_def set_opt_keeps jget_jobj)

lemma step_add_ok:
  assumes "run_ok st" "cmd_task_add sha now opts st = Inr (st', ev)"
  shows "run_ok st' \<and> run_ids st' = run_ids st @ [Some (ta_task_id opts)]"
proof -
  obtain ts where ts: "st_tasks st = JArr ts" "list_all task_ok ts" "distinct (map task_id ts)"
    using assms(1) by (auto simp: run_ok_def)
  let ?ph = "opt_get_or (st_current_phase st) (ta_phase opts)"
  obtain ref where st': "st' = st\<lparr>st_tasks := JArr (ts @ [new_task now opts ?ph ref])\<rparr>"
    using assms(2) ts(1)
    by (auto simp: cmd_task_add_def Let_def json_push_def split: if_splits sum.splits)
  have ph: "?ph \<in> set VALID_PHASES" and new: "Some (ta_task_id opts) \<notin> task_id ` set ts"
    using assms(2) ts(1)
    by (auto simp: cmd_task_add_def Let_def ensure_valid_phase_def list_ex_iff split: if_splits sum.splits)
  have id: "task_id (new_task now opts ?ph ref) = Some (ta_task_id opts)"
    by (simp add: task_id_def jget_with_def new_task_get)
  have "task_ok (new_task now opts ?ph ref)"
    using ph by (simp add: task_ok_def id task_status_def jget_with_def new_task_get VALID_TASK_STATUSES_def)
  with ts ph new id assms(1) show ?thesis by (auto simp: run_ok_def st')
qed

lemma step_update_ok:
  assumes "run_ok st" "cmd_task_update clock opts st = Inr (st', ev)"
  shows "run_ok st' \<and> run_ids st' = run_ids st"
proof -
  obtain n u u' where n: "find_task_mut (st_tasks st) (tu_task_id opts) = Inr n"
    and v: "check_opt ensure_valid_status (tu_status opts) = Inr u"
      "check_opt ensure_valid_phase (tu_phase opts) = Inr u'"
    and st': "st' = st\<lparr>st_tasks := put_task (st_tasks st) n
      (updated_task clock opts (json_array (st_tasks st) ! n))\<rparr>"
    using assms(2) by (auto simp: cmd_task_update_def Let_def split: if_splits sum.splits)
  have "is_object (json_array (st_tasks st) ! n)"
    using find_task_bound [OF n] task_id_object by blast
  note up = updated_task_ok [OF this v, of clock]
  show ?thesis by (rule put_task_ok [OF assms(1) n]) (use up in \<open>simp_all add: st'\<close>)
qed

lemma step_run_ok:
  assumes "run_ok st" "run_task_command sha clock opts cap st = Inr (st', ev, err)"
    and "ro_status_on_fail opts \<in> set VALID_TASK_STATUSES"
  shows "run_ok st' \<and> run_ids st' = run_ids st"
proof -
  obtain n c ref where n: "find_task_mut (st_tasks st) (ro_task_id opts) = Inr n"
    and r: "record_run sha clock opts c ref n st = Inr st'"
    using assms(2) by (auto simp: run_task_command_def split: sum.splits)
  let ?t = "json_array (st_tasks st) ! n"
  let ?u = "if ca_rc c = 0 then run_passed clock opts c ref ?t else run_failed sha clock opts c ref ?t"
  have o: "is_object ?t" using find_task_bound [OF n] task_id_object by blast
  have st': "st_tasks st' = put_task (st_tasks st) n ?u" "st_current_phase st' = st_current_phase st"
    using r by (auto simp: record_run_def Let_def split: if_splits sum.splits)
  have "(task_ok ?t \<longrightarrow> task_ok ?u) \<and> task_id ?u = task_id ?t"
    using run_task_get [OF o, of "''id''"] run_task_get [OF o, of "''phase''"] run_task_status [OF o] assms(3)
    by (intro task_core [where s = "if ca_rc c = 0 then ''done'' else ro_status_on_fail opts"])
       (auto simp: VALID_TASK_STATUSES_def)
  then show ?thesis using put_task_ok [OF assms(1) n, of ?u st'] st' by simp
qed

lemma exec_ok_task_ok: "exec_ok t p \<Longrightarrow> task_ok t \<Longrightarrow> task_ok (fst p)"
  by (auto simp: exec_ok_def task_ok_def VALID_TASK_STATUSES_def split: exec_note.splits)

lemma append_results_tasks:
  "st_tasks (foldl (\<lambda>x (i, r). append_agent_results_to_state wr x (Some i) [r]) st rs) = st_tasks st"
  "st_current_phase (foldl (\<lambda>x (i, r). append_agent_results_to_state wr x (Some i) [r]) st rs) = st_current_phase st"
  by (induction rs arbitrary: st) (auto simp: append_agent_results_to_state_def)

lemma auto_exec_ok:
  assumes "run_ok st" "auto_exec_tasks sha wr now K carrier w st = (Inr (st', status), w')"
  shows "run_ok st' \<and> run_ids st' = run_ids st"
proof -
  obtain ts where ts: "st_tasks st = JArr ts" "list_all task_ok ts" "distinct (map task_id ts)"
    using assms(1) by (auto simp: run_ok_def)
  obtain ps where ps: "exec_tasks sha now K carrier w ts = (Inr ps, w')"
    and st': "st_tasks st' = JArr (map fst ps)" "st_current_phase st' = st_current_phase st"
    using assms(2) ts(1)
    by (auto simp: auto_exec_tasks_def Let_def append_results_tasks split: sum.splits prod.splits)
  note all = exec_tasks_ok [OF ps]
  have ids: "map task_id (map fst ps) = map task_id ts"
    using all by (induction rule: list_all2_induct) (auto simp: exec_ok_def)
  have "list_all task_ok (map fst ps)"
    using all ts(2) by (induction rule: list_all2_induct) (auto dest: exec_ok_task_ok)
  with ids ts assms(1) st' show ?thesis by (simp add: run_ok_def)
qed

lemma update_digest_ok:
  "update_autopilot_digest d st = Inr st' \<Longrightarrow> run_ok st' = run_ok st \<and> run_ids st' = run_ids st"
  by (auto simp: update_autopilot_digest_def run_ok_def split: sum.splits)

lemma step_autopilot_ok:
  assumes "run_ok st" "cmd_autopilot E K opts w st = (Finished status st', w')"
  shows "run_ok st' \<and> run_ids st' = run_ids st"
proof -
  have turn: "run_ok (take_turn st)" "st_tasks (take_turn st) = st_tasks st"
    using assms(1) by (simp_all add: run_ok_def take_turn_def)
  have pass: "run_ok st2 \<and> run_ids st2 = run_ids st"
    if "auto_exec_tasks sha wr now K carrier w (if b then take_turn st else st) = (Inr (st2, status'), w2)"
    for sha wr now carrier b st2 status' w2
    using auto_exec_ok [OF _ that] turn assms(1) by (cases b) auto
  show ?thesis
    using assms pass update_digest_ok
    by (fastforce simp: cmd_autopilot_def run_pass_def with_digest_def Let_def
        split: if_splits sum.splits prod.splits)
qed

lemma run_step_ok:
  "run_step K st st' \<Longrightarrow> run_ok st \<Longrightarrow> run_ok st' \<and> prefix (run_ids st) (run_ids st')"
proof (induction rule: run_step.induct)
  case (step_phase now head ph st st' ev)
  then show ?case
    by (auto simp: cmd_phase_def append_phase_transition_def run_ok_def ensure_valid_phase_def
        split: option.splits if_splits)
next
  case (step_add sha now opts st st' ev)
  then show ?case using step_add_ok [OF step_add(2,1)] by simp
next
  case (step_update clock opts st st' ev)
  then show ?case using step_update_ok [OF step_update(2,1)] by simp
next
  case (step_run sha clock opts cap st st' ev err)
  then show ?case using step_run_ok [OF step_run(3,1,2)] by simp
next
  case (step_autopilot E opts w st status st' w')
  then show ?case using step_autopilot_ok [OF step_autopilot(2,1)] by simp
qed


subsection \<open>Concrete runs\<close>

definition demo_workers :: "unit workers" where
  "demo_workers = \<lparr> wk_sandbox = (\<lambda>_ c. (Inr \<lparr> sr_executed = True, sr_effect = \<lparr> ef_level = Reversible, ef_reason = [] \<rparr>,
       sr_rc = Some (if c = ''true'' then 0 else 1), sr_stdout = [], sr_stderr = [], sr_worktree = Some ''/wt'', sr_note = [] \<rparr>, ())),
     wk_submit = (\<lambda>_ _ _. (Inr (Inr []), ())), wk_contract = (\<lambda>_ _. Inr None), wk_live_dir = ''/live'' \<rparr>"

definition demo_start :: lto_state where
  "demo_start = (default_state ''t'')\<lparr> st_current_phase := ''intake'', st_tasks := JArr [] \<rparr>"

definition demo_add :: task_add_options where
  "demo_add = \<lparr> ta_task_id = ''T1'', ta_title = ''first'', ta_phase = None, ta_command = Some ''true'', ta_instrument_ref = None \<rparr>"

definition demo_added :: lto_state where
  "demo_added = fst (projr (cmd_task_add id ''t'' demo_add demo_start))"

definition demo_env :: autopilot_env where
  "demo_env = \<lparr> ae_rfc = (\<lambda>_. None), ae_naive = (\<lambda>_. Inl []), ae_read = (\<lambda>_. None), ae_write = (\<lambda>_. JNull),
     ae_sha = id, ae_show = (\<lambda>_. []), ae_classify = (\<lambda>_. \<lparr> ef_level = Reversible, ef_reason = [] \<rparr>),
     ae_counts = None, ae_evidence = Inl [], ae_carrier = CarrierSandbox, ae_artifacts = None,
     ae_artifacts_after = None, ae_now = ''t'' \<rparr>"

definition demo_auto :: autopilot_options where
  "demo_auto = \<lparr> ao_auto_exec = True, ao_autonomous = False \<rparr>"

definition demo_finished :: "lto_state autopilot_result" where
  "demo_finished = fst (cmd_autopilot demo_env demo_workers demo_auto () demo_added)"

lemma demo_added_step: "run_step demo_workers demo_start demo_added"
proof (rule run_step.step_add)
  have "isl (cmd_task_add id ''t'' demo_add demo_start) = False" by code_simp
  then show "cmd_task_add id ''t'' demo_add demo_start = Inr (demo_added, snd (projr (cmd_task_add id ''t'' demo_add demo_start)))"
    by (simp add: demo_added_def)
qed

lemma demo_start_ok: "run_ok demo_start"
  by (simp add: run_ok_def demo_start_def VALID_PHASES_def)


lemma demo_finishes:
  "cmd_autopilot demo_env demo_workers demo_auto () demo_added
   = (Finished (ap_status demo_finished) (ap_state demo_finished), ())"
proof -
  have "case demo_finished of Finished _ _ \<Rightarrow> True | _ \<Rightarrow> False" by code_simp
  then show ?thesis
    by (cases demo_finished) (auto simp: demo_finished_def intro!: prod_eqI)
qed

theorem autopilot_stalls_when_nothing_changed_witness:
  "\<exists>st. cmd_autopilot demo_env demo_workers demo_auto () (ap_state demo_finished) = (Finished ''STALLED'' st, ())
     \<and> st_tasks st = st_tasks (ap_state demo_finished)"
proof (rule autopilot_stalls_when_nothing_changed [OF demo_finishes])
  show "\<not> budget_is_exceeded demo_env (ap_state demo_finished)" by code_simp
qed (simp_all add: demo_env_def demo_auto_def)

definition demo_pass :: "(string + (json \<times> exec_note) list) \<times> unit" where
  "demo_pass = exec_tasks id ''t'' demo_workers CarrierSandbox () (json_array (st_tasks demo_added))"


text \<open>
  The command line offers \<open>failed\<close> for a task whose command fails; it is not a status of a task, and
  the route knows no task that has it.
\<close>

definition demo_fail :: "op_error + lto_state \<times> event_record \<times> string option" where
  "demo_fail = run_task_command id (\<lambda>_. ''t'')
     \<lparr> ro_task_id = ''T1'', ro_kind = ''test'', ro_command = ''false'', ro_cwd = [], ro_touch = [], ro_note = None,
       ro_instrument_ref = None, ro_status_on_fail = ''failed'' \<rparr>
     (Inr \<lparr> ca_rc = 1, ca_stdout = [], ca_stderr = [], ca_elapsed = Fin 0, ca_head_before = [], ca_head_after = [] \<rparr>)
     demo_added"

lemma failed_is_no_task_status:
  "let st = fst (projr demo_fail) in
     map task_status (json_array (st_tasks st)) = [Some ''failed'']
     \<and> isl (ensure_valid_status ''failed'')
     \<and> jget (route_next (analyze_state (\<lambda>_. []) [] st)) ''reason'' = Some (JStr ''no unambiguous routing matches'')"
  by code_simp

end
