(* ===== verification/Lto_Dispatch_Goal.thy ===== *)
theory Lto_Dispatch_Goal
  imports Lto_Tasks
begin

text \<open>
  \<open>src/src/dispatch_goal.rs\<close>: a goal file is dispatched to an agent in a terminal window. The goal
  file is extended by the completion protocol, the window is prepared and recorded in the run's
  state, the launch line and the prompt are sent to it, and the hooks that report completion are
  installed. The multiplexers, the clock and the files are parameters; the window records, the texts
  that are sent and their order, and the hook files as JSON values are the model. Paths are the
  strings the code displays.
\<close>

subsection \<open>Paths\<close>

text \<open>\<open>Path\<close>'s components: neither empty parts nor dots count; \<open>file_name\<close> is the last, unless it is
  the parent's dots.\<close>

definition path_parts :: "string \<Rightarrow> string list" where
  "path_parts p = filter (\<lambda>c. c \<noteq> [] \<and> c \<noteq> ''.'') (split_on (CHR ''/'') p)"

definition file_name :: "string \<Rightarrow> string option" where
  "file_name p = opt_filter (\<lambda>n. n \<noteq> ''..'') (last_opt (path_parts p))"

text \<open>The name before its last dot; a dot that starts the name does not count.\<close>

definition stem_of :: "string \<Rightarrow> string" where
  "stem_of n =
     (let before = rev (tl (dropWhile (\<lambda>c. c \<noteq> CHR ''.'') (rev n)))
      in if CHR ''.'' \<notin> set n \<or> before = [] then n else before)"

definition file_stem :: "string \<Rightarrow> string option" where
  "file_stem p = map_option stem_of (file_name p)"

fun strip_seps :: "nat \<Rightarrow> string \<Rightarrow> string" where
  "strip_seps 0 p = p"
| "strip_seps (Suc n) p =
     (if p = ''/'' then p
      else if suffix ''/.'' p then strip_seps n (take (length p - 1) p)
      else if suffix ''/'' p then strip_seps n (butlast p)
      else p)"

definition with_file_name :: "string \<Rightarrow> string \<Rightarrow> string" where
  "with_file_name p name =
     (case file_name p of
        None \<Rightarrow> path_join p name
      | Some n \<Rightarrow>
          (let q = strip_seps (length p) p; d = take (length q - length n) q
           in path_join (strip_seps (length d) d) name))"

definition absolutize :: "string \<Rightarrow> string \<Rightarrow> string" where
  "absolutize cwd p = (if prefix ''/'' p then p else path_join cwd p)"

subsection \<open>Backends\<close>

datatype dispatch_backend = Tmux | Herdr | Orca | Paseo

definition backend_name :: "dispatch_backend \<Rightarrow> string" where
  "backend_name b =
     (case b of Tmux \<Rightarrow> ''tmux'' | Herdr \<Rightarrow> ''herdr'' | Orca \<Rightarrow> ''orca'' | Paseo \<Rightarrow> ''paseo'')"

definition parse_backend :: "string \<Rightarrow> string + dispatch_backend" where
  "parse_backend v =
     (if v = ''tmux'' then Inr Tmux
      else if v = ''herdr'' then Inr Herdr
      else if v = ''orca'' then Inr Orca
      else if v = ''paseo'' then Inr Paseo
      else Inl (''unknown dispatch backend: '' @ v))"

record detect_env =
  dt_tmux :: bool
  dt_orca :: bool
  dt_herdr :: bool
  dt_paseo :: bool

definition detect_from :: "detect_env \<Rightarrow> dispatch_backend" where
  "detect_from env =
     (if dt_orca env then Orca else if dt_herdr env then Herdr
      else if dt_paseo env then Paseo else Tmux)"

text \<open>From the runtime that the host probe reports.\<close>

definition detect_default :: "string option \<Rightarrow> dispatch_backend" where
  "detect_default runtime =
     detect_from \<lparr> dt_tmux = (runtime = Some ''tmux''), dt_orca = (runtime = Some ''orca''),
       dt_herdr = (runtime = Some ''herdr''), dt_paseo = (runtime = Some ''paseo'') \<rparr>"

lemma parse_backend_name [simp]: "parse_backend (backend_name b) = Inr b"
  by (cases b) (simp_all add: parse_backend_def backend_name_def)

lemma parse_backend_Inr: "parse_backend v = Inr b \<longleftrightarrow> v = backend_name b"
  by (cases b) (auto simp: parse_backend_def backend_name_def)

subsection \<open>Window names\<close>

definition is_date_prefix :: "string \<Rightarrow> bool" where
  "is_date_prefix s \<longleftrightarrow> 11 \<le> length s
     \<and> list_all is_digit (take 4 s) \<and> s ! 4 = CHR ''-''
     \<and> list_all is_digit (take 2 (drop 5 s)) \<and> s ! 7 = CHR ''-''
     \<and> list_all is_digit (take 2 (drop 8 s)) \<and> s ! 10 = CHR ''-''"

definition is_slug_char :: "char \<Rightarrow> bool" where
  "is_slug_char c \<longleftrightarrow> is_ascii_alphanumeric c \<and> ascii_lower c = c"

text \<open>One character of the slug; the bytes after the first of a character stand for nothing.\<close>

definition slug_step :: "string \<times> bool \<Rightarrow> char \<Rightarrow> string \<times> bool" where
  "slug_step s c =
     (case s of (slug, dash) \<Rightarrow>
        if is_cont c then (slug, dash)
        else if is_slug_char (ascii_lower c) then (slug @ [ascii_lower c], False)
        else if \<not> dash \<and> slug \<noteq> [] then (slug @ [CHR ''-''], True)
        else (slug, dash))"

definition slug_of :: "string \<Rightarrow> string" where
  "slug_of source =
     trim_start_char (CHR ''-'')
       (trim_end_char (CHR ''-'') (take 20 (fst (foldl slug_step ([], False) source))))"

text \<open>The last eight characters.\<close>

fun last_chars :: "nat \<Rightarrow> string \<Rightarrow> string" where
  "last_chars n [] = []"
| "last_chars n (c # cs) = (if chars_count (c # cs) \<le> n \<and> \<not> is_cont c then c # cs else last_chars n cs)"

definition goal_window_name :: "string \<Rightarrow> string \<Rightarrow> string \<Rightarrow> string" where
  "goal_window_name runner goal_path run_id =
     (let stem = opt_get_or [] (file_stem goal_path);
          src = (if stem = ''goal'' then [] else opt_get_or stem (strip_prefix ''goal-'' stem));
          src' = (if is_date_prefix src then drop 11 src else src);
          slug = slug_of src';
          fallback = last_chars 8 run_id
      in (''lto:'' @ runner @ '':'' @ (if slug \<noteq> [] then slug else if fallback = [] then ''window'' else fallback)))"

subsection \<open>Prompts a runner may be blocked on\<close>

definition blocked_patterns :: "string \<Rightarrow> string list" where
  "blocked_patterns runner =
     [''Press enter to confirm''] @
     (if runner = ''codex''
      then [''Hooks need review'', ''hook needs review'', ''Trust all and continue'', ''Press t to trust all'']
      else if runner = ''agy''
      then [''Do you trust the contents of this project'', ''Yes, I trust this folder'']
      else [])"

definition blocked_prompt_hint :: "string \<Rightarrow> string" where
  "blocked_prompt_hint runner =
     (if runner = ''codex''
      then (''runner codex is blocked on an interactive trust prompt; select '' @ [CHR 0x22] @ ''Trust all and continue'' @ [CHR 0x22] @ '', then exit codex back to the shell'')
      else if runner = ''agy''
      then (''runner agy is blocked on Antigravity'' @ [CHR 0x27] @ ''s first-run trust prompt; answer '' @ [CHR 0x22] @ ''Yes, I trust this folder'' @ [CHR 0x22] @ '' in the window, or dispatch with a runner script that uses --print'')
      else (''runner '' @ runner @ '' is blocked on an interactive prompt''))"

definition default_skip_prompts :: "(string \<times> string) list" where
  "default_skip_prompts =
     [(''Press enter to continue'', ''2''), (''update available'', ''2''), (''upgrade?'', ''n''),
      (''new version'', ''n''), (''Do you trust the contents'', ''Enter''), (''esc to close'', ''Escape''),
      (''Press enter to view hooks'', ''Escape'')]"

subsection \<open>Goal files and prompts\<close>

definition COMPLETION_PROTOCOL_MARKER :: string where
  "COMPLETION_PROTOCOL_MARKER = ''<!-- lto:completion-protocol -->''"

definition RUNNER_CONSTRAINTS_MARKER :: string where
  "RUNNER_CONSTRAINTS_MARKER = ''<!-- lto:runner-constraints -->''"

definition wrap_runner_constraints :: "string \<Rightarrow> string" where
  "wrap_runner_constraints body =
     ([CHR 0x0A, CHR 0x0A] @ ''---'' @ [CHR 0x0A] @ RUNNER_CONSTRAINTS_MARKER @ [CHR 0x0A] @ ''## '' @ [CHR 0xE6, CHR 0x89, CHR 0xA7, CHR 0xE8, CHR 0xA1, CHR 0x8C, CHR 0xE7, CHR 0xBA, CHR 0xA6, CHR 0xE6, CHR 0x9D, CHR 0x9F, CHR 0xEF, CHR 0xBC, CHR 0x88] @ ''dispatch '' @ [CHR 0xE6, CHR 0xB3, CHR 0xA8, CHR 0xE5, CHR 0x85, CHR 0xA5, CHR 0xEF, CHR 0xBC, CHR 0x8C, CHR 0xE4, CHR 0xBC, CHR 0x98, CHR 0xE5, CHR 0x85, CHR 0x88, CHR 0xE7, CHR 0xBA, CHR 0xA7, CHR 0xE9, CHR 0xAB, CHR 0x98, CHR 0xE4, CHR 0xBA, CHR 0x8E, CHR 0xE9, CHR 0xBB, CHR 0x98, CHR 0xE8, CHR 0xAE, CHR 0xA4, CHR 0xE8, CHR 0xA1, CHR 0x8C, CHR 0xE4, CHR 0xB8, CHR 0xBA, CHR 0xEF, CHR 0xBC, CHR 0x89, CHR 0x0A, CHR 0x0A] @ body @ [CHR 0x0A])"

definition codex_constraints :: string where
  "codex_constraints = join_str [CHR 0x0A]
     [(''- **'' @ [CHR 0xE5, CHR 0x8F, CHR 0xAA, CHR 0xE5, CHR 0x81, CHR 0x9A, CHR 0xE6, CHR 0x9C, CHR 0xAC] @ '' goal '' @ [CHR 0xE8, CHR 0xA6, CHR 0x81, CHR 0xE6, CHR 0xB1, CHR 0x82, CHR 0xE7, CHR 0x9A, CHR 0x84, CHR 0xE4, CHR 0xBA, CHR 0x8B] @ ''**'' @ [CHR 0xEF, CHR 0xBC, CHR 0x9A, CHR 0xE7, CHR 0xA6, CHR 0x81, CHR 0xE6, CHR 0xAD, CHR 0xA2, CHR 0xE9, CHR 0xA1, CHR 0xBA, CHR 0xE6, CHR 0x89, CHR 0x8B, CHR 0xE4, CHR 0xBC, CHR 0x98, CHR 0xE5, CHR 0x8C, CHR 0x96] @ ''/'' @ [CHR 0xE9, CHR 0x87, CHR 0x8D, CHR 0xE6, CHR 0x9E, CHR 0x84] @ ''/'' @ [CHR 0xE7, CHR 0xBE, CHR 0x8E, CHR 0xE5, CHR 0x8C, CHR 0x96, CHR 0xE6, CHR 0x9C, CHR 0xAA, CHR 0xE6, CHR 0x8F, CHR 0x90, CHR 0xE5, CHR 0x8F, CHR 0x8A, CHR 0xE7, CHR 0x9A, CHR 0x84, CHR 0xE4, CHR 0xBB, CHR 0xA3, CHR 0xE7, CHR 0xA0, CHR 0x81, CHR 0xEF, CHR 0xBC, CHR 0x9B, CHR 0xE5, CHR 0x8F, CHR 0x91, CHR 0xE7, CHR 0x8E, CHR 0xB0, CHR 0xE9, CHR 0xA2, CHR 0x98, CHR 0xE5, CHR 0xA4, CHR 0x96, CHR 0xE9, CHR 0x97, CHR 0xAE, CHR 0xE9, CHR 0xA2, CHR 0x98, CHR 0xE8, CHR 0xAE, CHR 0xB0, CHR 0xE8, CHR 0xBF, CHR 0x9B, CHR 0xE6, CHR 0xB1, CHR 0x87, CHR 0xE6, CHR 0x8A, CHR 0xA5, CHR 0xEF, CHR 0xBC, CHR 0x8C, CHR 0xE4, CHR 0xB8, CHR 0x8D, CHR 0xE5, CHR 0x8A, CHR 0xA8, CHR 0xE6, CHR 0x89, CHR 0x8B, CHR 0xE6, CHR 0x94, CHR 0xB9, CHR 0xE3, CHR 0x80, CHR 0x82]),
      (''- **'' @ [CHR 0xE4, CHR 0xBF, CHR 0xAE, CHR 0xE6, CHR 0x94, CHR 0xB9, CHR 0xE8, CHR 0x8C, CHR 0x83, CHR 0xE5, CHR 0x9B, CHR 0xB4, CHR 0xE6, CHR 0x9C, CHR 0x80, CHR 0xE5, CHR 0xB0, CHR 0x8F, CHR 0xE5, CHR 0x8C, CHR 0x96] @ ''**'' @ [CHR 0xEF, CHR 0xBC, CHR 0x9A, CHR 0xE6, CHR 0xBB, CHR 0xA1, CHR 0xE8, CHR 0xB6, CHR 0xB3, CHR 0xE5, CHR 0xAE, CHR 0x8C, CHR 0xE6, CHR 0x88, CHR 0x90, CHR 0xE5, CHR 0x88, CHR 0xA4, CHR 0xE6, CHR 0x8D, CHR 0xAE, CHR 0xE7, CHR 0x9A, CHR 0x84, CHR 0xE6, CHR 0x9C, CHR 0x80, CHR 0xE5, CHR 0xB0, CHR 0x8F] @ '' diff'' @ [CHR 0xEF, CHR 0xBC, CHR 0x9B, CHR 0xE9, CHR 0x81, CHR 0xB5, CHR 0xE5, CHR 0xBE, CHR 0xAA] @ '' KISS'' @ [CHR 0xEF, CHR 0xBC, CHR 0x8C, CHR 0xE4, CHR 0xB8, CHR 0x8D, CHR 0xE5, CHR 0xBC, CHR 0x95, CHR 0xE5, CHR 0x85, CHR 0xA5, CHR 0xE6, CHR 0x9C, CHR 0xAA, CHR 0xE8, CHR 0xA6, CHR 0x81, CHR 0xE6, CHR 0xB1, CHR 0x82, CHR 0xE7, CHR 0x9A, CHR 0x84, CHR 0xE6, CHR 0x8A, CHR 0xBD, CHR 0xE8, CHR 0xB1, CHR 0xA1, CHR 0xE3, CHR 0x80, CHR 0x81, CHR 0xE4, CHR 0xBE, CHR 0x9D, CHR 0xE8, CHR 0xB5, CHR 0x96, CHR 0xE3, CHR 0x80, CHR 0x81, CHR 0xE9, CHR 0x85, CHR 0x8D, CHR 0xE7, CHR 0xBD, CHR 0xAE, CHR 0xE3, CHR 0x80, CHR 0x82]),
      (''- **'' @ [CHR 0xE7, CHR 0xA6, CHR 0x81, CHR 0xE6, CHR 0xAD, CHR 0xA2, CHR 0xE8, CHR 0x87, CHR 0xAA, CHR 0xE5, CHR 0x8F, CHR 0x91, CHR 0xE6, CHR 0x89, CHR 0x87, CHR 0xE5, CHR 0x87, CHR 0xBA, CHR 0xE5, CHR 0xAD, CHR 0x90, CHR 0xE4, CHR 0xBB, CHR 0xA3, CHR 0xE7, CHR 0x90, CHR 0x86] @ ''**'' @ [CHR 0xEF, CHR 0xBC, CHR 0x9A, CHR 0xE4, CHR 0xB8, CHR 0x8D, CHR 0xE4, CHR 0xB8, CHR 0xBA, CHR 0x22, CHR 0xE4, CHR 0xBC, CHR 0x98, CHR 0xE5, CHR 0x8C, CHR 0x96, CHR 0xE5, CHR 0xB7, CHR 0xB2, CHR 0xE6, CHR 0x9C, CHR 0x89, CHR 0xE4, CHR 0xBA, CHR 0xA7, CHR 0xE7, CHR 0x89, CHR 0xA9, CHR 0x22, CHR 0xE6, CHR 0x88, CHR 0x96, CHR 0x22, CHR 0xE8, CHR 0x87, CHR 0xAA, CHR 0xE6, CHR 0x88, CHR 0x91, CHR 0xE6, CHR 0xA3, CHR 0x80, CHR 0xE6, CHR 0x9F, CHR 0xA5, CHR 0x22, CHR 0xE5, CHR 0xBC, CHR 0x80, CHR 0xE5, CHR 0xAD, CHR 0x90, CHR 0xE4, CHR 0xBB, CHR 0xA3, CHR 0xE7, CHR 0x90, CHR 0x86] @ ''/'' @ [CHR 0xE5, CHR 0xB9, CHR 0xB6, CHR 0xE8, CHR 0xA1, CHR 0x8C, CHR 0xE4, CHR 0xBB, CHR 0xBB, CHR 0xE5, CHR 0x8A, CHR 0xA1, CHR 0xEF, CHR 0xBC, CHR 0x9B] @ ''goal '' @ [CHR 0xE6, CHR 0x98, CHR 0x8E, CHR 0xE7, CHR 0xA1, CHR 0xAE, CHR 0xE8, CHR 0xA6, CHR 0x81, CHR 0xE6, CHR 0xB1, CHR 0x82, CHR 0xE7, CHR 0x9A, CHR 0x84, CHR 0xE9, CHR 0x99, CHR 0xA4, CHR 0xE5, CHR 0xA4, CHR 0x96, CHR 0xE3, CHR 0x80, CHR 0x82]),
      (''- **'' @ [CHR 0xE9, CHR 0xBB, CHR 0x98, CHR 0xE8, CHR 0xAE, CHR 0xA4, CHR 0xE7, CHR 0xAE, CHR 0x80, CHR 0xE7, CHR 0x9F, CHR 0xAD, CHR 0xE3, CHR 0x80, CHR 0x81, CHR 0xE4, CHR 0xB8, CHR 0xAD, CHR 0xE6, CHR 0x96, CHR 0x87, CHR 0xE5, CHR 0x9B, CHR 0x9E, CHR 0xE5, CHR 0xA4, CHR 0x8D] @ ''**'' @ [CHR 0xEF, CHR 0xBC, CHR 0x9A, CHR 0xE8, CHR 0xBF, CHR 0x87, CHR 0xE7, CHR 0xA8, CHR 0x8B, CHR 0xE8, CHR 0xBE, CHR 0x93, CHR 0xE5, CHR 0x87, CHR 0xBA, CHR 0xE4, CHR 0xB8, CHR 0x8E, CHR 0xE6, CHR 0x9C, CHR 0x80, CHR 0xE7, CHR 0xBB, CHR 0x88, CHR 0xE6, CHR 0xB1, CHR 0x87, CHR 0xE6, CHR 0x8A, CHR 0xA5, CHR 0xE7, CHR 0x94, CHR 0xA8, CHR 0xE4, CHR 0xB8, CHR 0xAD, CHR 0xE6, CHR 0x96, CHR 0x87, CHR 0xE8, CHR 0xA6, CHR 0x81, CHR 0xE7, CHR 0x82, CHR 0xB9, CHR 0xE5, CHR 0xBC, CHR 0x8F, CHR 0xEF, CHR 0xBC, CHR 0x8C, CHR 0xE5, CHR 0x8F, CHR 0xAA, CHR 0xE5, CHR 0x86, CHR 0x99, CHR 0xE5, CHR 0x81, CHR 0x9A, CHR 0xE4, CHR 0xBA, CHR 0x86, CHR 0xE4, CHR 0xBB, CHR 0x80, CHR 0xE4, CHR 0xB9, CHR 0x88] @ ''/'' @ [CHR 0xE5, CHR 0x88, CHR 0xA4, CHR 0xE6, CHR 0x8D, CHR 0xAE, CHR 0xE7, CHR 0xBB, CHR 0x93, CHR 0xE6, CHR 0x9E, CHR 0x9C] @ ''/'' @ [CHR 0xE9, CHR 0x81, CHR 0x97, CHR 0xE7, CHR 0x95, CHR 0x99, CHR 0xE9, CHR 0xA1, CHR 0xB9, CHR 0xEF, CHR 0xBC, CHR 0x8C, CHR 0xE4, CHR 0xB8, CHR 0x8D, CHR 0xE5, CHR 0xA4, CHR 0x8D, CHR 0xE8, CHR 0xBF, CHR 0xB0] @ '' goal '' @ [CHR 0xE5, CHR 0x86, CHR 0x85, CHR 0xE5, CHR 0xAE, CHR 0xB9, CHR 0xE3, CHR 0x80, CHR 0x82])]"

text \<open>\<open>override\<close> is the text of the runner's file in the constraints directory, when it reads.\<close>

definition runner_constraints_from :: "string \<Rightarrow> string option \<Rightarrow> string option" where
  "runner_constraints_from runner override =
     (case override of
        Some text \<Rightarrow> (if trim text = [] then None else Some (wrap_runner_constraints (trim text)))
      | None \<Rightarrow>
          (if runner = ''codex'' then Some (wrap_runner_constraints codex_constraints) else None))"

definition file_report :: "string \<Rightarrow> string \<Rightarrow> string \<Rightarrow> string" where
  "file_report abs_repo run_id runner =
     (''lto --repo '' @ (shell_single_quote abs_repo) @ '' agent-turn-completed --run-id '' @ run_id @ '' --runner '' @ runner @ '' --source goal-self-report --rc 0 --bell'')"

definition protocol_intro :: string where
  "protocol_intro =
     ([CHR 0x0A, CHR 0x0A] @ ''---'' @ [CHR 0x0A] @ COMPLETION_PROTOCOL_MARKER @ [CHR 0x0A] @ ''## '' @ [CHR 0xE5, CHR 0xAE, CHR 0x8C, CHR 0xE6, CHR 0x88, CHR 0x90, CHR 0xE5, CHR 0x8D, CHR 0x8F, CHR 0xE8, CHR 0xAE, CHR 0xAE, CHR 0xEF, CHR 0xBC, CHR 0x88] @ ''dispatch '' @ [CHR 0xE6, CHR 0xB3, CHR 0xA8, CHR 0xE5, CHR 0x85, CHR 0xA5, CHR 0xEF, CHR 0xBC, CHR 0x8C, CHR 0xE4, CHR 0xB8, CHR 0x8D, CHR 0xE5, CHR 0x8F, CHR 0xAF, CHR 0xE7, CHR 0x9C, CHR 0x81, CHR 0xE7, CHR 0x95, CHR 0xA5, CHR 0xEF, CHR 0xBC, CHR 0x89, CHR 0x0A, CHR 0x0A, CHR 0xE6, CHR 0x89, CHR 0x80, CHR 0xE6, CHR 0x9C, CHR 0x89, CHR 0xE5, CHR 0xAE, CHR 0x8C, CHR 0xE6, CHR 0x88, CHR 0x90, CHR 0xE5, CHR 0x88, CHR 0xA4, CHR 0xE6, CHR 0x8D, CHR 0xAE, CHR 0xE6, CHR 0xBB, CHR 0xA1, CHR 0xE8, CHR 0xB6, CHR 0xB3, CHR 0xE5, CHR 0x90, CHR 0x8E, CHR 0xEF, CHR 0xBC, CHR 0x8C, CHR 0xE6, CHR 0x9C, CHR 0x80, CHR 0xE5, CHR 0x90, CHR 0x8E, CHR 0xE4, CHR 0xB8, CHR 0x80, CHR 0xE6, CHR 0xAD, CHR 0xA5, CHR 0xE5, CHR 0xBF, CHR 0x85, CHR 0xE9, CHR 0xA1, CHR 0xBB, CHR 0xE6, CHR 0x89, CHR 0xA7, CHR 0xE8, CHR 0xA1, CHR 0x8C, CHR 0xEF, CHR 0xBC, CHR 0x9A, CHR 0x0A, CHR 0x0A, CHR 0x60, CHR 0x60, CHR 0x60] @ ''bash'' @ [CHR 0x0A])"

definition protocol_outro :: string where
  "protocol_outro = ([CHR 0x0A, CHR 0x60, CHR 0x60, CHR 0x60, CHR 0x0A, CHR 0x0A, CHR 0xE8, CHR 0x8B, CHR 0xA5, CHR 0xE8, CHR 0xA2, CHR 0xAB, CHR 0xE9, CHR 0x98, CHR 0xBB, CHR 0xE5, CHR 0xA1, CHR 0x9E, CHR 0xE6, CHR 0x97, CHR 0xA0, CHR 0xE6, CHR 0xB3, CHR 0x95, CHR 0xE5, CHR 0xAE, CHR 0x8C, CHR 0xE6, CHR 0x88, CHR 0x90, CHR 0xEF, CHR 0xBC, CHR 0x8C, CHR 0xE6, CHR 0x94, CHR 0xB9, CHR 0xE7, CHR 0x94, CHR 0xA8] @ '' '' @ [CHR 0x60] @ ''--rc 1'' @ [CHR 0x60, CHR 0xE3, CHR 0x80, CHR 0x82, CHR 0xE4, CHR 0xB8, CHR 0x8D, CHR 0xE6, CHR 0x89, CHR 0xA7, CHR 0xE8, CHR 0xA1, CHR 0x8C, CHR 0xE6, CHR 0xAD, CHR 0xA4, CHR 0xE5, CHR 0x91, CHR 0xBD, CHR 0xE4, CHR 0xBB, CHR 0xA4, CHR 0xEF, CHR 0xBC, CHR 0x8C, CHR 0xE4, CHR 0xBB, CHR 0xBB, CHR 0xE5, CHR 0x8A, CHR 0xA1, CHR 0xE8, CHR 0xA7, CHR 0x86, CHR 0xE4, CHR 0xB8, CHR 0xBA, CHR 0xE6, CHR 0x9C, CHR 0xAA, CHR 0xE5, CHR 0xAE, CHR 0x8C, CHR 0xE6, CHR 0x88, CHR 0x90, CHR 0xE3, CHR 0x80, CHR 0x82, CHR 0x0A])"

definition protocol_footer :: "string \<Rightarrow> string" where
  "protocol_footer report = protocol_intro @ report @ protocol_outro"

text \<open>The path to dispatch and, when something is missing from the goal, the text written to it.\<close>

definition materialize_goal ::
    "string \<Rightarrow> string \<Rightarrow> string \<Rightarrow> string \<Rightarrow> string \<Rightarrow> string option \<Rightarrow> string \<times> string option" where
  "materialize_goal content goal_path abs_repo run_id runner constraints =
     (let self_reports = (runner \<noteq> ''aix'');
          needs_protocol = (self_reports \<and> \<not> contains_str ''agent-turn-completed'' content);
          cs = opt_filter (\<lambda>_. \<not> contains_str RUNNER_CONSTRAINTS_MARKER content) constraints
      in if \<not> needs_protocol \<and> cs = None then (goal_path, None)
         else
           let footer = opt_get_or [] cs
                 @ (if needs_protocol then protocol_footer (file_report abs_repo run_id runner) else []);
               stem = opt_get_or ''goal'' (file_stem goal_path)
           in (with_file_name goal_path (stem @ ''.dispatch.md''), Some (content @ footer)))"

definition goal_report :: "string \<Rightarrow> string \<Rightarrow> string \<Rightarrow> string \<Rightarrow> string" where
  "goal_report repo run_id runner window_id =
     (''lto --repo '' @ (shell_single_quote repo) @ '' agent-turn-completed --run-id '' @ run_id @ '' --runner '' @ runner @ '' --source goal-self-report --rc 0 --window-id '' @ window_id @ '' --bell'')"

definition goal_prompt :: "string \<Rightarrow> string \<Rightarrow> string \<Rightarrow> string \<Rightarrow> string \<Rightarrow> string" where
  "goal_prompt goal repo run_id runner window_id =
     (let report = goal_report repo run_id runner window_id;
          prompt = (if runner = ''aix''
            then (''Read the file '' @ goal @ '' and execute it. Follow only the instructions in that goal file.'')
            else (''Read the file '' @ goal @ '' and execute it. Follow only the instructions in that goal file. '' @ [CHR 0xE5, CHR 0x85, CHR 0xA8, CHR 0xE9, CHR 0x83, CHR 0xA8, CHR 0xE5, CHR 0xAE, CHR 0x8C, CHR 0xE6, CHR 0x88, CHR 0x90, CHR 0xE5, CHR 0x88, CHR 0xA4, CHR 0xE6, CHR 0x8D, CHR 0xAE, CHR 0xE6, CHR 0xBB, CHR 0xA1, CHR 0xE8, CHR 0xB6, CHR 0xB3, CHR 0xE5, CHR 0x90, CHR 0x8E, CHR 0xE8, CHR 0xBF, CHR 0x90, CHR 0xE8, CHR 0xA1, CHR 0x8C] @ '': '' @ report @ '' '' @ [CHR 0xEF, CHR 0xBC, CHR 0x88, CHR 0xE8, CHR 0x8B, CHR 0xA5, CHR 0xE8, CHR 0xA2, CHR 0xAB, CHR 0xE9, CHR 0x98, CHR 0xBB, CHR 0xE5, CHR 0xA1, CHR 0x9E, CHR 0xE6, CHR 0x94, CHR 0xB9, CHR 0xE7, CHR 0x94, CHR 0xA8] @ '' --rc 1'' @ [CHR 0xEF, CHR 0xBC, CHR 0x89]))
      in if runner = ''codex'' then (''/goal '' @ prompt) else prompt)"

definition process_exit_wrapper :: "string \<Rightarrow> string \<Rightarrow> string \<Rightarrow> string \<Rightarrow> string" where
  "process_exit_wrapper lto_bin launch runner run_id =
     (launch @ ''; LTO_AGENT_RC=$?; '' @ (shell_single_quote lto_bin) @ '' --repo '' @ [CHR 0x22] @ ''$LTO_REPO'' @ [CHR 0x22] @ '' agent-turn-completed --run-id '' @ (shell_single_quote run_id) @ '' --runner '' @ (shell_single_quote runner) @ '' --source '' @ runner @ ''-process-exit --rc '' @ [CHR 0x22] @ ''$LTO_AGENT_RC'' @ [CHR 0x22] @ '' --window-id '' @ [CHR 0x22] @ ''$LTO_WINDOW_ID'' @ [CHR 0x22] @ '' --bell'')"

record goal_runner_plan =
  gp_launch :: "string option"
  gp_prompt :: string
  gp_ready_patterns :: "string list"
  gp_confirm_patterns :: "string list"
  gp_needs_probe :: bool
  gp_completion_event :: "string option"
  gp_completion_mode :: string
  gp_launch_includes_prompt :: bool

definition validate_runner :: "string \<Rightarrow> string + unit" where
  "validate_runner runner =
     (if runner \<in> {''codex'', ''pi'', ''agy'', ''aix''} then Inr ()
      else Inl ''dispatch-goal runner must be one of codex, pi, agy, aix'')"

text \<open>\<open>None\<close> is the branch the code marks as unreachable.\<close>

definition runner_plan ::
    "string \<Rightarrow> string \<Rightarrow> string \<Rightarrow> string \<Rightarrow> string \<Rightarrow> string \<Rightarrow> goal_runner_plan option" where
  "runner_plan lto_bin runner goal repo run_id window_id =
     (let prompt = goal_prompt goal repo run_id runner window_id;
          rid = (''LTO_RUN_ID='' @ (shell_single_quote run_id));
          plan = \<lparr> gp_launch = None, gp_prompt = prompt, gp_ready_patterns = [],
            gp_confirm_patterns = [''Working'', ''Read the file''], gp_needs_probe = True,
            gp_completion_event = Some ''agent.dispatch.completed'',
            gp_completion_mode = ''goal-self-report'', gp_launch_includes_prompt = False \<rparr>
      in if runner = ''codex'' then
           Some (plan\<lparr> gp_launch := Some (rid @ '' codex -c '' @ (shell_single_quote ''mcp_servers={}'')),
             gp_ready_patterns := [''gpt-'', ''model:'', ''codex>''],
             gp_confirm_patterns := [''Goal active'', ''Working'', ''Read the file''] \<rparr>)
         else if runner = ''pi'' then
           Some (plan\<lparr> gp_launch := Some (process_exit_wrapper lto_bin
               (rid @ '' pi --no-skills --no-context-files --no-extensions'') ''pi'' run_id),
             gp_ready_patterns := [''0.0%'', ''(auto)''] \<rparr>)
         else if runner = ''agy'' then
           Some (plan\<lparr> gp_launch := Some (process_exit_wrapper lto_bin
               (rid @ '' agy -i '' @ (shell_single_quote [])) ''agy'' run_id),
             gp_ready_patterns := [''? for shortcuts''] \<rparr>)
         else if runner = ''aix'' then
           Some (plan\<lparr> gp_launch := Some (process_exit_wrapper lto_bin
               (rid @ '' aix -k '' @ (shell_single_quote (''lto:'' @ run_id)) @ '' '' @ (shell_single_quote prompt)) ''aix'' run_id),
             gp_confirm_patterns := [([CHR 0xE2, CHR 0x94, CHR 0x80, CHR 0xE2, CHR 0x94, CHR 0x80] @ '' aix '' @ [CHR 0xE2, CHR 0x94, CHR 0x80, CHR 0xE2, CHR 0x94, CHR 0x80])], gp_needs_probe := False,
             gp_completion_mode := ''process-exit'', gp_launch_includes_prompt := True \<rparr>)
         else None)"

subsection \<open>Window records\<close>

record dispatch_options =
  dg_run_id :: "string option"
  dg_backend :: dispatch_backend
  dg_runner :: string
  dg_goal :: string
  dg_target :: "string option"
  dg_new_window :: bool
  dg_window_name :: "string option"
  dg_keep_window :: bool
  dg_close_window :: bool
  dg_cwd :: "string option"
  dg_tmux_session :: "string option"
  dg_tmux_bin :: "string option"
  dg_ready_timeout_sec :: "u64 option"
  dg_notify_cmd :: "string option"
  dg_no_install_hooks :: bool
  dg_uninstall_hooks :: bool
  dg_no_runner_constraints :: bool

text \<open>\<open>iter().rev().find(p)\<close> with a change of the element found.\<close>

definition update_last :: "('a \<Rightarrow> bool) \<Rightarrow> ('a \<Rightarrow> 'a) \<Rightarrow> 'a list \<Rightarrow> 'a list option" where
  "update_last p f xs =
     (case position p (rev xs) of
        None \<Rightarrow> None
      | Some n \<Rightarrow> Some (let i = length xs - 1 - n in xs[i := f (xs ! i)]))"

definition tmux_bin_of :: "dispatch_options \<Rightarrow> string" where
  "tmux_bin_of opts = opt_get_or ''tmux'' (dg_tmux_bin opts)"

definition reopen_window :: "dispatch_options \<Rightarrow> string \<Rightarrow> dispatch_window \<Rightarrow> dispatch_window" where
  "reopen_window opts target w =
     w\<lparr> wi_target := target, wi_tmux_bin := tmux_bin_of opts, wi_backend := backend_name (dg_backend opts),
        wi_cleanup_on_success := dg_close_window opts, wi_status := ''active'', wi_finished_at := None,
        wi_retention_reason := None \<rparr>"

definition new_window :: "string \<Rightarrow> dispatch_options \<Rightarrow> string \<Rightarrow> string \<Rightarrow> dispatch_window" where
  "new_window now opts target window_id =
     \<lparr> wi_window_id = window_id, wi_target = target, wi_runner = dg_runner opts,
       wi_backend = backend_name (dg_backend opts), wi_tmux_bin = tmux_bin_of opts,
       wi_cleanup_on_success = dg_close_window opts, wi_status = ''active'', wi_created_at = now,
       wi_finished_at = None, wi_retention_reason = None \<rparr>"

definition record_window ::
    "string \<Rightarrow> dispatch_options \<Rightarrow> string \<Rightarrow> string \<Rightarrow> dispatch_window list \<Rightarrow> dispatch_window list" where
  "record_window now opts target window_id ws =
     (case update_last (\<lambda>w. wi_window_id w = window_id \<and> wi_runner w = dg_runner opts \<and> wi_status w \<noteq> ''cleaned'')
             (reopen_window opts target) ws of
        Some ws' \<Rightarrow> ws'
      | None \<Rightarrow> ws @ [new_window now opts target window_id])"

definition retain_record :: "string \<Rightarrow> string \<Rightarrow> dispatch_window \<Rightarrow> dispatch_window" where
  "retain_record now reason w =
     w\<lparr> wi_status := ''retained'', wi_finished_at := Some now, wi_retention_reason := Some reason \<rparr>"

definition retain_window ::
    "string \<Rightarrow> string \<Rightarrow> string \<Rightarrow> dispatch_window list \<Rightarrow> dispatch_window list option" where
  "retain_window now window_id reason ws =
     update_last (\<lambda>w. wi_window_id w = window_id \<and> wi_status w = ''active'') (retain_record now reason) ws"

text \<open>A window of tmux is addressed by the id in front of its target.\<close>

definition is_window_id :: "string \<Rightarrow> bool" where
  "is_window_id v \<longleftrightarrow>
     (case v of c # cs \<Rightarrow> c = CHR ''@'' \<and> cs \<noteq> [] \<and> list_all is_digit cs | [] \<Rightarrow> False)"

definition dispatch_window_id ::
    "(string \<Rightarrow> string option) \<Rightarrow> dispatch_window list \<Rightarrow> dispatch_options \<Rightarrow> string \<Rightarrow> string option" where
  "dispatch_window_id id_from_target ws opts target =
     (if dg_backend opts \<noteq> Tmux then Some target
      else if dg_target opts = None then id_from_target target
      else
        map_option wi_window_id
          (List.find (\<lambda>w. wi_runner w = dg_runner opts \<and> wi_status w \<noteq> ''cleaned''
             \<and> (wi_target w = target \<or> id_from_target target = Some (wi_window_id w))) (rev ws)))"

subsection \<open>Dispatching\<close>

record runner_config =
  rc_target :: "string option"
  rc_session :: "string option"
  rc_new_window :: bool
  rc_window_name :: string
  rc_ready_patterns :: "string list"
  rc_skip_prompts :: "(string \<times> string) list"
  rc_blocked_patterns :: "string list"
  rc_blocked_prompt_hint :: string
  rc_ready_timeout_sec :: u64
  rc_working_dir :: string
  rc_tmux_bin :: string

definition DEFAULT_DISPATCH_READY_TIMEOUT_SEC :: u64 where
  "DEFAULT_DISPATCH_READY_TIMEOUT_SEC = 60"

definition dispatch_config ::
    "dispatch_options \<Rightarrow> string \<Rightarrow> string \<Rightarrow> string \<Rightarrow> goal_runner_plan \<Rightarrow> runner_config" where
  "dispatch_config opts goal_path cwd run_id plan =
     \<lparr> rc_target = dg_target opts, rc_session = dg_tmux_session opts, rc_new_window = dg_new_window opts,
       rc_window_name = opt_get_or (goal_window_name (dg_runner opts) goal_path run_id) (dg_window_name opts),
       rc_ready_patterns = gp_ready_patterns plan, rc_skip_prompts = default_skip_prompts,
       rc_blocked_patterns = blocked_patterns (dg_runner opts),
       rc_blocked_prompt_hint = blocked_prompt_hint (dg_runner opts),
       rc_ready_timeout_sec = opt_get_or DEFAULT_DISPATCH_READY_TIMEOUT_SEC (dg_ready_timeout_sec opts),
       rc_working_dir = cwd, rc_tmux_bin = tmux_bin_of opts \<rparr>"

text \<open>
  The outside of a dispatch: the multiplexer's five calls, the clock and the state file of the run,
  each of which may change the world \<open>'w\<close> (other processes run meanwhile).
\<close>

record 'w dispatch_env =
  dv_prepare :: "dispatch_backend \<Rightarrow> runner_config \<Rightarrow> 'w \<Rightarrow> (string + string) \<times> 'w"
  dv_send :: "dispatch_backend \<Rightarrow> runner_config \<Rightarrow> string \<Rightarrow> string \<Rightarrow> 'w \<Rightarrow> (string + unit) \<times> 'w"
  dv_ready :: "dispatch_backend \<Rightarrow> runner_config \<Rightarrow> string \<Rightarrow> 'w \<Rightarrow> (string + unit) \<times> 'w"
  dv_confirm :: "dispatch_backend \<Rightarrow> runner_config \<Rightarrow> string \<Rightarrow> string \<Rightarrow> 'w \<Rightarrow> (string + string) \<times> 'w"
  dv_capture :: "dispatch_backend \<Rightarrow> runner_config \<Rightarrow> string \<Rightarrow> string list \<Rightarrow> 'w \<Rightarrow> (string + string) \<times> 'w"
  dv_metadata :: "string \<Rightarrow> string \<Rightarrow> string \<Rightarrow> 'w \<Rightarrow> 'w"
  dv_window_id :: "string \<Rightarrow> string option"
  dv_now :: "'w \<Rightarrow> string"
  dv_millis :: "'w \<Rightarrow> nat"
  dv_disk :: "'w \<Rightarrow> lto_state option"
  dv_write :: "'w \<Rightarrow> lto_state \<Rightarrow> 'w"
  dv_show :: "json \<Rightarrow> string"
  dv_lto_bin :: string

text \<open>The state of a dispatch: the run in memory, the window it has recorded, and the world.\<close>

record 'w dispatching =
  di_state :: lto_state
  di_created :: "string option"
  di_world :: 'w

definition save_run :: "'w dispatch_env \<Rightarrow> string \<Rightarrow> string \<Rightarrow> 'w dispatching \<Rightarrow> (string + unit) \<times> 'w dispatching" where
  "save_run E path run_id s =
     (case save_state_preserving_c2 (dv_show E) path run_id (dv_disk E (di_world s)) (di_state s) of
        Inl e \<Rightarrow> (Inl e, s)
      | Inr st \<Rightarrow> (Inr (), s\<lparr> di_state := st, di_world := dv_write E (di_world s) st \<rparr>))"

definition set_windows :: "dispatch_window list \<Rightarrow> 'w dispatching \<Rightarrow> 'w dispatching" where
  "set_windows ws s = s\<lparr> di_state := (di_state s)\<lparr> st_dispatch_windows := ws \<rparr> \<rparr>"

definition persist_dispatch_window ::
    "'w dispatch_env \<Rightarrow> string \<Rightarrow> string \<Rightarrow> dispatch_options \<Rightarrow> string \<Rightarrow> string \<Rightarrow> 'w dispatching
     \<Rightarrow> (string + unit) \<times> 'w dispatching" where
  "persist_dispatch_window E path run_id opts target window_id s =
     save_run E path run_id
       (set_windows (record_window (dv_now E (di_world s)) opts target window_id
                       (st_dispatch_windows (di_state s))) s)"

definition retain_dispatch_window ::
    "'w dispatch_env \<Rightarrow> string \<Rightarrow> string \<Rightarrow> string \<Rightarrow> string \<Rightarrow> 'w dispatching
     \<Rightarrow> (string + unit) \<times> 'w dispatching" where
  "retain_dispatch_window E path run_id window_id reason s =
     (case retain_window (dv_now E (di_world s)) window_id reason (st_dispatch_windows (di_state s)) of
        None \<Rightarrow> (Inr (), s)
      | Some ws \<Rightarrow> save_run E path run_id (set_windows ws s))"

text \<open>One call of the multiplexer and what follows when it succeeds.\<close>

definition call ::
    "('w \<Rightarrow> (string + 'a) \<times> 'w) \<Rightarrow> ('a \<Rightarrow> 'w dispatching \<Rightarrow> (string + 'b) \<times> 'w dispatching)
     \<Rightarrow> 'w dispatching \<Rightarrow> (string + 'b) \<times> 'w dispatching" where
  "call f k s =
     (case f (di_world s) of
        (Inl e, w) \<Rightarrow> (Inl e, s\<lparr> di_world := w \<rparr>)
      | (Inr a, w) \<Rightarrow> k a (s\<lparr> di_world := w \<rparr>))"

record goal_dispatch_outcome =
  gd_target :: string
  gd_window_id :: "string option"
  gd_capture :: string
  gd_repo :: string
  gd_completion_event :: "string option"
  gd_completion_mode :: string

definition send_all ::
    "'w dispatch_env \<Rightarrow> dispatch_backend \<Rightarrow> runner_config \<Rightarrow> string \<Rightarrow> string list
     \<Rightarrow> (unit \<Rightarrow> 'w dispatching \<Rightarrow> (string + 'b) \<times> 'w dispatching) \<Rightarrow> 'w dispatching \<Rightarrow> (string + 'b) \<times> 'w dispatching" where
  "send_all E b config target texts k =
     foldr (\<lambda>text rest. \<lambda>_. call (dv_send E b config target text) rest) texts k ()"

text \<open>The screen that confirms the submission; only herdr has a channel for metadata.\<close>

definition confirm_dispatch ::
    "'w dispatch_env \<Rightarrow> dispatch_options \<Rightarrow> runner_config \<Rightarrow> goal_runner_plan \<Rightarrow> string \<Rightarrow> string
     \<Rightarrow> string \<Rightarrow> string \<Rightarrow> string option \<Rightarrow> 'w dispatching \<Rightarrow> (string + goal_dispatch_outcome) \<times> 'w dispatching" where
  "confirm_dispatch E opts config plan goal_path cwd run_id target window_id =
     call (dv_capture E (dg_backend opts) config target (gp_confirm_patterns plan))
       (\<lambda>capture s.
          (Inr \<lparr> gd_target = target, gd_window_id = window_id, gd_capture = capture, gd_repo = cwd,
                 gd_completion_event = gp_completion_event plan,
                 gd_completion_mode = gp_completion_mode plan \<rparr>,
           s\<lparr> di_world :=
                (if dg_backend opts = Herdr
                 then dv_metadata E target run_id (opt_get_or ''goal'' (file_name goal_path)) (di_world s)
                 else di_world s) \<rparr>))"

text \<open>The prompt, unless the launch line carried it; runners with an input line are probed first.\<close>

definition submit_prompt ::
    "'w dispatch_env \<Rightarrow> dispatch_options \<Rightarrow> runner_config \<Rightarrow> goal_runner_plan \<Rightarrow> string \<Rightarrow> string
     \<Rightarrow> string \<Rightarrow> string \<Rightarrow> string \<Rightarrow> string option \<Rightarrow> 'w dispatching
     \<Rightarrow> (string + goal_dispatch_outcome) \<times> 'w dispatching" where
  "submit_prompt E opts config plan goal_path repo_path cwd run_id target window_id s =
     (let b = dg_backend opts;
          confirm = confirm_dispatch E opts config plan goal_path cwd run_id target window_id;
          prompt = goal_prompt goal_path repo_path run_id (dg_runner opts) (opt_get_or ''unknown'' window_id)
      in if gp_launch_includes_prompt plan then confirm s
         else if gp_needs_probe plan
         then call (dv_confirm E b config target (''LTO_PROBE_'' @ (show_nat (dv_millis E (di_world s)))))
                (\<lambda>_. send_all E b config target [prompt] (\<lambda>_. confirm)) s
         else send_all E b config target [prompt] (\<lambda>_. confirm) s)"

definition launch_runner ::
    "'w dispatch_env \<Rightarrow> dispatch_options \<Rightarrow> runner_config \<Rightarrow> goal_runner_plan \<Rightarrow> string
     \<Rightarrow> ('w dispatching \<Rightarrow> (string + 'b) \<times> 'w dispatching) \<Rightarrow> 'w dispatching \<Rightarrow> (string + 'b) \<times> 'w dispatching" where
  "launch_runner E opts config plan target k =
     (case gp_launch plan of
        None \<Rightarrow> k
      | Some l \<Rightarrow>
          send_all E (dg_backend opts) config target [l]
            (\<lambda>_. call (dv_ready E (dg_backend opts) config target) (\<lambda>_. k)))"

definition dispatch_tail ::
    "'w dispatch_env \<Rightarrow> dispatch_options \<Rightarrow> runner_config \<Rightarrow> goal_runner_plan \<Rightarrow> string \<Rightarrow> string
     \<Rightarrow> string \<Rightarrow> string \<Rightarrow> string \<Rightarrow> string option \<Rightarrow> 'w dispatching
     \<Rightarrow> (string + goal_dispatch_outcome) \<times> 'w dispatching" where
  "dispatch_tail E opts config plan goal_path repo_path cwd run_id target window_id =
     send_all E (dg_backend opts) config target
       [(''export LTO_REPO='' @ (shell_single_quote repo_path)), (''cd '' @ (shell_single_quote cwd))]
       (\<lambda>_. launch_runner E opts config plan target
          (submit_prompt E opts config plan goal_path repo_path cwd run_id target window_id))"

definition dispatch_block ::
    "'w dispatch_env \<Rightarrow> string \<Rightarrow> dispatch_options \<Rightarrow> runner_config \<Rightarrow> goal_runner_plan \<Rightarrow> string \<Rightarrow> string
     \<Rightarrow> string \<Rightarrow> string \<Rightarrow> 'w dispatching \<Rightarrow> (string + goal_dispatch_outcome) \<times> 'w dispatching" where
  "dispatch_block E path opts config plan goal_path repo_path cwd run_id =
     call (dv_prepare E (dg_backend opts) config)
       (\<lambda>target s.
          case dispatch_window_id (dv_window_id E) (st_dispatch_windows (di_state s)) opts target of
            None \<Rightarrow> dispatch_tail E opts config plan goal_path repo_path cwd run_id target None s
          | Some wid \<Rightarrow>
              (case persist_dispatch_window E path run_id opts target wid s of
                 (Inl e, s1) \<Rightarrow> (Inl (''persist dispatch window '' @ wid @ '': '' @ e), s1)
               | (Inr _, s1) \<Rightarrow>
                   send_all E (dg_backend opts) config target
                     [(''export LTO_WINDOW_ID='' @ (shell_single_quote wid))]
                     (\<lambda>_. dispatch_tail E opts config plan goal_path repo_path cwd run_id target (Some wid))
                     (s1\<lparr> di_created := Some wid \<rparr>)))"

text \<open>A dispatch that fails retains the window it has recorded, for inspection.\<close>

definition run_dispatch ::
    "'w dispatch_env \<Rightarrow> string \<Rightarrow> string \<Rightarrow> string \<Rightarrow> dispatch_options \<Rightarrow> string \<Rightarrow> string \<Rightarrow> string
     \<Rightarrow> 'w dispatching \<Rightarrow> (string + goal_dispatch_outcome) option \<times> 'w dispatching" where
  "run_dispatch E path repo repo_path opts goal_path cwd run_id s =
     (case runner_plan (dv_lto_bin E) (dg_runner opts) goal_path repo_path run_id ''pending'' of
        None \<Rightarrow> (None, s)
      | Some plan \<Rightarrow>
          (case dispatch_block E path opts (dispatch_config opts goal_path cwd run_id plan) plan
                  goal_path repo_path cwd run_id s of
             (Inr r, s1) \<Rightarrow> (Some (Inr r), s1)
           | (Inl e, s1) \<Rightarrow>
               (Some (Inl (''dispatch-goal '' @ (backend_name (dg_backend opts)) @ '' failure in '' @ repo @ '': '' @ e)),
                case di_created s1 of
                  None \<Rightarrow> s1
                | Some wid \<Rightarrow> snd (retain_dispatch_window E path run_id wid (''dispatch failed: '' @ e) s1))))"

text \<open>After a timeout of the wait: the last active window of the run is retained.\<close>

definition retain_latest_dispatch_window ::
    "'w dispatch_env \<Rightarrow> string \<Rightarrow> string \<Rightarrow> string \<Rightarrow> 'w \<Rightarrow> 'w" where
  "retain_latest_dispatch_window E path run_id reason w =
     (case dv_disk E w of
        None \<Rightarrow> w
      | Some st \<Rightarrow>
          (case List.find (\<lambda>x. wi_status x = ''active'') (rev (st_dispatch_windows st)) of
             None \<Rightarrow> w
           | Some x \<Rightarrow>
               di_world (snd (retain_dispatch_window E path run_id (wi_window_id x) reason
                 \<lparr> di_state = st, di_created = None, di_world = w \<rparr>))))"

subsection \<open>Hook files\<close>

text \<open>
  A hook file is a JSON object with an object \<open>hooks\<close> whose entry is an array of hook groups. The
  store holds its text, the notifier script beside it and the backups taken; \<open>parse\<close> and \<open>pretty\<close> read
  and write JSON text. Reads and writes of files that fail are not modelled.
\<close>

record hook_store =
  hk_home_exists :: bool
  hk_hooks :: "string option"
  hk_script :: "string option"
  hk_backups :: "string list"

record hook_status =
  hs_status :: string
  hs_detail :: string
  hs_script_path :: "string option"

definition LTO_HOOK_MARKER :: string where
  "LTO_HOOK_MARKER = ''long-task-orchestration''"

definition ensure_hooks_shape :: "json \<Rightarrow> string + json" where
  "ensure_hooks_shape v =
     (let v1 = (if is_object v then v else jobj [(''hooks'', jobj [])]);
          v2 = (if jget v1 ''hooks'' = None then jset ''hooks'' (jobj []) v1 else v1)
      in if opt_all is_object (jget v2 ''hooks'') then Inr v2
         else Inl (''hooks.json field '' @ [CHR 0x27] @ ''hooks'' @ [CHR 0x27] @ '' is not an object''))"

text \<open>The array of hook groups and the value with the array in place, made when it is missing.\<close>

definition hook_array :: "string \<Rightarrow> string \<Rightarrow> json \<Rightarrow> string + json list" where
  "hook_array key not_array v =
     (case jget (opt_get_or JNull (jget v ''hooks'')) key of
        None \<Rightarrow> Inr []
      | Some (JArr es) \<Rightarrow> Inr es
      | Some _ \<Rightarrow> Inl not_array)"

definition put_hook_array :: "string \<Rightarrow> json list \<Rightarrow> json \<Rightarrow> json" where
  "put_hook_array key es v = jset ''hooks'' (jset key (JArr es) (opt_get_or JNull (jget v ''hooks''))) v"

definition stop_hooks :: "json \<Rightarrow> string + json \<times> json list" where
  "stop_hooks v =
     bindr (ensure_hooks_shape v) (\<lambda>v1.
     bindr (hook_array ''Stop'' ''hooks.Stop is not an array'' v1) (\<lambda>es. Inr (v1, es)))"

definition session_end_hooks :: "json \<Rightarrow> string + json \<times> json list" where
  "session_end_hooks v =
     (if \<not> is_object v then Inl ''gemini settings.json root is not an object''
      else
        let v1 = (if jget v ''hooks'' = None then jset ''hooks'' (jobj []) v else v)
        in if \<not> opt_all is_object (jget v1 ''hooks'') then Inl (''gemini settings '' @ [CHR 0x27] @ ''hooks'' @ [CHR 0x27] @ '' is not an object'')
           else bindr (hook_array ''SessionEnd'' ''hooks.SessionEnd is not an array'' v1) (\<lambda>es. Inr (v1, es)))"

definition codex_stop_hook_entry :: "string \<Rightarrow> string \<Rightarrow> json" where
  "codex_stop_hook_entry command lto_bin =
     jobj [(''matcher'', JStr []), (''_lto_marker'', JStr LTO_HOOK_MARKER), (''_lto_bin'', JStr lto_bin),
           (''hooks'', JArr [jobj [(''type'', JStr ''command''), (''command'', JStr command), (''timeout'', JInt 10)]])]"

definition has_marker :: "json \<Rightarrow> bool" where
  "has_marker e \<longleftrightarrow> jget_str e ''_lto_marker'' = Some LTO_HOOK_MARKER"

definition hook_command :: "json \<Rightarrow> string option" where
  "hook_command e =
     (case jget_with as_array e ''hooks'' of
        Some (h # _) \<Rightarrow> jget_str h ''command''
      | _ \<Rightarrow> None)"

definition backup_hooks :: "hook_store \<Rightarrow> hook_store" where
  "backup_hooks S =
     (case hk_hooks S of None \<Rightarrow> S | Some t \<Rightarrow> S\<lparr> hk_backups := hk_backups S @ [t] \<rparr>)"

definition write_hooks :: "(json \<Rightarrow> string) \<Rightarrow> json \<Rightarrow> hook_store \<Rightarrow> hook_store" where
  "write_hooks pretty v S = (backup_hooks S)\<lparr> hk_hooks := Some (pretty v @ [CHR 0x0A]) \<rparr>"

definition set_first :: "('a \<Rightarrow> bool) \<Rightarrow> 'a \<Rightarrow> 'a list \<Rightarrow> 'a list" where
  "set_first p x xs = (case position p xs of None \<Rightarrow> xs | Some i \<Rightarrow> xs[i := x])"

definition codex_hook_command :: "string \<Rightarrow> string \<Rightarrow> string" where
  "codex_hook_command lto_bin script_path =
     (''LTO_BIN='' @ (shell_single_quote lto_bin) @ '' bash '' @ (shell_single_quote script_path))"

definition install_codex_hook_at ::
    "(string \<Rightarrow> string + json) \<Rightarrow> (json \<Rightarrow> string) \<Rightarrow> string \<Rightarrow> string \<Rightarrow> string \<Rightarrow> hook_store
     \<Rightarrow> (string + hook_status) \<times> hook_store" where
  "install_codex_hook_at parse pretty hook_script lto_bin home S =
     (let script_path = path_join (path_join home ''hooks'') ''lto-codex-stop-notify.sh'';
          hooks_path = path_join home ''hooks.json''
      in if \<not> hk_home_exists S
         then (Inr \<lparr> hs_status = ''skipped'', hs_detail = (home @ '' does not exist''), hs_script_path = None \<rparr>, S)
         else
           let S1 = S\<lparr> hk_script := Some hook_script \<rparr>;
               command = codex_hook_command lto_bin script_path;
               done = (\<lambda>status. \<lparr> hs_status = status, hs_detail = hooks_path, hs_script_path = Some script_path \<rparr>);
               entry = codex_stop_hook_entry command lto_bin
           in case (case hk_hooks S of
                      None \<Rightarrow> Inr (jobj [(''hooks'', jobj [])])
                    | Some t \<Rightarrow> (case parse t of Inl _ \<Rightarrow> Inl (''parse '' @ hooks_path) | Inr v \<Rightarrow> Inr v)) of
                Inl e \<Rightarrow> (Inl e, S1)
              | Inr v \<Rightarrow>
                  (case stop_hooks v of
                     Inl e \<Rightarrow> (Inl e, S1)
                   | Inr (v1, es) \<Rightarrow>
                       (case List.find has_marker es of
                          Some existing \<Rightarrow>
                            if hook_command existing = Some command
                            then (Inr (done ''already-installed''), S1)
                            else (Inr (done ''updated''),
                                  write_hooks pretty (put_hook_array ''Stop'' (set_first has_marker entry es) v1) S1)
                        | None \<Rightarrow>
                            (Inr (done ''installed''),
                             write_hooks pretty (put_hook_array ''Stop'' (es @ [entry]) v1) S1))))"

text \<open>A hook group of this program: it carries the marker, or its text names the script.\<close>

definition is_lto_group :: "(json \<Rightarrow> string) \<Rightarrow> string \<Rightarrow> json \<Rightarrow> bool" where
  "is_lto_group show script e \<longleftrightarrow> has_marker e \<or> contains_str script (show e)"

definition uninstall_codex_hook ::
    "(json \<Rightarrow> string) \<Rightarrow> (string \<Rightarrow> string + json) \<Rightarrow> (json \<Rightarrow> string) \<Rightarrow> string \<Rightarrow> hook_store
     \<Rightarrow> (string + hook_status) \<times> hook_store" where
  "uninstall_codex_hook show parse pretty home S =
     (let hooks_path = path_join home ''hooks.json'';
          script_path = path_join (path_join home ''hooks'') ''lto-codex-stop-notify.sh''
      in case hk_hooks S of
           None \<Rightarrow>
             (Inr \<lparr> hs_status = ''skipped'', hs_detail = (hooks_path @ '' does not exist''),
                    hs_script_path = Some script_path \<rparr>, S\<lparr> hk_script := None \<rparr>)
         | Some t \<Rightarrow>
             (case bindr (parse t) stop_hooks of
                Inl e \<Rightarrow> (Inl e, S)
              | Inr (v, es) \<Rightarrow>
                  let kept = filter (\<lambda>e. \<not> is_lto_group show ''lto-codex-stop-notify.sh'' e) es
                  in (Inr \<lparr> hs_status = ''uninstalled'',
                            hs_detail = (''removed '' @ (show_nat (length es - length kept)) @ '' hook group(s)''),
                            hs_script_path = Some script_path \<rparr>,
                      (write_hooks pretty (put_hook_array ''Stop'' kept v) S)\<lparr> hk_script := None \<rparr>)))"

definition uninstall_agy_hook_at ::
    "(json \<Rightarrow> string) \<Rightarrow> (string \<Rightarrow> string + json) \<Rightarrow> (json \<Rightarrow> string) \<Rightarrow> string \<Rightarrow> hook_store
     \<Rightarrow> (string + hook_status) \<times> hook_store" where
  "uninstall_agy_hook_at show parse pretty home S =
     (let settings_path = path_join home ''settings.json'';
          script_path = path_join (path_join home ''hooks'') ''lto-agy-session-end-notify.sh''
      in case hk_hooks S of
           None \<Rightarrow>
             (Inr \<lparr> hs_status = ''skipped'', hs_detail = (settings_path @ '' does not exist''),
                    hs_script_path = Some script_path \<rparr>, S\<lparr> hk_script := None \<rparr>)
         | Some t \<Rightarrow>
             (case bindr (parse t) session_end_hooks of
                Inl e \<Rightarrow> (Inl e, S)
              | Inr (v, es) \<Rightarrow>
                  let kept = filter (\<lambda>e. \<not> is_lto_group show ''lto-agy-session-end-notify.sh'' e) es;
                      removed = length es - length kept
                  in if removed = 0 \<and> hk_script S = None
                     then (Inr \<lparr> hs_status = ''skipped'',
                             hs_detail = ''process-exit completion already has no global agy hook'',
                             hs_script_path = Some script_path \<rparr>, S)
                     else
                       (Inr \<lparr> hs_status = ''uninstalled'',
                              hs_detail = (''removed '' @ (show_nat removed) @ '' hook group(s)''),
                              hs_script_path = Some script_path \<rparr>,
                        (if 0 < removed then write_hooks pretty (put_hook_array ''SessionEnd'' kept v) S
                         else S)\<lparr> hk_script := None \<rparr>)))"

subsection \<open>The commands\<close>

text \<open>The files of a dispatch; the hooks of the runners are installed in the world as a whole.\<close>

record 'w goal_files =
  gf_exists :: "string \<Rightarrow> bool"
  gf_is_dir :: "string \<Rightarrow> bool"
  gf_read :: "string \<Rightarrow> 'w \<Rightarrow> string + string"
  gf_write :: "string \<Rightarrow> string \<Rightarrow> 'w \<Rightarrow> (string + unit) \<times> 'w"
  gf_constraints :: "string \<Rightarrow> string option"
  gf_codex_install :: "'w \<Rightarrow> (string + hook_status) \<times> 'w"
  gf_codex_uninstall :: "'w \<Rightarrow> (string + hook_status) \<times> 'w"
  gf_agy_uninstall :: "'w \<Rightarrow> (string + hook_status) \<times> 'w"
  gf_redact :: "string \<Rightarrow> string"
  gf_here :: string

definition validate_dispatch_target :: "string option \<Rightarrow> bool \<Rightarrow> string + unit" where
  "validate_dispatch_target target new_win =
     (if target \<noteq> None \<and> new_win then Inl ''pass at most one of --target or --new-window'' else Inr ())"

definition validate_dispatch_cwd :: "(string \<Rightarrow> bool) \<Rightarrow> string \<Rightarrow> string option \<Rightarrow> string + unit" where
  "validate_dispatch_cwd is_dir here cwd =
     (case cwd of
        None \<Rightarrow> Inr ()
      | Some c \<Rightarrow>
          (if is_dir c then Inr ()
           else Inl (''dispatch --cwd directory does not exist or is not a directory: '' @ c @ '' (absolute: '' @ (absolutize here c) @ '')'')))"

definition persist_notify_cmd ::
    "'w dispatch_env \<Rightarrow> string \<Rightarrow> string \<Rightarrow> string option \<Rightarrow> 'w dispatching \<Rightarrow> (string + unit) \<times> 'w dispatching" where
  "persist_notify_cmd E path run_id cmd s =
     (case cmd of
        None \<Rightarrow> (Inr (), s)
      | Some c \<Rightarrow> save_run E path run_id (s\<lparr> di_state := (di_state s)\<lparr> st_notify_cmd := Some c \<rparr> \<rparr>))"

definition hook_skipped :: "string \<Rightarrow> hook_status" where
  "hook_skipped detail = \<lparr> hs_status = ''skipped'', hs_detail = detail, hs_script_path = None \<rparr>"

definition degraded :: "(string + hook_status) \<times> 'w \<Rightarrow> hook_status \<times> 'w" where
  "degraded r =
     (case r of
        (Inr h, w) \<Rightarrow> (h, w)
      | (Inl e, w) \<Rightarrow> (\<lparr> hs_status = ''degraded'', hs_detail = e, hs_script_path = None \<rparr>, w))"

definition dispatch_hooks :: "'w goal_files \<Rightarrow> dispatch_options \<Rightarrow> 'w \<Rightarrow> hook_status \<times> 'w" where
  "dispatch_hooks F opts w =
     (if dg_no_install_hooks opts then (hook_skipped ''--no-install-hooks'', w)
      else if dg_runner opts = ''codex'' then degraded (gf_codex_install F w)
      else if dg_runner opts = ''agy'' then degraded (gf_agy_uninstall F w)
      else if dg_runner opts = ''aix''
      then (hook_skipped ''completion is process-exit (rc); aix has no self-report session'', w)
      else (hook_skipped ''primary completion is goal-self-report; process-exit is a side-channel'', w))"

definition capture_excerpt :: "(string \<Rightarrow> string) \<Rightarrow> string \<Rightarrow> string" where
  "capture_excerpt redact capture =
     redact (join_str [CHR 0x0A] (rev (take 12 (rev (str_lines capture)))))"

definition dispatch_record ::
    "(string \<Rightarrow> string) \<Rightarrow> string \<Rightarrow> dispatch_options \<Rightarrow> string \<Rightarrow> string \<Rightarrow> goal_dispatch_outcome
     \<Rightarrow> hook_status \<Rightarrow> json" where
  "dispatch_record redact now opts goal_path cwd out h =
     jobj [(''schema_version'', JInt 1), (''runner'', JStr (dg_runner opts)), (''goal'', JStr goal_path),
       (''cwd'', JStr cwd), (''target'', JStr (gd_target out)), (''window_id'', jopt JStr (gd_window_id out)),
       (''cleanup_on_success'', JBool (dg_close_window opts)), (''repo'', JStr (gd_repo out)),
       (''dispatched_at'', JStr now), (''completion_event'', jopt JStr (gd_completion_event out)),
       (''completion_mode'', JStr (gd_completion_mode out)), (''turns_jsonl'', JBool False),
       (''hook_status'', jobj [(''status'', JStr (hs_status h)), (''detail'', JStr (hs_detail h)),
          (''script_path'', jopt JStr (hs_script_path h))]),
       (''capture_excerpt'', JStr (capture_excerpt redact (gd_capture out)))]"

definition runner_started ::
    "dispatch_options \<Rightarrow> string \<Rightarrow> string \<Rightarrow> string \<Rightarrow> goal_dispatch_outcome \<Rightarrow> hook_status \<Rightarrow> event_record" where
  "runner_started opts phase goal_path record_path out h =
     default_event\<lparr> er_event_type := ''runner.started'', er_actor_kind := ''runner'',
       er_actor_id := Some (dg_runner opts), er_phase := Some phase,
       er_summary := (''dispatch-goal '' @ (dg_runner opts)), er_artifact_refs := [record_path],
       er_fields := jobj [(''runner'', JStr (dg_runner opts)), (''goal'', JStr goal_path),
         (''target'', JStr (gd_target out)), (''window_id'', jopt JStr (gd_window_id out)),
         (''cleanup_on_success'', JBool (dg_close_window opts)),
         (''completion_event'', jopt JStr (gd_completion_event out)),
         (''completion_mode'', JStr (gd_completion_mode out)), (''turns_jsonl'', JBool False),
         (''hook_status'', JStr (hs_status h))] \<rparr>"

datatype dispatch_error = DispatchErr string | DispatchUnreachable

record dispatched =
  ds_outcome :: goal_dispatch_outcome
  ds_hook :: hook_status
  ds_goal :: string
  ds_record :: json
  ds_event :: event_record

text \<open>
  After the checks: the goal file with the protocol, the hooks, the dispatch, its record and its
  event. The file writes of the goal may fail; that of the record is the caller's.
\<close>

definition dispatch_checked ::
    "'w dispatch_env \<Rightarrow> 'w goal_files \<Rightarrow> string \<Rightarrow> string \<Rightarrow> string \<Rightarrow> dispatch_options
     \<Rightarrow> 'w dispatching \<Rightarrow> (dispatch_error + dispatched) \<times> 'w dispatching" where
  "dispatch_checked E F path repo run_id opts s =
     (let goal = absolutize (gf_here F) (dg_goal opts);
          abs_repo = absolutize (gf_here F) repo;
          constraints = (if dg_no_runner_constraints opts then None
                         else runner_constraints_from (dg_runner opts) (gf_constraints F (dg_runner opts)))
      in case gf_read F goal (di_world s) of
           Inl _ \<Rightarrow> (Inl (DispatchErr (''read goal file '' @ goal)), s)
         | Inr content \<Rightarrow>
             (let m = materialize_goal content goal abs_repo run_id (dg_runner opts) constraints;
                  goal_path = fst m;
                  r = (case snd m of None \<Rightarrow> (Inr (), di_world s)
                       | Some text \<Rightarrow> gf_write F goal_path text (di_world s))
              in case r of
                   (Inl _, w) \<Rightarrow> (Inl (DispatchErr (''materialize dispatch goal '' @ goal_path)), s\<lparr> di_world := w \<rparr>)
                 | (Inr _, w) \<Rightarrow>
                     (let cwd = absolutize (gf_here F) (opt_get_or repo (dg_cwd opts));
                          hw = dispatch_hooks F opts w
                      in case run_dispatch E path repo abs_repo opts goal_path cwd run_id
                                (s\<lparr> di_world := snd hw \<rparr>) of
                           (None, s1) \<Rightarrow> (Inl DispatchUnreachable, s1)
                         | (Some (Inl e), s1) \<Rightarrow> (Inl (DispatchErr e), s1)
                         | (Some (Inr out), s1) \<Rightarrow>
                             (let record_path = path_join (path_join (path_join (path_join repo ''.lto'') run_id) ''dispatch'')
                                    ((dg_runner opts) @ ''-'' @ (show_nat (dv_millis E (di_world s1))) @ ''.json'')
                              in (Inr \<lparr> ds_outcome = out, ds_hook = fst hw, ds_goal = goal_path,
                                        ds_record = dispatch_record (gf_redact F) (dv_now E (di_world s1)) opts goal_path cwd out (fst hw),
                                        ds_event = runner_started opts (st_current_phase (di_state s1)) goal_path record_path out (fst hw) \<rparr>,
                                  s1)))))"

definition dispatch_checks :: "'w goal_files \<Rightarrow> dispatch_options \<Rightarrow> string + unit" where
  "dispatch_checks F opts =
     bindr (validate_runner (dg_runner opts)) (\<lambda>_.
       if \<not> gf_exists F (dg_goal opts) then Inl (''goal file does not exist: '' @ (dg_goal opts))
       else bindr (validate_dispatch_cwd (gf_is_dir F) (gf_here F) (dg_cwd opts)) (\<lambda>_.
         validate_dispatch_target (dg_target opts) (dg_new_window opts)))"

text \<open>\<open>None\<close> on success: \<open>--uninstall-hooks\<close> dispatches nothing.\<close>

definition cmd_dispatch_goal ::
    "'w dispatch_env \<Rightarrow> 'w goal_files \<Rightarrow> (dispatch_options \<Rightarrow> string + string \<times> string \<times> lto_state) \<Rightarrow> string
     \<Rightarrow> dispatch_options \<Rightarrow> 'w \<Rightarrow> (dispatch_error + dispatched option) \<times> 'w" where
  "cmd_dispatch_goal E F load repo opts w =
     (if dg_uninstall_hooks opts
      then (case gf_codex_uninstall F w of
              (Inl e, w1) \<Rightarrow> (Inl (DispatchErr e), w1)
            | (Inr _, w1) \<Rightarrow>
                (case gf_agy_uninstall F w1 of
                   (Inl e, w2) \<Rightarrow> (Inl (DispatchErr e), w2)
                 | (Inr _, w2) \<Rightarrow> (Inr None, w2)))
      else case bindr (dispatch_checks F opts) (\<lambda>_. load opts) of
             Inl e \<Rightarrow> (Inl (DispatchErr e), w)
           | Inr (run_id, path, st) \<Rightarrow>
               (case persist_notify_cmd E path run_id (dg_notify_cmd opts)
                       \<lparr> di_state = st, di_created = None, di_world = w \<rparr> of
                  (Inl e, s) \<Rightarrow> (Inl (DispatchErr e), di_world s)
                | (Inr _, s) \<Rightarrow>
                    (case dispatch_checked E F path repo run_id opts s of
                       (Inl e, s1) \<Rightarrow> (Inl e, di_world s1)
                     | (Inr d, s1) \<Rightarrow> (Inr (Some d), di_world s1))))"

text \<open>What the wait for the completion event makes of it.\<close>

definition completion_result :: "string \<Rightarrow> json \<Rightarrow> string + string" where
  "completion_result run_id event =
     (let summary = opt_get_or ''(no summary)'' (jget_str event ''summary'');
          fields = jget event ''fields'';
          runner = opt_get_or ''?'' (Option.bind fields (\<lambda>f. jget_str f ''runner''));
          rc = Option.bind fields (\<lambda>f. jget_with as_i64 f ''rc'')
      in if rc \<noteq> Some 0
         then Inl (''dispatch completed without success (runner='' @ runner @ '', rc='' @ (case rc of Some n \<Rightarrow> show_int n | None \<Rightarrow> ''unknown'') @ ''); window retained for troubleshooting'')
         else Inr (''DONE runner='' @ runner @ '' rc=0 summary='' @ summary))"

definition cmd_dispatch_and_wait ::
    "'w dispatch_env \<Rightarrow> 'w goal_files \<Rightarrow> (dispatch_options \<Rightarrow> string + string \<times> string \<times> lto_state) \<Rightarrow> string
     \<Rightarrow> (dispatch_options \<Rightarrow> string + string) \<Rightarrow> ('w \<Rightarrow> (string + json option) \<times> 'w) \<Rightarrow> string
     \<Rightarrow> dispatch_options \<Rightarrow> u64 \<Rightarrow> 'w \<Rightarrow> (dispatch_error + string) \<times> 'w" where
  "cmd_dispatch_and_wait E F load repo resolve waited path opts timeout_sec w =
     (case resolve opts of
        Inl _ \<Rightarrow> (Inl (DispatchErr ''dispatch-and-wait requires --run-id or .lto/current''), w)
      | Inr run_id \<Rightarrow>
          (case cmd_dispatch_goal E F load repo (opts\<lparr> dg_run_id := Some run_id \<rparr>) w of
             (Inl e, w1) \<Rightarrow> (Inl e, w1)
           | (Inr _, w1) \<Rightarrow>
               (case waited w1 of
                  (Inl e, w2) \<Rightarrow> (Inl (DispatchErr e), w2)
                | (Inr None, w2) \<Rightarrow>
                    (Inl (DispatchErr (''TIMEOUT after '' @ (show_u64 timeout_sec) @ ''s; the agent may still be running and its window was retained. Check with '' @ [CHR 0x60] @ ''lto events --wait --run-id '' @ run_id @ [CHR 0x60] @ '' or '' @ [CHR 0x60] @ ''tmux'' @ [CHR 0x60] @ '' directly.'')),
                     retain_latest_dispatch_window E path run_id
                       (''dispatch-and-wait timeout after '' @ (show_u64 timeout_sec) @ ''s'') w2)
                | (Inr (Some event), w2) \<Rightarrow>
                    (case completion_result run_id event of
                       Inl e \<Rightarrow> (Inl (DispatchErr e), w2)
                     | Inr m \<Rightarrow> (Inr m, w2)))))"

subsection \<open>Changing the last element\<close>

lemma position_split:
  "position p xs = Some n \<Longrightarrow> \<exists>us x vs. xs = us @ x # vs \<and> length us = n \<and> p x \<and> (\<forall>u\<in>set us. \<not> p u)"
proof (induction xs arbitrary: n)
  case (Cons y ys)
  show ?case
  proof (cases "p y")
    case True
    with Cons.prems show ?thesis by (auto intro!: exI [of _ "[]"])
  next
    case False
    with Cons.prems obtain m where m: "position p ys = Some m" "n = Suc m" by auto
    from Cons.IH [OF m(1)] obtain us x vs where "ys = us @ x # vs" "length us = m" "p x" "\<forall>u\<in>set us. \<not> p u"
      by blast
    with m(2) False show ?thesis by (intro exI [of _ "y # us"] exI [of _ x] exI [of _ vs]) simp
  qed
qed simp

lemma update_last_None: "update_last p f xs = None \<longleftrightarrow> (\<forall>x\<in>set xs. \<not> p x)"
  using position_None [of p "rev xs"] by (cases "position p (rev xs)") (auto simp: update_last_def)

lemma update_last_Some:
  assumes "update_last p f xs = Some ys"
  obtains us x vs where "xs = us @ x # vs" "p x" "\<forall>v\<in>set vs. \<not> p v" "ys = us @ f x # vs"
proof -
  from assms obtain n where n: "position p (rev xs) = Some n"
    and ys: "ys = xs[length xs - 1 - n := f (xs ! (length xs - 1 - n))]"
    by (auto simp: update_last_def Let_def split: option.splits)
  from position_split [OF n] obtain as x bs where r: "rev xs = as @ x # bs" "length as = n"
    and x: "p x" "\<forall>a\<in>set as. \<not> p a" by blast
  from r(1) have "rev (rev xs) = rev bs @ x # rev as" by simp
  then have xs: "xs = rev bs @ x # rev as" by simp
  have i: "length xs - 1 - n = length (rev bs)" using r by (simp add: xs)
  have "ys = rev bs @ f x # rev as" unfolding ys i unfolding xs list_update_length nth_append_length ..
  with xs x that show ?thesis by simp
qed

lemma last_by_app_Cons:
  "last_by key k (us @ x # vs) = opt_or (last_by key k vs) (if key x = k then Some x else last_by key k us)"
proof (induction vs rule: rev_induct)
  case (snoc v vs)
  from snoc show ?case by (simp add: append_Cons [symmetric] append_assoc [symmetric] del: append_Cons append_assoc)
qed simp

definition window_status :: "dispatch_window list \<Rightarrow> string \<Rightarrow> string option" where
  "window_status ws i = map_option wi_status (last_by wi_window_id i ws)"

lemma window_status_None: "window_status ws i = None \<longleftrightarrow> i \<notin> set (map wi_window_id ws)"
  by (simp add: window_status_def last_by_None)

text \<open>A recorded window is active, whatever was known of it.\<close>

lemma recorded_window_active:
  assumes "distinct (map wi_window_id ws)"
  shows "window_status (record_window now opts target i ws) i = Some ''active''"
proof (cases "update_last (\<lambda>w. wi_window_id w = i \<and> wi_runner w = dg_runner opts \<and> wi_status w \<noteq> ''cleaned'')
    (reopen_window opts target) ws")
  case None
  then show ?thesis by (simp add: record_window_def window_status_def new_window_def)
next
  case (Some ys)
  then obtain us x vs where s: "ws = us @ x # vs" "wi_window_id x = i" "ys = us @ reopen_window opts target x # vs"
    by (rule update_last_Some) blast
  with assms have "last_by wi_window_id i vs = None" by (auto simp: last_by_None)
  with Some s show ?thesis
    by (simp add: record_window_def window_status_def last_by_app_Cons reopen_window_def)
qed

text \<open>A window that was active is retained, and no window becomes active.\<close>

lemma retained_window:
  assumes "retain_window now i reason ws = Some ws'"
  shows "window_status ws' i \<noteq> Some ''active''"
    "j \<noteq> i \<Longrightarrow> window_status ws' j = window_status ws j"
    "map wi_window_id ws' = map wi_window_id ws"
proof -
  from assms obtain us x vs where s: "ws = us @ x # vs" "wi_window_id x = i"
    "\<forall>v\<in>set vs. \<not> (wi_window_id v = i \<and> wi_status v = ''active'')" "ws' = us @ retain_record now reason x # vs"
    unfolding retain_window_def by (rule update_last_Some) blast
  have vs: "last_by wi_window_id i vs = Some y \<Longrightarrow> wi_status y \<noteq> ''active''" for y
    using s(3) by (auto dest: last_by_SomeD)
  show "window_status ws' i \<noteq> Some ''active''"
    using s vs by (cases "last_by wi_window_id i vs")
      (auto simp: window_status_def last_by_app_Cons retain_record_def)
  show "j \<noteq> i \<Longrightarrow> window_status ws' j = window_status ws j" "map wi_window_id ws' = map wi_window_id ws"
    using s by (auto simp: window_status_def last_by_app_Cons retain_record_def)
qed

lemma retain_window_None:
  "retain_window now i reason ws = None \<Longrightarrow> window_status ws i \<noteq> Some ''active''"
  by (auto simp: retain_window_def update_last_None window_status_def dest: last_by_SomeD)

subsection \<open>Saving\<close>

lemma saved_windows:
  assumes "save_state_preserving_c2 show path run_id disk st = Inr st'"
  shows "window_status (st_dispatch_windows st') i
    = opt_or (window_status (st_dispatch_windows st) i)
        (Option.bind disk (\<lambda>d. window_status (st_dispatch_windows d) i))"
  using assms
  by (auto simp: save_state_preserving_c2_def window_status_def saved_fields stable.lookup opt_or_def
      split: option.splits)

lemma save_run_cases:
  assumes "save_run E path run_id s = (r, s')"
  obtains (failed) e where "r = Inl e" "s' = s" "dv_disk E (di_world s) = None"
  | (saved) st where "r = Inr ()"
      "save_state_preserving_c2 (dv_show E) path run_id (dv_disk E (di_world s)) (di_state s) = Inr st"
      "s' = s\<lparr> di_state := st, di_world := dv_write E (di_world s) st \<rparr>"
  using assms
  by (auto simp: save_run_def save_state_preserving_c2_def split: sum.splits option.splits)

subsection \<open>A dispatch that fails leaves no active window\<close>

text \<open>After its window is recorded, a dispatch changes neither the run in memory nor the record.\<close>

definition quiet :: "('w dispatching \<Rightarrow> (string + 'b) \<times> 'w dispatching) \<Rightarrow> bool" where
  "quiet f \<longleftrightarrow> (\<forall>s. di_state (snd (f s)) = di_state s \<and> di_created (snd (f s)) = di_created s)"

lemma quiet_call: "(\<And>a. quiet (k a)) \<Longrightarrow> quiet (call f k)"
  by (auto simp: quiet_def call_def split: prod.split sum.split)

lemma quiet_send_all: "quiet (k ()) \<Longrightarrow> quiet (send_all E b c t texts k)"
  unfolding send_all_def by (induction texts) (auto intro: quiet_call)

lemma quiet_confirm: "quiet (confirm_dispatch E opts config plan goal_path cwd run_id target i)"
  unfolding confirm_dispatch_def by (rule quiet_call) (simp add: quiet_def)

lemma quietD: "quiet f \<Longrightarrow> di_state (snd (f s)) = di_state s" "quiet f \<Longrightarrow> di_created (snd (f s)) = di_created s"
  by (simp_all add: quiet_def)

lemma quiet_submit: "quiet (submit_prompt E opts config plan goal_path repo_path cwd run_id target i)"
proof -
  let ?confirm = "confirm_dispatch E opts config plan goal_path cwd run_id target i"
  let ?send = "\<lambda>p. send_all E (dg_backend opts) config target [p] (\<lambda>_. ?confirm)"
  have "quiet ?confirm" "quiet (?send p)" "quiet (call f (\<lambda>_. ?send p))" for f :: "'a \<Rightarrow> (string + string) \<times> 'a" and p
    by (intro quiet_confirm quiet_call quiet_send_all)+
  note facts = this [THEN quietD(1)] this [THEN quietD(2)]
  show ?thesis unfolding quiet_def submit_prompt_def Let_def by (simp only: facts split: if_split) simp
qed

lemma quiet_launch: "quiet k \<Longrightarrow> quiet (launch_runner E opts config plan target k)"
  by (auto simp: launch_runner_def split: option.split intro: quiet_send_all quiet_call)

lemma quiet_tail: "quiet (dispatch_tail E opts config plan goal_path repo_path cwd run_id target i)"
  unfolding dispatch_tail_def by (intro quiet_send_all quiet_launch quiet_submit)

lemma dispatch_block_records:
  assumes "distinct (map wi_window_id (st_dispatch_windows (di_state s)))" "di_created s = None"
    and "dispatch_block E path opts config plan goal_path repo_path cwd run_id s = (r, s')"
    and "di_created s' = Some i"
  shows "window_status (st_dispatch_windows (di_state s')) i = Some ''active''"
proof -
  from assms(2-4) obtain target w where p: "dv_prepare E (dg_backend opts) config (di_world s) = (Inr target, w)"
    by (auto simp: dispatch_block_def call_def split: prod.splits sum.splits)
  let ?s = "s\<lparr> di_world := w \<rparr>"
  let ?tail = "dispatch_tail E opts config plan goal_path repo_path cwd run_id target"
  show ?thesis
  proof (cases "dispatch_window_id (dv_window_id E) (st_dispatch_windows (di_state s)) opts target")
    case None
    with assms(3) p have "?tail None ?s = (r, s')" by (simp add: dispatch_block_def call_def)
    with quiet_tail [of E opts config plan goal_path repo_path cwd run_id target None]
    have "di_created s' = di_created ?s" unfolding quiet_def by (metis snd_conv)
    with assms(2,4) show ?thesis by simp
  next
    case (Some wid)
    let ?ws = "record_window (dv_now E w) opts target wid (st_dispatch_windows (di_state s))"
    let ?save = "save_run E path run_id (set_windows ?ws ?s)"
    obtain r1 s1 where sv: "?save = (r1, s1)" by (cases ?save)
    from Some assms(3) p sv have step: "(case r1 of
        Inl e \<Rightarrow> (Inl (''persist dispatch window '' @ wid @ '': '' @ e), s1)
      | Inr _ \<Rightarrow> send_all E (dg_backend opts) config target [(''export LTO_WINDOW_ID='' @ (shell_single_quote wid))]
          (\<lambda>_. ?tail (Some wid)) (s1\<lparr> di_created := Some wid \<rparr>)) = (r, s')"
      by (simp add: dispatch_block_def call_def persist_dispatch_window_def split: sum.splits)
    from sv show ?thesis
    proof (cases rule: save_run_cases)
      case failed
      with step assms(2,4) show ?thesis by (auto simp: set_windows_def)
    next
      case (saved st)
      have "quiet (send_all E (dg_backend opts) config target [(''export LTO_WINDOW_ID='' @ (shell_single_quote wid))]
          (\<lambda>_. ?tail (Some wid)))" by (intro quiet_send_all quiet_tail)
      from quietD [OF this, of "s1\<lparr> di_created := Some wid \<rparr>"] step saved(1)
      have "di_state s' = di_state s1" "di_created s' = Some wid" by simp_all
      moreover have "window_status (st_dispatch_windows st) wid = Some ''active''"
        using saved_windows [OF saved(2), of wid] recorded_window_active [OF assms(1)]
        by (simp add: set_windows_def)
      ultimately show ?thesis using saved(3) assms(4) by simp
    qed
  qed
qed

lemma retain_dispatch_window_status:
  assumes "\<And>w st. dv_disk E (dv_write E w st) = Some st"
    and "retain_dispatch_window E path run_id i reason s = (r, s')"
    and "window_status (st_dispatch_windows (di_state s)) i = Some ''active''"
  shows "window_status (st_dispatch_windows (di_state s')) i \<noteq> Some ''active''"
    "dv_disk E (di_world s') = None \<or> dv_disk E (di_world s') = Some (di_state s')"
proof -
  from assms(3) obtain ws where ws: "retain_window (dv_now E (di_world s)) i reason (st_dispatch_windows (di_state s)) = Some ws"
    using retain_window_None by (cases "retain_window (dv_now E (di_world s)) i reason (st_dispatch_windows (di_state s))") auto
  note off = retained_window(1) [OF ws]
  have "save_run E path run_id (set_windows ws s) = (r, s')"
    using assms(2) by (simp add: retain_dispatch_window_def ws)
  then have "window_status (st_dispatch_windows (di_state s')) i \<noteq> Some ''active''
    \<and> (dv_disk E (di_world s') = None \<or> dv_disk E (di_world s') = Some (di_state s'))"
  proof (cases rule: save_run_cases)
    case failed
    with off show ?thesis by (simp add: set_windows_def)
  next
    case (saved st)
    have "window_status ws i \<noteq> None"
      using assms(3) unfolding window_status_None retained_window(3) [OF ws]
      using window_status_None [of "st_dispatch_windows (di_state s)" i] by simp
    then obtain x where x: "window_status ws i = Some x" by blast
    with saved_windows [OF saved(2), of i] have "window_status (st_dispatch_windows st) i = Some x"
      by (simp add: set_windows_def)
    with off x saved(3) assms(1) show ?thesis by simp
  qed
  then show "window_status (st_dispatch_windows (di_state s')) i \<noteq> Some ''active''"
    "dv_disk E (di_world s') = None \<or> dv_disk E (di_world s') = Some (di_state s')" by blast+
qed


subsection \<open>What is sent, in which order\<close>

datatype dispatch_action = Prepared | Sent string | Awaited | Probed | Captured

text \<open>A world that keeps a log of the multiplexer's calls.\<close>

definition logs_calls :: "'w dispatch_env \<Rightarrow> ('w \<Rightarrow> dispatch_action list) \<Rightarrow> bool" where
  "logs_calls E L \<longleftrightarrow>
     (\<forall>b c w. L (snd (dv_prepare E b c w)) = L w @ [Prepared])
     \<and> (\<forall>b c t x w. L (snd (dv_send E b c t x w)) = L w @ [Sent x])
     \<and> (\<forall>b c t w. L (snd (dv_ready E b c t w)) = L w @ [Awaited])
     \<and> (\<forall>b c t x w. L (snd (dv_confirm E b c t x w)) = L w @ [Probed])
     \<and> (\<forall>b c t ps w. L (snd (dv_capture E b c t ps w)) = L w @ [Captured])
     \<and> (\<forall>t i n w. L (dv_metadata E t i n w) = L w)
     \<and> (\<forall>w st. L (dv_write E w st) = L w)"

definition launch_protocol :: "goal_runner_plan \<Rightarrow> dispatch_action list" where
  "launch_protocol plan = (case gp_launch plan of None \<Rightarrow> [] | Some l \<Rightarrow> [Sent l, Awaited])"

definition submit_protocol :: "goal_runner_plan \<Rightarrow> string \<Rightarrow> dispatch_action list" where
  "submit_protocol plan prompt =
     (if gp_launch_includes_prompt plan then []
      else (if gp_needs_probe plan then [Probed] else []) @ [Sent prompt]) @ [Captured]"

definition dispatch_protocol ::
    "goal_runner_plan \<Rightarrow> string \<Rightarrow> string \<Rightarrow> string \<Rightarrow> string option \<Rightarrow> dispatch_action list" where
  "dispatch_protocol plan repo_path cwd prompt window_id =
     [Prepared]
     @ (case window_id of None \<Rightarrow> [] | Some i \<Rightarrow> [Sent (''export LTO_WINDOW_ID='' @ (shell_single_quote i))])
     @ [Sent (''export LTO_REPO='' @ (shell_single_quote repo_path)), Sent (''cd '' @ (shell_single_quote cwd))]
     @ launch_protocol plan @ submit_protocol plan prompt"

text \<open>\<open>ran\<close>: the calls \<open>acts\<close> were made up to the one that failed; \<open>follows\<close>: \<open>f\<close> always does so.\<close>

definition ran ::
    "('w \<Rightarrow> dispatch_action list) \<Rightarrow> dispatch_action list \<Rightarrow> 'w dispatching \<Rightarrow> string + 'b \<Rightarrow> 'w dispatching \<Rightarrow> bool" where
  "ran L acts s r s' \<longleftrightarrow>
     (\<exists>k. L (di_world s') = L (di_world s) @ take k acts \<and> (is_ok r \<longrightarrow> length acts \<le> k))"

definition follows ::
    "('w \<Rightarrow> dispatch_action list) \<Rightarrow> dispatch_action list \<Rightarrow> ('w dispatching \<Rightarrow> (string + 'b) \<times> 'w dispatching) \<Rightarrow> bool" where
  "follows L acts f \<longleftrightarrow> (\<forall>s. ran L acts s (fst (f s)) (snd (f s)))"

lemma ran_Cons:
  assumes "L (di_world s1) = L (di_world s) @ [a]" "ran L acts s1 r s'"
  shows "ran L (a # acts) s r s'"
proof -
  from assms(2) obtain k where "L (di_world s') = L (di_world s1) @ take k acts" "is_ok r \<longrightarrow> length acts \<le> k"
    by (auto simp: ran_def)
  with assms(1) show ?thesis unfolding ran_def by (intro exI [of _ "Suc k"]) simp
qed

lemma ran_fail: "L (di_world s') = L (di_world s) @ [a] \<Longrightarrow> ran L (a # acts) s (Inl e) s'"
  unfolding ran_def by (intro exI [of _ 1]) simp

lemma ran_world: "L (di_world s1) = L (di_world s) \<Longrightarrow> ran L acts s1 r s' \<Longrightarrow> ran L acts s r s'"
  by (simp add: ran_def)

lemma follows_call:
  assumes "\<And>w. L (snd (f w)) = L w @ [a]" "\<And>x. follows L acts (k x)"
  shows "follows L (a # acts) (call f k)"
proof -
  have "ran L (a # acts) s (fst (call f k s)) (snd (call f k s))" for s
  proof -
    obtain r w where f: "f (di_world s) = (r, w)" by (cases "f (di_world s)")
    with assms(1) [of "di_world s"] have w: "L (di_world (s\<lparr> di_world := w \<rparr>)) = L (di_world s) @ [a]" by simp
    show ?thesis
    proof (cases r)
      case (Inl e)
      with f ran_fail [OF w] show ?thesis by (simp add: call_def)
    next
      case (Inr x)
      have "ran L acts (s\<lparr> di_world := w \<rparr>) (fst (k x (s\<lparr> di_world := w \<rparr>))) (snd (k x (s\<lparr> di_world := w \<rparr>)))"
        using assms(2) unfolding follows_def by blast
      from ran_Cons [OF w this] f Inr show ?thesis by (simp add: call_def)
    qed
  qed
  then show ?thesis by (simp add: follows_def)
qed

lemma follows_send_all:
  assumes "logs_calls E L" "follows L acts (k ())"
  shows "follows L (map Sent texts @ acts) (send_all E b c t texts k)"
proof (induction texts)
  case Nil
  with assms(2) show ?case by (simp add: send_all_def)
next
  case (Cons x texts)
  have eq: "send_all E b c t (x # texts) k = call (dv_send E b c t x) (\<lambda>_. send_all E b c t texts k)"
    by (simp add: send_all_def)
  have "\<And>w. L (snd (dv_send E b c t x w)) = L w @ [Sent x]" using assms(1) by (simp add: logs_calls_def)
  from follows_call [OF this Cons] show ?case by (simp add: eq)
qed

lemma follows_confirm:
  assumes "logs_calls E L"
  shows "follows L [Captured] (confirm_dispatch E opts config plan goal_path cwd run_id target i)"
  unfolding confirm_dispatch_def
proof (rule follows_call)
  show "L (snd (dv_capture E (dg_backend opts) config target (gp_confirm_patterns plan) w)) = L w @ [Captured]" for w
    using assms by (simp add: logs_calls_def)
  show "follows L [] (\<lambda>s. (Inr (out x), s\<lparr> di_world := (if dg_backend opts = Herdr
      then dv_metadata E target run_id (opt_get_or ''goal'' (file_name goal_path)) (di_world s) else di_world s) \<rparr>))" for out x
    using assms by (simp add: follows_def ran_def logs_calls_def)
qed

lemma follows_submit:
  assumes "logs_calls E L"
  shows "follows L (submit_protocol plan (goal_prompt goal_path repo_path run_id (dg_runner opts) (opt_get_or ''unknown'' i)))
     (submit_prompt E opts config plan goal_path repo_path cwd run_id target i)"
proof -
  let ?p = "goal_prompt goal_path repo_path run_id (dg_runner opts) (opt_get_or ''unknown'' i)"
  let ?confirm = "confirm_dispatch E opts config plan goal_path cwd run_id target i"
  let ?send = "send_all E (dg_backend opts) config target [?p] (\<lambda>_. ?confirm)"
  note c = follows_confirm [OF assms, of opts config plan goal_path cwd run_id target i]
  have d: "follows L [Sent ?p, Captured] ?send"
    using follows_send_all [OF assms c, of "[?p]"] by simp
  have probed: "\<And>w. L (snd (dv_confirm E (dg_backend opts) config target x w)) = L w @ [Probed]" for x
    using assms by (simp add: logs_calls_def)
  have e: "follows L [Probed, Sent ?p, Captured] (call (dv_confirm E (dg_backend opts) config target x) (\<lambda>_. ?send))" for x
    by (rule follows_call [OF probed d])
  show ?thesis
    unfolding follows_def submit_prompt_def submit_protocol_def Let_def
    using c d e unfolding follows_def
    by (cases "gp_launch_includes_prompt plan"; cases "gp_needs_probe plan") simp_all
qed

lemma follows_launch:
  assumes "logs_calls E L" "follows L acts k"
  shows "follows L (launch_protocol plan @ acts) (launch_runner E opts config plan target k)"
proof (cases "gp_launch plan")
  case None
  with assms(2) show ?thesis by (simp add: launch_protocol_def launch_runner_def)
next
  case (Some l)
  have "\<And>w. L (snd (dv_ready E (dg_backend opts) config target w)) = L w @ [Awaited]"
    using assms(1) by (simp add: logs_calls_def)
  from follows_call [OF this assms(2)]
  have "follows L (Awaited # acts) (call (dv_ready E (dg_backend opts) config target) (\<lambda>_. k))" .
  from follows_send_all [OF assms(1), where k = "\<lambda>_. call (dv_ready E (dg_backend opts) config target) (\<lambda>_. k)", OF this, of "[l]"] Some
  show ?thesis by (simp add: launch_protocol_def launch_runner_def)
qed

lemma follows_tail:
  assumes "logs_calls E L"
  shows "follows L ([Sent (''export LTO_REPO='' @ (shell_single_quote repo_path)), Sent (''cd '' @ (shell_single_quote cwd))]
       @ launch_protocol plan
       @ submit_protocol plan (goal_prompt goal_path repo_path run_id (dg_runner opts) (opt_get_or ''unknown'' i)))
     (dispatch_tail E opts config plan goal_path repo_path cwd run_id target i)"
  unfolding dispatch_tail_def
  using follows_send_all [OF assms follows_launch [OF assms follows_submit [OF assms]],
      where texts = "[(''export LTO_REPO='' @ (shell_single_quote repo_path)), (''cd '' @ (shell_single_quote cwd))]"]
  by simp

lemma save_run_logs:
  assumes "logs_calls E L" "save_run E path run_id s = (r, s')"
  shows "L (di_world s') = L (di_world s)"
  using assms(2) by (cases rule: save_run_cases) (use assms(1) in \<open>simp_all add: logs_calls_def\<close>)

lemma block_follows:
  assumes "logs_calls E L"
    and "dispatch_block E path opts config plan goal_path repo_path cwd run_id s = (r, s')"
  shows "\<exists>i. ran L (dispatch_protocol plan repo_path cwd
        (goal_prompt goal_path repo_path run_id (dg_runner opts) (opt_get_or ''unknown'' i)) i) s r s'"
proof -
  let ?prompt = "\<lambda>i. goal_prompt goal_path repo_path run_id (dg_runner opts) (opt_get_or ''unknown'' i)"
  let ?tail = "dispatch_tail E opts config plan goal_path repo_path cwd run_id"
  note tail = follows_tail [OF assms(1), where plan = plan and goal_path = goal_path and repo_path = repo_path
      and run_id = run_id and opts = opts and cwd = cwd and config = config]
  obtain q w where prep: "dv_prepare E (dg_backend opts) config (di_world s) = (q, w)"
    by (cases "dv_prepare E (dg_backend opts) config (di_world s)")
  let ?s = "s\<lparr> di_world := w \<rparr>"
  have w: "L (di_world ?s) = L (di_world s) @ [Prepared]"
    using assms(1) prep unfolding logs_calls_def by (metis dispatching.select_convs(3) dispatching.surjective dispatching.update_convs(3) snd_conv)
  show ?thesis
  proof (cases q)
    case (Inl e)
    with assms(2) prep have "r = Inl e" "s' = ?s" by (auto simp: dispatch_block_def call_def)
    with ran_fail [OF w] show ?thesis by (auto simp: dispatch_protocol_def)
  next
    case (Inr target)
    show ?thesis
    proof (cases "dispatch_window_id (dv_window_id E) (st_dispatch_windows (di_state s)) opts target")
      case None
      with assms(2) prep Inr have t: "?tail target None ?s = (r, s')" by (simp add: dispatch_block_def call_def)
      from ran_Cons [OF w tail [where target = target and i = None, unfolded follows_def, rule_format, of ?s]]
      show ?thesis unfolding t dispatch_protocol_def by (intro exI [of _ None]) simp
    next
      case (Some wid)
      let ?save = "persist_dispatch_window E path run_id opts target wid ?s"
      obtain r1 s1 where sv: "?save = (r1, s1)" by (cases ?save)
      then have s1: "L (di_world s1) = L (di_world ?s)"
        using save_run_logs [OF assms(1)] by (fastforce simp: persist_dispatch_window_def set_windows_def)
      show ?thesis
      proof (cases r1)
        case (Inl e)
        with assms(2) prep Inr Some sv have "r = Inl (''persist dispatch window '' @ wid @ '': '' @ e)" "s' = s1"
          by (auto simp: dispatch_block_def call_def)
        with ran_fail [of L s1 s Prepared] s1 w show ?thesis by (auto simp: dispatch_protocol_def)
      next
        case (Inr u)
        let ?go = "send_all E (dg_backend opts) config target [(''export LTO_WINDOW_ID='' @ (shell_single_quote wid))] (\<lambda>_. ?tail target (Some wid))"
        from assms(2) prep \<open>q = Inr target\<close> Some sv Inr have go: "?go (s1\<lparr> di_created := Some wid \<rparr>) = (r, s')"
          by (simp add: dispatch_block_def call_def)
        have "L (di_world (s1\<lparr> di_created := Some wid \<rparr>)) = L (di_world s) @ [Prepared]" using s1 w by simp
        from ran_Cons [OF this follows_send_all [OF assms(1), where k = "\<lambda>_. ?tail target (Some wid)",
              OF tail [where target = target and i = "Some wid"], unfolded follows_def, rule_format]]
        have "ran L (Prepared # map Sent [(''export LTO_WINDOW_ID='' @ (shell_single_quote wid))] @
            [Sent (''export LTO_REPO='' @ (shell_single_quote repo_path)), Sent (''cd '' @ (shell_single_quote cwd))]
            @ launch_protocol plan @ submit_protocol plan (?prompt (Some wid))) s
          (fst (?go (s1\<lparr> di_created := Some wid \<rparr>))) (snd (?go (s1\<lparr> di_created := Some wid \<rparr>)))" .
        then show ?thesis unfolding go dispatch_protocol_def by (intro exI [of _ "Some wid"]) simp
      qed
    qed
  qed
qed


subsection \<open>A concrete multiplexer\<close>

text \<open>A multiplexer that logs its calls and whose capture succeeds or not.\<close>

definition demo_mux :: "bool \<Rightarrow> (lto_state option \<times> dispatch_action list) dispatch_env" where
  "demo_mux ok =
     \<lparr> dv_prepare = (\<lambda>b c w. (Inr ''s:@7'', (fst w, snd w @ [Prepared]))),
       dv_send = (\<lambda>b c t x w. (Inr (), (fst w, snd w @ [Sent x]))),
       dv_ready = (\<lambda>b c t w. (Inr (), (fst w, snd w @ [Awaited]))),
       dv_confirm = (\<lambda>b c t x w. (Inr x, (fst w, snd w @ [Probed]))),
       dv_capture = (\<lambda>b c t ps w. (if ok then Inr ''Working'' else Inl ''no confirmation'', (fst w, snd w @ [Captured]))),
       dv_metadata = (\<lambda>t i n w. w), dv_window_id = (\<lambda>t. Some ''@7''), dv_now = (\<lambda>w. ''now''),
       dv_millis = (\<lambda>w. 0), dv_disk = fst, dv_write = (\<lambda>w st. (Some st, snd w)), dv_show = (\<lambda>_. []),
       dv_lto_bin = ''lto'' \<rparr>"

definition demo_dispatch_options :: dispatch_options where
  "demo_dispatch_options =
     \<lparr> dg_run_id = None, dg_backend = Tmux, dg_runner = ''aix'', dg_goal = ''/r/goal.md'', dg_target = None,
       dg_new_window = True, dg_window_name = Some ''w'', dg_keep_window = False, dg_close_window = True,
       dg_cwd = None, dg_tmux_session = None, dg_tmux_bin = None, dg_ready_timeout_sec = None,
       dg_notify_cmd = None, dg_no_install_hooks = True, dg_uninstall_hooks = False,
       dg_no_runner_constraints = True \<rparr>"

definition demo_dispatching :: "(lto_state option \<times> dispatch_action list) dispatching" where
  "demo_dispatching =
     \<lparr> di_state = default_state ''t0'', di_created = None, di_world = (Some (default_state ''t0''), []) \<rparr>"

definition demo_run :: "bool \<Rightarrow> (string + goal_dispatch_outcome) option
    \<times> (lto_state option \<times> dispatch_action list) dispatching" where
  "demo_run ok = run_dispatch (demo_mux ok) ''/r/.lto/r1/state.json'' ''/r'' ''/r'' demo_dispatch_options ''/r/goal.md'' ''/r'' ''r1''
     demo_dispatching"

lemma demo_calls:
  "call (dv_prepare (demo_mux ok) b c) k s
     = k ''s:@7'' (s\<lparr> di_world := (fst (di_world s), snd (di_world s) @ [Prepared]) \<rparr>)"
  "call (dv_send (demo_mux ok) b c t x) k' s
     = k' () (s\<lparr> di_world := (fst (di_world s), snd (di_world s) @ [Sent x]) \<rparr>)"
  "call (dv_ready (demo_mux ok) b c t) k' s
     = k' () (s\<lparr> di_world := (fst (di_world s), snd (di_world s) @ [Awaited]) \<rparr>)"
  "call (dv_capture (demo_mux ok) b c t ps) k s =
     (if ok then k ''Working'' (s\<lparr> di_world := (fst (di_world s), snd (di_world s) @ [Captured]) \<rparr>)
      else (Inl ''no confirmation'', s\<lparr> di_world := (fst (di_world s), snd (di_world s) @ [Captured]) \<rparr>))"
  by (simp_all add: call_def demo_mux_def)

lemma call_cong: "f = f' \<Longrightarrow> s = s' \<Longrightarrow> call f k s = call f' k s'"
  by simp

definition demo_texts :: "string list" where
  "demo_texts = [(''export LTO_WINDOW_ID='' @ (shell_single_quote ''@7'')), (''export LTO_REPO='' @ (shell_single_quote ''/r'')),
     (''cd '' @ (shell_single_quote ''/r''))]"

lemma demo_block:
  assumes "gp_launch plan = Some l" "gp_launch_includes_prompt plan"
  shows "\<exists>st. dispatch_block (demo_mux ok) p demo_dispatch_options c plan g ''/r'' ''/r'' r demo_dispatching
    = (if ok then Inr \<lparr> gd_target = ''s:@7'', gd_window_id = Some ''@7'', gd_capture = ''Working'', gd_repo = ''/r'',
              gd_completion_event = gp_completion_event plan, gd_completion_mode = gp_completion_mode plan \<rparr>
       else Inl ''no confirmation'',
       \<lparr> di_state = st, di_created = Some ''@7'',
         di_world = (Some st, [Prepared] @ map Sent demo_texts @ [Sent l, Awaited, Captured]) \<rparr>)"
proof -
  have disk: "dv_window_id (demo_mux ok) t = Some ''@7''" "dv_disk (demo_mux ok) = fst"
    "dv_write (demo_mux ok) = (\<lambda>w st. (Some st, snd w))" "dg_backend demo_dispatch_options = Tmux"
    "dg_target demo_dispatch_options = None" for t
    by (simp_all add: demo_mux_def demo_dispatch_options_def)
  show ?thesis
    using assms
    by (simp add: dispatch_block_def demo_calls dispatch_window_id_def disk persist_dispatch_window_def set_windows_def
        save_run_def save_state_preserving_c2_def demo_dispatching_def send_all_def dispatch_tail_def launch_runner_def
        submit_prompt_def confirm_dispatch_def demo_texts_def Let_def cong: call_cong)
qed

lemma demo_backend: "dg_backend demo_dispatch_options = Tmux"
  by (simp add: demo_dispatch_options_def)

lemma demo_plan:
  obtains plan l where "runner_plan (dv_lto_bin (demo_mux ok)) (dg_runner demo_dispatch_options) ''/r/goal.md'' ''/r'' ''r1'' ''pending'' = Some plan"
    "gp_launch plan = Some l" "gp_launch_includes_prompt plan"
  using that by (simp add: runner_plan_def demo_dispatch_options_def Let_def)

lemma demo_run_cases:
  obtains st out where "demo_run True = (Some (Inr out), \<lparr> di_state = st, di_created = Some ''@7'',
      di_world = (Some st, snd (di_world (snd (demo_run True)))) \<rparr>)"
    "length (snd (di_world (snd (demo_run True)))) = 7"
proof -
  obtain plan l where p: "runner_plan (dv_lto_bin (demo_mux True)) (dg_runner demo_dispatch_options) ''/r/goal.md'' ''/r'' ''r1'' ''pending'' = Some plan"
    "gp_launch plan = Some l" "gp_launch_includes_prompt plan" by (rule demo_plan)
  from demo_block [OF p(2,3), of True "''/r/.lto/r1/state.json''" "dispatch_config demo_dispatch_options ''/r/goal.md'' ''/r'' ''r1'' plan" "''/r/goal.md''" "''r1''"]
  show ?thesis
    using that by (auto simp: demo_run_def run_dispatch_def p demo_texts_def)
qed

lemma demo_run_failed:
  "fst (demo_run False) = Some (Inl ''dispatch-goal tmux failure in /r: no confirmation'')"
  "di_created (snd (demo_run False)) = Some ''@7''"
proof -
  obtain plan l where p: "runner_plan (dv_lto_bin (demo_mux False)) (dg_runner demo_dispatch_options) ''/r/goal.md'' ''/r'' ''r1'' ''pending'' = Some plan"
    "gp_launch plan = Some l" "gp_launch_includes_prompt plan" by (rule demo_plan)
  from demo_block [OF p(2,3), of False "''/r/.lto/r1/state.json''" "dispatch_config demo_dispatch_options ''/r/goal.md'' ''/r'' ''r1'' plan" "''/r/goal.md''" "''r1''"]
  show "fst (demo_run False) = Some (Inl ''dispatch-goal tmux failure in /r: no confirmation'')"
    "di_created (snd (demo_run False)) = Some ''@7''"
    using demo_backend
    by (auto simp: demo_run_def run_dispatch_def p backend_name_def
        retain_dispatch_window_def save_run_def set_windows_def split: option.split sum.split)
qed


lemma demo_logs: "logs_calls (demo_mux ok) snd"
  by (simp add: logs_calls_def demo_mux_def)


subsection \<open>Window names\<close>

text \<open>No two dashes meet, and the text never starts with one.\<close>

definition slug_inv :: "string \<times> bool \<Rightarrow> bool" where
  "slug_inv s \<longleftrightarrow> (\<forall>c\<in>set (fst s). is_slug_char c \<or> c = CHR ''-'')"

lemma slug_step_inv: "slug_inv s \<Longrightarrow> slug_inv (slug_step s c)"
  by (cases s) (auto simp: slug_inv_def slug_step_def)

lemma slug_fold_inv: "slug_inv s \<Longrightarrow> slug_inv (foldl slug_step s cs)"
proof (induction cs arbitrary: s)
  case (Cons c cs)
  from Cons.IH [OF slug_step_inv [OF Cons.prems]] show ?case by simp
qed simp

lemma hd_dropWhile_not: "dropWhile P xs \<noteq> [] \<Longrightarrow> \<not> P (hd (dropWhile P xs))"
  by (rule hd_dropWhile)

lemma last_dropWhile: "dropWhile P xs \<noteq> [] \<Longrightarrow> last (dropWhile P xs) = last xs"
  by (induction xs) auto

lemma slug_of_ok:
  assumes "slug_of s \<noteq> []"
  shows "length (slug_of s) \<le> 20" "\<forall>c\<in>set (slug_of s). is_slug_char c \<or> c = CHR ''-''"
    "hd (slug_of s) \<noteq> CHR ''-''" "last (slug_of s) \<noteq> CHR ''-''"
proof -
  let ?t = "take 20 (fst (foldl slug_step ([], False) s))"
  let ?u = "trim_end_char (CHR ''-'') ?t"
  have e: "slug_of s = dropWhile (\<lambda>x. x = CHR ''-'') ?u" by (simp add: slug_of_def trim_start_char_def)
  have "length ?u \<le> 20"
    using length_dropWhile_le [of "\<lambda>x. x = CHR ''-''" "rev ?t"] by (simp add: trim_end_char_def)
  then show "length (slug_of s) \<le> 20" unfolding e by (rule order_trans [OF length_dropWhile_le])
  have "slug_inv (foldl slug_step ([], False) s)" by (rule slug_fold_inv) (simp add: slug_inv_def)
  then have "\<forall>c\<in>set ?t. is_slug_char c \<or> c = CHR ''-''" by (auto simp: slug_inv_def dest: in_set_takeD)
  moreover have "set ?u \<subseteq> set ?t" by (auto simp: trim_end_char_def dest: set_dropWhileD)
  ultimately show "\<forall>c\<in>set (slug_of s). is_slug_char c \<or> c = CHR ''-''"
    unfolding e by (auto dest: set_dropWhileD)
  show "hd (slug_of s) \<noteq> CHR ''-''"
    using hd_dropWhile_not [of "\<lambda>x. x = CHR ''-''" ?u] assms unfolding e by simp
  have u: "?u \<noteq> []" using assms unfolding e by auto
  then have "last ?u \<noteq> CHR ''-''"
    using hd_dropWhile_not [of "\<lambda>x. x = CHR ''-''" "rev ?t"] by (simp add: trim_end_char_def last_rev)
  moreover have "last (dropWhile (\<lambda>x. x = CHR ''-'') ?u) = last ?u"
    using assms unfolding e by (rule last_dropWhile)
  ultimately show "last (slug_of s) \<noteq> CHR ''-''" unfolding e by simp
qed

text \<open>
  The name of a dispatch window is \<open>lto:\<close>, the runner, and a part that is never empty: at most
  twenty lower-case letters, digits and dashes from the goal's file name, with a letter or digit at
  both ends, or the end of the run's id when the file name gives none.
\<close>

theorem goal_window_name_ok:
  "\<exists>slug. goal_window_name runner goal_path run_id = (''lto:'' @ runner @ '':'' @ slug) \<and> slug \<noteq> []
     \<and> (slug = last_chars 8 run_id
        \<or> length slug \<le> 20 \<and> is_slug_char (hd slug) \<and> is_slug_char (last slug)
          \<and> filter (\<lambda>c. is_slug_char c \<or> c = CHR ''-'') slug = slug)"
proof -
  define src where "src = (let stem = opt_get_or [] (file_stem goal_path);
      src = (if stem = ''goal'' then [] else opt_get_or stem (strip_prefix ''goal-'' stem))
    in if is_date_prefix src then drop 11 src else src)"
  have e: "goal_window_name runner goal_path run_id = (''lto:'' @ runner @ '':'' @ (if slug_of src \<noteq> [] then slug_of src
      else if last_chars 8 run_id = [] then ''window'' else last_chars 8 run_id))"
    by (simp add: goal_window_name_def src_def Let_def)
  have w: "is_slug_char (CHR ''w'')" "filter (\<lambda>c. is_slug_char c \<or> c = CHR ''-'') ''window'' = ''window''" by code_simp+
  show ?thesis
  proof (cases "slug_of src = []")
    case True
    with e w show ?thesis by (cases "last_chars 8 run_id = []") auto
  next
    case False
    note ok = slug_of_ok [OF False]
    then have "is_slug_char (hd (slug_of src))" "is_slug_char (last (slug_of src))"
      using False hd_in_set last_in_set by blast+
    with e False ok show ?thesis by (intro exI [of _ "slug_of src"]) (simp add: filter_id_conv)
  qed
qed

subsection \<open>The goal file\<close>

lemma contains_str_appI: "contains_str n a \<Longrightarrow> contains_str n (a @ b)" "contains_str n b \<Longrightarrow> contains_str n (a @ b)"
  unfolding contains_str_sublist sublist_def by (metis append.assoc)+

lemma report_has_command: "contains_str ''agent-turn-completed'' (file_report abs_repo run_id runner)"
  unfolding file_report_def
  by (rule contains_str_appI(2), rule contains_str_appI(2), rule contains_str_appI(1)) code_simp

lemma footer_has_command: "contains_str ''agent-turn-completed'' (protocol_footer (file_report abs_repo run_id runner))"
  unfolding protocol_footer_def by (intro contains_str_appI(2) contains_str_appI(1) report_has_command)

lemma constraints_have_marker:
  "runner_constraints_from runner override = Some c \<Longrightarrow> contains_str RUNNER_CONSTRAINTS_MARKER c"
proof -
  have m: "contains_str RUNNER_CONSTRAINTS_MARKER (RUNNER_CONSTRAINTS_MARKER @ x)" for x
    by (rule contains_str_appI(1)) code_simp
  have "contains_str RUNNER_CONSTRAINTS_MARKER (wrap_runner_constraints b)" for b
    unfolding wrap_runner_constraints_def
    by (rule contains_str_appI(2), rule contains_str_appI(2), rule contains_str_appI(2), rule m)
  then show "runner_constraints_from runner override = Some c \<Longrightarrow> contains_str RUNNER_CONSTRAINTS_MARKER c"
    by (auto simp: runner_constraints_from_def split: option.splits if_splits)
qed

text \<open>
  The file an agent is given keeps the goal's text and tells every runner but \<open>aix\<close> how to report
  completion, and carries the runner's constraints when there are any. Dispatching a file that was
  made this way changes nothing more.
\<close>

theorem materialized_goal_complete:
  assumes "constraints = runner_constraints_from runner override"
    and "materialize_goal content goal_path abs_repo run_id runner constraints = (p, written)"
  shows "(let out = opt_get_or content written in
      prefix content out
      \<and> (runner \<noteq> ''aix'' \<longrightarrow> contains_str ''agent-turn-completed'' out)
      \<and> (constraints \<noteq> None \<longrightarrow> contains_str RUNNER_CONSTRAINTS_MARKER out)
      \<and> materialize_goal out p abs_repo' run_id' runner constraints = (p, None))"
proof -
  let ?needs = "runner \<noteq> ''aix'' \<and> \<not> contains_str ''agent-turn-completed'' content"
  let ?cs = "opt_filter (\<lambda>_. \<not> contains_str RUNNER_CONSTRAINTS_MARKER content) constraints"
  let ?footer = "opt_get_or [] ?cs @ (if ?needs then protocol_footer (file_report abs_repo run_id runner) else [])"
  define out where "out = opt_get_or content written"
  have w: "written = (if \<not> ?needs \<and> ?cs = None then None else Some (content @ ?footer))"
    using assms(2) by (auto simp: materialize_goal_def Let_def split: if_splits)
  then have t: "out = content @ ?footer" by (auto simp: out_def)
  have cmd: "contains_str ''agent-turn-completed'' out" if "runner \<noteq> ''aix''"
  proof (cases "contains_str ''agent-turn-completed'' content")
    case True
    then show ?thesis unfolding t by (rule contains_str_appI(1))
  next
    case False
    with that show ?thesis unfolding t by (simp add: contains_str_appI(2) footer_has_command)
  qed
  have mark: "contains_str RUNNER_CONSTRAINTS_MARKER out" if "constraints \<noteq> None"
  proof -
    from that obtain c where c: "constraints = Some c" by blast
    with constraints_have_marker assms(1) have "contains_str RUNNER_CONSTRAINTS_MARKER c" by metis
    with c show ?thesis unfolding t by (cases "contains_str RUNNER_CONSTRAINTS_MARKER content") (auto intro: contains_str_appI)
  qed
  have "materialize_goal out p abs_repo' run_id' runner constraints = (p, None)"
    using cmd mark by (cases constraints) (auto simp: materialize_goal_def Let_def)
  with cmd mark t show ?thesis by (simp add: out_def [symmetric] Let_def)
qed

theorem materialized_goal_complete_witness:
  "let out = opt_get_or ''fix it'' (snd (materialize_goal ''fix it'' ''/r/g.md'' ''/r'' ''r1'' ''pi'' None))
   in prefix ''fix it'' out \<and> contains_str ''agent-turn-completed'' out
      \<and> materialize_goal out ''/r/g.dispatch.md'' ''/r'' ''r2'' ''pi'' None = (''/r/g.dispatch.md'', None)"
proof -
  have "runner_constraints_from ''pi'' None = None" by code_simp
  moreover have "materialize_goal ''fix it'' ''/r/g.md'' ''/r'' ''r1'' ''pi'' None
      = (''/r/g.dispatch.md'', snd (materialize_goal ''fix it'' ''/r/g.md'' ''/r'' ''r1'' ''pi'' None))"
    by code_simp
  ultimately show ?thesis
    using materialized_goal_complete [of None "''pi''" None "''fix it''" "''/r/g.md''" "''/r''" "''r1''" "''/r/g.dispatch.md''"
        "snd (materialize_goal ''fix it'' ''/r/g.md'' ''/r'' ''r1'' ''pi'' None)" "''/r''" "''r2''"]
    by (simp add: Let_def)
qed

text \<open>
  The file's name depends on the goal's alone: a second dispatch of the goal, to another runner or
  for another run, puts its own report command into the file the first agent was told to read.
\<close>

lemma materialized_name_shared:
  "materialize_goal content goal_path abs_repo run_id runner constraints = (p, Some t)
   \<Longrightarrow> materialize_goal content goal_path abs_repo' run_id' runner' constraints' = (p', Some t') \<Longrightarrow> p' = p"
  by (auto simp: materialize_goal_def Let_def split: if_splits)

subsection \<open>Hook files\<close>

definition hooks_of :: "json \<Rightarrow> json" where
  "hooks_of v = opt_get_or JNull (jget v ''hooks'')"

definition shaped :: "json \<Rightarrow> bool" where
  "shaped v \<longleftrightarrow> is_object v \<and> is_object (hooks_of v)"

lemma not_object_jget: "\<not> is_object v \<Longrightarrow> jget v k = None"
  by (cases v) (simp_all add: is_object_def jget_def)

lemma ensure_shaped:
  assumes "ensure_hooks_shape v = Inr v1"
  shows "shaped v1" "k \<noteq> ''hooks'' \<Longrightarrow> jget v1 k = jget v k"
proof -
  let ?a = "if is_object v then v else jobj [(''hooks'', jobj [])]"
  let ?b = "if jget ?a ''hooks'' = None then jset ''hooks'' (jobj []) ?a else ?a"
  have a: "is_object ?a" by simp
  have v1: "v1 = ?b" and h: "opt_all is_object (jget ?b ''hooks'')"
    using assms by (auto simp: ensure_hooks_shape_def Let_def split: if_splits)
  have "is_object ?b" using a by simp
  moreover have "is_object (hooks_of ?b)" using h by (cases "jget ?b ''hooks''") (simp_all add: hooks_of_def)
  ultimately show "shaped v1" unfolding v1 shaped_def by blast
  have "k \<noteq> ''hooks'' \<Longrightarrow> jget ?a k = jget v k"
    using not_object_jget [of v k] by (simp add: jget_jobj)
  then show "k \<noteq> ''hooks'' \<Longrightarrow> jget v1 k = jget v k" unfolding v1 by simp
qed

lemma ensure_shape_id: "shaped v \<Longrightarrow> ensure_hooks_shape v = Inr v"
  by (auto simp: shaped_def hooks_of_def ensure_hooks_shape_def Let_def is_object_def split: option.splits)

lemma put_hook_array_facts:
  assumes "shaped v"
  shows "shaped (put_hook_array key es v)" "hook_array key msg (put_hook_array key es v) = Inr es"
    "k \<noteq> ''hooks'' \<Longrightarrow> jget (put_hook_array key es v) k = jget v k"
    "k \<noteq> key \<Longrightarrow> jget (hooks_of (put_hook_array key es v)) k = jget (hooks_of v) k"
  using assms by (simp_all add: shaped_def put_hook_array_def hooks_of_def hook_array_def)

lemma stop_hooks_put: "shaped v \<Longrightarrow> stop_hooks (put_hook_array ''Stop'' es v) = Inr (put_hook_array ''Stop'' es v, es)"
  by (simp add: stop_hooks_def ensure_shape_id put_hook_array_facts)

lemma stop_hooks_Inr:
  assumes "stop_hooks v = Inr (v1, es)"
  shows "shaped v1" "k \<noteq> ''hooks'' \<Longrightarrow> jget v1 k = jget v k"
  using assms ensure_shaped by (auto simp: stop_hooks_def bindr_Inr_iff)

lemma own_group:
  "has_marker (codex_stop_hook_entry c b)" "hook_command (codex_stop_hook_entry c b) = Some c"
proof -
  show "has_marker (codex_stop_hook_entry c b)"
    by (simp add: has_marker_def codex_stop_hook_entry_def jget_with_def jget_jobj)
  show "hook_command (codex_stop_hook_entry c b) = Some c"
    by (simp add: hook_command_def codex_stop_hook_entry_def jget_with_def jget_jobj as_array_def)
qed

lemma find_marker_snoc:
  "\<forall>e\<in>set es. \<not> has_marker e \<Longrightarrow> has_marker x \<Longrightarrow> List.find has_marker (es @ [x]) = Some x"
  by (induction es) auto

lemma find_no_marker: "\<forall>e\<in>set es. \<not> has_marker e \<Longrightarrow> List.find has_marker es = None"
  by (simp add: find_None_iff)

definition with_codex_hook :: "string \<Rightarrow> string \<Rightarrow> json \<times> json list \<Rightarrow> json" where
  "with_codex_hook bin home hooks =
     put_hook_array ''Stop'' (snd hooks @ [codex_stop_hook_entry
       (codex_hook_command bin (path_join (path_join home ''hooks'') ''lto-codex-stop-notify.sh'')) bin]) (fst hooks)"

text \<open>
  C40: Installing the codex hook adds one group behind the user's own, a second installation writes
  nothing, and uninstalling removes that group alone: the user's groups, the other entries of \<open>hooks\<close>
  and the other keys of the file are as before, and the text the user had is among the backups.
\<close>

theorem codex_hook_roundtrip:
  assumes io: "parse (pretty (with_codex_hook bin home (u, es)) @ [CHR 0x0A]) = Inr (with_codex_hook bin home (u, es))"
    and S: "hk_home_exists S" "hk_hooks S = Some t" "parse t = Inr v" "stop_hooks v = Inr (u, es)"
    and users: "\<forall>e\<in>set es. \<not> is_lto_group pr ''lto-codex-stop-notify.sh'' e"
  shows "\<exists>S1 S2 v2. install_codex_hook_at parse pretty scr bin home S
       = (Inr \<lparr> hs_status = ''installed'', hs_detail = path_join home ''hooks.json'',
                hs_script_path = Some (path_join (path_join home ''hooks'') ''lto-codex-stop-notify.sh'') \<rparr>, S1)
     \<and> snd (install_codex_hook_at parse pretty scr bin home S1) = S1
     \<and> snd (uninstall_codex_hook pr parse pretty home S1) = S2
     \<and> hk_hooks S2 = Some (pretty v2 @ [CHR 0x0A]) \<and> stop_hooks v2 = Inr (v2, es)
     \<and> t \<in> set (hk_backups S2) \<and> hk_script S2 = None
     \<and> (\<forall>k. k \<noteq> ''hooks'' \<longrightarrow> jget v2 k = jget v k)
     \<and> (\<forall>k. k \<noteq> ''Stop'' \<longrightarrow> jget (hooks_of v2) k = jget (hooks_of u) k)"
proof -
  note shape = stop_hooks_Inr [OF S(4)]
  have plain: "\<forall>e\<in>set es. \<not> has_marker e" using users by (auto simp: is_lto_group_def)
  define c where "c = codex_hook_command bin (path_join (path_join home ''hooks'') ''lto-codex-stop-notify.sh'')"
  define e where "e = codex_stop_hook_entry c bin"
  define w where "w = put_hook_array ''Stop'' (es @ [e]) u"
  define S1 where "S1 = write_hooks pretty w (S\<lparr> hk_script := Some scr \<rparr>)"
  note put = put_hook_array_facts [OF shape(1), where key = "''Stop''" and es = "es @ [e]", folded w_def]
  note S1_facts = S1_def write_hooks_def backup_hooks_def S(2)
  have hooks1: "hk_hooks S1 = Some (pretty w @ [CHR 0x0A])" "hk_home_exists S1" "hk_script S1 = Some scr"
    "hk_backups S1 = hk_backups S @ [t]"
    using S(1) by (simp_all add: S1_facts)
  have w: "parse (pretty w @ [CHR 0x0A]) = Inr w" using io by (simp add: with_codex_hook_def w_def e_def c_def)
  have sw: "stop_hooks w = Inr (w, es @ [e])" unfolding w_def by (rule stop_hooks_put [OF shape(1)])
  have mark: "has_marker e" "hook_command e = Some c" by (simp_all add: e_def own_group)
  have ins: "install_codex_hook_at parse pretty scr bin home S
      = (Inr \<lparr> hs_status = ''installed'', hs_detail = path_join home ''hooks.json'',
               hs_script_path = Some (path_join (path_join home ''hooks'') ''lto-codex-stop-notify.sh'') \<rparr>, S1)"
    using S find_no_marker [OF plain]
    by (simp add: install_codex_hook_at_def Let_def S1_def w_def e_def c_def)
  have "snd (install_codex_hook_at parse pretty scr bin home S1) = S1\<lparr> hk_script := Some scr \<rparr>"
    using hooks1 w sw find_marker_snoc [OF plain mark(1)] mark(2)
    by (simp add: install_codex_hook_at_def Let_def c_def)
  then have again: "snd (install_codex_hook_at parse pretty scr bin home S1) = S1" using hooks1(3) by simp
  define v2 where "v2 = put_hook_array ''Stop'' es w"
  note put2 = put_hook_array_facts [OF put(1), where key = "''Stop''" and es = es, folded v2_def]
  have kept: "filter (\<lambda>e. \<not> is_lto_group pr ''lto-codex-stop-notify.sh'' e) (es @ [e]) = es"
    using users mark(1) by (simp add: is_lto_group_def filter_id_conv)
  have "snd (uninstall_codex_hook pr parse pretty home S1)
      = (write_hooks pretty v2 S1)\<lparr> hk_script := None \<rparr>"
    using hooks1(1) w sw kept by (simp add: uninstall_codex_hook_def Let_def v2_def)
  moreover have "stop_hooks v2 = Inr (v2, es)" unfolding v2_def by (rule stop_hooks_put [OF put(1)])
  moreover have "jget v2 k = jget v k" if "k \<noteq> ''hooks''" for k using put2(3) put(3) shape(2) that by simp
  moreover have "jget (hooks_of v2) k = jget (hooks_of u) k" if "k \<noteq> ''Stop''" for k using put2(4) put(4) that by simp
  ultimately show ?thesis using ins again hooks1
    by (intro exI [of _ S1] exI [of _ "(write_hooks pretty v2 S1)\<lparr> hk_script := None \<rparr>"] exI [of _ v2])
       (simp add: write_hooks_def backup_hooks_def)
qed

definition demo_hooks :: json where
  "demo_hooks = jobj [(''hooks'', jobj [(''Stop'', JArr [jobj [(''matcher'', JStr ''x'')]])])]"

definition demo_store :: hook_store where
  "demo_store = \<lparr> hk_home_exists = True, hk_hooks = Some ''user'', hk_script = None, hk_backups = [] \<rparr>"

definition demo_read :: "string \<Rightarrow> string + json" where
  "demo_read t = (if t = ''user'' then Inr demo_hooks
     else Inr (with_codex_hook ''lto'' ''/h'' (demo_hooks, [jobj [(''matcher'', JStr ''x'')]])))"

theorem codex_hook_roundtrip_witness:
  "\<exists>S1 v2. snd (install_codex_hook_at demo_read (\<lambda>_. ''lto'') ''#!/bin/sh'' ''lto'' ''/h'' demo_store) = S1
     \<and> hk_hooks (snd (uninstall_codex_hook (\<lambda>_. []) demo_read (\<lambda>_. ''lto'') ''/h'' S1)) = Some [CHR ''l'', CHR ''t'', CHR ''o'', CHR 0x0A]
     \<and> stop_hooks v2 = Inr (v2, [jobj [(''matcher'', JStr ''x'')]])"
proof -
  have "demo_read (''lto'' @ [CHR 0x0A]) = Inr (with_codex_hook ''lto'' ''/h'' (demo_hooks, [jobj [(''matcher'', JStr ''x'')]]))"
    by (simp add: demo_read_def)
  moreover have "hk_home_exists demo_store" "hk_hooks demo_store = Some ''user''" "demo_read ''user'' = Inr demo_hooks"
    by (simp_all add: demo_store_def demo_read_def)
  moreover have "stop_hooks demo_hooks = Inr (demo_hooks, [jobj [(''matcher'', JStr ''x'')]])" by code_simp
  moreover have "\<forall>e\<in>set [jobj [(''matcher'', JStr ''x'')]]. \<not> is_lto_group (\<lambda>_. []) ''lto-codex-stop-notify.sh'' e" by code_simp
  ultimately obtain S1 S2 v2 where
    "install_codex_hook_at demo_read (\<lambda>_. ''lto'') ''#!/bin/sh'' ''lto'' ''/h'' demo_store
       = (Inr \<lparr> hs_status = ''installed'', hs_detail = path_join ''/h'' ''hooks.json'',
                hs_script_path = Some (path_join (path_join ''/h'' ''hooks'') ''lto-codex-stop-notify.sh'') \<rparr>, S1)"
    "snd (uninstall_codex_hook (\<lambda>_. []) demo_read (\<lambda>_. ''lto'') ''/h'' S1) = S2"
    "hk_hooks S2 = Some (''lto'' @ [CHR 0x0A])" "stop_hooks v2 = Inr (v2, [jobj [(''matcher'', JStr ''x'')]])"
    using codex_hook_roundtrip [where parse = demo_read and pretty = "\<lambda>_. ''lto''" and bin = "''lto''" and home = "''/h''"
        and u = demo_hooks and es = "[jobj [(''matcher'', JStr ''x'')]]" and S = demo_store and pr = "\<lambda>_. []"
        and scr = "''#!/bin/sh''"] by blast
  then show ?thesis by auto
qed

subsection \<open>Which window a timeout retains\<close>

text \<open>
  A dispatch to a window that is on record reopens the record where it stands, while the timeout of
  \<open>dispatch-and-wait\<close> retains the last active one of the list: after dispatches to window \<open>@1\<close>, \<open>@2\<close> and
  \<open>@1\<close> again the wait for the third retains \<open>@2\<close>.
\<close>

lemma timeout_may_retain_another:
  assumes "w1 = new_window ''t'' demo_dispatch_options ''s:@1'' ''@1''" "w2 = new_window ''t'' demo_dispatch_options ''s:@2'' ''@2''"
    and "ws = record_window ''t'' demo_dispatch_options ''s:@1'' ''@1'' [w1, w2]"
  shows "map_option wi_window_id (List.find (\<lambda>x. wi_status x = ''active'') (rev ws)) = Some ''@2''"
  unfolding assms by code_simp

end
