(* ===== verification/Lto_Agent_Turn.thy ===== *)
theory Lto_Agent_Turn
  imports Lto_Dispatch_Goal
begin

text \<open>
  \<open>src/src/agent_turn.rs\<close>: what an agent's report that its turn is over does. The report is routed
  to a run, classified as a turn, the end of a session or the completion of a dispatch, emitted as an
  event, and a completion finishes the dispatch window: a window LTO made is closed after success when
  its record says so, otherwise it is retained. The programs that close windows, the state file, the
  event log and the transcript are parameters of the world \<open>'w\<close>.
\<close>

subsection \<open>Payloads\<close>

definition payload_string :: "json option \<Rightarrow> string list \<Rightarrow> string option" where
  "payload_string payload keys =
     (case Option.bind payload as_object of
        None \<Rightarrow> None
      | Some m \<Rightarrow> first_opt (List.map_filter (\<lambda>k. Option.bind (bt_get m k) as_str) keys))"

definition parse_payload :: "(string \<Rightarrow> json option) \<Rightarrow> string \<Rightarrow> json option" where
  "parse_payload parse t = (if trim t = [] then None else parse t)"

definition payload_cwd :: "json option \<Rightarrow> string option" where
  "payload_cwd payload = payload_string payload [''cwd'', ''workspace'', ''repo'', ''repo_root'']"

definition payload_summary :: "json option \<Rightarrow> string option" where
  "payload_summary payload =
     map_option single_line
       (payload_string payload [''summary'', ''prompt_response'', ''response'', ''last_response'', ''message''])"

subsection \<open>The proof of completion in a transcript\<close>

fun find_str :: "string \<Rightarrow> string \<Rightarrow> nat option" where
  "find_str needle [] = (if needle = [] then Some 0 else None)"
| "find_str needle (c # cs) =
     (if prefix needle (c # cs) then Some 0 else map_option Suc (find_str needle cs))"

text \<open>Whether a position of a script lies outside of its string literals.\<close>

fun js_quote :: "char option \<Rightarrow> bool \<Rightarrow> string \<Rightarrow> char option" where
  "js_quote quote escaped [] = quote"
| "js_quote quote escaped (c # cs) =
     (if escaped then js_quote quote False cs
      else if c = CHR 0x5C \<and> quote \<noteq> None then js_quote quote True cs
      else case quote of
        Some q \<Rightarrow> js_quote (if c = q then None else quote) False cs
      | None \<Rightarrow> js_quote (if c \<in> {CHR 0x27, CHR 0x22, CHR 0x60} then Some c else None) False cs)"

definition js_position_is_unquoted :: "string \<Rightarrow> nat \<Rightarrow> bool" where
  "js_position_is_unquoted t k = (js_quote None False (take k t) = None)"

text \<open>A string inside a string is shorter than the text it was read from.\<close>

function declares_complete :: "(string \<Rightarrow> json option) \<Rightarrow> json \<Rightarrow> bool" where
  "declares_complete parse v =
     (case v of
        JObj m \<Rightarrow> Option.bind (bt_get m ''status'') as_str = Some ''complete''
      | JStr t \<Rightarrow>
          (case parse t of
             None \<Rightarrow> False
           | Some (JStr t') \<Rightarrow> if length t' < length t then declares_complete parse (JStr t') else False
           | Some (JObj m) \<Rightarrow> Option.bind (bt_get m ''status'') as_str = Some ''complete''
           | Some _ \<Rightarrow> False)
      | _ \<Rightarrow> False)"
  by pat_completeness auto
termination
  by (relation "measure (\<lambda>(_, v). case v of JStr t \<Rightarrow> length t | _ \<Rightarrow> 0)") auto

declare declares_complete.simps [simp del]

text \<open>A call of \<open>tools.update_goal\<close> in a script: awaited directly, outside of literals, with the status.\<close>

definition exec_completes_goal :: "string \<Rightarrow> bool" where
  "exec_completes_goal input =
     (let compact = concat (split_whitespace input)
      in case find_str ''tools.update_goal('' compact of
           None \<Rightarrow> False
         | Some k \<Rightarrow>
             (let before = take k compact; after = drop k compact
              in (suffix ''=await'' before \<or> suffix ''returnawait'' before \<or> suffix '';await'' before \<or> before = ''await'')
                 \<and> js_position_is_unquoted compact k
                 \<and> (contains_str (''status:'' @ [CHR 0x22] @ ''complete'' @ [CHR 0x22]) after \<or> contains_str (''status:'' @ [CHR 0x27] @ ''complete'' @ [CHR 0x27]) after
                    \<or> contains_str ([CHR 0x22] @ ''status'' @ [CHR 0x22] @ '':'' @ [CHR 0x22] @ ''complete'' @ [CHR 0x22]) after)))"

definition is_completion_call :: "(string \<Rightarrow> json option) \<Rightarrow> json_map \<Rightarrow> bool" where
  "is_completion_call parse m \<longleftrightarrow>
     Option.bind (bt_get m ''type'') as_str = Some ''custom_tool_call''
     \<and> (let name = opt_get_or [] (Option.bind (bt_get m ''name'') as_str)
        in name = ''update_goal''
             \<and> opt_all (declares_complete parse) (opt_or (bt_get m ''input'') (bt_get m ''arguments''))
           \<or> name = ''exec'' \<and> opt_all exec_completes_goal (Option.bind (bt_get m ''input'') as_str))"

text \<open>Objects are searched through their values, arrays are not.\<close>

fun value_has_goal_completion_call :: "(string \<Rightarrow> json option) \<Rightarrow> json \<Rightarrow> bool" where
  "value_has_goal_completion_call parse (JObj m) =
     (is_completion_call parse m \<or> list_ex (\<lambda>(_, v). value_has_goal_completion_call parse v) m)"
| "value_has_goal_completion_call parse _ = False"

definition TAIL_BYTES :: nat where
  "TAIL_BYTES = 2 * 1024 * 1024"

definition transcript_has_goal_completion ::
    "(string \<Rightarrow> json option) \<Rightarrow> (string \<Rightarrow> string) \<Rightarrow> string option \<Rightarrow> bool" where
  "transcript_has_goal_completion parse lossy file =
     (case file of
        None \<Rightarrow> False
      | Some bytes \<Rightarrow>
          list_ex (value_has_goal_completion_call parse)
            (List.map_filter parse (str_lines (lossy (drop (length bytes - TAIL_BYTES) bytes)))))"

definition payload_goal_completion_proof ::
    "(string \<Rightarrow> json option) \<Rightarrow> (string \<Rightarrow> string) \<Rightarrow> (string \<Rightarrow> string option) \<Rightarrow> json option \<Rightarrow> string option" where
  "payload_goal_completion_proof parse lossy read payload =
     (case payload_string payload [''transcript_path'', ''transcriptPath''] of
        None \<Rightarrow> None
      | Some p \<Rightarrow>
          (if transcript_has_goal_completion parse lossy (read p) then Some ''codex-update-goal-complete''
           else None))"

subsection \<open>Routing\<close>

text \<open>A normalised absolute path is the list of its parts; the parent of the root is the root.\<close>

definition normalize_path :: "string \<Rightarrow> string \<Rightarrow> string list" where
  "normalize_path here p =
     foldl (\<lambda>acc c. if c = ''..'' then butlast acc else acc @ [c]) [] (path_parts (absolutize here p))"

definition workspace_root :: "string \<Rightarrow> string \<Rightarrow> string \<Rightarrow> string list" where
  "workspace_root here repo recorded =
     (if recorded = [] \<or> path_parts recorded = [] \<and> \<not> prefix ''/'' recorded then normalize_path here repo
      else if prefix ''/'' recorded then normalize_path here recorded
      else normalize_path here (path_join repo recorded))"

text \<open>The runs under \<open>.lto\<close> whose state loads, in the order of the directory.\<close>

record run_files =
  rf_has_state :: "string \<Rightarrow> bool"
  rf_current :: "string option"
  rf_runs :: "lto_state list option"
  rf_here :: string

definition run_matches :: "run_files \<Rightarrow> string \<Rightarrow> string list \<Rightarrow> lto_state \<Rightarrow> bool" where
  "run_matches F repo cwd st \<longleftrightarrow>
     st_current_phase st \<noteq> ''closed''
     \<and> (let r = workspace_root (rf_here F) repo (ws_repo_root (st_workspace st)) in prefix r cwd \<or> prefix cwd r)"

definition route_by_cwd :: "run_files \<Rightarrow> string \<Rightarrow> string \<Rightarrow> string option" where
  "route_by_cwd F repo cwd =
     (case rf_runs F of
        None \<Rightarrow> None
      | Some runs \<Rightarrow>
          (let found = map (\<lambda>st. (st_run_id st, st_started_at st))
                 (filter (run_matches F repo (normalize_path (rf_here F) cwd)) runs);
               current = opt_filter (\<lambda>t. t \<noteq> []) (map_option trim (rf_current F))
           in case opt_filter (\<lambda>c. c \<in> fst ` set found) current of
                Some c \<Rightarrow> Some c
              | None \<Rightarrow> map_option fst (last_opt (sort_by (\<lambda>a b. snd a \<le> snd b) found))))"

definition route_run :: "run_files \<Rightarrow> string \<Rightarrow> string option \<Rightarrow> string option \<Rightarrow> string + string option" where
  "route_run F repo explicit cwd =
     (case explicit of
        Some r \<Rightarrow> bindr (validate_run_id r) (\<lambda>i. Inr (if rf_has_state F i then Some i else None))
      | None \<Rightarrow> (case cwd of None \<Rightarrow> Inr None | Some c \<Rightarrow> Inr (route_by_cwd F repo c)))"

subsection \<open>What the report means\<close>

record turn_options =
  to_run_id :: "string option"
  to_runner :: string
  to_cwd :: "string option"
  to_session_id :: "string option"
  to_summary :: "string option"
  to_rc :: "int option"
  to_window_id :: "string option"
  to_source :: string
  to_bell :: bool
  to_notify_cmd :: "string option"

record turn_class =
  tc_proof :: "string option"
  tc_dispatch_completed :: bool
  tc_event_type :: string
  tc_rc :: "int option"

definition classify_turn :: "turn_options \<Rightarrow> string option \<Rightarrow> turn_class" where
  "classify_turn opts codex_proof =
     (let self_report = (to_source opts = ''goal-self-report'');
          proof_of = (if self_report then Some ''goal-self-report''
                      else if to_source opts = ''codex-stop-hook'' then codex_proof else None);
          process_exit = suffix ''-process-exit'' (to_source opts);
          dispatch_completed = ((proof_of \<noteq> None \<or> process_exit) \<and> to_run_id opts \<noteq> None)
      in \<lparr> tc_proof = proof_of, tc_dispatch_completed = dispatch_completed,
           tc_event_type =
             (if dispatch_completed then ''agent.dispatch.completed''
              else if suffix ''-session-end-hook'' (to_source opts) then ''agent.session.ended''
              else ''agent.turn.completed''),
           tc_rc = (if self_report \<or> process_exit then to_rc opts
                    else if proof_of \<noteq> None then Some 0 else to_rc opts) \<rparr>)"

definition turn_fields ::
    "turn_options \<Rightarrow> turn_class \<Rightarrow> string option \<Rightarrow> string option \<Rightarrow> string option \<Rightarrow> string option \<Rightarrow> bool \<Rightarrow> json" where
  "turn_fields opts c cwd session_id window_id payload_hash known =
     jobj [(''runner'', JStr (to_runner opts)), (''cwd'', jopt JStr cwd), (''session_id'', jopt JStr session_id),
       (''rc'', jopt JInt (tc_rc c)), (''window_id'', jopt JStr window_id), (''source'', JStr (to_source opts)),
       (''completion_scope'',
          JStr (if tc_dispatch_completed c then ''dispatch''
                else if tc_event_type c = ''agent.session.ended'' then ''session'' else ''turn'')),
       (''goal_completion_proof'', jopt JStr (tc_proof c)), (''completion_proof'', jopt JStr (tc_proof c)),
       (''payload_sha256'', jopt JStr payload_hash), (''known_payload_schema'', JBool known)]"

text \<open>The host's command: only the fields of this program are put into its text.\<close>

fun replace_all :: "nat \<Rightarrow> string \<Rightarrow> string \<Rightarrow> string \<Rightarrow> string" where
  "replace_all 0 pat to s = s"
| "replace_all (Suc n) pat to [] = []"
| "replace_all (Suc n) pat to (c # cs) =
     (if prefix pat (c # cs) then to @ replace_all n pat to (drop (length pat) (c # cs))
      else c # replace_all n pat to cs)"

definition replace_str :: "string \<Rightarrow> string \<Rightarrow> string \<Rightarrow> string" where
  "replace_str pat to s = replace_all (Suc (length s)) pat to s"

definition render_notify_cmd :: "string \<Rightarrow> string \<Rightarrow> string \<Rightarrow> int option \<Rightarrow> string" where
  "render_notify_cmd template run_id runner rc =
     replace_str ''{rc}'' (case rc of None \<Rightarrow> [] | Some n \<Rightarrow> show_int n)
       (replace_str ''{runner}'' runner (replace_str ''{run_id}'' run_id template))"

subsection \<open>Finishing a dispatch window\<close>

record 'w turn_env =
  te_disk :: "'w \<Rightarrow> lto_state option"
  te_write :: "'w \<Rightarrow> lto_state \<Rightarrow> 'w"
  te_show :: "json \<Rightarrow> string"
  te_now :: "'w \<Rightarrow> string"
  te_run_shell :: "string \<Rightarrow> string \<Rightarrow> 'w \<Rightarrow> (string + command_output) \<times> 'w"
  te_close :: "dispatch_backend \<Rightarrow> string \<Rightarrow> 'w \<Rightarrow> (string + bool) \<times> 'w"
  te_emit :: "event_record \<Rightarrow> 'w \<Rightarrow> json option \<times> 'w"
  te_notify :: "string \<Rightarrow> string \<Rightarrow> 'w \<Rightarrow> 'w"

text \<open>A save writes a merged copy; the state in memory stays as it is.\<close>

definition save_run_state :: "'w turn_env \<Rightarrow> string \<Rightarrow> string \<Rightarrow> lto_state \<Rightarrow> 'w \<Rightarrow> (string + unit) \<times> 'w" where
  "save_run_state E path run_id st w =
     (case save_state_preserving_c2 (te_show E) path run_id (te_disk E w) st of
        Inl e \<Rightarrow> (Inl e, w)
      | Inr st' \<Rightarrow> (Inr (), te_write E w st'))"

definition is_active :: "string \<Rightarrow> string \<Rightarrow> dispatch_window \<Rightarrow> bool" where
  "is_active window_id runner w \<longleftrightarrow>
     wi_window_id w = window_id \<and> wi_runner w = runner \<and> wi_status w = ''active''"

definition rposition :: "('a \<Rightarrow> bool) \<Rightarrow> 'a list \<Rightarrow> nat option" where
  "rposition p xs = map_option (\<lambda>n. length xs - 1 - n) (position p (rev xs))"

definition put_window :: "nat \<Rightarrow> dispatch_window \<Rightarrow> lto_state \<Rightarrow> lto_state" where
  "put_window i x st = st\<lparr> st_dispatch_windows := (st_dispatch_windows st)[i := x] \<rparr>"

definition retain_at ::
    "'w turn_env \<Rightarrow> string \<Rightarrow> string \<Rightarrow> nat \<Rightarrow> string \<Rightarrow> lto_state \<Rightarrow> 'w \<Rightarrow> (string + unit) \<times> lto_state \<times> 'w" where
  "retain_at E path run_id i reason st w =
     (let st' = put_window i (retain_record (te_now E w) reason (st_dispatch_windows st ! i)) st
      in case save_run_state E path run_id st' w of (r, w') \<Rightarrow> (r, st', w'))"

definition clean_record :: "string \<Rightarrow> dispatch_window \<Rightarrow> dispatch_window" where
  "clean_record now w = w\<lparr> wi_status := ''cleaned'', wi_finished_at := Some now, wi_retention_reason := None \<rparr>"

definition window_cleaned :: "string \<Rightarrow> string \<Rightarrow> dispatch_backend \<Rightarrow> event_record" where
  "window_cleaned runner window_id b =
     default_event\<lparr> er_event_type := ''runner.window.cleaned'', er_actor_kind := ''lto'', er_actor_id := Some runner,
       er_summary := (''cleaned dispatch window '' @ window_id),
       er_fields := jobj [(''runner'', JStr runner), (''window_id'', JStr window_id), (''scheduled'', JBool (b = Tmux))] \<rparr>"

text \<open>The outcome of closing the window: an error is the reason it is retained for.\<close>

definition close_window ::
    "'w turn_env \<Rightarrow> dispatch_backend \<Rightarrow> string \<Rightarrow> dispatch_window \<Rightarrow> 'w \<Rightarrow> (string \<times> bool + unit) \<times> 'w" where
  "close_window E b window_id x w =
     (if b = Tmux
      then (case te_run_shell E (wi_tmux_bin x)
                   (''sleep 0.5; '' @ (shell_single_quote (wi_tmux_bin x)) @ '' kill-window -t '' @ (shell_single_quote window_id)) w of
              (Inl _, w') \<Rightarrow> (Inl ((''schedule '' @ (wi_tmux_bin x) @ '' kill-window -t '' @ window_id), False), w')
            | (Inr out, w') \<Rightarrow>
                (if co_success out then (Inr (), w')
                 else (Inl ((''tmux cleanup scheduling failed: '' @ (single_line (co_stderr out))), True), w')))
      else (case te_close E b (wi_target x) w of
              (Inl e, w') \<Rightarrow> (Inl (((backend_name b) @ '' cleanup failed: '' @ e), True), w')
            | (Inr _, w') \<Rightarrow> (Inr (), w')))"

definition retention_reason :: "int option \<Rightarrow> string" where
  "retention_reason rc =
     (if rc \<noteq> Some 0
      then (case rc of Some n \<Rightarrow> (''runner completion rc='' @ (show_int n)) | None \<Rightarrow> ''runner completion rc missing'')
      else ''--keep-window requested'')"

definition finish_dispatch_window ::
    "'w turn_env \<Rightarrow> string \<Rightarrow> string \<Rightarrow> string \<Rightarrow> string option \<Rightarrow> int option \<Rightarrow> lto_state option \<Rightarrow> 'w
     \<Rightarrow> (string + unit) \<times> lto_state option \<times> 'w" where
  "finish_dispatch_window E path run_id runner window_id rc state w =
     (case (window_id, state) of
        (Some wid, Some st) \<Rightarrow>
          (case rposition (is_active wid runner) (st_dispatch_windows st) of
             None \<Rightarrow> (Inr (), Some st, w)
           | Some i \<Rightarrow>
               let x = st_dispatch_windows st ! i in
               (case parse_backend (wi_backend x) of
                  Inl e \<Rightarrow> (Inl (''invalid dispatch backend: '' @ e), Some st, w)
                | Inr b \<Rightarrow>
                    if b = Tmux \<and> \<not> is_window_id wid
                    then (Inl (''invalid tmux window id '' @ (str_debug wid)), Some st, w)
                    else if rc \<noteq> Some 0 \<or> \<not> wi_cleanup_on_success x
                    then (case retain_at E path run_id i (retention_reason rc) st w of (r, st', w') \<Rightarrow> (r, Some st', w'))
                    else
                      (case close_window E b wid x w of
                         (Inl (reason, recorded), w1) \<Rightarrow>
                           (if recorded
                            then (case retain_at E path run_id i reason st w1 of
                                    (Inl e, st', w2) \<Rightarrow> (Inl e, Some st', w2)
                                  | (Inr _, st', w2) \<Rightarrow> (Inl reason, Some st', w2))
                            else (Inl reason, Some st, w1))
                       | (Inr _, w1) \<Rightarrow>
                           (let st' = put_window i (clean_record (te_now E w1) x) st
                            in case save_run_state E path run_id st' w1 of
                                 (Inl e, w2) \<Rightarrow> (Inl e, Some st', w2)
                               | (Inr _, w2) \<Rightarrow>
                                   (Inr (), Some st', snd (te_emit E (window_cleaned runner wid b) w2))))))
      | _ \<Rightarrow> (Inr (), state, w))"

definition retain_active_window_after_cleanup_error ::
    "'w turn_env \<Rightarrow> string \<Rightarrow> string \<Rightarrow> string \<Rightarrow> string \<Rightarrow> string \<Rightarrow> lto_state option \<Rightarrow> 'w \<Rightarrow> (string + unit) \<times> 'w" where
  "retain_active_window_after_cleanup_error E path run_id runner window_id reason state w =
     (case state of
        None \<Rightarrow> (Inr (), w)
      | Some st \<Rightarrow>
          (case rposition (is_active window_id runner) (st_dispatch_windows st) of
             None \<Rightarrow> (Inr (), w)
           | Some i \<Rightarrow> (case retain_at E path run_id i reason st w of (r, _, w') \<Rightarrow> (r, w'))))"

text \<open>After an error the record that is on disk now is retained, or else the one in memory.\<close>

definition finish_window_or_retain ::
    "'w turn_env \<Rightarrow> string \<Rightarrow> string \<Rightarrow> string \<Rightarrow> string option \<Rightarrow> int option \<Rightarrow> lto_state option \<Rightarrow> 'w \<Rightarrow> 'w" where
  "finish_window_or_retain E path run_id runner window_id rc state w =
     (case finish_dispatch_window E path run_id runner window_id rc state w of
        (Inr _, _, w1) \<Rightarrow> w1
      | (Inl reason, state1, w1) \<Rightarrow>
          (case window_id of
             None \<Rightarrow> w1
           | Some wid \<Rightarrow>
               snd (retain_active_window_after_cleanup_error E path run_id runner wid reason
                      (opt_or (te_disk E w1) state1) w1)))"

subsection \<open>The command\<close>

record turn_inputs =
  ti_payload :: "string + string"
  ti_parse :: "string \<Rightarrow> json option"
  ti_lossy :: "string \<Rightarrow> string"
  ti_read :: "string \<Rightarrow> string option"
  ti_sha :: "string \<Rightarrow> string"
  ti_window_env :: "string option"
  ti_repo :: string

datatype turn_outcome =
    TurnErr string
  | TurnIgnored
  | TurnDone string turn_class event_record "json option"

definition turn_event ::
    "turn_options \<Rightarrow> turn_class \<Rightarrow> string option \<Rightarrow> string \<Rightarrow> json \<Rightarrow> event_record" where
  "turn_event opts c phase summary fs =
     default_event\<lparr> er_event_type := tc_event_type c, er_actor_kind := ''runner'',
       er_actor_id := Some (to_runner opts), er_phase := phase, er_summary := summary, er_fields := fs \<rparr>"

text \<open>The run's state is read once, before the event is emitted and the host is notified.\<close>

definition report_turn ::
    "'w turn_env \<Rightarrow> turn_inputs \<Rightarrow> turn_options \<Rightarrow> string \<Rightarrow> json option \<Rightarrow> string option \<Rightarrow> string option
     \<Rightarrow> string \<Rightarrow> string \<Rightarrow> string \<Rightarrow> 'w \<Rightarrow> turn_outcome \<times> 'w" where
  "report_turn E I opts payload_text payload cwd session_id summary run_id path w =
     (let state = te_disk E w;
          phase = opt_filter (\<lambda>p. trim p \<noteq> []) (map_option st_current_phase state);
          notify_cmd = opt_or (to_notify_cmd opts) (Option.bind state st_notify_cmd);
          window_id = opt_filter (\<lambda>v. trim v \<noteq> []) (opt_or (to_window_id opts) (ti_window_env I));
          c = classify_turn opts (payload_goal_completion_proof (ti_parse I) (ti_lossy I) (ti_read I) payload);
          hash = (if trim payload_text = [] then None else Some (ti_sha I payload_text));
          record = turn_event opts c phase summary
            (turn_fields opts c cwd session_id window_id hash (payload \<noteq> None));
          (event, w1) = te_emit E record w;
          w2 = (if tc_dispatch_completed c
                then (case notify_cmd of
                        None \<Rightarrow> w1
                      | Some t \<Rightarrow> te_notify E (render_notify_cmd t run_id (to_runner opts) (tc_rc c)) summary w1)
                else w1);
          w3 = (if tc_dispatch_completed c
                then finish_window_or_retain E path run_id (to_runner opts) window_id (tc_rc c) state w2
                else w2)
      in (TurnDone run_id c record event, w3))"

definition cmd_agent_turn_completed ::
    "('w \<Rightarrow> string \<Rightarrow> 'w turn_env \<times> string) \<Rightarrow> run_files \<Rightarrow> turn_inputs \<Rightarrow> turn_options \<Rightarrow> 'w \<Rightarrow> turn_outcome \<times> 'w" where
  "cmd_agent_turn_completed env F I opts w =
     (case ti_payload I of
        Inl e \<Rightarrow> (TurnErr e, w)
      | Inr t \<Rightarrow>
          (let payload = parse_payload (ti_parse I) t;
               cwd = opt_or (to_cwd opts) (payload_cwd payload);
               session_id = opt_or (to_session_id opts) (payload_string payload [''session_id'', ''sessionId'']);
               summary = opt_get_or ''agent turn completed'' (opt_or (to_summary opts) (payload_summary payload))
           in if to_source opts = ''goal-self-report'' \<and> to_run_id opts = None
              then (TurnErr ''goal-self-report requires --run-id'', w)
              else case route_run F (ti_repo I) (to_run_id opts) cwd of
                     Inl e \<Rightarrow> (TurnErr e, w)
                   | Inr None \<Rightarrow>
                       (if to_source opts = ''goal-self-report''
                        then (TurnErr (''goal-self-report found no run '' @ (opt_get_or ''<none>'' (to_run_id opts)) @ '' under '' @ (ti_repo I)), w)
                        else (TurnIgnored, w))
                   | Inr (Some run_id) \<Rightarrow>
                       (case env w run_id of (E, path) \<Rightarrow>
                          report_turn E I opts t payload cwd session_id summary run_id path w)))"

subsection \<open>Routing\<close>

lemma last_opt_set: "last_opt xs = Some x \<Longrightarrow> x \<in> set xs"
  by (auto simp: last_opt_def split: if_splits)

lemma route_by_cwd_open:
  assumes "route_by_cwd F repo cwd = Some i"
  shows "\<exists>runs st. rf_runs F = Some runs \<and> st \<in> set runs \<and> st_run_id st = i
     \<and> run_matches F repo (normalize_path (rf_here F) cwd) st"
proof -
  obtain runs where r: "rf_runs F = Some runs" using assms by (cases "rf_runs F") (auto simp: route_by_cwd_def)
  let ?found = "map (\<lambda>st. (st_run_id st, st_started_at st))
      (filter (run_matches F repo (normalize_path (rf_here F) cwd)) runs)"
  have "i \<in> fst ` set ?found"
    using assms r
    by (auto simp: route_by_cwd_def Let_def opt_filter_def split: option.splits if_splits dest!: last_opt_set)
       (force simp: image_iff)+
  with r show ?thesis by (auto simp: image_iff)
qed


subsection \<open>A window is closed once, and only when it may be\<close>

text \<open>The world of the theorems: what is written is read back, the programs leave the state file as
  it is, and each attempt to close a window is logged.\<close>

definition turn_laws :: "'w turn_env \<Rightarrow> ('w \<Rightarrow> string list) \<Rightarrow> bool" where
  "turn_laws E L \<longleftrightarrow>
     (\<forall>w st. te_disk E (te_write E w st) = Some st \<and> L (te_write E w st) = L w)
     \<and> (\<forall>b c w. te_disk E (snd (te_run_shell E b c w)) = te_disk E w
          \<and> L (snd (te_run_shell E b c w)) = L w @ [c])
     \<and> (\<forall>b t w. te_disk E (snd (te_close E b t w)) = te_disk E w \<and> L (snd (te_close E b t w)) = L w @ [t])
     \<and> (\<forall>r w. te_disk E (snd (te_emit E r w)) = te_disk E w \<and> L (snd (te_emit E r w)) = L w)"

definition no_active :: "string \<Rightarrow> string \<Rightarrow> lto_state \<Rightarrow> bool" where
  "no_active wid runner st \<longleftrightarrow> \<not> list_ex (is_active wid runner) (st_dispatch_windows st)"

lemma rposition_None: "rposition p xs = None \<longleftrightarrow> \<not> list_ex p xs"
  by (simp add: rposition_def position_None list_ex_iff)

lemma rposition_Some: "rposition p xs = Some i \<Longrightarrow> i < length xs \<and> p (xs ! i)"
proof -
  assume "rposition p xs = Some i"
  then obtain n where n: "position p (rev xs) = Some n" "i = length xs - 1 - n" by (auto simp: rposition_def)
  from position_Some [OF n(1)] have "n < length xs" "p (rev xs ! n)" by simp_all
  with n(2) show ?thesis by (simp add: rev_nth)
qed

lemma saved_no_active:
  assumes "distinct (map wi_window_id (st_dispatch_windows st))" "i < length (st_dispatch_windows st)"
    and "is_active wid runner (st_dispatch_windows st ! i)"
    and "wi_window_id x = wid" "wi_status x \<noteq> ''active''"
    and "save_state_preserving_c2 sh path run_id (Some st) (put_window i x st) = Inr st'"
  shows "no_active wid runner st'" "distinct (map wi_window_id (st_dispatch_windows st'))"
proof -
  let ?ws = "st_dispatch_windows st" and ?key = wi_window_id
  let ?nxt = "?ws[i := x]"
  from assms(6) have st': "st_dispatch_windows st' = merge_stable_by_key ?key ?ws ?nxt"
    by (auto simp: save_state_preserving_c2_def saved_fields put_window_def)
  show d: "distinct (map ?key (st_dispatch_windows st'))" unfolding st' by (rule stable.distinct_keys [OF assms(1)])
  have keys: "map ?key ?nxt = map ?key ?ws"
    using assms(2-4) by (simp add: is_active_def map_update list_update_same_conv)
  have "\<not> is_active wid runner y" if "y \<in> set (st_dispatch_windows st')" for y
  proof
    assume a: "is_active wid runner y"
    from last_by_distinct [OF d that] have "last_by ?key wid (st_dispatch_windows st') = Some y"
      using a by (simp add: is_active_def)
    moreover have "x \<in> set ?nxt" using assms(2) by (simp add: set_update_memI)
    then have "last_by ?key wid ?nxt = Some x"
      using last_by_distinct [of ?key ?nxt x] assms(1,4) keys by simp
    ultimately have "y = x" using stable.lookup [of ?key wid ?ws ?nxt] by (simp add: st')
    with a assms(5) show False by (simp add: is_active_def)
  qed
  then show "no_active wid runner st'" by (auto simp: no_active_def list_ex_iff)
qed

text \<open>What a step leaves on disk: a state with distinct ids and no active record of the window.\<close>

definition settled :: "'w turn_env \<Rightarrow> string \<Rightarrow> string \<Rightarrow> 'w \<Rightarrow> bool" where
  "settled E wid runner w \<longleftrightarrow>
     (\<exists>st. te_disk E w = Some st \<and> no_active wid runner st \<and> distinct (map wi_window_id (st_dispatch_windows st)))"

lemma retain_at_settles:
  assumes laws: "turn_laws E L"
    and "te_disk E w = Some st" "distinct (map wi_window_id (st_dispatch_windows st))"
    and "rposition (is_active wid runner) (st_dispatch_windows st) = Some i"
    and "retain_at E path run_id i reason st w = (r, st', w')"
  shows "settled E wid runner w'" "L w' = L w" "r = Inr ()"
proof -
  let ?x = "retain_record (te_now E w) reason (st_dispatch_windows st ! i)"
  note i = rposition_Some [OF assms(4)]
  then have x: "wi_window_id ?x = wid" "wi_status ?x \<noteq> ''active''"
    by (simp_all add: is_active_def retain_record_def)
  obtain st2 where sv: "save_state_preserving_c2 (te_show E) path run_id (Some st) (put_window i ?x st) = Inr st2"
    by (simp add: save_state_preserving_c2_def)
  with assms(2,5) have "w' = te_write E w st2" and r: "r = Inr ()"
    by (auto simp: retain_at_def Let_def save_run_state_def)
  moreover note saved_no_active [OF assms(3) conjunct1 [OF i] conjunct2 [OF i] x sv]
  ultimately show "settled E wid runner w'" "L w' = L w" "r = Inr ()"
    using laws by (auto simp: settled_def turn_laws_def)
qed

lemma close_window_logs:
  assumes "turn_laws E L" "close_window E b wid x w = (r, w')"
  shows "te_disk E w' = te_disk E w" "\<exists>c. L w' = L w @ [c]"
proof -
  have a: "te_disk E (snd (te_run_shell E p c w)) = te_disk E w" "L (snd (te_run_shell E p c w)) = L w @ [c]"
    "te_disk E (snd (te_close E b t w)) = te_disk E w" "L (snd (te_close E b t w)) = L w @ [t]" for p c t
    using assms(1) by (simp_all add: turn_laws_def)
  show "te_disk E w' = te_disk E w" "\<exists>c. L w' = L w @ [c]"
    using assms(2) a by (auto simp: close_window_def split: if_splits prod.splits sum.splits) (metis snd_conv)+
qed

definition may_close :: "string \<Rightarrow> string \<Rightarrow> int option \<Rightarrow> lto_state \<Rightarrow> bool" where
  "may_close wid runner rc st \<longleftrightarrow>
     rc = Some 0 \<and> list_ex (\<lambda>x. is_active wid runner x \<and> wi_cleanup_on_success x
       \<and> (wi_backend x = ''tmux'' \<longrightarrow> is_window_id wid)) (st_dispatch_windows st)"

lemma finish_cases:
  assumes laws: "turn_laws E L"
    and disk: "te_disk E w = Some st" and d: "distinct (map wi_window_id (st_dispatch_windows st))"
    and fin: "finish_dispatch_window E path run_id runner (Some wid) rc (Some st) w = (r, s', w1)"
  shows "(settled E wid runner w1 \<or> te_disk E w1 = Some st \<and> isl r)
    \<and> (L w1 = L w \<or> may_close wid runner rc st \<and> (\<exists>c. L w1 = L w @ [c]))"
proof (cases "rposition (is_active wid runner) (st_dispatch_windows st)")
  case None
  with fin have "r = Inr ()" "w1 = w" by (simp_all add: finish_dispatch_window_def)
  with None disk d show ?thesis by (simp add: settled_def no_active_def rposition_None)
next
  case (Some i)
  let ?x = "st_dispatch_windows st ! i"
  note i = rposition_Some [OF Some]
  note retain = retain_at_settles [OF laws _ d Some]
  show ?thesis
  proof (cases "parse_backend (wi_backend ?x)")
    case (Inl e)
    with fin Some have "w1 = w" "isl r" by (auto simp: finish_dispatch_window_def Let_def)
    with disk show ?thesis by simp
  next
    case (Inr b)
    then have b: "wi_backend ?x = backend_name b" by (simp add: parse_backend_Inr)
    consider (bad) "b = Tmux \<and> \<not> is_window_id wid"
      | (keep) "\<not> (b = Tmux \<and> \<not> is_window_id wid)" "rc \<noteq> Some 0 \<or> \<not> wi_cleanup_on_success ?x"
      | (close) "\<not> (b = Tmux \<and> \<not> is_window_id wid)" "rc = Some 0" "wi_cleanup_on_success ?x" by blast
    then show ?thesis
    proof cases
      case bad
      with fin Some Inr have "w1 = w" "isl r" by (auto simp: finish_dispatch_window_def Let_def)
      with disk show ?thesis by simp
    next
      case keep
      obtain q s2 w2 where r: "retain_at E path run_id i (retention_reason rc) st w = (q, s2, w2)"
        by (cases "retain_at E path run_id i (retention_reason rc) st w") auto
      with fin Some Inr keep have "w1 = w2" by (auto simp: finish_dispatch_window_def Let_def)
      with retain [OF disk r] show ?thesis by simp
    next
      case close
      have "wi_backend ?x = ''tmux'' \<longrightarrow> is_window_id wid"
        using close(1) b by (cases b) (simp_all add: backend_name_def)
      with close i have may: "may_close wid runner rc st"
        by (auto simp: may_close_def list_ex_iff intro!: bexI [of _ ?x])
      obtain q w2 where c: "close_window E b wid ?x w = (q, w2)" by (cases "close_window E b wid ?x w")
      note log = close_window_logs [OF laws c]
      show ?thesis
      proof (cases q)
        case (Inl p)
        obtain reason recorded where p: "p = (reason, recorded)" by (cases p)
        show ?thesis
        proof (cases recorded)
          case False
          with fin Some Inr close c Inl p have "w1 = w2" "isl r" by (auto simp: finish_dispatch_window_def Let_def)
          with log disk may show ?thesis by simp
        next
          case True
          obtain q2 s2 w3 where r: "retain_at E path run_id i reason st w2 = (q2, s2, w3)"
            by (cases "retain_at E path run_id i reason st w2") auto
          from log(1) disk have disk2: "te_disk E w2 = Some st" by simp
          note ret = retain [OF disk2 r]
          with fin Some Inr close c Inl p True r have "w1 = w3" by (auto simp: finish_dispatch_window_def Let_def)
          with ret log(2) may show ?thesis by simp
        qed
      next
        case (Inr u)
        let ?y = "clean_record (te_now E w2) ?x"
        obtain st2 where sv: "save_state_preserving_c2 (te_show E) path run_id (Some st) (put_window i ?y st) = Inr st2"
          by (simp add: save_state_preserving_c2_def)
        from log(1) disk have disk2: "te_disk E w2 = Some st" by simp
        with fin Some \<open>parse_backend (wi_backend ?x) = Inr b\<close> close c Inr sv
        have "w1 = snd (te_emit E (window_cleaned runner wid b) (te_write E w2 st2))"
          by (auto simp: finish_dispatch_window_def Let_def save_run_state_def)
        moreover have "wi_window_id ?y = wid" "wi_status ?y \<noteq> ''active''"
          using i by (simp_all add: is_active_def clean_record_def)
        note saved_no_active [OF d conjunct1 [OF i] conjunct2 [OF i] this sv]
        ultimately show ?thesis using laws log(2) may by (auto simp: settled_def turn_laws_def)
      qed
    qed
  qed
qed

lemma finish_settles:
  assumes laws: "turn_laws E L"
    and disk: "te_disk E w = Some st" and d: "distinct (map wi_window_id (st_dispatch_windows st))"
  shows "settled E wid runner (finish_window_or_retain E path run_id runner (Some wid) rc (Some st) w)
    \<and> (L (finish_window_or_retain E path run_id runner (Some wid) rc (Some st) w) = L w
       \<or> may_close wid runner rc st
         \<and> (\<exists>c. L (finish_window_or_retain E path run_id runner (Some wid) rc (Some st) w) = L w @ [c]))"
proof -
  obtain r s' w1 where f: "finish_dispatch_window E path run_id runner (Some wid) rc (Some st) w = (r, s', w1)"
    by (cases "finish_dispatch_window E path run_id runner (Some wid) rc (Some st) w") auto
  note step = finish_cases [OF laws disk d f]
  show ?thesis
  proof (cases r)
    case (Inr u)
    with step f show ?thesis by (simp add: finish_window_or_retain_def)
  next
    case (Inl reason)
    from step obtain st1 where st1: "te_disk E w1 = Some st1" "distinct (map wi_window_id (st_dispatch_windows st1))"
      using d by (auto simp: settled_def)
    have w: "finish_window_or_retain E path run_id runner (Some wid) rc (Some st) w
        = snd (retain_active_window_after_cleanup_error E path run_id runner wid reason (Some st1) w1)"
      using f Inl st1(1) by (simp add: finish_window_or_retain_def)
    show ?thesis
    proof (cases "rposition (is_active wid runner) (st_dispatch_windows st1)")
      case None
      with w step st1 show ?thesis
        by (simp add: retain_active_window_after_cleanup_error_def settled_def no_active_def rposition_None)
    next
      case (Some i)
      obtain q s2 w2 where r: "retain_at E path run_id i reason st1 w1 = (q, s2, w2)"
        by (cases "retain_at E path run_id i reason st1 w1") auto
      with w Some have "finish_window_or_retain E path run_id runner (Some wid) rc (Some st) w = w2"
        by (simp add: retain_active_window_after_cleanup_error_def)
      with retain_at_settles [OF laws st1 Some r] step show ?thesis by simp
    qed
  qed
qed

text \<open>Reports one after the other, each with the state that is on disk when it comes.\<close>

definition report_completion ::
    "'w turn_env \<Rightarrow> string \<Rightarrow> string \<Rightarrow> string \<Rightarrow> string \<Rightarrow> 'w \<Rightarrow> int option \<Rightarrow> 'w" where
  "report_completion E path run_id runner wid w rc =
     finish_window_or_retain E path run_id runner (Some wid) rc (te_disk E w) w"

lemma settled_report:
  assumes "settled E wid runner w"
  shows "report_completion E path run_id runner wid w rc = w"
proof -
  from assms obtain st where "te_disk E w = Some st" "no_active wid runner st" by (auto simp: settled_def)
  then show ?thesis
    by (simp add: report_completion_def finish_window_or_retain_def finish_dispatch_window_def no_active_def
        rposition_None [symmetric])
qed

lemma settled_reports: "settled E wid runner w \<Longrightarrow> foldl (report_completion E path run_id runner wid) w rcs = w"
  by (induction rcs) (simp_all add: settled_report)


text \<open>A world in which tmux accepts the command, for the concrete runs.\<close>

definition demo_turn_env :: "(lto_state option \<times> string list) turn_env" where
  "demo_turn_env =
     \<lparr> te_disk = fst, te_write = (\<lambda>w st. (Some st, snd w)), te_show = (\<lambda>_. []), te_now = (\<lambda>_. ''now''),
       te_run_shell = (\<lambda>b c w. (Inr \<lparr> co_success = True, co_code = Some 0, co_stdout = [], co_stderr = [] \<rparr>,
                               (fst w, snd w @ [c]))),
       te_close = (\<lambda>b t w. (Inr True, (fst w, snd w @ [t]))), te_emit = (\<lambda>r w. (None, w)),
       te_notify = (\<lambda>c e w. w) \<rparr>"

definition demo_turn_state :: lto_state where
  "demo_turn_state = (default_state ''t0'')\<lparr> st_dispatch_windows := [new_window ''t0'' demo_dispatch_options ''s:@7'' ''@7''] \<rparr>"


text \<open>The window of the example is closed, by the first report.\<close>

lemma demo_window_closed:
  "length (snd (foldl (report_completion demo_turn_env ''p'' ''r1'' ''aix'' ''@7'') (Some demo_turn_state, []) [Some 0, Some 0])) = 1"
  by code_simp

definition demo_run_files :: run_files where
  "demo_run_files = \<lparr> rf_has_state = (\<lambda>r. r = ''r1''), rf_current = None, rf_runs = None, rf_here = ''/r'' \<rparr>"

definition demo_turn_inputs :: turn_inputs where
  "demo_turn_inputs = \<lparr> ti_payload = Inr [], ti_parse = (\<lambda>_. None), ti_lossy = (\<lambda>t. t), ti_read = (\<lambda>_. None),
     ti_sha = (\<lambda>_. []), ti_window_env = None, ti_repo = ''/r'' \<rparr>"

definition demo_turn_options :: turn_options where
  "demo_turn_options = \<lparr> to_run_id = Some ''r1'', to_runner = ''aix'', to_cwd = None, to_session_id = None,
     to_summary = None, to_rc = Some 0, to_window_id = Some ''@7'', to_source = ''aix-process-exit'',
     to_bell = True, to_notify_cmd = None \<rparr>"

definition demo_turn :: "turn_outcome \<times> lto_state option \<times> string list" where
  "demo_turn = cmd_agent_turn_completed (\<lambda>w i. (demo_turn_env, ''p'')) demo_run_files demo_turn_inputs demo_turn_options
     (Some demo_turn_state, [])"


subsection \<open>What can be lost\<close>

text \<open>
  A writer that loaded the run before a window was finished, and saves after it, puts its own copy of
  the record back: the window is active again, whatever the state on disk says.
\<close>

lemma stale_save_revives_window:
  "save_state_preserving_c2 sh path run_id disk st = Inr st'
   \<Longrightarrow> window_status (st_dispatch_windows st) i = Some ''active''
   \<Longrightarrow> window_status (st_dispatch_windows st') i = Some ''active''"
  by (simp add: saved_windows)

text \<open>
  The wait of \<open>dispatch-and-wait\<close> starts when the dispatch has returned, and only an event that comes
  later ends it: a completion that is in the log by then, as that of a fast runner can be, is not seen,
  and the wait runs into its timeout.
\<close>

theorem completion_before_wait_is_missed:
  "wait_for ty None (Inr es) (replicate k (Inr es)) = Inr None"
proof -
  let ?m = "event_matches ty (start_cursor None es)"
  have "\<not> ?m e" if "e \<in> set es" for e
  proof (cases "event_id e")
    case (Some n)
    with that have "n \<in> set (List.map_filter event_id es)" by (force simp: List.map_filter_def)
    then have "n \<le> start_cursor None es" by (simp add: start_cursor_def foldl_max_bound)
    with Some show ?thesis by (simp add: event_matches_def not_less)
  qed (simp add: event_matches_def)
  then have none: "find ?m es = None" by (simp add: find_None_iff)
  have "poll_events ?m (replicate k (Inr es)) = Inr None" by (induction k) (simp_all add: none)
  with none show ?thesis by (simp add: wait_for_def Let_def)
qed

end
