(* ===== verification/Lto_Tmux.thy ===== *)
theory Lto_Tmux
  imports Lto_Agent_Turn Lto_Redact Lto_Budget Lto_Scheduler
begin

text \<open>
  \<open>src/src/tmux_runner.rs\<close>: an agent is driven through a pane of tmux. The pane is found or made,
  watched until it is ready, the prompt is pasted into it, and its completion is awaited through a
  tmux signal, a sentinel file, or not at all. The model keeps what the runner did as a list of
  actions and a clock in nanoseconds; what tmux, the file system and the other processes answer is a
  parameter that may look at everything done before. Every action takes at least one tick of the
  clock, a sleep at least its length. Instants do not overflow.
\<close>

subsection \<open>Configuration\<close>

datatype tmux_mode = Signal | Sentinel | Fire

datatype tmux_error =
    TmuxConfig string
  | TmuxStart string string
  | TmuxCommandFailed string string string
  | TmuxTimeout string
  | TmuxIo string

definition tmux_error_str :: "tmux_error \<Rightarrow> string" where
  "tmux_error_str e =
     (case e of
        TmuxConfig m \<Rightarrow> m
      | TmuxStart bin reason \<Rightarrow> (''tmux binary not found or failed to start ('' @ bin @ ''): '' @ reason)
      | TmuxCommandFailed args st err \<Rightarrow> (''tmux command failed: tmux '' @ args @ '' (status='' @ st @ '') '' @ err)
      | TmuxTimeout m \<Rightarrow> m
      | TmuxIo m \<Rightarrow> m)"

definition parse_tmux_mode :: "string option \<Rightarrow> tmux_error + tmux_mode" where
  "parse_tmux_mode v =
     (let m = opt_get_or ''signal'' v in
      if m = ''signal'' then Inr Signal
      else if m = ''sentinel'' then Inr Sentinel
      else if m = ''fire'' then Inr Fire
      else Inl (TmuxConfig (''invalid tmux mode: '' @ m)))"

definition tmux_mode_str :: "tmux_mode \<Rightarrow> string" where
  "tmux_mode_str m = (case m of Signal \<Rightarrow> ''signal'' | Sentinel \<Rightarrow> ''sentinel'' | Fire \<Rightarrow> ''fire'')"

record skip_prompt =
  sp_pattern :: string
  sp_key :: string

record dispatch_safety =
  ds_blocked_patterns :: "string list"
  ds_blocked_prompt_hint :: "string option"
  ds_reject_busy_target :: bool

definition default_safety :: dispatch_safety where
  "default_safety = \<lparr> ds_blocked_patterns = [], ds_blocked_prompt_hint = None, ds_reject_busy_target = False \<rparr>"

text \<open>The timeout in seconds, the interval in milliseconds.\<close>

record tmux_config =
  tc_bin :: string
  tc_mode :: tmux_mode
  tc_target :: "string option"
  tc_session :: "string option"
  tc_new_window :: bool
  tc_new_session :: bool
  tc_window_name :: string
  tc_signal_name :: string
  tc_sentinel_path :: "string option"
  tc_ready_patterns :: "string list"
  tc_skip_prompts :: "skip_prompt list"
  tc_safety :: dispatch_safety
  tc_ready_timeout :: u64
  tc_poll_interval :: u64
  tc_capture_lines :: u64
  tc_working_dir :: "string option"

text \<open>The first key whose value has the type that is asked for.\<close>

definition meta_first :: "(json \<Rightarrow> 'a option) \<Rightarrow> json_map \<Rightarrow> string list \<Rightarrow> 'a option" where
  "meta_first get meta keys = first_opt (List.map_filter (\<lambda>k. Option.bind (bt_get meta k) get) keys)"

definition meta_str :: "json_map \<Rightarrow> string list \<Rightarrow> string option" where
  "meta_str = meta_first as_str"

definition meta_bool :: "json_map \<Rightarrow> string list \<Rightarrow> bool option" where
  "meta_bool = meta_first as_bool"

definition meta_u64 :: "json_map \<Rightarrow> string list \<Rightarrow> u64 option" where
  "meta_u64 = meta_first as_u64"

fun meta_string_list :: "json_map \<Rightarrow> string list \<Rightarrow> string list" where
  "meta_string_list meta [] = []"
| "meta_string_list meta (k # ks) =
     (case bt_get meta k of
        Some (JStr item) \<Rightarrow> [item]
      | Some (JArr items) \<Rightarrow> List.map_filter as_str items
      | _ \<Rightarrow> meta_string_list meta ks)"

definition standard_skip_prompts :: "skip_prompt list" where
  "standard_skip_prompts =
     [\<lparr> sp_pattern = ''update available'', sp_key = ''n'' \<rparr>,
      \<lparr> sp_pattern = ''upgrade?'', sp_key = ''n'' \<rparr>,
      \<lparr> sp_pattern = ''new version'', sp_key = ''n'' \<rparr>]"

definition skip_of_item :: "string \<Rightarrow> skip_prompt option" where
  "skip_of_item item =
     map_option (\<lambda>(p, k). \<lparr> sp_pattern = trim p, sp_key = trim k \<rparr>) (split_once ''='' item)"

definition skip_of_entry :: "json \<Rightarrow> skip_prompt option" where
  "skip_of_entry item =
     (case (jget_str item ''pattern'', jget_str item ''key'') of
        (Some p, Some k) \<Rightarrow> Some \<lparr> sp_pattern = p, sp_key = k \<rparr>
      | _ \<Rightarrow> None)"

definition skip_prompts :: "json_map \<Rightarrow> skip_prompt list" where
  "skip_prompts meta =
     standard_skip_prompts
     @ List.map_filter skip_of_item (meta_string_list meta [''tmux_skip_prompts'', ''skip_prompts''])
     @ (case bt_get meta ''tmux_skip_prompt_map'' of
          Some (JArr items) \<Rightarrow> List.map_filter skip_of_entry items
        | _ \<Rightarrow> [])"

text \<open>One dash for each character that is not allowed, so its later bytes stand for nothing.\<close>

definition signal_char :: "char \<Rightarrow> bool" where
  "signal_char c \<longleftrightarrow> is_ascii_alphanumeric c \<or> c \<in> {CHR ''-'', CHR ''_'', CHR ''.''}"

definition sanitize_signal :: "string \<Rightarrow> string" where
  "sanitize_signal v =
     map (\<lambda>c. if signal_char c then c else CHR ''-'') (filter (\<lambda>c. \<not> is_cont c) v)"

definition parse_signal_name ::
    "nat \<Rightarrow> string option \<Rightarrow> string \<Rightarrow> string \<Rightarrow> tmux_error + string" where
  "parse_signal_name millis configured run_id job_id =
     (case configured of
        Some v \<Rightarrow>
          (let clean = sanitize_signal v in
           if clean = [] \<or> clean \<noteq> v
           then Inl (TmuxConfig (''invalid tmux signal name: '' @ (str_debug v) @ ''; use only ASCII letters, digits, '' @ [CHR 0x27] @ ''.'' @ [CHR 0x27] @ '', '' @ [CHR 0x27] @ ''_'' @ [CHR 0x27] @ '' or '' @ [CHR 0x27] @ ''-'' @ [CHR 0x27]))
           else Inr (sanitize_signal (v @ ''-'' @ run_id @ ''-'' @ job_id @ ''-'' @ (show_nat millis) @ ''-done'')))
      | None \<Rightarrow> Inr (sanitize_signal (''lto-'' @ run_id @ ''-'' @ job_id @ ''-'' @ (show_nat millis) @ ''-done'')))"

text \<open>An absolute path is the list of its parts; \<open>cwd\<close> is the current directory, when there is one.\<close>

definition show_path :: "string list \<Rightarrow> string" where
  "show_path parts = ''/'' @ join_str ''/'' parts"

definition lexical_normalize :: "string \<Rightarrow> string list" where
  "lexical_normalize p = foldl (\<lambda>acc c. if c = ''..'' then butlast acc else acc @ [c]) [] (path_parts p)"

definition absolutize_repo :: "string + string \<Rightarrow> string \<Rightarrow> tmux_error + string" where
  "absolutize_repo cwd p =
     (if prefix ''/'' p then Inr p
      else case cwd of
        Inr d \<Rightarrow> Inr (path_join d p)
      | Inl e \<Rightarrow> Inl (TmuxConfig (''cannot resolve current dir: '' @ e)))"

definition resolve_sentinel_path :: "string + string \<Rightarrow> string \<Rightarrow> string \<Rightarrow> tmux_error + string" where
  "resolve_sentinel_path cwd repo v =
     bindr (absolutize_repo cwd repo) (\<lambda>a.
       (let root = lexical_normalize a;
            p = lexical_normalize (path_join (show_path root) v)
        in if prefix root p then Inr (show_path p)
           else Inl (TmuxConfig (''tmux sentinel path must stay inside repo: '' @ (show_path p)))))"

text \<open>The default sentinel is joined as it is, without a look at where it leads.\<close>

definition live_dir :: "string \<Rightarrow> string \<Rightarrow> string" where
  "live_dir repo run_id = path_join (path_join (path_join repo ''.lto'') run_id) ''live''"

definition job_run_id :: "json_map \<Rightarrow> string" where
  "job_run_id meta = opt_get_or ''rust-scheduler'' (meta_str meta [''run_id''])"

definition sentinel_of :: "string + string \<Rightarrow> tmux_mode \<Rightarrow> agent_job \<Rightarrow> string \<Rightarrow> tmux_error + string option" where
  "sentinel_of cwd mode job repo =
     bindr (case meta_str (aj_meta job) [''tmux_sentinel'', ''sentinel''] of
              Some p \<Rightarrow> bindr (resolve_sentinel_path cwd repo p) (\<lambda>r. Inr (Some r))
            | None \<Rightarrow> Inr None) (\<lambda>p.
       Inr (if mode = Sentinel \<and> p = None
            then Some (path_join (live_dir repo (job_run_id (aj_meta job))) ((aj_job_id job) @ ''.sentinel''))
            else p))"

definition DEFAULT_READY_TIMEOUT_SEC :: u64 where
  "DEFAULT_READY_TIMEOUT_SEC = 30"

definition DEFAULT_POLL_INTERVAL_MS :: u64 where
  "DEFAULT_POLL_INTERVAL_MS = 250"

definition DEFAULT_CAPTURE_LINES :: u64 where
  "DEFAULT_CAPTURE_LINES = 200"

definition config_of_job ::
    "string + string \<Rightarrow> nat \<Rightarrow> agent_job \<Rightarrow> string \<Rightarrow> tmux_error + tmux_config" where
  "config_of_job cwd millis job repo =
     (let meta = aj_meta job; run_id = job_run_id meta in
      bindr (parse_tmux_mode (meta_str meta [''tmux_mode''])) (\<lambda>mode.
      bindr (parse_signal_name millis (meta_str meta [''tmux_signal'', ''signal'']) run_id (aj_job_id job)) (\<lambda>signal.
      bindr (sentinel_of cwd mode job repo) (\<lambda>sentinel.
        (let target = meta_str meta [''tmux_target'', ''target''];
             session = meta_str meta [''tmux_session'', ''session''];
             new_session = opt_get_or False (meta_bool meta [''tmux_new_session'', ''new_session''])
         in Inr \<lparr> tc_bin = opt_get_or ''tmux'' (meta_str meta [''tmux_bin'']), tc_mode = mode,
                  tc_target = target, tc_session = session,
                  tc_new_window = opt_get_or (target = None \<and> session \<noteq> None \<and> \<not> new_session)
                    (meta_bool meta [''tmux_new_window'', ''new_window'']),
                  tc_new_session = new_session,
                  tc_window_name = opt_get_or (''lto-'' @ (aj_job_id job))
                    (meta_str meta [''tmux_window_name'', ''window_name'']),
                  tc_signal_name = signal, tc_sentinel_path = sentinel,
                  tc_ready_patterns = meta_string_list meta [''tmux_ready_patterns'', ''ready_patterns''],
                  tc_skip_prompts = skip_prompts meta, tc_safety = default_safety,
                  tc_ready_timeout = opt_get_or DEFAULT_READY_TIMEOUT_SEC
                    (meta_u64 meta [''tmux_ready_timeout_sec'', ''ready_timeout_sec'']),
                  tc_poll_interval = opt_get_or DEFAULT_POLL_INTERVAL_MS
                    (meta_u64 meta [''tmux_poll_interval_ms'', ''poll_interval_ms'']),
                  tc_capture_lines = opt_get_or DEFAULT_CAPTURE_LINES
                    (meta_u64 meta [''tmux_capture_lines'', ''capture_lines'']),
                  tc_working_dir = None \<rparr>)))))"

subsection \<open>Texts of a pane\<close>

text \<open>Some window of the bytes is the needle but for the case of ASCII letters.\<close>

fun contains_case_insensitive :: "string \<Rightarrow> string \<Rightarrow> bool" where
  "contains_case_insensitive [] needle = False"
| "contains_case_insensitive (c # cs) needle =
     (needle \<noteq> [] \<and> (length needle \<le> length (c # cs)
        \<and> eq_ignore_ascii_case (take (length needle) (c # cs)) needle
      \<or> contains_case_insensitive cs needle))"

definition first_matching_pattern :: "string \<Rightarrow> string list \<Rightarrow> string option" where
  "first_matching_pattern haystack patterns = List.find (contains_case_insensitive haystack) patterns"

definition one_line_tail :: "string \<Rightarrow> nat \<Rightarrow> string" where
  "one_line_tail t limit =
     trim (last_chars limit (replace_char (CHR 0x0D) (CHR '' '') (replace_char (CHR 0x0A) (CHR '' '') t)))"

definition append_line_to :: "string \<Rightarrow> string \<Rightarrow> string" where
  "append_line_to t line =
     (let out = trim_end_char (CHR 0x0A) t in (if out = [] then [] else out @ [CHR 0x0A]) @ line)"

definition pane_command_name :: "string \<Rightarrow> string" where
  "pane_command_name command =
     (let c = trim_start_char (CHR ''-'') (trim command) in opt_get_or c (file_name c))"

definition is_idle_shell_command :: "string \<Rightarrow> bool" where
  "is_idle_shell_command command \<longleftrightarrow> pane_command_name command \<in> {''bash'', ''zsh'', ''fish'', ''sh''}"

definition window_id_from_target :: "string \<Rightarrow> string option" where
  "window_id_from_target target = opt_filter is_window_id (Some (trim (hd (split_on (CHR ''.'') target))))"

subsection \<open>What the runner does\<close>

datatype tmux_act =
    Ran "string list" "string option"
  | Slept nat
  | Waited string nat
  | Checked string
  | MadeDir string
  | Removed string
  | ReadFile string
  | Opened string
  | Appended string string
  | Warned string

record tmux_world =
  tw_now :: nat
  tw_acts :: "tmux_act list"

datatype tmux_reply =
    Finished "int option" string string
  | NotStarted string
  | StdinClosed string

text \<open>
  The outside: a command's reply, when the wait for a signal that goes on for at most so long ends
  and how, the errors of file operations, files, the wall clock and the environment.
\<close>

record tmux_host =
  th_reply :: "tmux_world \<Rightarrow> string list \<Rightarrow> string option \<Rightarrow> tmux_reply"
  th_waited :: "tmux_world \<Rightarrow> string \<Rightarrow> nat \<Rightarrow> (nat \<times> tmux_reply) option"
  th_took :: "tmux_world \<Rightarrow> tmux_act \<Rightarrow> nat"
  th_fault :: "tmux_world \<Rightarrow> tmux_act \<Rightarrow> string option"
  th_exists :: "tmux_world \<Rightarrow> string \<Rightarrow> bool"
  th_contents :: "tmux_world \<Rightarrow> string \<Rightarrow> string"
  th_millis :: "tmux_world \<Rightarrow> nat"
  th_env :: "string \<Rightarrow> string option"
  th_lossy :: "string \<Rightarrow> string"
  th_seconds :: "nat \<Rightarrow> f64"
  th_redactor :: redactor

type_synonym 'a tmux = "tmux_world \<Rightarrow> (tmux_error + 'a) \<times> tmux_world"

text \<open>The \<open>?\<close> operator, and the handling of an error as a value.\<close>

definition tbind :: "'a tmux \<Rightarrow> ('a \<Rightarrow> 'b tmux) \<Rightarrow> 'b tmux" where
  "tbind m k w = (case m w of (Inl e, w') \<Rightarrow> (Inl e, w') | (Inr a, w') \<Rightarrow> k a w')"

definition tret :: "'a \<Rightarrow> 'a tmux" where
  "tret a w = (Inr a, w)"

definition tfail :: "tmux_error \<Rightarrow> 'a tmux" where
  "tfail e w = (Inl e, w)"

definition attempt :: "'a tmux \<Rightarrow> ((tmux_error + 'a) \<Rightarrow> 'b tmux) \<Rightarrow> 'b tmux" where
  "attempt m k w = (case m w of (r, w') \<Rightarrow> k r w')"

definition ignored :: "'a tmux \<Rightarrow> unit tmux" where
  "ignored m w = (Inr (), snd (m w))"

fun act_length :: "tmux_act \<Rightarrow> nat" where
  "act_length (Slept d) = d"
| "act_length (Waited _ d) = d"
| "act_length _ = 0"

definition did :: "tmux_host \<Rightarrow> tmux_act \<Rightarrow> tmux_world \<Rightarrow> tmux_world" where
  "did H a w = \<lparr> tw_now = Suc (tw_now w + act_length a + th_took H w a), tw_acts = tw_acts w @ [a] \<rparr>"

definition sleep :: "tmux_host \<Rightarrow> nat \<Rightarrow> unit tmux" where
  "sleep H d w = (Inr (), did H (Slept d) w)"

text \<open>The two clocks: \<open>Instant::now\<close>, and the milliseconds of \<open>now_millis\<close>.\<close>

definition instant :: "nat tmux" where
  "instant w = (Inr (tw_now w), w)"

definition now_millis :: "tmux_host \<Rightarrow> nat tmux" where
  "now_millis H w = (Inr (th_millis H w), w)"

text \<open>A file operation with the context of its error.\<close>

definition file_op :: "tmux_host \<Rightarrow> string \<Rightarrow> tmux_act \<Rightarrow> unit tmux" where
  "file_op H context a w =
     (case th_fault H w a of
        Some e \<Rightarrow> (Inl (TmuxIo (context @ '': '' @ e)), did H a w)
      | None \<Rightarrow> (Inr (), did H a w))"

subsubsection \<open>Commands\<close>

definition command_failed :: "tmux_host \<Rightarrow> string list \<Rightarrow> int option \<Rightarrow> string \<Rightarrow> tmux_error" where
  "command_failed H args code err =
     TmuxCommandFailed (join_str '' '' args) (case code of Some c \<Rightarrow> show_int c | None \<Rightarrow> ''signal'')
       (one_line_tail (th_lossy H err) 500)"

definition checked_reply :: "tmux_host \<Rightarrow> string \<Rightarrow> string list \<Rightarrow> tmux_reply \<Rightarrow> tmux_error + string" where
  "checked_reply H bin args r =
     (case r of
        Finished code out err \<Rightarrow>
          (if code = Some 0 then Inr (th_lossy H out) else Inl (command_failed H args code err))
      | NotStarted reason \<Rightarrow> Inl (TmuxStart bin reason)
      | StdinClosed reason \<Rightarrow> Inl (TmuxIo (''write tmux stdin: '' @ reason)))"

definition tmux_output :: "tmux_host \<Rightarrow> string \<Rightarrow> string list \<Rightarrow> string tmux" where
  "tmux_output H bin args w = (checked_reply H bin args (th_reply H w args None), did H (Ran args None) w)"

definition tmux_status :: "tmux_host \<Rightarrow> string \<Rightarrow> string list \<Rightarrow> unit tmux" where
  "tmux_status H bin args = tbind (tmux_output H bin args) (\<lambda>_. tret ())"

definition tmux_status_with_stdin :: "tmux_host \<Rightarrow> string \<Rightarrow> string list \<Rightarrow> string \<Rightarrow> unit tmux" where
  "tmux_status_with_stdin H bin args input w =
     (bindr (checked_reply H bin args (th_reply H w args (Some input))) (\<lambda>_. Inr ()),
      did H (Ran args (Some input)) w)"

text \<open>A command that fails is as good as one that succeeds, as long as it starts.\<close>

definition tmux_status_allow_failure :: "tmux_host \<Rightarrow> string \<Rightarrow> string list \<Rightarrow> unit tmux" where
  "tmux_status_allow_failure H bin args w =
     (case th_reply H w args None of
        NotStarted reason \<Rightarrow> (Inl (TmuxStart bin reason), did H (Ran args None) w)
      | _ \<Rightarrow> (Inr (), did H (Ran args None) w))"

definition capture_args :: "string \<Rightarrow> u64 \<Rightarrow> string list" where
  "capture_args target lines =
     [''capture-pane'', ''-p'', ''-J'', ''-S'', (''-'' @ (show_u64 lines)), ''-t'', target]"

definition capture_pane :: "tmux_host \<Rightarrow> string \<Rightarrow> string \<Rightarrow> u64 \<Rightarrow> string tmux" where
  "capture_pane H bin target lines = tmux_output H bin (capture_args target lines)"

subsection \<open>The pane of a dispatch\<close>

record tmux_anchor =
  an_session :: string
  an_window_id :: "string option"
  an_pane_id :: "string option"

definition env_set :: "tmux_host \<Rightarrow> string \<Rightarrow> string option" where
  "env_set H k = opt_filter (\<lambda>v. trim v \<noteq> []) (th_env H k)"

definition anchor_from_client :: "tmux_host \<Rightarrow> string \<Rightarrow> tmux_anchor option tmux" where
  "anchor_from_client H bin =
     (if env_set H ''TMUX'' = None then tret None
      else attempt (tmux_output H bin [''display-message'', ''-p'', ''#{session_name}'']) (\<lambda>r.
        tret (case r of
            Inl _ \<Rightarrow> None
          | Inr out \<Rightarrow>
              (if trim out = [] then None
               else Some \<lparr> an_session = trim out, an_window_id = None, an_pane_id = None \<rparr>))))"

definition anchor_of_line :: "string \<Rightarrow> string \<Rightarrow> tmux_anchor option" where
  "anchor_of_line pane out =
     (let line = trim out;
          (session, window) = opt_get_or (line, []) (split_once [CHR 0x09] line);
          w = trim window
      in if trim session = [] then None
         else Some \<lparr> an_session = trim session, an_window_id = (if prefix ''@'' w then Some w else None),
                     an_pane_id = Some pane \<rparr>)"

definition current_anchor :: "tmux_host \<Rightarrow> string \<Rightarrow> tmux_anchor option tmux" where
  "current_anchor H bin =
     (case env_set H ''TMUX_PANE'' of
        None \<Rightarrow> anchor_from_client H bin
      | Some pane \<Rightarrow>
          attempt (tmux_output H bin
                     [''display-message'', ''-p'', ''-t'', pane, ''#{session_name}'' @ [CHR 0x09] @ ''#{window_id}''])
            (\<lambda>r. case r of
                Inl _ \<Rightarrow> anchor_from_client H bin
              | Inr out \<Rightarrow> tret (anchor_of_line pane out)))"

definition new_window_in_session ::
    "tmux_host \<Rightarrow> tmux_config \<Rightarrow> string option \<Rightarrow> string option \<Rightarrow> string tmux" where
  "new_window_in_session H c target insert_after =
     tbind (tmux_output H (tc_bin c)
              ([''new-window'', ''-P'', ''-F'', ''#{window_id}.#{pane_index}'', ''-n'', tc_window_name c]
               @ (case insert_after of
                    Some w \<Rightarrow> [''-a'', ''-t'', w]
                  | None \<Rightarrow> (case target of Some t \<Rightarrow> [''-t'', t] | None \<Rightarrow> []))))
       (\<lambda>out. tret (trim out))"

definition new_window_at_anchor :: "tmux_host \<Rightarrow> tmux_config \<Rightarrow> tmux_anchor \<Rightarrow> string tmux" where
  "new_window_at_anchor H c a = new_window_in_session H c (Some (an_session a)) (an_window_id a)"

definition current_pane_command :: "tmux_host \<Rightarrow> tmux_config \<Rightarrow> string \<Rightarrow> string tmux" where
  "current_pane_command H c target =
     tmux_output H (tc_bin c) [''display-message'', ''-p'', ''-t'', target, ''#{pane_current_command}'']"

definition busy_target :: "string \<Rightarrow> string \<Rightarrow> tmux_error" where
  "busy_target target command =
     TmuxConfig (''target pane busy: '' @ target @ '' is running '' @ (str_debug (pane_command_name command)) @ ''; retry without --target and with --new-window'')"

definition ensure_target_is_idle_shell :: "tmux_host \<Rightarrow> tmux_config \<Rightarrow> string \<Rightarrow> unit tmux" where
  "ensure_target_is_idle_shell H c target =
     tbind (current_pane_command H c target) (\<lambda>command.
       if is_idle_shell_command command then tret () else tfail (busy_target target command))"

definition busy_candidate_warning :: "string \<Rightarrow> string \<Rightarrow> string" where
  "busy_candidate_warning target command =
     (''WARN dispatch-goal: current candidate pane '' @ target @ '' is busy (running '' @ (str_debug (pane_command_name command)) @ ''); automatically using --new-window'')"

definition warn :: "tmux_host \<Rightarrow> string \<Rightarrow> unit tmux" where
  "warn H message w = (Inr (), did H (Warned message) w)"

definition prepare_default_target :: "tmux_host \<Rightarrow> tmux_config \<Rightarrow> tmux_anchor \<Rightarrow> string tmux" where
  "prepare_default_target H c a =
     (case an_pane_id a of
        None \<Rightarrow> new_window_at_anchor H c a
      | Some pane \<Rightarrow>
          tbind (current_pane_command H c pane) (\<lambda>command.
            if is_idle_shell_command command then tret pane
            else tbind (warn H (busy_candidate_warning pane command)) (\<lambda>_. new_window_at_anchor H c a)))"

definition new_session_args :: "string \<Rightarrow> string \<Rightarrow> string list" where
  "new_session_args session name =
     [''new-session'', ''-d'', ''-s'', session, ''-n'', name, ''-P'', ''-F'', ''#{window_id}.#{pane_index}'']"

text \<open>Inside of tmux a session that is asked for becomes a window next to the host; a session that
  exists gets a window.\<close>

definition prepare_new_session :: "tmux_host \<Rightarrow> tmux_config \<Rightarrow> string tmux" where
  "prepare_new_session H c =
     tbind (current_anchor H (tc_bin c)) (\<lambda>anchor.
       case anchor of
         Some a \<Rightarrow> new_window_at_anchor H c a
       | None \<Rightarrow>
           (case tc_session c of
              None \<Rightarrow> tfail (TmuxConfig ''tmux_new_session requires tmux_session'')
            | Some session \<Rightarrow>
                attempt (tmux_output H (tc_bin c) (new_session_args session (tc_window_name c))) (\<lambda>r.
                  case r of
                    Inr out \<Rightarrow> tret (trim out)
                  | Inl e \<Rightarrow>
                      (case e of
                         TmuxCommandFailed _ _ err \<Rightarrow>
                           (if contains_case_insensitive err ''duplicate session''
                            then new_window_in_session H c (Some session) None else tfail e)
                       | _ \<Rightarrow> tfail e))))"

definition prepare_new_window :: "tmux_host \<Rightarrow> tmux_config \<Rightarrow> string tmux" where
  "prepare_new_window H c =
     (case opt_or (tc_target c) (tc_session c) of
        Some t \<Rightarrow> new_window_in_session H c (Some t) None
      | None \<Rightarrow>
          tbind (current_anchor H (tc_bin c)) (\<lambda>anchor.
            case anchor of
              Some a \<Rightarrow> new_window_at_anchor H c a
            | None \<Rightarrow> new_window_in_session H c None None))"

definition prepare_target :: "tmux_host \<Rightarrow> tmux_config \<Rightarrow> string tmux" where
  "prepare_target H c =
     (if tc_new_session c then prepare_new_session H c
      else if tc_new_window c then prepare_new_window H c
      else case tc_target c of
        Some t \<Rightarrow>
          (if ds_reject_busy_target (tc_safety c)
           then tbind (ensure_target_is_idle_shell H c t) (\<lambda>_. tret t) else tret t)
      | None \<Rightarrow>
          tbind (current_anchor H (tc_bin c)) (\<lambda>anchor.
            case anchor of
              Some a \<Rightarrow> prepare_default_target H c a
            | None \<Rightarrow> tfail (TmuxConfig ''tmux target required; pass tmux_target, tmux_session+tmux_new_window, or tmux_session+tmux_new_session'')))"

subsection \<open>Waiting for the pane\<close>

definition ms :: "nat \<Rightarrow> nat" where
  "ms n = n * 1000000"

definition secs :: "nat \<Rightarrow> nat" where
  "secs n = n * 1000000000"

definition capture_of :: "tmux_host \<Rightarrow> tmux_config \<Rightarrow> string \<Rightarrow> string tmux" where
  "capture_of H c target = capture_pane H (tc_bin c) target (tc_capture_lines c)"

definition send_key :: "tmux_host \<Rightarrow> tmux_config \<Rightarrow> string \<Rightarrow> string \<Rightarrow> unit tmux" where
  "send_key H c target key = tmux_status H (tc_bin c) [''send-keys'', ''-t'', target, key]"

text \<open>The keys that dismiss the prompts of a capture, each pattern's once: the patterns answered
  before are given, those answered since are returned with whether there was one.\<close>

fun apply_skips ::
    "tmux_host \<Rightarrow> tmux_config \<Rightarrow> string \<Rightarrow> string \<Rightarrow> skip_prompt list \<Rightarrow> string list \<Rightarrow> bool
     \<Rightarrow> (bool \<times> string list) tmux" where
  "apply_skips H c target capture [] skipped applied = tret (applied, skipped)"
| "apply_skips H c target capture (s # ss) skipped applied =
     (if contains_case_insensitive capture (sp_pattern s) \<and> sp_pattern s \<notin> set skipped
      then tbind (send_key H c target (sp_key s))
             (\<lambda>_. apply_skips H c target capture ss (sp_pattern s # skipped) True)
      else apply_skips H c target capture ss skipped applied)"

definition apply_skip_prompts ::
    "tmux_host \<Rightarrow> tmux_config \<Rightarrow> string \<Rightarrow> string \<Rightarrow> string list \<Rightarrow> (bool \<times> string list) tmux" where
  "apply_skip_prompts H c target capture skipped =
     apply_skips H c target capture (tc_skip_prompts c) skipped False"

definition not_in_time :: "tmux_config \<Rightarrow> string \<Rightarrow> string \<Rightarrow> string \<Rightarrow> tmux_error" where
  "not_in_time c target what capture =
     TmuxTimeout (''tmux target '' @ target @ '' did not '' @ what @ '' within '' @ (show_u64 (tc_ready_timeout c)) @ ''s; last capture: '' @ (one_line_tail capture 500))"

definition blocked_on_prompt :: "tmux_config \<Rightarrow> string \<Rightarrow> string \<Rightarrow> tmux_error" where
  "blocked_on_prompt c target pattern =
     TmuxConfig ((opt_get_or ''runner is blocked on an interactive prompt'' (ds_blocked_prompt_hint (tc_safety c))) @ '' in '' @ target @ '' (matched '' @ (str_debug pattern) @ ''); resolve it in tmux, then re-dispatch with --target '' @ target)"

definition poll_of :: "tmux_config \<Rightarrow> nat" where
  "poll_of c = ms (unat (tc_poll_interval c))"

definition ready_deadline :: "tmux_config \<Rightarrow> nat \<Rightarrow> nat" where
  "ready_deadline c start = start + secs (unat (tc_ready_timeout c))"

text \<open>
  What a round of a wait comes to: it is over, or it goes on from a state. A wait is its rounds until
  one is over, or fails; one that never ends is \<open>None\<close>.
\<close>

datatype ('s, 'a) turn = Over 'a | Again 's

type_synonym 'a waiting = "tmux_world \<Rightarrow> ((tmux_error + 'a) \<times> tmux_world) option"

partial_function (option) spin :: "('s \<Rightarrow> ('s, 'a) turn tmux) \<Rightarrow> 's \<Rightarrow> 'a waiting" where
  "spin body s w =
     (case body s w of
        (Inl e, w') \<Rightarrow> Some (Inl e, w')
      | (Inr (Over a), w') \<Rightarrow> Some (Inr a, w')
      | (Inr (Again s'), w') \<Rightarrow> spin body s' w')"

definition wbind :: "'a waiting \<Rightarrow> ('a \<Rightarrow> 'b waiting) \<Rightarrow> 'b waiting" where
  "wbind m k w =
     (case m w of
        None \<Rightarrow> None
      | Some (Inl e, w') \<Rightarrow> Some (Inl e, w')
      | Some (Inr a, w') \<Rightarrow> k a w')"

definition waiting :: "'a tmux \<Rightarrow> 'a waiting" where
  "waiting m w = Some (m w)"

definition ready_round ::
    "tmux_host \<Rightarrow> tmux_config \<Rightarrow> string \<Rightarrow> nat \<Rightarrow> string list \<Rightarrow> (string list, unit) turn tmux" where
  "ready_round H c target deadline skipped =
     tbind (capture_of H c target) (\<lambda>capture.
       case first_matching_pattern capture (ds_blocked_patterns (tc_safety c)) of
         Some p \<Rightarrow> tfail (blocked_on_prompt c target p)
       | None \<Rightarrow>
           tbind (apply_skip_prompts H c target capture skipped) (\<lambda>(applied, skipped').
             if applied then tbind (sleep H (poll_of c)) (\<lambda>_. tret (Again skipped'))
             else if first_matching_pattern capture (tc_ready_patterns c) \<noteq> None then tret (Over ())
             else tbind instant (\<lambda>now.
               if deadline \<le> now then tfail (not_in_time c target ''become ready'' capture)
               else tbind (sleep H (poll_of c)) (\<lambda>_. tret (Again skipped')))))"

definition stable_round ::
    "tmux_host \<Rightarrow> tmux_config \<Rightarrow> string \<Rightarrow> nat \<Rightarrow> string option \<times> string list
     \<Rightarrow> (string option \<times> string list, unit) turn tmux" where
  "stable_round H c target deadline = (\<lambda>(previous, skipped).
     tbind (capture_of H c target) (\<lambda>capture.
     tbind (apply_skip_prompts H c target capture skipped) (\<lambda>(applied, skipped').
       if applied then tbind (sleep H (poll_of c)) (\<lambda>_. tret (Again (None, skipped')))
       else if trim capture \<noteq> [] \<and> previous = Some (trim capture) then tret (Over ())
       else tbind instant (\<lambda>now.
         if deadline \<le> now then tfail (not_in_time c target ''produce stable ready output'' capture)
         else tbind (sleep H (poll_of c)) (\<lambda>_. tret (Again (Some (trim capture), skipped')))))))"

definition wait_until_ready :: "tmux_host \<Rightarrow> tmux_config \<Rightarrow> string \<Rightarrow> unit waiting" where
  "wait_until_ready H c target =
     wbind (waiting instant) (\<lambda>start.
       if tc_ready_patterns c = [] then spin (stable_round H c target (ready_deadline c start)) (None, [])
       else spin (ready_round H c target (ready_deadline c start)) [])"

text \<open>The two waits of the goal dispatch: the probe in the input box, and the confirmation.\<close>

definition probe_round ::
    "tmux_host \<Rightarrow> tmux_config \<Rightarrow> string \<Rightarrow> string \<Rightarrow> nat \<Rightarrow> unit \<Rightarrow> (unit, string) turn tmux" where
  "probe_round H c target probe deadline _ =
     tbind (sleep H (ms 150)) (\<lambda>_.
     tbind (capture_of H c target) (\<lambda>capture.
       if contains_str probe capture then tret (Over capture)
       else tbind instant (\<lambda>now.
         if deadline \<le> now
         then tfail (TmuxConfig (''probe did not appear in target '' @ target @ ''; prompt may not be in the TUI input box''))
         else tret (Again ()))))"

definition confirm_tui_input :: "tmux_host \<Rightarrow> tmux_config \<Rightarrow> string \<Rightarrow> string \<Rightarrow> string waiting" where
  "confirm_tui_input H c target probe =
     wbind (waiting (tmux_status H (tc_bin c) [''send-keys'', ''-l'', ''-t'', target, probe])) (\<lambda>_.
     wbind (waiting instant) (\<lambda>start.
     wbind (spin (probe_round H c target probe (start + secs 10)) ()) (\<lambda>capture.
     waiting (tbind (send_key H c target ''C-u'') (\<lambda>_. tret capture)))))"

definition pattern_round ::
    "tmux_host \<Rightarrow> tmux_config \<Rightarrow> string \<Rightarrow> string list \<Rightarrow> nat \<Rightarrow> unit \<Rightarrow> (unit, string) turn tmux" where
  "pattern_round H c target patterns deadline _ =
     tbind (capture_of H c target) (\<lambda>capture.
       if patterns = [] \<or> first_matching_pattern capture patterns \<noteq> None then tret (Over capture)
       else tbind instant (\<lambda>now.
         if deadline \<le> now
         then tfail (TmuxTimeout (''tmux target '' @ target @ '' did not show dispatch confirmation within '' @ (show_u64 (tc_ready_timeout c)) @ ''s; last capture: '' @ (one_line_tail capture 500)))
         else tbind (sleep H (poll_of c)) (\<lambda>_. tret (Again ()))))"

definition wait_for_capture_patterns ::
    "tmux_host \<Rightarrow> tmux_config \<Rightarrow> string \<Rightarrow> string list \<Rightarrow> string waiting" where
  "wait_for_capture_patterns H c target patterns =
     wbind (waiting instant) (\<lambda>start. spin (pattern_round H c target patterns (ready_deadline c start)) ())"

subsection \<open>The prompt and its completion\<close>

definition parent_dir :: "string \<Rightarrow> string option" where
  "parent_dir p =
     (let q = strip_seps (length p) p; d = take (length q - length (last (split_on (CHR ''/'') q))) q
      in if q = [] \<or> q = ''/'' then None else Some (strip_seps (length d) d))"

definition make_parent :: "tmux_host \<Rightarrow> string \<Rightarrow> string \<Rightarrow> unit tmux" where
  "make_parent H context p =
     (case parent_dir p of None \<Rightarrow> tret () | Some d \<Rightarrow> file_op H context (MadeDir d))"

definition append_live_snapshot ::
    "tmux_host \<Rightarrow> string option \<Rightarrow> string \<Rightarrow> string \<Rightarrow> string \<Rightarrow> unit tmux" where
  "append_live_snapshot H path label target capture =
     (case path of
        None \<Rightarrow> tret ()
      | Some p \<Rightarrow>
          tbind (make_parent H ''create live log dir'' p) (\<lambda>_.
          tbind (file_op H ''open live log'' (Opened p)) (\<lambda>_.
          tbind (now_millis H) (\<lambda>now.
          tbind (file_op H ''write live log header''
            (Appended p ([CHR 0x0A] @ ''--- tmux '' @ label @ '' target='' @ target @ '' at='' @ (show_nat now) @ '' ---'' @ [CHR 0x0A]))) (\<lambda>_.
          tbind (file_op H ''write live log capture''
            (Appended p (redact_secrets_and_paths (th_redactor H) capture))) (\<lambda>_.
          file_op H ''write live log newline'' (Appended p [CHR 0x0A])))))))"

definition log_snapshot ::
    "tmux_host \<Rightarrow> string option \<Rightarrow> string \<Rightarrow> string \<Rightarrow> string \<Rightarrow> unit tmux" where
  "log_snapshot H path label target capture = ignored (append_live_snapshot H path label target capture)"

definition SEND_ENTER_DELAY_MS :: nat where
  "SEND_ENTER_DELAY_MS = 100"

definition send_text :: "tmux_host \<Rightarrow> tmux_config \<Rightarrow> string \<Rightarrow> string \<Rightarrow> unit tmux" where
  "send_text H c target t =
     tbind (ignored (tmux_status_allow_failure H (tc_bin c) [''send-keys'', ''-t'', target, ''-X'', ''cancel''])) (\<lambda>_.
     tbind (send_key H c target ''C-u'') (\<lambda>_.
     tbind (now_millis H) (\<lambda>now.
     let buffer = sanitize_signal (''lto-paste-'' @ target @ ''-'' @ (show_nat now)) in
     tbind (tmux_status_with_stdin H (tc_bin c) [''load-buffer'', ''-b'', buffer, ''-''] t) (\<lambda>_.
     tbind (tmux_status H (tc_bin c) [''paste-buffer'', ''-d'', ''-b'', buffer, ''-t'', target]) (\<lambda>_.
     tbind (sleep H (ms SEND_ENTER_DELAY_MS)) (\<lambda>_.
     send_key H c target ''Enter''))))))"

record dispatch_summary =
  sm_target :: string
  sm_mode :: tmux_mode
  sm_capture :: string
  sm_signal_name :: "string option"
  sm_sentinel_path :: "string option"

definition snapshot_interval :: "tmux_config \<Rightarrow> nat" where
  "snapshot_interval c = (if secs 5 < poll_of c then poll_of c else secs 5)"

text \<open>A capture that fails is an empty one.\<close>

definition capture_or_empty :: "tmux_host \<Rightarrow> tmux_config \<Rightarrow> string \<Rightarrow> string tmux" where
  "capture_or_empty H c target =
     attempt (capture_of H c target) (\<lambda>r. tret (case r of Inr t \<Rightarrow> t | Inl _ \<Rightarrow> []))"

definition gave_up ::
    "tmux_host \<Rightarrow> tmux_config \<Rightarrow> string \<Rightarrow> string option \<Rightarrow> string \<Rightarrow> string \<Rightarrow> 'a tmux" where
  "gave_up H c target live mode what =
     tbind (capture_or_empty H c target) (\<lambda>capture.
     tbind (log_snapshot H live ''timeout'' target capture) (\<lambda>_.
     tfail (TmuxTimeout (''tmux '' @ mode @ '' mode timed out waiting for '' @ what @ ''; last capture: '' @ (one_line_tail capture 500)))))"

definition look :: "tmux_host \<Rightarrow> tmux_config \<Rightarrow> string \<Rightarrow> string option \<Rightarrow> string list \<Rightarrow> string list tmux" where
  "look H c target live skipped =
     tbind (capture_of H c target) (\<lambda>capture.
     tbind (apply_skip_prompts H c target capture skipped) (\<lambda>(_, skipped').
     tbind (log_snapshot H live ''running'' target capture) (\<lambda>_. tret skipped')))"

definition signal_over ::
    "tmux_host \<Rightarrow> tmux_config \<Rightarrow> string \<Rightarrow> string option \<Rightarrow> tmux_reply \<Rightarrow> dispatch_summary tmux" where
  "signal_over H c target live reply =
     (case checked_reply H (tc_bin c) [''wait-for'', tc_signal_name c] reply of
        Inl e \<Rightarrow> tfail e
      | Inr _ \<Rightarrow>
          tbind (capture_of H c target) (\<lambda>capture.
          tbind (log_snapshot H live ''finished'' target capture) (\<lambda>_.
          tret \<lparr> sm_target = target, sm_mode = Signal, sm_capture = capture,
                 sm_signal_name = Some (tc_signal_name c), sm_sentinel_path = None \<rparr>)))"

definition signal_round ::
    "tmux_host \<Rightarrow> tmux_config \<Rightarrow> string \<Rightarrow> string option \<Rightarrow> nat \<Rightarrow> string list
     \<Rightarrow> (string list, dispatch_summary) turn tmux" where
  "signal_round H c target live deadline skipped w =
     (if deadline \<le> tw_now w then gave_up H c target live ''signal'' (tc_signal_name c) w
      else case th_waited H w (tc_signal_name c) (snapshot_interval c) of
        Some (t, reply) \<Rightarrow>
          tbind (signal_over H c target live reply) (\<lambda>s. tret (Over s))
            (did H (Waited (tc_signal_name c) (min t (snapshot_interval c))) w)
      | None \<Rightarrow>
          tbind (look H c target live skipped) (\<lambda>skipped'. tret (Again skipped'))
            (did H (Waited (tc_signal_name c) (snapshot_interval c)) w))"

definition run_signal ::
    "tmux_host \<Rightarrow> tmux_config \<Rightarrow> string \<Rightarrow> string \<Rightarrow> u64 \<Rightarrow> string option \<Rightarrow> dispatch_summary waiting" where
  "run_signal H c target prompt timeout_sec live =
     wbind (waiting (send_text H c target (append_line_to prompt (''tmux wait-for -S '' @ (tc_signal_name c))))) (\<lambda>_.
     wbind (waiting instant) (\<lambda>start.
     spin (signal_round H c target live (start + secs (unat timeout_sec))) []))"

definition exists_now :: "tmux_host \<Rightarrow> string \<Rightarrow> bool tmux" where
  "exists_now H p w = (Inr (th_exists H w p), did H (Checked p) w)"

text \<open>A few attempts, the last error is reported.\<close>

fun read_tries :: "tmux_host \<Rightarrow> nat \<Rightarrow> string option \<Rightarrow> string \<Rightarrow> string tmux" where
  "read_tries H 0 err p = tfail (TmuxIo (''read sentinel: '' @ (opt_get_or ''unknown read error'' err)))"
| "read_tries H (Suc n) err p =
     (\<lambda>w. case th_fault H w (ReadFile p) of
            None \<Rightarrow> (Inr (th_contents H w p), did H (ReadFile p) w)
          | Some e \<Rightarrow> tbind (sleep H (ms 10)) (\<lambda>_. read_tries H n (Some e) p) (did H (ReadFile p) w))"

definition read_sentinel_text :: "tmux_host \<Rightarrow> string \<Rightarrow> string tmux" where
  "read_sentinel_text H p = read_tries H 3 None p"

text \<open>What the agent wrote is the reply, the pane only when that is blank.\<close>

definition sentinel_over ::
    "tmux_host \<Rightarrow> tmux_config \<Rightarrow> string \<Rightarrow> string option \<Rightarrow> string \<Rightarrow> dispatch_summary tmux" where
  "sentinel_over H c target live sentinel =
     tbind (read_sentinel_text H sentinel) (\<lambda>t.
     tbind (attempt (capture_of H c target) (\<lambda>r.
        case r of
          Inl e \<Rightarrow> if trim t = [] then tfail e else tret []
        | Inr capture \<Rightarrow> tret capture)) (\<lambda>capture.
     tbind (log_snapshot H live ''finished'' target capture) (\<lambda>_.
     tret \<lparr> sm_target = target, sm_mode = Sentinel,
            sm_capture = (if trim t = [] then capture else t),
            sm_signal_name = None, sm_sentinel_path = Some sentinel \<rparr>)))"

definition sentinel_round ::
    "tmux_host \<Rightarrow> tmux_config \<Rightarrow> string \<Rightarrow> string option \<Rightarrow> string \<Rightarrow> nat \<Rightarrow> nat \<times> string list
     \<Rightarrow> (nat \<times> string list, dispatch_summary) turn tmux" where
  "sentinel_round H c target live sentinel deadline = (\<lambda>(next_snapshot, skipped).
     tbind (exists_now H sentinel) (\<lambda>found.
       if found then tbind (sentinel_over H c target live sentinel) (\<lambda>s. tret (Over s))
       else tbind instant (\<lambda>now.
         if deadline \<le> now then gave_up H c target live ''sentinel'' sentinel
         else tbind (if next_snapshot \<le> now
                     then tbind (look H c target live skipped)
                            (\<lambda>skipped'. tbind instant (\<lambda>t. tret (t + snapshot_interval c, skipped')))
                     else tret (next_snapshot, skipped))
                (\<lambda>s. tbind (sleep H (poll_of c)) (\<lambda>_. tret (Again s))))))"

definition sentinel_body :: "string \<Rightarrow> string \<Rightarrow> string" where
  "sentinel_body prompt sentinel =
     append_line_to prompt
       ((''# LTO sentinel marker: interactive agents should run the next command only after finishing the requested work.'' @ [CHR 0x0A] @ ''printf '' @ [CHR 0x27] @ ''%s'') @ [CHR 0x5C] @ (''n'' @ [CHR 0x27] @ '' done > '') @ shell_single_quote sentinel)"

definition run_sentinel ::
    "tmux_host \<Rightarrow> tmux_config \<Rightarrow> string \<Rightarrow> string \<Rightarrow> u64 \<Rightarrow> string option \<Rightarrow> dispatch_summary waiting" where
  "run_sentinel H c target prompt timeout_sec live =
     (case tc_sentinel_path c of
        None \<Rightarrow> waiting (tfail (TmuxConfig ''tmux sentinel mode requires sentinel_path''))
      | Some sentinel \<Rightarrow>
          wbind (waiting (
            tbind (make_parent H ''create sentinel dir'' sentinel) (\<lambda>_.
            tbind (ignored (file_op H [] (Removed sentinel))) (\<lambda>_.
            send_text H c target (sentinel_body prompt sentinel))))) (\<lambda>_.
          wbind (waiting instant) (\<lambda>start.
          spin (sentinel_round H c target live sentinel (start + secs (unat timeout_sec))) (start, []))))"

definition run_fire ::
    "tmux_host \<Rightarrow> tmux_config \<Rightarrow> string \<Rightarrow> string \<Rightarrow> string option \<Rightarrow> dispatch_summary tmux" where
  "run_fire H c target prompt live =
     tbind (send_text H c target prompt) (\<lambda>_.
     tbind (capture_or_empty H c target) (\<lambda>capture.
     tbind (log_snapshot H live ''sent'' target capture) (\<lambda>_.
     tret \<lparr> sm_target = target, sm_mode = Fire, sm_capture = [], sm_signal_name = None,
            sm_sentinel_path = None \<rparr>)))"

definition dispatch_by_mode ::
    "tmux_host \<Rightarrow> tmux_config \<Rightarrow> string \<Rightarrow> string \<Rightarrow> u64 \<Rightarrow> string option \<Rightarrow> dispatch_summary waiting" where
  "dispatch_by_mode H c target prompt timeout_sec live =
     (case tc_mode c of
        Signal \<Rightarrow> run_signal H c target prompt timeout_sec live
      | Sentinel \<Rightarrow> run_sentinel H c target prompt timeout_sec live
      | Fire \<Rightarrow> waiting (run_fire H c target prompt live))"

definition tmux_dispatch ::
    "tmux_host \<Rightarrow> tmux_config \<Rightarrow> string \<Rightarrow> u64 \<Rightarrow> string option \<Rightarrow> dispatch_summary waiting" where
  "tmux_dispatch H c prompt timeout_sec live =
     wbind (waiting (prepare_target H c)) (\<lambda>target.
     wbind (wait_until_ready H c target) (\<lambda>_.
     wbind (waiting (attempt (capture_of H c target) (\<lambda>r.
        case r of Inr t \<Rightarrow> log_snapshot H live ''ready'' target t | Inl _ \<Rightarrow> tret ()))) (\<lambda>_.
     dispatch_by_mode H c target prompt timeout_sec live)))"

subsection \<open>A job\<close>

definition outcome_of_summary :: "json \<Rightarrow> dispatch_summary \<Rightarrow> tmux_outcome" where
  "outcome_of_summary elapsed s =
     \<lparr> to_status = JobOk, to_exit_code = (if sm_mode s = Fire then None else Some 0),
       to_reply_text = sm_capture s, to_error = [],
       to_cost = bt_of_list (
         [(''elapsed_sec'', elapsed), (''tmux_target'', JStr (sm_target s)),
          (''tmux_mode'', JStr (tmux_mode_str (sm_mode s))), (''capture_bytes'', jnat (length (sm_capture s)))]
         @ (case sm_signal_name s of Some n \<Rightarrow> [(''tmux_signal'', JStr n)] | None \<Rightarrow> [])
         @ (if sm_mode s = Fire then [(''tmux_fire_and_forget'', JBool True)] else [])
         @ (case sm_sentinel_path s of Some p \<Rightarrow> [(''tmux_sentinel'', JStr p)] | None \<Rightarrow> [])),
       to_artifacts = (case sm_sentinel_path s of Some p \<Rightarrow> [(''sentinel:'' @ p)] | None \<Rightarrow> []) \<rparr>"

definition timed_out :: "json \<Rightarrow> string \<Rightarrow> tmux_outcome" where
  "timed_out elapsed err =
     \<lparr> to_status = JobTimeout, to_exit_code = Some 124, to_reply_text = [], to_error = err,
       to_cost = bt_of_list [(''elapsed_sec'', elapsed)], to_artifacts = [] \<rparr>"

definition outcome_of :: "json \<Rightarrow> tmux_error + dispatch_summary \<Rightarrow> tmux_error + tmux_outcome" where
  "outcome_of elapsed r =
     (case r of
        Inr s \<Rightarrow> Inr (outcome_of_summary elapsed s)
      | Inl (TmuxTimeout e) \<Rightarrow> Inr (timed_out elapsed e)
      | Inl e \<Rightarrow> Inl e)"

definition live_log_path :: "agent_job \<Rightarrow> string \<Rightarrow> string" where
  "live_log_path job repo =
     path_join (live_dir repo (job_run_id (aj_meta job))) ((aj_job_id job) @ ''.log'')"

definition tmux_run_job ::
    "tmux_host \<Rightarrow> string + string \<Rightarrow> string + string \<Rightarrow> agent_job \<Rightarrow> string
     \<Rightarrow> tmux_world \<Rightarrow> ((tmux_error + tmux_outcome) \<times> tmux_world) option" where
  "tmux_run_job H cwd prompt job repo w =
     (case prompt of
        Inl e \<Rightarrow> Some (Inl (TmuxIo (''read prompt: '' @ e)), w)
      | Inr t \<Rightarrow>
          (case config_of_job cwd (th_millis H w) job repo of
             Inl e \<Rightarrow> Some (Inl e, w)
           | Inr c \<Rightarrow>
               map_option
                 (\<lambda>(r, v). (outcome_of (JFloat (th_seconds H (tw_now v - tw_now w))) r, v))
                 (tmux_dispatch H c t (jb_timeout_sec (aj_budget job)) (Some (live_log_path job repo)) w)))"

subsection \<open>What computations do to the world\<close>

text \<open>The clock goes on and the actions are kept; each new one satisfies \<open>P\<close>.\<close>

definition world_extends :: "(tmux_act \<Rightarrow> bool) \<Rightarrow> tmux_world \<Rightarrow> tmux_world \<Rightarrow> bool" where
  "world_extends P w w' \<longleftrightarrow> tw_now w \<le> tw_now w' \<and> (\<exists>acts. tw_acts w' = tw_acts w @ acts \<and> list_all P acts)"

definition only :: "(tmux_act \<Rightarrow> bool) \<Rightarrow> 'a tmux \<Rightarrow> bool" where
  "only P m \<longleftrightarrow> (\<forall>w. world_extends P w (snd (m w)))"

definition wonly :: "(tmux_act \<Rightarrow> bool) \<Rightarrow> 'a waiting \<Rightarrow> bool" where
  "wonly P m \<longleftrightarrow> (\<forall>w r w'. m w = Some (r, w') \<longrightarrow> world_extends P w w')"

named_theorems tmux_only \<open>the actions of composed computations\<close>

lemma world_extends_refl [simp]: "world_extends P w w"
  by (simp add: world_extends_def)

lemma world_extends_trans: "world_extends P w v \<Longrightarrow> world_extends P v u \<Longrightarrow> world_extends P w u"
  by (fastforce simp: world_extends_def)

lemma world_extends_did [simp]: "world_extends P w (did H a w) \<longleftrightarrow> P a"
  by (auto simp: world_extends_def did_def)

lemma onlyD: "only P m \<Longrightarrow> m w = (r, w') \<Longrightarrow> world_extends P w w'"
  by (metis only_def snd_conv)

lemma only_clock: "only P m \<Longrightarrow> m w = (r, w') \<Longrightarrow> tw_now w \<le> tw_now w'"
  by (auto dest: onlyD simp: world_extends_def)

lemma wonlyD: "wonly P m \<Longrightarrow> m w = Some (r, w') \<Longrightarrow> world_extends P w w'"
  by (simp add: wonly_def)

lemma only_tbind [tmux_only]: "only P m \<Longrightarrow> (\<And>a. only P (k a)) \<Longrightarrow> only P (tbind m k)"
  unfolding only_def tbind_def
  by (auto split: prod.splits sum.splits) (metis world_extends_trans snd_conv)+

lemma only_attempt [tmux_only]: "only P m \<Longrightarrow> (\<And>r. only P (k r)) \<Longrightarrow> only P (attempt m k)"
  unfolding only_def attempt_def by (auto split: prod.splits) (metis world_extends_trans snd_conv)

lemma only_basic [tmux_only]: "only P (tret a)" "only P (tfail e)"
  "only P m \<Longrightarrow> only P (ignored m)"
  by (simp_all add: only_def tret_def tfail_def ignored_def)

lemma only_sleep [tmux_only]: "P (Slept d) \<Longrightarrow> only P (sleep H d)"
  by (simp add: only_def sleep_def)

lemma only_file_op [tmux_only]: "P a \<Longrightarrow> only P (file_op H context a)"
  by (simp add: only_def file_op_def split: option.splits)

lemma only_output [tmux_only]: "P (Ran args None) \<Longrightarrow> only P (tmux_output H bin args)"
  by (simp add: only_def tmux_output_def)

lemma only_status [tmux_only]: "P (Ran args None) \<Longrightarrow> only P (tmux_status H bin args)"
  by (simp add: tmux_status_def tmux_only)

lemma only_stdin [tmux_only]: "P (Ran args (Some t)) \<Longrightarrow> only P (tmux_status_with_stdin H bin args t)"
  by (simp add: only_def tmux_status_with_stdin_def)

lemma only_allow [tmux_only]: "P (Ran args None) \<Longrightarrow> only P (tmux_status_allow_failure H bin args)"
  by (simp add: only_def tmux_status_allow_failure_def split: tmux_reply.splits)

lemma only_clocks [tmux_only]: "only P instant" "only P (now_millis H)" "P (Warned m) \<Longrightarrow> only P (warn H m)"
  by (simp_all add: only_def instant_def now_millis_def warn_def)

lemma only_exists [tmux_only]: "P (Checked p) \<Longrightarrow> only P (exists_now H p)"
  by (simp add: only_def exists_now_def)

lemma only_option [tmux_only]:
  "only P m \<Longrightarrow> (\<And>a. x = Some a \<Longrightarrow> only P (k a)) \<Longrightarrow> only P (case x of None \<Rightarrow> m | Some a \<Rightarrow> k a)"
  by (cases x) auto

lemma only_sum [tmux_only]:
  "(\<And>e. only P (m e)) \<Longrightarrow> (\<And>a. only P (k a)) \<Longrightarrow> only P (case x of Inl e \<Rightarrow> m e | Inr a \<Rightarrow> k a)"
  by (cases x) auto

lemma only_prod [tmux_only]: "(\<And>a b. x = (a, b) \<Longrightarrow> only P (k a b)) \<Longrightarrow> only P (case x of (a, b) \<Rightarrow> k a b)"
  by (cases x) auto

lemma only_cond [tmux_only]: "only P m \<Longrightarrow> only P k \<Longrightarrow> only P (if b then m else k)"
  by simp

text \<open>Waits.\<close>

lemma wonly_waiting [tmux_only]: "only P m \<Longrightarrow> wonly P (waiting m)"
  by (auto simp: wonly_def waiting_def dest: onlyD)

lemma wonly_wbind [tmux_only]: "wonly P m \<Longrightarrow> (\<And>a. wonly P (k a)) \<Longrightarrow> wonly P (wbind m k)"
  unfolding wonly_def wbind_def by (auto split: option.splits prod.splits sum.splits) (metis world_extends_trans)+

lemma wonly_cond [tmux_only]: "wonly P m \<Longrightarrow> wonly P k \<Longrightarrow> wonly P (if b then m else k)"
  by simp

lemma spin_world:
  assumes only: "\<And>s. only P (body s)" and "spin body s w = Some y"
  shows "world_extends P w (snd y)"
proof -
  have "(\<forall>s. only P (body s)) \<longrightarrow> world_extends P w (snd y)"
  proof (rule spin.raw_induct [of "\<lambda>body s w y. (\<forall>s. only P (body s)) \<longrightarrow> world_extends P w (snd y)", OF _ assms(2)],
      rule impI)
    fix f body s w y
    assume IH: "\<And>body s w y. f body s w = Some y \<Longrightarrow> (\<forall>s. only P (body s)) \<longrightarrow> world_extends P w (snd y)"
      and step: "(case body s w of
           (Inl e, w') \<Rightarrow> Some (Inl e, w')
         | (Inr (Over a), w') \<Rightarrow> Some (Inr a, w')
         | (Inr (Again s'), w') \<Rightarrow> f body s' w') = Some y"
      and all: "\<forall>s. only P (body s)"
    obtain r v where r: "body s w = (r, v)" by fastforce
    then have v: "world_extends P w v" using all by (auto dest: onlyD)
    show "world_extends P w (snd y)"
      using step v IH [of body _ v y] all r
      by (auto split: sum.splits turn.splits intro: world_extends_trans)
  qed
  then show ?thesis using only by blast
qed

lemma wonly_spin [tmux_only]: "(\<And>s. only P (body s)) \<Longrightarrow> wonly P (spin body s)"
  unfolding wonly_def by (metis snd_conv spin_world)

text \<open>A computation of the wait's rounds that comes closer to its end in each that goes on.\<close>

locale tmux_wait =
  fixes body :: "'s \<Rightarrow> ('s, 'a) turn tmux" and left :: "'s \<Rightarrow> nat" and deadline :: nat
  assumes progress: "body s w = (Inr (Again s'), w') \<Longrightarrow>
    left s' < left s \<or> left s' = left s \<and> deadline - tw_now w' < deadline - tw_now w"
begin

lemma spin_returns: "\<exists>y. spin body s w = Some y"
proof (induction "(left s, deadline - tw_now w)" arbitrary: s w rule: wf_induct [OF wf_lex_prod [OF wf_less wf_less]])
  case (1 s w)
  obtain r v where r: "body s w = (r, v)" by fastforce
  show ?case
  proof (cases "\<exists>s'. r = Inr (Again s')")
    case True
    then obtain s' where "r = Inr (Again s')" by blast
    with r 1 progress [of s w s' v] show ?thesis by (auto simp: spin.simps [of body s w])
  next
    case False
    with r show ?thesis by (auto simp: spin.simps [of body s w] split: sum.splits turn.splits)
  qed
qed

end

text \<open>Each prompt that is answered is one less to answer.\<close>

definition unanswered :: "tmux_config \<Rightarrow> string list \<Rightarrow> nat" where
  "unanswered c skipped = card (set (map sp_pattern (tc_skip_prompts c)) - set skipped)"

lemma apply_skips_state:
  "apply_skips H c target t ss skipped b w = (Inr (b', skipped'), w') \<Longrightarrow>
     skipped' = skipped \<and> b' = b
     \<or> b' \<and> set skipped \<subset> set skipped' \<and> set skipped' \<subseteq> set skipped \<union> sp_pattern ` set ss"
proof (induction ss arbitrary: skipped b w)
  case Nil
  then show ?case by (simp add: tret_def)
next
  case (Cons s ss)
  then show ?case
    by (fastforce simp: tbind_def split: if_splits prod.splits sum.splits)
qed

lemma apply_skip_prompts_state:
  assumes "apply_skip_prompts H c target t skipped w = (Inr (b, skipped'), w')"
  shows "if b then unanswered c skipped' < unanswered c skipped else skipped' = skipped"
proof (cases b)
  case True
  then have "set skipped \<subset> set skipped'" "set skipped' \<subseteq> set skipped \<union> sp_pattern ` set (tc_skip_prompts c)"
    using apply_skips_state [OF assms [unfolded apply_skip_prompts_def]] by auto
  then have "set (map sp_pattern (tc_skip_prompts c)) - set skipped'
      \<subset> set (map sp_pattern (tc_skip_prompts c)) - set skipped" by auto
  with True show ?thesis by (simp add: unanswered_def psubset_card_mono)
next
  case False
  then show ?thesis using apply_skips_state [OF assms [unfolded apply_skip_prompts_def]] by auto
qed

lemma only_apply_skips [tmux_only]:
  "(\<And>s. s \<in> set ss \<Longrightarrow> P (Ran [''send-keys'', ''-t'', target, sp_key s] None)) \<Longrightarrow>
   only P (apply_skips H c target t ss skipped b)"
  by (induction ss arbitrary: skipped b) (auto simp: send_key_def intro!: tmux_only)

lemma only_apply_skip_prompts [tmux_only]:
  "(\<And>s. s \<in> set (tc_skip_prompts c) \<Longrightarrow> P (Ran [''send-keys'', ''-t'', target, sp_key s] None)) \<Longrightarrow>
   only P (apply_skip_prompts H c target t skipped)"
  by (simp add: apply_skip_prompts_def tmux_only)

lemma only_capture [tmux_only]: "P (Ran (capture_args target (tc_capture_lines c)) None) \<Longrightarrow> only P (capture_of H c target)"
  by (simp add: capture_of_def capture_pane_def tmux_only)

lemma capture_ticks: "capture_of H c target w = (r, w') \<Longrightarrow> tw_now w < tw_now w'"
  by (auto simp: capture_of_def capture_pane_def tmux_output_def did_def)

text \<open>The loops of the runner.\<close>

lemma tbind_Inr: "tbind m k w = (Inr b, w') \<longleftrightarrow> (\<exists>a v. m w = (Inr a, v) \<and> k a v = (Inr b, w'))"
  by (auto simp: tbind_def split: prod.splits sum.splits)

lemma tret_Inr [simp]: "tret a w = (Inr b, w') \<longleftrightarrow> a = b \<and> w = w'" "tfail e w \<noteq> (Inr b, w')"
  by (auto simp: tret_def tfail_def)

lemma instant_Inr [simp]: "instant w = (Inr t, w') \<longleftrightarrow> t = tw_now w \<and> w' = w"
  by (auto simp: instant_def)

lemma sleep_Inr [simp]: "sleep H d w = (Inr u, w') \<longleftrightarrow> w' = did H (Slept d) w"
  by (auto simp: sleep_def)

lemma did_ticks: "tw_now w + act_length a < tw_now (did H a w)"
  by (simp add: did_def)

lemma apply_skip_prompts_clock: "apply_skip_prompts H c target t skipped w = (r, w') \<Longrightarrow> tw_now w \<le> tw_now w'"
  by (rule only_clock [OF only_apply_skip_prompts [of c "\<lambda>_. True"]]) simp_all

lemma ready_progress:
  assumes "ready_round H c target deadline skipped w = (Inr (Again skipped'), w')"
  shows "unanswered c skipped' < unanswered c skipped
    \<or> unanswered c skipped' = unanswered c skipped \<and> deadline - tw_now w' < deadline - tw_now w"
proof -
  obtain capture v b sk u where cap: "capture_of H c target w = (Inr capture, v)"
      and skip: "apply_skip_prompts H c target capture skipped v = (Inr (b, sk), u)"
      and rest: "b \<and> skipped' = sk
        \<or> \<not> b \<and> skipped' = sk \<and> tw_now u < deadline \<and> w' = did H (Slept (poll_of c)) u"
    using assms by (auto simp: ready_round_def tbind_Inr split: option.splits if_splits)
  have "tw_now w < tw_now u" using capture_ticks [OF cap] apply_skip_prompts_clock [OF skip] by simp
  with rest apply_skip_prompts_state [OF skip] show ?thesis
    using did_ticks [of u "Slept (poll_of c)" H] by (cases b) auto
qed

lemma stable_progress:
  assumes "stable_round H c target deadline (prev, skipped) w = (Inr (Again (prev', skipped')), w')"
  shows "unanswered c skipped' < unanswered c skipped
    \<or> unanswered c skipped' = unanswered c skipped \<and> deadline - tw_now w' < deadline - tw_now w"
proof -
  obtain capture v b sk u where cap: "capture_of H c target w = (Inr capture, v)"
      and skip: "apply_skip_prompts H c target capture skipped v = (Inr (b, sk), u)"
      and rest: "b \<and> skipped' = sk
        \<or> \<not> b \<and> skipped' = sk \<and> tw_now u < deadline \<and> w' = did H (Slept (poll_of c)) u"
    using assms by (auto simp: stable_round_def tbind_Inr split: if_splits)
  have "tw_now w < tw_now u" using capture_ticks [OF cap] apply_skip_prompts_clock [OF skip] by simp
  with rest apply_skip_prompts_state [OF skip] show ?thesis
    using did_ticks [of u "Slept (poll_of c)" H] by (cases b) auto
qed

interpretation ready: tmux_wait "ready_round H c target deadline" "unanswered c" deadline
  for H c target deadline
  by unfold_locales (rule ready_progress)

interpretation stable: tmux_wait "stable_round H c target deadline" "unanswered c \<circ> snd" deadline
  for H c target deadline
proof unfold_locales
  fix s w s' w'
  assume "stable_round H c target deadline s w = (Inr (Again s'), w')"
  then show "(unanswered c \<circ> snd) s' < (unanswered c \<circ> snd) s
      \<or> (unanswered c \<circ> snd) s' = (unanswered c \<circ> snd) s \<and> deadline - tw_now w' < deadline - tw_now w"
    by (cases s; cases s') (simp add: stable_progress)
qed

interpretation probe: tmux_wait "probe_round H c target probe deadline" "\<lambda>_. 0" deadline
  for H c target probe deadline
proof unfold_locales
  fix s w s' w'
  assume "probe_round H c target probe deadline s w = (Inr (Again s'), w')"
  then obtain t where cap: "capture_of H c target (did H (Slept (ms 150)) w) = (Inr t, w')" and "tw_now w' < deadline"
    by (auto simp: probe_round_def tbind_Inr split: if_splits)
  with capture_ticks [OF cap] did_ticks [of w "Slept (ms 150)" H]
  show "0 < (0 :: nat) \<or> 0 = (0 :: nat) \<and> deadline - tw_now w' < deadline - tw_now w" by simp
qed

interpretation shown: tmux_wait "pattern_round H c target patterns deadline" "\<lambda>_. 0" deadline
  for H c target patterns deadline
proof unfold_locales
  fix s w s' w'
  assume "pattern_round H c target patterns deadline s w = (Inr (Again s'), w')"
  then obtain t v where cap: "capture_of H c target w = (Inr t, v)" and "tw_now v < deadline"
      and "w' = did H (Slept (poll_of c)) v"
    by (auto simp: pattern_round_def tbind_Inr split: if_splits)
  with capture_ticks [OF cap] did_ticks [of v "Slept (poll_of c)" H]
  show "0 < (0 :: nat) \<or> 0 = (0 :: nat) \<and> deadline - tw_now w' < deadline - tw_now w" by simp
qed

lemma only_log_snapshot:
  assumes "\<And>d. P (MadeDir d)" "\<And>p. P (Opened p)" "\<And>p t. P (Appended p t)"
  shows "only P (log_snapshot H live label target capture)"
  unfolding log_snapshot_def append_live_snapshot_def make_parent_def
  by (intro tmux_only assms)

lemma only_look [tmux_only]:
  assumes "P (Ran (capture_args target (tc_capture_lines c)) None)"
    and "\<And>s. s \<in> set (tc_skip_prompts c) \<Longrightarrow> P (Ran [''send-keys'', ''-t'', target, sp_key s] None)"
    and "\<And>t. only P (log_snapshot H live ''running'' target t)"
  shows "only P (look H c target live skipped)"
  unfolding look_def by (intro tmux_only assms)

lemma look_clock: "look H c target live skipped w = (r, w') \<Longrightarrow> tw_now w \<le> tw_now w'"
  by (rule only_clock [OF only_look [of "\<lambda>_. True"]]) (simp_all add: only_log_snapshot)

lemma five_seconds: "0 < snapshot_interval c"
  by (simp add: snapshot_interval_def secs_def)

lemma gave_up_fails [simp]: "gave_up H c target live mode what w \<noteq> (Inr x, w')"
  by (simp add: gave_up_def tbind_Inr)

interpretation signal: tmux_wait "signal_round H c target live deadline" "\<lambda>_. 0" deadline
  for H c target live deadline
proof unfold_locales
  fix s w s' w'
  assume "signal_round H c target live deadline s w = (Inr (Again s'), w')"
  then have "tw_now w < deadline"
      and "look H c target live s (did H (Waited (tc_signal_name c) (snapshot_interval c)) w) = (Inr s', w')"
    by (auto simp: signal_round_def tbind_Inr split: if_splits option.splits)
  with look_clock [of H c target live s _ "Inr s'" w'] did_ticks [of w "Waited (tc_signal_name c) (snapshot_interval c)" H]
  show "0 < (0 :: nat) \<or> 0 = (0 :: nat) \<and> deadline - tw_now w' < deadline - tw_now w"
    by fastforce
qed

interpretation sentinel: tmux_wait "sentinel_round H c target live p deadline" "\<lambda>_. 0" deadline
  for H c target live p deadline
proof unfold_locales
  fix s w s' w'
  assume a: "sentinel_round H c target live p deadline s w = (Inr (Again s'), w')"
  obtain t skipped where s: "s = (t, skipped)" by fastforce
  let ?v = "did H (Checked p) w"
  have "tw_now ?v < deadline"
      and "\<exists>u. w' = did H (Slept (poll_of c)) u
        \<and> (u = ?v \<or> (\<exists>sk. look H c target live skipped ?v = (Inr sk, u)))"
    using a by (auto simp: s sentinel_round_def tbind_Inr exists_now_def split: if_splits)
  then obtain u where "w' = did H (Slept (poll_of c)) u" and "tw_now ?v \<le> tw_now u" and "tw_now ?v < deadline"
    using look_clock by blast
  with did_ticks [of u "Slept (poll_of c)" H] have "tw_now ?v < deadline \<and> tw_now ?v \<le> tw_now w'" by simp
  moreover have "tw_now w < tw_now ?v" using did_ticks [of w "Checked p" H] by simp
  ultimately show "0 < (0 :: nat) \<or> 0 = (0 :: nat) \<and> deadline - tw_now w' < deadline - tw_now w" by arith
qed

subsection \<open>Every wait ends\<close>

definition returns :: "'a waiting \<Rightarrow> bool" where
  "returns m \<longleftrightarrow> (\<forall>w. m w \<noteq> None)"

named_theorems tmux_returns \<open>waits that end\<close>

lemma returns_waiting [tmux_returns]: "returns (waiting m)"
  by (simp add: returns_def waiting_def)

lemma returns_wbind [tmux_returns]: "returns m \<Longrightarrow> (\<And>a. returns (k a)) \<Longrightarrow> returns (wbind m k)"
  unfolding returns_def wbind_def by (auto split: option.splits sum.splits)

lemma returns_spins [tmux_returns]:
  "returns (spin (ready_round H c target deadline) a)" "returns (spin (stable_round H c target deadline) b)"
  "returns (spin (probe_round H c target probe deadline) d)"
  "returns (spin (pattern_round H c target patterns deadline) d)"
  "returns (spin (signal_round H c target live deadline) a)"
  "returns (spin (sentinel_round H c target live p deadline) e)"
  unfolding returns_def
  using ready.spin_returns stable.spin_returns probe.spin_returns shown.spin_returns
    signal.spin_returns sentinel.spin_returns
  by (metis option.discI)+

lemma returns_if [tmux_returns]: "returns m \<Longrightarrow> returns k \<Longrightarrow> returns (if b then m else k)"
  by simp

lemma returns_wait_until_ready [tmux_returns]: "returns (wait_until_ready H c target)"
  unfolding wait_until_ready_def by (intro tmux_returns)

lemma returns_dispatch_by_mode [tmux_returns]: "returns (dispatch_by_mode H c target prompt t live)"
  unfolding dispatch_by_mode_def run_signal_def run_sentinel_def
  by (cases "tc_mode c"; cases "tc_sentinel_path c") (simp_all add: tmux_returns)

lemma returns_tmux_dispatch [tmux_returns]: "returns (tmux_dispatch H c prompt t live)"
  unfolding tmux_dispatch_def by (intro tmux_returns)


subsection \<open>What a job touches\<close>

text \<open>The files of a job, and what it writes: headers and redacted captures.\<close>

definition written_text :: "tmux_host \<Rightarrow> string \<Rightarrow> bool" where
  "written_text H t \<longleftrightarrow>
     prefix ([CHR 0x0A] @ ''--- tmux '') t \<or> t = [CHR 0x0A]
     \<or> (\<exists>capture. t = redact_secrets_and_paths (th_redactor H) capture)"

definition footprint :: "tmux_host \<Rightarrow> string option \<Rightarrow> string option \<Rightarrow> tmux_act \<Rightarrow> bool" where
  "footprint H sentinel live a \<longleftrightarrow>
     (case a of
        Removed p \<Rightarrow> sentinel = Some p
      | ReadFile p \<Rightarrow> sentinel = Some p
      | Checked p \<Rightarrow> sentinel = Some p
      | MadeDir d \<Rightarrow> Some d \<in> {Option.bind sentinel parent_dir, Option.bind live parent_dir}
      | Opened p \<Rightarrow> live = Some p
      | Appended p t \<Rightarrow> live = Some p \<and> written_text H t
      | Ran args _ \<Rightarrow> args \<noteq> []
      | _ \<Rightarrow> True)"

lemma footprint_log [tmux_only]: "only (footprint H sentinel live) (log_snapshot H live label target capture)"
  unfolding log_snapshot_def append_live_snapshot_def make_parent_def
  by (cases live; cases "Option.bind live parent_dir")
    (auto simp: footprint_def written_text_def intro!: tmux_only)

lemma footprint_ran [simp]: "footprint H sentinel live (Ran args t) \<longleftrightarrow> args \<noteq> []"
  and footprint_wait [simp]: "footprint H sentinel live (Slept d)" "footprint H sentinel live (Waited n d)"
    "footprint H sentinel live (Warned m)"
  by (simp_all add: footprint_def)

lemma only_send_key [tmux_only]: "P (Ran [''send-keys'', ''-t'', target, key] None) \<Longrightarrow> only P (send_key H c target key)"
  by (simp add: send_key_def tmux_only)

lemma footprint_send_text [tmux_only]: "only (footprint H sentinel live) (send_text H c target t)"
  unfolding send_text_def Let_def by (intro tmux_only) simp_all

lemma footprint_prepare [tmux_only]: "only (footprint H sentinel live) (prepare_target H c)"
proof -
  have client: "only (footprint H sentinel live) (anchor_from_client H b)" for b
    unfolding anchor_from_client_def by (intro tmux_only) simp
  have anchor: "only (footprint H sentinel live) (current_anchor H b)" for b
    unfolding current_anchor_def by (intro tmux_only client) simp
  have window: "only (footprint H sentinel live) (new_window_in_session H c t a)" for t a
    unfolding new_window_in_session_def by (intro tmux_only) simp
  have here: "only (footprint H sentinel live) (new_window_at_anchor H c a)" for a
    unfolding new_window_at_anchor_def by (rule window)
  have command: "only (footprint H sentinel live) (current_pane_command H c t)" for t
    unfolding current_pane_command_def by (intro tmux_only) simp
  have session: "only (footprint H sentinel live) (prepare_new_session H c)"
    unfolding prepare_new_session_def
    by (intro tmux_only anchor here window; simp add: new_session_args_def split: tmux_error.splits)
       (auto intro: tmux_only window)
  show ?thesis
    unfolding prepare_target_def prepare_new_window_def ensure_target_is_idle_shell_def prepare_default_target_def
    by (intro tmux_only anchor here window command session) simp
qed

lemma only_turn [tmux_only]: "only P m \<Longrightarrow> only P (tbind m (\<lambda>s. tret (f s)))"
  by (intro tmux_only)

lemma footprint_capture [tmux_only]: "only (footprint H sentinel live) (capture_of H c target)"
  by (intro tmux_only) (simp add: capture_args_def)

lemma footprint_capture_or_empty [tmux_only]: "only (footprint H sentinel live) (capture_or_empty H c target)"
  unfolding capture_or_empty_def by (intro tmux_only)

lemma footprint_skips [tmux_only]: "only (footprint H sentinel live) (apply_skip_prompts H c target t skipped)"
  by (intro tmux_only) simp

lemma footprint_look [tmux_only]: "only (footprint H sentinel live) (look H c target live skipped)"
  unfolding look_def by (intro tmux_only)

lemma footprint_gave_up [tmux_only]: "only (footprint H sentinel live) (gave_up H c target live mode what)"
  unfolding gave_up_def by (intro tmux_only)

lemma footprint_ready [tmux_only]: "wonly (footprint H sentinel live) (wait_until_ready H c target)"
  unfolding wait_until_ready_def ready_round_def stable_round_def by (intro tmux_only) simp_all

lemma only_after: "P a \<Longrightarrow> only P m \<Longrightarrow> world_extends P w (snd (m (did H a w)))"
  unfolding only_def by (metis world_extends_did world_extends_trans)

lemma footprint_signal_round: "only (footprint H sentinel live) (signal_round H c target live deadline s)"
proof -
  have over: "only (footprint H sentinel live) (signal_over H c target live reply)" for reply
    unfolding signal_over_def by (intro tmux_only)
  have "world_extends (footprint H sentinel live) w (snd (signal_round H c target live deadline s w))" for w
  proof (cases "deadline \<le> tw_now w")
    case True
    then show ?thesis
      by (simp add: signal_round_def footprint_gave_up [unfolded only_def])
  next
    case False
    show ?thesis
    proof (cases "th_waited H w (tc_signal_name c) (snapshot_interval c)")
      case None
      with False show ?thesis
        using only_after [OF footprint_wait(2) only_turn [OF footprint_look]]
        by (simp add: signal_round_def)
    next
      case (Some a)
      with False show ?thesis
        using only_after [OF footprint_wait(2) only_turn [OF over]]
        by (cases a) (simp add: signal_round_def)
    qed
  qed
  then show ?thesis by (simp add: only_def)
qed

lemma footprint_read: "only (footprint H (Some p) live) (read_tries H n err p)"
proof (induction n arbitrary: err)
  case (Suc n)
  have "world_extends (footprint H (Some p) live) w (snd (read_tries H (Suc n) err p w))" for w
    by (auto simp: footprint_def split: option.splits intro!: only_after tmux_only Suc)
  then show ?case by (simp add: only_def)
qed (simp add: tmux_only)

lemma footprint_sentinel_round:
  "only (footprint H (Some p) live) (sentinel_round H c target live p deadline s)"
  unfolding sentinel_round_def sentinel_over_def read_sentinel_text_def
  by (cases s) (auto simp: footprint_def intro!: tmux_only footprint_read)

lemma footprint_by_mode:
  "wonly (footprint H (tc_sentinel_path c) live) (dispatch_by_mode H c target prompt timeout_sec live)"
proof (cases "tc_mode c")
  case Signal
  then show ?thesis
    unfolding dispatch_by_mode_def run_signal_def
    by (auto intro!: tmux_only footprint_signal_round)
next
  case Sentinel
  have made: "only (footprint H (Some p) live) (make_parent H what p)" for p what
    unfolding make_parent_def by (intro tmux_only) (simp add: footprint_def)
  have removed: "footprint H (Some p) live (Removed p)" for p
    by (simp add: footprint_def)
  show ?thesis
    unfolding dispatch_by_mode_def run_sentinel_def
    by (cases "tc_sentinel_path c") (auto simp: Sentinel intro!: tmux_only footprint_sentinel_round made removed)
next
  case Fire
  then show ?thesis
    unfolding dispatch_by_mode_def run_fire_def by (auto intro!: tmux_only)
qed

text \<open>
  C27: A dispatch touches no files but its own: it removes, reads and looks for the sentinel file only,
  makes the directories of the sentinel and of the live log only, and everything it writes goes to
  the live log, as headers, newlines, or captures that have been through the redaction.
\<close>

theorem tmux_dispatch_footprint:
  assumes "tmux_dispatch H c prompt timeout_sec live w = Some (r, w')"
  shows "\<exists>acts. tw_acts w' = tw_acts w @ acts \<and> list_all (footprint H (tc_sentinel_path c) live) acts"
proof -
  have "wonly (footprint H (tc_sentinel_path c) live) (tmux_dispatch H c prompt timeout_sec live)"
    unfolding tmux_dispatch_def by (intro tmux_only footprint_by_mode)
  then show ?thesis using assms by (auto dest: wonlyD simp: world_extends_def)
qed

subsection \<open>The prompt is pasted as data\<close>

text \<open>The steps of \<open>send_text\<close>: the prompt is the input of \<open>load-buffer\<close>, never an argument.\<close>

definition send_steps :: "string \<Rightarrow> string \<Rightarrow> string \<Rightarrow> tmux_act list" where
  "send_steps target buffer t =
     [Ran [''send-keys'', ''-t'', target, ''-X'', ''cancel''] None,
      Ran [''send-keys'', ''-t'', target, ''C-u''] None,
      Ran [''load-buffer'', ''-b'', buffer, ''-''] (Some t),
      Ran [''paste-buffer'', ''-d'', ''-b'', buffer, ''-t'', target] None,
      Slept (ms SEND_ENTER_DELAY_MS),
      Ran [''send-keys'', ''-t'', target, ''Enter''] None]"

lemma output_world [simp]: "snd (tmux_output H bin args w) = did H (Ran args None) w"
  by (simp add: tmux_output_def)

lemma status_world [simp]: "snd (tmux_status H bin args w) = did H (Ran args None) w"
  using output_world [of H bin args w]
  by (cases "tmux_output H bin args w") (auto simp: tmux_status_def tbind_def tret_def split: sum.splits)

lemma sleep_world [simp]: "snd (sleep H d w) = did H (Slept d) w"
  by (simp add: sleep_def)

lemma stdin_world [simp]: "snd (tmux_status_with_stdin H bin args t w) = did H (Ran args (Some t)) w"
  by (simp add: tmux_status_with_stdin_def)

lemma tw_acts_did [simp]: "tw_acts (did H a w) = tw_acts w @ [a]"
  by (simp add: did_def)

definition does :: "'a tmux \<Rightarrow> tmux_world \<Rightarrow> tmux_act list \<Rightarrow> bool" where
  "does m w steps \<longleftrightarrow>
     (\<exists>n. tw_acts (snd (m w)) = tw_acts w @ take n steps \<and> (is_ok (fst (m w)) \<longrightarrow> n = length steps))"

lemma does_last: "snd (m w) = did H a w \<Longrightarrow> does m w [a]"
  unfolding does_def by (rule exI [of _ 1]) simp

lemma does_next:
  assumes m: "snd (m w) = did H a w" and k: "\<And>x. does (k x) (did H a w) steps"
  shows "does (tbind m k) w (a # steps)"
proof (cases "m w")
  case (Pair r v)
  then have v: "v = did H a w" using m by simp
  show ?thesis
  proof (cases r)
    case (Inl e)
    with Pair v show ?thesis unfolding does_def by (intro exI [of _ 1]) (simp add: tbind_def)
  next
    case (Inr x)
    from k [of x] obtain n where "tw_acts (snd (k x (did H a w))) = tw_acts (did H a w) @ take n steps"
        "is_ok (fst (k x (did H a w))) \<longrightarrow> n = length steps" unfolding does_def by blast
    with Pair v Inr show ?thesis unfolding does_def by (intro exI [of _ "Suc n"]) (simp add: tbind_def)
  qed
qed

lemma does_same: "m w = (Inr x, w) \<Longrightarrow> does (k x) w steps \<Longrightarrow> does (tbind m k) w steps"
  by (simp add: does_def tbind_def)

text \<open>
  Text is sent to a pane in the steps above and in no other order: what was done is a beginning
  of them, and all of them when sending succeeds. So the Enter key is pressed only after the text
  was loaded and pasted, and the text is the standard input of a command, never part of one.
\<close>

theorem text_is_pasted_then_entered:
  "\<exists>buffer. does (send_text H c target t) w (send_steps target buffer t)"
proof -
  have cancel: "snd (ignored (tmux_status_allow_failure H (tc_bin c) [''send-keys'', ''-t'', target, ''-X'', ''cancel'']) w)
      = did H (Ran [''send-keys'', ''-t'', target, ''-X'', ''cancel''] None) w"
    by (simp add: ignored_def tmux_status_allow_failure_def split: tmux_reply.splits)
  show ?thesis
    unfolding send_text_def send_steps_def send_key_def Let_def
    by (rule exI, rule does_next, rule cancel, rule does_next, rule status_world, rule does_same,
        rule now_millis_def, rule does_next, rule stdin_world, rule does_next, rule status_world,
        rule does_next, rule sleep_world, rule does_last, rule status_world)
qed

subsection \<open>Paths of sentinels\<close>

definition path_part :: "string \<Rightarrow> bool" where
  "path_part q \<longleftrightarrow> q \<noteq> [] \<and> q \<noteq> ''.'' \<and> CHR ''/'' \<notin> set q"

lemma path_parts_ok: "q \<in> set (path_parts p) \<Longrightarrow> path_part q"
  by (auto simp: path_parts_def path_part_def dest: split_on_no_sep)

lemma fold_parts:
  "set (foldl (\<lambda>acc c. if c = dots then butlast acc else acc @ [c]) acc ps) \<subseteq> set acc \<union> (set ps - {dots})"
proof (induction ps arbitrary: acc)
  case (Cons q ps)
  have "set (butlast acc) \<subseteq> set acc" by (auto dest: in_set_butlastD)
  with Cons [of "butlast acc"] Cons [of "acc @ [q]"] show ?case by auto
qed simp

lemma lexical_normalize_parts: "q \<in> set (lexical_normalize p) \<Longrightarrow> path_part q \<and> q \<noteq> ''..''"
  using fold_parts [of "''..''" "[]" "path_parts p"] path_parts_ok [of q p]
  by (auto simp: lexical_normalize_def)

lemma path_parts_show:
  assumes "\<And>q. q \<in> set ps \<Longrightarrow> path_part q"
  shows "path_parts (show_path ps) = ps"
proof (cases "ps = []")
  case True
  then show ?thesis by (simp add: path_parts_def show_path_def)
next
  case False
  have "split_on (CHR ''/'') (join_str ''/'' ps) = ps"
    using assms False by (intro split_on_join) (auto simp: path_part_def)
  moreover have "split_on (CHR ''/'') (show_path ps) = [] # split_on (CHR ''/'') (join_str ''/'' ps)"
    unfolding show_path_def using split_on_append [of "CHR ''/''" "[]"] by simp
  ultimately show ?thesis
    using assms by (auto simp: path_parts_def path_part_def intro!: filter_True)
qed

text \<open>
  A sentinel that a job configures lies inside of the repository: its path starts with the parts
  of the repository's own path, and no part of it leads back up. (The file is removed before the
  job starts, so this is what keeps a job from removing files elsewhere.)
\<close>

theorem configured_sentinel_stays_inside:
  assumes "resolve_sentinel_path cwd repo v = Inr p"
  shows "\<exists>a. absolutize_repo cwd repo = Inr a \<and> prefix (lexical_normalize a) (path_parts p)
    \<and> ''..'' \<notin> set (path_parts p)"
proof -
  from assms obtain a where a: "absolutize_repo cwd repo = Inr a"
    by (auto simp: resolve_sentinel_path_def bindr_Inr_iff)
  let ?q = "lexical_normalize (path_join (show_path (lexical_normalize a)) v)"
  have p: "p = show_path ?q" and inside: "prefix (lexical_normalize a) ?q"
    using assms a by (auto simp: resolve_sentinel_path_def Let_def split: if_splits)
  have "path_parts p = ?q"
    unfolding p by (rule path_parts_show) (simp add: lexical_normalize_parts)
  with a inside show ?thesis using lexical_normalize_parts by auto
qed

text \<open>
  The sentinel of a job that configures none is not looked at: the id of the job may lead out of the
  live directory and out of the repository.
\<close>

lemma default_sentinel_may_escape:
  "sentinel_of cwd Sentinel (j\<lparr> aj_meta := [], aj_job_id := ''../../../../etc/x'' \<rparr>) ''/r''
     = Inr (Some ''/r/.lto/rust-scheduler/live/../../../../etc/x.sentinel'')"
  by (simp add: sentinel_of_def meta_str_def meta_first_def List.map_filter_def first_opt_def
      job_run_id_def live_dir_def path_join_def suffix_def)

subsection \<open>The pane that is typed into\<close>

definition made_pane :: "tmux_world \<Rightarrow> bool" where
  "made_pane w \<longleftrightarrow>
     (case last_opt (tw_acts w) of
        Some (Ran (cmd # _) _) \<Rightarrow> cmd \<in> {''new-window'', ''new-session''}
      | _ \<Rightarrow> False)"

definition seen_idle :: "tmux_host \<Rightarrow> tmux_config \<Rightarrow> string \<Rightarrow> tmux_world \<Rightarrow> bool" where
  "seen_idle H c t w \<longleftrightarrow>
     (\<exists>v out. current_pane_command H c t v = (Inr out, w) \<and> is_idle_shell_command out)"

lemma last_opt_snoc [simp]: "last_opt (xs @ [x]) = Some x"
  by (simp add: last_opt_def)

lemma tmux_output_Inr: "tmux_output H bin args w = (Inr out, w') \<Longrightarrow> w' = did H (Ran args None) w"
  by (simp add: tmux_output_def)

lemma new_window_made: "new_window_in_session H c t a w = (Inr p, w') \<Longrightarrow> made_pane w'"
  by (auto simp: new_window_in_session_def tbind_Inr made_pane_def dest!: tmux_output_Inr)

lemma new_window_at_made: "new_window_at_anchor H c a w = (Inr p, w') \<Longrightarrow> made_pane w'"
  unfolding new_window_at_anchor_def by (rule new_window_made)

lemma new_session_made:
  assumes "prepare_new_session H c w = (Inr p, w')"
  shows "made_pane w'"
proof -
  obtain x v where rest: "(case x of
        Some a \<Rightarrow> new_window_at_anchor H c a
      | None \<Rightarrow>
          (case tc_session c of
             None \<Rightarrow> tfail (TmuxConfig ''tmux_new_session requires tmux_session'')
           | Some session \<Rightarrow>
               attempt (tmux_output H (tc_bin c) (new_session_args session (tc_window_name c))) (\<lambda>r.
                 case r of
                   Inr out \<Rightarrow> tret (trim out)
                 | Inl e \<Rightarrow>
                     (case e of
                        TmuxCommandFailed _ _ err \<Rightarrow>
                          (if contains_case_insensitive err ''duplicate session''
                           then new_window_in_session H c (Some session) None else tfail e)
                      | _ \<Rightarrow> tfail e)))) v = (Inr p, w')"
    using assms unfolding prepare_new_session_def tbind_Inr by blast
  show ?thesis
  proof (cases x)
    case None
    then show ?thesis
      using rest
      by (auto simp: attempt_def made_pane_def tmux_output_def new_session_args_def
          split: option.splits sum.splits tmux_error.splits if_splits dest!: new_window_made)
  next
    case (Some a)
    then show ?thesis using rest by (auto dest: new_window_at_made)
  qed
qed

lemma default_target_idle:
  assumes "prepare_default_target H c a w = (Inr p, w')"
  shows "made_pane w' \<or> seen_idle H c p w'"
proof (cases "an_pane_id a")
  case None
  then show ?thesis using assms by (auto simp: prepare_default_target_def dest: new_window_at_made)
next
  case (Some pane)
  then show ?thesis
    using assms
    by (auto simp: prepare_default_target_def tbind_Inr seen_idle_def split: if_splits dest!: new_window_at_made)
qed


subsection \<open>A run of the runner\<close>

text \<open>A tmux whose panes show a shell's prompt; every action takes the one tick.\<close>

definition plain_redactor :: redactor where
  "plain_redactor = \<lparr> rx_secrets = (\<lambda>s. s), rx_private_paths = (\<lambda>s. s), rx_spaces = (\<lambda>s. s) \<rparr>"

definition demo_host :: tmux_host where
  "demo_host =
     \<lparr> th_reply = (\<lambda>w args t. Finished (Some 0) (if hd args = ''capture-pane'' then ''$ '' else ''bash'') []),
       th_waited = (\<lambda>w n d. Some (1, Finished (Some 0) [] [])), th_took = (\<lambda>w a. 0),
       th_fault = (\<lambda>w a. None), th_exists = (\<lambda>w p. True), th_contents = (\<lambda>w p. ''done''),
       th_millis = (\<lambda>w. 7), th_env = (\<lambda>k. if k = ''TMUX_PANE'' then Some ''%3'' else None),
       th_lossy = (\<lambda>s. s), th_seconds = (\<lambda>n. f_of_int 0), th_redactor = plain_redactor \<rparr>"

definition demo_config :: tmux_config where
  "demo_config =
     \<lparr> tc_bin = ''tmux'', tc_mode = Fire, tc_target = None, tc_session = None, tc_new_window = False,
       tc_new_session = False, tc_window_name = ''w'', tc_signal_name = ''s'', tc_sentinel_path = None,
       tc_ready_patterns = [], tc_skip_prompts = standard_skip_prompts, tc_safety = default_safety,
       tc_ready_timeout = 30, tc_poll_interval = 250, tc_capture_lines = 20, tc_working_dir = None \<rparr>"

definition start :: tmux_world where
  "start = \<lparr> tw_now = 0, tw_acts = [] \<rparr>"

theorem tmux_dispatch_footprint_witness:
  "\<exists>r w'. tmux_dispatch demo_host demo_config ''go'' 5 (Some ''/r/x.log'') start = Some (r, w')
     \<and> list_all (footprint demo_host None (Some ''/r/x.log'')) (tw_acts w')"
proof -
  obtain r w' where run: "tmux_dispatch demo_host demo_config ''go'' 5 (Some ''/r/x.log'') start = Some (r, w')"
    using returns_tmux_dispatch unfolding returns_def by (metis option.exhaust_sel surj_pair)
  with tmux_dispatch_footprint [OF run] show ?thesis
    by (auto simp: start_def demo_config_def)
qed

lemma demo_prepares:
  "prepare_target demo_host demo_config start = (Inr ''%3'', snd (prepare_target demo_host demo_config start))"
  by code_simp


lemma demo_resolves: "resolve_sentinel_path (Inl []) ''/r'' ''a/../b/./done'' = Inr ''/r/b/done''"
  by code_simp

theorem configured_sentinel_stays_inside_witness:
  "\<exists>a. absolutize_repo (Inl []) ''/r'' = Inr a \<and> prefix (lexical_normalize a) (path_parts ''/r/b/done'')
     \<and> ''..'' \<notin> set (path_parts ''/r/b/done'')"
  by (rule configured_sentinel_stays_inside [OF demo_resolves])

text \<open>A path that leads out of the repository is refused.\<close>

lemma outside_is_refused:
  "resolve_sentinel_path (Inl []) ''/r'' ''../x''
     = Inl (TmuxConfig ''tmux sentinel path must stay inside repo: /x'')"
  by code_simp

end
