(* ===== verification/Lto_Decision_Record.thy ===== *)
theory Lto_Decision_Record
  imports Lto_Tasks
begin

text \<open>
  \<open>src/src/commands/decision.rs\<close>: human decisions, recorded with the HEAD and the phase they were
  made at, reaffirmed, listed, and checked for freshness. Loading, locking, saving and printing are
  the caller's; a command takes the loaded state and returns the state it saves, the event it emits
  and the line it prints. Git is the world \<open>W\<close>, reading a record from JSON is serde's (\<open>rd\<close>).
\<close>

subsection \<open>Records\<close>

definition scope_json :: "decision_scope \<Rightarrow> json" where
  "scope_json s = jobj [(''phase'', jopt JStr (sc_phase s)), (''paths'', JArr (map JStr (sc_paths s)))]"

definition anchor_json :: "decision_anchor \<Rightarrow> json" where
  "anchor_json a =
     jobj [(''head'', JStr (an_head a)), (''phase'', JStr (an_phase a)), (''recorded_at'', JStr (an_recorded_at a))]"

definition record_json :: "decision_record \<Rightarrow> json" where
  "record_json r =
     jobj [(''id'', JStr (de_id r)), (''text'', JStr (de_text r)), (''scope'', scope_json (de_scope r)),
           (''anchor'', anchor_json (de_anchor r)), (''reaffirmed_at'', jopt JStr (de_reaffirmed_at r))]"

definition entry_id :: "decision_entry \<Rightarrow> string option" where
  "entry_id e = (case e of Typed r \<Rightarrow> Some (de_id r) | Legacy v \<Rightarrow> jget_str v ''id'')"

text \<open>The first id that is free: the base, or the base with the least suffix from two on; one of as
  many suffixes as there are entries, and one more, is.\<close>

definition id_free :: "decision_entry list \<Rightarrow> string \<Rightarrow> bool" where
  "id_free entries i \<longleftrightarrow> list_all (\<lambda>e. entry_id e \<noteq> Some i) entries"

definition suffixed :: "string \<Rightarrow> nat \<Rightarrow> string" where
  "suffixed base n = (base @ ''-'' @ (show_nat n))"

definition id_base :: "string \<Rightarrow> string" where
  "id_base now = (''decision-'' @ (filter is_ascii_alphanumeric now))"

definition next_id :: "decision_entry list \<Rightarrow> string \<Rightarrow> string" where
  "next_id entries now =
     (let base = id_base now in
      if id_free entries base then base
      else suffixed base
        (opt_get_or 0 (List.find (\<lambda>n. id_free entries (suffixed base n)) [2..<length entries + 3])))"

definition clean_optional :: "string option \<Rightarrow> string option" where
  "clean_optional v = opt_filter (\<lambda>t. t \<noteq> []) (map_option trim v)"

definition clean_paths :: "string list \<Rightarrow> string list" where
  "clean_paths paths = filter (\<lambda>p. p \<noteq> []) (map trim paths)"

definition decision_event :: "lto_state \<Rightarrow> decision_record \<Rightarrow> string \<Rightarrow> event_record" where
  "decision_event st r event_type =
     default_event\<lparr> er_event_type := event_type, er_actor_kind := ''host'',
       er_phase := Some (st_current_phase st), er_object_id := Some (de_id r),
       er_object_type := Some ''decision'', er_summary := (event_type @ '': '' @ (de_id r)),
       er_fields := jobj [(''decision_id'', JStr (de_id r)), (''scope_phase'', jopt JStr (sc_phase (de_scope r))),
         (''scope_paths'', JArr (map JStr (sc_paths (de_scope r)))), (''anchor_head'', JStr (an_head (de_anchor r))),
         (''anchor_phase'', JStr (an_phase (de_anchor r)))] \<rparr>"

subsection \<open>Recording and reaffirming\<close>

record record_options =
  ro_text :: string
  ro_scope_phase :: "string option"
  ro_scope_paths :: "string list"

record decision_saved =
  ds_state :: lto_state
  ds_event :: event_record
  ds_printed :: string

definition new_record :: "record_options \<Rightarrow> lto_state \<Rightarrow> decision_entry list \<Rightarrow> string \<Rightarrow> string \<Rightarrow> decision_record" where
  "new_record opts st entries now head =
     \<lparr> de_id = next_id entries now, de_text = trim (ro_text opts),
       de_scope = \<lparr> sc_phase = clean_optional (ro_scope_phase opts), sc_paths = clean_paths (ro_scope_paths opts) \<rparr>,
       de_anchor = \<lparr> an_head = head, an_phase = st_current_phase st, an_recorded_at = now \<rparr>,
       de_reaffirmed_at = None \<rparr>"

text \<open>Outside of a repository the head is \<open>unknown\<close>, and a warning is all there is.\<close>

definition cmd_record ::
    "(json \<Rightarrow> decision_record option) \<Rightarrow> 'w world \<Rightarrow> string \<Rightarrow> string \<Rightarrow> record_options \<Rightarrow> lto_state \<Rightarrow> 'w
     \<Rightarrow> (string + decision_saved) \<times> 'w" where
  "cmd_record rd W repo now opts st w =
     (if trim (ro_text opts) = [] then (Inl ''decision text must not be empty'', w)
      else
        (let entries = parse_decision_entries rd (st_user_decisions st);
             (actual, w') = git_status W w repo;
             r = new_record opts st entries now (gs_head actual);
             st' = st\<lparr> st_user_decisions := decision_entries_to_value record_json (entries @ [Typed r]) \<rparr>
         in (Inr \<lparr> ds_state = st', ds_event = decision_event st' r ''decision.recorded'',
                   ds_printed = (''decision recorded: '' @ (de_id r)) \<rparr>, w')))"

definition reaffirmed :: "string \<Rightarrow> string \<Rightarrow> string \<Rightarrow> decision_record \<Rightarrow> decision_record" where
  "reaffirmed head phase now r =
     r\<lparr> de_anchor := (de_anchor r)\<lparr> an_head := head, an_phase := phase \<rparr>, de_reaffirmed_at := Some now \<rparr>"

text \<open>The first entry with the id is reaffirmed when it is typed and refused when it is not.\<close>

fun reaffirm_first ::
    "string \<Rightarrow> (decision_record \<Rightarrow> decision_record) \<Rightarrow> decision_entry list \<Rightarrow> string + (decision_entry list \<times> decision_record)" where
  "reaffirm_first i f [] = Inl (''decision not found: '' @ i)"
| "reaffirm_first i f (Typed r # es) =
     (if de_id r = i then Inr (Typed (f r) # es, f r)
      else bindr (reaffirm_first i f es) (\<lambda>(es', r'). Inr (Typed r # es', r')))"
| "reaffirm_first i f (Legacy v # es) =
     (if jget_str v ''id'' = Some i
      then Inl (''cannot reaffirm legacy decision '' @ i @ ''; record a typed decision first'')
      else bindr (reaffirm_first i f es) (\<lambda>(es', r'). Inr (Legacy v # es', r')))"

definition cmd_reaffirm ::
    "(json \<Rightarrow> decision_record option) \<Rightarrow> 'w world \<Rightarrow> string \<Rightarrow> string \<Rightarrow> string \<Rightarrow> lto_state \<Rightarrow> 'w
     \<Rightarrow> (string + decision_saved) \<times> 'w" where
  "cmd_reaffirm rd W repo now i st w =
     (let (actual, w') = git_status W w repo;
          entries = parse_decision_entries rd (st_user_decisions st)
      in (bindr (reaffirm_first i (reaffirmed (gs_head actual) (st_current_phase st) now) entries) (\<lambda>(es, r).
            let st' = st\<lparr> st_user_decisions := decision_entries_to_value record_json es \<rparr> in
            Inr \<lparr> ds_state = st', ds_event = decision_event st' r ''decision.reaffirmed'',
                  ds_printed = (''decision reaffirmed: '' @ (de_id r)) \<rparr>), w'))"

subsection \<open>Freshness\<close>

definition short_head :: "string \<Rightarrow> string" where
  "short_head v = chars_take 12 v"

definition fallback :: "string \<Rightarrow> string" where
  "fallback v = (if trim v = [] then ''unknown'' else v)"

definition head_reason :: "string \<Rightarrow> string \<Rightarrow> string \<Rightarrow> string option" where
  "head_reason drift recorded actual =
     (if drift = ''none'' then None
      else if drift = ''forward''
      then Some (''HEAD advanced ('' @ (short_head recorded) @ '' -> '' @ (short_head actual) @ '')'')
      else if drift = ''rewrite''
      then Some (''HEAD rewritten ('' @ (short_head recorded) @ '' not ancestor of '' @ (short_head actual) @ '')'')
      else if drift = ''unreachable'' then Some (''recorded HEAD '' @ (short_head recorded) @ '' unreachable'')
      else Some (''HEAD drift: '' @ drift))"

record rebase_required =
  rr_id :: string
  rr_text :: string
  rr_reason :: string
  rr_reaffirm_command :: string

record freshness_report =
  fr_anchored :: nat
  fr_legacy :: nat
  fr_rebase_required :: "rebase_required list"

definition phase_reason :: "string \<Rightarrow> string \<Rightarrow> string list" where
  "phase_reason recorded current =
     (if recorded = current then []
      else [(''phase drift ('' @ (fallback recorded) @ '' -> '' @ (fallback current) @ '')'')])"

definition freshness_step ::
    "'w world \<Rightarrow> string \<Rightarrow> string \<Rightarrow> string \<Rightarrow> freshness_report \<times> 'w \<Rightarrow> decision_entry \<Rightarrow> freshness_report \<times> 'w" where
  "freshness_step W repo phase actual_head = (\<lambda>(rep, w) e.
     case e of
       Legacy _ \<Rightarrow> (rep\<lparr> fr_legacy := Suc (fr_legacy rep) \<rparr>, w)
     | Typed r \<Rightarrow>
         (let (drift, w') = head_drift W w repo (an_head (de_anchor r)) actual_head;
              reasons = phase_reason (an_phase (de_anchor r)) phase
                @ (case head_reason drift (an_head (de_anchor r)) actual_head of None \<Rightarrow> [] | Some x \<Rightarrow> [x]);
              counted = rep\<lparr> fr_anchored := Suc (fr_anchored rep) \<rparr>
          in (if reasons = [] then counted
              else counted\<lparr> fr_rebase_required := fr_rebase_required rep @
                [\<lparr> rr_id = de_id r, rr_text = de_text r, rr_reason = join_str ''; '' reasons,
                   rr_reaffirm_command = (''lto decision reaffirm --id '' @ (de_id r)) \<rparr>] \<rparr>, w')))"

definition no_decisions :: freshness_report where
  "no_decisions = \<lparr> fr_anchored = 0, fr_legacy = 0, fr_rebase_required = [] \<rparr>"

definition freshness_report_at ::
    "(json \<Rightarrow> decision_record option) \<Rightarrow> 'w world \<Rightarrow> string \<Rightarrow> lto_state \<Rightarrow> string \<Rightarrow> 'w \<Rightarrow> freshness_report \<times> 'w" where
  "freshness_report_at rd W repo st actual_head w =
     foldl (freshness_step W repo (st_current_phase st) actual_head) (no_decisions, w)
       (parse_decision_entries rd (st_user_decisions st))"

definition freshness_report_now ::
    "(json \<Rightarrow> decision_record option) \<Rightarrow> 'w world \<Rightarrow> string \<Rightarrow> lto_state \<Rightarrow> 'w \<Rightarrow> freshness_report \<times> 'w" where
  "freshness_report_now rd W repo st w =
     (let (actual, w') = git_status W w repo in freshness_report_at rd W repo st (gs_head actual) w')"

definition rebase_line :: "rebase_required \<Rightarrow> string" where
  "rebase_line x =
     (''DECISION_REBASE_REQUIRED id='' @ (rr_id x) @ '' text='' @ (single_line (rr_text x)) @ '' reason='' @ (rr_reason x) @ '' reaffirm='' @ (rr_reaffirm_command x))"

definition render_freshness_text :: "freshness_report \<Rightarrow> string" where
  "render_freshness_text rep = join_str [CHR 0x0A]
     ((if fr_rebase_required rep = [] then [(''decisions: '' @ (show_nat (fr_anchored rep)) @ '' anchored, fresh'')]
       else (''decisions: '' @ (show_nat (fr_anchored rep)) @ '' anchored, '' @ (show_nat (length (fr_rebase_required rep))) @ '' require rebase'')
            # map rebase_line (fr_rebase_required rep))
      @ (if 0 < fr_legacy rep
         then [(''decisions: '' @ (show_nat (fr_legacy rep)) @ '' legacy; '' @ [CHR 0xE6, CHR 0x97, CHR 0xA0, CHR 0xE9, CHR 0x94, CHR 0x9A, CHR 0xE7, CHR 0x82, CHR 0xB9, CHR 0xEF, CHR 0xBC, CHR 0x88] @ ''legacy'' @ [CHR 0xEF, CHR 0xBC, CHR 0x89, CHR 0xEF, CHR 0xBC, CHR 0x8C, CHR 0xE5, CHR 0xBB, CHR 0xBA, CHR 0xE8, CHR 0xAE, CHR 0xAE, CHR 0xE8, CHR 0xA1, CHR 0xA5, CHR 0xE5, CHR 0xBD, CHR 0x95])] else []))"

definition rebase_json :: "rebase_required \<Rightarrow> json" where
  "rebase_json x = jobj [(''id'', JStr (rr_id x)), (''text'', JStr (rr_text x)), (''reason'', JStr (rr_reason x)),
     (''reaffirm_command'', JStr (rr_reaffirm_command x))]"

definition freshness_json :: "freshness_report \<Rightarrow> json" where
  "freshness_json rep = jobj [(''anchored'', jnat (fr_anchored rep)), (''legacy'', jnat (fr_legacy rep)),
     (''rebase_required'', JArr (map rebase_json (fr_rebase_required rep)))]"

subsection \<open>Listing\<close>

definition entry_json :: "decision_entry \<Rightarrow> json" where
  "entry_json e =
     (case e of
        Typed r \<Rightarrow> jobj [(''kind'', JStr ''typed''), (''record'', record_json r)]
      | Legacy v \<Rightarrow> jobj [(''kind'', JStr ''legacy''), (''value'', v), (''status'', JStr ([CHR 0xE6, CHR 0x97, CHR 0xA0, CHR 0xE9, CHR 0x94, CHR 0x9A, CHR 0xE7, CHR 0x82, CHR 0xB9, CHR 0xEF, CHR 0xBC, CHR 0x88] @ ''legacy'' @ [CHR 0xEF, CHR 0xBC, CHR 0x89, CHR 0xEF, CHR 0xBC, CHR 0x8C, CHR 0xE5, CHR 0xBB, CHR 0xBA, CHR 0xE8, CHR 0xAE, CHR 0xAE, CHR 0xE8, CHR 0xA1, CHR 0xA5, CHR 0xE5, CHR 0xBD, CHR 0x95]))])"

definition entry_line :: "(json \<Rightarrow> string) \<Rightarrow> decision_entry \<Rightarrow> string" where
  "entry_line write e =
     (case e of
        Typed r \<Rightarrow>
          ((de_id r) @ '': '' @ (single_line (de_text r)) @ '' [scope_phase='' @ (opt_get_or ''none'' (sc_phase (de_scope r))) @ '' scope_paths='' @ (if sc_paths (de_scope r) = [] then ''none'' else join_str '','' (sc_paths (de_scope r))) @ '' anchor_head='' @ (short_head (an_head (de_anchor r))) @ '' anchor_phase='' @ (an_phase (de_anchor r)) @ '' reaffirmed_at='' @ (opt_get_or ''none'' (de_reaffirmed_at r)) @ '']'')
      | Legacy v \<Rightarrow> ([CHR 0xE6, CHR 0x97, CHR 0xA0, CHR 0xE9, CHR 0x94, CHR 0x9A, CHR 0xE7, CHR 0x82, CHR 0xB9, CHR 0xEF, CHR 0xBC, CHR 0x88] @ ''legacy'' @ [CHR 0xEF, CHR 0xBC, CHR 0x89, CHR 0xEF, CHR 0xBC, CHR 0x8C, CHR 0xE5, CHR 0xBB, CHR 0xBA, CHR 0xE8, CHR 0xAE, CHR 0xAE, CHR 0xE8, CHR 0xA1, CHR 0xA5, CHR 0xE5, CHR 0xBD, CHR 0x95] @ '': '' @ (write v)))"

definition render_entries_text :: "(json \<Rightarrow> string) \<Rightarrow> decision_entry list \<Rightarrow> string list" where
  "render_entries_text write entries = (if entries = [] then [''decisions: none''] else map (entry_line write) entries)"

definition cmd_list ::
    "(json \<Rightarrow> decision_record option) \<Rightarrow> (json \<Rightarrow> string) \<Rightarrow> (json \<Rightarrow> string) \<Rightarrow> bool \<Rightarrow> lto_state \<Rightarrow> string list" where
  "cmd_list rd write pretty as_json st =
     (let entries = parse_decision_entries rd (st_user_decisions st) in
      if as_json then [pretty (JArr (map entry_json entries))] else render_entries_text write entries)"

subsection \<open>Properties\<close>

lemma suffixed_inj: "suffixed base n = suffixed base m \<Longrightarrow> n = m"
  by (simp add: suffixed_def show_nat_inj)

lemma not_free: "\<not> id_free entries i \<longleftrightarrow> i \<in> set (List.map_filter entry_id entries)"
  by (induction entries) (auto simp: id_free_def List.map_filter_simps split: option.splits)

lemma length_map_filter: "length (List.map_filter f xs) \<le> length xs"
  by (induction xs) (auto simp: List.map_filter_simps split: option.splits)

lemma some_suffix_free: "\<exists>n \<in> set [2..<length entries + 3]. id_free entries (suffixed base n)"
proof (rule ccontr)
  assume "\<not> ?thesis"
  then have "suffixed base ` set [2..<length entries + 3] \<subseteq> set (List.map_filter entry_id entries)"
    using not_free by blast
  then have "card (suffixed base ` set [2..<length entries + 3]) \<le> length entries"
    by (meson List.finite_set card_length card_mono le_trans length_map_filter)
  moreover have "inj_on (suffixed base) (set [2..<length entries + 3])"
    using suffixed_inj by (auto simp: inj_on_def)
  then have "card (suffixed base ` set [2..<length entries + 3]) = length entries + 1"
    by (simp add: card_image)
  ultimately show False by simp
qed

lemma next_id_free: "id_free entries (next_id entries now)"
proof -
  obtain n where n: "List.find (\<lambda>n. id_free entries (suffixed (id_base now) n)) [2..<length entries + 3] = Some n"
    using some_suffix_free [of entries "id_base now"] by (metis (mono_tags, lifting) find_None_iff option.exhaust)
  then have "id_free entries (suffixed (id_base now) n)" unfolding find_Some_iff by blast
  with n show ?thesis by (simp only: next_id_def Let_def opt_get_or_simps split: if_split) blast
qed

lemma parsed_legacy: "Legacy v \<in> set (parse_decision_entries rd x) \<Longrightarrow> is_array x \<Longrightarrow> rd v = None"
  by (cases x) (auto simp: parse_decision_entries_def is_array_def parse_decision_entry_def split: option.splits)

text \<open>What a state says of its decisions: a list, whose entries have ids of their own.\<close>

definition decisions_ok :: "(json \<Rightarrow> decision_record option) \<Rightarrow> lto_state \<Rightarrow> bool" where
  "decisions_ok rd st \<longleftrightarrow>
     (st_user_decisions st = JNull \<or> is_array (st_user_decisions st))
     \<and> distinct (List.map_filter entry_id (parse_decision_entries rd (st_user_decisions st)))"

lemma decisions_ok_legacy:
  "decisions_ok rd st \<Longrightarrow> Legacy v \<in> set (parse_decision_entries rd (st_user_decisions st)) \<Longrightarrow> rd v = None"
  by (auto simp: decisions_ok_def dest: parsed_legacy) (simp add: parse_decision_entries_def)

lemma map_filter_mem: "x \<in> set xs \<Longrightarrow> f x = Some y \<Longrightarrow> y \<in> set (List.map_filter f xs)"
  by (induction xs) (auto simp: List.map_filter_simps split: option.splits)

lemma map_filter_append: "List.map_filter f (xs @ ys) = List.map_filter f xs @ List.map_filter f ys"
  by (simp add: List.map_filter_def)

text \<open>
  Recording a decision appends it: every decision recorded before is kept as it was, in its
  order, the new one is anchored to the head and the phase it was made at, and its id is one no
  other entry has - also when two are recorded in the same second.
\<close>

theorem recording_appends_a_new_decision:
  assumes serde: "\<And>r. rd (record_json r) = Some r"
    and ok: "decisions_ok rd st"
    and ran: "cmd_record rd W repo now opts st w = (Inr saved, w')"
  shows "\<exists>r. parse_decision_entries rd (st_user_decisions (ds_state saved))
        = parse_decision_entries rd (st_user_decisions st) @ [Typed r]
      \<and> an_phase (de_anchor r) = st_current_phase st
      \<and> an_head (de_anchor r) = gs_head (fst (git_status W w repo))
      \<and> decisions_ok rd (ds_state saved)"
proof -
  let ?es = "parse_decision_entries rd (st_user_decisions st)"
  let ?r = "new_record opts st ?es now (gs_head (fst (git_status W w repo)))"
  have state: "st_user_decisions (ds_state saved) = decision_entries_to_value record_json (?es @ [Typed ?r])"
    using ran by (auto simp: cmd_record_def Let_def split: if_splits prod.splits)
  have "parse_decision_entries rd (decision_entries_to_value record_json (?es @ [Typed ?r])) = ?es @ [Typed ?r]"
    by (rule parse_written_entries) (auto simp: serde decisions_ok_legacy [OF ok])
  moreover have "is_array (st_user_decisions (ds_state saved))"
    by (simp add: state decision_entries_to_value_def is_array_def)
  moreover have "next_id ?es now \<notin> set (List.map_filter entry_id ?es)"
    using next_id_free not_free by blast
  ultimately have "decisions_ok rd (ds_state saved)" "parse_decision_entries rd (st_user_decisions (ds_state saved)) = ?es @ [Typed ?r]"
    using ok by (auto simp: decisions_ok_def state map_filter_append List.map_filter_simps entry_id_def new_record_def)
  then show ?thesis by (intro exI [of _ ?r]) (simp add: new_record_def)
qed

lemma reaffirm_first_Inr:
  "reaffirm_first i f es = Inr (es', r') \<Longrightarrow>
     \<exists>xs r ys. es = xs @ Typed r # ys \<and> es' = xs @ Typed (f r) # ys \<and> de_id r = i \<and> r' = f r"
proof (induction es arbitrary: es' r')
  case (Cons e es)
  show ?case
  proof (cases "\<exists>r. e = Typed r \<and> de_id r = i")
    case True
    then show ?thesis using Cons.prems by (intro exI [of _ "[]"]) auto
  next
    case False
    then obtain es'' where rec: "reaffirm_first i f es = Inr (es'', r')" and es': "es' = e # es''"
      using Cons.prems by (cases e) (auto simp: bindr_Inr_iff split: if_splits)
    from Cons.IH [OF rec] obtain xs r ys where "es = xs @ Typed r # ys" "es'' = xs @ Typed (f r) # ys"
        "de_id r = i" "r' = f r" by blast
    then show ?thesis by (intro exI [of _ "e # xs"] exI [of _ r] exI [of _ ys]) (simp add: es')
  qed
qed simp

text \<open>A report names only decisions that have drifted.\<close>

lemma same_head_fresh:
  "h \<noteq> [] \<Longrightarrow> h \<noteq> ''unknown'' \<Longrightarrow> head_drift W w repo h h = (''none'', w)"
  by (simp add: head_drift_def)

lemma freshness_step_other:
  assumes "i \<notin> rr_id ` set (fr_rebase_required (fst a))"
    and "\<forall>r. e = Typed r \<and> de_id r = i \<longrightarrow> an_phase (de_anchor r) = phase \<and> an_head (de_anchor r) = h"
    and "h \<noteq> []" "h \<noteq> ''unknown''"
  shows "i \<notin> rr_id ` set (fr_rebase_required (fst (freshness_step W repo phase h a e)))"
proof (cases e)
  case (Legacy v)
  then show ?thesis using assms(1) by (cases a) (simp add: freshness_step_def)
next
  case (Typed r)
  show ?thesis
  proof (cases "de_id r = i")
    case True
    with assms(2) Typed have "an_phase (de_anchor r) = phase" "an_head (de_anchor r) = h" by blast+
    then show ?thesis
      using assms Typed
      by (cases a) (simp add: freshness_step_def same_head_fresh head_reason_def phase_reason_def Let_def)
  next
    case False
    then show ?thesis
      using assms(1) Typed by (cases a) (auto simp: freshness_step_def Let_def split: prod.splits)
  qed
qed

lemma freshness_fold_other:
  assumes "i \<notin> rr_id ` set (fr_rebase_required (fst a))"
    and "\<forall>r. Typed r \<in> set es \<and> de_id r = i \<longrightarrow> an_phase (de_anchor r) = phase \<and> an_head (de_anchor r) = h"
    and "h \<noteq> []" "h \<noteq> ''unknown''"
  shows "i \<notin> rr_id ` set (fr_rebase_required (fst (foldl (freshness_step W repo phase h) a es)))"
  using assms(1,2)
proof (induction es arbitrary: a)
  case (Cons e es)
  then show ?case
    using freshness_step_other [OF Cons.prems(1) _ assms(3,4), of e phase W repo] by auto
qed simp

text \<open>
  A decision that was reaffirmed is fresh: as long as the run stays in the phase and git at the
  head it was reaffirmed at, no report asks for its rebase.
\<close>

theorem reaffirmed_decision_is_fresh:
  assumes serde: "\<And>r. rd (record_json r) = Some r"
    and ok: "decisions_ok rd st"
    and ran: "cmd_reaffirm rd W repo now i st w = (Inr saved, w')"
    and head: "gs_head (fst (git_status W w repo)) = h" "h \<noteq> []" "h \<noteq> ''unknown''"
  shows "i \<notin> rr_id ` set (fr_rebase_required (fst (freshness_report_at rd W repo (ds_state saved) h w')))"
proof -
  let ?es = "parse_decision_entries rd (st_user_decisions st)"
  let ?f = "reaffirmed h (st_current_phase st) now"
  obtain es r where first: "reaffirm_first i ?f ?es = Inr (es, r)"
      and state: "ds_state saved = st\<lparr> st_user_decisions := decision_entries_to_value record_json es \<rparr>"
    using ran head by (auto simp: cmd_reaffirm_def Let_def bindr_Inr_iff split: prod.splits)
  from reaffirm_first_Inr [OF first] obtain xs r0 ys where
    es: "?es = xs @ Typed r0 # ys" "es = xs @ Typed (?f r0) # ys" and id: "de_id r0 = i" by blast
  have "rd v = None" if "Legacy v \<in> set es" for v
    using decisions_ok_legacy [OF ok, of v] that es by auto
  then have "parse_decision_entries rd (st_user_decisions (ds_state saved)) = es"
    by (simp add: state parse_written_entries serde)
  moreover have "i \<notin> set (List.map_filter entry_id xs)" "i \<notin> set (List.map_filter entry_id ys)"
    using ok id es by (auto simp: decisions_ok_def map_filter_append List.map_filter_simps entry_id_def)
  then have "Typed r \<in> set xs \<union> set ys \<Longrightarrow> de_id r \<noteq> i" for r
    using map_filter_mem [of "Typed r" _ entry_id "de_id r"] by (auto simp: entry_id_def)
  then have "\<forall>r. Typed r \<in> set es \<and> de_id r = i \<longrightarrow>
      an_phase (de_anchor r) = st_current_phase (ds_state saved) \<and> an_head (de_anchor r) = h"
    using es by (auto simp: reaffirmed_def state)
  ultimately show ?thesis
    unfolding freshness_report_at_def
    by (intro freshness_fold_other head) (auto simp: no_decisions_def)
qed

text \<open>
  Outside of a repository the head is \<open>unknown\<close>, and a decision that was reaffirmed there is asked
  for again.
\<close>

lemma unknown_head_stays_stale:
  "head_drift W w repo ''unknown'' ''unknown'' = (''unreachable'', w)"
  by (simp add: head_drift_def)

subsection \<open>A run with two decisions\<close>

definition demo_record_of :: "json \<Rightarrow> decision_record option" where
  "demo_record_of v =
     (case (jget_str v ''id'', jget_str v ''text'', jget v ''scope'', jget v ''anchor'') of
        (Some i, Some t, Some sc, Some an) \<Rightarrow>
          (case (opt_mapM as_str (json_array (opt_get_or JNull (jget sc ''paths''))),
                 jget_str an ''head'', jget_str an ''phase'', jget_str an ''recorded_at'') of
             (Some ps, Some h, Some p, Some at_time) \<Rightarrow>
               Some \<lparr> de_id = i, de_text = t, de_scope = \<lparr> sc_phase = jget_str sc ''phase'', sc_paths = ps \<rparr>,
                      de_anchor = \<lparr> an_head = h, an_phase = p, an_recorded_at = at_time \<rparr>,
                      de_reaffirmed_at = jget_str v ''reaffirmed_at'' \<rparr>
           | _ \<Rightarrow> None)
      | _ \<Rightarrow> None)"

lemma opt_mapM_strings: "opt_mapM as_str (map JStr xs) = Some xs"
  by (induction xs) simp_all

lemma demo_record_serde: "demo_record_of (record_json r) = Some r"
proof -
  have opt: "Option.bind (Some (jopt JStr x)) as_str = x" for x
    by (cases x) (simp_all add: jopt_def as_str_def)
  show ?thesis
    using opt [of "de_reaffirmed_at r"] opt [of "sc_phase (de_scope r)"]
    by (simp add: demo_record_of_def record_json_def scope_json_def anchor_json_def jget_with_def jget_jobj
        json_array_def as_array_def opt_mapM_strings)
qed

definition demo_git :: "unit world" where
  "demo_git = \<lparr> w_git = (\<lambda>w repo args. (Inr \<lparr> co_success = True, co_code = Some 0, co_stdout = ''c0ffee'', co_stderr = [] \<rparr>, w)),
     w_shell = (\<lambda>w repo c. (Inl [], w)), w_exists = (\<lambda>w p. True), w_mkdir = (\<lambda>w p. (Inr (), w)) \<rparr>"

definition demo_options :: record_options where
  "demo_options = \<lparr> ro_text = ''keep the gate'', ro_scope_phase = None, ro_scope_paths = [] \<rparr>"

definition saved_of :: "(string + decision_saved) \<times> unit \<Rightarrow> decision_saved" where
  "saved_of r = (case fst r of Inr s \<Rightarrow> s | Inl _ \<Rightarrow>
     \<lparr> ds_state = default_state [], ds_event = default_event, ds_printed = [] \<rparr>)"

definition demo_recorded :: decision_saved where
  "demo_recorded = saved_of (cmd_record demo_record_of demo_git ''/r'' ''t1'' demo_options (default_state ''t0'') ())"

lemma demo_git_status: "git_status demo_git w repo = (\<lparr> gs_head = ''c0ffee'', gs_branch = ''c0ffee'', gs_dirty = True \<rparr>, ())"
  by code_simp

lemma demo_records:
  "cmd_record demo_record_of demo_git ''/r'' ''t1'' demo_options (default_state ''t0'') () = (Inr demo_recorded, ())"
  by (simp add: demo_recorded_def saved_of_def cmd_record_def demo_git_status Let_def) (simp add: demo_options_def, code_simp)

lemma demo_decisions_ok: "decisions_ok demo_record_of (default_state ''t0'')"
  by (simp add: decisions_ok_def default_state_def parse_decision_entries_def is_array_def List.map_filter_simps)

theorem recording_appends_a_new_decision_witness:
  "\<exists>r. parse_decision_entries demo_record_of (st_user_decisions (ds_state demo_recorded))
        = parse_decision_entries demo_record_of (st_user_decisions (default_state ''t0'')) @ [Typed r]
      \<and> an_phase (de_anchor r) = st_current_phase (default_state ''t0'')
      \<and> an_head (de_anchor r) = gs_head (fst (git_status demo_git () ''/r''))
      \<and> decisions_ok demo_record_of (ds_state demo_recorded)"
  by (rule recording_appends_a_new_decision [OF demo_record_serde demo_decisions_ok demo_records])

definition demo_reaffirmed :: decision_saved where
  "demo_reaffirmed =
     saved_of (cmd_reaffirm demo_record_of demo_git ''/r'' ''t2'' ''decision-t1'' (ds_state demo_recorded) ())"

lemma demo_reaffirms:
  "cmd_reaffirm demo_record_of demo_git ''/r'' ''t2'' ''decision-t1'' (ds_state demo_recorded) () = (Inr demo_reaffirmed, ())"
proof -
  have "is_ok (fst (cmd_reaffirm demo_record_of demo_git ''/r'' ''t2'' ''decision-t1'' (ds_state demo_recorded) ()))"
    by code_simp
  then show ?thesis
    unfolding demo_reaffirmed_def saved_of_def
    by (cases "cmd_reaffirm demo_record_of demo_git ''/r'' ''t2'' ''decision-t1'' (ds_state demo_recorded) ()")
       (auto simp: is_ok_def split: sum.splits)
qed

lemma demo_recorded_ok: "decisions_ok demo_record_of (ds_state demo_recorded)"
  by code_simp

theorem reaffirmed_decision_is_fresh_witness:
  "''decision-t1'' \<notin> rr_id ` set (fr_rebase_required
     (fst (freshness_report_at demo_record_of demo_git ''/r'' (ds_state demo_reaffirmed) ''c0ffee'' ())))"
  by (rule reaffirmed_decision_is_fresh [OF demo_record_serde demo_recorded_ok demo_reaffirms])
     (simp_all add: demo_git_status)

end
