(* ===== verification/Lto_Checks.thy ===== *)
theory Lto_Checks
  imports Lto_Decision_Record Lto_Autopilot Lto_Ledger
begin

text \<open>
  \<open>lto check\<close> and the phase report, from \<open>src/src/commands/ops.rs\<close>: the state file of a run, its
  readiness, its delivery contract, the git anchor, the worktree and the audit ledger are looked at,
  and for a target phase the evidence it needs. What is missing is an error in strict mode and a
  warning otherwise. The hooks of git are here too. Files, git and serde are parameters.
\<close>

subsection \<open>What a check looks at\<close>

record 'w check_env =
  ce_world :: "'w world"
  ce_current :: "string + string"
  ce_exists :: "string \<Rightarrow> bool"
  ce_read :: "string \<Rightarrow> string + string"
  ce_load_state :: "string \<Rightarrow> string + lto_state"
  ce_relative :: "string \<Rightarrow> string + string"
  ce_record_of :: "json \<Rightarrow> decision_record option"

record ledger_check =
  lc_has_rounds :: bool
  lc_verdict :: "ledger_verdict option"
  lc_sequence :: "string option"
  lc_diagnostics :: "ledger_diagnostics option"
  lc_advisory :: "string option"
  lc_error :: "string option"

record check_outcome =
  ck_run_id :: string
  ck_errors :: "string list"
  ck_warnings :: "string list"
  ck_phase_report :: "json option"
  ck_ledger :: "ledger_check option"

definition no_findings :: check_outcome where
  "no_findings = \<lparr> ck_run_id = [], ck_errors = [], ck_warnings = [], ck_phase_report = None, ck_ledger = None \<rparr>"

record check_options =
  co_run_id :: "string option"
  co_strict :: bool
  co_to_phase :: "string option"
  co_json :: bool

definition add_error :: "string \<Rightarrow> check_outcome \<Rightarrow> check_outcome" where
  "add_error m oc = oc\<lparr> ck_errors := ck_errors oc @ [m] \<rparr>"

definition add_warning :: "string \<Rightarrow> check_outcome \<Rightarrow> check_outcome" where
  "add_warning m oc = oc\<lparr> ck_warnings := ck_warnings oc @ [m] \<rparr>"

definition push_strict_issue :: "bool \<Rightarrow> string \<Rightarrow> check_outcome \<Rightarrow> check_outcome" where
  "push_strict_issue strict m oc = (if strict then add_error m oc else add_warning m oc)"

text \<open>Some issues read differently when they are warnings.\<close>

definition push_issue :: "bool \<Rightarrow> string \<Rightarrow> string \<Rightarrow> check_outcome \<Rightarrow> check_outcome" where
  "push_issue strict err warning oc = (if strict then add_error err oc else add_warning warning oc)"

subsection \<open>The state\<close>

definition truncate_chars :: "string \<Rightarrow> nat \<Rightarrow> string" where
  "truncate_chars v n = chars_take n v"

definition non_empty_file :: "'w check_env \<Rightarrow> string \<Rightarrow> bool" where
  "non_empty_file E p = (case ce_read E p of Inr t \<Rightarrow> trim t \<noteq> [] | Inl _ \<Rightarrow> False)"

definition dirty_outside_lto :: "'w check_env \<Rightarrow> string \<Rightarrow> 'w \<Rightarrow> bool \<times> 'w" where
  "dirty_outside_lto E repo w =
     (let (tracked, w1) = tracked_dirty_paths (ce_world E) w repo in
      if tracked \<noteq> [] then (True, w1)
      else let (untracked, w2) = untracked_paths (ce_world E) w1 repo in (untracked \<noteq> [], w2))"

definition collect_c2_state_checks :: "lto_state \<Rightarrow> bool \<Rightarrow> check_outcome \<Rightarrow> check_outcome" where
  "collect_c2_state_checks st strict oc =
     (let ready = assess_run_readiness (st_goal st) (st_done_when st) (st_why st) (st_host_runtime st);
          contract = completeness_missing (st_delivery_contract st);
          o1 = (if ra_missing ready = [] then oc
                else push_strict_issue strict (''run readiness missing: '' @ (join_str '', '' (ra_missing ready))) oc);
          o2 = (if ra_advisory ready = [] then o1
                else add_warning (''run readiness advisory: '' @ (join_str '', '' (ra_advisory ready))) o1);
          o3 = (if co_missing contract = [] then o2
                else push_strict_issue strict (''delivery contract incomplete: '' @ (join_str '', '' (co_missing contract))) o2)
      in if co_present contract \<and> co_advisory contract \<noteq> []
         then add_warning (''delivery contract advisory: '' @ (join_str '', '' (co_advisory contract))) o3 else o3)"

definition unknown_head :: "string \<Rightarrow> bool" where
  "unknown_head h \<longleftrightarrow> h = [] \<or> h = ''unknown''"

definition drift_message :: "string \<Rightarrow> string \<Rightarrow> string \<Rightarrow> string" where
  "drift_message drift recorded actual =
     (''git HEAD '' @ drift @ '': '' @ (truncate_chars recorded 8) @ '' -> '' @ (truncate_chars actual 8))"

definition collect_git_anchor_checks ::
    "'w check_env \<Rightarrow> string \<Rightarrow> lto_state \<Rightarrow> bool \<Rightarrow> check_outcome \<Rightarrow> 'w \<Rightarrow> check_outcome \<times> 'w" where
  "collect_git_anchor_checks E repo st strict oc w =
     (let (in_repo, w1) = ensure_git_repo (ce_world E) w repo in
      if \<not> is_ok in_repo
      then (push_issue strict ''strict check requires a git worktree'' ''not a git worktree'' oc, w1)
      else
        (let recorded = ws_head (st_workspace st);
             (status, w2) = git_status (ce_world E) w1 repo;
             actual = gs_head status
         in if unknown_head recorded \<or> unknown_head actual
            then (push_issue strict ''strict check requires a real git HEAD anchor''
                    ''missing real git HEAD anchor'' oc, w2)
            else
              (let (known, w3) = commit_exists (ce_world E) w2 repo recorded in
               if \<not> known
               then (push_strict_issue strict (''recorded git HEAD not a commit: '' @ recorded) oc, w3)
               else if st_current_phase st \<noteq> ''closed'' \<and> recorded \<noteq> actual
               then (let (drift, w4) = head_drift (ce_world E) w3 repo recorded actual
                     in (push_strict_issue strict (drift_message drift recorded actual) oc, w4))
               else (oc, w3))))"

definition collect_state_checks ::
    "'w check_env \<Rightarrow> string \<Rightarrow> string \<Rightarrow> lto_state \<Rightarrow> bool \<Rightarrow> bool \<Rightarrow> check_outcome \<Rightarrow> 'w \<Rightarrow> check_outcome \<times> 'w" where
  "collect_state_checks E repo run_dir st strict include_c2 oc w =
     (let o1 = (if st_current_phase st \<in> set VALID_PHASES then oc
                else add_error (''invalid current_phase: '' @ (st_current_phase st)) oc);
          o2 = (if include_c2 then collect_c2_state_checks st strict o1 else o1);
          (o3, w1) = collect_git_anchor_checks E repo st strict o2 w;
          (dirty, w2) = dirty_outside_lto E repo w1;
          o4 = (if dirty then push_strict_issue strict ''worktree has uncommitted changes outside .lto'' o3 else o3);
          o5 = (if st_current_phase st = ''closed'' \<and> \<not> non_empty_file E (path_join run_dir ''handoff.md'')
                then add_error ''closed run missing non-empty handoff.md'' o4 else o4)
      in (o5, w2))"

subsection \<open>The ledger\<close>

definition ledger_error_str :: "ledger_error \<Rightarrow> string" where
  "ledger_error_str e = (''non-numeric '' @ (ne_column e) @ '' count in '' @ (ne_label e) @ '': '' @ (str_debug (ne_raw e)))"

definition ledger_failed :: "string \<Rightarrow> ledger_check" where
  "ledger_failed e = \<lparr> lc_has_rounds = False, lc_verdict = None, lc_sequence = None, lc_diagnostics = None,
     lc_advisory = None, lc_error = Some e \<rparr>"

definition ledger_of_rounds :: "bool \<Rightarrow> ledger_round list \<Rightarrow> ledger_check" where
  "ledger_of_rounds strict rounds =
     \<lparr> lc_has_rounds = (rounds \<noteq> []), lc_verdict = Some (evaluate_ledger rounds strict),
       lc_sequence = opt_filter (\<lambda>s. s \<noteq> []) (Some (ledger_sequence rounds)),
       lc_diagnostics = diagnose rounds, lc_advisory = None, lc_error = None \<rparr>"

definition read_ledger :: "'w check_env \<Rightarrow> string \<Rightarrow> bool \<Rightarrow> ledger_check" where
  "read_ledger E path strict =
     (case ce_read E path of
        Inl e \<Rightarrow> ledger_failed e
      | Inr t \<Rightarrow>
          (case parse_ledger t of
             Inl e \<Rightarrow> ledger_failed (ledger_error_str e)
           | Inr rounds \<Rightarrow> ledger_of_rounds strict rounds))"

definition ledger_issue :: "bool \<Rightarrow> ledger_check \<Rightarrow> check_outcome \<Rightarrow> check_outcome" where
  "ledger_issue strict status oc =
     (case (lc_error status, lc_verdict status) of
        (Some e, _) \<Rightarrow> push_strict_issue strict (''ledger check failed: '' @ e) oc
      | (None, None) \<Rightarrow> oc
      | (None, Some v) \<Rightarrow>
          (if \<not> lc_has_rounds status
           then (if v = NoObservations then add_warning ''ledger exists but has no filled rounds'' oc else oc)
           else if v = Converged then oc
           else push_strict_issue strict
             (case lc_sequence status of
                Some s \<Rightarrow> (''ledger not converged: '' @ (verdict_str v) @ '' ('' @ s @ '')'')
              | None \<Rightarrow> (''ledger not converged: '' @ (verdict_str v))) oc))"

definition collect_ledger_check ::
    "'w check_env \<Rightarrow> string \<Rightarrow> bool \<Rightarrow> check_outcome \<Rightarrow> ledger_check option \<times> check_outcome" where
  "collect_ledger_check E run_dir strict oc =
     (let path = path_join run_dir ''audit-ledger.md'' in
      if \<not> ce_exists E path then (None, add_warning ''no audit-ledger.md'' oc)
      else let status = read_ledger E path strict in (Some status, ledger_issue strict status oc))"

subsection \<open>The phase report\<close>

record phase_check =
  pc_id :: string
  pc_status :: string
  pc_required :: bool
  pc_detail :: string

definition check_json :: "phase_check \<Rightarrow> json" where
  "check_json c = jobj [(''id'', JStr (pc_id c)), (''status'', JStr (pc_status c)),
     (''required'', JBool (pc_required c)), (''detail'', JStr (pc_detail c))]"

definition phase_check_of :: "string \<Rightarrow> string \<Rightarrow> bool \<Rightarrow> string \<Rightarrow> phase_check" where
  "phase_check_of i s required detail =
     \<lparr> pc_id = i, pc_status = s, pc_required = required, pc_detail = single_line detail \<rparr>"

definition run_readiness_phase_checks :: "lto_state \<Rightarrow> phase_check list" where
  "run_readiness_phase_checks st =
     (let a = assess_run_readiness (st_goal st) (st_done_when st) (st_why st) (st_host_runtime st) in
      phase_check_of ''run_readiness'' (if run_is_ready a then ''ok'' else ''missing'') True
        (if ra_missing a = [] then ''goal and done_when present'' else (''missing '' @ (join_str '', '' (ra_missing a))))
      # (if ra_advisory a = [] then []
         else [phase_check_of ''run_readiness_advisory'' ''warn'' False (''advisory '' @ (join_str '', '' (ra_advisory a)))]))"

definition contract_phase_check :: "lto_state \<Rightarrow> phase_check list" where
  "contract_phase_check st =
     (let c = st_delivery_contract st; a = completeness_missing c in
      if \<not> co_present a then []
      else
        phase_check_of ''delivery_contract_complete'' (if co_missing a = [] then ''ok'' else ''missing'') True
          (if co_missing a = []
           then (''targets='' @ (show_nat (length (dc_targets c))) @ '', constraints='' @ (show_nat (length (dc_constraints c))) @ '', instruments='' @ (show_nat (length (dc_instruments c))) @ '', forced_entropy='' @ (show_nat (length (dc_forced_entropy c))))
           else (''missing '' @ (join_str '', '' (co_missing a))))
        # (if co_advisory a = [] then []
           else [phase_check_of ''delivery_contract_advisory'' ''warn'' False (''advisory '' @ (join_str '', '' (co_advisory a)))]))"

text \<open>The check of the ledger is never required, whatever its status says.\<close>

definition ledger_phase_check :: "string \<Rightarrow> ledger_check option \<Rightarrow> bool \<Rightarrow> phase_check" where
  "ledger_phase_check run_dir ledger required =
     (let (s, detail) =
        (case ledger of
           None \<Rightarrow> (''warn'', ''no audit-ledger.md'')
         | Some l \<Rightarrow>
             (case lc_error l of
                Some e \<Rightarrow> (''warn'', e)
              | None \<Rightarrow>
                  if \<not> lc_has_rounds l then (''warn'', ''ledger exists but has no filled rounds'')
                  else (case lc_verdict l of
                      Some v \<Rightarrow>
                        if v = Converged then (''ok'', ''audit-ledger.md: CONVERGED'')
                        else (if required then ''missing'' else ''warn'',
                              ((path_join run_dir ''audit-ledger.md'') @ '': '' @ (verdict_str v)))
                    | None \<Rightarrow> (''warn'', ''unknown ledger status''))))
      in phase_check_of ''audit_ledger_converged_if_present'' s False detail)"

definition done_tasks_without_evidence :: "lto_state \<Rightarrow> string list" where
  "done_tasks_without_evidence st =
     map (\<lambda>t. opt_get_or ''?'' (task_id t))
       (filter (\<lambda>t. task_status t = Some ''done'' \<and> opt_get_or [] (jget_with as_array t ''evidence'') = [])
         (json_array (st_tasks st)))"

definition direction_check :: "lto_state \<Rightarrow> string \<Rightarrow> phase_check" where
  "direction_check st target =
     (let d = phase_direction (st_current_phase st) target in
      phase_check_of ''phase_direction'' (if d = ''backward'' then ''warn'' else ''ok'') False
        ((st_current_phase st) @ '' -> '' @ target @ '' ('' @ d @ '')''))"

definition counted_check :: "string \<Rightarrow> nat \<Rightarrow> string \<Rightarrow> phase_check" where
  "counted_check i n what =
     phase_check_of i (if n = 0 then ''ok'' else ''missing'') True (if n = 0 then ''none'' else ((show_nat n) @ '' '' @ what))"

definition implementation_checks :: "string \<Rightarrow> lto_state \<Rightarrow> ledger_check option \<Rightarrow> phase_check list" where
  "implementation_checks run_dir st ledger =
     (let tasks = json_array (st_tasks st) in
      run_readiness_phase_checks st @ contract_phase_check st
      @ [counted_check ''no_unresolved_blocks'' (length (unresolved_blocks st) + length (open_unverified_risks st))
           ''unresolved item(s)'',
         ledger_phase_check run_dir ledger False,
         phase_check_of ''tasks_present'' (if tasks = [] then ''warn'' else ''ok'') False
           (if tasks = [] then ''no tasks found'' else ((show_nat (length tasks)) @ '' task(s)''))])"

definition open_tasks :: "lto_state \<Rightarrow> json list" where
  "open_tasks st = filter (\<lambda>t. task_status t \<notin> {Some ''done'', Some ''skipped''}) (json_array (st_tasks st))"

definition closed_checks :: "'w check_env \<Rightarrow> string \<Rightarrow> lto_state \<Rightarrow> ledger_check option \<Rightarrow> phase_check list" where
  "closed_checks E run_dir st ledger =
     (let bare = done_tasks_without_evidence st; handoff = path_join run_dir ''handoff.md'';
          manifest = path_join run_dir ''artifacts.json'' in
      run_readiness_phase_checks st @ contract_phase_check st
      @ [counted_check ''no_open_tasks'' (length (open_tasks st)) ''open task(s)'',
         counted_check ''no_unresolved_blocks'' (length (unresolved_blocks st)) ''unresolved gate block(s)'',
         counted_check ''risk_points_verified'' (length (open_unverified_risks st)) ''open unverified risk point(s)'',
         phase_check_of ''done_tasks_have_evidence'' (if bare = [] then ''ok'' else ''missing'') True
           (if bare = [] then ''all done tasks carry evidence''
            else (''done task(s) missing evidence: '' @ (join_str '', '' bare))),
         ledger_phase_check run_dir ledger True,
         phase_check_of ''handoff_exists'' (if non_empty_file E handoff then ''ok'' else ''missing'') True
           (if non_empty_file E handoff then ''exists'' else ''missing non-empty handoff.md''),
         phase_check_of ''artifact_manifest_exists'' (if ce_exists E manifest then ''ok'' else ''warn'') False
           (case ce_relative E manifest of Inr r \<Rightarrow> r | Inl _ \<Rightarrow> ''missing artifacts.json'')])"

definition phase_checks ::
    "'w check_env \<Rightarrow> string \<Rightarrow> lto_state \<Rightarrow> string \<Rightarrow> ledger_check option \<Rightarrow> phase_check list" where
  "phase_checks E run_dir st target ledger =
     direction_check st target
     # (if target = ''implementation'' then implementation_checks run_dir st ledger
        else if target = ''closed'' then closed_checks E run_dir st ledger else [])"

definition evidence_status :: "phase_check list \<Rightarrow> string" where
  "evidence_status checks =
     (if list_ex (\<lambda>c. pc_status c \<in> {''missing'', ''warn''}) checks then ''attention_required''
      else ''all_required_present'')"

definition phase_report ::
    "'w check_env \<Rightarrow> string \<Rightarrow> string \<Rightarrow> lto_state \<Rightarrow> string \<Rightarrow> ledger_check option \<Rightarrow> 'w \<Rightarrow> json \<times> 'w" where
  "phase_report E repo run_dir st target ledger w =
     (let checks = phase_checks E run_dir st target ledger;
          (decisions, w') = freshness_report_now (ce_record_of E) (ce_world E) repo st w
      in (jobj [(''run_id'', JStr (st_run_id st)), (''target_phase'', JStr target),
            (''current_phase'', JStr (st_current_phase st)),
            (''phase_direction'', JStr (phase_direction (st_current_phase st) target)),
            (''evidence_status'', JStr (evidence_status checks)), (''human_gate_required'', JBool True),
            (''decisions'', freshness_json decisions), (''checks'', JArr (map check_json checks))], w'))"

definition required_missing_check :: "json \<Rightarrow> bool" where
  "required_missing_check c \<longleftrightarrow>
     opt_get_or False (jget_bool c ''required'') \<and> jget_str c ''status'' = Some ''missing''"

definition phase_error :: "json \<Rightarrow> string" where
  "phase_error c =
     (''phase evidence missing: '' @ (opt_get_or ''?'' (jget_str c ''id'')) @ '': '' @ (opt_get_or [] (jget_str c ''detail'')))"

definition push_phase_errors :: "json \<Rightarrow> check_outcome \<Rightarrow> check_outcome" where
  "push_phase_errors report oc =
     foldl (\<lambda>oc c. if required_missing_check c then add_error (phase_error c) oc else oc) oc
       (opt_get_or [] (jget_with as_array report ''checks''))"

subsection \<open>A check\<close>

definition entropy_advice :: "lto_state \<Rightarrow> ledger_check \<Rightarrow> ledger_check" where
  "entropy_advice st l =
     (if opt_all suggests_entropy_review (lc_diagnostics l) \<and> dc_forced_entropy (st_delivery_contract st) \<noteq> []
      then l\<lparr> lc_advisory := Some (''review forced_entropy before changing hypothesis: '' @ (join_str '' | '' (dc_forced_entropy (st_delivery_contract st)))) \<rparr>
      else l)"

definition check_state ::
    "'w check_env \<Rightarrow> string \<Rightarrow> string \<Rightarrow> check_options \<Rightarrow> check_outcome \<Rightarrow> 'w \<Rightarrow> lto_state option \<times> check_outcome \<times> 'w" where
  "check_state E repo run_dir opts oc w =
     (let sp = path_join run_dir ''state.json''; mp = path_join run_dir ''run-state.md'' in
      if \<not> ce_exists E sp \<and> \<not> ce_exists E mp then (None, add_error (''missing both '' @ sp @ '' and '' @ mp) oc, w)
      else if \<not> ce_exists E sp then (None, add_error (''missing '' @ sp) oc, w)
      else case ce_load_state E sp of
        Inl e \<Rightarrow> (None, add_error (''cannot parse '' @ sp @ '': '' @ e) oc, w)
      | Inr st \<Rightarrow>
          (let (oc', w') = collect_state_checks E repo run_dir st (co_strict opts) (co_to_phase opts = None) oc w
           in (Some st, oc', w')))"

definition check_phase ::
    "'w check_env \<Rightarrow> string \<Rightarrow> string \<Rightarrow> check_options \<Rightarrow> lto_state option \<Rightarrow> ledger_check option
     \<Rightarrow> check_outcome \<Rightarrow> 'w \<Rightarrow> check_outcome \<times> 'w" where
  "check_phase E repo run_dir opts st ledger oc w =
     (case (co_to_phase opts, st) of
        (Some target, Some s) \<Rightarrow>
          (let (report, w') = phase_report E repo run_dir s target ledger w;
               oc' = (if co_strict opts then push_phase_errors report oc else oc)
           in (oc'\<lparr> ck_phase_report := Some report \<rparr>, w'))
      | _ \<Rightarrow> (oc, w))"

definition start_check :: "'w check_env \<Rightarrow> string \<Rightarrow> string option \<Rightarrow> check_outcome \<times> string" where
  "start_check E repo explicit =
     (case resolve_run_id (path_join (path_join repo ''.lto'') ''current'') (ce_current E) explicit of
        Inr r \<Rightarrow> (no_findings, r)
      | Inl e \<Rightarrow> (add_error e no_findings, opt_get_or [] explicit))"

definition collect_check :: "'w check_env \<Rightarrow> string \<Rightarrow> check_options \<Rightarrow> 'w \<Rightarrow> check_outcome \<times> 'w" where
  "collect_check E repo opts w =
     (let (o0, run_id) = start_check E repo (co_run_id opts);
          run_dir = path_join (path_join repo ''.lto'') run_id;
          (st, o1, w1) = check_state E repo run_dir opts (o0\<lparr> ck_run_id := run_id \<rparr>) w;
          (ledger, o2) = collect_ledger_check E run_dir (co_strict opts) o1;
          ledger' = (case st of Some s \<Rightarrow> map_option (entropy_advice s) ledger | None \<Rightarrow> ledger);
          (o3, w2) = check_phase E repo run_dir opts st ledger' o2 w1
      in (o3\<lparr> ck_ledger := ledger' \<rparr>, w2))"

text \<open>What is printed: the lines of the two streams in their order, and the exit code.\<close>

datatype printed = Stdout string | Stderr string

definition ledger_json :: "ledger_check \<Rightarrow> json" where
  "ledger_json l =
     jobj ([(''has_rounds'', JBool (lc_has_rounds l)), (''verdict'', jopt (\<lambda>v. JStr (verdict_str v)) (lc_verdict l)),
        (''sequence'', jopt JStr (lc_sequence l)), (''error'', jopt JStr (lc_error l))]
      @ (case lc_diagnostics l of
           None \<Rightarrow> []
         | Some d \<Rightarrow>
             [(''diagnostics'',
               jobj [(''sample_sufficiency'', JStr (sample_str (d_sample d))), (''terminal'', JStr (terminal_str (d_terminal d))),
                 (''direction'', JStr (direction_str (d_direction d))), (''oscillation'', JStr (oscillation_str (d_oscillation d))),
                 (''envelope'', JStr (envelope_str (d_envelope d))), (''confidence'', JStr (confidence_str (d_confidence d)))])])
      @ (case lc_advisory l of None \<Rightarrow> [] | Some a \<Rightarrow> [(''advisory'', JStr a)]))"

definition outcome_json :: "check_outcome \<Rightarrow> json" where
  "outcome_json oc =
     (let base = opt_get_or (jobj [(''run_id'', JStr (ck_run_id oc))]) (ck_phase_report oc);
          with_check = jset ''check'' (jobj [(''errors'', JArr (map JStr (ck_errors oc))),
            (''warnings'', JArr (map JStr (ck_warnings oc)))]) base
      in case ck_ledger oc of None \<Rightarrow> with_check | Some l \<Rightarrow> jset ''ledger'' (ledger_json l) with_check)"

definition check_line :: "json \<Rightarrow> string" where
  "check_line c =
     (let s = opt_get_or ''warn'' (jget_str c ''status'');
          status = (if s = ''ok'' then ''OK'' else if s = ''missing'' then ''MISSING'' else ''WARN'');
          scope = (if opt_get_or False (jget_bool c ''required'') then ''required'' else ''advisory'')
      in (''  '' @ status @ '' '' @ scope @ '' '' @ (opt_get_or ''?'' (jget_str c ''id'')) @ '': '' @ (opt_get_or [] (jget_str c ''detail''))))"

definition phase_report_lines :: "(json \<Rightarrow> freshness_report option) \<Rightarrow> json \<Rightarrow> string list" where
  "phase_report_lines fresh_of report =
     (''=== LTO Phase Evidence: '' @ (opt_get_or ''?'' (jget_str report ''target_phase'')) @ '' ('' @ (opt_get_or ''?'' (jget_str report ''evidence_status'')) @ '') ==='')
     # map check_line (opt_get_or [] (jget_with as_array report ''checks''))
     @ (case Option.bind (jget report ''decisions'') fresh_of of
          Some d \<Rightarrow> map (\<lambda>l. (''  '' @ l)) (str_lines (render_freshness_text d))
        | None \<Rightarrow> [])
     @ [''  HUMAN human_gate_required: true'']"

definition ledger_lines :: "ledger_check \<Rightarrow> printed list" where
  "ledger_lines l =
     (case lc_verdict l of Some v \<Rightarrow> [Stdout (''ledger verdict: '' @ (verdict_str v))] | None \<Rightarrow> [])
     @ (case lc_diagnostics l of Some d \<Rightarrow> [Stdout (''ledger diagnostics: '' @ (diagnostics_summary d))] | None \<Rightarrow> [])
     @ (case lc_advisory l of Some a \<Rightarrow> [Stderr (''ADVISORY '' @ a)] | None \<Rightarrow> [])"

definition check_output ::
    "(json \<Rightarrow> string) \<Rightarrow> (json \<Rightarrow> freshness_report option) \<Rightarrow> string \<Rightarrow> bool \<Rightarrow> check_outcome \<Rightarrow> printed list" where
  "check_output pretty fresh_of repo as_json oc =
     (if as_json then [Stdout (pretty (outcome_json oc))]
      else map (\<lambda>m. Stderr (''WARN '' @ m)) (ck_warnings oc) @ map (\<lambda>m. Stderr (''ERROR '' @ m)) (ck_errors oc)
        @ (case ck_ledger oc of Some l \<Rightarrow> ledger_lines l | None \<Rightarrow> [])
        @ (case ck_phase_report oc of Some r \<Rightarrow> map Stdout (phase_report_lines fresh_of r) | None \<Rightarrow> [])
        @ (if ck_errors oc = []
           then [Stdout (''OK '' @ (path_join (path_join repo ''.lto'') (if ck_run_id oc = [] then ''(unknown)'' else ck_run_id oc)))]
           else []))"

definition check_exit :: "check_outcome \<Rightarrow> nat" where
  "check_exit oc = (if ck_errors oc = [] then 0 else 1)"

subsection \<open>Hooks\<close>

record hook_options =
  ho_gate :: string
  ho_force :: bool
  ho_reason :: string

definition unresolved_count :: "lto_state \<Rightarrow> nat" where
  "unresolved_count st = length (unresolved_blocks st)"

text \<open>The run of a hook is the active one, when it loads; \<open>head\<close> is what git says.\<close>

definition hook_pre_commit ::
    "string option \<Rightarrow> string + lto_state \<Rightarrow> string \<Rightarrow> hook_options \<Rightarrow> string + printed list" where
  "hook_pre_commit mode loaded head opts =
     (if opt_get_or ''warn'' mode = ''off'' then Inr []
      else case loaded of
        Inl _ \<Rightarrow> Inr []
      | Inr st \<Rightarrow>
          (if 0 < unresolved_count st \<and> \<not> ho_force opts
           then Inl (''LTO: BLOCKED -- '' @ (show_nat (unresolved_count st)) @ '' unresolved blocks'')
           else Inr ((if opt_all (\<lambda>v. v \<noteq> head) (jget_str (st_gates st) ''last_reviewed_head'')
                      then [Stderr ''LTO: no review for current HEAD''] else [])
                     @ (if ho_force opts \<and> ho_reason opts \<noteq> []
                        then [Stderr (''LTO hook forced: '' @ (ho_reason opts))] else []))))"

definition hook_pre_deploy :: "string + lto_state \<Rightarrow> string + printed list" where
  "hook_pre_deploy loaded =
     (case loaded of
        Inl _ \<Rightarrow> Inl ''LTO: no active run, deploy blocked''
      | Inr st \<Rightarrow>
          (if st_current_phase st = ''closed'' then Inl ''LTO: run closed, deploy blocked''
           else if 0 < unresolved_count st
           then Inl (''LTO: '' @ (show_nat (unresolved_count st)) @ '' unresolved blocks, deploy blocked'')
           else Inr [Stdout ''LTO: pre-deploy OK'']))"

definition hook_pre_closeout :: "string + lto_state \<Rightarrow> string + printed list" where
  "hook_pre_closeout loaded =
     (case loaded of
        Inl e \<Rightarrow> Inl e
      | Inr st \<Rightarrow>
          (if 0 < unresolved_count st then Inl ''LTO: check failed, closeout blocked''
           else Inr [Stdout ''LTO: pre-closeout OK'']))"

definition cmd_hook ::
    "string option \<Rightarrow> string + lto_state \<Rightarrow> string \<Rightarrow> hook_options \<Rightarrow> string + printed list" where
  "cmd_hook mode loaded head opts =
     (if ho_gate opts = ''pre-commit'' then hook_pre_commit mode loaded head opts
      else if ho_gate opts = ''pre-deploy'' then hook_pre_deploy loaded
      else if ho_gate opts = ''pre-closeout'' then hook_pre_closeout loaded
      else Inl (''unknown gate: '' @ (ho_gate opts)))"

subsection \<open>Properties\<close>

lemma push_fields [simp]:
  "ck_errors (add_error m oc) = ck_errors oc @ [m]" "ck_errors (add_warning m oc) = ck_errors oc"
  "ck_errors (push_strict_issue strict m oc) = ck_errors oc @ (if strict then [m] else [])"
  "ck_errors (push_issue strict m m' oc) = ck_errors oc @ (if strict then [m] else [])"
  by (simp_all add: add_error_def add_warning_def push_strict_issue_def push_issue_def)

lemma phase_errors [simp]:
  "ck_errors (push_phase_errors report oc) =
     ck_errors oc @ map phase_error (filter required_missing_check (opt_get_or [] (jget_with as_array report ''checks'')))"
proof -
  have "ck_errors (foldl (\<lambda>oc c. if required_missing_check c then add_error (phase_error c) oc else oc) oc cs)
      = ck_errors oc @ map phase_error (filter required_missing_check cs)" for cs
    by (induction cs arbitrary: oc) auto
  then show ?thesis by (simp add: push_phase_errors_def)
qed

lemma c2_errors:
  "ck_errors (collect_c2_state_checks st strict oc) = [] \<Longrightarrow> ck_errors oc = []"
  by (auto simp: collect_c2_state_checks_def Let_def split: if_splits)

lemma anchor_errors:
  assumes "collect_git_anchor_checks E repo st strict oc w = (oc', w')" and "ck_errors oc' = []"
  shows "ck_errors oc = [] \<and> (strict \<longrightarrow> \<not> unknown_head (ws_head (st_workspace st)))"
  using assms by (auto simp: collect_git_anchor_checks_def Let_def split: if_splits prod.splits)

lemma state_errors:
  assumes "collect_state_checks E repo run_dir st strict c2 oc w = (oc', w')" and "ck_errors oc' = []"
  shows "ck_errors oc = [] \<and> st_current_phase st \<in> set VALID_PHASES
    \<and> (strict \<longrightarrow> \<not> unknown_head (ws_head (st_workspace st)))"
proof -
  let ?o1 = "if st_current_phase st \<in> set VALID_PHASES then oc
    else add_error (''invalid current_phase: '' @ (st_current_phase st)) oc"
  let ?o2 = "if c2 then collect_c2_state_checks st strict ?o1 else ?o1"
  obtain o3 w1 where anchor: "collect_git_anchor_checks E repo st strict ?o2 w = (o3, w1)" by fastforce
  have "ck_errors o3 = []"
    using assms unfolding collect_state_checks_def Let_def anchor
    by (auto split: if_splits prod.splits)
  with anchor_errors [OF anchor] have "ck_errors ?o2 = []" "strict \<longrightarrow> \<not> unknown_head (ws_head (st_workspace st))" by auto
  then show ?thesis by (auto split: if_splits dest: c2_errors)
qed

lemma required_missing_json [simp]:
  "required_missing_check (check_json c) \<longleftrightarrow> pc_required c \<and> pc_status c = ''missing''"
  by (simp add: required_missing_check_def check_json_def jget_with_def jget_jobj as_bool_def)

lemma report_checks:
  "phase_report E repo run_dir st target ledger w = (report, w') \<Longrightarrow>
     jget_with as_array report ''checks'' = Some (map check_json (phase_checks E run_dir st target ledger))"
  by (auto simp: phase_report_def Let_def jget_with_def jget_jobj as_array_def split: prod.splits)

lemma check_of_fields [simp]:
  "pc_status (phase_check_of i s r d) = s" "pc_required (phase_check_of i s r d) = r"
  "pc_id (phase_check_of i s r d) = i"
  by (simp_all add: phase_check_of_def)

text \<open>What the target \<open>closed\<close> needs.\<close>

definition ready_to_close :: "'w check_env \<Rightarrow> string \<Rightarrow> lto_state \<Rightarrow> bool" where
  "ready_to_close E run_dir st \<longleftrightarrow>
     open_tasks st = [] \<and> unresolved_blocks st = [] \<and> open_unverified_risks st = []
     \<and> done_tasks_without_evidence st = [] \<and> non_empty_file E (path_join run_dir ''handoff.md'')
     \<and> trim (st_goal st) \<noteq> [] \<and> trim (st_done_when st) \<noteq> [] \<and> contract_is_complete (st_delivery_contract st)"

lemma no_required_missing_closed:
  assumes "\<forall>c \<in> set (closed_checks E run_dir st ledger). \<not> (pc_required c \<and> pc_status c = ''missing'')"
  shows "ready_to_close E run_dir st"
proof -
  let ?a = "assess_run_readiness (st_goal st) (st_done_when st) (st_why st) (st_host_runtime st)"
  have "run_is_ready ?a"
    using assms by (auto simp: closed_checks_def run_readiness_phase_checks_def Let_def split: if_splits)
  then have goal: "trim (st_goal st) \<noteq> []" "trim (st_done_when st) \<noteq> []"
    by (auto simp: run_is_ready_def assess_run_readiness_def split: if_splits)
  have "co_missing (completeness_missing (st_delivery_contract st)) = []"
  proof (cases "co_present (completeness_missing (st_delivery_contract st))")
    case True
    then show ?thesis
      using assms by (auto simp: closed_checks_def contract_phase_check_def Let_def split: if_splits)
  qed (auto simp: completeness_missing_def Let_def split: if_splits)
  with goal show ?thesis
    using assms
    by (auto simp: ready_to_close_def closed_checks_def counted_check_def contract_is_complete_def Let_def
        split: if_splits)
qed

lemma ledger_errors:
  assumes "collect_ledger_check E run_dir strict oc = (l, oc')" and "ck_errors oc' = []"
  shows "ck_errors oc = [] \<and>
    (strict \<and> ce_exists E (path_join run_dir ''audit-ledger.md'') \<longrightarrow>
      (\<exists>t rounds. ce_read E (path_join run_dir ''audit-ledger.md'') = Inr t \<and> parse_ledger t = Inr rounds
        \<and> (rounds = [] \<or> evaluate_ledger rounds True = Converged)))"
proof (cases "ce_exists E (path_join run_dir ''audit-ledger.md'')")
  case False
  then show ?thesis using assms by (auto simp: collect_ledger_check_def Let_def)
next
  case True
  let ?s = "read_ledger E (path_join run_dir ''audit-ledger.md'') strict"
  have oc': "oc' = ledger_issue strict ?s oc" using assms True by (auto simp: collect_ledger_check_def Let_def)
  then have "ck_errors (ledger_issue strict ?s oc) = []" using assms by simp
  then show ?thesis
    by (auto simp: ledger_issue_def read_ledger_def ledger_failed_def ledger_of_rounds_def
        split: sum.splits option.splits if_splits)
qed

text \<open>
  C4: When a strict check for the target \<open>closed\<close> passes, the run can be closed: its state loads, its
  phase is valid and it is anchored to a commit, every task is done or skipped, every done one has
  evidence, no block or unverified risk is open, goal, contract and handoff are there, and the audit
  ledger, when there is one with rounds, has converged.
\<close>

theorem strict_closed_check_means_ready:
  assumes "collect_check E repo opts w = (oc, w')" and "co_strict opts" and "co_to_phase opts = Some ''closed''"
    and "check_exit oc = 0"
  shows "\<exists>run_id st. let run_dir = path_join (path_join repo ''.lto'') run_id in
    ce_load_state E (path_join run_dir ''state.json'') = Inr st
    \<and> st_current_phase st \<in> set VALID_PHASES \<and> \<not> unknown_head (ws_head (st_workspace st))
    \<and> ready_to_close E run_dir st
    \<and> (ce_exists E (path_join run_dir ''audit-ledger.md'') \<longrightarrow>
        (\<exists>t rounds. ce_read E (path_join run_dir ''audit-ledger.md'') = Inr t \<and> parse_ledger t = Inr rounds
          \<and> (rounds = [] \<or> evaluate_ledger rounds True = Converged)))"
proof -
  obtain o0 run_id where start: "start_check E repo (co_run_id opts) = (o0, run_id)" by fastforce
  let ?dir = "path_join (path_join repo ''.lto'') run_id"
  obtain st o1 w1 where state: "check_state E repo ?dir opts (o0\<lparr> ck_run_id := run_id \<rparr>) w = (st, o1, w1)"
    using prod_cases3 by blast
  obtain l o2 where ledger: "collect_ledger_check E ?dir (co_strict opts) o1 = (l, o2)" by fastforce
  let ?l = "case st of Some s \<Rightarrow> map_option (entropy_advice s) l | None \<Rightarrow> l"
  obtain o3 w2 where phase: "check_phase E repo ?dir opts st ?l o2 w1 = (o3, w2)" by fastforce
  have "oc = o3\<lparr> ck_ledger := ?l \<rparr>"
    using assms(1) start state ledger phase by (simp add: collect_check_def Let_def)
  then have e3: "ck_errors o3 = []" using assms(4) by (simp add: check_exit_def split: if_splits)
  then have e2: "ck_errors o2 = []"
    using phase by (auto simp: check_phase_def Let_def split: option.splits if_splits prod.splits)
  from ledger_errors [OF ledger e2] have e1: "ck_errors o1 = []"
    and conv: "ce_exists E (path_join ?dir ''audit-ledger.md'') \<longrightarrow>
      (\<exists>t rounds. ce_read E (path_join ?dir ''audit-ledger.md'') = Inr t \<and> parse_ledger t = Inr rounds
        \<and> (rounds = [] \<or> evaluate_ledger rounds True = Converged))"
    using assms(2) by auto
  from state e1 obtain s where s: "st = Some s" "ce_load_state E (path_join ?dir ''state.json'') = Inr s"
      and checked: "collect_state_checks E repo ?dir s (co_strict opts) (co_to_phase opts = None) (o0\<lparr> ck_run_id := run_id \<rparr>) w = (o1, w1)"
    by (auto simp: check_state_def Let_def split: if_splits sum.splits prod.splits)
  obtain report where report: "phase_report E repo ?dir s ''closed'' ?l w1 = (report, w2)"
      and pushed: "ck_errors o3 = ck_errors (push_phase_errors report o2)"
    using phase assms(2,3) s by (auto simp: check_phase_def Let_def split: prod.splits)
  have "\<forall>c \<in> set (phase_checks E ?dir s ''closed'' ?l). \<not> (pc_required c \<and> pc_status c = ''missing'')"
    using pushed e3 report_checks [OF report] by (auto simp: filter_empty_conv)
  then have "ready_to_close E ?dir s"
    by (intro no_required_missing_closed) (auto simp: phase_checks_def)
  then show ?thesis
    using s conv state_errors [OF checked e1] assms(2) by (auto simp: Let_def)
qed

subsection \<open>Strictness\<close>

text \<open>The errors of the first are errors of the second.\<close>

definition no_more_errors :: "check_outcome \<Rightarrow> check_outcome \<Rightarrow> bool" where
  "no_more_errors a b \<longleftrightarrow> set (ck_errors a) \<subseteq> set (ck_errors b)"

lemma no_more_push [simp]:
  "no_more_errors a b \<Longrightarrow> no_more_errors (add_error m a) (add_error m b)"
  "no_more_errors a b \<Longrightarrow> no_more_errors (push_strict_issue False m a) (push_strict_issue True m' b)"
  "no_more_errors a b \<Longrightarrow> no_more_errors (push_issue False m k a) (push_issue True m' k' b)"
  "no_more_errors a b \<Longrightarrow> no_more_errors a (add_error m b)"
  "no_more_errors a b \<Longrightarrow> no_more_errors a (push_strict_issue True m b)"
  "no_more_errors (add_warning m a) b \<longleftrightarrow> no_more_errors a b"
  "no_more_errors a (add_warning m b) \<longleftrightarrow> no_more_errors a b"
  by (auto simp: no_more_errors_def)

lemma c2_strict:
  "no_more_errors a b \<Longrightarrow> no_more_errors (collect_c2_state_checks st False a) (collect_c2_state_checks st True b)"
  by (auto simp: no_more_errors_def collect_c2_state_checks_def Let_def)

lemma anchor_strict:
  assumes "no_more_errors a b" and "collect_git_anchor_checks E repo st False a w = (a', v)"
    and "collect_git_anchor_checks E repo st True b w = (b', v')"
  shows "no_more_errors a' b' \<and> v = v'"
  using assms by (auto simp: collect_git_anchor_checks_def Let_def split: if_splits prod.splits)

lemma state_strict:
  assumes "no_more_errors a b" and "collect_state_checks E repo dir st False c2 a w = (a', v)"
    and "collect_state_checks E repo dir st True c2 b w = (b', v')"
  shows "no_more_errors a' b' \<and> v = v'"
proof -
  let ?p = "\<lambda>oc. if st_current_phase st \<in> set VALID_PHASES then oc
    else add_error (''invalid current_phase: '' @ (st_current_phase st)) oc"
  let ?c = "\<lambda>strict oc. if c2 then collect_c2_state_checks st strict (?p oc) else ?p oc"
  obtain a3 v1 where a3: "collect_git_anchor_checks E repo st False (?c False a) w = (a3, v1)" by fastforce
  obtain b3 v2 where b3: "collect_git_anchor_checks E repo st True (?c True b) w = (b3, v2)" by fastforce
  have "no_more_errors (?c False a) (?c True b)" using assms(1) by (auto intro: c2_strict)
  from anchor_strict [OF this a3 b3] have "no_more_errors a3 b3" "v1 = v2" by auto
  then show ?thesis
    using assms(2,3) unfolding collect_state_checks_def Let_def a3 b3
    by (auto split: if_splits prod.splits)
qed

lemma issue_strict: "no_more_errors a b \<Longrightarrow> no_more_errors (ledger_issue False l a) (ledger_issue True l' b)"
  by (auto simp: no_more_errors_def ledger_issue_def split: option.splits)

lemma ledger_strict:
  assumes "no_more_errors a b" and "collect_ledger_check E dir False a = (l, a')"
    and "collect_ledger_check E dir True b = (l', b')"
  shows "no_more_errors a' b'"
  using assms by (auto simp: collect_ledger_check_def Let_def intro: issue_strict split: if_splits)

text \<open>
  Strictness only adds errors: whatever fails a check that is not strict fails the strict one
  too, with the same message.
\<close>

theorem strict_only_adds_errors:
  "set (ck_errors (fst (collect_check E repo (opts\<lparr> co_strict := False \<rparr>) w)))
   \<subseteq> set (ck_errors (fst (collect_check E repo (opts\<lparr> co_strict := True \<rparr>) w)))"
proof -
  obtain o0 run_id where start: "start_check E repo (co_run_id opts) = (o0, run_id)" by fastforce
  let ?dir = "path_join (path_join repo ''.lto'') run_id"
  let ?o = "o0\<lparr> ck_run_id := run_id \<rparr>"
  obtain st a1 v1 where state: "check_state E repo ?dir (opts\<lparr> co_strict := False \<rparr>) ?o w = (st, a1, v1)"
    using prod_cases3 by blast
  obtain st' b1 v1' where state': "check_state E repo ?dir (opts\<lparr> co_strict := True \<rparr>) ?o w = (st', b1, v1')"
    using prod_cases3 by blast
  have same: "no_more_errors ?o ?o" by (simp add: no_more_errors_def)
  have one: "st = st' \<and> no_more_errors a1 b1 \<and> v1 = v1'"
    using state state' same
    by (auto simp: check_state_def Let_def dest: state_strict [OF same] split: if_splits sum.splits prod.splits)
  obtain l a2 where ledger: "collect_ledger_check E ?dir False a1 = (l, a2)" by fastforce
  obtain l' b2 where ledger': "collect_ledger_check E ?dir True b1 = (l', b2)" by fastforce
  have two: "no_more_errors a2 b2" using ledger_strict [OF _ ledger ledger'] one by blast
  have three: "no_more_errors (fst (check_phase E repo ?dir (opts\<lparr> co_strict := False \<rparr>) st x a2 v))
      (fst (check_phase E repo ?dir (opts\<lparr> co_strict := True \<rparr>) st y b2 v))" for x y v
    using two by (auto simp: check_phase_def no_more_errors_def Let_def split: option.splits prod.splits)
  let ?x = "case st of Some s \<Rightarrow> map_option (entropy_advice s) l | None \<Rightarrow> l"
  let ?y = "case st' of Some s \<Rightarrow> map_option (entropy_advice s) l' | None \<Rightarrow> l'"
  have "ck_errors (fst (collect_check E repo (opts\<lparr> co_strict := False \<rparr>) w))
      = ck_errors (fst (check_phase E repo ?dir (opts\<lparr> co_strict := False \<rparr>) st ?x a2 v1))"
    by (simp add: collect_check_def Let_def start state ledger split_beta cong: option.case_cong)
  moreover have "ck_errors (fst (collect_check E repo (opts\<lparr> co_strict := True \<rparr>) w))
      = ck_errors (fst (check_phase E repo ?dir (opts\<lparr> co_strict := True \<rparr>) st' ?y b2 v1'))"
    by (simp add: collect_check_def Let_def start state' ledger' split_beta cong: option.case_cong)
  ultimately show ?thesis using three one by (simp add: no_more_errors_def)
qed

subsection \<open>A run that can be closed\<close>

definition demo_clean_git :: "unit world" where
  "demo_clean_git = \<lparr> w_git = (\<lambda>w repo args. (Inr \<lparr> co_success = True, co_code = Some 0,
       co_stdout = (if args = [''rev-parse'', ''--is-inside-work-tree''] then ''true''
                    else if args = [''rev-parse'', ''HEAD''] then ''c0ffee'' else []),
       co_stderr = [] \<rparr>, w)),
     w_shell = (\<lambda>w repo c. (Inl [], w)), w_exists = (\<lambda>w p. True), w_mkdir = (\<lambda>w p. (Inr (), w)) \<rparr>"

definition demo_shipped :: lto_state where
  "demo_shipped = (default_state ''t0'')\<lparr> st_run_id := ''r1'', st_goal := ''ship'', st_done_when := ''shipped'',
     st_current_phase := ''observe'', st_workspace := default_workspace\<lparr> ws_head := ''c0ffee'' \<rparr> \<rparr>"

definition demo_check_env :: "unit check_env" where
  "demo_check_env = \<lparr> ce_world = demo_clean_git, ce_current = Inr ''r1'', ce_exists = (\<lambda>p. suffix ''.json'' p),
     ce_read = (\<lambda>p. Inr ''done''), ce_load_state = (\<lambda>p. Inr demo_shipped), ce_relative = (\<lambda>p. Inr p),
     ce_record_of = (\<lambda>v. None) \<rparr>"

definition demo_check_options :: check_options where
  "demo_check_options = \<lparr> co_run_id = None, co_strict = True, co_to_phase = Some ''closed'', co_json = False \<rparr>"

lemma demo_check_passes: "check_exit (fst (collect_check demo_check_env ''/r'' demo_check_options ())) = 0"
  by code_simp

theorem strict_closed_check_means_ready_witness:
  "\<exists>run_id st. let run_dir = path_join (path_join ''/r'' ''.lto'') run_id in
    ce_load_state demo_check_env (path_join run_dir ''state.json'') = Inr st
    \<and> st_current_phase st \<in> set VALID_PHASES \<and> \<not> unknown_head (ws_head (st_workspace st))
    \<and> ready_to_close demo_check_env run_dir st
    \<and> (ce_exists demo_check_env (path_join run_dir ''audit-ledger.md'') \<longrightarrow>
        (\<exists>t rounds. ce_read demo_check_env (path_join run_dir ''audit-ledger.md'') = Inr t \<and> parse_ledger t = Inr rounds
          \<and> (rounds = [] \<or> evaluate_ledger rounds True = Converged)))"
  by (rule strict_closed_check_means_ready
      [OF prod.collapse [of "collect_check demo_check_env ''/r'' demo_check_options ()", symmetric] _ _ demo_check_passes])
     (simp_all add: demo_check_options_def)

end
