(* ===== verification/Lto_Event_Emit.thy ===== *)
theory Lto_Event_Emit
  imports Lto_Checks Lto_Findings Lto_Agent_Turn
begin

text \<open>
  \<open>src/src/event_emit.rs\<close>: the events the commands emit, built from what happened, and their
  emission one after the other. Texts that agents wrote do not go into events: claims, rationales and
  errors are there as hashes (\<open>sha\<close>, SHA-256 in hex), replies not at all.
\<close>

subsection \<open>Emission\<close>

text \<open>The answers of the file system to the emissions, in their order; whether all got through.\<close>

fun emit_each ::
    "(json \<Rightarrow> string) \<Rightarrow> redactor \<Rightarrow> string \<Rightarrow> emit_io list \<Rightarrow> event_record list \<Rightarrow> event_store \<Rightarrow> bool \<times> event_store" where
  "emit_each pr R run_id ios [] s = (True, s)"
| "emit_each pr R run_id [] (r # rs) s = (False, s)"
| "emit_each pr R run_id (io # ios) (r # rs) s =
     (let (e, s1) = safe_emit pr R run_id r io s; (rest, s2) = emit_each pr R run_id ios rs s1
      in (e \<noteq> None \<and> rest, s2))"

definition hash_text :: "(string \<Rightarrow> string) \<Rightarrow> string \<Rightarrow> string" where
  "hash_text sha t = (''sha256:'' @ (sha t))"

definition jstrs :: "string list \<Rightarrow> json" where
  "jstrs xs = JArr (map JStr xs)"

subsection \<open>Contracts\<close>

record field_counts =
  fc_targets :: nat
  fc_constraints :: nat
  fc_instruments :: nat
  fc_forced_entropy :: nat

definition contract_updated :: "string \<Rightarrow> string list \<Rightarrow> field_counts \<Rightarrow> event_record" where
  "contract_updated phase changed counts =
     default_event\<lparr> er_event_type := ''contract.updated'', er_actor_kind := ''host'', er_phase := Some phase,
       er_object_type := Some ''delivery_contract'',
       er_summary := (''contract updated: '' @ (show_nat (length changed)) @ '' field(s)''),
       er_fields := jobj [(''changed_fields'', jstrs changed), (''target_count'', jnat (fc_targets counts)),
         (''constraint_count'', jnat (fc_constraints counts)), (''instrument_count'', jnat (fc_instruments counts)),
         (''forced_entropy_count'', jnat (fc_forced_entropy counts))] \<rparr>"

subsection \<open>Runners\<close>

text \<open>Where a runner's event belongs.\<close>

record event_place =
  pl_phase :: "string option"
  pl_task_id :: "string option"
  pl_context :: string

definition runner_event :: "string \<Rightarrow> string \<Rightarrow> event_place \<Rightarrow> string \<Rightarrow> string \<Rightarrow> string \<Rightarrow> json \<Rightarrow> event_record" where
  "runner_event event_type actor_kind place runner job_id summary payload =
     default_event\<lparr> er_event_type := event_type, er_actor_kind := actor_kind, er_actor_id := Some runner,
       er_phase := pl_phase place, er_task_id := pl_task_id place, er_object_id := Some job_id,
       er_object_type := Some ''runner_job'', er_summary := summary, er_fields := payload \<rparr>"

definition runner_retry :: "event_place \<Rightarrow> agent_result \<Rightarrow> json \<Rightarrow> event_record" where
  "runner_retry place r a =
     runner_event ''runner.retry'' ''runner'' place (ar_runner r) (ar_job_id r)
       ((ar_runner r) @ '' retry attempt '' @ (show_u64 (opt_get_or 0 (jget_u64 a ''attempt''))) @ '' in '' @ (pl_context place))
       (jobj [(''runner'', JStr (ar_runner r)), (''model'', jopt JStr (ar_model r)),
         (''attempt'', opt_get_or JNull (jget a ''attempt'')), (''status'', opt_get_or JNull (jget a ''status'')),
         (''exit_code'', opt_get_or JNull (jget a ''exit_code'')), (''delay_sec'', opt_get_or JNull (jget a ''delay_sec'')),
         (''context'', JStr (pl_context place))])"

definition runner_retries :: "event_place \<Rightarrow> agent_result \<Rightarrow> event_record list" where
  "runner_retries place r =
     map (runner_retry place r)
       (opt_get_or [] (Option.bind (bt_get (ar_cost r) ''retry_attempts'') as_array))"

definition runner_unhealthy :: "event_place \<Rightarrow> agent_result \<Rightarrow> event_record" where
  "runner_unhealthy place r =
     runner_event ''runner.healthcheck'' ''lto'' place (ar_runner r) (ar_job_id r)
       ((ar_runner r) @ '' unhealthy in '' @ (pl_context place))
       (jobj [(''runner'', JStr (ar_runner r)), (''model'', jopt JStr (ar_model r)),
         (''status'', JStr (job_status_str (ar_status r))), (''context'', JStr (pl_context place))])"

definition runner_finished :: "event_place \<Rightarrow> agent_result \<Rightarrow> event_record" where
  "runner_finished place r =
     runner_event ''runner.finished'' ''runner'' place (ar_runner r) (ar_job_id r)
       ((ar_runner r) @ '' '' @ (ar_job_id r) @ '' status='' @ (job_status_str (ar_status r)) @ '' attempts='' @ (show_nat (unat (ar_attempts r))))
       (jobj [(''runner'', JStr (ar_runner r)), (''model'', jopt JStr (ar_model r)),
         (''status'', JStr (job_status_str (ar_status r))), (''exit_code'', jopt JInt (ar_exit_code r)),
         (''timeout'', JBool (ar_status r = JobTimeout \<or> ar_exit_code r = Some 124)),
         (''attempts'', jnat (unat (ar_attempts r))), (''retry_count'', jnat (unat (ar_attempts r) - 1)),
         (''elapsed_sec'', opt_get_or JNull (bt_get (ar_cost r) ''elapsed_sec'')),
         (''findings_count'', jnat (length (ar_findings r))), (''artifact_count'', jnat (length (ar_artifacts r))),
         (''task_type'', jopt JStr (ar_task_type r)), (''context'', JStr (pl_context place))])"

definition result_events :: "event_place \<Rightarrow> agent_result \<Rightarrow> event_record list" where
  "result_events place r =
     runner_retries place r
     @ (if ar_status r = Skipped \<and> prefix ''runner unhealthy:'' (ar_error r) then [runner_unhealthy place r] else [])
     @ [runner_finished place r]"

definition runner_results :: "event_place \<Rightarrow> agent_result list \<Rightarrow> event_record list" where
  "runner_results place rs = concat (map (result_events place) rs)"

definition emit_runner_results_checked ::
    "(json \<Rightarrow> string) \<Rightarrow> redactor \<Rightarrow> string \<Rightarrow> emit_io list \<Rightarrow> event_place \<Rightarrow> agent_result list \<Rightarrow> event_store
     \<Rightarrow> (string + unit) \<times> event_store" where
  "emit_runner_results_checked pr R run_id ios place rs s =
     (let (ok, s') = emit_each pr R run_id ios (runner_results place rs) s in
      (if ok then Inr () else Inl (''event emit failed for runner results in '' @ (pl_context place)), s'))"

definition runner_started_job :: "event_place \<Rightarrow> agent_job \<Rightarrow> event_record" where
  "runner_started_job place j =
     runner_event ''runner.started'' ''runner'' place (aj_runner j) (aj_job_id j)
       ((aj_runner j) @ '' '' @ (aj_job_id j) @ '' started for '' @ (pl_context place))
       (jobj [(''runner'', JStr (aj_runner j)), (''model'', jopt JStr (aj_model j)),
         (''context'', JStr (pl_context place)), (''task_type'', jopt JStr (aj_task_type j)),
         (''timeout_sec'', ju64 (jb_timeout_sec (aj_budget j))), (''max_tokens'', jopt ju64 (jb_max_tokens (aj_budget j)))])"

definition runner_submission_failed :: "(string \<Rightarrow> string) \<Rightarrow> event_place \<Rightarrow> string \<Rightarrow> agent_job \<Rightarrow> event_record" where
  "runner_submission_failed sha place err j =
     runner_event ''runner.finished'' ''runner'' place (aj_runner j) (aj_job_id j)
       ((aj_runner j) @ '' '' @ (aj_job_id j) @ '' submission failed for '' @ (pl_context place))
       (jobj [(''runner'', JStr (aj_runner j)), (''model'', jopt JStr (aj_model j)), (''status'', JStr ''failed''),
         (''exit_code'', JNull), (''timeout'', JBool False), (''attempts'', JInt 0), (''retry_count'', JInt 0),
         (''task_type'', jopt JStr (aj_task_type j)), (''context'', JStr (pl_context place)),
         (''submission_failed'', JBool True), (''error_hash'', JStr (hash_text sha err))])"

subsection \<open>Audits\<close>

definition audit_dispatched :: "string \<Rightarrow> string list \<Rightarrow> string \<Rightarrow> string option \<Rightarrow> event_record" where
  "audit_dispatched host auditors mode selected =
     default_event\<lparr> er_event_type := ''audit.dispatched'', er_actor_kind := ''lto'',
       er_object_type := Some ''audit_batch'',
       er_summary := (''audit '' @ mode @ '' host='' @ host @ '' auditors='' @ (show_nat (length auditors))),
       er_fields := jobj [(''mode'', JStr mode), (''host'', JStr host), (''auditors'', jstrs auditors),
         (''selected'', jopt JStr selected), (''auditor_count'', jnat (length auditors))] \<rparr>"

definition finding_confidence_level :: "json \<Rightarrow> string" where
  "finding_confidence_level f =
     (case Option.bind (Option.bind (jget f ''reported_confidence'')
             (\<lambda>v. opt_or (as_str v) (jget_str v ''level''))) normalize_reported_confidence_level of
        Some l \<Rightarrow> confidence_level_str l
      | None \<Rightarrow> ''unknown'')"

definition finding_rationale :: "json \<Rightarrow> string option" where
  "finding_rationale f = Option.bind (jget f ''reported_confidence'') (\<lambda>v. jget_str v ''rationale'')"

definition audit_finding :: "(string \<Rightarrow> string) \<Rightarrow> string \<Rightarrow> string \<Rightarrow> json \<Rightarrow> event_record" where
  "audit_finding sha source context_label f =
     (let severity = opt_get_or ''unknown'' (jget_str f ''severity'');
          claim = opt_get_or [] (jget_str f ''claim'');
          rationale = finding_rationale f; invalidated = jget_str f ''invalidated_when'' in
      default_event\<lparr> er_event_type := ''audit.finding'', er_actor_kind := ''auditor'', er_actor_id := Some source,
        er_object_type := Some ''finding'', er_summary := (source @ '' audit finding severity='' @ severity),
        er_fields := jobj [(''source'', JStr source), (''severity'', JStr severity),
          (''claim_hash'', JStr (hash_text sha claim)), (''has_file'', JBool (jget f ''file'' \<noteq> None)),
          (''has_reported_confidence'', JBool (opt_all (\<lambda>v. v \<noteq> JNull) (jget f ''reported_confidence''))),
          (''confidence_level'', JStr (finding_confidence_level f)),
          (''has_confidence_rationale'', JBool (rationale \<noteq> None)),
          (''confidence_rationale_hash'', jopt (\<lambda>t. JStr (hash_text sha t)) rationale),
          (''has_invalidated_when'', JBool (invalidated \<noteq> None)),
          (''invalidated_when_hash'', jopt (\<lambda>t. JStr (hash_text sha t)) invalidated),
          (''context'', JStr context_label)] \<rparr>)"

text \<open>The sum of the blockers wraps; a debug build panics instead.\<close>

definition audit_round_recorded :: "string \<Rightarrow> u64 \<Rightarrow> u64 \<Rightarrow> u64 \<Rightarrow> event_record" where
  "audit_round_recorded label high critical minor =
     default_event\<lparr> er_event_type := ''audit.round.recorded'', er_actor_kind := ''lto'',
       er_object_id := Some label, er_object_type := Some ''audit_round'',
       er_summary := (''audit round '' @ label @ '': high='' @ (show_u64 high) @ '' critical='' @ (show_u64 critical) @ '' minor='' @ (show_u64 minor)),
       er_fields := jobj [(''round'', JStr label), (''high'', ju64 high), (''critical'', ju64 critical),
         (''minor'', ju64 minor), (''blockers'', ju64 (high + critical))] \<rparr>"

definition audit_ledger_evaluated :: "string \<Rightarrow> string \<Rightarrow> string \<Rightarrow> string \<Rightarrow> event_record" where
  "audit_ledger_evaluated label verdict terminal oscill =
     default_event\<lparr> er_event_type := ''audit.ledger.evaluated'', er_actor_kind := ''lto'',
       er_object_id := Some label, er_object_type := Some ''audit_ledger'',
       er_summary := (''audit ledger evaluated after '' @ label @ '': '' @ verdict),
       er_fields := jobj [(''round'', JStr label), (''verdict'', JStr verdict), (''terminal'', JStr terminal),
         (''oscillation'', JStr oscill), (''strict'', JBool False), (''source'', JStr ''audit_append'')] \<rparr>"

subsection \<open>Gates\<close>

record status_counts =
  sc_ok :: nat
  sc_warn :: nat
  sc_missing :: nat

definition count_check :: "status_counts \<Rightarrow> json \<Rightarrow> status_counts" where
  "count_check n c =
     (let s = jget_str c ''status'' in
      if s = Some ''ok'' then n\<lparr> sc_ok := Suc (sc_ok n) \<rparr>
      else if s = Some ''missing'' then n\<lparr> sc_missing := Suc (sc_missing n) \<rparr>
      else n\<lparr> sc_warn := Suc (sc_warn n) \<rparr>)"

definition status_counts_of :: "json list option \<Rightarrow> status_counts" where
  "status_counts_of checks =
     foldl count_check \<lparr> sc_ok = 0, sc_warn = 0, sc_missing = 0 \<rparr> (opt_get_or [] checks)"

definition gate_blocked :: "string \<Rightarrow> string \<Rightarrow> json \<Rightarrow> event_record" where
  "gate_blocked gate reason payload =
     (let object = (case payload of JObj m \<Rightarrow> m | other \<Rightarrow> [(''detail'', other)]) in
      default_event\<lparr> er_event_type := ''gate.blocked'', er_actor_kind := ''lto'', er_object_id := Some gate,
        er_object_type := Some ''gate'', er_summary := (gate @ '' blocked: '' @ reason),
        er_fields := JObj (bt_insert ''gate'' (JStr gate) object) \<rparr>)"

definition gate_evaluated :: "string \<Rightarrow> json \<Rightarrow> event_record list" where
  "gate_evaluated gate report =
     (let n = status_counts_of (jget_with as_array report ''checks'') in
      default_event\<lparr> er_event_type := ''gate.evaluated'', er_actor_kind := ''lto'', er_object_id := Some gate,
        er_object_type := Some ''gate'',
        er_summary := (gate @ '': ok='' @ (show_nat (sc_ok n)) @ '' warn='' @ (show_nat (sc_warn n)) @ '' missing='' @ (show_nat (sc_missing n))),
        er_fields := jobj [(''gate'', JStr gate), (''ok'', jnat (sc_ok n)), (''warn'', jnat (sc_warn n)),
          (''missing'', jnat (sc_missing n)),
          (''evidence_status'', opt_get_or JNull (jget report ''evidence_status'')),
          (''target_phase'', opt_get_or JNull (jget report ''target_phase''))] \<rparr>
      # (if 0 < sc_missing n
         then [gate_blocked gate ''required gate checks missing'' (jobj [(''missing'', jnat (sc_missing n))])]
         else []))"

subsection \<open>Budgets, sandboxes, judges and votes\<close>

definition budget_event :: "budget_check \<Rightarrow> string \<Rightarrow> event_record list" where
  "budget_event c label =
     (case (case bc_overall c of BudgetExceeded \<Rightarrow> Some ''budget.exceeded'' | BudgetWarn \<Rightarrow> Some ''budget.warned''
              | BudgetOk \<Rightarrow> None) of
        None \<Rightarrow> []
      | Some t \<Rightarrow>
          [default_event\<lparr> er_event_type := t, er_actor_kind := ''lto'', er_object_type := Some ''budget'',
             er_summary := (label @ '' budget status='' @ (budget_status_str (bc_overall c))),
             er_fields := jobj [(''context'', JStr label), (''overall'', JStr (budget_status_str (bc_overall c))),
               (''warnings_count'', jnat (length (bc_warnings c))), (''dimensions'', JObj (bc_dimensions c))] \<rparr>])"

definition effect_json :: "effect_class \<Rightarrow> json" where
  "effect_json e =
     jobj [(''level'', JStr (case ef_level e of Reversible \<Rightarrow> ''reversible'' | Network \<Rightarrow> ''network''
              | NeedsSemanticJudgement \<Rightarrow> ''needs_semantic_judgement'')),
           (''reason'', JStr (ef_reason e))]"

definition sandbox_rejected :: "string \<Rightarrow> sandbox_result \<Rightarrow> event_record" where
  "sandbox_rejected task r =
     default_event\<lparr> er_event_type := ''sandbox.rejected'', er_actor_kind := ''lto'', er_task_id := Some task,
       er_object_id := Some task, er_object_type := Some ''task'',
       er_summary := (''sandbox rejected '' @ task @ '': '' @ (sr_note r)),
       er_fields := jobj [(''task_id'', JStr task), (''effect'', effect_json (sr_effect r)), (''note'', JStr (sr_note r))] \<rparr>"

definition judge_skipped :: "string \<Rightarrow> string option \<Rightarrow> event_record" where
  "judge_skipped case_id reason =
     default_event\<lparr> er_event_type := ''judge.skipped'', er_actor_kind := ''lto'', er_object_id := Some case_id,
       er_object_type := Some ''judge_case'', er_summary := (''judge skipped for '' @ case_id),
       er_fields := jobj [(''case_id'', JStr case_id), (''reason'', jopt JStr reason)] \<rparr>"

definition decision_voted :: "string \<Rightarrow> string \<Rightarrow> json \<Rightarrow> event_record" where
  "decision_voted source kind payload =
     default_event\<lparr> er_event_type := ''decision.voted'', er_actor_kind := ''auditor'', er_actor_id := Some source,
       er_object_type := Some ''decision'', er_summary := (source @ '' voted on '' @ kind), er_fields := payload \<rparr>"

definition decision_escalated :: "string \<Rightarrow> json \<Rightarrow> event_record" where
  "decision_escalated reason payload =
     default_event\<lparr> er_event_type := ''decision.escalated'', er_actor_kind := ''lto'',
       er_object_type := Some ''decision'', er_summary := (''decision escalated: '' @ reason), er_fields := payload \<rparr>"

subsection \<open>Properties\<close>

text \<open>The events that are built, here and by the commands, with whatever they are built from.\<close>

inductive built :: "event_record \<Rightarrow> bool" where
  "built (contract_updated phase changed counts)"
| "built (runner_retry place r a)"
| "built (runner_unhealthy place r)"
| "built (runner_finished place r)"
| "built (runner_started_job place j)"
| "built (runner_submission_failed sha place err j)"
| "built (audit_dispatched host auditors mode selected)"
| "built (audit_finding sha source label f)"
| "built (audit_round_recorded label high critical minor)"
| "built (audit_ledger_evaluated label verdict terminal oscill)"
| "built (gate_blocked gate reason obj)"
| "e \<in> set (gate_evaluated gate report) \<Longrightarrow> built e"
| "e \<in> set (budget_event c label) \<Longrightarrow> built e"
| "built (sandbox_rejected i sr)"
| "built (judge_skipped case_id why)"
| "built (decision_voted source kind obj)"
| "built (decision_escalated reason obj)"
| "t \<in> {''decision.recorded'', ''decision.reaffirmed''} \<Longrightarrow> built (decision_event st d t)"
| "built (task_created opts phase)"
| "built (status_changed tu old phase)"
| "built (phase_changed from_phase to_phase)"
| "built (window_cleaned runner window b)"
| "built (runner_started dopts phase goal record_path out h)"

definition acceptable :: "event_record \<Rightarrow> bool" where
  "acceptable e \<longleftrightarrow> er_event_type e \<in> set KNOWN_EVENT_TYPES \<and> er_actor_kind e \<in> set ACTOR_KINDS
     \<and> \<not> er_contains_raw_output e"

lemmas event_defs = contract_updated_def runner_event_def runner_retry_def runner_unhealthy_def
  runner_finished_def runner_started_job_def runner_submission_failed_def audit_dispatched_def
  audit_finding_def audit_round_recorded_def audit_ledger_evaluated_def gate_blocked_def
  sandbox_rejected_def judge_skipped_def decision_voted_def decision_escalated_def decision_event_def
  task_created_def status_changed_def phase_changed_def window_cleaned_def runner_started_def

lemma acceptableI:
  "er_event_type e \<in> set KNOWN_EVENT_TYPES \<Longrightarrow> er_actor_kind e \<in> set ACTOR_KINDS \<Longrightarrow>
     er_contains_raw_output e = False \<Longrightarrow> acceptable e"
  by (simp add: acceptable_def)

lemma acceptable_events:
  "acceptable (contract_updated phase changed counts)" "acceptable (runner_retry place r a)"
  "acceptable (runner_unhealthy place r)" "acceptable (runner_finished place r)"
  "acceptable (runner_started_job place j)" "acceptable (runner_submission_failed sha place err j)"
  "acceptable (audit_dispatched host auditors mode selected)" "acceptable (audit_finding sha source label f)"
  "acceptable (audit_round_recorded label high critical minor)"
  "acceptable (audit_ledger_evaluated label verdict terminal oscill)" "acceptable (gate_blocked gate reason obj)"
  "acceptable (sandbox_rejected i sr)" "acceptable (judge_skipped case_id why)"
  "acceptable (decision_voted source kind obj)" "acceptable (decision_escalated reason obj)"
  "acceptable (task_created opts phase)" "acceptable (status_changed tu old phase)"
  "acceptable (phase_changed from_phase to_phase)" "acceptable (window_cleaned runner window b)"
  "acceptable (runner_started dopts phase goal record_path out h)"
  by (rule acceptableI;
      simp add: event_defs default_event_def KNOWN_EVENT_TYPES_def ACTOR_KINDS_def Let_def)+

lemma acceptable_decision:
  "t \<in> {''decision.recorded'', ''decision.reaffirmed''} \<Longrightarrow> acceptable (decision_event st d t)"
  by (auto intro!: acceptableI simp: decision_event_def default_event_def KNOWN_EVENT_TYPES_def ACTOR_KINDS_def)

lemma acceptable_gate: "e \<in> set (gate_evaluated gate report) \<Longrightarrow> acceptable e"
  by (auto simp: gate_evaluated_def Let_def acceptable_events split: if_splits)
     (auto intro!: acceptableI simp: default_event_def KNOWN_EVENT_TYPES_def ACTOR_KINDS_def)

lemma acceptable_budget: "e \<in> set (budget_event c label) \<Longrightarrow> acceptable e"
  by (auto simp: budget_event_def split: budget_status.splits option.splits)
     (auto intro!: acceptableI simp: default_event_def KNOWN_EVENT_TYPES_def ACTOR_KINDS_def)


definition demo_emit_io :: emit_io where
  "demo_emit_io = \<lparr> ei_state_path = ''/r/state.json'', ei_state_file = True, ei_mkdir = None, ei_lock = Inr (),
     ei_read = None, ei_counter_write = None, ei_append = None, ei_now = ''t'' \<rparr>"


text \<open>Two results that differ in what the agent wrote, and in nothing that is counted or named.\<close>

definition same_but_texts :: "agent_result \<Rightarrow> agent_result \<Rightarrow> bool" where
  "same_but_texts r q \<longleftrightarrow>
     (\<exists>t p m fs as e. q = r\<lparr> ar_reply_text := t, ar_permissions := p, ar_merge_review := m, ar_findings := fs,
          ar_artifacts := as, ar_error := e \<rparr>
        \<and> length fs = length (ar_findings r) \<and> length as = length (ar_artifacts r)
        \<and> (prefix ''runner unhealthy:'' e \<longleftrightarrow> prefix ''runner unhealthy:'' (ar_error r)))"

lemma result_events_cong:
  assumes "same_but_texts r q"
  shows "result_events place q = result_events place r"
proof -
  from assms obtain t p m fs as e where q: "q = r\<lparr> ar_reply_text := t, ar_permissions := p, ar_merge_review := m,
      ar_findings := fs, ar_artifacts := as, ar_error := e \<rparr>"
    and same: "length fs = length (ar_findings r)" "length as = length (ar_artifacts r)"
      "prefix ''runner unhealthy:'' e \<longleftrightarrow> prefix ''runner unhealthy:'' (ar_error r)"
    unfolding same_but_texts_def by blast
  have "runner_retries place q = runner_retries place r"
    unfolding q runner_retries_def runner_retry_def [abs_def] by simp
  moreover have "runner_unhealthy place q = runner_unhealthy place r"
    unfolding q runner_unhealthy_def by simp
  moreover have "runner_finished place q = runner_finished place r"
    unfolding q runner_finished_def by (simp add: same)
  ultimately show ?thesis using same(3) unfolding result_events_def by (simp add: q)
qed

text \<open>
  What agents wrote does not reach the event log: the events of a batch of results are the same for
  results that differ in their replies, findings, errors, permissions, reviews and artifact names
  only (their numbers, and whether an error says that the runner is unhealthy, do count).
\<close>

theorem runner_events_hide_texts:
  assumes "list_all2 same_but_texts rs qs"
  shows "runner_results place qs = runner_results place rs"
  using assms
  by (induction rule: list_all2_induct) (simp_all add: runner_results_def result_events_cong)

definition demo_replied :: agent_result where
  "demo_replied = \<lparr> ar_job_id = ''j1'', ar_runner = ''codex'', ar_model = None, ar_status = JobOk, ar_exit_code = Some 0,
     ar_findings = [], ar_reply_text = ''secret'', ar_cost = [], ar_permissions = [], ar_artifacts = [],
     ar_attempts = 1, ar_error = [], ar_task_type = None, ar_size = Small, ar_merge_review = None \<rparr>"

theorem runner_events_hide_texts_witness:
  "runner_results \<lparr> pl_phase = None, pl_task_id = None, pl_context = ''c'' \<rparr> [demo_replied\<lparr> ar_reply_text := ''other'' \<rparr>]
   = runner_results \<lparr> pl_phase = None, pl_task_id = None, pl_context = ''c'' \<rparr> [demo_replied]"
  by (rule runner_events_hide_texts) (auto simp: same_but_texts_def demo_replied_def)

text \<open>The claim of a finding and its rationale are in its event as hashes.\<close>

lemma finding_events_hide_claims:
  assumes "sha c = sha d"
  shows "audit_finding sha source label (jset ''claim'' (JStr c) (JObj m))
    = audit_finding sha source label (jset ''claim'' (JStr d) (JObj m))"
  using assms
  by (simp add: audit_finding_def finding_rationale_def finding_confidence_level_def jget_with_def hash_text_def is_object_def)

text \<open>A phase report with a required check that is missing emits a block of its gate.\<close>

lemma gate_event_counts:
  "sc_ok (status_counts_of (Some cs)) + sc_warn (status_counts_of (Some cs)) + sc_missing (status_counts_of (Some cs))
   = length cs"
proof -
  have "sc_ok (foldl count_check n cs) + sc_warn (foldl count_check n cs) + sc_missing (foldl count_check n cs)
      = sc_ok n + sc_warn n + sc_missing n + length cs" for n
    by (induction cs arbitrary: n) (simp_all add: count_check_def Let_def)
  then show ?thesis by (simp add: status_counts_of_def)
qed

end
