(* ===== verification/Lto_Prune.thy ===== *)
theory Lto_Prune
  imports Lto_Workspace
begin

text \<open>
  \<open>src/src/commands/prune.rs\<close>: the bulk files of closed runs are removed to reclaim space. The
  directory \<open>.lto\<close> is a tree; how a removal fails and what it leaves is a parameter, and so are serde,
  the calendar and the clock. Sizes and their sums are below the width of \<open>u64\<close>, and \<open>.lto\<close> holds no
  links to directories.
\<close>

subsection \<open>Trees\<close>

datatype fs_node = FileNode string | DirNode "(string \<times> fs_node) list" | OtherNode

type_synonym fs_entries = "(string \<times> fs_node) list"

fun path_size :: "fs_node \<Rightarrow> nat" where
  "path_size (FileNode c) = length c"
| "path_size (DirNode es) = sum_list (map (\<lambda>(_, n). path_size n) es)"
| "path_size OtherNode = 0"

definition size_at :: "fs_entries \<Rightarrow> string \<Rightarrow> nat" where
  "size_at es name = (case map_of es name of None \<Rightarrow> 0 | Some n \<Rightarrow> path_size n)"

definition BULK_TARGETS :: "string list" where
  "BULK_TARGETS = [''events.jsonl'', ''events.jsonl.counter'', ''live'', ''audit'', ''dispatch'']"

definition bulk_size :: "fs_entries \<Rightarrow> nat" where
  "bulk_size es = sum_list (map (size_at es) BULK_TARGETS)"

definition remove_entry :: "string \<Rightarrow> fs_entries \<Rightarrow> fs_entries" where
  "remove_entry name es = filter (\<lambda>(k, _). k \<noteq> name) es"

definition set_entry :: "string \<Rightarrow> fs_node \<Rightarrow> fs_entries \<Rightarrow> fs_entries" where
  "set_entry name n es = map (\<lambda>(k, x). if k = name then (k, n) else (k, x)) es"

text \<open>
  The outside: \<open>load\<close> reads a state, \<open>rm\<close> is how the removal of a target of a run fails and what is
  left of it, \<open>mark\<close> whether the marker can be read and written, \<open>rfc\<close> reads a time stamp (its local
  nanoseconds and its offset), \<open>now\<close> the clock in nanoseconds, \<open>stamp\<close> the day.
\<close>

record prune_env =
  pn_load :: "string \<Rightarrow> lto_state option"
  pn_rm :: "string \<Rightarrow> string \<Rightarrow> (string \<times> fs_node option) option"
  pn_mark :: "string \<Rightarrow> bool"
  pn_rfc :: "string \<Rightarrow> (int \<times> int) option"
  pn_now :: int
  pn_stamp :: string

definition run_state :: "prune_env \<Rightarrow> fs_entries \<Rightarrow> lto_state option" where
  "run_state E es =
     (case map_of es ''state.json'' of Some (FileNode c) \<Rightarrow> pn_load E c | _ \<Rightarrow> None)"

text \<open>Whole days, towards zero.\<close>

definition whole_days :: "int \<Rightarrow> int" where
  "whole_days ns = sgn ns * (abs ns div 86400000000000)"

definition age_in_days :: "prune_env \<Rightarrow> string \<Rightarrow> int option" where
  "age_in_days E started_at =
     map_option (\<lambda>(local_ns, off). whole_days (pn_now E - (local_ns - off * 1000000000)))
       (pn_rfc E (z_offset started_at))"

subsection \<open>Sizes as text\<close>

fun scale_bytes :: "nat \<Rightarrow> f64 \<Rightarrow> nat \<Rightarrow> f64 \<times> nat" where
  "scale_bytes 0 sz unit = (sz, unit)"
| "scale_bytes (Suc n) sz unit =
     (if f_le (Fin 1024) sz then scale_bytes n (f_div sz (Fin 1024)) (Suc unit) else (sz, unit))"

definition UNITS :: "string list" where
  "UNITS = [''B'', ''KB'', ''MB'', ''GB'', ''TB'']"

definition human_bytes :: "nat \<Rightarrow> string" where
  "human_bytes bytes =
     (let (sz, unit) = scale_bytes 4 (f_of_u64 (of_nat bytes)) 0 in
      if unit = 0 then ((show_nat bytes) @ '' '' @ (UNITS ! unit)) else ((show_tenths sz) @ '' '' @ (UNITS ! unit)))"

subsection \<open>The nudge and the listing\<close>

definition NUDGE_BYTES :: nat where
  "NUDGE_BYTES = 1024 * 1024 * 1024"

definition NUDGE_CLOSED_RUNS :: nat where
  "NUDGE_CLOSED_RUNS = 30"

definition run_dirs :: "fs_entries \<Rightarrow> (string \<times> fs_entries) list" where
  "run_dirs lto = List.map_filter (\<lambda>(name, n). case n of DirNode es \<Rightarrow> Some (name, es) | _ \<Rightarrow> None) lto"

definition is_closed_run :: "prune_env \<Rightarrow> fs_entries \<Rightarrow> bool" where
  "is_closed_run E es = opt_all (\<lambda>st. st_current_phase st = ''closed'') (run_state E es)"

definition maybe_nudge_prune :: "prune_env \<Rightarrow> fs_entries option \<Rightarrow> string option" where
  "maybe_nudge_prune E lto =
     (case lto of
        None \<Rightarrow> None
      | Some es \<Rightarrow>
          (let total = sum_list (map (\<lambda>(_, d). path_size (DirNode d)) (run_dirs es));
               closed = length (filter (\<lambda>(_, d). is_closed_run E d) (run_dirs es))
           in if NUDGE_BYTES < total \<or> NUDGE_CLOSED_RUNS < closed
              then Some (''NOTE: .lto is '' @ (human_bytes total) @ '' across '' @ (show_nat closed) @ '' closed run(s). Consider '' @ [CHR 0x60] @ ''lto prune --dry-run'' @ [CHR 0x60] @ '' to reclaim space.'')
              else None))"

definition run_size_and_phase :: "prune_env \<Rightarrow> fs_entries \<Rightarrow> nat \<times> string" where
  "run_size_and_phase E es =
     (path_size (DirNode es), (case run_state E es of Some st \<Rightarrow> st_current_phase st | None \<Rightarrow> ''?''))"

subsection \<open>Pruning\<close>

record prune_options =
  po_dry_run :: bool
  po_yes :: bool
  po_older_than_days :: int
  po_keep_last :: nat
  po_run_id :: "string option"

definition default_prune_options :: prune_options where
  "default_prune_options =
     \<lparr> po_dry_run = True, po_yes = False, po_older_than_days = 30, po_keep_last = 0, po_run_id = None \<rparr>"

record candidate =
  cd_run_id :: string
  cd_age_days :: int
  cd_bulk_bytes :: nat

definition prune_candidate :: "prune_env \<Rightarrow> prune_options \<Rightarrow> string \<Rightarrow> fs_entries \<Rightarrow> candidate option" where
  "prune_candidate E opts run_id es =
     (if opt_all (\<lambda>t. run_id \<noteq> t) (po_run_id opts) then None
      else case run_state E es of
        None \<Rightarrow> None
      | Some st \<Rightarrow>
          (if st_current_phase st \<noteq> ''closed'' then None
           else
             (let age = opt_get_or 0 (age_in_days E (st_started_at st)); bulk = bulk_size es in
              if po_run_id opts = None \<and> age < po_older_than_days opts then None
              else if bulk = 0 then None
              else Some \<lparr> cd_run_id = run_id, cd_age_days = age, cd_bulk_bytes = bulk \<rparr>)))"

definition collect_eligible :: "prune_env \<Rightarrow> prune_options \<Rightarrow> fs_entries \<Rightarrow> candidate list" where
  "collect_eligible E opts lto = List.map_filter (\<lambda>(name, es). prune_candidate E opts name es) (run_dirs lto)"

text \<open>The runs that are kept are the last by name.\<close>

definition kept_runs :: "nat \<Rightarrow> candidate list \<Rightarrow> string list" where
  "kept_runs n cs = take n (rev (sort (map cd_run_id cs)))"

definition eligible_runs :: "prune_env \<Rightarrow> prune_options \<Rightarrow> fs_entries \<Rightarrow> candidate list" where
  "eligible_runs E opts lto =
     (let cs = sort_key (\<lambda>c. - cd_age_days c) (collect_eligible E opts lto) in
      if 0 < po_keep_last opts \<and> po_run_id opts = None
      then filter (\<lambda>c. cd_run_id c \<notin> set (kept_runs (po_keep_last opts) cs)) cs else cs)"

fun prune_targets :: "prune_env \<Rightarrow> string \<Rightarrow> string list \<Rightarrow> fs_entries \<Rightarrow> nat \<Rightarrow> (string + nat) \<times> fs_entries" where
  "prune_targets E run [] es freed = (Inr freed, es)"
| "prune_targets E run (t # ts) es freed =
     (if size_at es t = 0 then prune_targets E run ts es freed
      else case pn_rm E run t of
        None \<Rightarrow> prune_targets E run ts (remove_entry t es) (freed + size_at es t)
      | Some (e, None) \<Rightarrow> (Inl e, remove_entry t es)
      | Some (e, Some n) \<Rightarrow> (Inl e, set_entry t n es))"

definition prune_run_dir :: "prune_env \<Rightarrow> string \<Rightarrow> fs_entries \<Rightarrow> (string + nat) \<times> fs_entries" where
  "prune_run_dir E run es = prune_targets E run BULK_TARGETS es 0"

definition pruned_line :: "string \<Rightarrow> string" where
  "pruned_line stamp =
     ([CHR 0x0A] @ ''> [pruned '' @ stamp @ ''] bulk logs reclaimed by '' @ [CHR 0x60] @ ''lto prune'' @ [CHR 0x60] @ ''; state index retained.'' @ [CHR 0x0A])"

definition mark_pruned :: "prune_env \<Rightarrow> string \<Rightarrow> fs_entries \<Rightarrow> fs_entries" where
  "mark_pruned E run es =
     (case map_of es ''run-state.md'' of
        Some (FileNode c) \<Rightarrow>
          (if pn_mark E run then set_entry ''run-state.md'' (FileNode (c @ pruned_line (pn_stamp E))) es else es)
      | _ \<Rightarrow> es)"

definition update_run :: "string \<Rightarrow> (fs_entries \<Rightarrow> fs_entries) \<Rightarrow> fs_entries \<Rightarrow> fs_entries" where
  "update_run run f lto =
     map (\<lambda>(k, n). if k = run then (case n of DirNode es \<Rightarrow> (k, DirNode (f es)) | _ \<Rightarrow> (k, n)) else (k, n)) lto"

definition run_entries :: "string \<Rightarrow> fs_entries \<Rightarrow> fs_entries" where
  "run_entries run lto = (case map_of lto run of Some (DirNode es) \<Rightarrow> es | _ \<Rightarrow> [])"

text \<open>The runs one after the other; the first that fails ends the command.\<close>

fun prune_runs :: "prune_env \<Rightarrow> candidate list \<Rightarrow> fs_entries \<Rightarrow> nat \<Rightarrow> (string + nat) \<times> fs_entries" where
  "prune_runs E [] lto freed = (Inr freed, lto)"
| "prune_runs E (c # cs) lto freed =
     (case prune_run_dir E (cd_run_id c) (run_entries (cd_run_id c) lto) of
        (Inl e, es) \<Rightarrow> (Inl e, update_run (cd_run_id c) (\<lambda>_. es) lto)
      | (Inr n, es) \<Rightarrow>
          prune_runs E cs (update_run (cd_run_id c) (\<lambda>_. mark_pruned E (cd_run_id c) es) lto) (freed + n))"

definition total_bytes :: "candidate list \<Rightarrow> nat" where
  "total_bytes cs = sum_list (map cd_bulk_bytes cs)"

definition prune_report :: "bool \<Rightarrow> candidate list \<Rightarrow> string list" where
  "prune_report dry cs =
     (''=== lto prune ('' @ (if dry then ''dry-run'' else ''deleting'') @ '') '' @ [CHR 0xE2, CHR 0x80, CHR 0x94] @ '' '' @ (show_nat (length cs)) @ '' run(s), '' @ (human_bytes (total_bytes cs)) @ '' reclaimable ==='')
     # map (\<lambda>c. (''  '' @ (cd_run_id c) @ '' | closed | '' @ (show_int (cd_age_days c)) @ ''d old | '' @ (human_bytes (cd_bulk_bytes c)))) cs"

text \<open>\<open>None\<close> is a directory that does not exist.\<close>

definition cmd_prune ::
    "prune_env \<Rightarrow> prune_options \<Rightarrow> fs_entries option \<Rightarrow> (string + unit) \<times> string list \<times> fs_entries option" where
  "cmd_prune E opts lto =
     (let dry = (po_dry_run opts \<and> \<not> po_yes opts) in
      case lto of
        None \<Rightarrow> (Inr (), [''nothing to prune: no .lto directory''], None)
      | Some es \<Rightarrow>
          (let cs = eligible_runs E opts es in
           if cs = []
           then (Inr (), [(''nothing to prune (no closed run older than '' @ (show_int (po_older_than_days opts)) @ '' day(s) with bulk artifacts)'')], Some es)
           else if dry
           then (Inr (), prune_report True cs
                  @ [([CHR 0x0A] @ ''Dry run: nothing deleted. Re-run with --yes to reclaim '' @ (human_bytes (total_bytes cs)) @ ''.'')], Some es)
           else case prune_runs E cs es 0 of
             (Inl e, es') \<Rightarrow> (Inl e, prune_report False cs, Some es')
           | (Inr freed, es') \<Rightarrow>
               (Inr (), prune_report False cs
                  @ [([CHR 0x0A] @ ''Pruned '' @ (show_nat (length cs)) @ '' run(s), reclaimed '' @ (human_bytes freed) @ ''.'')], Some es')))"

subsection \<open>Properties\<close>

lemma map_of_remove [simp]: "map_of (remove_entry t es) k = (if k = t then None else map_of es k)"
  by (induction es) (auto simp: remove_entry_def)

lemma map_of_set [simp]:
  "map_of (set_entry t n es) k = (if k = t then map_option (\<lambda>_. n) (map_of es k) else map_of es k)"
  by (induction es) (auto simp: set_entry_def)

lemma map_of_update [simp]:
  "map_of (update_run run f lto) k =
     (if k = run then map_option (\<lambda>n. case n of DirNode es \<Rightarrow> DirNode (f es) | other \<Rightarrow> other) (map_of lto k)
      else map_of lto k)"
  by (induction lto) (auto simp: update_run_def split: fs_node.splits)

text \<open>What may become of a run: files that are no bulk stay, its \<open>run-state.md\<close> only grows.\<close>

definition history_kept :: "fs_entries \<Rightarrow> fs_entries \<Rightarrow> bool" where
  "history_kept es es' \<longleftrightarrow>
     (\<forall>k. k \<notin> set BULK_TARGETS \<union> {''run-state.md''} \<longrightarrow> map_of es' k = map_of es k)
     \<and> (\<forall>c. map_of es ''run-state.md'' = Some (FileNode c) \<longrightarrow>
          (\<exists>d. map_of es' ''run-state.md'' = Some (FileNode (c @ d))))"

lemma history_kept_refl [simp]: "history_kept es es"
  by (auto simp: history_kept_def intro: exI [of _ "[]"])

lemma history_kept_trans: "history_kept a b \<Longrightarrow> history_kept b c \<Longrightarrow> history_kept a c"
  unfolding history_kept_def by (metis append_assoc)

lemma prune_targets_other:
  "prune_targets E run ts es freed = (r, es') \<Longrightarrow> k \<notin> set ts \<Longrightarrow> map_of es' k = map_of es k"
  by (induction ts arbitrary: es freed) (auto split: if_splits option.splits prod.splits)

lemma history_kept_pruned:
  assumes "prune_run_dir E run es = (r, es')"
  shows "history_kept es es'"
  using prune_targets_other [OF assms [unfolded prune_run_dir_def]]
  by (auto simp: history_kept_def BULK_TARGETS_def intro: exI [of _ "[]"])

lemma history_kept_marked: "history_kept es (mark_pruned E run es)"
  by (auto simp: history_kept_def mark_pruned_def split: option.splits fs_node.splits intro: exI [of _ "[]"])

definition tree_kept :: "string set \<Rightarrow> fs_entries \<Rightarrow> fs_entries \<Rightarrow> bool" where
  "tree_kept runs lto lto' \<longleftrightarrow>
     (\<forall>k. k \<notin> runs \<longrightarrow> map_of lto' k = map_of lto k)
     \<and> (\<forall>k es. map_of lto k = Some (DirNode es) \<longrightarrow>
          (\<exists>es'. map_of lto' k = Some (DirNode es') \<and> history_kept es es'))"

lemma tree_kept_refl [simp]: "tree_kept runs lto lto"
  by (simp add: tree_kept_def)

lemma tree_kept_trans:
  assumes "tree_kept r a b" and "tree_kept r b c"
  shows "tree_kept r a c"
  unfolding tree_kept_def
proof (intro conjI allI impI)
  fix k es assume "map_of a k = Some (DirNode es)"
  then obtain d where d: "map_of b k = Some (DirNode d)" "history_kept es d"
    using assms(1) unfolding tree_kept_def by blast
  then obtain d' where "map_of c k = Some (DirNode d')" "history_kept d d'"
    using assms(2) unfolding tree_kept_def by blast
  with d show "\<exists>es'. map_of c k = Some (DirNode es') \<and> history_kept es es'"
    using history_kept_trans by blast
qed (use assms in \<open>simp add: tree_kept_def\<close>)

lemma tree_kept_update:
  assumes "history_kept (run_entries run lto) es" and "run \<in> runs"
  shows "tree_kept runs lto (update_run run (\<lambda>_. es) lto)"
  using assms by (auto simp: tree_kept_def run_entries_def)

lemma tree_kept_pruned:
  "prune_runs E cs lto freed = (r, lto') \<Longrightarrow> tree_kept (cd_run_id ` set cs) lto lto'"
proof (induction cs arbitrary: lto freed)
  case (Cons c cs)
  let ?run = "cd_run_id c" let ?runs = "cd_run_id ` set (c # cs)"
  obtain x es where x: "prune_run_dir E ?run (run_entries ?run lto) = (x, es)" by fastforce
  have kept: "history_kept (run_entries ?run lto) es" by (rule history_kept_pruned [OF x])
  show ?case
  proof (cases x)
    case (Inl e)
    then have "lto' = update_run ?run (\<lambda>_. es) lto" using Cons.prems x by simp
    then show ?thesis using tree_kept_update [OF kept] by simp
  next
    case (Inr n)
    let ?mid = "update_run ?run (\<lambda>_. mark_pruned E ?run es) lto"
    have "tree_kept ?runs lto ?mid"
      by (rule tree_kept_update) (use history_kept_trans [OF kept history_kept_marked] in auto)
    moreover have "tree_kept (cd_run_id ` set cs) ?mid lto'"
      using Cons.prems x Inr by (intro Cons.IH) simp
    then have "tree_kept ?runs ?mid lto'" by (auto simp: tree_kept_def)
    ultimately show ?thesis by (rule tree_kept_trans)
  qed
qed simp

lemma eligible_closed:
  assumes "c \<in> set (eligible_runs E opts lto)" and "distinct (map fst lto)"
    and "map_of lto (cd_run_id c) = Some (DirNode es)"
  shows "is_closed_run E es"
proof -
  have "c \<in> set (collect_eligible E opts lto)"
    using assms(1) by (auto simp: eligible_runs_def Let_def split: if_splits)
  then obtain name d where d: "(name, DirNode d) \<in> set lto" "prune_candidate E opts name d = Some c"
    by (auto simp: collect_eligible_def run_dirs_def List.map_filter_def split: fs_node.splits option.splits)
  then have c: "cd_run_id c = name" "is_closed_run E d"
    by (auto simp: prune_candidate_def is_closed_run_def Let_def split: if_splits option.splits)
  with d(1) assms(2,3) show ?thesis by (metis fs_node.inject(2) map_of_is_SomeI option.inject)
qed


text \<open>What is freed is what was announced, when every removal succeeds.\<close>

lemma prune_targets_freed:
  "prune_targets E run ts es freed = (Inr n, es') \<Longrightarrow> distinct ts \<Longrightarrow> n = freed + sum_list (map (size_at es) ts)"
proof (induction ts arbitrary: es freed)
  case (Cons t ts)
  show ?case
  proof (cases "size_at es t = 0")
    case True
    then show ?thesis using Cons.IH [of es freed] Cons.prems by simp
  next
    case False
    have rest: "map (size_at (remove_entry t es)) ts = map (size_at es) ts"
      using Cons.prems(2) by (auto simp: size_at_def)
    have "prune_targets E run ts (remove_entry t es) (freed + size_at es t) = (Inr n, es')"
      using Cons.prems(1) False by (auto split: option.splits prod.splits)
    from Cons.IH [OF this] Cons.prems(2) rest show ?thesis by simp
  qed
qed simp

text \<open>
  The last runs are meant to be kept, but it is the names that are compared: of two closed runs that
  qualify, the one whose name comes first is pruned, be it the newer.
\<close>

definition demo_load :: "string \<Rightarrow> lto_state option" where
  "demo_load c = Some ((default_state c)\<lparr> st_current_phase := ''closed'' \<rparr>)"

definition demo_prune_env :: prune_env where
  "demo_prune_env = \<lparr> pn_load = demo_load, pn_rm = (\<lambda>r t. None), pn_mark = (\<lambda>r. True),
     pn_rfc = (\<lambda>s. Some (if s = ''old'' then 0 else 8640000000000000, 0)), pn_now = 17280000000000000, pn_stamp = ''d'' \<rparr>"

definition demo_lto :: fs_entries where
  "demo_lto =
     [(''a-new'', DirNode [(''state.json'', FileNode ''new''), (''events.jsonl'', FileNode ''e'')]),
      (''z-old'', DirNode [(''state.json'', FileNode ''old''), (''events.jsonl'', FileNode ''e'')])]"

definition demo_keep :: prune_options where
  "demo_keep = default_prune_options\<lparr> po_dry_run := False, po_yes := True, po_keep_last := 1 \<rparr>"

lemma keep_last_goes_by_name:
  "map (\<lambda>c. (cd_run_id c, cd_age_days c)) (collect_eligible demo_prune_env demo_keep demo_lto) = [(''a-new'', 100), (''z-old'', 200)]"
  "map cd_run_id (eligible_runs demo_prune_env demo_keep demo_lto) = [''a-new'']"
  by code_simp+


end
