(* ===== verification/Lto_Run_Io.thy ===== *)
theory Lto_Run_Io
  imports Lto_Tasks
begin

text \<open>
  Commands that read and write the files of a run step by step, for \<open>src/src/commands/contract.rs\<close> and
  \<open>src/src/commands/closeout.rs\<close>: actions that may fail in a world, the loading, locking and saving of
  \<open>src/src/commands/util.rs\<close> as actions, and a disk that runs them.
\<close>

subsection \<open>Actions\<close>

type_synonym ('w, 'a) act = "'w \<Rightarrow> (string + 'a) \<times> 'w"

definition aret :: "'a \<Rightarrow> ('w, 'a) act" where "aret a w = (Inr a, w)"

definition afail :: "string \<Rightarrow> ('w, 'a) act" where "afail e w = (Inl e, w)"

definition aread :: "('w \<Rightarrow> string + 'a) \<Rightarrow> ('w, 'a) act" where "aread f w = (f w, w)"

definition abind :: "('w, 'a) act \<Rightarrow> ('a \<Rightarrow> ('w, 'b) act) \<Rightarrow> ('w, 'b) act" where
  "abind m k w = (case m w of (Inl e, w') \<Rightarrow> (Inl e, w') | (Inr a, w') \<Rightarrow> k a w')"

text \<open>An action whose error is dropped, and one whose error is answered.\<close>

definition aignore :: "('w, 'a) act \<Rightarrow> ('w, unit) act" where "aignore m w = (Inr (), snd (m w))"

definition acatch :: "('w, 'a) act \<Rightarrow> (string \<Rightarrow> ('w, 'a) act) \<Rightarrow> ('w, 'a) act" where
  "acatch m h w = (case m w of (Inl e, w') \<Rightarrow> h e w' | (Inr a, w') \<Rightarrow> (Inr a, w'))"

lemmas act_defs = aret_def afail_def aread_def aignore_def

lemma abind_simps [simp]:
  "abind (aret a) k = k a" "abind (afail e) k = afail e" "abind m aret = m"
  by (auto simp: abind_def aret_def afail_def fun_eq_iff split: prod.splits sum.splits)

lemma abind_assoc: "abind (abind m k) l = abind m (\<lambda>a. abind (k a) l)"
  by (auto simp: abind_def fun_eq_iff split: prod.splits sum.splits)

lemma abind_Inr:
  "abind m k w = (Inr b, w') \<longleftrightarrow> (\<exists>a v. m w = (Inr a, v) \<and> k a v = (Inr b, w'))"
  by (auto simp: abind_def split: prod.splits sum.splits)

lemma abind_Inl:
  "abind m k w = (Inl e, w') \<longleftrightarrow> m w = (Inl e, w') \<or> (\<exists>a v. m w = (Inr a, v) \<and> k a v = (Inl e, w'))"
  by (auto simp: abind_def split: prod.splits sum.splits)

lemma act_simps [simp]:
  "aret a w = (r, w') \<longleftrightarrow> r = Inr a \<and> w' = w" "afail e w = (s, w') \<longleftrightarrow> s = Inl e \<and> w' = w"
  "aread f w = (t, w') \<longleftrightarrow> t = f w \<and> w' = w"
  by (auto simp: act_defs)

text \<open>What an action cannot change.\<close>

named_theorems keep_rules "actions that keep a part of the world"

definition keeps :: "('w \<Rightarrow> 'p) \<Rightarrow> ('w, 'a) act \<Rightarrow> bool" where
  "keeps p m \<longleftrightarrow> (\<forall>w. p (snd (m w)) = p w)"

lemma keepsD: "keeps p m \<Longrightarrow> m w = (r, w') \<Longrightarrow> p w' = p w"
  unfolding keeps_def by (metis snd_conv)

lemma keeps_pure [simp, keep_rules]: "keeps p (aret a)" "keeps p (afail e)" "keeps p (aread f)"
  by (simp_all add: keeps_def act_defs)

lemma aread_world: "aread f w = (r, v) \<Longrightarrow> v = w"
  by simp

lemma keeps_abind [keep_rules]: "keeps p m \<Longrightarrow> (\<And>a. keeps p (k a)) \<Longrightarrow> keeps p (abind m k)"
  by (auto simp: keeps_def abind_def split: prod.splits sum.splits) (metis snd_conv)+

lemma keeps_aignore [keep_rules]: "keeps p m \<Longrightarrow> keeps p (aignore m)"
  by (simp add: keeps_def aignore_def)

lemma keeps_acatch [keep_rules]: "keeps p m \<Longrightarrow> (\<And>e. keeps p (h e)) \<Longrightarrow> keeps p (acatch m h)"
  by (auto simp: keeps_def acatch_def split: prod.splits sum.splits) (metis snd_conv)+

lemma keeps_if [keep_rules]: "keeps p a \<Longrightarrow> keeps p b \<Longrightarrow> keeps p (if c then a else b)"
  by simp

lemma keepsI: "(\<And>w. p (snd (m w)) = p w) \<Longrightarrow> keeps p m"
  by (simp add: keeps_def)

lemma keeps_snd: "keeps p m \<Longrightarrow> p (snd (m w)) = p w"
  by (simp add: keeps_def)

lemma keeps_at: "(\<And>a. keeps p (m a)) \<Longrightarrow> keeps p (\<lambda>w. m (f w) w)"
  by (simp add: keeps_def)

subsection \<open>The files of a run\<close>

datatype file_read = FileText string | FileMissing | FileFailed string

text \<open>
  The calls a command makes. \<open>io_put\<close> writes a file, \<open>io_replace\<close> replaces it through a temporary file;
  \<open>io_capture\<close> runs a shell command in the repository and gives its exit code, output and seconds;
  \<open>io_parse\<close>, \<open>io_pretty\<close>, \<open>io_show\<close> are serde's, \<open>io_load\<close> and \<open>io_save\<close> read and write a state.
\<close>

record 'w run_io =
  io_git :: "'w world"
  io_exists :: "string \<Rightarrow> 'w \<Rightarrow> bool"
  io_is_file :: "string \<Rightarrow> 'w \<Rightarrow> bool"
  io_read :: "string \<Rightarrow> 'w \<Rightarrow> file_read"
  io_put :: "string \<Rightarrow> string \<Rightarrow> ('w, unit) act"
  io_replace :: "string \<Rightarrow> string \<Rightarrow> ('w, unit) act"
  io_remove :: "string \<Rightarrow> ('w, unit) act"
  io_lock :: "string \<Rightarrow> ('w, unit) act"
  io_load :: "string \<Rightarrow> 'w \<Rightarrow> string + lto_state"
  io_save :: "string \<Rightarrow> lto_state \<Rightarrow> ('w, unit) act"
  io_emit :: "string \<Rightarrow> event_record \<Rightarrow> ('w, unit) act"
  io_capture :: "string \<Rightarrow> u64 \<Rightarrow> ('w, int \<times> string \<times> string \<times> f64) act"
  io_relative :: "string \<Rightarrow> 'w \<Rightarrow> string + string"
  io_parse :: "string \<Rightarrow> string + json"
  io_pretty :: "json \<Rightarrow> string"
  io_show :: "json \<Rightarrow> string"
  io_result_of :: "json \<Rightarrow> agent_result option"
  io_sha :: "string \<Rightarrow> string"
  io_now :: "'w \<Rightarrow> string"

definition read_text :: "'w run_io \<Rightarrow> string \<Rightarrow> 'w \<Rightarrow> string + string" where
  "read_text E p w =
     (case io_read E p w of
        FileText t \<Rightarrow> Inr t
      | FileMissing \<Rightarrow> Inl ''No such file or directory (os error 2)''
      | FileFailed e \<Rightarrow> Inl e)"

record run_context =
  rx_run_id :: string
  rx_run_dir :: string
  rx_state_path :: string
  rx_state :: lto_state

definition run_dir_of :: "string \<Rightarrow> string \<Rightarrow> string" where
  "run_dir_of repo run_id = path_join (path_join repo ''.lto'') run_id"

definition find_run :: "'w run_io \<Rightarrow> string \<Rightarrow> string option \<Rightarrow> ('w, string) act" where
  "find_run E repo run_id =
     (let current = path_join (path_join repo ''.lto'') ''current'' in
      aread (\<lambda>w. resolve_run_id current (read_text E current w) run_id))"

definition no_state :: "string \<Rightarrow> string \<Rightarrow> string" where
  "no_state run_id path = (''no state.json for '' @ run_id @ '': '' @ path)"

definition load_run :: "'w run_io \<Rightarrow> string \<Rightarrow> string option \<Rightarrow> ('w, run_context) act" where
  "load_run E repo run_id =
     abind (find_run E repo run_id) (\<lambda>r.
       let dir = run_dir_of repo r; path = path_join dir ''state.json'' in
       aread (\<lambda>w. case io_load E path w of
           Inl _ \<Rightarrow> Inl (no_state r path)
         | Inr st \<Rightarrow> Inr \<lparr> rx_run_id = r, rx_run_dir = dir, rx_state_path = path, rx_state = st \<rparr>))"

text \<open>The lock file is created next to the state; the run may be gone once the lock is held.\<close>

definition need_state :: "'w run_io \<Rightarrow> string \<Rightarrow> string \<Rightarrow> ('w, unit) act" where
  "need_state E path run_id = aread (\<lambda>w. if io_is_file E path w then Inr () else Inl (no_state run_id path))"

definition lock_existing_state_path :: "'w run_io \<Rightarrow> string \<Rightarrow> string \<Rightarrow> string \<Rightarrow> ('w, unit) act" where
  "lock_existing_state_path E dir path run_id =
     abind (need_state E path run_id) (\<lambda>_. abind (io_lock E (path_join dir ''.state.lock'')) (\<lambda>_.
       need_state E path run_id))"

definition lock_existing_run :: "'w run_io \<Rightarrow> string \<Rightarrow> string \<Rightarrow> ('w, unit) act" where
  "lock_existing_run E repo run_id =
     abind (aread (\<lambda>_. validate_run_id run_id)) (\<lambda>_.
       lock_existing_state_path E (run_dir_of repo run_id) (state_path repo run_id) run_id)"

text \<open>The merged state is the state of the context from then on.\<close>

definition store_run :: "'w run_io \<Rightarrow> run_context \<Rightarrow> ('w, run_context) act" where
  "store_run E x =
     abind (lock_existing_state_path E (rx_run_dir x) (rx_state_path x) (rx_run_id x)) (\<lambda>_.
     abind (aread (io_load E (rx_state_path x))) (\<lambda>cur.
       let st = merge_concurrent_state (io_show E) cur (rx_state x) in
       abind (io_save E (rx_state_path x) st) (\<lambda>_. aret (x\<lparr> rx_state := st \<rparr>))))"

definition save_run_locked :: "'w run_io \<Rightarrow> run_context \<Rightarrow> ('w, unit) act" where
  "save_run_locked E x = io_save E (rx_state_path x) (rx_state x)"

definition tell :: "'w run_io \<Rightarrow> string \<Rightarrow> event_record \<Rightarrow> ('w, unit) act" where
  "tell E run_id r = aignore (io_emit E run_id r)"

text \<open>A query of git, which only looks.\<close>

definition ask_git :: "('w \<Rightarrow> 'a \<times> 'w) \<Rightarrow> ('w, 'a) act" where
  "ask_git q w = (case q w of (a, w') \<Rightarrow> (Inr a, w'))"

subsection \<open>The artifact manifest\<close>

definition artifact_registered :: "string \<Rightarrow> artifact_meta \<Rightarrow> string \<Rightarrow> event_record" where
  "artifact_registered entry_id meta rel =
     default_event\<lparr> er_event_type := ''artifact.registered'', er_actor_kind := ''lto'',
       er_phase := Some (am_phase meta), er_object_id := Some entry_id, er_object_type := Some (am_kind meta),
       er_summary := am_summary meta, er_artifact_refs := [rel],
       er_fields := jobj [(''kind'', JStr (am_kind meta)), (''producer'', JStr (am_producer meta))] \<rparr>"

definition manifest_path :: "string \<Rightarrow> string \<Rightarrow> string" where
  "manifest_path repo run_id = path_join (run_dir_of repo run_id) ''artifacts.json''"

definition read_manifest :: "'w run_io \<Rightarrow> string \<Rightarrow> string \<Rightarrow> ('w, json) act" where
  "read_manifest E repo run_id =
     aread (\<lambda>w. if io_exists E (manifest_path repo run_id) w
                then bindr (read_text E (manifest_path repo run_id) w) (io_parse E)
                else Inr (new_manifest (io_now E w) run_id))"

definition entry_of_file :: "'w run_io \<Rightarrow> string \<Rightarrow> string \<Rightarrow> artifact_meta \<Rightarrow> 'w \<Rightarrow> string + json" where
  "entry_of_file E run_id path meta w =
     bindr (io_relative E path w) (\<lambda>rel.
       if io_exists E path w \<and> am_kind meta \<noteq> ''changelog''
       then bindr (read_text E path w) (\<lambda>d.
              Inr (artifact_entry (io_sha E) (io_now E w) run_id rel (Some d) meta))
       else Inr (artifact_entry (io_sha E) (io_now E w) run_id rel None meta))"

definition register_file :: "'w run_io \<Rightarrow> string \<Rightarrow> string \<Rightarrow> string \<Rightarrow> artifact_meta \<Rightarrow> ('w, unit) act" where
  "register_file E repo run_id path meta =
     abind (read_manifest E repo run_id) (\<lambda>manifest.
     abind (aread (entry_of_file E run_id path meta)) (\<lambda>entry.
     abind (aread (\<lambda>w. register_artifact (io_now E w) run_id (Some manifest) entry)) (\<lambda>m.
     abind (\<lambda>w. w_mkdir (io_git E) w (run_dir_of repo run_id)) (\<lambda>_.
     abind (io_put E (manifest_path repo run_id) (io_pretty E m @ [CHR 0x0A])) (\<lambda>_ w.
       tell E run_id
         (artifact_registered (opt_get_or [] (jget_str entry ''id'')) meta
           (opt_get_or [] (case io_relative E path w of Inr r \<Rightarrow> Some r | Inl _ \<Rightarrow> None))) w)))))"

text \<open>
  All entries, the newest first: \<open>usize::MAX\<close> is no limit. A manifest that cannot be read or parsed
  has none.
\<close>

definition all_artifacts :: "'w run_io \<Rightarrow> string \<Rightarrow> string \<Rightarrow> 'w \<Rightarrow> json list" where
  "all_artifacts E repo run_id w =
     (case bindr (read_text E (manifest_path repo run_id) w) (io_parse E) of
        Inr m \<Rightarrow> sort_by (\<lambda>a b. created_key b \<le> created_key a) (opt_get_or [] (jget_with as_array m ''artifacts''))
      | Inl _ \<Rightarrow> [])"

subsection \<open>A disk\<close>

text \<open>
  A disk for concrete runs; \<open>accepts\<close> says which files can be written and which events the log takes.
  A file that is replaced always is; shell commands succeed, git has no changes, a manifest is read
  back without its entries.
\<close>

record disk =
  dk_states :: "string \<Rightarrow> lto_state option"
  dk_texts :: "string \<Rightarrow> string option"
  dk_events :: "event_record list"

definition disk_read :: "string \<Rightarrow> disk \<Rightarrow> file_read" where
  "disk_read p d = (case dk_texts d p of Some t \<Rightarrow> FileText t | None \<Rightarrow> FileMissing)"

definition disk_put :: "(string \<Rightarrow> bool) \<Rightarrow> string \<Rightarrow> string \<Rightarrow> (disk, unit) act" where
  "disk_put accepts p t d =
     (if accepts p then (Inr (), d\<lparr> dk_texts := (dk_texts d)(p := Some t) \<rparr>) else (Inl ''No space left on device'', d))"

definition disk_write :: "string \<Rightarrow> string \<Rightarrow> (disk, unit) act" where
  "disk_write p t d = (Inr (), d\<lparr> dk_texts := (dk_texts d)(p := Some t) \<rparr>)"

definition disk_world :: "disk world" where
  "disk_world = \<lparr> w_git = (\<lambda>d repo args. (Inr \<lparr> co_success = True, co_code = Some 0, co_stdout = [], co_stderr = [] \<rparr>, d)),
     w_shell = (\<lambda>d repo c. (Inl [], d)), w_exists = (\<lambda>d p. True), w_mkdir = (\<lambda>d p. (Inr (), d)) \<rparr>"

definition disk_io :: "(string \<Rightarrow> bool) \<Rightarrow> disk run_io" where
  "disk_io accepts =
     \<lparr> io_git = disk_world,
       io_exists = (\<lambda>p d. disk_read p d \<noteq> FileMissing), io_is_file = (\<lambda>p d. dk_states d p \<noteq> None),
       io_read = disk_read, io_put = disk_put accepts, io_replace = disk_write,
       io_remove = (\<lambda>p d. (Inr (), d\<lparr> dk_texts := (dk_texts d)(p := None) \<rparr>)), io_lock = (\<lambda>p. aret ()),
       io_load = (\<lambda>p d. case dk_states d p of Some st \<Rightarrow> Inr st | None \<Rightarrow> Inl ''missing''),
       io_save = (\<lambda>p st d. (Inr (), d\<lparr> dk_states := (dk_states d)(p := Some st) \<rparr>)),
       io_emit = (\<lambda>r ev d. if accepts (er_event_type ev) then (Inr (), d\<lparr> dk_events := dk_events d @ [ev] \<rparr>)
                           else (Inl ''refused'', d)),
       io_capture = (\<lambda>c t. aret (0, [], [], Fin 0)), io_relative = (\<lambda>p d. Inr p),
       io_parse = (\<lambda>_. Inr (JObj [])), io_pretty = (\<lambda>_. ''{}''), io_show = (\<lambda>_. []), io_result_of = (\<lambda>_. None), io_sha = id,
       io_now = (\<lambda>_. ''t1'') \<rparr>"

lemma disk_simps [simp]:
  "io_save (disk_io a) p st d = (Inr (), d\<lparr> dk_states := (dk_states d)(p := Some st) \<rparr>)"
  "io_replace (disk_io a) p t d = (Inr (), d\<lparr> dk_texts := (dk_texts d)(p := Some t) \<rparr>)"
  "io_put (disk_io a) p t d = disk_put a p t d"
  "io_lock (disk_io a) p d = (Inr (), d)"
  "io_emit (disk_io a) r ev d = (if a (er_event_type ev) then (Inr (), d\<lparr> dk_events := dk_events d @ [ev] \<rparr>)
     else (Inl ''refused'', d))"
  by (simp_all add: disk_io_def disk_write_def aret_def)

lemma looking_keeps_world [simp]:
  "snd (find_run E repo r w) = w" "snd (load_run E repo r w) = w"
  by (auto simp: find_run_def load_run_def Let_def abind_def aread_def split: prod.splits sum.splits)

lemma disk_lock_keeps_world [simp]: "snd (lock_existing_run (disk_io a) repo r d) = d"
  by (auto simp: lock_existing_run_def lock_existing_state_path_def need_state_def abind_def aread_def
      split: prod.splits sum.splits if_splits)

end
