(* ===== verification/Lto_Contract.thy ===== *)
theory Lto_Contract
  imports Lto_Run_Io Lto_Event_Emit
begin

text \<open>
  \<open>src/src/commands/contract.rs\<close>: \<open>lto contract set\<close> changes the goal and the delivery contract of a run
  under its lock, writes the state and \<open>run-state.md\<close>, emits an event, and puts the files back when
  one of these fails. Warnings are not modelled; a result is the line that is printed.
\<close>

subsection \<open>The new contract\<close>

record contract_set_options =
  cs_run_id :: "string option"
  cs_goal :: "string option"
  cs_done_when :: "string option"
  cs_host :: "string option"
  cs_targets :: "string list"
  cs_constraints :: "string list"
  cs_instruments :: "string list"
  cs_replacement_instruments :: "string list"
  cs_entropy_checks :: "string list"

definition append_values :: "string list \<Rightarrow> string list \<Rightarrow> string \<Rightarrow> string list \<Rightarrow> string list \<times> string list" where
  "append_values destination vs field changed =
     (if vs = [] then (destination, changed) else (destination @ vs, changed @ [field]))"

definition set_basics :: "contract_set_options \<Rightarrow> lto_state \<Rightarrow> lto_state \<times> string list" where
  "set_basics opts st =
     (let (s1, c1) = (case cs_goal opts of None \<Rightarrow> (st, []) | Some g \<Rightarrow> (st\<lparr> st_goal := g \<rparr>, [''goal'']));
          (s2, c2) = (case cs_done_when opts of None \<Rightarrow> (s1, c1)
                      | Some d \<Rightarrow> (s1\<lparr> st_done_when := d \<rparr>, c1 @ [''done_when'']))
      in case cs_host opts of None \<Rightarrow> (s2, c2)
         | Some h \<Rightarrow> (s2\<lparr> st_host_runtime := (if trim h = [] then ''unknown'' else trim h) \<rparr>,
                     c2 @ [''host_runtime'']))"

definition set_contract :: "contract_set_options \<Rightarrow> delivery_contract \<Rightarrow> string list \<Rightarrow> delivery_contract \<times> string list" where
  "set_contract opts c changed =
     (let delta = new_contract (cs_targets opts) (cs_constraints opts) (cs_instruments opts) (cs_entropy_checks opts);
          replacements = dc_instruments (new_contract [] [] (cs_replacement_instruments opts) []);
          (ts, c1) = append_values (dc_targets c) (dc_targets delta) ''targets'' changed;
          (cs, c2) = append_values (dc_constraints c) (dc_constraints delta) ''constraints'' c1;
          (is, c3) = (if cs_replacement_instruments opts \<noteq> [] then (replacements, c2 @ [''instruments''])
                      else append_values (dc_instruments c) (dc_instruments delta) ''instruments'' c2);
          (fe, c4) = append_values (dc_forced_entropy c) (dc_forced_entropy delta) ''forced_entropy'' c3
      in (c\<lparr> dc_targets := ts, dc_constraints := cs, dc_instruments := is, dc_forced_entropy := fe \<rparr>, c4))"

definition apply_contract :: "contract_set_options \<Rightarrow> lto_state \<Rightarrow> lto_state \<times> string list" where
  "apply_contract opts st =
     (let (s1, c1) = set_basics opts st; (c, changed) = set_contract opts (st_delivery_contract s1) c1
      in (s1\<lparr> st_delivery_contract := c \<rparr>, changed))"

definition flag_hint :: "string \<Rightarrow> string" where
  "flag_hint flag =
     (if flag = ''--goal'' then (''--goal '' @ [CHR 0x22] @ ''<'' @ [CHR 0xE4, CHR 0xB8, CHR 0x80, CHR 0xE5, CHR 0x8F, CHR 0xA5, CHR 0xE8, CHR 0xAF, CHR 0x9D, CHR 0xE7, CHR 0x9B, CHR 0xAE, CHR 0xE6, CHR 0xA0, CHR 0x87] @ ''>'' @ [CHR 0x22])
      else if flag = ''--done-when'' then (''--done-when '' @ [CHR 0x22] @ ''<'' @ [CHR 0xE6, CHR 0x80, CHR 0x8E, CHR 0xE4, CHR 0xB9, CHR 0x88, CHR 0xE7, CHR 0xAE, CHR 0x97, CHR 0xE5, CHR 0x81, CHR 0x9A, CHR 0xE5, CHR 0xAE, CHR 0x8C] @ ''>'' @ [CHR 0x22])
      else if flag = ''--why'' then (''--why '' @ [CHR 0x22] @ ''<'' @ [CHR 0xE4, CHR 0xB8, CHR 0xBA, CHR 0xE4, CHR 0xBB, CHR 0x80, CHR 0xE4, CHR 0xB9, CHR 0x88, CHR 0xE8, CHR 0xA6, CHR 0x81, CHR 0xE5, CHR 0x81, CHR 0x9A] @ ''>'' @ [CHR 0x22])
      else if flag = ''--host'' then (''--host '' @ [CHR 0x22] @ ''<'' @ [CHR 0xE5, CHR 0xBD, CHR 0x93, CHR 0xE5, CHR 0x89, CHR 0x8D] @ '' host runtime>'' @ [CHR 0x22, CHR 0xEF, CHR 0xBC, CHR 0x88, CHR 0xE5, CHR 0xBD, CHR 0x93, CHR 0xE5, CHR 0x89, CHR 0x8D, CHR 0xE6, CHR 0x8C, CHR 0x89] @ '' unknown '' @ [CHR 0xE8, CHR 0xAE, CHR 0xB0, CHR 0xE5, CHR 0xBD, CHR 0x95, CHR 0xEF, CHR 0xBC, CHR 0x89])
      else if flag = ''--target'' then (''--target '' @ [CHR 0x22] @ ''<'' @ [CHR 0xE5, CHR 0x8F, CHR 0xAF, CHR 0xE9, CHR 0xAA, CHR 0x8C, CHR 0xE8, CHR 0xAF, CHR 0x81, CHR 0xE7, CHR 0x9B, CHR 0xAE, CHR 0xE6, CHR 0xA0, CHR 0x87] @ ''>'' @ [CHR 0x22])
      else if flag = ''--constraint'' then (''--constraint '' @ [CHR 0x22] @ ''<'' @ [CHR 0xE4, CHR 0xBA, CHR 0xA4, CHR 0xE4, CHR 0xBB, CHR 0x98, CHR 0xE7, CHR 0xBA, CHR 0xA6, CHR 0xE6, CHR 0x9D, CHR 0x9F] @ ''>'' @ [CHR 0x22])
      else if flag = ''--instrument'' then (''--instrument '' @ [CHR 0x22] @ ''<label>::<'' @ [CHR 0xE6, CHR 0xB5, CHR 0x8B, CHR 0xE9, CHR 0x87, CHR 0x8F, CHR 0xE5, CHR 0x91, CHR 0xBD, CHR 0xE4, CHR 0xBB, CHR 0xA4] @ ''>'' @ [CHR 0x22])
      else if flag = ''--entropy-check'' then (''--entropy-check '' @ [CHR 0x22] @ ''<'' @ [CHR 0xE5, CHR 0x81, CHR 0x9C, CHR 0xE6, CHR 0xBB, CHR 0x9E, CHR 0xE6, CHR 0x97, CHR 0xB6, CHR 0xE7, CHR 0x9A, CHR 0x84, CHR 0xE6, CHR 0x8D, CHR 0xA2, CHR 0xE5, CHR 0x81, CHR 0x87, CHR 0xE8, CHR 0xAE, CHR 0xBE, CHR 0xE6, CHR 0xA3, CHR 0x80, CHR 0xE6, CHR 0x9F, CHR 0xA5] @ ''>'' @ [CHR 0x22])
      else flag)"

definition format_flag_hints :: "string list \<Rightarrow> string" where
  "format_flag_hints flags = join_str '' '' (map flag_hint flags)"

text \<open>What is said of a run or a contract that is not complete.\<close>

definition contract_problem :: "lto_state \<Rightarrow> string option" where
  "contract_problem st =
     (let ready = assess_run_readiness (st_goal st) (st_done_when st) (st_why st) (st_host_runtime st);
          complete = completeness_missing (st_delivery_contract st)
      in if \<not> run_is_ready ready
         then Some ([CHR 0xE9, CHR 0x9C, CHR 0x80, CHR 0xE8, CHR 0xA1, CHR 0xA5, CHR 0xE5, CHR 0x85, CHR 0x85] @ '': '' @ (format_flag_hints (ra_missing ready)) @ [CHR 0x0A, CHR 0xEF, CHR 0xBC, CHR 0x88, CHR 0xE4, CHR 0xBF, CHR 0xA1, CHR 0xE6, CHR 0x81, CHR 0xAF, CHR 0xE4, CHR 0xB8, CHR 0x8D, CHR 0xE8, CHR 0xB6, CHR 0xB3, CHR 0xE7, CHR 0xA6, CHR 0x81, CHR 0xE7, CHR 0x8C, CHR 0x9C, CHR 0xEF, CHR 0xBC, CHR 0x9A, CHR 0xE6, CHR 0xB2, CHR 0xA1, CHR 0xE6, CHR 0x9C, CHR 0x89, CHR 0xE5, CHR 0xAE, CHR 0x8C, CHR 0xE6, CHR 0x88, CHR 0x90, CHR 0xE6, CHR 0xA0, CHR 0x87, CHR 0xE5, CHR 0x87, CHR 0x86, CHR 0xE7, CHR 0x9A, CHR 0x84] @ '' run '' @ [CHR 0xE6, CHR 0x97, CHR 0xA0, CHR 0xE6, CHR 0xB3, CHR 0x95, CHR 0xE5, CHR 0x88, CHR 0xA4, CHR 0xE6, CHR 0x94, CHR 0xB6, CHR 0xE6, CHR 0x95, CHR 0x9B, CHR 0xEF, CHR 0xBC, CHR 0x8C] @ ''recap/closeout '' @ [CHR 0xE9, CHR 0x83, CHR 0xBD, CHR 0xE4, CHR 0xBC, CHR 0x9A, CHR 0xE9, CHR 0x80, CHR 0x80, CHR 0xE5, CHR 0x8C, CHR 0x96, CHR 0xEF, CHR 0xBC, CHR 0x89])
         else if co_missing complete \<noteq> []
         then Some ([CHR 0xE9, CHR 0x9C, CHR 0x80, CHR 0xE8, CHR 0xA1, CHR 0xA5, CHR 0xE5, CHR 0x85, CHR 0x85] @ '': '' @ (format_flag_hints (co_missing complete)) @ [CHR 0x0A, CHR 0xEF, CHR 0xBC, CHR 0x88, CHR 0xE4, CHR 0xBF, CHR 0xA1, CHR 0xE6, CHR 0x81, CHR 0xAF, CHR 0xE4, CHR 0xB8, CHR 0x8D, CHR 0xE8, CHR 0xB6, CHR 0xB3, CHR 0xE7, CHR 0xA6, CHR 0x81, CHR 0xE7, CHR 0x8C, CHR 0x9C, CHR 0xEF, CHR 0xBC, CHR 0x9A, CHR 0xE7, CHR 0x9B, CHR 0xAE, CHR 0xE6, CHR 0xA0, CHR 0x87, CHR 0xE4, CHR 0xB8, CHR 0x8E, CHR 0xE6, CHR 0xB5, CHR 0x8B, CHR 0xE9, CHR 0x87, CHR 0x8F, CHR 0xE6, CHR 0x89, CHR 0x8B, CHR 0xE6, CHR 0xAE, CHR 0xB5, CHR 0xE5, CHR 0xBF, CHR 0x85, CHR 0xE9, CHR 0xA1, CHR 0xBB, CHR 0xE6, CHR 0x88, CHR 0x90, CHR 0xE5, CHR 0xAF, CHR 0xB9, CHR 0xEF, CHR 0xBC, CHR 0x8C, CHR 0xE7, CHR 0x9B, CHR 0xAE, CHR 0xE6, CHR 0xA0, CHR 0x87, CHR 0xE5, CHR 0xBF, CHR 0x85, CHR 0xE9, CHR 0xA1, CHR 0xBB, CHR 0xE6, CHR 0x9C, CHR 0x89, CHR 0xE5, CHR 0x8F, CHR 0xAF, CHR 0xE9, CHR 0xAA, CHR 0x8C, CHR 0xE8, CHR 0xAF, CHR 0x81, CHR 0xE7, CHR 0x9A, CHR 0x84, CHR 0xE6, CHR 0xB5, CHR 0x8B, CHR 0xE9, CHR 0x87, CHR 0x8F, CHR 0xE6, CHR 0x89, CHR 0x8B, CHR 0xE6, CHR 0xAE, CHR 0xB5, CHR 0xEF, CHR 0xBC, CHR 0x89])
         else None)"

definition counts_of :: "delivery_contract \<Rightarrow> field_counts" where
  "counts_of c = \<lparr> fc_targets = length (dc_targets c), fc_constraints = length (dc_constraints c),
     fc_instruments = length (dc_instruments c), fc_forced_entropy = length (dc_forced_entropy c) \<rparr>"

subsection \<open>The files\<close>

text \<open>\<open>templates/run-state.md\<close>, which is compiled in.\<close>

definition template_lines :: "string list" where
  "template_lines =
     [''# LTO Run State Template'', [],
      (''> '' @ [CHR 0xE7, CHR 0x94, CHR 0xA8, CHR 0xE9, CHR 0x80, CHR 0x94, CHR 0xEF, CHR 0xBC, CHR 0x9A, CHR 0xE6, CHR 0xAF, CHR 0x8F, CHR 0xE4, CHR 0xB8, CHR 0xAA, CHR 0xE9, CHR 0x95, CHR 0xBF, CHR 0xE4, CHR 0xBB, CHR 0xBB, CHR 0xE5, CHR 0x8A, CHR 0xA1, CHR 0xE4, CHR 0xB8, CHR 0x80, CHR 0xE4, CHR 0xBB, CHR 0xBD, CHR 0xEF, CHR 0xBC, CHR 0x8C, CHR 0xE8, CHR 0xB7, CHR 0xAF, CHR 0xE5, CHR 0xBE, CHR 0x84, CHR 0xE5, CHR 0xBB, CHR 0xBA, CHR 0xE8, CHR 0xAE, CHR 0xAE] @ '' '' @ [CHR 0x60] @ ''.lto/<run-id>/run-state.md'' @ [CHR 0x60, CHR 0xE3, CHR 0x80, CHR 0x82, CHR 0xE5, CHR 0xAE, CHR 0x83, CHR 0xE6, CHR 0x98, CHR 0xAF] @ '' /compact'' @ [CHR 0xE3, CHR 0x80, CHR 0x81] @ ''resume'' @ [CHR 0xE3, CHR 0x80, CHR 0x81, CHR 0xE5, CHR 0x90, CHR 0x8E, CHR 0xE5, CHR 0x8F, CHR 0xB0, CHR 0xE6, CHR 0xB4, CHR 0xBE, CHR 0xE5, CHR 0xB7, CHR 0xA5, CHR 0xE5, CHR 0x9B, CHR 0x9E, CHR 0xE6, CHR 0x94, CHR 0xB6, CHR 0xE5, CHR 0x90, CHR 0x8E, CHR 0xE7, CHR 0x9A, CHR 0x84, CHR 0xE7, CHR 0x9C, CHR 0x9F, CHR 0xE6, CHR 0xBA, CHR 0x90, CHR 0xEF, CHR 0xBC, CHR 0x8C, CHR 0xE4, CHR 0xB8, CHR 0x8D, CHR 0xE6, CHR 0x98, CHR 0xAF, CHR 0xE4, CHR 0xBA, CHR 0x8B, CHR 0xE5, CHR 0x90, CHR 0x8E, CHR 0xE6, CHR 0x80, CHR 0xBB, CHR 0xE7, CHR 0xBB, CHR 0x93, CHR 0xE3, CHR 0x80, CHR 0x82]), [],
      ''## Identity'', [], ''- run_id:'', ''- feature / goal:'', ''- why:'', ''- done_when:'', ''- started_at:'',
      ''- host_runtime:'', ''- repo:'', ''- initial_user_request:'',
      ''- current_phase: intake | spec | audit | implementation | deploy | observe | closed'',
      ''- current_git_head:'', ''- current_branch:'', [], ''## Delivery Contract'', [], ''- delivery_targets:'',
      ''- delivery_constraints:'', ''- delivery_instruments:'', ''- delivery_forced_entropy:'', [],
      ''## Host Preconditions'', [], ''- sandbox / approval:'', ''- network:'', ''- tmux/session:'',
      ''- memory-flow / MCP:'', ''- production access:'', ''- child runner write roots:'', [],
      ''## Active Delegations'', [],
      ''| id | purpose | runner | command | pid/window | timeout | reply | exit | status |'',
      ''|---|---|---|---|---|---:|---|---:|---|'', ''| d1 |  |  |  |  |  |  |  | planned |'', [],
      ''Status values: planned, running, returned, failed, superseded, abandoned.'', [], ''## Phase Ledger'',
      [], ''| phase | entry condition | exit evidence | user decision | status |'', ''|---|---|---|---|---|'',
      ''| intake |  |  |  | open |'', ''| spec |  |  |  | pending |'', ''| audit |  |  |  | pending |'',
      ''| implementation |  |  |  | pending |'', ''| deploy |  |  |  | pending |'',
      ''| observe |  |  |  | pending |'', [], ''## Decision Slugs'', [],
      ''| decision | slug / ADR | commit | reason it matters |'', ''|---|---|---|---|'', ''|  |  |  |  |'', [],
      ''## Evidence Snapshot'', [],
      ''Keep this short and evidence-first. Update after every resume or phase gate.'', [],
      ''- architecture_alignment:'', ''- first_principles:'', ''- simplification_dedupe:'',
      ''- value_measurement:'', ''- documentation_alignment:'', ''- historical_cleanup:'', ''- clean_worktree:'',
      ''- rebuild_package:'', ''- code layer:'', ''- runtime layer:'', ''- persistence layer:'', [],
      ''## Next Action'', [], ''- blocked_by:'', ''- next_command_or_question:'', ''- owner:'', ''- due / wakeup:'']"

definition RUN_STATE_TEMPLATE :: string where
  "RUN_STATE_TEMPLATE = join_str [CHR 0x0A] template_lines @ [CHR 0x0A]"

definition md_path :: "run_context \<Rightarrow> string" where
  "md_path x = path_join (rx_run_dir x) ''run-state.md''"

definition read_original :: "'w run_io \<Rightarrow> string \<Rightarrow> 'w \<Rightarrow> string + string option" where
  "read_original E md w =
     (case io_read E md w of
        FileText t \<Rightarrow> Inr (Some t) | FileMissing \<Rightarrow> Inr None | FileFailed _ \<Rightarrow> Inl (''read '' @ md))"

text \<open>The errors of the two steps of a rollback; both are tried.\<close>

definition rollback_md :: "'w run_io \<Rightarrow> string \<Rightarrow> string option \<Rightarrow> ('w, unit) act" where
  "rollback_md E md original =
     (case original of
        Some t \<Rightarrow> io_replace E md t
      | None \<Rightarrow> (\<lambda>w. if io_exists E md w then io_remove E md w else aret () w))"

definition failed_steps :: "string \<Rightarrow> string + unit \<Rightarrow> string list" where
  "failed_steps what r = (case r of Inl e \<Rightarrow> [(what @ '' rollback failed: '' @ e)] | Inr _ \<Rightarrow> [])"

definition rollback_contract_update ::
    "'w run_io \<Rightarrow> run_context \<Rightarrow> string option \<Rightarrow> string \<Rightarrow> ('w, 'a) act" where
  "rollback_contract_update E x original cause w =
     (let (r1, w1) = io_save E (rx_state_path x) (rx_state x) w;
          (r2, w2) = rollback_md E (md_path x) original w1;
          errors = failed_steps ''state'' r1 @ failed_steps ''run-state'' r2
      in (Inl (if errors = [] then ''contract update rolled back after a persistence failure''
               else (cause @ ''; '' @ (join_str ''; '' errors))), w2))"

definition finish_contract ::
    "'w run_io \<Rightarrow> run_context \<Rightarrow> lto_state \<Rightarrow> string list \<Rightarrow> string \<Rightarrow> ('w, unit) act" where
  "finish_contract E x st changed updated =
     abind (io_replace E (md_path x) updated) (\<lambda>_.
       io_emit E (rx_run_id x)
         (contract_updated (st_current_phase st) changed (counts_of (st_delivery_contract st))))"

text \<open>\<open>x\<close> is the run as it was loaded, \<open>st\<close> its new state.\<close>

definition persist_contract ::
    "'w run_io \<Rightarrow> run_context \<Rightarrow> lto_state \<Rightarrow> string list \<Rightarrow> ('w, string) act" where
  "persist_contract E x st changed =
     abind (aread (read_original E (md_path x))) (\<lambda>original.
       let updated = render_synced_run_state_md (opt_get_or RUN_STATE_TEMPLATE original) st in
       abind (save_run_locked E (x\<lparr> rx_state := st \<rparr>)) (\<lambda>_.
       abind (acatch (finish_contract E x st changed updated) (rollback_contract_update E x original)) (\<lambda>_.
         aret (''contract updated: '' @ (show_nat (length changed)) @ '' field(s)''))))"

definition update_contract :: "'w run_io \<Rightarrow> contract_set_options \<Rightarrow> run_context \<Rightarrow> ('w, string) act" where
  "update_contract E opts x =
     (if cs_instruments opts \<noteq> [] \<and> cs_replacement_instruments opts \<noteq> []
      then afail ''--instrument cannot be used with --replace-instrument''
      else (let (st, changed) = apply_contract opts (rx_state x) in
        case contract_problem st of
          Some e \<Rightarrow> afail e
        | None \<Rightarrow> if changed = [] then aret ''contract unchanged: 0 field(s)''
                 else persist_contract E x st changed))"

definition cmd_contract_set :: "'w run_io \<Rightarrow> string \<Rightarrow> contract_set_options \<Rightarrow> ('w, string) act" where
  "cmd_contract_set E repo opts =
     abind (find_run E repo (cs_run_id opts)) (\<lambda>r. abind (lock_existing_run E repo r) (\<lambda>_.
     abind (load_run E repo (Some r)) (update_contract E opts)))"

subsection \<open>All or nothing\<close>

text \<open>The states and the \<open>run-state.md\<close> files of all runs.\<close>

definition is_md :: "string \<Rightarrow> bool" where
  "is_md p \<longleftrightarrow> suffix ''run-state.md'' p"

definition run_view :: "'w run_io \<Rightarrow> 'w \<Rightarrow> (string \<Rightarrow> string + lto_state) \<times> (string \<Rightarrow> file_read)" where
  "run_view E w = (\<lambda>p. io_load E p w, \<lambda>p. if is_md p then io_read E p w else FileMissing)"

text \<open>
  What is relied on: a write that replaces a file leaves the old content when it fails and the new
  one when it does not, and touches no other of these files; neither the lock nor an event touches any.
\<close>

definition store_laws :: "'w run_io \<Rightarrow> bool" where
  "store_laws E \<longleftrightarrow>
     (\<forall>path st w. run_view E (snd (io_save E path st w)) =
        (if is_ok (fst (io_save E path st w)) then apfst (\<lambda>f. f(path := Inr st)) (run_view E w) else run_view E w))
     \<and> (\<forall>md t w. is_md md \<longrightarrow> run_view E (snd (io_replace E md t w)) =
        (if is_ok (fst (io_replace E md t w)) then apsnd (\<lambda>f. f(md := FileText t)) (run_view E w) else run_view E w))
     \<and> (\<forall>md w. is_md md \<longrightarrow> run_view E (snd (io_remove E md w)) =
        (if is_ok (fst (io_remove E md w)) then apsnd (\<lambda>f. f(md := FileMissing)) (run_view E w) else run_view E w))
     \<and> (\<forall>p. keeps (run_view E) (io_lock E p)) \<and> (\<forall>r e. keeps (run_view E) (io_emit E r e))
     \<and> (\<forall>p w. io_exists E p w \<longleftrightarrow> io_read E p w \<noteq> FileMissing)"

lemma store_lawsD:
  assumes "store_laws E"
  shows "io_save E path st w = (r, w') \<Longrightarrow> run_view E w' =
      (if is_ok r then apfst (\<lambda>f. f(path := Inr st)) (run_view E w) else run_view E w)"
    and "io_replace E md t w = (r, w') \<Longrightarrow> is_md md \<Longrightarrow> run_view E w' =
      (if is_ok r then apsnd (\<lambda>f. f(md := FileText t)) (run_view E w) else run_view E w)"
    and "io_remove E md w = (r, w') \<Longrightarrow> is_md md \<Longrightarrow> run_view E w' =
      (if is_ok r then apsnd (\<lambda>f. f(md := FileMissing)) (run_view E w) else run_view E w)"
    and "keeps (run_view E) (io_lock E p)" and "keeps (run_view E) (io_emit E i ev)"
    and "io_exists E p w \<longleftrightarrow> io_read E p w \<noteq> FileMissing"
  using assms unfolding store_laws_def by (metis fst_conv snd_conv)+

lemma lock_keeps_runs: "store_laws E \<Longrightarrow> keeps (run_view E) (lock_existing_run E repo r)"
  unfolding lock_existing_run_def lock_existing_state_path_def need_state_def
  by (intro keeps_abind keeps_pure store_lawsD(4))

lemma md_path_is_md [simp]: "is_md (md_path x)"
  by (auto simp: is_md_def md_path_def path_join_def suffix_def)

lemma read_of_view: "is_md md \<Longrightarrow> io_read E md w = snd (run_view E w) md"
  by (simp add: run_view_def)

lemma load_of_view: "io_load E p w = fst (run_view E w) p"
  by (simp add: run_view_def)

text \<open>A rollback that reports no error restores the view, whatever the last steps did.\<close>

lemma rollback_restores:
  assumes "store_laws E" and "rollback_contract_update E x original cause w = (r, w')"
    and "run_view E w = (f(rx_state_path x := st), g(md_path x := c))"
    and "f (rx_state_path x) = Inr (rx_state x)"
    and "g (md_path x) = (case original of Some t \<Rightarrow> FileText t | None \<Rightarrow> FileMissing)"
  shows "\<exists>e. r = Inl e \<and> (run_view E w' = (f, g) \<or> (\<exists>errors. errors \<noteq> [] \<and> e = (cause @ ''; '' @ (join_str ''; '' errors))))"
proof -
  obtain r1 w1 where r1: "io_save E (rx_state_path x) (rx_state x) w = (r1, w1)" by fastforce
  obtain r2 where r2: "rollback_md E (md_path x) original w1 = (r2, w')"
    and r: "r = Inl (if failed_steps ''state'' r1 @ failed_steps ''run-state'' r2 = []
        then ''contract update rolled back after a persistence failure''
        else (cause @ ''; '' @ (join_str ''; '' (failed_steps ''state'' r1 @ failed_steps ''run-state'' r2))))"
    using assms(2) r1 by (auto simp: rollback_contract_update_def Let_def split: prod.splits)
  show ?thesis
  proof (cases "r1 = Inr () \<and> r2 = Inr ()")
    case True
    have "run_view E w1 = (f, g(md_path x := c))"
      using store_lawsD(1) [OF assms(1) r1] True assms(3,4) by (auto simp: fun_upd_idem)
    then have "run_view E w' = (f, g)"
      using r2 True assms(5) store_lawsD(6) [OF assms(1), of "md_path x" w1]
      by (auto simp: rollback_md_def read_of_view fun_upd_idem split: option.splits if_splits
          dest!: store_lawsD(2,3) [OF assms(1)])
    with r show ?thesis by blast
  next
    case False
    then have "failed_steps ''state'' r1 @ failed_steps ''run-state'' r2 \<noteq> []"
      by (cases r1; cases r2) (auto simp: failed_steps_def)
    with r show ?thesis by auto
  qed
qed

text \<open>What has become of the files of the runs after a contract was set.\<close>

definition rolled_back :: "'w run_io \<Rightarrow> 'w \<Rightarrow> 'w \<Rightarrow> string \<Rightarrow> bool" where
  "rolled_back E w w' e \<longleftrightarrow>
     run_view E w' = run_view E w
     \<or> (\<exists>cause errors. errors \<noteq> [] \<and> e = (cause @ ''; '' @ (join_str ''; '' errors)))"

definition contract_saved :: "'w run_io \<Rightarrow> run_context \<Rightarrow> lto_state \<Rightarrow> 'w \<Rightarrow> 'w \<Rightarrow> bool" where
  "contract_saved E x st w w' \<longleftrightarrow>
     (\<exists>old. run_view E w' = (map_prod (\<lambda>f. f(rx_state_path x := Inr st))
         (\<lambda>g. g(md_path x := FileText (render_synced_run_state_md old st))) (run_view E w)))"

lemma finish_contract_cases:
  assumes "store_laws E" and "finish_contract E x st changed t w = (r, w')" and "run_view E w = (f, g)"
  shows "(\<exists>c. run_view E w' = (f, g(md_path x := c))) \<and> (is_ok r \<longrightarrow> run_view E w' = (f, g(md_path x := FileText t)))"
proof -
  obtain r1 w1 where r1: "io_replace E (md_path x) t w = (r1, w1)" by fastforce
  note v1 = store_lawsD(2) [OF assms(1) r1 md_path_is_md, unfolded assms(3)]
  show ?thesis
  proof (cases r1)
    case (Inl e)
    then show ?thesis using assms(2) r1 v1 by (auto simp: finish_contract_def abind_def intro: exI [of _ "g (md_path x)"])
  next
    case (Inr u)
    then have "run_view E w' = run_view E w1"
      using assms(2) r1 by (auto simp: finish_contract_def abind_def dest: keepsD [OF store_lawsD(5) [OF assms(1)]])
    then show ?thesis using v1 Inr by auto
  qed
qed

lemma persist_all_or_nothing:
  assumes "store_laws E" and "persist_contract E x st changed w = (r, w')"
    and "io_load E (rx_state_path x) w = Inr (rx_state x)"
  shows "case r of Inl e \<Rightarrow> rolled_back E w w' e | Inr _ \<Rightarrow> contract_saved E x st w w'"
proof -
  obtain f g where view: "run_view E w = (f, g)" by fastforce
  have loaded: "f (rx_state_path x) = Inr (rx_state x)" using assms(3) view by (simp add: load_of_view)
  show ?thesis
  proof (cases "read_original E (md_path x) w")
    case (Inl e)
    then show ?thesis using assms(2) by (auto simp: persist_contract_def abind_def aread_def rolled_back_def)
  next
    case (Inr original)
    let ?t = "render_synced_run_state_md (opt_get_or RUN_STATE_TEMPLATE original) st"
    have md: "g (md_path x) = (case original of Some t \<Rightarrow> FileText t | None \<Rightarrow> FileMissing)"
      using Inr view by (auto simp: read_original_def read_of_view split: file_read.splits)
    obtain r1 w1 where r1: "io_save E (rx_state_path x) st w = (r1, w1)" by fastforce
    note v1 = store_lawsD(1) [OF assms(1) r1, unfolded view]
    show ?thesis
    proof (cases r1)
      case (Inl e)
      then show ?thesis using assms(2) Inr r1 v1 view
        by (auto simp: persist_contract_def save_run_locked_def abind_def aread_def rolled_back_def Let_def)
    next
      case saved: (Inr u)
      obtain r2 w2 where r2: "finish_contract E x st changed ?t w1 = (r2, w2)" by fastforce
      have v1': "run_view E w1 = (f(rx_state_path x := Inr st), g)" using v1 saved by simp
      note fin = finish_contract_cases [OF assms(1) r2 v1']
      show ?thesis
      proof (cases r2)
        case (Inr v)
        have "r = Inr (''contract updated: '' @ (show_nat (length changed)) @ '' field(s)'')" "w' = w2"
          using assms(2) \<open>read_original E (md_path x) w = Inr original\<close> r1 saved r2 Inr
          by (auto simp: persist_contract_def save_run_locked_def abind_def aread_def acatch_def Let_def)
        moreover have "contract_saved E x st w w2" using fin Inr view by (auto simp: contract_saved_def)
        ultimately show ?thesis by simp
      next
        case (Inl cause)
        obtain c where c: "run_view E w2 = (f(rx_state_path x := Inr st), g(md_path x := c))" using fin by blast
        have "rollback_contract_update E x original cause w2 = (map_sum id (\<lambda>_. ()) r, w') \<and> \<not> is_ok r"
          using assms(2) \<open>read_original E (md_path x) w = Inr original\<close> r1 saved r2 Inl
          by (auto simp: persist_contract_def save_run_locked_def abind_def aread_def acatch_def Let_def
              rollback_contract_update_def split: prod.splits)
        then obtain e where e: "r = Inl e"
          and rb: "rollback_contract_update E x original cause w2 = (Inl e :: string + unit, w')"
          by (cases r) auto
        from rollback_restores [OF assms(1) rb c loaded md]
        have "rolled_back E w w' e" unfolding rolled_back_def view by blast
        with e show ?thesis by simp
      qed
    qed
  qed
qed

lemma problem_None:
  "contract_problem st = None \<longleftrightarrow>
     run_is_ready (assess_run_readiness (st_goal st) (st_done_when st) (st_why st) (st_host_runtime st))
     \<and> contract_is_complete (st_delivery_contract st)"
  by (auto simp: contract_problem_def contract_is_complete_def Let_def)

text \<open>
  C7: Setting a contract is all or nothing. When the command fails, every state and every
  \<open>run-state.md\<close> of the repository is as before, unless the error itself reports that the rollback
  failed. When it succeeds, it changed nothing, or the state of one run and its \<open>run-state.md\<close>: the
  state is the loaded one with the options applied, it is ready and its contract complete, and the
  Markdown file shows it.
\<close>

theorem contract_set_all_or_nothing:
  assumes "store_laws E" and "cmd_contract_set E repo opts w = (r, w')"
  shows "case r of
      Inl e \<Rightarrow> rolled_back E w w' e
    | Inr _ \<Rightarrow> run_view E w' = run_view E w
        \<or> (\<exists>x st changed. io_load E (rx_state_path x) w = Inr (rx_state x)
            \<and> apply_contract opts (rx_state x) = (st, changed) \<and> changed \<noteq> []
            \<and> run_is_ready (assess_run_readiness (st_goal st) (st_done_when st) (st_why st) (st_host_runtime st))
            \<and> contract_is_complete (st_delivery_contract st) \<and> contract_saved E x st w w')"
proof -
  obtain i w0 where find: "find_run E repo (cs_run_id opts) w = (i, w0)" by fastforce
  then have w0: "w0 = w" by (simp add: find_run_def Let_def)
  show ?thesis
  proof (cases i)
    case (Inl e)
    then show ?thesis using assms(2) find w0 by (auto simp: cmd_contract_set_def abind_def rolled_back_def)
  next
    case (Inr run_id)
    obtain l w1 where lock: "lock_existing_run E repo run_id w = (l, w1)" by fastforce
    have v1: "run_view E w1 = run_view E w" by (rule keepsD [OF lock_keeps_runs [OF assms(1)] lock])
    obtain x w2 where load: "load_run E repo (Some run_id) w1 = (x, w2)" by fastforce
    have w2: "w2 = w1" using load by (auto simp: load_run_def find_run_def Let_def abind_def aread_def split: sum.splits)
    show ?thesis
    proof (cases "\<exists>u c. l = Inr u \<and> x = Inr c")
      case False
      then have "(\<exists>e. r = Inl e) \<and> run_view E w' = run_view E w"
        using assms(2) find w0 Inr lock load v1 w2
        by (auto simp: cmd_contract_set_def abind_def split: sum.splits)
      then show ?thesis by (auto simp: rolled_back_def)
    next
      case True
      then obtain u c where c: "l = Inr u" "x = Inr c" by blast
      have loaded: "io_load E (rx_state_path c) w1 = Inr (rx_state c)"
        using load c(2) by (auto simp: load_run_def find_run_def Let_def abind_def aread_def split: sum.splits)
      have upd: "update_contract E opts c w1 = (r, w')"
        using assms(2) find w0 Inr lock load c w2 by (auto simp: cmd_contract_set_def abind_def)
      obtain st changed where new: "apply_contract opts (rx_state c) = (st, changed)" by fastforce
      show ?thesis
      proof (cases "contract_problem st = None \<and> changed \<noteq> [] \<and> (cs_instruments opts = [] \<or> cs_replacement_instruments opts = [])")
        case False
        then have "w' = w1" using upd new by (auto simp: update_contract_def split: if_splits option.splits)
        then show ?thesis using v1 by (auto simp: rolled_back_def split: sum.splits)
      next
        case True
        then have "persist_contract E c st changed w1 = (r, w')" using upd new by (auto simp: update_contract_def)
        note all = persist_all_or_nothing [OF assms(1) this loaded]
        show ?thesis
        proof (cases r)
          case (Inl e)
          then show ?thesis using all v1 by (simp add: rolled_back_def)
        next
          case (Inr line)
          moreover have "contract_saved E c st w w'" using all v1 Inr by (simp add: contract_saved_def)
          moreover have "io_load E (rx_state_path c) w = Inr (rx_state c)" using loaded v1 by (simp add: load_of_view)
          ultimately show ?thesis using True new by (auto simp: problem_None)
        qed
      qed
    qed
  qed
qed

subsection \<open>A rollback\<close>

definition demo_before :: lto_state where
  "demo_before = (default_state ''t0'')\<lparr> st_run_id := ''r1'', st_goal := ''ship'', st_done_when := ''shipped'' \<rparr>"

definition demo_contract_disk :: disk where
  "demo_contract_disk =
     \<lparr> dk_states = [''/r/.lto/r1/state.json'' \<mapsto> demo_before],
       dk_texts = [''/r/.lto/current'' \<mapsto> (''r1'' @ [CHR 0x0A]), ''/r/.lto/r1/run-state.md'' \<mapsto> (''- goal:'' @ [CHR 0x0A])], dk_events = [] \<rparr>"

definition demo_contract_options :: contract_set_options where
  "demo_contract_options = \<lparr> cs_run_id = None, cs_goal = None, cs_done_when = None, cs_host = None,
     cs_targets = [''measured''], cs_constraints = [], cs_instruments = [''smoke::cargo test''],
     cs_replacement_instruments = [], cs_entropy_checks = [] \<rparr>"

lemma disk_laws: "store_laws (disk_io accepts)"
  by (auto simp: store_laws_def disk_io_def run_view_def keeps_def is_ok_def is_md_def disk_read_def disk_write_def
      aret_def fun_eq_iff split: option.splits)

text \<open>The event is refused after both files were written.\<close>

definition demo_context :: run_context where
  "demo_context = \<lparr> rx_run_id = ''r1'', rx_run_dir = ''/r/.lto/r1'', rx_state_path = ''/r/.lto/r1/state.json'',
     rx_state = demo_before \<rparr>"

lemma demo_contract_found:
  "find_run (disk_io a) ''/r'' (cs_run_id demo_contract_options) demo_contract_disk = (Inr ''r1'', demo_contract_disk)"
  "lock_existing_run (disk_io a) ''/r'' ''r1'' demo_contract_disk = (Inr (), demo_contract_disk)"
  "load_run (disk_io a) ''/r'' (Some ''r1'') demo_contract_disk = (Inr demo_context, demo_contract_disk)"
  "read_original (disk_io a) (md_path demo_context) demo_contract_disk = Inr (Some (''- goal:'' @ [CHR 0x0A]))"
  by (simp_all add: prod_eq_iff) code_simp+

lemma demo_contract_ready:
  "\<exists>st. apply_contract demo_contract_options (rx_state demo_context) = (st, [''targets'', ''instruments''])
     \<and> contract_problem st = None"
proof -
  have "snd (apply_contract demo_contract_options demo_before) = [''targets'', ''instruments'']"
    "contract_problem (fst (apply_contract demo_contract_options demo_before)) = None"
    by code_simp+
  then show ?thesis by (metis demo_context_def prod.collapse run_context.select_convs(4))
qed

lemma demo_contract_fails:
  "fst (cmd_contract_set (disk_io (\<lambda>_. False)) ''/r'' demo_contract_options demo_contract_disk)
   = Inl ''contract update rolled back after a persistence failure''"
proof -
  obtain st where st: "apply_contract demo_contract_options (rx_state demo_context) = (st, [''targets'', ''instruments''])"
    "contract_problem st = None" using demo_contract_ready by blast
  have "cs_replacement_instruments demo_contract_options = []" by code_simp
  then have "cmd_contract_set (disk_io (\<lambda>_. False)) ''/r'' demo_contract_options demo_contract_disk
      = persist_contract (disk_io (\<lambda>_. False)) demo_context st [''targets'', ''instruments''] demo_contract_disk"
    by (simp add: cmd_contract_set_def abind_def demo_contract_found update_contract_def st)
  then show ?thesis
    by (simp add: persist_contract_def abind_def aread_def demo_contract_found save_run_locked_def acatch_def
        finish_contract_def rollback_contract_update_def rollback_md_def failed_steps_def)
qed

theorem contract_set_all_or_nothing_witness:
  "run_view (disk_io (\<lambda>_. False))
     (snd (cmd_contract_set (disk_io (\<lambda>_. False)) ''/r'' demo_contract_options demo_contract_disk))
   = run_view (disk_io (\<lambda>_. False)) demo_contract_disk"
proof -
  have "\<not> (\<exists>cause errors. ''contract update rolled back after a persistence failure'' = (cause @ ''; '' @ (join_str ''; '' errors)))"
  proof
    assume "\<exists>cause errors. ''contract update rolled back after a persistence failure'' = (cause @ ''; '' @ (join_str ''; '' errors))"
    then have "CHR '';'' \<in> set ''contract update rolled back after a persistence failure''" by (metis UnI1 UnI2 list.set_intros(1) set_append)
    then show False by simp
  qed
  then show ?thesis
    using contract_set_all_or_nothing [OF disk_laws prod.collapse [symmetric, of
        "cmd_contract_set (disk_io (\<lambda>_. False)) ''/r'' demo_contract_options demo_contract_disk"]]
    unfolding demo_contract_fails rolled_back_def by auto
qed

end
