(* ===== verification/Lto_Closeout.thy ===== *)
theory Lto_Closeout
  imports Lto_Run_Io Lto_Event_Emit
begin

text \<open>
  \<open>src/src/commands/closeout.rs\<close>: a run is closed. The gates look at the state, the ledger, the
  worktree and the risks and run the instruments of the contract again; then the state is saved as
  closed, the Markdown file, the changelog and the handoff are written and registered, and events
  tell of it. Warnings are not modelled; saving the telemetry is an argument.
\<close>

subsection \<open>The gates\<close>

record closeout_options =
  cl_run_id :: "string option"
  cl_summary :: string
  cl_next_action :: string
  cl_blocked_by :: string
  cl_allow_dirty :: bool
  cl_no_changelog :: bool
  cl_force :: bool
  cl_reverify_timeout :: u64
  cl_no_reverify :: bool

record reverify_result =
  rv_attempted :: nat
  rv_passed :: nat
  rv_failed_labels :: "string list"

definition no_reverify :: reverify_result where
  "no_reverify = \<lparr> rv_attempted = 0, rv_passed = 0, rv_failed_labels = [] \<rparr>"

definition closeout_gates_failed :: "string \<Rightarrow> json \<Rightarrow> event_record" where
  "closeout_gates_failed reason detail =
     default_event\<lparr> er_event_type := ''gate.evaluated'', er_actor_kind := ''lto'', er_object_id := Some ''closeout'',
       er_object_type := Some ''gate'', er_summary := (''closeout gates failed: '' @ reason),
       er_fields := jobj [(''gate'', JStr ''closeout''), (''status'', JStr ''failed''), (''reason'', JStr reason),
                          (''detail'', detail)] \<rparr>"

definition emit_closeout_gate_blocked :: "'w run_io \<Rightarrow> string \<Rightarrow> string \<Rightarrow> json \<Rightarrow> ('w, unit) act" where
  "emit_closeout_gate_blocked E run_id reason detail =
     abind (tell E run_id (closeout_gates_failed reason detail)) (\<lambda>_.
       tell E run_id (gate_blocked ''closeout'' reason detail))"

text \<open>A gate that is shut emits its two events and refuses.\<close>

definition gate :: "'w run_io \<Rightarrow> string \<Rightarrow> bool \<Rightarrow> string \<Rightarrow> json \<Rightarrow> string \<Rightarrow> ('w, unit) act" where
  "gate E run_id shut reason detail message =
     (if shut then abind (emit_closeout_gate_blocked E run_id reason detail) (\<lambda>_. afail message) else aret ())"

definition readiness_gate :: "'w run_io \<Rightarrow> run_context \<Rightarrow> ('w, unit) act" where
  "readiness_gate E x =
     (let st = rx_state x; missing = ra_missing (assess_run_readiness (st_goal st) (st_done_when st) (st_why st) (st_host_runtime st))
      in gate E (rx_run_id x) (missing \<noteq> []) ''run readiness missing'' (jobj [(''missing'', jstrs missing)])
           (''closeout refused: run readiness missing '' @ (join_str '', '' missing) @ '' (use --force to override)''))"

definition contract_gate :: "'w run_io \<Rightarrow> run_context \<Rightarrow> ('w, unit) act" where
  "contract_gate E x =
     (let missing = co_missing (completeness_missing (st_delivery_contract (rx_state x)))
      in gate E (rx_run_id x) (missing \<noteq> []) ''delivery contract incomplete'' (jobj [(''missing'', jstrs missing)])
           (''closeout refused: delivery contract incomplete: '' @ (join_str '', '' missing) @ '' (use --force to override)''))"

definition ledger_path :: "run_context \<Rightarrow> string" where
  "ledger_path x = path_join (rx_run_dir x) ''audit-ledger.md''"

definition ledger_rounds :: "'w run_io \<Rightarrow> run_context \<Rightarrow> ('w, ledger_round list) act" where
  "ledger_rounds E x =
     abind (aread (read_text E (ledger_path x))) (\<lambda>t.
       case parse_ledger t of Inl e \<Rightarrow> afail (ledger_error_str e) | Inr rounds \<Rightarrow> aret rounds)"

text \<open>Without strictness, and only when there is a ledger.\<close>

definition verdict_gate :: "'w run_io \<Rightarrow> run_context \<Rightarrow> ('w, unit) act" where
  "verdict_gate E x w =
     (if io_exists E (ledger_path x) w
      then abind (ledger_rounds E x) (\<lambda>rounds.
        let verdict = evaluate_ledger rounds False; s = ledger_sequence rounds in
        gate E (rx_run_id x) (verdict \<noteq> Converged \<and> verdict \<noteq> NoObservations) ''audit ledger not converged''
          (jobj [(''ledger_verdict'', JStr (verdict_str verdict)), (''ledger_sequence'', JStr s)])
          (''closeout refused: ledger verdict is '' @ (verdict_str verdict) @ '', not CONVERGED ('' @ s @ '') (use --force to override)'')) w
      else aret () w)"

definition blocks_gate :: "'w run_io \<Rightarrow> run_context \<Rightarrow> bool \<Rightarrow> ('w, unit) act" where
  "blocks_gate E x force =
     (let n = length (unresolved_blocks (rx_state x))
      in gate E (rx_run_id x) (0 < n \<and> \<not> force) ''unresolved blocks'' (jobj [(''unresolved_blocks'', jnat n)])
           (''closeout refused: '' @ (show_nat n) @ '' unresolved blocks (use --force)''))"

definition open_gate :: "'w run_io \<Rightarrow> run_context \<Rightarrow> bool \<Rightarrow> ('w, unit) act" where
  "open_gate E x force =
     gate E (rx_run_id x) (st_current_phase (rx_state x) = ''closed'' \<and> \<not> force) ''run already closed''
       (jobj [(''current_phase'', JStr (st_current_phase (rx_state x)))])
       ''run already closed (use --force to rewrite)''"

definition last_lines :: "string \<Rightarrow> nat \<Rightarrow> string" where
  "last_lines v n = join_str [CHR 0x0A] (tail_lines v n)"

definition reverify_failure :: "string \<Rightarrow> int \<times> string \<times> string \<times> f64 \<Rightarrow> string" where
  "reverify_failure display out =
     (case out of (rc, stdout, stderr, _) \<Rightarrow>
        (let ot = last_lines stdout 8; et = last_lines stderr 8 in
         (''closeout reverify failed: '' @ display @ '' (rc='' @ (show_int rc) @ '')'')
         @ (if ot = [] then [] else ([CHR 0x0A] @ ''stdout tail:'' @ [CHR 0x0A] @ ot)) @ (if et = [] then [] else ([CHR 0x0A] @ ''stderr tail:'' @ [CHR 0x0A] @ et))))"

definition run_instrument :: "'w run_io \<Rightarrow> u64 \<Rightarrow> string \<Rightarrow> ('w, int \<times> string \<times> string \<times> f64) act" where
  "run_instrument E timeout command =
     acatch (io_capture E command timeout) (\<lambda>e. aret (1, [], e, Fin 0))"

text \<open>The instruments one after the other; the first that fails ends the command.\<close>

fun reverify_instruments ::
    "'w run_io \<Rightarrow> run_context \<Rightarrow> u64 \<Rightarrow> string list \<Rightarrow> reverify_result \<Rightarrow> ('w, reverify_result) act" where
  "reverify_instruments E x timeout [] rv = aret rv"
| "reverify_instruments E x timeout (i # is) rv =
     (let (label, command) = split_instrument i; display = opt_get_or command label;
          n = rv_attempted rv + 1 in
      abind (run_instrument E timeout command) (\<lambda>out.
        if fst out = 0
        then reverify_instruments E x timeout is (rv\<lparr> rv_attempted := n, rv_passed := rv_passed rv + 1 \<rparr>)
        else abind (emit_closeout_gate_blocked E (rx_run_id x) ''delivery contract instruments failed reverify''
               (jobj [(''reverified_instruments'', jnat n), (''passed_instruments'', jnat (rv_passed rv)),
                      (''failed_instrument_labels'', jstrs (rv_failed_labels rv @ [display]))])) (\<lambda>_.
             afail (''closeout refused: delivery contract instruments failed reverify: '' @ display @ '' (use --force to override)'' @ [CHR 0x0A] @ (reverify_failure display out)))))"

definition reverify :: "'w run_io \<Rightarrow> run_context \<Rightarrow> closeout_options \<Rightarrow> ('w, reverify_result) act" where
  "reverify E x opts =
     (if \<not> cl_force opts \<and> \<not> cl_no_reverify opts
      then reverify_instruments E x (cl_reverify_timeout opts)
             (dc_instruments (st_delivery_contract (rx_state x))) no_reverify
      else aret no_reverify)"

definition NO_CHANGELOG_HINT :: string where
  "NO_CHANGELOG_HINT = ''use --no-changelog after commit for admin closeout without new tracked dirt''"

definition dirty_gate :: "'w run_io \<Rightarrow> run_context \<Rightarrow> bool \<Rightarrow> string list \<Rightarrow> ('w, unit) act" where
  "dirty_gate E x allowed dirty =
     (let n = length dirty; sample = join_str '', '' (take 5 dirty)
      in gate E (rx_run_id x) (dirty \<noteq> [] \<and> \<not> allowed) ''tracked worktree dirty''
           (jobj [(''tracked_dirty_count'', jnat n), (''sample'', JStr sample)])
           (''closeout refused: '' @ (show_nat n) @ '' tracked uncommitted change(s) outside .lto (e.g. '' @ sample @ ''). Commit or stash code changes first; '' @ NO_CHANGELOG_HINT @ ''.''))"

definition risks_gate :: "'w run_io \<Rightarrow> run_context \<Rightarrow> bool \<Rightarrow> ('w, unit) act" where
  "risks_gate E x force =
     (let n = length (open_unverified_risks (rx_state x))
      in gate E (rx_run_id x) (0 < n \<and> \<not> force) ''risk points unverified''
           (jobj [(''unverified_risk_points'', jnat n)])
           (''closeout refused: '' @ (show_nat n) @ '' risk points unverified (use --force to override)''))"

definition high_risk_gate :: "'w run_io \<Rightarrow> run_context \<Rightarrow> bool \<Rightarrow> ('w, unit) act" where
  "high_risk_gate E x force w =
     (if \<not> (has_high_risk_task (io_show E) (st_tasks (rx_state x)) \<and> \<not> force) then aret () w
      else abind (gate E (rx_run_id x) (\<not> io_exists E (ledger_path x) w) ''missing audit ledger''
             (jobj [(''audit_ledger'', JStr ''missing'')])
             ''closeout refused: high-risk run has no audit-ledger.md (run lto audit first, or use --force to override)'') (\<lambda>_.
           abind (aread (read_text E (ledger_path x))) (\<lambda>t.
             gate E (rx_run_id x) (\<not> has_real_ledger_rounds t) ''empty audit ledger''
               (jobj [(''audit_ledger'', JStr ''empty'')])
               ''closeout refused: high-risk run has empty audit ledger (run lto audit first, or use --force to override)'')) w)"

text \<open>The untracked files are only warned of.\<close>

definition enforce_gates :: "'w run_io \<Rightarrow> string \<Rightarrow> run_context \<Rightarrow> closeout_options \<Rightarrow> ('w, reverify_result) act" where
  "enforce_gates E repo x opts =
     (let force = cl_force opts; unless_forced = (\<lambda>m. if force then aret () else m) in
      abind (ask_git (\<lambda>w. tracked_dirty_paths (io_git E) w repo)) (\<lambda>dirty.
      abind (unless_forced (readiness_gate E x)) (\<lambda>_.
      abind (unless_forced (contract_gate E x)) (\<lambda>_.
      abind (unless_forced (verdict_gate E x)) (\<lambda>_.
      abind (blocks_gate E x force) (\<lambda>_.
      abind (open_gate E x force) (\<lambda>_.
      abind (reverify E x opts) (\<lambda>rv.
      abind (dirty_gate E x (cl_allow_dirty opts) dirty) (\<lambda>_.
      abind (ask_git (\<lambda>w. untracked_paths (io_git E) w repo)) (\<lambda>_.
      abind (risks_gate E x force) (\<lambda>_.
      abind (high_risk_gate E x force) (\<lambda>_. aret rv))))))))))))"

subsection \<open>What is written\<close>

text \<open>What is before an earlier section, or the whole text.\<close>

definition closeout_section :: "string \<Rightarrow> closeout_options \<Rightarrow> string \<Rightarrow> string" where
  "closeout_section now opts content =
     (let head = trim_end (case split_once ([CHR 0x0A] @ ''## Closeout'' @ [CHR 0x0A]) content of Some (h, _) \<Rightarrow> h | None \<Rightarrow> content) in
      (head @ [CHR 0x0A, CHR 0x0A] @ ''## Closeout'' @ [CHR 0x0A, CHR 0x0A] @ ''- closed_at: '' @ now @ [CHR 0x0A] @ ''- summary: '' @ (single_line (cl_summary opts)) @ [CHR 0x0A] @ ''- next_action: '' @ (single_line (cl_next_action opts)) @ [CHR 0x0A]))"

definition write_closeout_section :: "'w run_io \<Rightarrow> string \<Rightarrow> closeout_options \<Rightarrow> ('w, unit) act" where
  "write_closeout_section E path opts =
     abind (aread (read_text E path)) (\<lambda>content w. io_put E path (closeout_section (io_now E w) opts content) w)"

text \<open>No decimals, a tie to the even digit.\<close>

definition show_rounded :: "f64 \<Rightarrow> string" where
  "show_rounded f = (case f of Fin q \<Rightarrow> show_int (round_even q) | PInf \<Rightarrow> ''inf'' | NInf \<Rightarrow> ''-inf'' | NaN \<Rightarrow> ''NaN'')"

definition token_usage_line :: "(json \<Rightarrow> agent_result option) \<Rightarrow> lto_state \<Rightarrow> string" where
  "token_usage_line rd st =
     (let r = token_rollup_of rd st;
          elapsed = (if f_lt (Fin 0) (tr_total_elapsed_sec r)
                     then ('', '' @ (show_rounded (tr_total_elapsed_sec r)) @ ''s total'') else [])
      in if tr_runs_total r = 0 then ''no agent runs''
         else if tr_total_tokens r = 0
         then (''unmetered ('' @ (show_u64 (tr_runs_total r)) @ '' runs, no runner reported tokens'' @ elapsed @ '')'')
         else (let parts = sort_by (\<lambda>a b. snd b \<le> snd a)
                     (map (\<lambda>(k, s). (k, rr_tokens s)) (filter (\<lambda>(_, s). 0 < rr_tokens s) (tr_by_runner r)));
                   by_runner = join_str '', '' (map (\<lambda>(k, n). (k @ ''='' @ (show_u64 n))) parts)
               in ((show_u64 (tr_total_tokens r)) @ '' total (in='' @ (show_u64 (tr_tokens_in r)) @ '', out='' @ (show_u64 (tr_tokens_out r)) @ ''; '' @ (show_u64 (tr_runs_with_tokens r)) @ ''/'' @ (show_u64 (tr_runs_total r)) @ '' runs metered'' @ elapsed @ ''; '' @ by_runner @ '')'')))"

definition artifact_key :: "json \<Rightarrow> string \<times> string" where
  "artifact_key a = (opt_get_or [] (jget_str a ''kind''), opt_get_or [] (jget_str a ''relative_path''))"

definition artifact_line :: "json \<Rightarrow> string" where
  "artifact_line a =
     (let kind = opt_get_or ''other'' (jget_str a ''kind'');
          path = opt_get_or ''?'' (opt_or (jget_str a ''relative_path'') (jget_str a ''run_relative_path''));
          summary = opt_get_or [] (jget_str a ''summary'')
      in if summary = [] then (''- '' @ [CHR 0x60] @ kind @ [CHR 0x60] @ '': '' @ [CHR 0x60] @ path @ [CHR 0x60]) else (''- '' @ [CHR 0x60] @ kind @ [CHR 0x60] @ '': '' @ [CHR 0x60] @ path @ [CHR 0x60] @ '' -- '' @ summary))"

definition build_handoff :: "'w run_io \<Rightarrow> string \<Rightarrow> run_context \<Rightarrow> closeout_options \<Rightarrow> git_status \<Rightarrow> json list \<Rightarrow> string" where
  "build_handoff E now x opts now_git artifacts =
     join_str [CHR 0x0A]
       ([''# LTO Handoff'', [], (''- run_id: '' @ (rx_run_id x)), (''- goal: '' @ (st_goal (rx_state x))),
         ''- status: closed'', (''- closed_at: '' @ now), (''- git_head: '' @ (gs_head now_git)), (''- branch: '' @ (gs_branch now_git)),
         (''- blocked_by: '' @ (single_line (cl_blocked_by opts))), (''- summary: '' @ (single_line (cl_summary opts))),
         (''- next_action: '' @ (single_line (cl_next_action opts))),
         ''- intervention_summary: none recorded by rust closeout'',
         (''- token_usage: '' @ (token_usage_line (io_result_of E) (rx_state x))), [], ''## Artifacts'', []]
        @ (if artifacts = [] then [''- none'']
           else map artifact_line (sort_by (\<lambda>a b. artifact_key a \<le> artifact_key b) artifacts))
        @ [[]])"

text \<open>Evidence without an exit code is a note.\<close>

definition evidence_line :: "json \<Rightarrow> string" where
  "evidence_line e =
     (let kind = opt_get_or ''?'' (jget_str e ''kind'');
          summary = opt_get_or [] (opt_or (jget_str e ''summary'') (jget_str e ''command''));
          marker = (case jget_with as_i64 e ''rc'' of Some n \<Rightarrow> if n = 0 then ''PASS'' else ''FAIL'' | None \<Rightarrow> ''NOTE'')
      in (''  - '' @ marker @ '' ['' @ kind @ ''] '' @ (chars_take 80 summary)))"

definition task_lines :: "json \<Rightarrow> string list" where
  "task_lines t =
     (let i = opt_get_or ''?'' (jget_str t ''id''); title = opt_get_or i (jget_str t ''title'');
          status = opt_get_or ''unknown'' (jget_str t ''status'')
      in (''- **'' @ i @ ''**: '' @ title @ '' ('' @ status @ '')'')
         # map evidence_line (opt_get_or [] (jget_with as_array t ''evidence''))
         @ map (\<lambda>b. (''  - blocked: '' @ (opt_get_or ''unknown'' (jget_str b ''reason''))))
             (opt_get_or [] (jget_with as_array t ''blockers'')))"

definition changelog_section :: "string \<Rightarrow> run_context \<Rightarrow> closeout_options \<Rightarrow> string" where
  "changelog_section now x opts =
     (let tasks = json_array (st_tasks (rx_state x)) in
      join_str [CHR 0x0A]
        ([(''## '' @ (fallback (st_goal (rx_state x)))), [], (''- **Run ID**: '' @ [CHR 0x60] @ (rx_run_id x) @ [CHR 0x60]),
          (''- **Closed**: '' @ now), (''- **Summary**: '' @ (single_line (cl_summary opts))), []]
         @ (if tasks = [] then [] else [''### Tasks'', []] @ concat (map task_lines tasks) @ [[]])
         @ (if cl_blocked_by opts = ''none'' then [] else [(''**Blocked by**: '' @ (cl_blocked_by opts)), []])
         @ (if cl_next_action opts = ''none'' then [] else [(''**Next**: '' @ (cl_next_action opts)), []]))
      @ [CHR 0x0A])"

text \<open>The section goes below the title, which is a first line that starts with a hash.\<close>

definition changelog_with :: "string \<Rightarrow> string option \<Rightarrow> string" where
  "changelog_with section existing =
     (case existing of
        None \<Rightarrow> (''# Changelog'' @ [CHR 0x0A, CHR 0x0A] @ section)
      | Some t \<Rightarrow>
          (if prefix ''#'' t
           then (case split_once [CHR 0x0A] t of
                   Some (title, rest) \<Rightarrow> (title @ [CHR 0x0A, CHR 0x0A] @ section @ rest)
                 | None \<Rightarrow> (t @ [CHR 0x0A, CHR 0x0A] @ section))
           else section @ t))"

definition changelog_path :: "string \<Rightarrow> string" where
  "changelog_path repo = path_join repo ''CHANGELOG.md''"

definition write_changelog :: "'w run_io \<Rightarrow> string \<Rightarrow> run_context \<Rightarrow> closeout_options \<Rightarrow> ('w, unit) act" where
  "write_changelog E repo x opts w =
     (let section = changelog_section (io_now E w) x opts; path = changelog_path repo in
      if io_exists E path w
      then abind (aread (read_text E path)) (\<lambda>t. io_put E path (changelog_with section (Some t))) w
      else io_put E path (changelog_with section None) w)"

subsection \<open>Closing\<close>

definition closed_state :: "string \<Rightarrow> closeout_options \<Rightarrow> git_status \<Rightarrow> lto_state \<Rightarrow> lto_state" where
  "closed_state now opts now_git st =
     (let s1 = (if st_current_phase st \<noteq> ''closed''
                then append_phase_transition now st (st_current_phase st) ''closed'' (gs_head now_git)
                else st\<lparr> st_current_phase := ''closed'' \<rparr>)
      in s1\<lparr> st_workspace := (st_workspace s1)\<lparr> ws_head := gs_head now_git, ws_branch := gs_branch now_git,
               ws_dirty_fingerprint := (if gs_dirty now_git then ''dirty'' else ''clean'') \<rparr>,
             st_blocked_by := JStr (cl_blocked_by opts), st_next_action := JStr (cl_next_action opts) \<rparr>)"

definition closeout_gates_passed :: "reverify_result \<Rightarrow> event_record" where
  "closeout_gates_passed rv =
     default_event\<lparr> er_event_type := ''gate.evaluated'', er_actor_kind := ''lto'', er_object_id := Some ''closeout'',
       er_object_type := Some ''gate'', er_summary := ''closeout gates passed'',
       er_fields := jobj [(''gate'', JStr ''closeout''), (''status'', JStr ''passed''),
         (''reverified_instruments'', jnat (rv_attempted rv)), (''passed_instruments'', jnat (rv_passed rv)),
         (''failed_instrument_labels'', jstrs (rv_failed_labels rv))] \<rparr>"

definition run_closed :: "string \<Rightarrow> closeout_options \<Rightarrow> event_record" where
  "run_closed phase opts =
     default_event\<lparr> er_event_type := ''run.closed'', er_actor_kind := ''host'', er_phase := Some phase,
       er_summary := cl_summary opts,
       er_fields := jobj [(''next_action'', JStr (cl_next_action opts)), (''blocked_by'', JStr (cl_blocked_by opts))] \<rparr>"

definition closeout_meta :: "run_context \<Rightarrow> string \<Rightarrow> string \<Rightarrow> string list \<Rightarrow> artifact_meta" where
  "closeout_meta x kind summary tags =
     \<lparr> am_kind = kind, am_producer = ''lto_rs.commands.closeout'', am_host_runtime = st_host_runtime (rx_state x),
       am_phase = st_current_phase (rx_state x), am_summary = summary, am_tags = tags \<rparr>"

definition handoff_path :: "run_context \<Rightarrow> string" where
  "handoff_path x = path_join (rx_run_dir x) ''handoff.md''"

definition run_state_path :: "run_context \<Rightarrow> string" where
  "run_state_path x = path_join (rx_run_dir x) ''run-state.md''"

definition write_handoff :: "'w run_io \<Rightarrow> string \<Rightarrow> run_context \<Rightarrow> closeout_options \<Rightarrow> git_status \<Rightarrow> ('w, unit) act" where
  "write_handoff E repo x opts now_git w =
     io_put E (handoff_path x)
       (build_handoff E (io_now E w) x opts now_git (all_artifacts E repo (rx_run_id x) w)) w"

text \<open>The files that follow the saved state; the handoff is written again once it is registered.\<close>

definition write_records :: "'w run_io \<Rightarrow> string \<Rightarrow> run_context \<Rightarrow> closeout_options \<Rightarrow> git_status \<Rightarrow> ('w, unit) act" where
  "write_records E repo x opts now_git =
     (let note = (\<lambda>path kind summary tags. register_file E repo (rx_run_id x) path (closeout_meta x kind summary tags)) in
      abind (write_closeout_section E (run_state_path x) opts) (\<lambda>_.
      abind (note (rx_state_path x) ''state_json'' ''machine state at closeout'' [''state'']) (\<lambda>_.
      abind (note (run_state_path x) ''run_state_md'' ''human-readable state at closeout'' [''state'']) (\<lambda>_.
      abind (if cl_no_changelog opts then aret ()
             else abind (write_changelog E repo x opts) (\<lambda>_.
               note (changelog_path repo) ''changelog'' ''repo changelog updated'' [''closeout'', ''changelog''])) (\<lambda>_.
      abind (write_handoff E repo x opts now_git) (\<lambda>_.
      abind (note (handoff_path x) ''handoff'' ''closeout handoff'' [''closeout'', ''handoff'']) (\<lambda>_.
        write_handoff E repo x opts now_git)))))))"

definition save_closed :: "'w run_io \<Rightarrow> run_context \<Rightarrow> closeout_options \<Rightarrow> git_status \<Rightarrow> ('w, run_context) act" where
  "save_closed E x opts now_git w =
     store_run E (x\<lparr> rx_state := closed_state (io_now E w) opts now_git (rx_state x) \<rparr>) w"

definition close_run ::
    "'w run_io \<Rightarrow> string \<Rightarrow> run_context \<Rightarrow> closeout_options \<Rightarrow> git_status \<Rightarrow> ('w, run_context) act" where
  "close_run E repo x opts now_git =
     abind (save_closed E x opts now_git) (\<lambda>x'.
     abind (if st_current_phase (rx_state x) \<noteq> ''closed''
            then tell E (rx_run_id x) (phase_changed (st_current_phase (rx_state x)) ''closed'') else aret ()) (\<lambda>_.
     abind (tell E (rx_run_id x) (run_closed (st_current_phase (rx_state x')) opts)) (\<lambda>_.
     abind (write_records E repo x' opts now_git) (\<lambda>_. aret x'))))"

text \<open>The path that is printed is the handoff's.\<close>

definition cmd_closeout ::
    "'w run_io \<Rightarrow> (string \<Rightarrow> ('w, unit) act) \<Rightarrow> string \<Rightarrow> closeout_options \<Rightarrow> ('w, string) act" where
  "cmd_closeout E telemetry repo opts =
     abind (load_run E repo (cl_run_id opts)) (\<lambda>x w.
       (if \<not> io_exists E (run_state_path x) w then afail (''missing run-state.md: '' @ (run_state_path x))
        else abind (enforce_gates E repo x opts) (\<lambda>rv.
             abind (tell E (rx_run_id x) (closeout_gates_passed rv)) (\<lambda>_.
             abind (ask_git (\<lambda>w. git_status (io_git E) w repo)) (\<lambda>now_git.
             abind (close_run E repo x opts now_git) (\<lambda>x'.
             abind (aignore (telemetry (rx_run_id x))) (\<lambda>_. aret (handoff_path x'))))))) w)"

subsection \<open>What a closeout that is not forced guarantees\<close>

lemma gate_Inr [simp]: "gate E r shut reason detail m w = (Inr u, w') \<longleftrightarrow> \<not> shut \<and> w' = w"
  by (auto simp: gate_def abind_def afail_def split: prod.splits sum.splits)

text \<open>The instruments ran in their order, each with exit code 0.\<close>

fun instruments_pass :: "'w run_io \<Rightarrow> u64 \<Rightarrow> string list \<Rightarrow> 'w \<Rightarrow> 'w \<Rightarrow> bool" where
  "instruments_pass E timeout [] w w' \<longleftrightarrow> w' = w"
| "instruments_pass E timeout (i # is) w w' \<longleftrightarrow>
     (\<exists>out v. io_capture E (snd (split_instrument i)) timeout w = (Inr out, v) \<and> fst out = 0
        \<and> instruments_pass E timeout is v w')"

lemma run_instrument_passed:
  "run_instrument E t c w = (Inr out, v) \<Longrightarrow> fst out = 0 \<Longrightarrow> io_capture E c t w = (Inr out, v)"
  by (auto simp: run_instrument_def acatch_def split: prod.splits sum.splits)

lemma refused_never_passes: "abind (emit_closeout_gate_blocked E r reason detail) (\<lambda>_. afail m) w \<noteq> (Inr a, w')"
  by (auto simp: abind_Inr)

lemma reverified:
  "reverify_instruments E x t is rv w = (Inr rv', w') \<Longrightarrow>
     instruments_pass E t is w w' \<and> rv_attempted rv' = rv_attempted rv + length is
     \<and> rv_passed rv' = rv_passed rv + length is"
proof (induction "is" arbitrary: rv w)
  case (Cons i "is")
  obtain label command where s: "split_instrument i = (label, command)" by fastforce
  let ?next = "rv\<lparr> rv_attempted := rv_attempted rv + 1, rv_passed := rv_passed rv + 1 \<rparr>"
  obtain out v where out: "run_instrument E t command w = (Inr out, v)"
    and rest: "fst out = 0 \<and> reverify_instruments E x t is ?next v = (Inr rv', w')"
    using Cons.prems refused_never_passes [of E]
    by (auto simp: s abind_Inr Let_def split: if_splits)
  from rest Cons.IH [of ?next v] run_instrument_passed [OF out] show ?case by (auto simp: s)
qed simp

text \<open>What the gates look at: the ledger in the world after git was asked.\<close>

definition ready_to_be_closed :: "'w run_io \<Rightarrow> run_context \<Rightarrow> 'w \<Rightarrow> bool" where
  "ready_to_be_closed E x w \<longleftrightarrow>
     (let st = rx_state x in
      run_is_ready (assess_run_readiness (st_goal st) (st_done_when st) (st_why st) (st_host_runtime st))
      \<and> contract_is_complete (st_delivery_contract st)
      \<and> unresolved_blocks st = [] \<and> open_unverified_risks st = [] \<and> st_current_phase st \<noteq> ''closed''
      \<and> (io_exists E (ledger_path x) w \<longrightarrow>
           (\<exists>t rounds. read_text E (ledger_path x) w = Inr t \<and> parse_ledger t = Inr rounds
              \<and> evaluate_ledger rounds False \<in> {Converged, NoObservations})))"

lemma ledger_rounds_Inr:
  "ledger_rounds E x w = (Inr rounds, w') \<longleftrightarrow>
     w' = w \<and> (\<exists>t. read_text E (ledger_path x) w = Inr t \<and> parse_ledger t = Inr rounds)"
proof (cases "read_text E (ledger_path x) w")
  case (Inr t)
  then show ?thesis by (cases "parse_ledger t") (auto simp: ledger_rounds_def abind_def aread_def)
qed (simp add: ledger_rounds_def abind_def aread_def)

lemma verdict_gate_Inr:
  assumes "verdict_gate E x w = (Inr u, w')"
  shows "w' = w \<and> (io_exists E (ledger_path x) w \<longrightarrow>
    (\<exists>t rounds. read_text E (ledger_path x) w = Inr t \<and> parse_ledger t = Inr rounds
       \<and> evaluate_ledger rounds False \<in> {Converged, NoObservations}))"
  using assms
  by (auto simp: verdict_gate_def ledger_rounds_Inr abind_Inr Let_def split: if_splits)

lemma gates_pass:
  assumes "enforce_gates E repo x opts w = (Inr rv, w')" and "\<not> cl_force opts"
    and "tracked_dirty_paths (io_git E) w repo = (dirty, w1)"
  shows "ready_to_be_closed E x w1 \<and> (dirty = [] \<or> cl_allow_dirty opts)
    \<and> (cl_no_reverify opts \<or> (\<exists>w2. instruments_pass E (cl_reverify_timeout opts)
         (dc_instruments (st_delivery_contract (rx_state x))) w1 w2))"
proof -
  obtain u2 w2 where gates: "readiness_gate E x w1 = (Inr (), w1)" "contract_gate E x w1 = (Inr (), w1)"
      "verdict_gate E x w1 = (Inr (), w1)" "blocks_gate E x False w1 = (Inr (), w1)"
      "open_gate E x False w1 = (Inr (), w1)" "reverify E x opts w1 = (Inr u2, w2)"
      "dirty_gate E x (cl_allow_dirty opts) dirty w2 = (Inr (), w2)"
    and later: "\<exists>v. risks_gate E x False v = (Inr (), v)"
    using assms
    by (auto simp: enforce_gates_def abind_Inr ask_git_def readiness_gate_def contract_gate_def blocks_gate_def
        open_gate_def dirty_gate_def risks_gate_def Let_def dest: verdict_gate_Inr)
  have "cl_no_reverify opts \<or> instruments_pass E (cl_reverify_timeout opts)
      (dc_instruments (st_delivery_contract (rx_state x))) w1 w2"
    using gates(6) assms(2) reverified by (fastforce simp: reverify_def split: if_splits)
  moreover have "ready_to_be_closed E x w1"
    using gates(1,2,4,5) verdict_gate_Inr [OF gates(3)] later
    by (auto simp: ready_to_be_closed_def readiness_gate_def contract_gate_def blocks_gate_def open_gate_def
        risks_gate_def run_is_ready_def contract_is_complete_def Let_def)
  ultimately show ?thesis using gates(7) by (auto simp: dirty_gate_def Let_def)
qed

text \<open>
  C2: A closeout that succeeds without being forced closed a run that was ready for it: as loaded, the
  run names its goal and when it is done, its contract is complete, no block is unresolved, no open
  risk is unverified and it was not closed before; its ledger, if there is one, was readable and
  converged (or holds no round); git reported no tracked change, unless changes are allowed; and
  every instrument of the contract was run again, in order, and exited with 0, unless that was
  turned off.
\<close>

theorem closeout_means_ready:
  assumes "cmd_closeout E telemetry repo opts w = (Inr p, w')" and "\<not> cl_force opts"
    and "tracked_dirty_paths (io_git E) w repo = (dirty, w1)"
  shows "\<exists>x. load_run E repo (cl_run_id opts) w = (Inr x, w) \<and> ready_to_be_closed E x w1
    \<and> (dirty = [] \<or> cl_allow_dirty opts)
    \<and> (cl_no_reverify opts \<or> (\<exists>w2. instruments_pass E (cl_reverify_timeout opts)
         (dc_instruments (st_delivery_contract (rx_state x))) w1 w2))"
proof -
  obtain x v where x: "load_run E repo (cl_run_id opts) w = (Inr x, v)"
    using assms(1) by (auto simp: cmd_closeout_def abind_Inr)
  then have v: "v = w" using looking_keeps_world(2) [of E repo "cl_run_id opts" w] by simp
  obtain rv w2 where "enforce_gates E repo x opts w = (Inr rv, w2)"
    using assms(1) x v by (auto simp: cmd_closeout_def abind_Inr split: if_splits)
  from gates_pass [OF this assms(2,3)] x v show ?thesis by auto
qed

subsection \<open>What a closeout does to the states\<close>

definition states :: "'w run_io \<Rightarrow> 'w \<Rightarrow> string \<Rightarrow> string + lto_state" where
  "states E w = (\<lambda>p. io_load E p w)"

text \<open>
  What is relied on: only a save writes a state, and all of it or nothing. Git, the instruments, the
  other files, the lock, the events and the telemetry leave the states as they are.
\<close>

definition closeout_laws :: "'w run_io \<Rightarrow> (string \<Rightarrow> ('w, unit) act) \<Rightarrow> bool" where
  "closeout_laws E telemetry \<longleftrightarrow>
     (\<forall>path st w. states E (snd (io_save E path st w)) =
        (if is_ok (fst (io_save E path st w)) then (states E w)(path := Inr st) else states E w))
     \<and> (\<forall>p t. keeps (states E) (io_put E p t)) \<and> (\<forall>p. keeps (states E) (io_lock E p))
     \<and> (\<forall>r ev. keeps (states E) (io_emit E r ev)) \<and> (\<forall>c t. keeps (states E) (io_capture E c t))
     \<and> (\<forall>r. keeps (states E) (telemetry r)) \<and> (\<forall>p. keeps (states E) (\<lambda>w. w_mkdir (io_git E) w p))
     \<and> (\<forall>repo args. keeps (states E) (\<lambda>w. w_git (io_git E) w repo args))"

locale quiet_run_io =
  fixes E :: "'w run_io" and telemetry :: "string \<Rightarrow> ('w, unit) act"
  assumes laws: "closeout_laws E telemetry"
begin

lemma saves:
  "io_save E path st w = (r, w') \<Longrightarrow> states E w' = (if is_ok r then (states E w)(path := Inr st) else states E w)"
  using laws unfolding closeout_laws_def by (metis fst_conv snd_conv)

lemma quiet_calls [keep_rules]:
  "keeps (states E) (io_put E p t)" "keeps (states E) (io_lock E p)" "keeps (states E) (io_emit E i ev)"
  "keeps (states E) (io_capture E c timeout)" "keeps (states E) (telemetry i)"
  "keeps (states E) (\<lambda>w. w_mkdir (io_git E) w p)"
  using laws unfolding closeout_laws_def by blast+

lemma git_quiet: "w_git (io_git E) w repo args = (r, v) \<Longrightarrow> states E v = states E w"
  using laws unfolding closeout_laws_def keeps_def by (metis snd_conv)

lemma git_stdout_quiet: "git_stdout (io_git E) w repo args = (r, v) \<Longrightarrow> states E v = states E w"
  by (auto simp: git_stdout_def dest: git_quiet split: prod.splits sum.splits if_splits)

lemma queries_quiet [keep_rules]:
  "keeps (states E) (ask_git (\<lambda>w. tracked_dirty_paths (io_git E) w repo))"
  "keeps (states E) (ask_git (\<lambda>w. untracked_paths (io_git E) w repo))"
  "keeps (states E) (ask_git (\<lambda>w. git_status (io_git E) w repo))"
  by (auto simp: keeps_def ask_git_def tracked_dirty_paths_def untracked_paths_def git_status_def git_head_def
      git_branch_def git_dirty_def Let_def dest!: git_stdout_quiet split: prod.splits sum.splits)

lemma states_snd: "keeps (states E) m \<Longrightarrow> states E (snd (m w)) = states E w"
  by (rule keeps_snd)

lemma tell_quiet [keep_rules]: "keeps (states E) (tell E r ev)"
  unfolding tell_def by (intro keep_rules)

lemma at_quiet [keep_rules]:
  "keeps (states E) (\<lambda>w. tell E r (f w) w)" "keeps (states E) (\<lambda>w. io_put E p (g w) w)"
  by (rule keeps_at, rule tell_quiet) (rule keeps_at, rule quiet_calls)

lemma gate_quiet [keep_rules]: "keeps (states E) (gate E r shut reason detail m)"
  unfolding gate_def emit_closeout_gate_blocked_def by (intro keep_rules)

lemma reverify_quiet: "keeps (states E) (reverify_instruments E x t is rv)"
proof (induction "is" arbitrary: rv)
  case (Cons i "is")
  then show ?case
    by (cases "split_instrument i")
      (auto simp: Let_def run_instrument_def emit_closeout_gate_blocked_def intro!: keep_rules)
qed simp

lemma verdict_quiet: "keeps (states E) (verdict_gate E x)"
proof -
  have "keeps (states E) (case parse_ledger t of Inl e \<Rightarrow> afail (ledger_error_str e) | Inr rounds \<Rightarrow> aret rounds)" for t
    by (simp split: sum.split)
  then have "keeps (states E) (ledger_rounds E x)" unfolding ledger_rounds_def by (intro keep_rules)
  then have "keeps (states E) (abind (ledger_rounds E x) (\<lambda>rounds. let verdict = v rounds; s = z rounds in
      gate E (rx_run_id x) (c verdict) d (e verdict s) (f verdict s)))" for v z c d e f
    unfolding Let_def by (intro keep_rules)
  then show ?thesis by (intro keepsI) (auto simp: verdict_gate_def act_defs intro!: states_snd)
qed

lemma high_risk_quiet: "keeps (states E) (high_risk_gate E x force)"
proof -
  have inner: "keeps (states E) (abind (gate E (rx_run_id x) a b c d) (\<lambda>_. abind (aread f) (\<lambda>t.
      gate E (rx_run_id x) (\<not> has_real_ledger_rounds t) g h i)))" for a b c d f g h i
    by (intro keep_rules)
  show ?thesis by (intro keepsI) (simp add: high_risk_gate_def aret_def states_snd [OF inner])
qed

lemma enforce_gates_quiet: "keeps (states E) (enforce_gates E repo x opts)"
  unfolding enforce_gates_def Let_def readiness_gate_def contract_gate_def blocks_gate_def open_gate_def
    reverify_def dirty_gate_def risks_gate_def
  by (intro keep_rules reverify_quiet verdict_quiet high_risk_quiet)

lemma register_quiet [keep_rules]: "keeps (states E) (register_file E repo r path meta)"
  unfolding register_file_def read_manifest_def by (intro keep_rules)

lemma write_handoff_quiet [keep_rules]: "keeps (states E) (write_handoff E repo x opts g)"
  by (intro keepsI) (simp add: write_handoff_def keeps_snd [OF quiet_calls(1)])

lemma write_changelog_quiet [keep_rules]: "keeps (states E) (write_changelog E repo x opts)"
proof -
  have inner: "keeps (states E) (abind (aread f) (\<lambda>t. io_put E p (g t)))" for f p g by (intro keep_rules)
  show ?thesis
    by (intro keepsI) (simp add: write_changelog_def Let_def states_snd [OF inner] states_snd [OF quiet_calls(1)])
qed

lemma records_quiet: "keeps (states E) (write_records E repo x opts g)"
  unfolding write_records_def write_closeout_section_def Let_def by (intro keep_rules)

lemma store_run_states:
  assumes "store_run E x w = (r, w')"
  shows "states E w' = states E w \<and> \<not> is_ok r
    \<or> (\<exists>cur st. st = merge_concurrent_state (io_show E) cur (rx_state x) \<and> r = Inr (x\<lparr> rx_state := st \<rparr>)
         \<and> states E w' = (states E w)(rx_state_path x := Inr st))"
proof -
  let ?lock = "lock_existing_state_path E (rx_run_dir x) (rx_state_path x) (rx_run_id x)"
  have lock: "keeps (states E) ?lock"
    unfolding lock_existing_state_path_def need_state_def by (intro keep_rules)
  obtain l v where l: "?lock w = (l, v)" by fastforce
  note lv = keepsD [OF lock l]
  show ?thesis
  proof (cases "\<exists>u cur. l = Inr u \<and> io_load E (rx_state_path x) v = Inr cur")
    case True
    then obtain u cur where c: "l = Inr u" "io_load E (rx_state_path x) v = Inr cur" by blast
    obtain s v' where "io_save E (rx_state_path x) (merge_concurrent_state (io_show E) cur (rx_state x)) v = (s, v')"
      by fastforce
    with saves [OF this] assms l c lv show ?thesis
      by (cases s) (auto simp: store_run_def abind_def aread_def Let_def)
  next
    case False
    then show ?thesis
      using assms l lv by (auto simp: store_run_def abind_def aread_def split: sum.splits)
  qed
qed

lemma closed_phase: "st_current_phase (closed_state now opts g st) = ''closed''"
  by (simp add: closed_state_def append_phase_transition_def Let_def)

lemma merged_phase: "st_current_phase (merge_concurrent_state show cur st) = st_current_phase st"
  by (simp add: merge_concurrent_state_def)

lemma close_run_states:
  assumes "close_run E repo x opts g w = (r, w')"
  shows "states E w' = states E w \<and> \<not> is_ok r
    \<or> (\<exists>st. st_current_phase st = ''closed'' \<and> states E w' = (states E w)(rx_state_path x := Inr st))"
proof -
  let ?x = "x\<lparr> rx_state := closed_state (io_now E w) opts g (rx_state x) \<rparr>"
  obtain s v where s: "store_run E ?x w = (s, v)" by fastforce
  from store_run_states [OF s] show ?thesis
  proof
    assume "states E v = states E w \<and> \<not> is_ok s"
    then show ?thesis using assms s by (cases s) (auto simp: close_run_def save_closed_def abind_def)
  next
    let ?M = "\<lambda>cur. merge_concurrent_state (io_show E) cur (rx_state ?x)"
    assume "\<exists>cur st. st = ?M cur \<and> s = Inr (?x\<lparr> rx_state := st \<rparr>) \<and> states E v = (states E w)(rx_state_path ?x := Inr st)"
    then obtain cur where cur: "s = Inr (?x\<lparr> rx_state := ?M cur \<rparr>)" "states E v = (states E w)(rx_state_path ?x := Inr (?M cur))"
      by blast
    obtain st x' where st: "st = ?M cur" "x' = ?x\<lparr> rx_state := st \<rparr>" by blast
    have phase: "st_current_phase st = ''closed''" by (simp add: st(1) merged_phase closed_phase)
    have saved: "s = Inr x'" "states E v = (states E w)(rx_state_path x := Inr st)" using cur st by simp_all
    let ?rest = "abind (if st_current_phase (rx_state x) \<noteq> ''closed''
        then tell E (rx_run_id x) (phase_changed (st_current_phase (rx_state x)) ''closed'') else aret ()) (\<lambda>_.
      abind (tell E (rx_run_id x) (run_closed (st_current_phase (rx_state x')) opts)) (\<lambda>_.
      abind (write_records E repo x' opts g) (\<lambda>_. aret x')))"
    have "keeps (states E) ?rest" by (intro keep_rules records_quiet)
    moreover have "?rest v = (r, w')" using assms s saved(1) by (simp add: close_run_def save_closed_def abind_def)
    ultimately have "states E w' = states E v" by (rule keepsD)
    with phase saved(2) show ?thesis by auto
  qed
qed

end

interpretation quiet_disk: quiet_run_io "disk_io accepts" "\<lambda>_. aret ()" for accepts
  by unfold_locales
    (auto simp: closeout_laws_def states_def keeps_def disk_io_def disk_put_def disk_world_def aret_def is_ok_def)

text \<open>
  C8: Whatever goes wrong, a closeout leaves the states of all runs as they are and fails, or it has
  saved one state: that of the run it loaded, with the phase closed. In particular a closeout that is
  refused by a gate changes no state.
\<close>

theorem closeout_saves_closed_or_nothing:
  assumes "closeout_laws E telemetry" and "cmd_closeout E telemetry repo opts w = (r, w')"
  shows "states E w' = states E w \<and> \<not> is_ok r
    \<or> (\<exists>x st. load_run E repo (cl_run_id opts) w = (Inr x, w) \<and> st_current_phase st = ''closed''
         \<and> states E w' = (states E w)(rx_state_path x := Inr st))"
proof -
  have q: "quiet_run_io E telemetry" by (rule quiet_run_io.intro [OF assms(1)])
  obtain c v where c: "load_run E repo (cl_run_id opts) w = (c, v)" by fastforce
  then have v: "v = w" using looking_keeps_world(2) [of E repo "cl_run_id opts" w] by simp
  show ?thesis
  proof (cases c)
    case (Inl e)
    then show ?thesis using assms(2) c v by (auto simp: cmd_closeout_def abind_def)
  next
    case (Inr x)
    let ?start = "\<lambda>rv. abind (tell E (rx_run_id x) (closeout_gates_passed rv)) (\<lambda>_.
      ask_git (\<lambda>w. git_status (io_git E) w repo))"
    let ?before = "abind (enforce_gates E repo x opts) ?start"
    let ?after = "\<lambda>x'. abind (aignore (telemetry (rx_run_id x))) (\<lambda>_. aret (handoff_path x'))"
    have before: "keeps (states E) ?before"
      by (intro keeps_abind quiet_run_io.enforce_gates_quiet [OF q] quiet_run_io.tell_quiet [OF q]
          quiet_run_io.queries_quiet(3) [OF q])
    have after: "keeps (states E) (?after x')" for x'
      by (intro keeps_abind keeps_aignore keeps_pure quiet_run_io.quiet_calls(5) [OF q])
    have run: "(if \<not> io_exists E (run_state_path x) w then afail (''missing run-state.md: '' @ (run_state_path x))
      else abind ?before (\<lambda>g. abind (close_run E repo x opts g) ?after)) w = (r, w')"
      using assms(2) c v Inr by (simp add: cmd_closeout_def abind_def [of "load_run E repo (cl_run_id opts)"] abind_assoc split: if_splits)
    obtain b u where b: "?before w = (b, u)" by fastforce
    note bu = keepsD [OF before b]
    show ?thesis
    proof (cases "io_exists E (run_state_path x) w \<and> is_ok b")
      case False
      then show ?thesis using run b bu by (cases b) (auto simp: abind_def split: if_splits)
    next
      case True
      then obtain g where g: "b = Inr g" by (cases b) auto
      obtain k u' where k: "close_run E repo x opts g u = (k, u')" by fastforce
      have rest: "(case k of Inl e \<Rightarrow> (Inl e, u') | Inr x' \<Rightarrow> ?after x' u') = (r, w')"
        using run True b g k by (simp add: abind_def)
      have same: "states E w' = states E u'"
        using rest keepsD [OF after] by (cases k) auto
      have "\<not> is_ok k \<Longrightarrow> \<not> is_ok r" using rest by (cases k) auto
      with quiet_run_io.close_run_states [OF q k] same bu c v Inr show ?thesis by metis
    qed
  qed
qed

subsection \<open>A run that is closed\<close>

definition demo_open :: lto_state where
  "demo_open = (default_state ''t0'')\<lparr> st_run_id := ''r1'', st_goal := ''ship'', st_done_when := ''shipped'',
     st_current_phase := ''observe'' \<rparr>"

definition demo_open_disk :: disk where
  "demo_open_disk =
     \<lparr> dk_states = [''/r/.lto/r1/state.json'' \<mapsto> demo_open],
       dk_texts = [''/r/.lto/current'' \<mapsto> (''r1'' @ [CHR 0x0A]), ''/r/.lto/r1/run-state.md'' \<mapsto> (''- goal:'' @ [CHR 0x0A])], dk_events = [] \<rparr>"

definition demo_closeout_options :: closeout_options where
  "demo_closeout_options = \<lparr> cl_run_id = None, cl_summary = ''shipped'', cl_next_action = ''none'',
     cl_blocked_by = ''none'', cl_allow_dirty = False, cl_no_changelog = True, cl_force = False,
     cl_reverify_timeout = 300, cl_no_reverify = False \<rparr>"

lemma demo_closes: "is_ok (fst (cmd_closeout (disk_io (\<lambda>_. True)) (\<lambda>_. aret ()) ''/r'' demo_closeout_options demo_open_disk))"
  by code_simp

lemma demo_found: "tracked_dirty_paths (io_git (disk_io a)) demo_open_disk repo = ([], demo_open_disk)"
  by (simp add: tracked_dirty_paths_def disk_io_def disk_world_def git_stdout_def trim_Nil str_lines_def)

lemma disk_closeout_laws: "closeout_laws (disk_io accepts) (\<lambda>_. aret ())"
  by (rule quiet_disk.laws)

theorem closeout_means_ready_witness:
  "\<exists>x. load_run (disk_io (\<lambda>_. True)) ''/r'' (cl_run_id demo_closeout_options) demo_open_disk = (Inr x, demo_open_disk)
     \<and> ready_to_be_closed (disk_io (\<lambda>_. True)) x demo_open_disk"
proof -
  obtain p w' where "cmd_closeout (disk_io (\<lambda>_. True)) (\<lambda>_. aret ()) ''/r'' demo_closeout_options demo_open_disk = (Inr p, w')"
    using demo_closes by (metis (no_types, lifting) is_ok_def prod.collapse sum.case_eq_if sum.collapse(1,2))
  from closeout_means_ready [OF this _ demo_found] show ?thesis by (auto simp: demo_closeout_options_def)
qed

text \<open>
  The handoff cannot be written: the closeout fails, the run is closed all the same, and a second
  closeout is refused because it is.
\<close>

definition no_handoff :: "string \<Rightarrow> bool" where
  "no_handoff p \<longleftrightarrow> p \<noteq> ''/r/.lto/r1/handoff.md''"

definition stranded :: "(string + string) \<times> disk" where
  "stranded = cmd_closeout (disk_io no_handoff) (\<lambda>_. aret ()) ''/r'' demo_closeout_options demo_open_disk"

lemma failed_closeout_strands_run:
  "fst stranded = Inl ''No space left on device''"
  "map_option st_current_phase (dk_states (snd stranded) ''/r/.lto/r1/state.json'') = Some ''closed''"
  "dk_texts (snd stranded) ''/r/.lto/r1/handoff.md'' = None"
  "fst (cmd_closeout (disk_io (\<lambda>_. True)) (\<lambda>_. aret ()) ''/r'' demo_closeout_options (snd stranded))
     = Inl ''run already closed (use --force to rewrite)''"
  by code_simp+

theorem closeout_saves_closed_or_nothing_witness:
  "\<exists>x st. load_run (disk_io no_handoff) ''/r'' (cl_run_id demo_closeout_options) demo_open_disk = (Inr x, demo_open_disk)
     \<and> st_current_phase st = ''closed''
     \<and> states (disk_io no_handoff) (snd stranded)
       = (states (disk_io no_handoff) demo_open_disk)(rx_state_path x := Inr st)"
proof -
  have "states (disk_io no_handoff) (snd stranded) ''/r/.lto/r1/state.json''
      \<noteq> states (disk_io no_handoff) demo_open_disk ''/r/.lto/r1/state.json''"
  proof
    assume eq: "states (disk_io no_handoff) (snd stranded) ''/r/.lto/r1/state.json''
      = states (disk_io no_handoff) demo_open_disk ''/r/.lto/r1/state.json''"
    have "dk_states demo_open_disk ''/r/.lto/r1/state.json'' = Some demo_open" by (simp add: demo_open_disk_def)
    with eq have "map_option st_current_phase (dk_states (snd stranded) ''/r/.lto/r1/state.json'') = Some (st_current_phase demo_open)"
      by (auto simp: states_def disk_io_def split: option.splits)
    then show False using failed_closeout_strands_run(2) by (simp add: demo_open_def)
  qed
  then show ?thesis
    using closeout_saves_closed_or_nothing [OF disk_closeout_laws prod.collapse [symmetric, of stranded, unfolded stranded_def]]
    unfolding stranded_def by auto
qed

end
