(* ===== verification/Lto_Telemetry.thy ===== *)
theory Lto_Telemetry
  imports Lto_Run_Io
begin

text \<open>
  \<open>src/src/telemetry.rs\<close>: what is measured of a run from its state and its events, and the evidence that is
  gathered across runs, per runner, model, kind of task and day. The redactor, \<open>to_lowercase\<close> and the
  parser of time stamps are parameters; \<open>f64\<close> sums are IEEE's.
\<close>

subsection \<open>Reading events\<close>

definition event_type :: "json \<Rightarrow> string" where
  "event_type e = opt_get_or [] (jget_str e ''type'')"

definition field_of :: "(json \<Rightarrow> 'a option) \<Rightarrow> json \<Rightarrow> string \<Rightarrow> 'a option" where
  "field_of rd e k = (case jget e ''fields'' of Some f \<Rightarrow> jget_with rd f k | None \<Rightarrow> None)"

definition runner_from_event :: "json \<Rightarrow> string" where
  "runner_from_event e =
     opt_get_or ''unknown''
       (opt_or (field_of as_str e ''runner'')
          (case jget e ''actor'' of Some a \<Rightarrow> jget_str a ''id'' | None \<Rightarrow> None))"

definition status_of_rc :: "int option \<Rightarrow> string" where
  "status_of_rc rc =
     (case rc of Some n \<Rightarrow> if n = 0 then ''ok'' else if n = 124 then ''timeout'' else ''failed'' | None \<Rightarrow> ''unknown'')"

definition runner_status :: "json \<Rightarrow> string" where
  "runner_status e = opt_get_or (status_of_rc (field_of as_i64 e ''rc'')) (field_of as_str e ''status'')"

definition model_from_event :: "json \<Rightarrow> string" where
  "model_from_event e =
     opt_get_or ''unknown'' (opt_filter (\<lambda>m. m \<noteq> []) (map_option trim (field_of as_str e ''model'')))"

definition task_type :: "(string \<Rightarrow> string) \<Rightarrow> string option \<Rightarrow> string option \<Rightarrow> string" where
  "task_type lower tid phase =
     (let name = lower (opt_get_or (opt_get_or ''unknown'' phase) tid) in
      if contains_str ''audit'' name then ''audit''
      else if contains_str ''verify'' name \<or> contains_str ''test'' name then ''verify''
      else if contains_str ''doc'' name \<or> contains_str ''readme'' name then ''doc''
      else if contains_str ''impl'' name \<or> contains_str ''coding'' name \<or> prefix ''l'' name then ''implementation''
      else ''other'')"

text \<open>The day, when the tenth byte ends a character.\<close>

definition time_window :: "string option \<Rightarrow> string" where
  "time_window at_opt = opt_get_or ''all'' (case at_opt of Some v \<Rightarrow> if length v < 10 then None else get_to 10 v | None \<Rightarrow> None)"

type_synonym task_key = "string \<times> string \<times> string"
type_synonym slot_key = "string \<times> string \<times> string \<times> string"

definition task_slot_key :: "(string \<Rightarrow> string) \<Rightarrow> json \<Rightarrow> string \<Rightarrow> task_key" where
  "task_slot_key lower e runner =
     (runner, task_type lower (jget_str e ''task_id'') (jget_str e ''phase''), time_window (jget_str e ''at''))"

definition slot_key_with_model :: "(string \<Rightarrow> string) \<Rightarrow> json \<Rightarrow> string \<Rightarrow> string \<Rightarrow> slot_key" where
  "slot_key_with_model lower e runner model =
     (case task_slot_key lower e runner of (r, t, day) \<Rightarrow> (r, model, t, day))"

definition slot_key :: "(string \<Rightarrow> string) \<Rightarrow> json \<Rightarrow> string \<Rightarrow> slot_key" where
  "slot_key lower e runner = slot_key_with_model lower e runner (model_from_event e)"

text \<open>A hint is dropped for good when two models are seen under its key.\<close>

definition add_hint :: "(string \<Rightarrow> string) \<Rightarrow> (task_key, string option) btree \<Rightarrow> json \<Rightarrow> (task_key, string option) btree" where
  "add_hint lower hints e =
     (let model = model_from_event e; key = task_slot_key lower e (runner_from_event e) in
      if event_type e \<noteq> ''runner.finished'' \<or> model = ''unknown'' then hints
      else case bt_get hints key of
        None \<Rightarrow> bt_insert key (Some model) hints
      | Some known \<Rightarrow> if known = Some model then hints else bt_insert key None hints)"

definition model_hints_for_run :: "(string \<Rightarrow> string) \<Rightarrow> json list \<Rightarrow> (task_key, string option) btree" where
  "model_hints_for_run lower events = foldl (add_hint lower) [] events"

definition model_for_completed :: "(string \<Rightarrow> string) \<Rightarrow> (task_key, string option) btree \<Rightarrow> json \<Rightarrow> string \<Rightarrow> string" where
  "model_for_completed lower hints e runner =
     (if model_from_event e \<noteq> ''unknown'' then model_from_event e
      else opt_get_or ''unknown'' (opt_get_or None (bt_get hints (task_slot_key lower e runner))))"

subsection \<open>Audit rounds\<close>

datatype round_key = RoundKey string | EventIdKey u64 | PositionKey nat

text \<open>The derived order: by variant first.\<close>

fun round_key_le :: "round_key \<Rightarrow> round_key \<Rightarrow> bool" where
  "round_key_le (RoundKey a) (RoundKey b) \<longleftrightarrow> a \<le> b"
| "round_key_le (RoundKey _) _ \<longleftrightarrow> True"
| "round_key_le (EventIdKey _) (RoundKey _) \<longleftrightarrow> False"
| "round_key_le (EventIdKey a) (EventIdKey b) \<longleftrightarrow> a \<le> b"
| "round_key_le (EventIdKey _) (PositionKey _) \<longleftrightarrow> True"
| "round_key_le (PositionKey a) (PositionKey b) \<longleftrightarrow> a \<le> b"
| "round_key_le (PositionKey _) _ \<longleftrightarrow> False"

instantiation round_key :: linorder
begin

definition less_eq_round_key :: "round_key \<Rightarrow> round_key \<Rightarrow> bool" where
  "less_eq_round_key = round_key_le"

definition less_round_key :: "round_key \<Rightarrow> round_key \<Rightarrow> bool" where
  "less_round_key a b \<longleftrightarrow> round_key_le a b \<and> a \<noteq> b"

instance
proof
  fix x y z :: round_key
  show "x < y \<longleftrightarrow> x \<le> y \<and> \<not> y \<le> x"
    by (cases x; cases y) (auto simp: less_round_key_def less_eq_round_key_def)
  show "x \<le> x" by (cases x) (auto simp: less_eq_round_key_def)
  show "x \<le> y \<Longrightarrow> y \<le> z \<Longrightarrow> x \<le> z"
    by (cases x; cases y; cases z) (auto simp: less_eq_round_key_def)
  show "x \<le> y \<Longrightarrow> y \<le> x \<Longrightarrow> x = y" by (cases x; cases y) (auto simp: less_eq_round_key_def)
  show "x \<le> y \<or> y \<le> x" by (cases x; cases y) (auto simp: less_eq_round_key_def)
qed

end

definition normalize_round_label :: "string option \<Rightarrow> string option" where
  "normalize_round_label label =
     map_option to_ascii_lowercase (opt_filter (\<lambda>l. l \<noteq> []) (map_option trim label))"

definition normalized_round_identity :: "json \<Rightarrow> string option" where
  "normalized_round_identity e =
     opt_or (normalize_round_label (jget_str e ''object_id'')) (normalize_round_label (field_of as_str e ''round''))"

definition audit_round_key :: "nat \<Rightarrow> json \<Rightarrow> round_key" where
  "audit_round_key pos e =
     (case normalized_round_identity e of
        Some l \<Rightarrow> RoundKey l
      | None \<Rightarrow> (case jget_u64 e ''event_id'' of Some i \<Rightarrow> EventIdKey i | None \<Rightarrow> PositionKey pos))"

definition is_audit_round :: "json \<Rightarrow> bool" where
  "is_audit_round e \<longleftrightarrow> event_type e \<in> {''audit.converged'', ''audit.round.recorded''}"

text \<open>Of the events of a round the last counts, in the place where it stands.\<close>

definition add_round ::
    "(round_key, nat \<times> json) btree \<Rightarrow> nat \<times> json \<Rightarrow> (round_key, nat \<times> json) btree" where
  "add_round m p = (if is_audit_round (snd p) then bt_insert (audit_round_key (fst p) (snd p)) p m else m)"

definition normalized_audit_rounds :: "json list \<Rightarrow> json list" where
  "normalized_audit_rounds events =
     map snd (sort_key fst (map snd (foldl add_round [] (enumerate 0 events))))"

subsection \<open>Evidence across runs\<close>

type_synonym run_set = "(string, unit) btree"

definition put_run :: "string \<Rightarrow> run_set \<Rightarrow> run_set" where
  "put_run r s = bt_insert r () s"

text \<open>\<open>entry(k).or_insert(v)\<close>: the first value stays.\<close>

definition first_value :: "string \<Rightarrow> 'a option \<Rightarrow> (string, 'a) btree \<Rightarrow> (string, 'a) btree" where
  "first_value k v m = (case v of Some x \<Rightarrow> if bt_has m k then m else bt_insert k x m | None \<Rightarrow> m)"

record cross_run_slot =
  sl_ok_runs :: run_set
  sl_failed_runs :: run_set
  sl_timeout_runs :: run_set
  sl_rate_limited_runs :: run_set
  sl_skipped_runs :: run_set
  sl_elapsed_by_run :: "(string, f64) btree"
  sl_retry_by_run :: "(string, u64) btree"
  sl_completed_runs :: run_set
  sl_distinct_runs :: run_set
  sl_subjective_runs :: run_set
  sl_completions :: "(string, completion_sample) btree"

definition empty_slot :: cross_run_slot where
  "empty_slot = \<lparr> sl_ok_runs = [], sl_failed_runs = [], sl_timeout_runs = [], sl_rate_limited_runs = [],
     sl_skipped_runs = [], sl_elapsed_by_run = [], sl_retry_by_run = [], sl_completed_runs = [],
     sl_distinct_runs = [], sl_subjective_runs = [], sl_completions = [] \<rparr>"

type_synonym slots = "(slot_key, cross_run_slot) btree"

definition slot_at :: "slot_key \<Rightarrow> slots \<Rightarrow> cross_run_slot" where
  "slot_at key m = opt_get_or empty_slot (bt_get m key)"

definition completion_identity :: "json \<Rightarrow> string" where
  "completion_identity e =
     opt_get_or
       (opt_get_or ((event_type e) @ ''-'' @ (opt_get_or ''unknown'' (jget_str e ''task_id'')) @ ''-'' @ (opt_get_or ''unknown'' (jget_str e ''at'')))
          (map_option (\<lambda>i. (''event-'' @ (show_u64 i))) (jget_u64 e ''event_id'')))
       (opt_filter (\<lambda>v. trim v \<noteq> []) (jget_str e ''object_id''))"

definition record_completion :: "string \<Rightarrow> json \<Rightarrow> string \<Rightarrow> cross_run_slot \<Rightarrow> cross_run_slot" where
  "record_completion run_id e status s =
     (let i = (run_id @ '':'' @ (completion_identity e)) in
      s\<lparr> sl_completions := bt_insert i
           \<lparr> cs_completion_id = i, cs_run_id = run_id, cs_at = opt_get_or [] (jget_str e ''at''),
             cs_event_id = opt_get_or 0 (jget_u64 e ''event_id''), cs_status = status \<rparr> (sl_completions s) \<rparr>)"

definition fail_run :: "string \<Rightarrow> cross_run_slot \<Rightarrow> cross_run_slot" where
  "fail_run r s = s\<lparr> sl_failed_runs := put_run r (sl_failed_runs s) \<rparr>"

definition count_status_run :: "string \<Rightarrow> string \<Rightarrow> cross_run_slot \<Rightarrow> cross_run_slot" where
  "count_status_run r status s =
     (if status = ''ok'' then s\<lparr> sl_ok_runs := put_run r (sl_ok_runs s) \<rparr>
      else if status = ''timeout'' then fail_run r (s\<lparr> sl_timeout_runs := put_run r (sl_timeout_runs s) \<rparr>)
      else if status = ''rate_limited'' then fail_run r (s\<lparr> sl_rate_limited_runs := put_run r (sl_rate_limited_runs s) \<rparr>)
      else s)"

definition count_elapsed :: "string \<Rightarrow> json \<Rightarrow> cross_run_slot \<Rightarrow> cross_run_slot" where
  "count_elapsed r e s =
     s\<lparr> sl_elapsed_by_run := first_value r (field_of as_f64 e ''elapsed_sec'') (sl_elapsed_by_run s) \<rparr>"

definition finished_slot :: "string \<Rightarrow> json \<Rightarrow> cross_run_slot \<Rightarrow> cross_run_slot" where
  "finished_slot r e s =
     (let status = runner_status e;
          s1 = record_completion r e status (s\<lparr> sl_distinct_runs := put_run r (sl_distinct_runs s) \<rparr>);
          s2 = (if status = ''skipped'' then s1\<lparr> sl_skipped_runs := put_run r (sl_skipped_runs s1) \<rparr>
                else if status \<in> {''ok'', ''timeout'', ''rate_limited''} then count_status_run r status s1
                else fail_run r s1);
          s3 = count_elapsed r e s2
      in s3\<lparr> sl_retry_by_run := first_value r (field_of as_u64 e ''retry_count'') (sl_retry_by_run s3) \<rparr>)"

definition record_runner_finished :: "(string \<Rightarrow> string) \<Rightarrow> string \<Rightarrow> json \<Rightarrow> slots \<Rightarrow> slots" where
  "record_runner_finished lower r e m =
     (let key = slot_key lower e (runner_from_event e) in bt_insert key (finished_slot r e (slot_at key m)) m)"

definition completed_slot :: "string \<Rightarrow> json \<Rightarrow> cross_run_slot \<Rightarrow> cross_run_slot" where
  "completed_slot r e s =
     (let status = runner_status e;
          s1 = record_completion r e status
                 (s\<lparr> sl_completed_runs := put_run r (sl_completed_runs s), sl_distinct_runs := put_run r (sl_distinct_runs s) \<rparr>);
          s2 = (if status \<in> {''failed'', ''quota_exhausted''} then fail_run r s1 else count_status_run r status s1)
      in count_elapsed r e s2)"

definition record_agent_dispatch_completed ::
    "(string \<Rightarrow> string) \<Rightarrow> (task_key, string option) btree \<Rightarrow> string \<Rightarrow> json \<Rightarrow> slots \<Rightarrow> slots" where
  "record_agent_dispatch_completed lower hints r e m =
     (let runner = runner_from_event e;
          key = slot_key_with_model lower e runner (model_for_completed lower hints e runner)
      in bt_insert key (completed_slot r e (slot_at key m)) m)"

definition mark_subjective :: "bool \<Rightarrow> slot_key \<Rightarrow> string \<Rightarrow> slots \<Rightarrow> slots" where
  "mark_subjective subjective key r m =
     (if subjective
      then bt_insert key ((slot_at key m)\<lparr> sl_subjective_runs := put_run r (sl_subjective_runs (slot_at key m)) \<rparr>) m
      else m)"

record gathered =
  ga_audit_rounds :: "(string, nat) btree"
  ga_observed :: run_set
  ga_slots :: slots

definition gather_event ::
    "(string \<Rightarrow> string) \<Rightarrow> bool \<Rightarrow> (task_key, string option) btree \<Rightarrow> string \<Rightarrow> gathered \<Rightarrow> json \<Rightarrow> gathered" where
  "gather_event lower subjective hints r g e =
     (let runner = runner_from_event e in
      if event_type e = ''runner.finished''
      then g\<lparr> ga_observed := put_run r (ga_observed g),
              ga_slots := record_runner_finished lower r e
                (mark_subjective subjective (slot_key lower e runner) r (ga_slots g)) \<rparr>
      else if event_type e = ''agent.dispatch.completed''
      then g\<lparr> ga_observed := put_run r (ga_observed g),
              ga_slots := record_agent_dispatch_completed lower hints r e
                (mark_subjective subjective
                  (slot_key_with_model lower e runner (model_for_completed lower hints e runner)) r (ga_slots g)) \<rparr>
      else g)"

text \<open>A run whose log cannot be read is skipped.\<close>

definition gather_run :: "(string \<Rightarrow> string) \<Rightarrow> gathered \<Rightarrow> string \<times> (string + json list) \<Rightarrow> gathered" where
  "gather_run lower g p =
     (case p of
        (_, Inl _) \<Rightarrow> g
      | (r, Inr events) \<Rightarrow>
          (let subjective = list_ex (\<lambda>e. event_type e \<in> {''decision.voted'', ''judge.skipped''}) events
           in foldl (gather_event lower subjective (model_hints_for_run lower events) r)
                (g\<lparr> ga_audit_rounds := bt_insert r (length (normalized_audit_rounds events)) (ga_audit_rounds g) \<rparr>)
                events))"

definition f_of_nat :: "nat \<Rightarrow> f64" where
  "f_of_nat n = f_of_int (int n)"

definition average_f64 :: "f64 list \<Rightarrow> f64 option" where
  "average_f64 vs = (if vs = [] then None else Some (f_div (foldl f_add (Fin 0) vs) (f_of_nat (length vs))))"

record cross_run_entry = evidence_entry +
  ce_time_window :: string
  ce_ok :: nat
  ce_failed :: nat
  ce_timeout :: nat
  ce_rate_limited :: nat
  ce_skipped :: nat
  ce_avg_elapsed_sec :: "f64 option"
  ce_avg_retry :: "f64 option"
  ce_avg_audit_rounds :: "f64 option"
  ce_agent_dispatch_completed :: nat

definition sorted_completions :: "(string, completion_sample) btree \<Rightarrow> completion_sample list" where
  "sorted_completions m = sort_by sample_le (map snd m)"

definition entry_of_slot :: "(string, nat) btree \<Rightarrow> slot_key \<times> cross_run_slot \<Rightarrow> cross_run_entry" where
  "entry_of_slot audit p =
     (case p of ((runner, model, kind, day), s) \<Rightarrow>
        (let n = length (sl_distinct_runs s);
             rounds = sum_list (map (\<lambda>r. opt_get_or 0 (bt_get audit r)) (bt_keys (sl_distinct_runs s)))
         in \<lparr> ee_runner = runner, ee_model = model, ee_task_type = kind, ee_distinct_runs = n,
              ee_subjective = (sl_distinct_runs s \<noteq> [] \<and> length (sl_subjective_runs s) = n),
              ee_recent = sorted_completions (sl_completions s), ce_time_window = day,
              ce_ok = length (sl_ok_runs s), ce_failed = length (sl_failed_runs s),
              ce_timeout = length (sl_timeout_runs s), ce_rate_limited = length (sl_rate_limited_runs s),
              ce_skipped = length (sl_skipped_runs s),
              ce_avg_elapsed_sec = average_f64 (map snd (sl_elapsed_by_run s)),
              ce_avg_retry = average_f64 (map (f_of_u64 \<circ> snd) (sl_retry_by_run s)),
              ce_avg_audit_rounds = (if n = 0 then None else Some (f_div (f_of_nat rounds) (f_of_nat n))),
              ce_agent_dispatch_completed = length (sl_completed_runs s) \<rparr>))"

record evidence_report =
  cr_run_count :: nat
  cr_entries :: "cross_run_entry list"

definition discover_run_ids :: "(string \<times> bool) list \<Rightarrow> string list" where
  "discover_run_ids dirs = sort (map fst (filter snd dirs))"

text \<open>The directories of \<open>.lto\<close> and whether they hold a \<open>state.json\<close>; their events.\<close>

definition cross_run_evidence :: "(string \<Rightarrow> string) \<Rightarrow> (string \<times> bool) list \<Rightarrow> (string \<Rightarrow> string + json list) \<Rightarrow> evidence_report" where
  "cross_run_evidence lower dirs events =
     (let g = foldl (gather_run lower) \<lparr> ga_audit_rounds = [], ga_observed = [], ga_slots = [] \<rparr>
                (map (\<lambda>r. (r, events r)) (discover_run_ids dirs))
      in \<lparr> cr_run_count = length (ga_observed g),
           cr_entries = map (entry_of_slot (ga_audit_rounds g)) (ga_slots g) \<rparr>)"

subsection \<open>The telemetry of a run\<close>

definition events_of_type :: "string \<Rightarrow> json list \<Rightarrow> json list" where
  "events_of_type t = filter (\<lambda>e. jget_str e ''type'' = Some t)"

definition count_tasks :: "json list \<Rightarrow> string \<Rightarrow> nat" where
  "count_tasks tasks status = length (filter (\<lambda>t. jget_str t ''status'' = Some status) tasks)"

text \<open>\<open>instant\<close> reads an RFC 3339 time in nanoseconds since the epoch.\<close>

definition iso_seconds_between :: "(string \<Rightarrow> int option) \<Rightarrow> string option \<Rightarrow> string option \<Rightarrow> int option" where
  "iso_seconds_between instant start stop =
     (case (Option.bind start instant, Option.bind stop instant) of
        (Some a, Some b) \<Rightarrow> Some (seconds_between b a)
      | _ \<Rightarrow> None)"

definition first_at :: "string \<Rightarrow> json list \<Rightarrow> string option" where
  "first_at t events = (case find (\<lambda>e. jget_str e ''type'' = Some t) events of Some e \<Rightarrow> jget_str e ''at'' | None \<Rightarrow> None)"

text \<open>\<open>Path::strip_prefix\<close> for an absolute path: what follows the components of \<open>base\<close>, as it was written.\<close>

definition no_part :: "string \<Rightarrow> bool" where
  "no_part c \<longleftrightarrow> c \<in> {[], ''.''}"

fun after_parts :: "string list \<Rightarrow> string list \<Rightarrow> string list option" where
  "after_parts [] ps = Some ps"
| "after_parts (b # bs) ps =
     (case dropWhile no_part ps of c # cs \<Rightarrow> if c = b then after_parts bs cs else None | [] \<Rightarrow> None)"

definition strip_path_prefix :: "string \<Rightarrow> string \<Rightarrow> string option" where
  "strip_path_prefix base p =
     (if prefix ''/'' base
      then map_option (\<lambda>ps. join_str ''/'' (rev (dropWhile no_part (rev (dropWhile no_part ps)))))
             (after_parts (filter (Not \<circ> no_part) (split_on (CHR ''/'') base)) (split_on (CHR ''/'') p))
      else None)"

definition rel_file :: "redactor \<Rightarrow> string \<Rightarrow> string \<Rightarrow> string" where
  "rel_file R repo p =
     (if prefix ''/'' p then opt_get_or (redact_text R p) (strip_path_prefix repo p) else redact_text R p)"

definition rel_files :: "redactor \<Rightarrow> json list option \<Rightarrow> string \<Rightarrow> string list" where
  "rel_files R files repo = map (rel_file R repo) (List.map_filter as_str (opt_get_or [] files))"

definition run_metrics :: "redactor \<Rightarrow> (string \<Rightarrow> int option) \<Rightarrow> string \<Rightarrow> lto_state \<Rightarrow> json list \<Rightarrow> string \<Rightarrow> json_map" where
  "run_metrics R instant run_id st events now =
     (let tasks = opt_get_or [] (as_array (st_tasks st));
          closed = first_at ''run.closed'' events;
          finished = events_of_type ''runner.finished'' events
      in bt_of_list
       [(''run_id'', JStr run_id), (''goal_label'', JStr (chars_take 80 (redact_text R (st_goal st)))),
        (''phase'', JStr (redact_text R (st_current_phase st))), (''started_at'', JStr (st_started_at st)),
        (''closed_at'', jopt JStr closed),
        (''wall_seconds'', jopt JInt (iso_seconds_between instant (Some (st_started_at st)) (opt_or closed (Some now)))),
        (''tasks_total'', jnat (length tasks)), (''tasks_done'', jnat (count_tasks tasks ''done'')),
        (''tasks_blocked'', jnat (count_tasks tasks ''blocked'')), (''wip_count'', jnat (count_tasks tasks ''in_progress'')),
        (''runner_calls'', jnat (length finished)),
        (''timeout_count'', jnat (length (filter (\<lambda>e. field_of as_bool e ''timeout'' = Some True) finished))),
        (''status_transition_count'', jnat (length (events_of_type ''task.status_changed'' events))),
        (''estimated_cost_usd'', JNull)])"

definition task_metric :: "redactor \<Rightarrow> string \<Rightarrow> json list \<Rightarrow> json \<Rightarrow> json" where
  "task_metric R repo events task =
     (let tid = opt_get_or [] (jget_str task ''id'');
          mine = filter (\<lambda>e. jget_str e ''task_id'' = Some tid) events
      in jobj
       [(''task_id'', JStr (redact_text R tid)), (''status'', jopt (JStr \<circ> redact_text R) (jget_str task ''status'')),
        (''created_at'', jopt JStr (first_at ''task.created'' mine)),
        (''last_updated_at'', jopt JStr (jget_str task ''last_update'')),
        (''retry_count'', ju64 (opt_get_or 0 (jget_u64 task ''retry_count''))),
        (''status_transition_count'', jnat (length (events_of_type ''task.status_changed'' mine))),
        (''evidence_count'', jnat (length (opt_get_or [] (jget_with as_array task ''evidence'')))),
        (''touched_files'', JArr (map JStr (rel_files R (jget_with as_array task ''touched_files'') repo)))])"

definition task_metrics :: "redactor \<Rightarrow> string \<Rightarrow> lto_state \<Rightarrow> json list \<Rightarrow> json list" where
  "task_metrics R repo st events = map (task_metric R repo events) (opt_get_or [] (as_array (st_tasks st)))"

record runner_calls =
  rr_calls :: nat
  rr_ok :: nat
  rr_failed :: nat
  rr_timeout :: nat
  rr_skipped :: nat

definition no_calls :: runner_calls where
  "no_calls = \<lparr> rr_calls = 0, rr_ok = 0, rr_failed = 0, rr_timeout = 0, rr_skipped = 0 \<rparr>"

definition count_call :: "string \<Rightarrow> runner_calls \<Rightarrow> runner_calls" where
  "count_call status s =
     (let s1 = s\<lparr> rr_calls := rr_calls s + 1 \<rparr> in
      if status = ''ok'' then s1\<lparr> rr_ok := rr_ok s1 + 1 \<rparr>
      else if status = ''timeout'' then s1\<lparr> rr_timeout := rr_timeout s1 + 1, rr_failed := rr_failed s1 + 1 \<rparr>
      else if status = ''skipped'' then s1\<lparr> rr_skipped := rr_skipped s1 + 1 \<rparr>
      else s1\<lparr> rr_failed := rr_failed s1 + 1 \<rparr>)"

definition roll_up :: "(string, runner_calls) btree \<Rightarrow> json \<Rightarrow> (string, runner_calls) btree" where
  "roll_up m e =
     (let runner = runner_from_event e in
      bt_insert runner (count_call (runner_status e) (opt_get_or no_calls (bt_get m runner))) m)"

definition call_failure_rate :: "runner_calls \<Rightarrow> f64" where
  "call_failure_rate s =
     (if rr_calls s = 0 then Fin 0 else f_div (f_of_nat (rr_failed s)) (f_of_nat (rr_calls s)))"

definition runner_line :: "string \<times> runner_calls \<Rightarrow> json" where
  "runner_line p =
     (case p of (runner, s) \<Rightarrow> jobj
       [(''runner'', JStr runner), (''calls'', jnat (rr_calls s)), (''ok'', jnat (rr_ok s)),
        (''failed'', jnat (rr_failed s)), (''timeout'', jnat (rr_timeout s)), (''skipped'', jnat (rr_skipped s)),
        (''failure_rate'', JFloat (call_failure_rate s))])"

definition runner_rollups :: "json list \<Rightarrow> (string, runner_calls) btree" where
  "runner_rollups events = foldl roll_up [] (events_of_type ''runner.finished'' events)"

definition runner_metrics :: "json list \<Rightarrow> json list" where
  "runner_metrics events = map runner_line (runner_rollups events)"

definition count_finding_severity :: "(string, nat) btree \<Rightarrow> json \<Rightarrow> (string, nat) btree" where
  "count_finding_severity m e =
     (let s = opt_get_or ''unknown'' (field_of as_str e ''severity'') in
      bt_insert s (opt_get_or 0 (bt_get m s) + 1) m)"

definition audit_metrics :: "json list \<Rightarrow> json" where
  "audit_metrics events =
     (let rounds = normalized_audit_rounds events;
          severities = foldl count_finding_severity [] (events_of_type ''audit.finding'' events)
      in jobj
       [(''audit_dispatches'', jnat (length (events_of_type ''audit.dispatched'' events))),
        (''audit_rounds'', jnat (length rounds)),
        (''latest_blockers'', jopt ju64 (case last_opt rounds of Some e \<Rightarrow> field_of as_u64 e ''blockers'' | None \<Rightarrow> None)),
        (''findings'', jobj
          [(''total'', jnat (sum_list (map snd severities))),
           (''by_severity'', JObj (map (\<lambda>(k, n). (k, jnat n)) severities))])])"

definition redaction_summary :: "json list \<Rightarrow> json" where
  "redaction_summary events =
     (let n = (\<lambda>s. jnat (length (filter (\<lambda>e. (case jget e ''privacy'' of
                 Some p \<Rightarrow> jget_str p ''redaction_status'' | None \<Rightarrow> None) = Some s) events)))
      in jobj [(''passed'', n ''passed''), (''failed'', n ''failed''), (''not_required'', n ''not_required'')])"

definition event_log_metrics :: "(string \<Rightarrow> int option) \<Rightarrow> json list \<Rightarrow> string \<Rightarrow> json" where
  "event_log_metrics instant events now =
     (let last_at = (case last_opt events of Some e \<Rightarrow> jget_str e ''at'' | None \<Rightarrow> None)
      in jobj
       [(''event_count'', jnat (length events)),
        (''seconds_since_last_event'', jopt JInt (iso_seconds_between instant last_at (Some now)))])"

definition telemetry_value :: "redactor \<Rightarrow> (string \<Rightarrow> int option) \<Rightarrow> string \<Rightarrow> string \<Rightarrow> lto_state \<Rightarrow> json list \<Rightarrow> string \<Rightarrow> json" where
  "telemetry_value R instant repo run_id st events now =
     (let metrics = run_metrics R instant run_id st events now; value = (\<lambda>k. opt_get_or JNull (bt_get metrics k));
          b = st_budget st
      in jobj
       [(''schema_version'', jnat 1), (''run_id'', JStr run_id), (''generated_at'', JStr now),
        (''run_metrics'', JObj metrics), (''runner_metrics'', JArr (runner_metrics events)),
        (''audit_metrics'', audit_metrics events), (''task_metrics'', JArr (task_metrics R repo st events)),
        (''worker_observations'', JArr []), (''issue_metrics'', JObj []), (''barrier_metrics'', JArr []),
        (''budget'', jobj
          [(''max_tokens'', jopt ju64 (rb_max_tokens b)), (''max_turns'', jopt ju64 (rb_max_turns b)),
           (''hard_deadline'', jopt JStr (rb_hard_deadline b)), (''used_runner_calls'', value ''runner_calls''),
           (''used_wall_seconds'', value ''wall_seconds'')]),
        (''redaction_summary'', redaction_summary events), (''event_log'', event_log_metrics instant events now)])"

text \<open>\<open>log\<close> reads the events; a state that cannot be loaded counts as the default one.\<close>

definition build_telemetry ::
    "'w run_io \<Rightarrow> redactor \<Rightarrow> (string \<Rightarrow> int option) \<Rightarrow> (string \<Rightarrow> 'w \<Rightarrow> string + json list) \<Rightarrow> string \<Rightarrow> string \<Rightarrow> ('w, json) act" where
  "build_telemetry E R instant events_in repo run_id =
     aread (\<lambda>w.
       let now = io_now E w;
           st = (case io_load E (path_join (run_dir_of repo run_id) ''state.json'') w of
                   Inr st \<Rightarrow> st | Inl _ \<Rightarrow> default_state now)
       in (case events_in run_id w of
             Inl e \<Rightarrow> Inl e
           | Inr events \<Rightarrow> Inr (telemetry_value R instant repo run_id st events now)))"

definition telemetry_path :: "string \<Rightarrow> string \<Rightarrow> string" where
  "telemetry_path repo run_id = path_join (run_dir_of repo run_id) ''telemetry.json''"

definition save_telemetry ::
    "'w run_io \<Rightarrow> redactor \<Rightarrow> (string \<Rightarrow> int option) \<Rightarrow> (string \<Rightarrow> 'w \<Rightarrow> string + json list) \<Rightarrow> string \<Rightarrow> string \<Rightarrow> ('w, unit) act" where
  "save_telemetry E R instant events_in repo run_id =
     abind (build_telemetry E R instant events_in repo run_id) (\<lambda>v.
     abind (\<lambda>w. w_mkdir (io_git E) w (run_dir_of repo run_id)) (\<lambda>_.
       io_replace E (telemetry_path repo run_id) (io_pretty E v @ [CHR 0x0A])))"

subsection \<open>Runs counted once\<close>

definition runs_in :: "run_set \<Rightarrow> run_set \<Rightarrow> bool" where
  "runs_in a b \<longleftrightarrow> bt_wf a \<and> bt_wf b \<and> set (map fst a) \<subseteq> set (map fst b)"

lemma runs_in_length: "runs_in a b \<Longrightarrow> length a \<le> length b"
  unfolding runs_in_def by (metis bt_wf_distinct card_mono distinct_card length_map List.finite_set)

lemma keys_put_run [simp]: "set (map fst (put_run r a)) = insert r (set (map fst a))"
  unfolding put_run_def by (rule bt_keys_insert)

lemma wf_put_run [simp, intro]: "bt_wf a \<Longrightarrow> bt_wf (put_run r a)"
  by (simp add: put_run_def bt_wf_insert)

lemma runs_in_put [intro]: "runs_in a b \<Longrightarrow> runs_in (put_run r a) (put_run r b)" "runs_in a b \<Longrightarrow> runs_in a (put_run r b)"
  unfolding runs_in_def keys_put_run by auto

lemma runs_in_trans: "runs_in a b \<Longrightarrow> runs_in b c \<Longrightarrow> runs_in a c"
  unfolding runs_in_def by blast

lemma put_run_nonempty [simp]: "put_run r a \<noteq> []"
  using keys_put_run [of r a] by force

text \<open>Every count of a slot is of runs seen in it, and these are runs that were observed.\<close>

definition slot_sound :: "run_set \<Rightarrow> cross_run_slot \<Rightarrow> bool" where
  "slot_sound obs s \<longleftrightarrow> runs_in (sl_ok_runs s) (sl_distinct_runs s) \<and> runs_in (sl_failed_runs s) (sl_distinct_runs s)
     \<and> runs_in (sl_skipped_runs s) (sl_distinct_runs s) \<and> runs_in (sl_completed_runs s) (sl_distinct_runs s)
     \<and> runs_in (sl_timeout_runs s) (sl_failed_runs s) \<and> runs_in (sl_rate_limited_runs s) (sl_failed_runs s)
     \<and> runs_in (sl_distinct_runs s) obs"

definition slot_full :: "run_set \<Rightarrow> cross_run_slot \<Rightarrow> bool" where
  "slot_full obs s \<longleftrightarrow> slot_sound obs s \<and> sl_distinct_runs s \<noteq> [] \<and> runs_in (sl_subjective_runs s) (sl_distinct_runs s)"

lemmas slot_steps =
  record_completion_def fail_run_def count_status_run_def count_elapsed_def Let_def

lemma slot_full_recorded:
  assumes "slot_sound obs s" and "runs_in (sl_subjective_runs s) (put_run r (sl_distinct_runs s))"
  shows "slot_full (put_run r obs) (finished_slot r e s)" "slot_full (put_run r obs) (completed_slot r e s)"
  using assms
  by (auto simp: slot_full_def slot_sound_def finished_slot_def completed_slot_def slot_steps)

lemma slot_full_more: "slot_full obs s \<Longrightarrow> slot_full (put_run r obs) s"
  by (auto simp: slot_full_def slot_sound_def)

definition slots_full :: "run_set \<Rightarrow> slots \<Rightarrow> bool" where
  "slots_full obs m \<longleftrightarrow> bt_wf obs \<and> bt_wf m \<and> (\<forall>k s. bt_get m k = Some s \<longrightarrow> slot_full obs s)"

lemma slots_fullD: "slots_full obs m \<Longrightarrow> bt_get m k = Some s \<Longrightarrow> slot_full obs s" "slots_full obs m \<Longrightarrow> bt_wf obs"
    "slots_full obs m \<Longrightarrow> bt_wf m"
  unfolding slots_full_def by blast+

lemma slots_fullI:
  "bt_wf obs \<Longrightarrow> bt_wf m \<Longrightarrow> (\<And>k s. bt_get m k = Some s \<Longrightarrow> slot_full obs s) \<Longrightarrow> slots_full obs m"
  unfolding slots_full_def by blast

lemma empty_slot_sound: "bt_wf obs \<Longrightarrow> slot_sound obs empty_slot"
  by (simp add: slot_sound_def empty_slot_def runs_in_def)

lemma slot_at_sound:
  assumes "slots_full obs m"
  shows "slot_sound obs (slot_at key m)"
    and "runs_in (sl_subjective_runs (slot_at key m)) (sl_distinct_runs (slot_at key m))"
proof -
  consider "bt_get m key = None" | t where "bt_get m key = Some t" "slot_full obs t"
    using slots_fullD(1) [OF assms, of key] by (cases "bt_get m key") auto
  then have "slot_sound obs (slot_at key m) \<and> runs_in (sl_subjective_runs (slot_at key m)) (sl_distinct_runs (slot_at key m))"
  proof cases
    case 1
    with empty_slot_sound [OF slots_fullD(2) [OF assms]] show ?thesis
      by (simp add: slot_at_def opt_get_or_def empty_slot_def runs_in_def)
  next
    case 2
    then show ?thesis by (simp add: slot_at_def opt_get_or_def slot_full_def)
  qed
  then show "slot_sound obs (slot_at key m)"
    and "runs_in (sl_subjective_runs (slot_at key m)) (sl_distinct_runs (slot_at key m))" by blast+
qed

text \<open>Marking a slot and recording a completion in it, at the same key.\<close>

lemma slots_full_recorded:
  assumes "slots_full obs m"
    and f: "\<And>s. slot_sound obs s \<Longrightarrow> runs_in (sl_subjective_runs s) (put_run r (sl_distinct_runs s)) \<Longrightarrow>
              slot_full (put_run r obs) (f s)"
  shows "slots_full (put_run r obs)
           (bt_insert key (f (slot_at key (mark_subjective b key r m))) (mark_subjective b key r m))"
proof -
  let ?s = "slot_at key m" and ?m = "mark_subjective b key r m"
  have s: "slot_sound obs (slot_at key ?m)"
      "runs_in (sl_subjective_runs (slot_at key ?m)) (put_run r (sl_distinct_runs (slot_at key ?m)))"
    using slot_at_sound [OF assms(1), of key]
    by (auto simp: mark_subjective_def slot_at_def slot_sound_def opt_get_or_def)
  have m: "bt_wf ?m" using slots_fullD(3) [OF assms(1)] by (simp add: mark_subjective_def bt_wf_insert)
  have "slot_full (put_run r obs) t" if "bt_get (bt_insert key (f (slot_at key ?m)) ?m) k = Some t" for k t
  proof (cases "k = key")
    case True
    with that f [OF s] show ?thesis by simp
  next
    case False
    with that have "bt_get m k = Some t" by (simp add: mark_subjective_def split: if_splits)
    then show ?thesis by (intro slot_full_more slots_fullD(1) [OF assms(1)])
  qed
  with m slots_fullD(2) [OF assms(1)] show ?thesis by (intro slots_fullI) (auto intro: bt_wf_insert)
qed

lemma gather_event_full:
  "slots_full (ga_observed g) (ga_slots g) \<Longrightarrow>
   slots_full (ga_observed (gather_event lower b hints r g e)) (ga_slots (gather_event lower b hints r g e))"
  unfolding gather_event_def record_runner_finished_def record_agent_dispatch_completed_def Let_def
  by (auto intro: slots_full_recorded slot_full_recorded)

lemma gather_run_full:
  "slots_full (ga_observed g) (ga_slots g) \<Longrightarrow>
   slots_full (ga_observed (gather_run lower g p)) (ga_slots (gather_run lower g p))"
proof -
  have *: "slots_full (ga_observed g) (ga_slots g) \<Longrightarrow>
      slots_full (ga_observed (foldl (gather_event lower b hints r) g es)) (ga_slots (foldl (gather_event lower b hints r) g es))"
    for b hints r g es
    by (induction es arbitrary: g) (auto intro: gather_event_full)
  show "slots_full (ga_observed g) (ga_slots g) \<Longrightarrow> ?thesis"
    by (auto simp: gather_run_def Let_def split: prod.splits sum.splits intro!: *)
qed

lemma gather_event_observed:
  "set (map fst (ga_observed (gather_event lower b hints r g e))) \<subseteq> insert r (set (map fst (ga_observed g)))"
  using keys_put_run [of r "ga_observed g"] by (auto simp: gather_event_def Let_def)

lemma gather_run_observed:
  "set (map fst (ga_observed (gather_run lower g p))) \<subseteq> insert (fst p) (set (map fst (ga_observed g)))"
proof -
  have *: "set (map fst (ga_observed (foldl (gather_event lower b hints r) g es))) \<subseteq> insert r (set (map fst (ga_observed g)))"
    for b hints r g es
  proof (induction es arbitrary: g)
    case (Cons e es)
    from Cons [of "gather_event lower b hints r g e"] gather_event_observed [of lower b hints r g e]
    show ?case by auto
  qed auto
  obtain r x where p: "p = (r, x)" by fastforce
  show ?thesis
  proof (cases x)
    case (Inr es)
    have [simp]: "ga_observed (g\<lparr> ga_audit_rounds := y \<rparr>) = ga_observed g" for y by simp
    show ?thesis unfolding p Inr gather_run_def Let_def prod.case sum.case fst_conv
      by (rule order_trans [OF *]) simp
  qed (auto simp: p gather_run_def)
qed

lemma gathered_full:
  fixes lower dirs events
  defines "g \<equiv> foldl (gather_run lower) \<lparr> ga_audit_rounds = [], ga_observed = [], ga_slots = [] \<rparr>
                (map (\<lambda>r. (r, events r)) (discover_run_ids dirs))"
  shows "slots_full (ga_observed g) (ga_slots g)" and "set (map fst (ga_observed g)) \<subseteq> set (discover_run_ids dirs)"
proof -
  have "slots_full (ga_observed (foldl (gather_run lower) g ps)) (ga_slots (foldl (gather_run lower) g ps))"
    if "slots_full (ga_observed g) (ga_slots g)" for g ps
    using that by (induction ps arbitrary: g) (auto intro: gather_run_full)
  then show "slots_full (ga_observed g) (ga_slots g)"
    unfolding g_def by (simp add: slots_full_def)
  have "set (map fst (ga_observed (foldl (gather_run lower) g ps))) \<subseteq> set (map fst ps) \<union> set (map fst (ga_observed g))"
    for g ps
  proof (induction ps arbitrary: g)
    case (Cons p ps)
    from Cons [of "gather_run lower g p"] gather_run_observed [of lower g p] show ?case by auto
  qed auto
  from this [of "\<lparr> ga_audit_rounds = [], ga_observed = [], ga_slots = [] \<rparr>" "map (\<lambda>r. (r, events r)) (discover_run_ids dirs)"]
  show "set (map fst (ga_observed g)) \<subseteq> set (discover_run_ids dirs)"
    unfolding g_def by (simp add: comp_def)
qed

text \<open>
  C38: in every entry of the cross-run evidence each run counts at most once per outcome: time-outs and rate
  limits are among the failures, no outcome has more runs than were seen with that runner, model, kind of task
  and day, at least one was, and none that is not a run of the workspace.
\<close>

theorem cross_run_counts_bounded:
  assumes "x \<in> set (cr_entries (cross_run_evidence lower dirs events))"
  shows "ce_timeout x \<le> ce_failed x \<and> ce_rate_limited x \<le> ce_failed x \<and> ce_failed x \<le> ee_distinct_runs x
    \<and> ce_ok x \<le> ee_distinct_runs x \<and> ce_skipped x \<le> ee_distinct_runs x
    \<and> ce_agent_dispatch_completed x \<le> ee_distinct_runs x \<and> 1 \<le> ee_distinct_runs x
    \<and> ee_distinct_runs x \<le> cr_run_count (cross_run_evidence lower dirs events)
    \<and> cr_run_count (cross_run_evidence lower dirs events) \<le> length (discover_run_ids dirs)"
proof -
  define g where "g = foldl (gather_run lower) \<lparr> ga_audit_rounds = [], ga_observed = [], ga_slots = [] \<rparr>
                (map (\<lambda>r. (r, events r)) (discover_run_ids dirs))"
  have full: "slots_full (ga_observed g) (ga_slots g)" and obs: "set (map fst (ga_observed g)) \<subseteq> set (discover_run_ids dirs)"
    unfolding g_def by (rule gathered_full)+
  have ev: "cross_run_evidence lower dirs events =
      \<lparr> cr_run_count = length (ga_observed g), cr_entries = map (entry_of_slot (ga_audit_rounds g)) (ga_slots g) \<rparr>"
    by (simp add: cross_run_evidence_def g_def Let_def)
  obtain k s where ks: "(k, s) \<in> set (ga_slots g)" "x = entry_of_slot (ga_audit_rounds g) (k, s)"
    using assms by (auto simp: ev)
  from ks(1) full have s: "slot_full (ga_observed g) s"
    unfolding slots_full_def by (meson bt_get_mem)
  have "length (ga_observed g) = card (set (map fst (ga_observed g)))"
    using full by (metis slots_full_def bt_wf_distinct distinct_card length_map)
  also have "\<dots> \<le> card (set (discover_run_ids dirs))" using obs by (intro card_mono) auto
  also have "\<dots> \<le> length (discover_run_ids dirs)" by (rule card_length)
  finally have "length (ga_observed g) \<le> length (discover_run_ids dirs)" .
  moreover have "1 \<le> length (sl_distinct_runs s)" using s by (cases "sl_distinct_runs s") (auto simp: slot_full_def)
  ultimately show ?thesis
    using s unfolding slot_full_def slot_sound_def ks(2) ev
    by (auto simp: entry_of_slot_def Let_def dest!: runs_in_length split: prod.splits)
qed

definition witness_events :: "string \<Rightarrow> string + json list" where
  "witness_events r = Inr
     [jobj [(''type'', JStr ''runner.finished''), (''at'', JStr ''2026-01-02T03:04:05Z''), (''task_id'', JStr ''audit-1''),
            (''fields'', jobj [(''runner'', JStr ''codex''), (''rc'', JInt 124)])]]"

definition witness_entry :: cross_run_entry where
  "witness_entry = hd (cr_entries (cross_run_evidence to_ascii_lowercase [(''r'', True)] witness_events))"

lemma witness_entry_in: "witness_entry \<in> set (cr_entries (cross_run_evidence to_ascii_lowercase [(''r'', True)] witness_events))"
  "ce_timeout witness_entry = 1"
  unfolding witness_entry_def by code_simp+

theorem cross_run_counts_bounded_witness: "1 \<le> ce_failed witness_entry \<and> ee_distinct_runs witness_entry \<le> 1"
proof -
  have "length (discover_run_ids [(''r'', True)]) = 1" by code_simp
  then show ?thesis
    using cross_run_counts_bounded [OF witness_entry_in(1)] witness_entry_in(2) by linarith
qed

subsection \<open>The rounds that count\<close>

text \<open>The last event of each round, in the order of the log.\<close>

definition last_rounds :: "json list \<Rightarrow> json list" where
  "last_rounds events =
     map snd (filter (\<lambda>(i, e). is_audit_round e
                \<and> \<not> list_ex (\<lambda>(j, f). i < j \<and> is_audit_round f \<and> audit_round_key j f = audit_round_key i e)
                      (enumerate 0 events))
              (enumerate 0 events))"

abbreviation key_of :: "nat \<times> json \<Rightarrow> round_key" where
  "key_of p \<equiv> audit_round_key (fst p) (snd p)"

lemma enumerate_snoc: "enumerate 0 (es @ [e]) = enumerate 0 es @ [(length es, e)]"
  by (simp add: enumerate_append_eq)

lemma enumerate_below: "p \<in> set (enumerate 0 es) \<Longrightarrow> fst p < length es"
  by (cases p) (simp add: in_set_enumerate_eq)

lemma add_round_last:
  "bt_wf (foldl add_round [] (enumerate 0 es))
   \<and> (\<forall>k p. bt_get (foldl add_round [] (enumerate 0 es)) k = Some p \<longleftrightarrow>
        p \<in> set (enumerate 0 es) \<and> is_audit_round (snd p) \<and> key_of p = k
        \<and> (\<forall>q\<in>set (enumerate 0 es). fst p < fst q \<and> is_audit_round (snd q) \<longrightarrow> key_of q \<noteq> k))"
  (is "?I es")
proof (induction es rule: rev_induct)
  case (snoc e es)
  let ?m = "foldl add_round [] (enumerate 0 es)" and ?p = "(length es, e)"
  have fold: "foldl add_round [] (enumerate 0 (es @ [e])) = add_round ?m ?p" by (simp add: enumerate_snoc)
  have below: "q \<in> set (enumerate 0 es) \<Longrightarrow> fst q < fst ?p" for q using enumerate_below by fastforce
  have set: "set (enumerate 0 (es @ [e])) = insert ?p (set (enumerate 0 es))" by (simp add: enumerate_snoc)
  have old: "bt_get ?m k = Some p \<longleftrightarrow> p \<in> set (enumerate 0 es) \<and> is_audit_round (snd p) \<and> key_of p = k
        \<and> (\<forall>q\<in>set (enumerate 0 es). fst p < fst q \<and> is_audit_round (snd q) \<longrightarrow> key_of q \<noteq> k)" for k p
    using snoc by blast
  show ?case
  proof (cases "is_audit_round e")
    case False
    then have "add_round ?m ?p = ?m" by (simp add: add_round_def)
    with False snoc below show ?thesis unfolding fold set by (auto simp: old)
  next
    case True
    then have m: "add_round ?m ?p = bt_insert (key_of ?p) ?p ?m" by (simp add: add_round_def)
    show ?thesis unfolding fold m set
    proof (intro conjI allI)
      show "bt_wf (bt_insert (key_of ?p) ?p ?m)" using snoc by (simp add: bt_wf_insert)
      fix k p
      show "bt_get (bt_insert (key_of ?p) ?p ?m) k = Some p \<longleftrightarrow>
        p \<in> insert ?p (set (enumerate 0 es)) \<and> is_audit_round (snd p) \<and> key_of p = k
        \<and> (\<forall>q\<in>insert ?p (set (enumerate 0 es)). fst p < fst q \<and> is_audit_round (snd q) \<longrightarrow> key_of q \<noteq> k)"
      proof (cases "k = key_of ?p")
        case same: True
        then have "bt_get (bt_insert (key_of ?p) ?p ?m) k = Some ?p" by simp
        moreover have "p \<in> insert ?p (set (enumerate 0 es)) \<and> is_audit_round (snd p) \<and> key_of p = k
            \<and> (\<forall>q\<in>insert ?p (set (enumerate 0 es)). fst p < fst q \<and> is_audit_round (snd q) \<longrightarrow> key_of q \<noteq> k) \<longleftrightarrow> p = ?p"
          using True same below [of p] below by (cases "p = ?p") fastforce+
        ultimately show ?thesis by auto
      next
        case False
        then have "bt_get (bt_insert (key_of ?p) ?p ?m) k = bt_get ?m k" by (simp add: bt_get_insert)
        then show ?thesis using False below by (auto simp: old)
      qed
    qed
  qed
qed simp

lemma enumerate_fst: "inj_on fst (set (enumerate 0 es))" "sorted (map fst (enumerate 0 es))" "distinct (map fst (enumerate 0 es))"
proof -
  show d: "distinct (map fst (enumerate 0 es))" and "sorted (map fst (enumerate 0 es))" by simp_all
  from d show "inj_on fst (set (enumerate 0 es))" unfolding distinct_map by (rule conjunct2)
qed

text \<open>
  the audit rounds that are counted are the last event of each round, in the order of the log: the map by round,
  event number or position followed by the sort is the plain selection.
\<close>

theorem normalized_audit_rounds_last: "normalized_audit_rounds events = last_rounds events"
proof -
  let ?m = "foldl add_round [] (enumerate 0 events)" and ?en = "enumerate 0 events"
  let ?later = "\<lambda>(i, e). is_audit_round e
      \<and> \<not> list_ex (\<lambda>(j, f). i < j \<and> is_audit_round f \<and> audit_round_key j f = audit_round_key i e) ?en"
  have wf: "bt_wf ?m" and get: "bt_get ?m k = Some p \<longleftrightarrow> p \<in> set ?en \<and> is_audit_round (snd p) \<and> key_of p = k
        \<and> (\<forall>q\<in>set ?en. fst p < fst q \<and> is_audit_round (snd q) \<longrightarrow> key_of q \<noteq> k)" for k p
    using add_round_last [of events] by blast+
  have mem: "p \<in> set (map snd ?m) \<longleftrightarrow> (\<exists>k. bt_get ?m k = Some p)" for p
  proof
    assume "p \<in> set (map snd ?m)"
    then obtain k where "(k, p) \<in> set ?m" by (metis (no_types, lifting) imageE list.set_map prod.collapse)
    then show "\<exists>k. bt_get ?m k = Some p" using bt_get_mem [OF wf] by metis
  next
    assume "\<exists>k. bt_get ?m k = Some p"
    then obtain k where "(k, p) \<in> set ?m" using bt_get_SomeD by metis
    then have "snd (k, p) \<in> snd ` set ?m" by (rule imageI)
    then show "p \<in> set (map snd ?m)" by simp
  qed
  have sets: "set (map snd ?m) = set (filter ?later ?en)"
  proof (intro set_eqI)
    fix p
    show "p \<in> set (map snd ?m) \<longleftrightarrow> p \<in> set (filter ?later ?en)"
      unfolding mem get by (cases p) (auto simp: list_ex_iff)
  qed
  have sub: "set (map snd ?m) \<subseteq> set ?en" unfolding sets by auto
  have "distinct (map snd ?m)"
  proof -
    have "k = l" if "(k, p) \<in> set ?m" "(l, p) \<in> set ?m" for k l p
      using bt_get_mem [OF wf that(1)] bt_get_mem [OF wf that(2)] unfolding get by auto
    moreover have "distinct ?m" using bt_wf_distinct [OF wf] unfolding distinct_map by (rule conjunct1)
    ultimately show ?thesis by (auto simp: distinct_map inj_on_def)
  qed
  with sub have d: "distinct (map fst (sort_key fst (map snd ?m)))"
    by (simp add: distinct_map inj_on_subset [OF enumerate_fst(1)])
  have "sort_key fst (map snd ?m) = filter ?later ?en"
  proof (rule map_sorted_distinct_set_unique [where f = fst])
    show "inj_on fst (set (sort_key fst (map snd ?m)) \<union> set (filter ?later ?en))"
      by (rule inj_on_subset [OF enumerate_fst(1)]) (use sub in auto)
    show "set (sort_key fst (map snd ?m)) = set (filter ?later ?en)" using sets by simp
  qed (simp_all add: d sorted_filter distinct_map_filter enumerate_fst)
  then show ?thesis by (simp add: normalized_audit_rounds_def last_rounds_def)
qed

subsection \<open>Calls add up\<close>

definition rollup_ok :: "runner_calls \<Rightarrow> bool" where
  "rollup_ok s \<longleftrightarrow> rr_calls s = rr_ok s + rr_failed s + rr_skipped s \<and> rr_timeout s \<le> rr_failed s \<and> 0 < rr_calls s"

lemma count_call_ok: "s = no_calls \<or> rollup_ok s \<Longrightarrow> rollup_ok (count_call st s)"
  by (auto simp: count_call_def rollup_ok_def no_calls_def Let_def)

definition called :: "json list \<Rightarrow> string \<Rightarrow> json list" where
  "called events runner = filter (\<lambda>e. runner_from_event e = runner) (events_of_type ''runner.finished'' events)"

lemma roll_up_called:
  "bt_wf (foldl roll_up [] es)
   \<and> (case bt_get (foldl roll_up [] es) r of
        None \<Rightarrow> filter (\<lambda>e. runner_from_event e = r) es = []
      | Some s \<Rightarrow> rollup_ok s \<and> rr_calls s = length (filter (\<lambda>e. runner_from_event e = r) es)
          \<and> rr_ok s = length (filter (\<lambda>e. runner_from_event e = r \<and> runner_status e = ''ok'') es))"
proof (induction es rule: rev_induct)
  case (snoc e es)
  let ?m = "foldl roll_up [] es"
  have m: "foldl roll_up [] (es @ [e]) =
      bt_insert (runner_from_event e) (count_call (runner_status e) (opt_get_or no_calls (bt_get ?m (runner_from_event e)))) ?m"
    by (simp add: roll_up_def Let_def)
  show ?case
  proof (cases "runner_from_event e = r")
    case True
    have "filter (\<lambda>e. runner_from_event e = r \<and> runner_status e = ''ok'') es = []" if "filter (\<lambda>e. runner_from_event e = r) es = []"
      using that by (simp add: filter_empty_conv)
    then show ?thesis using snoc True unfolding m
      by (cases "bt_get ?m r")
        (auto simp: bt_wf_insert opt_get_or_def count_call_def Let_def no_calls_def rollup_ok_def)
  next
    case False
    with snoc show ?thesis unfolding m by (auto simp: bt_wf_insert split: option.splits)
  qed
qed simp

text \<open>
  the figures of a runner add up: its calls are its \<open>runner.finished\<close> events and each is one success, one
  failure or one skip; time-outs are failures; and the failure rate reaches one exactly when every call failed
  (while the counts are exact in a double).
\<close>

theorem runner_rollup_adds_up:
  assumes "bt_get (runner_rollups events) r = Some s" and "length events \<le> 2 ^ 53"
  shows "rr_calls s = length (called events r) \<and> rr_calls s = rr_ok s + rr_failed s + rr_skipped s
    \<and> rr_ok s = length (filter (\<lambda>e. runner_status e = ''ok'') (called events r)) \<and> rr_timeout s \<le> rr_failed s
    \<and> (f_le (Fin 1) (call_failure_rate s) \<longleftrightarrow> rr_failed s = rr_calls s)"
proof -
  let ?es = "events_of_type ''runner.finished'' events"
  have s: "rollup_ok s" "rr_calls s = length (called events r)"
      "rr_ok s = length (filter (\<lambda>e. runner_status e = ''ok'') (called events r))"
    using roll_up_called [of ?es r] assms(1) by (simp_all add: runner_rollups_def called_def conj_commute)
  have "length (called events r) \<le> length ?es" unfolding called_def by (rule length_filter_le)
  also have "length ?es \<le> length events" unfolding events_of_type_def by (rule length_filter_le)
  finally have n: "rr_calls s \<le> 2 ^ 53" using s(2) assms(2) by linarith
  have c: "rr_calls s = rr_ok s + rr_failed s + rr_skipped s" "rr_timeout s \<le> rr_failed s" "0 < rr_calls s"
    using s(1) unfolding rollup_ok_def by blast+
  have "int (rr_calls s) \<le> 2 ^ 53" using n by (simp add: numeral_power_le_of_nat_cancel_iff)
  then have "f_le (Fin 1) (call_failure_rate s) \<longleftrightarrow> int (rr_calls s) \<le> int (rr_failed s)"
    using c unfolding call_failure_rate_def f_of_nat_def by (subst f_div_counts [symmetric]) auto
  moreover have "int (rr_calls s) \<le> int (rr_failed s) \<longleftrightarrow> rr_failed s = rr_calls s" using c by linarith
  ultimately have "f_le (Fin 1) (call_failure_rate s) \<longleftrightarrow> rr_failed s = rr_calls s" by blast
  with c s(2,3) show ?thesis by blast
qed

lemma witness_calls: "bt_get (runner_rollups [jobj [(''type'', JStr ''runner.finished''),
      (''fields'', jobj [(''runner'', JStr ''codex''), (''rc'', JInt 124)])]]) ''codex''
    = Some \<lparr> rr_calls = 1, rr_ok = 0, rr_failed = 1, rr_timeout = 1, rr_skipped = 0 \<rparr>"
  by code_simp

theorem runner_rollup_adds_up_witness:
  "f_le (Fin 1) (call_failure_rate \<lparr> rr_calls = 1, rr_ok = 0, rr_failed = 1, rr_timeout = 1, rr_skipped = 0 \<rparr>)"
proof -
  have "length [jobj [(''type'', JStr ''runner.finished''),
      (''fields'', jobj [(''runner'', JStr ''codex''), (''rc'', JInt 124)])]] \<le> 2 ^ 53" by simp
  from runner_rollup_adds_up [OF witness_calls this] show ?thesis by (elim conjE) (simp only: runner_calls.simps)
qed

text \<open>Saving the telemetry changes nothing but its file and directory.\<close>

lemma save_telemetry_keeps:
  assumes "\<And>d. keeps p (\<lambda>w. w_mkdir (io_git E) w d)" and "\<And>t. keeps p (io_replace E (telemetry_path repo run_id) t)"
  shows "keeps p (save_telemetry E R instant events_in repo run_id)"
  unfolding save_telemetry_def build_telemetry_def by (intro keep_rules assms)

end
