(* ===== verification/Lto_Audit_Dispatch.thy ===== *)
theory Lto_Audit_Dispatch
  imports Lto_Submit Lto_Run_Io Lto_Event_Emit Lto_Findings
begin

text \<open>
  \<open>src/src/audit_dispatch.rs\<close>: which runners audit a run, their jobs, and the batch that is submitted. The
  scheduler and its health probe are actions of a record, as they run the runners; the events of a run are read
  by another.
\<close>

subsection \<open>Choosing auditors\<close>

definition AUDITOR_POOL :: "string list" where
  "AUDITOR_POOL = [''codex'', ''pi'', ''agy'']"

definition pick_auditors_with :: "string \<Rightarrow> bool \<Rightarrow> string list" where
  "pick_auditors_with host allow_same_family =
     (if allow_same_family \<or> eq_ignore_ascii_case (trim host) ''unknown'' then AUDITOR_POOL
      else let picked = filter (\<lambda>r. \<not> same_family r host) AUDITOR_POOL
           in if picked = [] then AUDITOR_POOL else picked)"

definition pick_auditors :: "string \<Rightarrow> string list" where
  "pick_auditors host = pick_auditors_with host False"

definition pick_auditors_preferred :: "string \<Rightarrow> bool \<Rightarrow> string list \<Rightarrow> string list" where
  "pick_auditors_preferred host allow_same_family prefer =
     (let base = pick_auditors_with host allow_same_family in
      if prefer = [] then base
      else let ordered = filter (\<lambda>n. n \<in> set base) prefer in if ordered = [] then base else ordered)"

record auditor_selection =
  as_auditors :: "string list"
  as_warnings :: "string list"

text \<open>One event of the log: the runner and the status of an audit job, when all of it can be read.\<close>

definition audit_outcome :: "json \<Rightarrow> (string \<times> string) option" where
  "audit_outcome e =
     (if jget_str e ''type'' \<noteq> Some ''runner.finished'' then None
      else case jget_with as_object e ''fields'' of
        None \<Rightarrow> None
      | Some m \<Rightarrow>
          (let fields = JObj m in
           case jget_str fields ''context'' of
             None \<Rightarrow> None
           | Some c \<Rightarrow>
               if c \<notin> {''audit.auto_dispatch'', ''audit.risk_discovery''} then None
               else case opt_or (jget_str fields ''runner'') (Option.bind (jget e ''actor'') (\<lambda>a. jget_str a ''id'')) of
                 None \<Rightarrow> None
               | Some r \<Rightarrow> map_option (\<lambda>st. (r, st)) (jget_str fields ''status'')))"

definition count_streak :: "(string, nat) btree \<Rightarrow> json \<Rightarrow> (string, nat) btree" where
  "count_streak m e =
     (case audit_outcome e of
        None \<Rightarrow> m
      | Some (r, st) \<Rightarrow> bt_insert r (if st = ''ok'' then 0 else opt_get_or 0 (bt_get m r) + 1) m)"

definition audit_failure_streaks :: "json list \<Rightarrow> (string, nat) btree" where
  "audit_failure_streaks events = foldl count_streak [] events"

definition skip_warning :: "string \<Rightarrow> string \<Rightarrow> nat \<Rightarrow> string" where
  "skip_warning run_id r n =
     (''WARN auto-dispatch skipped runner '' @ r @ '': '' @ (show_nat n) @ '' consecutive audit failures in run '' @ run_id @ ''; override with --prefer-runner '' @ r)"

definition select_auditor ::
    "string \<Rightarrow> (string, nat) btree \<Rightarrow> auditor_selection \<Rightarrow> string \<Rightarrow> auditor_selection" where
  "select_auditor run_id streaks s r =
     (case bt_get streaks r of
        None \<Rightarrow> s\<lparr> as_auditors := as_auditors s @ [r] \<rparr>
      | Some n \<Rightarrow>
          if n < 2 then s\<lparr> as_auditors := as_auditors s @ [r] \<rparr>
          else s\<lparr> as_warnings := as_warnings s @ [skip_warning run_id r n] \<rparr>)"

definition pick_auditors_for_run ::
    "string \<Rightarrow> (string + json list) \<Rightarrow> string \<Rightarrow> bool \<Rightarrow> string list \<Rightarrow> string + auditor_selection" where
  "pick_auditors_for_run run_id events host allow_same_family prefer =
     (let base = pick_auditors_preferred host allow_same_family prefer in
      if prefer \<noteq> [] then Inr \<lparr> as_auditors = base, as_warnings = [] \<rparr>
      else case events of
        Inl e \<Rightarrow> Inl e
      | Inr es \<Rightarrow> Inr (foldl (select_auditor run_id (audit_failure_streaks es)) \<lparr> as_auditors = [], as_warnings = [] \<rparr> base))"

definition first_healthy :: "string list \<Rightarrow> health_probe \<Rightarrow> string option" where
  "first_healthy runners health = find (\<lambda>r. opt_get_or False (bt_get health r)) runners"

text \<open>\<open>probe\<close> runs the health check; its failure is no healthy runner.\<close>

definition pick_healthy_discoverer ::
    "(string list \<Rightarrow> ('w, health_probe) act) \<Rightarrow> string list \<Rightarrow> ('w, string option) act" where
  "pick_healthy_discoverer probe auditors =
     (if auditors = [] then aret None
      else acatch (abind (probe auditors) (\<lambda>h. aret (first_healthy auditors h))) (\<lambda>_. aret None))"

subsection \<open>The jobs\<close>

definition jenum :: "string list \<Rightarrow> json" where
  "jenum values = jobj [(''type'', JStr ''string''), (''enum'', jstrs values)]"

definition jstring_type :: json where
  "jstring_type = jobj [(''type'', JStr ''string'')]"

definition findings_schema :: "string list \<Rightarrow> json" where
  "findings_schema severities =
     (let levels = [''high'', ''medium'', ''low''];
          confidence = jobj [(''anyOf'', JArr
            [jobj [(''type'', JStr ''object''),
                   (''properties'', jobj [(''level'', jenum levels), (''rationale'', jstring_type)])],
             jenum levels])]
      in jobj
       [(''type'', JStr ''array''),
        (''items'', jobj
          [(''type'', JStr ''object''),
           (''properties'', jobj
             [(''severity'', jenum severities), (''claim'', jstring_type), (''reported_confidence'', confidence),
              (''invalidated_when'', jstring_type), (''evidence_to_check'', jstring_type), (''file'', jstring_type)]),
           (''required'', jstrs [''severity'', ''claim''])])])"

definition auto_dispatch_output_schema :: json where
  "auto_dispatch_output_schema = findings_schema [''critical'', ''high'', ''medium'', ''low'']"

definition risk_discovery_output_schema :: json where
  "risk_discovery_output_schema = findings_schema [''high'', ''critical'', ''medium'']"

definition audit_job :: "string \<Rightarrow> string \<Rightarrow> string \<Rightarrow> json \<Rightarrow> agent_job" where
  "audit_job runner brief host output_schema =
     \<lparr> aj_job_id = (''audit-'' @ runner), aj_prompt_ref = brief, aj_runner = runner, aj_prompt_is_inline = False,
       aj_model = None, aj_env = bt_of_list [(''LTO_LEAN_CONTEXT'', ''1'')],
       aj_permission_policy = readonly_intent_to_policy runner, aj_isolation = ''none'',
       aj_output_schema = Some output_schema, aj_parent_pattern = Adversarial,
       aj_budget = \<lparr> jb_timeout_sec = 300, jb_max_tokens = None \<rparr>, aj_retry_policy = default_retry_policy,
       aj_verifier_of = None, aj_children = [], aj_task_type = Some ''audit'', aj_size = Small, aj_test_cmd = None,
       aj_needs_worktree = False, aj_meta = bt_of_list [(''host'', JStr host), (''brief'', JStr brief)] \<rparr>"

definition build_auto_dispatch_jobs :: "string \<Rightarrow> string list \<Rightarrow> string \<Rightarrow> agent_job list" where
  "build_auto_dispatch_jobs brief auditors host =
     map (\<lambda>a. audit_job a brief host auto_dispatch_output_schema) auditors"

definition build_risk_discovery_job :: "string \<Rightarrow> string \<Rightarrow> string \<Rightarrow> agent_job" where
  "build_risk_discovery_job brief discoverer host = audit_job discoverer brief host risk_discovery_output_schema"

definition audit_session_id :: "string \<Rightarrow> string \<Rightarrow> string" where
  "audit_session_id run_id auditor = (''lto-'' @ run_id @ ''-audit-'' @ auditor)"

text \<open>What both kinds of dispatch add to a job.\<close>

definition in_session :: "string \<Rightarrow> string \<Rightarrow> agent_job \<Rightarrow> agent_job" where
  "in_session run_id auditor j =
     j\<lparr> aj_meta := bt_insert ''run_id'' (JStr run_id) (aj_meta j),
        aj_env := bt_insert ''LTO_SESSION_ID'' (audit_session_id run_id auditor) (aj_env j) \<rparr>"

subsection \<open>Submitting\<close>

record 'w audit_env =
  ae_io :: "'w run_io"
  ae_submit :: "agent_job list \<Rightarrow> ('w, agent_result list) act"
  ae_healthcheck :: "string list \<Rightarrow> ('w, health_probe) act"
  ae_events :: "string \<Rightarrow> 'w \<Rightarrow> string + json list"
  ae_result_json :: "agent_result \<Rightarrow> json"
  ae_parse :: "string \<Rightarrow> json option"
  ae_fences :: "string \<Rightarrow> string list"
  ae_redact :: "string \<Rightarrow> string"
  ae_slug :: "'w \<Rightarrow> string"
  ae_host_runtime :: "string option"
  ae_telemetry :: "string \<Rightarrow> ('w, unit) act"

fun tell_all :: "'w run_io \<Rightarrow> string \<Rightarrow> event_record list \<Rightarrow> ('w, unit) act" where
  "tell_all E run_id [] = aret ()"
| "tell_all E run_id (ev # evs) = abind (tell E run_id ev) (\<lambda>_. tell_all E run_id evs)"

definition submit_and_tell ::
    "'w audit_env \<Rightarrow> string \<Rightarrow> event_place \<Rightarrow> agent_job list \<Rightarrow> ('w, agent_result list) act" where
  "submit_and_tell A run_id place jobs =
     abind (tell_all (ae_io A) run_id (map (runner_started_job place) jobs)) (\<lambda>_.
       acatch (ae_submit A jobs) (\<lambda>e.
         abind (tell_all (ae_io A) run_id (map (runner_submission_failed (io_sha (ae_io A)) place e) jobs)) (\<lambda>_. afail e)))"

definition submit_auto_dispatch ::
    "'w audit_env \<Rightarrow> string \<Rightarrow> string list \<Rightarrow> string \<Rightarrow> string \<Rightarrow> ('w, agent_result list) act" where
  "submit_auto_dispatch A brief auditors host run_id =
     submit_and_tell A run_id \<lparr> pl_phase = None, pl_task_id = None, pl_context = ''audit.auto_dispatch'' \<rparr>
       (map (\<lambda>j. in_session run_id (aj_runner j) j) (build_auto_dispatch_jobs brief auditors host))"

subsection \<open>Who is chosen\<close>

lemma pool_has_another_family: "\<exists>r\<in>set AUDITOR_POOL. \<not> same_family r host"
proof (rule ccontr)
  assume "\<not> ?thesis"
  then have "family ''codex'' = family host" "family ''pi'' = family host"
    by (simp_all add: AUDITOR_POOL_def same_family_def)
  moreover have "family ''codex'' \<noteq> family ''pi''" by code_simp
  ultimately show False by simp
qed

lemma pick_auditors_with_spec:
  "set (pick_auditors_with host allow) \<subseteq> set AUDITOR_POOL \<and> pick_auditors_with host allow \<noteq> []
   \<and> (\<not> allow \<and> \<not> eq_ignore_ascii_case (trim host) ''unknown'' \<longrightarrow>
        pick_auditors_with host allow = filter (\<lambda>r. \<not> same_family r host) AUDITOR_POOL)"
  using pool_has_another_family [of host]
  by (auto simp: pick_auditors_with_def Let_def filter_empty_conv AUDITOR_POOL_def)

text \<open>
  the auditors of a run: there is always one, all are of the pool, and unless the host allows its own family
  or is unknown none is of the family of the host, whatever is preferred.
\<close>

theorem auditors_of_other_families:
  "pick_auditors_preferred host allow prefer \<noteq> []
   \<and> set (pick_auditors_preferred host allow prefer) \<subseteq> set AUDITOR_POOL
   \<and> (\<not> allow \<and> \<not> eq_ignore_ascii_case (trim host) ''unknown'' \<longrightarrow>
        (\<forall>r\<in>set (pick_auditors_preferred host allow prefer). \<not> same_family r host))"
proof -
  have "set (pick_auditors_preferred host allow prefer) \<subseteq> set (pick_auditors_with host allow)"
    by (auto simp: pick_auditors_preferred_def Let_def)
  moreover have "pick_auditors_preferred host allow prefer \<noteq> []"
    using pick_auditors_with_spec [of host allow] by (auto simp: pick_auditors_preferred_def Let_def)
  ultimately show ?thesis using pick_auditors_with_spec [of host allow] by auto
qed

theorem auditors_of_other_families_witness:
  "pick_auditors_preferred ''codex'' False [''agy''] = [''agy''] \<and> \<not> same_family ''agy'' ''codex''"
proof -
  have "\<not> eq_ignore_ascii_case (trim ''codex'') ''unknown''" and agy: "pick_auditors_preferred ''codex'' False [''agy''] = [''agy'']"
    by code_simp+
  then show ?thesis using auditors_of_other_families [of "''codex''" False "[''agy'']"] by simp
qed

subsection \<open>Who is skipped\<close>

definition audit_statuses :: "json list \<Rightarrow> string \<Rightarrow> string list" where
  "audit_statuses es r = map snd (filter (\<lambda>p. fst p = r) (List.map_filter audit_outcome es))"

definition failed_twice :: "string list \<Rightarrow> bool" where
  "failed_twice sts \<longleftrightarrow> (case rev sts of a # b # _ \<Rightarrow> a \<noteq> ''ok'' \<and> b \<noteq> ''ok'' | _ \<Rightarrow> False)"

lemma streak_of:
  "bt_get (audit_failure_streaks es) r =
     (if audit_statuses es r = [] then None
      else Some (length (takeWhile (\<lambda>st. st \<noteq> ''ok'') (rev (audit_statuses es r)))))"
proof (induction es rule: rev_induct)
  case Nil
  show ?case by (simp add: audit_failure_streaks_def audit_statuses_def map_filter_simps)
next
  case (snoc e es)
  have m: "audit_failure_streaks (es @ [e]) = count_streak (audit_failure_streaks es) e"
    by (simp add: audit_failure_streaks_def)
  show ?case
  proof (cases "audit_outcome e")
    case None
    with snoc show ?thesis by (simp add: m count_streak_def audit_statuses_def List.map_filter_def)
  next
    case (Some p)
    obtain r' st where p: "p = (r', st)" by fastforce
    show ?thesis
    proof (cases "r' = r")
      case True
      with snoc Some p show ?thesis
        by (auto simp: m count_streak_def audit_statuses_def List.map_filter_def opt_get_or_def)
    next
      case False
      with snoc Some p show ?thesis
        by (simp add: m count_streak_def audit_statuses_def List.map_filter_def bt_get_insert)
    qed
  qed
qed

lemma failed_twice_streak: "failed_twice sts \<longleftrightarrow> 2 \<le> length (takeWhile (\<lambda>st. st \<noteq> ''ok'') (rev sts))"
  by (auto simp: failed_twice_def split: list.splits)

lemma select_auditors:
  "as_auditors (foldl (select_auditor run_id streaks) s rs) =
     as_auditors s @ filter (\<lambda>r. case bt_get streaks r of None \<Rightarrow> True | Some n \<Rightarrow> n < 2) rs"
  by (induction rs arbitrary: s) (auto simp: select_auditor_def split: option.splits)

text \<open>
  C24: without a preference exactly the auditors whose last two audit jobs of the run did not end well are left
  out: the streaks that are counted along the log are the failures at its end.
\<close>

theorem auditors_skipped_after_two_failures:
  "map_sum id as_auditors (pick_auditors_for_run run_id (Inr es) host allow []) =
     Inr (filter (\<lambda>r. \<not> failed_twice (audit_statuses es r)) (pick_auditors_with host allow))"
proof -
  have "(case bt_get (audit_failure_streaks es) r of None \<Rightarrow> True | Some n \<Rightarrow> n < 2) =
      (\<not> failed_twice (audit_statuses es r))" for r
    unfolding streak_of failed_twice_streak by (auto simp: not_le)
  then show ?thesis
    by (simp add: pick_auditors_for_run_def pick_auditors_preferred_def Let_def select_auditors)
qed

subsection \<open>The batch is accepted\<close>

lemma audit_job_valid:
  assumes "r \<in> set AUDITOR_POOL" "brief \<noteq> []"
  shows "job_validate (in_session run_id r (audit_job r brief host schema)) = Inr ()"
proof -
  let ?env = "[(''LTO_LEAN_CONTEXT'', ''1''), (''LTO_SESSION_ID'', audit_session_id run_id r)]"
  have env: "aj_env (in_session run_id r (audit_job r brief host schema)) = ?env"
    by (simp add: in_session_def audit_job_def bt_of_list_def)
  have "validate_for_runner (readonly_intent_to_policy r) r ?env = Inr ()"
    using assms(1) unfolding AUDITOR_POOL_def
    by (auto; code_simp)
  moreover have "r \<in> set KNOWN_RUNNERS" using assms(1) unfolding AUDITOR_POOL_def by (auto; code_simp)
  ultimately show ?thesis
    using assms(2) env by (simp add: job_validate_def in_session_def audit_job_def)
qed

lemma validate_jobs_all_valid:
  "\<forall>j\<in>set js. job_validate j = Inr () \<Longrightarrow>
   validate_jobs seen js = Inr () \<longleftrightarrow> distinct (map aj_job_id js) \<and> set (map aj_job_id js) \<inter> set seen = {}"
  by (induction js arbitrary: seen) auto

text \<open>
  the scheduler takes the batch of an audit (auditors of the pool, a brief, no more jobs than it may hold)
  exactly when no auditor is named twice.
\<close>

theorem audit_batch_accepted_iff:
  assumes "set auditors \<subseteq> set AUDITOR_POOL" "brief \<noteq> []" "length auditors \<le> sc_max_total_agents config"
  shows "validate_batch (map (\<lambda>j. in_session run_id (aj_runner j) j) (build_auto_dispatch_jobs brief auditors host)) config
      = Inr () \<longleftrightarrow> distinct auditors"
proof -
  let ?js = "map (\<lambda>j. in_session run_id (aj_runner j) j) (build_auto_dispatch_jobs brief auditors host)"
  have js: "?js = map (\<lambda>a. in_session run_id a (audit_job a brief host auto_dispatch_output_schema)) auditors"
    by (simp add: build_auto_dispatch_jobs_def audit_job_def)
  have "\<forall>j\<in>set ?js. job_validate j = Inr ()"
    unfolding js using audit_job_valid assms(1,2) by fastforce
  then have "validate_jobs [] ?js = Inr () \<longleftrightarrow> distinct (map aj_job_id ?js)"
    by (simp add: validate_jobs_all_valid)
  moreover have "map aj_job_id ?js = map (\<lambda>a. (''audit-'' @ a)) auditors"
    unfolding js by (simp add: in_session_def audit_job_def)
  moreover have "distinct (map (\<lambda>a. (''audit-'' @ a)) auditors) \<longleftrightarrow> distinct auditors"
    by (simp add: distinct_map inj_on_def)
  moreover have "length ?js \<le> sc_max_total_agents config" unfolding js using assms(3) by simp
  ultimately show ?thesis unfolding validate_batch_def by (simp only: not_less [symmetric] if_False)
qed

theorem audit_batch_accepted_iff_witness:
  "validate_batch (map (\<lambda>j. in_session ''r'' (aj_runner j) j) (build_auto_dispatch_jobs ''b'' [''pi'', ''agy''] ''codex''))
     default_config = Inr ()"
proof -
  have "set [''pi'', ''agy''] \<subseteq> set AUDITOR_POOL" "length [''pi'', ''agy''] \<le> sc_max_total_agents default_config"
    by code_simp+
  then show ?thesis using audit_batch_accepted_iff [of "[''pi'', ''agy'']" "''b''" default_config "''r''" "''codex''"] by simp
qed

text \<open>A preference that names an auditor twice is passed on, and the scheduler then refuses the batch.\<close>

lemma doubled_preference_refused:
  "pick_auditors_preferred ''claude'' False [''codex'', ''codex''] = [''codex'', ''codex'']"
  "validate_batch (map (\<lambda>j. in_session ''r'' (aj_runner j) j)
     (build_auto_dispatch_jobs ''b'' (pick_auditors_preferred ''claude'' False [''codex'', ''codex'']) ''claude''))
     default_config = Inl (DuplicateJobId ''audit-codex'')"
  by code_simp+

end
