(* ===== verification/Lto_Audit.thy ===== *)
theory Lto_Audit
  imports Lto_Audit_Dispatch Lto_Audit_Ledger Lto_Autopilot Lto_Checks Lto_Closeout
begin

text \<open>
  \<open>lto audit\<close> of \<open>src/src/cli.rs\<close>: the briefs, the batch of auditors, their replies, the counts of findings and the
  round in the ledger; the discovery of risks; and \<open>ensure_exists\<close> of \<open>src/src/audit_ledger.rs\<close>. What is printed
  is the result of the command; warnings are left out.
\<close>

subsection \<open>Findings as JSON\<close>

fun severity_name :: "severity \<Rightarrow> string" where
  "severity_name SevCritical = ''critical''"
| "severity_name SevHigh = ''high''"
| "severity_name SevMedium = ''medium''"
| "severity_name SevLow = ''low''"

definition some_field :: "string \<Rightarrow> json option \<Rightarrow> (string \<times> json) list" where
  "some_field k v = (case v of Some x \<Rightarrow> [(k, x)] | None \<Rightarrow> [])"

definition confidence_json :: "reported_confidence \<Rightarrow> json" where
  "confidence_json c =
     jobj (some_field ''level'' (map_option (JStr \<circ> confidence_level_str) (rf_level c))
           @ some_field ''rationale'' (map_option JStr (rf_rationale c)))"

definition finding_json :: "finding \<Rightarrow> json" where
  "finding_json f =
     jobj ([(''severity'', JStr (severity_name (fi_severity f))), (''claim'', JStr (fi_claim f))]
       @ some_field ''reported_confidence'' (map_option confidence_json (fi_reported_confidence f))
       @ some_field ''invalidated_when'' (map_option JStr (fi_invalidated_when f))
       @ [(''evidence_to_check'', jopt JStr (fi_evidence_to_check f)), (''file'', jopt JStr (fi_file f)),
          (''source'', jopt JStr (fi_source f))])"

subsection \<open>Reading a reply\<close>

function split_str :: "string \<Rightarrow> string \<Rightarrow> string list" where
  "split_str sep s =
     (case (if sep = [] then None else split_once sep s) of
        None \<Rightarrow> [s]
      | Some (a, b) \<Rightarrow> a # split_str sep b)"
  by auto

termination
proof (relation "measure (\<lambda>(sep, s). length s)")
  fix sep s :: string and x a b
  assume "(if sep = [] then None else split_once sep s) = Some x" "(a, b) = x"
  then have "sep \<noteq> []" "s = a @ sep @ b" using split_once_Some [of sep s a b] by (auto split: if_splits)
  then show "((sep, b), (sep, s)) \<in> measure (\<lambda>(sep, s). length s)" by (cases sep) auto
qed simp

definition findings_from_value :: "json \<Rightarrow> json list option" where
  "findings_from_value v = opt_or (as_array v) (jget_with as_array v ''findings'')"

definition fence_body :: "string \<Rightarrow> string" where
  "fence_body tail = trim (case split_once [CHR 0x60, CHR 0x60, CHR 0x60] tail of Some (a, _) \<Rightarrow> a | None \<Rightarrow> tail)"

definition parse_json_findings :: "(string \<Rightarrow> json option) \<Rightarrow> string \<Rightarrow> json list option" where
  "parse_json_findings parse text =
     opt_or (Option.bind (parse (trim text)) findings_from_value)
       (find_map (\<lambda>tail. Option.bind (parse (fence_body tail)) findings_from_value) (drop 1 (split_str ([CHR 0x60, CHR 0x60, CHR 0x60] @ ''json'') text)))"

definition parse_structured_findings ::
    "(string \<Rightarrow> json option) \<Rightarrow> (string \<Rightarrow> string list) \<Rightarrow> string \<Rightarrow> json list option" where
  "parse_structured_findings parse fences text =
     (case parse_findings_text parse fences text of
        Some fs \<Rightarrow> Some (map finding_json fs)
      | None \<Rightarrow>
     (case parse_json_findings parse text of
        None \<Rightarrow> None
      | Some raw \<Rightarrow>
          if raw = [] then Some []
          else let fs = parse_valid_findings_values raw in
            if fs = [] then None else Some (map finding_json fs)))"

definition parse_findings_or_empty ::
    "(string \<Rightarrow> json option) \<Rightarrow> (string \<Rightarrow> string list) \<Rightarrow> string \<Rightarrow> json list" where
  "parse_findings_or_empty parse fences text = opt_get_or [] (parse_structured_findings parse fences text)"

record severity_tally =
  sv_high :: u64
  sv_critical :: u64
  sv_minor :: u64

definition no_severities :: severity_tally where
  "no_severities = \<lparr> sv_high = 0, sv_critical = 0, sv_minor = 0 \<rparr>"

text \<open>\<open>text.matches(word).count()\<close>: from left to right, without overlaps.\<close>

definition count_matches :: "string \<Rightarrow> string \<Rightarrow> nat" where
  "count_matches word text = length (split_str word text) - 1"

definition add_severity :: "severity_tally \<Rightarrow> json \<Rightarrow> severity_tally" where
  "add_severity c f =
     (let s = to_ascii_lowercase (opt_get_or [] (jget_str f ''severity'')) in
      if s = ''critical'' then c\<lparr> sv_critical := sv_critical c + 1 \<rparr>
      else if s = ''high'' then c\<lparr> sv_high := sv_high c + 1 \<rparr>
      else if s \<in> {''medium'', ''low''} then c\<lparr> sv_minor := sv_minor c + 1 \<rparr>
      else c)"

text \<open>A reply without findings that can be read counts the words it uses.\<close>

definition add_reply ::
    "(string \<Rightarrow> json option) \<Rightarrow> (string \<Rightarrow> string list) \<Rightarrow> severity_tally \<Rightarrow> string \<Rightarrow> severity_tally" where
  "add_reply parse fences c text =
     (case parse_structured_findings parse fences text of
        None \<Rightarrow> c\<lparr> sv_high := sv_high c + of_nat (count_matches ''high'' text),
                  sv_critical := sv_critical c + of_nat (count_matches ''critical'' text) \<rparr>
      | Some fs \<Rightarrow> foldl add_severity c fs)"

subsection \<open>Briefs\<close>

definition effective_audit_host :: "string option \<Rightarrow> lto_state \<Rightarrow> string" where
  "effective_audit_host env st =
     (if trim (st_host_runtime st) \<noteq> [] then trim (st_host_runtime st)
      else opt_get_or ''unknown'' (opt_filter (\<lambda>v. v \<noteq> []) (map_option trim env)))"

definition auditable_tasks :: "lto_state \<Rightarrow> json list" where
  "auditable_tasks st =
     filter (\<lambda>t. opt_get_or ''pending'' (jget_str t ''status'') \<noteq> ''skipped'') (opt_get_or [] (as_array (st_tasks st)))"

definition target_lines :: "(json \<Rightarrow> string) \<Rightarrow> json \<Rightarrow> string list" where
  "target_lines pr t =
     (let files = take 12 (List.map_filter as_str (opt_get_or [] (jget_with as_array t ''touched_files''))) in
      [(''### '' @ (opt_get_or ''<unknown>'' (jget_str t ''id'')) @ '': '' @ (opt_get_or [] (jget_str t ''title'')))]
      @ (if files = [] then [] else [(''- touched: '' @ (join_str '', '' files))])
      @ (case Option.bind (jget_with as_array t ''evidence'') last_opt of
           Some e \<Rightarrow> [(''- latest evidence: '' @ (pr e))] | None \<Rightarrow> [])
      @ [[]])"

definition required_output :: "string list" where
  "required_output =
     [''## Required Output'', [],
      ''Return the strongest blockers first. End with a JSON findings list.'',
      ''Use severity critical/high/medium/low. Use [] if there are no findings.'',
      ''For each finding, report your self-assessed confidence and the evidence that would invalidate the claim. reported_confidence is uncalibrated metadata, not severity or probability.'',
      [], ([CHR 0x60, CHR 0x60, CHR 0x60] @ ''json''),
      (''[{'' @ [CHR 0x22] @ ''severity'' @ [CHR 0x22] @ '':'' @ [CHR 0x22] @ ''high'' @ [CHR 0x22] @ '','' @ [CHR 0x22] @ ''claim'' @ [CHR 0x22] @ '':'' @ [CHR 0x22] @ ''...'' @ [CHR 0x22] @ '','' @ [CHR 0x22] @ ''reported_confidence'' @ [CHR 0x22] @ '':{'' @ [CHR 0x22] @ ''level'' @ [CHR 0x22] @ '':'' @ [CHR 0x22] @ ''high'' @ [CHR 0x22] @ '','' @ [CHR 0x22] @ ''rationale'' @ [CHR 0x22] @ '':'' @ [CHR 0x22] @ ''...'' @ [CHR 0x22] @ ''},'' @ [CHR 0x22] @ ''invalidated_when'' @ [CHR 0x22] @ '':'' @ [CHR 0x22] @ ''...'' @ [CHR 0x22] @ '','' @ [CHR 0x22] @ ''evidence_to_check'' @ [CHR 0x22] @ '':'' @ [CHR 0x22] @ ''...'' @ [CHR 0x22] @ '','' @ [CHR 0x22] @ ''file'' @ [CHR 0x22] @ '':'' @ [CHR 0x22] @ ''...'' @ [CHR 0x22] @ ''}]''),
      [CHR 0x60, CHR 0x60, CHR 0x60]]"

definition build_audit_brief :: "(json \<Rightarrow> string) \<Rightarrow> lto_state \<Rightarrow> string \<Rightarrow> json list \<Rightarrow> string" where
  "build_audit_brief pr st host targets =
     join_str [CHR 0x0A]
       ([''# LTO Heterogeneous Audit Brief'', [], (''- goal: '' @ (st_goal st)), (''- host_runtime: '' @ host),
         (''- phase: '' @ (st_current_phase st)), [], ''## Audit Targets'', []]
        @ concat (map (target_lines pr) targets) @ required_output)"

definition build_risk_brief :: "lto_state \<Rightarrow> string \<Rightarrow> string" where
  "build_risk_brief st host =
     (''# LTO Risk Discovery Brief'' @ [CHR 0x0A, CHR 0x0A] @ ''- goal: '' @ (st_goal st) @ [CHR 0x0A] @ ''- host_runtime: '' @ host @ [CHR 0x0A] @ ''- phase: '' @ (st_current_phase st) @ [CHR 0x0A, CHR 0x0A] @ ''Read current state and recent changed files. Return only new high/critical/medium risks as JSON findings. For each finding, include reported_confidence with level/rationale and invalidated_when; confidence is uncalibrated review metadata, not severity or probability. Return [] if no new risks.'' @ [CHR 0x0A])"

subsection \<open>The ledger of a run\<close>

definition ledger_template_lines :: "string list" where
  "ledger_template_lines =
     [''# LTO Audit Ledger Template'',
      [],
      (''> '' @ [CHR 0xE7, CHR 0x94, CHR 0xA8, CHR 0xE9, CHR 0x80, CHR 0x94, CHR 0xEF, CHR 0xBC, CHR 0x9A, CHR 0xE6, CHR 0xAF, CHR 0x8F, CHR 0xE8, CHR 0xBD, CHR 0xAE, CHR 0xE5, CHR 0xBC, CHR 0x82, CHR 0xE6, CHR 0x9E, CHR 0x84, CHR 0xE5, CHR 0xAE, CHR 0xA1, CHR 0xE8, CHR 0xAE, CHR 0xA1, CHR 0xE5, CHR 0x9B, CHR 0x9E, CHR 0xE6, CHR 0x9D, CHR 0xA5, CHR 0xE5, CHR 0x90, CHR 0x8E, CHR 0xE7, CHR 0xAB, CHR 0x8B, CHR 0xE5, CHR 0x88, CHR 0xBB, CHR 0xE6, CHR 0x9B, CHR 0xB4, CHR 0xE6, CHR 0x96, CHR 0xB0, CHR 0xEF, CHR 0xBC, CHR 0x8C, CHR 0xE8, CHR 0xB7, CHR 0xAF, CHR 0xE5, CHR 0xBE, CHR 0x84, CHR 0xE5, CHR 0xBB, CHR 0xBA, CHR 0xE8, CHR 0xAE, CHR 0xAE] @ '' '' @ [CHR 0x60] @ ''.lto/<run-id>/audit-ledger.md'' @ [CHR 0x60, CHR 0xE3, CHR 0x80, CHR 0x82, CHR 0xE5, CHR 0xAE, CHR 0x83, CHR 0xE8, CHR 0xAE, CHR 0xB0, CHR 0xE5, CHR 0xBD, CHR 0x95] @ '' blocker '' @ [CHR 0xE6, CHR 0x98, CHR 0xAF, CHR 0xE5, CHR 0x90, CHR 0xA6, CHR 0xE5, CHR 0x8D, CHR 0x95, CHR 0xE8, CHR 0xB0, CHR 0x83, CHR 0xE4, CHR 0xB8, CHR 0x8B, CHR 0xE9, CHR 0x99, CHR 0x8D, CHR 0xEF, CHR 0xBC, CHR 0x8C, CHR 0xE4, CHR 0xB8, CHR 0x8D, CHR 0xE8, CHR 0xAE, CHR 0xB0, CHR 0xE5, CHR 0xBD, CHR 0x95, CHR 0xE6, CHR 0xB3, CHR 0x9B, CHR 0xE6, CHR 0xB3, CHR 0x9B, CHR 0xE5, CHR 0xBB, CHR 0xBA, CHR 0xE8, CHR 0xAE, CHR 0xAE, CHR 0xE3, CHR 0x80, CHR 0x82]),
      [],
      ''## Round Summary'',
      [],
      ''| round | artifact | auditors | coverage | high | critical | minor | trend | status |'',
      ''|---|---|---|---|---:|---:|---:|---|---|'',
      ''| R1 |  |  |  |  |  |  | start | open |'',
      [],
      ''Trend values: start, down, flat, rebound, closed.'',
      [],
      ''## Blocker Register'',
      [],
      ''| id | round_seen | severity | source | claim | evidence_to_check | disposition | fix_or_rebuttal | status |'',
      ''|---|---|---|---|---|---|---|---|---|'',
      ''| B001 | R1 | high |  |  |  | needs_verification |  | open |'',
      [],
      ''Disposition values: accepted, rejected, needs_verification, deferred_minor.'',
      ''Status values: open, fixed, rebutted, backlog, superseded.'',
      [],
      ''## Verification Notes'',
      [],
      ''Each adopted or rejected blocker needs first-hand evidence.'',
      [],
      ''### B001'',
      [],
      ''- claim:'',
      ''- first-hand evidence:'',
      ''- result: accepted | rejected | deferred'',
      ''- patch / follow-up:'',
      [],
      ''## Rebound Handling'',
      [],
      ''- Did HIGH+CRITICAL increase this round?'',
      ''- If yes, stop normal iteration and run debug/re-scope:'',
      ''- If flat for two rounds, challenge the requirement or audit standard:'',
      [],
      ''## Closure Gate'',
      [],
      ''- latest HIGH+CRITICAL count:'',
      ''- remaining minor items:'',
      ''- user decision required:'',
      ''- close / continue verdict:'']"

definition LEDGER_TEMPLATE :: string where
  "LEDGER_TEMPLATE = join_str [CHR 0x0A] ledger_template_lines @ [CHR 0x0A]"

definition ensure_ledger :: "'w run_io \<Rightarrow> string \<Rightarrow> string \<Rightarrow> ('w, unit) act" where
  "ensure_ledger E dir path w =
     (if io_exists E path w then aret () w
      else abind (\<lambda>w. w_mkdir (io_git E) w dir) (\<lambda>_. io_put E path LEDGER_TEMPLATE) w)"

definition append_error_str :: "append_error \<Rightarrow> string" where
  "append_error_str e =
     (case e of ParseFailed l \<Rightarrow> ledger_error_str l | NoObservation \<Rightarrow> ''appended audit ledger has no observation'')"

definition append_ledger :: "'w run_io \<Rightarrow> string \<Rightarrow> string \<Rightarrow> append_input \<Rightarrow> ('w, append_outcome) act" where
  "append_ledger E dir path i =
     abind (ensure_ledger E dir path) (\<lambda>_.
     abind (aread (read_text E path)) (\<lambda>t.
       case append_round t i of
         Inl e \<Rightarrow> afail (append_error_str e)
       | Inr (t', out) \<Rightarrow> abind (io_put E path t') (\<lambda>_. aret out)))"

definition round_input ::
    "(string \<Rightarrow> json option) \<Rightarrow> (string \<Rightarrow> string list) \<Rightarrow> string \<Rightarrow> string \<Rightarrow> string list \<Rightarrow> severity_tally \<Rightarrow> append_input" where
  "round_input parse fences artifact coverage used c =
     \<lparr> ai_artifact = artifact, ai_auditors = used, ai_coverage = coverage,
       ai_high = sv_high c, ai_critical = sv_critical c, ai_minor = sv_minor c \<rparr>"

subsection \<open>The commands\<close>

definition audit_meta :: "lto_state \<Rightarrow> string \<Rightarrow> string \<Rightarrow> string \<Rightarrow> string list \<Rightarrow> artifact_meta" where
  "audit_meta st kind producer summary tags =
     \<lparr> am_kind = kind, am_producer = producer, am_host_runtime = st_host_runtime st,
       am_phase = st_current_phase st, am_summary = summary, am_tags = tags \<rparr>"

definition attempted :: "('w, 'a) act \<Rightarrow> ('w, bool) act" where
  "attempted m w = (case m w of (r, w') \<Rightarrow> (Inr (is_ok r), w'))"

fun emit_results :: "'w run_io \<Rightarrow> string \<Rightarrow> event_record list \<Rightarrow> ('w, bool) act" where
  "emit_results E run_id [] = aret True"
| "emit_results E run_id (ev # evs) =
     abind (attempted (io_emit E run_id ev)) (\<lambda>ok. abind (emit_results E run_id evs) (\<lambda>rest. aret (ok \<and> rest)))"

definition emit_results_checked :: "'w run_io \<Rightarrow> string \<Rightarrow> event_place \<Rightarrow> agent_result list \<Rightarrow> ('w, unit) act" where
  "emit_results_checked E run_id place rs =
     abind (emit_results E run_id (runner_results place rs)) (\<lambda>ok.
       if ok then aret () else afail (''event emit failed for runner results in '' @ (pl_context place)))"

definition store_results :: "'w audit_env \<Rightarrow> string \<Rightarrow> string \<Rightarrow> agent_result list \<Rightarrow> ('w, run_context) act" where
  "store_results A repo run_id rs =
     abind (load_run (ae_io A) repo (Some run_id)) (\<lambda>x.
       store_run (ae_io A) (x\<lparr> rx_state := append_agent_results_to_state (ae_result_json A) (rx_state x) None rs \<rparr>))"

definition write_registered ::
    "'w audit_env \<Rightarrow> string \<Rightarrow> string \<Rightarrow> string \<Rightarrow> string \<Rightarrow> artifact_meta \<Rightarrow> ('w, unit) act" where
  "write_registered A repo run_id path content meta =
     abind (io_put (ae_io A) path (ae_redact A content)) (\<lambda>_. register_file (ae_io A) repo run_id path meta)"

definition tell_findings :: "'w audit_env \<Rightarrow> string \<Rightarrow> string \<Rightarrow> json list \<Rightarrow> string \<Rightarrow> ('w, unit) act" where
  "tell_findings A run_id source fs ctx_label =
     tell_all (ae_io A) run_id (map (audit_finding (io_sha (ae_io A)) source ctx_label) fs)"

text \<open>The replies in the order of the jobs; who replied well and what was counted.\<close>

fun collect_replies ::
    "'w audit_env \<Rightarrow> string \<Rightarrow> string \<Rightarrow> lto_state \<Rightarrow> string \<Rightarrow> agent_result list
     \<Rightarrow> string list \<times> severity_tally \<Rightarrow> ('w, string list \<times> severity_tally) act" where
  "collect_replies A repo run_id st dir [] s = aret s"
| "collect_replies A repo run_id st dir (r # rs) s =
     abind (write_registered A repo run_id (path_join dir (''reply-'' @ (ar_runner r) @ ''.md'')) (ar_reply_text r)
              (audit_meta st ''audit_reply'' ''lto-rs.audit.auto_dispatch'' ((ar_runner r) @ '' audit reply'') [''audit'', ''reply'']))
       (\<lambda>_. if ar_status r = JobOk
            then abind (tell_findings A run_id (ar_runner r)
                          (parse_findings_or_empty (ae_parse A) (ae_fences A) (ar_reply_text r)) ''audit.auto_dispatch'')
                   (\<lambda>_. collect_replies A repo run_id st dir rs
                          (fst s @ [ar_runner r], add_reply (ae_parse A) (ae_fences A) (snd s) (ar_reply_text r)))
            else collect_replies A repo run_id st dir rs s)"

definition append_audit_ledger_round ::
    "'w audit_env \<Rightarrow> string \<Rightarrow> string \<Rightarrow> lto_state \<Rightarrow> string \<Rightarrow> string list \<Rightarrow> string \<Rightarrow> severity_tally \<Rightarrow> ('w, append_outcome) act" where
  "append_audit_ledger_round A repo run_id st replies_dir used coverage c =
     (let E = ae_io A; dir = run_dir_of repo run_id; path = path_join dir ''audit-ledger.md'' in
      abind (aread (io_relative E replies_dir)) (\<lambda>artifact.
      abind (append_ledger E dir path (round_input (ae_parse A) (ae_fences A) artifact coverage used c)) (\<lambda>out.
      abind (tell E run_id (audit_round_recorded (ao_label out) (sv_high c) (sv_critical c) (sv_minor c))) (\<lambda>_.
      abind (tell E run_id (audit_ledger_evaluated (ao_label out) (verdict_str (ao_verdict out))
               (terminal_str (d_terminal (ao_diagnostics out))) (oscillation_str (d_oscillation (ao_diagnostics out))))) (\<lambda>_.
      abind (register_file E repo run_id path
               (audit_meta st ''audit_ledger'' ''lto-rs.audit.collect'' (''audit ledger updated '' @ (ao_label out)) [''audit'', ''ledger'']))
        (\<lambda>_. aret out))))))"

definition risk_point :: "string \<Rightarrow> nat \<Rightarrow> string \<Rightarrow> json \<Rightarrow> json" where
  "risk_point now n claim risk =
     jobj ([(''id'', JStr (''RP-auto-'' @ (show_nat n))), (''source'', JStr ''risk-agent''), (''claim'', JStr claim),
            (''evidence_to_check'', JStr (opt_get_or [] (jget_str risk ''evidence_to_check''))),
            (''severity'', JStr (opt_get_or ''medium'' (jget_str risk ''severity''))),
            (''status'', JStr ''open''), (''disposition'', JStr ''open''), (''recorded_at'', JStr now)]
           @ some_field ''reported_confidence'' (opt_filter (\<lambda>v. \<not> is_null v) (jget risk ''reported_confidence''))
           @ some_field ''invalidated_when'' (opt_filter (\<lambda>v. \<not> is_null v) (jget risk ''invalidated_when'')))"

definition risk_claim :: "json \<Rightarrow> string" where
  "risk_claim risk = trim (opt_get_or [] (jget_str risk ''claim''))"

fun risk_points_from :: "string \<Rightarrow> nat \<Rightarrow> json list \<Rightarrow> json list" where
  "risk_points_from now n [] = []"
| "risk_points_from now n (r # rs) =
     (if risk_claim r = [] then risk_points_from now n rs
      else risk_point now n (risk_claim r) r # risk_points_from now (n + 1) rs)"

definition append_discovered_risk_points :: "string \<Rightarrow> lto_state \<Rightarrow> json list \<Rightarrow> lto_state" where
  "append_discovered_risk_points now st risks =
     (let old = json_array (st_risk_points st) in
      st\<lparr> st_risk_points := JArr (old @ risk_points_from now (length old + 1) risks) \<rparr>)"

definition sync_md_file :: "'w run_io \<Rightarrow> string \<Rightarrow> lto_state \<Rightarrow> ('w, unit) act" where
  "sync_md_file E path st w =
     (if \<not> io_exists E path w then aret () w
      else abind (aread (read_text E path)) (\<lambda>t. io_replace E path (render_synced_run_state_md t st)) w)"

definition save_risks :: "'w audit_env \<Rightarrow> string \<Rightarrow> string \<Rightarrow> json list \<Rightarrow> ('w, unit) act" where
  "save_risks A repo run_id risks w =
     (let E = ae_io A; dir = run_dir_of repo run_id; path = path_join dir ''state.json'' in
      abind (aread (io_load E path)) (\<lambda>st.
      abind (store_run E \<lparr> rx_run_id = run_id, rx_run_dir = dir, rx_state_path = path,
                            rx_state = append_discovered_risk_points (io_now E w) st risks \<rparr>) (\<lambda>x.
        sync_md_file E (path_join dir ''run-state.md'') (rx_state x))) w)"

definition debug_code :: "int option \<Rightarrow> string" where
  "debug_code c = (case c of Some n \<Rightarrow> (''Some('' @ (show_int n) @ '')'') | None \<Rightarrow> ''None'')"

datatype risk_report = NoRisks string | RisksAdded string

definition risk_place :: "lto_state \<Rightarrow> event_place" where
  "risk_place st = \<lparr> pl_phase = Some (st_current_phase st), pl_task_id = None, pl_context = ''audit.risk_discovery'' \<rparr>"

definition discover_with ::
    "'w audit_env \<Rightarrow> string \<Rightarrow> string \<Rightarrow> string \<Rightarrow> lto_state \<Rightarrow> string \<Rightarrow> string \<Rightarrow> ('w, risk_report) act" where
  "discover_with A repo run_id audit_dir st host discoverer w =
     (let E = ae_io A; brief = path_join audit_dir (''risk-brief-'' @ (ae_slug A w) @ ''.md'') in
      abind (write_registered A repo run_id brief (build_risk_brief st host)
               (audit_meta st ''audit_brief'' ''lto-rs.audit.discover_risks'' ''risk discovery brief'' [''audit'', ''risk'', ''brief''])) (\<lambda>_.
      abind (submit_and_tell A run_id (risk_place st)
               [in_session run_id discoverer (build_risk_discovery_job brief discoverer host)]) (\<lambda>results.
      case results of
        [] \<Rightarrow> afail ''risk discovery returned no result''
      | r # _ \<Rightarrow>
          abind (emit_results_checked E run_id (risk_place st) results) (\<lambda>_.
          abind (store_results A repo run_id results) (\<lambda>_.
            if ar_status r \<noteq> JobOk
            then afail (''risk discovery runner '' @ (ar_runner r) @ '' returned '' @ (job_status_str (ar_status r)) @ '' exit='' @ (debug_code (ar_exit_code r)) @ '': '' @ (ar_error r))
            else (\<lambda>v. abind (write_registered A repo run_id
                          (path_join audit_dir (''risk-reply-'' @ discoverer @ ''-'' @ (ae_slug A v) @ ''.md'')) (ar_reply_text r)
                          (audit_meta st ''risk_discovery_reply'' ''lto-rs.audit.discover_risks''
                            (discoverer @ '' risk discovery reply'') [''audit'', ''risk'', ''reply''])) (\<lambda>_.
                 let risks = parse_findings_or_empty (ae_parse A) (ae_fences A) (ar_reply_text r) in
                 abind (tell_findings A run_id (ar_runner r) risks ''audit.risk_discovery'') (\<lambda>_.
                   if risks = [] then abind (aignore (ae_telemetry A run_id)) (\<lambda>_. aret (NoRisks discoverer))
                   else abind (save_risks A repo run_id risks) (\<lambda>_.
                        abind (aignore (ae_telemetry A run_id)) (\<lambda>_. aret (RisksAdded discoverer))))) v))))) w)"

definition dispatch_risk_discovery ::
    "'w audit_env \<Rightarrow> string \<Rightarrow> string \<Rightarrow> string \<Rightarrow> lto_state \<Rightarrow> string \<Rightarrow> string list \<Rightarrow> ('w, risk_report) act" where
  "dispatch_risk_discovery A repo run_id audit_dir st host auditors =
     abind (pick_healthy_discoverer (ae_healthcheck A) auditors) (\<lambda>d.
       case d of
         None \<Rightarrow> abind (tell (ae_io A) run_id (audit_dispatched host auditors ''risk_discovery_unhealthy'' None)) (\<lambda>_.
                  afail (''risk discovery has no healthy heterogeneous discoverer for host '' @ host))
       | Some discoverer \<Rightarrow>
           abind (tell (ae_io A) run_id (audit_dispatched host auditors ''risk_discovery'' (Some discoverer))) (\<lambda>_.
             discover_with A repo run_id audit_dir st host discoverer))"

record audit_options =
  au_run_id :: "string option"
  au_auto_dispatch :: bool
  au_discover_risks :: bool
  au_allow_same_family :: bool
  au_prefer_runner :: "string list"

datatype audit_report =
    AuditPrepared string "string list" string
  | AuditCollected "agent_result list" string

definition current_run_id :: "'w run_io \<Rightarrow> string \<Rightarrow> 'w \<Rightarrow> string option" where
  "current_run_id E repo w =
     (case read_text E (path_join (path_join repo ''.lto'') ''current'') w of
        Inr t \<Rightarrow> opt_filter (\<lambda>s. s \<noteq> []) (Some (trim t))
      | Inl _ \<Rightarrow> None)"

definition coverage_of :: "json list \<Rightarrow> string" where
  "coverage_of targets = join_str '','' (List.map_filter (\<lambda>t. jget_str t ''id'') targets)"

definition auto_dispatch ::
    "'w audit_env \<Rightarrow> string \<Rightarrow> string \<Rightarrow> string \<Rightarrow> lto_state \<Rightarrow> string \<Rightarrow> string list \<Rightarrow> string \<Rightarrow> json list \<Rightarrow> ('w, audit_report) act" where
  "auto_dispatch A repo run_id audit_dir st host auditors brief targets =
     (let E = ae_io A; replies = path_join audit_dir ''replies'';
          place = \<lparr> pl_phase = Some (st_current_phase st), pl_task_id = None, pl_context = ''audit.auto_dispatch'' \<rparr> in
      if auditors = [] then afail (''audit auto-dispatch has no heterogeneous auditors for host '' @ host)
      else abind (tell E run_id (audit_dispatched host auditors ''auto_dispatch'' None)) (\<lambda>_.
           abind (submit_auto_dispatch A brief auditors host run_id) (\<lambda>results.
           abind (emit_results_checked E run_id place results) (\<lambda>_.
           abind (store_results A repo run_id results) (\<lambda>_.
           abind (\<lambda>w. w_mkdir (io_git E) w replies) (\<lambda>_.
           abind (collect_replies A repo run_id st replies results ([], no_severities)) (\<lambda>(used, c).
           abind (append_audit_ledger_round A repo run_id st replies (remdups_adj (sort used)) (coverage_of targets) c) (\<lambda>_.
           abind (aread (io_relative E (path_join (run_dir_of repo run_id) ''audit-ledger.md''))) (\<lambda>rel.
           abind (aignore (ae_telemetry A run_id)) (\<lambda>_. aret (AuditCollected results rel)))))))))))"

definition write_brief ::
    "'w audit_env \<Rightarrow> string \<Rightarrow> string \<Rightarrow> string \<Rightarrow> lto_state \<Rightarrow> string \<Rightarrow> ('w, string) act" where
  "write_brief A repo run_id audit_dir st host w =
     (let brief = path_join audit_dir (''audit-brief-'' @ (ae_slug A w) @ ''.md'') in
      abind (write_registered A repo run_id brief (build_audit_brief (io_show (ae_io A)) st host (auditable_tasks st))
               (audit_meta st ''audit_brief'' ''lto-rs.audit.prepare'' ''audit brief'' [''audit'', ''brief''])) (\<lambda>_. aret brief) w)"

definition cmd_audit :: "'w audit_env \<Rightarrow> string \<Rightarrow> audit_options \<Rightarrow> ('w, audit_report) act" where
  "cmd_audit A repo opts =
     (let E = ae_io A in
      abind (aread (\<lambda>w. case opt_or (au_run_id opts) (current_run_id E repo w) of
               Some r \<Rightarrow> Inr r | None \<Rightarrow> Inl ''audit requires --run-id or .lto/current'')) (\<lambda>run_id.
      let dir = run_dir_of repo run_id; audit_dir = path_join dir ''audit'' in
      abind (aread (io_load E (path_join dir ''state.json''))) (\<lambda>st.
      let host = effective_audit_host (ae_host_runtime A) st in
      abind (aread (\<lambda>w. pick_auditors_for_run run_id (ae_events A run_id w) host (au_allow_same_family opts)
               (au_prefer_runner opts))) (\<lambda>sel.
      let auditors = as_auditors sel in
      abind (\<lambda>w. w_mkdir (io_git E) w audit_dir) (\<lambda>_.
      abind (tell E run_id (audit_dispatched host auditors ''prepare'' None)) (\<lambda>_.
      abind (if au_discover_risks opts
             then abind (dispatch_risk_discovery A repo run_id audit_dir st host auditors) (\<lambda>_. aret ())
             else aret ()) (\<lambda>_.
      abind (write_brief A repo run_id audit_dir st host) (\<lambda>brief.
        if \<not> au_auto_dispatch opts
        then abind (aread (io_relative E brief)) (\<lambda>rel. aret (AuditPrepared host auditors rel))
        else auto_dispatch A repo run_id audit_dir st host auditors brief (auditable_tasks st)))))))))"

subsection \<open>Discovered risks\<close>

lemma map_of_some_field: "map_of (some_field k v) k' = (if k = k' then v else None)"
  by (cases v) (auto simp: some_field_def)

lemma map_of_rev_some_field: "map_of (rev (some_field k v)) = map_of (some_field k v)"
  by (cases v) (auto simp: some_field_def)

lemma risk_point_is_open: "risk_is_open_unverified (risk_point now n claim risk)"
proof -
  let ?p = "risk_point now n claim risk"
  have d: "jget ?p ''disposition'' = Some (JStr ''open'')" and v: "jget ?p ''verified_by'' = None"
    by (simp_all add: risk_point_def jget_jobj map_add_def map_of_rev_some_field map_of_some_field)
  have "trim ''open'' = ''open''" "eq_ignore_ascii_case ''open'' ''open''" "\<not> eq_ignore_ascii_case ''open'' ''verified''"
    by code_simp+
  with d v show ?thesis
    by (simp add: risk_is_open_unverified_def risk_is_open_def risk_is_verified_def risk_text_def jget_with_def
        opt_filter_def opt_all_def)
qed

lemma risk_points_from_open:
  "filter risk_is_open_unverified (risk_points_from now n risks) = risk_points_from now n risks"
  "length (risk_points_from now n risks) = length (filter (\<lambda>r. risk_claim r \<noteq> []) risks)"
  by (induction risks arbitrary: n) (auto simp: risk_point_is_open)

text \<open>
  C23: every risk a discovery reports with a claim becomes an open, unverified risk point of the run, beside those
  that were there, so that a closeout that is not forced refuses until it has been dealt with.
\<close>

theorem discovered_risks_stay_open:
  "open_unverified_risks (append_discovered_risk_points now st risks) =
     open_unverified_risks st @ risk_points_from now (length (json_array (st_risk_points st)) + 1) risks
   \<and> length (open_unverified_risks (append_discovered_risk_points now st risks)) =
       length (open_unverified_risks st) + length (filter (\<lambda>r. risk_claim r \<noteq> []) risks)"
proof -
  have "json_array (st_risk_points (append_discovered_risk_points now st risks)) =
      json_array (st_risk_points st) @ risk_points_from now (length (json_array (st_risk_points st)) + 1) risks"
    by (simp add: append_discovered_risk_points_def json_array_def as_array_def opt_get_or_def Let_def)
  then show ?thesis by (simp add: open_unverified_risks_def risk_points_from_open)
qed

lemma discovered_risk_stops_closeout:
  assumes "risk_claim r \<noteq> []" "r \<in> set risks"
    and "rx_state x = append_discovered_risk_points now st risks"
  shows "\<not> (\<exists>v. risks_gate E x False w = (Inr (), v))"
proof -
  have "r \<in> set (filter (\<lambda>r. risk_claim r \<noteq> []) risks)" using assms(1,2) by simp
  then have "0 < length (filter (\<lambda>r. risk_claim r \<noteq> []) risks)" by (rule length_pos_if_in_set)
  then have "0 < length (open_unverified_risks (rx_state x))"
    unfolding assms(3) open_unverified_risks_def append_discovered_risk_points_def Let_def
    by (simp add: json_array_def as_array_def opt_get_or_def risk_points_from_open)
  then show ?thesis by (simp add: risks_gate_def Let_def)
qed

subsection \<open>What a round counts\<close>

definition well_replied :: "agent_result list \<Rightarrow> agent_result list" where
  "well_replied rs = filter (\<lambda>r. ar_status r = JobOk) rs"

lemma collected:
  "collect_replies A repo run_id st dir rs s w = (Inr (used, c), w') \<Longrightarrow>
   used = fst s @ map ar_runner (well_replied rs)
   \<and> c = foldl (\<lambda>c r. add_reply (ae_parse A) (ae_fences A) c (ar_reply_text r)) (snd s) (well_replied rs)"
proof (induction rs arbitrary: s w)
  case (Cons r rs)
  then show ?case
    by (auto simp: well_replied_def abind_Inr split: if_splits dest!: Cons.IH)
qed (auto simp: well_replied_def)

definition of_severity :: "string \<Rightarrow> json list \<Rightarrow> nat" where
  "of_severity s fs = length (filter (\<lambda>f. to_ascii_lowercase (opt_get_or [] (jget_str f ''severity'')) = s) fs)"

lemma of_severity_append: "of_severity s (xs @ ys) = of_severity s xs + of_severity s ys"
  by (simp add: of_severity_def)

lemma add_severities:
  "foldl add_severity c fs =
     \<lparr> sv_high = sv_high c + of_nat (of_severity ''high'' fs), sv_critical = sv_critical c + of_nat (of_severity ''critical'' fs),
       sv_minor = sv_minor c + of_nat (of_severity ''medium'' fs + of_severity ''low'' fs) \<rparr>"
proof (induction fs arbitrary: c)
  case (Cons f fs)
  show ?case unfolding foldl.simps Cons
    by (simp add: add_severity_def of_severity_def Let_def)
qed (simp add: of_severity_def)

lemma add_replies:
  "\<forall>r\<in>set rs. \<exists>fs. parse_structured_findings p fe (ar_reply_text r) = Some fs \<Longrightarrow>
   foldl (\<lambda>c r. add_reply p fe c (ar_reply_text r)) c rs =
     foldl add_severity c (concat (map (\<lambda>r. parse_findings_or_empty p fe (ar_reply_text r)) rs))"
proof (induction rs arbitrary: c)
  case (Cons r rs)
  then obtain fs where fs: "parse_structured_findings p fe (ar_reply_text r) = Some fs" by auto
  with Cons show ?case by (simp add: add_reply_def parse_findings_or_empty_def opt_get_or_def)
qed simp

text \<open>
  C9: the round that is written for the replies counts exactly the findings of the auditors that replied well, by
  severity, when their replies can be read: their number is not lost and no other auditor is named.
\<close>

theorem audit_round_counts:
  assumes "collect_replies A repo run_id st dir rs ([], no_severities) w = (Inr (used, c), w')"
    and "\<forall>r\<in>set (well_replied rs). \<exists>fs. parse_structured_findings (ae_parse A) (ae_fences A) (ar_reply_text r) = Some fs"
    and "fs = concat (map (\<lambda>r. parse_findings_or_empty (ae_parse A) (ae_fences A) (ar_reply_text r)) (well_replied rs))"
    and "int (length fs) < 2 ^ 63"
  shows "used = map ar_runner (well_replied rs) \<and> unat (sv_high c) = of_severity ''high'' fs
    \<and> unat (sv_critical c) = of_severity ''critical'' fs
    \<and> unat (sv_minor c) = of_severity ''medium'' fs + of_severity ''low'' fs"
proof -
  have le: "of_severity s fs \<le> length fs" for s unfolding of_severity_def by (rule length_filter_le)
  have small: "unat (of_nat n :: u64) = n" if "n \<le> 2 * length fs" for n
  proof -
    have "int n < 2 ^ 64" using that assms(4) by simp
    then have "n < 2 ^ 64" by (simp add: of_nat_less_numeral_power_cancel_iff)
    then show ?thesis by (simp add: unsigned_of_nat take_bit_nat_eq_self)
  qed
  have used: "used = map ar_runner (well_replied rs)"
    and c: "c = foldl add_severity no_severities fs"
    using collected [OF assms(1)] add_replies [OF assms(2)] assms(3) by simp_all
  have "unat (of_nat (of_severity s fs) :: u64) = of_severity s fs" for s using le [of s] by (intro small) simp
  moreover have "unat (of_nat (of_severity ''medium'' fs + of_severity ''low'' fs) :: u64) =
      of_severity ''medium'' fs + of_severity ''low'' fs"
    using le [of "''medium''"] le [of "''low''"] by (intro small) simp
  ultimately show ?thesis using used by (simp only: c add_severities no_severities_def) simp
qed

definition demo_audit :: "disk audit_env" where
  "demo_audit = \<lparr> ae_io = disk_io (\<lambda>_. True), ae_submit = (\<lambda>_. aret []), ae_healthcheck = (\<lambda>_. aret []),
     ae_events = (\<lambda>_ _. Inr []), ae_result_json = (\<lambda>_. JNull),
     ae_parse = (\<lambda>_. Some (JArr [jobj [(''severity'', JStr ''high''), (''claim'', JStr ''c'')]])), ae_fences = (\<lambda>_. []),
     ae_redact = id, ae_slug = (\<lambda>_. ''s''), ae_host_runtime = None, ae_telemetry = (\<lambda>_. aret ()) \<rparr>"

definition demo_disk :: disk where
  "demo_disk = \<lparr> dk_states = (\<lambda>_. None), dk_texts = (\<lambda>_. None), dk_events = [] \<rparr>"

definition demo_reply :: agent_result where
  "demo_reply = (blank_result (audit_job ''pi'' ''b'' ''codex'' JNull) JobOk)\<lparr> ar_reply_text := ''r'' \<rparr>"

lemma demo_collects:
  "fst (collect_replies demo_audit ''/r'' ''r1'' (default_state ''t'') ''/r/x'' [demo_reply] ([], no_severities) demo_disk) =
     Inr ([''pi''], \<lparr> sv_high = 1, sv_critical = 0, sv_minor = 0 \<rparr>)"
  "well_replied [demo_reply] = [demo_reply]"
  "length (parse_findings_or_empty (ae_parse demo_audit) (ae_fences demo_audit) (ar_reply_text demo_reply)) = 1"
  "parse_structured_findings (ae_parse demo_audit) (ae_fences demo_audit) (ar_reply_text demo_reply) \<noteq> None"
  by code_simp+

theorem audit_round_counts_witness:
  "1 = of_severity ''high'' (parse_findings_or_empty (ae_parse demo_audit) (ae_fences demo_audit) (ar_reply_text demo_reply))"
proof -
  let ?fs = "parse_findings_or_empty (ae_parse demo_audit) (ae_fences demo_audit) (ar_reply_text demo_reply)"
  obtain w' where "collect_replies demo_audit ''/r'' ''r1'' (default_state ''t'') ''/r/x'' [demo_reply] ([], no_severities) demo_disk
      = (Inr ([''pi''], \<lparr> sv_high = 1, sv_critical = 0, sv_minor = 0 \<rparr>), w')"
    using demo_collects(1) by (metis prod.collapse)
  from audit_round_counts [OF this, of ?fs] demo_collects(2,3,4) show ?thesis by auto
qed

text \<open>When no auditor replied well the round that is written has no auditor and no blocker.\<close>

lemma failed_audit_counts_nothing:
  assumes "collect_replies A repo run_id st dir rs ([], no_severities) w = (Inr (used, c), w')"
    and "\<forall>r\<in>set rs. ar_status r \<noteq> JobOk"
  shows "used = [] \<and> c = no_severities"
proof -
  have "well_replied rs = []" using assms(2) by (simp add: well_replied_def filter_empty_conv)
  with collected [OF assms(1)] show ?thesis by simp
qed

lemma failed_audit_still_writes_round:
  assumes "auto_dispatch A repo run_id audit_dir st host auditors brief targets w = (Inr (AuditCollected rs rel), w')"
    and "\<forall>r\<in>set rs. ar_status r \<noteq> JobOk"
  shows "\<exists>v out v'. append_audit_ledger_round A repo run_id st (path_join audit_dir ''replies'') [] (coverage_of targets)
           no_severities v = (Inr out, v')"
  using assms
  by (fastforce simp: auto_dispatch_def Let_def abind_Inr split: if_splits prod.splits dest: failed_audit_counts_nothing)

definition failed_round :: append_input where
  "failed_round = round_input (\<lambda>_. None) (\<lambda>_. []) ''.lto/r/audit/replies'' ''T1'' [] no_severities"

text \<open>Such a round makes a run with three open blockers read as converged.\<close>

lemma failed_audit_reads_converged:
  "map_sum id (\<lambda>rs. evaluate_ledger rs False) (parse_ledger sample_ledger) = Inr Converging"
  "map_sum id (map blockers) (parse_ledger sample_ledger) = Inr [3]"
  "map_sum id (\<lambda>p. (ao_label (snd p), ao_verdict (snd p))) (append_round sample_ledger failed_round) = Inr (''R2'', Converged)"
  by code_simp+

end
