(* ===== verification/Lto_Start.thy ===== *)
theory Lto_Start
  imports Lto_Audit Lto_Contract
begin

text \<open>
  \<open>lto start\<close> of \<open>src/src/cli.rs\<close> and the markers of \<open>src/src/host_env.rs\<close>: the checks, the id of the run, its first
  state and its files. \<open>lookup\<close> reads the environment, \<open>stamp\<close> formats the time and \<open>manifest_dir\<close> is the
  directory of the sources at build time. Warnings are not modelled.
\<close>

subsection \<open>The host\<close>

record host_env =
  he_runtime :: "string option"
  he_markers :: "(string \<times> string) list"

definition MARKERS :: "(string \<times> string list) list" where
  "MARKERS =
     [(''orca'', [''ORCA_TERMINAL_HANDLE'', ''ORCA_WORKSPACE_ID'', ''ORCA_WORKTREE_ID'', ''ORCA_TAB_ID'']),
      (''paseo'', [''PASEO_TERMINAL_ID'', ''PASEO_AGENT_ID'']), (''herdr'', [''HERDR_ENV'', ''HERDR_SOCKET_PATH''])]"

definition marker :: "(string \<Rightarrow> string option) \<Rightarrow> string \<Rightarrow> (string \<times> string) option" where
  "marker lookup key = map_option (\<lambda>v. (key, v)) (opt_filter (\<lambda>v. trim v \<noteq> []) (lookup key))"

definition add_markers :: "(string \<Rightarrow> string option) \<Rightarrow> host_env \<Rightarrow> string \<times> string list \<Rightarrow> host_env" where
  "add_markers lookup h g =
     (let found = List.map_filter (marker lookup) (snd g) in
      h\<lparr> he_markers := he_markers h @ found,
         he_runtime := (if found \<noteq> [] \<and> he_runtime h = None then Some (fst g) else he_runtime h) \<rparr>)"

definition from_lookup :: "(string \<Rightarrow> string option) \<Rightarrow> host_env" where
  "from_lookup lookup =
     (let h = foldl (add_markers lookup) \<lparr> he_runtime = None, he_markers = [] \<rparr> MARKERS in
      case marker lookup ''TMUX'' of
        None \<Rightarrow> h
      | Some m \<Rightarrow> \<lparr> he_runtime = Some (opt_get_or ''tmux'' (he_runtime h)), he_markers = he_markers h @ [m] \<rparr>)"

definition to_extra :: "host_env \<Rightarrow> json_map" where
  "to_extra h =
     foldl (\<lambda>m (k, v). bt_insert (''env_'' @ (to_ascii_lowercase k)) (JStr v) m)
       (case he_runtime h of Some r \<Rightarrow> bt_insert ''host_multiplexer'' (JStr r) [] | None \<Rightarrow> []) (he_markers h)"

subsection \<open>The id of a run\<close>

definition slug_char :: "char \<Rightarrow> char" where
  "slug_char c = (if is_ascii_alphanumeric c \<or> c \<in> {CHR ''_'', CHR ''.''} then c else CHR ''-'')"

text \<open>The bytes of a character outside of ASCII give dashes, and dashes are collapsed.\<close>

fun slug_loop :: "string \<Rightarrow> bool \<Rightarrow> string \<Rightarrow> string" where
  "slug_loop out last_dash [] = out"
| "slug_loop out last_dash (c # cs) =
     (let ch = slug_char c;
          out' = (if ch = CHR ''-'' then (if \<not> last_dash \<and> out \<noteq> [] then out @ [ch] else out) else out @ [ch])
      in if 40 \<le> length out' then out' else slug_loop out' (ch = CHR ''-'') cs)"

definition slugify :: "string \<Rightarrow> string" where
  "slugify v =
     (let out = trim_end_char (CHR ''-'') (trim_start_char (CHR ''-'') (slug_loop [] False (to_ascii_lowercase (trim v))))
      in if out = [] then ''task'' else out)"

definition default_run_id :: "string \<Rightarrow> (string \<Rightarrow> string) \<Rightarrow> string \<Rightarrow> string" where
  "default_run_id now_stamp sha goal = (now_stamp @ ''-'' @ (slugify goal) @ ''-'' @ (take 8 (sha goal)))"

subsection \<open>Starting\<close>

record start_options =
  so_run_id :: "string option"
  so_goal :: string
  so_why :: string
  so_done_when :: string
  so_host :: string
  so_contract :: delivery_contract
  so_force :: bool

definition first_state :: "string \<Rightarrow> string \<Rightarrow> string \<Rightarrow> git_status \<Rightarrow> host_env \<Rightarrow> start_options \<Rightarrow> lto_state" where
  "first_state now repo run_id g h opts =
     (default_state now)\<lparr> st_run_id := run_id, st_goal := so_goal opts, st_why := so_why opts,
       st_done_when := so_done_when opts, st_host_runtime := so_host opts,
       st_workspace := \<lparr> ws_repo_root = repo, ws_branch = gs_branch g, ws_head = gs_head g,
         ws_dirty_fingerprint = (if gs_dirty g then ''dirty'' else ''clean''), ws_extra = to_extra h \<rparr>,
       st_original_user_request := so_goal opts,
       st_artifacts := jobj [(''manifest'', JStr (''.lto/'' @ run_id @ ''/artifacts.json''))],
       st_delivery_contract := so_contract opts, st_started_at := now \<rparr>"

definition run_started :: "lto_state \<Rightarrow> event_record" where
  "run_started st =
     default_event\<lparr> er_event_type := ''run.started'', er_actor_kind := ''host'',
       er_actor_id := (if st_host_runtime st = [] then None else Some (st_host_runtime st)),
       er_phase := Some (st_current_phase st), er_summary := st_goal st,
       er_fields := jobj [(''why'', JStr (st_why st)), (''done_when'', JStr (st_done_when st))] \<rparr>"

definition start_meta :: "lto_state \<Rightarrow> string \<Rightarrow> string \<Rightarrow> artifact_meta" where
  "start_meta st kind summary =
     \<lparr> am_kind = kind, am_producer = ''lto-rs.start'', am_host_runtime = st_host_runtime st,
       am_phase = st_current_phase st, am_summary = summary, am_tags = [''state''] \<rparr>"

record 'w start_env =
  se_io :: "'w run_io"
  se_lookup :: "string \<Rightarrow> string option"
  se_stamp :: "'w \<Rightarrow> string"
  se_manifest_dir :: string
  se_telemetry :: "string \<Rightarrow> ('w, unit) act"

definition write_start_files :: "'w start_env \<Rightarrow> string \<Rightarrow> string \<Rightarrow> string \<Rightarrow> lto_state \<Rightarrow> ('w, unit) act" where
  "write_start_files S repo run_id dir st =
     (let E = se_io S; md = path_join dir ''run-state.md'';
          template = path_join (path_join (se_manifest_dir S) ''templates'') ''run-state.md'' in
      abind (acatch (aread (read_text E template)) (\<lambda>_. afail (''failed to read '' @ template))) (\<lambda>t.
      abind (io_put E md t) (\<lambda>_.
      abind (sync_md_file E md st) (\<lambda>_.
      abind (\<lambda>w. w_mkdir (io_git E) w (path_join repo ''.lto'')) (\<lambda>_.
      abind (io_replace E (path_join (path_join repo ''.lto'') ''current'') (run_id @ [CHR 0x0A])) (\<lambda>_.
      abind (tell E run_id (run_started st)) (\<lambda>_.
      abind (register_file E repo run_id (path_join dir ''state.json'') (start_meta st ''state_json'' ''machine state'')) (\<lambda>_.
      abind (register_file E repo run_id md (start_meta st ''run_state_md'' ''human-readable run state'')) (\<lambda>_.
        aignore (se_telemetry S run_id))))))))))"

definition start_run :: "'w start_env \<Rightarrow> string \<Rightarrow> start_options \<Rightarrow> ('w, string) act" where
  "start_run S repo opts =
     (let E = se_io S in
      abind (aread (\<lambda>w. Inr (opt_get_or (default_run_id (se_stamp S w) (io_sha E) (so_goal opts)) (so_run_id opts)))) (\<lambda>run_id.
      let dir = run_dir_of repo run_id in
      abind (aread (\<lambda>_. validate_run_id run_id)) (\<lambda>_.
      abind (aread (\<lambda>w. if io_exists E dir w \<and> \<not> so_force opts
                        then Inl (''run already exists: '' @ dir @ '' (use --force to overwrite)'') else Inr ())) (\<lambda>_.
      abind (\<lambda>w. w_mkdir (io_git E) w dir) (\<lambda>_.
      abind (ask_git (\<lambda>w. git_status (io_git E) w repo)) (\<lambda>g.
      abind (aread (\<lambda>w. Inr (first_state (io_now E w) repo run_id g (from_lookup (se_lookup S)) opts))) (\<lambda>st.
      abind (io_save E (path_join dir ''state.json'') st) (\<lambda>_.
      abind (write_start_files S repo run_id dir st) (\<lambda>_. aret dir)))))))))"

text \<open>What the command line gives; the flags are hints in the messages.\<close>

record start_flags =
  sf_run_id :: "string option"
  sf_goal :: "string option"
  sf_why :: "string option"
  sf_done_when :: "string option"
  sf_host :: "string option"
  sf_targets :: "string list"
  sf_constraints :: "string list"
  sf_instruments :: "string list"
  sf_entropy :: "string list"
  sf_force :: bool

definition start_flag_hint :: "string \<Rightarrow> string" where
  "start_flag_hint f =
     (if f = ''--goal'' then (''--goal '' @ [CHR 0x22] @ ''<'' @ [CHR 0xE4, CHR 0xB8, CHR 0x80, CHR 0xE5, CHR 0x8F, CHR 0xA5, CHR 0xE8, CHR 0xAF, CHR 0x9D, CHR 0xE7, CHR 0x9B, CHR 0xAE, CHR 0xE6, CHR 0xA0, CHR 0x87] @ ''>'' @ [CHR 0x22])
      else if f = ''--done-when'' then (''--done-when '' @ [CHR 0x22] @ ''<'' @ [CHR 0xE6, CHR 0x80, CHR 0x8E, CHR 0xE4, CHR 0xB9, CHR 0x88, CHR 0xE7, CHR 0xAE, CHR 0x97, CHR 0xE5, CHR 0x81, CHR 0x9A, CHR 0xE5, CHR 0xAE, CHR 0x8C] @ ''>'' @ [CHR 0x22])
      else if f = ''--why'' then (''--why '' @ [CHR 0x22] @ ''<'' @ [CHR 0xE4, CHR 0xB8, CHR 0xBA, CHR 0xE4, CHR 0xBB, CHR 0x80, CHR 0xE4, CHR 0xB9, CHR 0x88, CHR 0xE8, CHR 0xA6, CHR 0x81, CHR 0xE5, CHR 0x81, CHR 0x9A] @ ''>'' @ [CHR 0x22])
      else if f = ''--host'' then (''--host '' @ [CHR 0x22] @ ''<'' @ [CHR 0xE5, CHR 0xBD, CHR 0x93, CHR 0xE5, CHR 0x89, CHR 0x8D] @ '' host runtime>'' @ [CHR 0x22, CHR 0xEF, CHR 0xBC, CHR 0x88, CHR 0xE5, CHR 0xBD, CHR 0x93, CHR 0xE5, CHR 0x89, CHR 0x8D, CHR 0xE6, CHR 0x8C, CHR 0x89] @ '' unknown '' @ [CHR 0xE8, CHR 0xAE, CHR 0xB0, CHR 0xE5, CHR 0xBD, CHR 0x95, CHR 0xEF, CHR 0xBC, CHR 0x89])
      else if f = ''--target'' then (''--target '' @ [CHR 0x22] @ ''<'' @ [CHR 0xE5, CHR 0x8F, CHR 0xAF, CHR 0xE9, CHR 0xAA, CHR 0x8C, CHR 0xE8, CHR 0xAF, CHR 0x81, CHR 0xE7, CHR 0x9B, CHR 0xAE, CHR 0xE6, CHR 0xA0, CHR 0x87] @ ''>'' @ [CHR 0x22])
      else if f = ''--constraint'' then (''--constraint '' @ [CHR 0x22] @ ''<'' @ [CHR 0xE4, CHR 0xBA, CHR 0xA4, CHR 0xE4, CHR 0xBB, CHR 0x98, CHR 0xE7, CHR 0xBA, CHR 0xA6, CHR 0xE6, CHR 0x9D, CHR 0x9F] @ ''>'' @ [CHR 0x22])
      else if f = ''--instrument'' then (''--instrument '' @ [CHR 0x22] @ ''<'' @ [CHR 0xE6, CHR 0xB5, CHR 0x8B, CHR 0xE9, CHR 0x87, CHR 0x8F, CHR 0xE5, CHR 0x91, CHR 0xBD, CHR 0xE4, CHR 0xBB, CHR 0xA4] @ ''>'' @ [CHR 0x22])
      else if f = ''--entropy-check'' then (''--entropy-check '' @ [CHR 0x22] @ ''<'' @ [CHR 0xE5, CHR 0x81, CHR 0x9C, CHR 0xE6, CHR 0xBB, CHR 0x9E, CHR 0xE6, CHR 0x97, CHR 0xB6, CHR 0xE7, CHR 0x9A, CHR 0x84, CHR 0xE6, CHR 0x8D, CHR 0xA2, CHR 0xE5, CHR 0x81, CHR 0x87, CHR 0xE8, CHR 0xAE, CHR 0xBE, CHR 0xE6, CHR 0xA3, CHR 0x80, CHR 0xE6, CHR 0x9F, CHR 0xA5] @ ''>'' @ [CHR 0x22])
      else f)"

definition format_start_flag_hints :: "string list \<Rightarrow> string" where
  "format_start_flag_hints flags = join_str '' '' (map start_flag_hint flags)"

definition host_of :: "(string \<Rightarrow> string option) \<Rightarrow> string option \<Rightarrow> string" where
  "host_of lookup host =
     opt_get_or ''unknown''
       (opt_or (opt_filter (\<lambda>v. v \<noteq> []) (map_option trim host)) (he_runtime (from_lookup lookup)))"

definition cmd_start :: "'w start_env \<Rightarrow> string \<Rightarrow> start_flags \<Rightarrow> ('w, string) act" where
  "cmd_start S repo f =
     (let goal = opt_get_or [] (sf_goal f); why = opt_get_or [] (sf_why f); done_when = opt_get_or [] (sf_done_when f);
          host = host_of (se_lookup S) (sf_host f);
          contract = new_contract (sf_targets f) (sf_constraints f) (sf_instruments f) (sf_entropy f);
          missing = ra_missing (assess_run_readiness goal done_when why host);
          lacking = co_missing (completeness_missing contract) in
      if missing \<noteq> [] then afail ([CHR 0xE9, CHR 0x9C, CHR 0x80, CHR 0xE8, CHR 0xA1, CHR 0xA5, CHR 0xE5, CHR 0x85, CHR 0x85] @ '': '' @ (format_start_flag_hints missing) @ [CHR 0x0A, CHR 0xEF, CHR 0xBC, CHR 0x88, CHR 0xE4, CHR 0xBF, CHR 0xA1, CHR 0xE6, CHR 0x81, CHR 0xAF, CHR 0xE4, CHR 0xB8, CHR 0x8D, CHR 0xE8, CHR 0xB6, CHR 0xB3, CHR 0xE7, CHR 0xA6, CHR 0x81, CHR 0xE7, CHR 0x8C, CHR 0x9C, CHR 0xEF, CHR 0xBC, CHR 0x9A, CHR 0xE6, CHR 0xB2, CHR 0xA1, CHR 0xE6, CHR 0x9C, CHR 0x89, CHR 0xE5, CHR 0xAE, CHR 0x8C, CHR 0xE6, CHR 0x88, CHR 0x90, CHR 0xE6, CHR 0xA0, CHR 0x87, CHR 0xE5, CHR 0x87, CHR 0x86, CHR 0xE7, CHR 0x9A, CHR 0x84] @ '' run '' @ [CHR 0xE6, CHR 0x97, CHR 0xA0, CHR 0xE6, CHR 0xB3, CHR 0x95, CHR 0xE5, CHR 0x88, CHR 0xA4, CHR 0xE6, CHR 0x94, CHR 0xB6, CHR 0xE6, CHR 0x95, CHR 0x9B, CHR 0xEF, CHR 0xBC, CHR 0x8C] @ ''recap/closeout '' @ [CHR 0xE9, CHR 0x83, CHR 0xBD, CHR 0xE4, CHR 0xBC, CHR 0x9A, CHR 0xE9, CHR 0x80, CHR 0x80, CHR 0xE5, CHR 0x8C, CHR 0x96, CHR 0xEF, CHR 0xBC, CHR 0x89])
      else if lacking \<noteq> [] then afail ([CHR 0xE9, CHR 0x9C, CHR 0x80, CHR 0xE8, CHR 0xA1, CHR 0xA5, CHR 0xE5, CHR 0x85, CHR 0x85] @ '': '' @ (format_start_flag_hints lacking) @ [CHR 0x0A, CHR 0xEF, CHR 0xBC, CHR 0x88, CHR 0xE4, CHR 0xBF, CHR 0xA1, CHR 0xE6, CHR 0x81, CHR 0xAF, CHR 0xE4, CHR 0xB8, CHR 0x8D, CHR 0xE8, CHR 0xB6, CHR 0xB3, CHR 0xE7, CHR 0xA6, CHR 0x81, CHR 0xE7, CHR 0x8C, CHR 0x9C, CHR 0xEF, CHR 0xBC, CHR 0x9A, CHR 0xE7, CHR 0x9B, CHR 0xAE, CHR 0xE6, CHR 0xA0, CHR 0x87, CHR 0xE4, CHR 0xB8, CHR 0x8E, CHR 0xE6, CHR 0xB5, CHR 0x8B, CHR 0xE9, CHR 0x87, CHR 0x8F, CHR 0xE6, CHR 0x89, CHR 0x8B, CHR 0xE6, CHR 0xAE, CHR 0xB5, CHR 0xE5, CHR 0xBF, CHR 0x85, CHR 0xE9, CHR 0xA1, CHR 0xBB, CHR 0xE6, CHR 0x88, CHR 0x90, CHR 0xE5, CHR 0xAF, CHR 0xB9, CHR 0xEF, CHR 0xBC, CHR 0x8C, CHR 0xE7, CHR 0x9B, CHR 0xAE, CHR 0xE6, CHR 0xA0, CHR 0x87, CHR 0xE5, CHR 0xBF, CHR 0x85, CHR 0xE9, CHR 0xA1, CHR 0xBB, CHR 0xE6, CHR 0x9C, CHR 0x89, CHR 0xE5, CHR 0x8F, CHR 0xAF, CHR 0xE9, CHR 0xAA, CHR 0x8C, CHR 0xE8, CHR 0xAF, CHR 0x81, CHR 0xE7, CHR 0x9A, CHR 0x84, CHR 0xE6, CHR 0xB5, CHR 0x8B, CHR 0xE9, CHR 0x87, CHR 0x8F, CHR 0xE6, CHR 0x89, CHR 0x8B, CHR 0xE6, CHR 0xAE, CHR 0xB5, CHR 0xEF, CHR 0xBC, CHR 0x89])
      else start_run S repo \<lparr> so_run_id = sf_run_id f, so_goal = goal, so_why = why, so_done_when = done_when,
             so_host = host, so_contract = contract, so_force = sf_force f \<rparr>)"

subsection \<open>When the id made from a goal is accepted\<close>

definition slug_set :: "char set" where
  "slug_set = {c. is_ascii_alphanumeric c \<or> c \<in> {CHR ''_'', CHR ''.'', CHR ''-''}}"

lemma slug_char_in: "slug_char c \<in> slug_set"
  by (auto simp: slug_char_def slug_set_def)

lemma slug_loop_chars: "set out \<subseteq> slug_set \<Longrightarrow> set (slug_loop out d cs) \<subseteq> slug_set"
proof (induction cs arbitrary: out d)
  case (Cons c cs)
  define out' where
    "out' = (if slug_char c = CHR ''-'' then (if \<not> d \<and> out \<noteq> [] then out @ [slug_char c] else out) else out @ [slug_char c])"
  have "set out' \<subseteq> slug_set" using Cons.prems slug_char_in [of c] by (auto simp: out'_def)
  with Cons.IH show ?case unfolding slug_loop.simps Let_def by (fold out'_def) auto
qed simp

lemma set_trim_end_char: "set (trim_end_char c s) \<subseteq> set s"
  by (auto simp: trim_end_char_def dest: set_dropWhileD)

lemma set_trim_start_char: "set (trim_start_char c s) \<subseteq> set s"
  by (auto simp: trim_start_char_def dest: set_dropWhileD)

lemma slugify_chars: "set (slugify v) \<subseteq> slug_set"
proof -
  have "set ''task'' \<subseteq> slug_set" by (auto simp: slug_set_def is_ascii_alphanumeric_def is_ascii_alphabetic_def is_digit_def)
  then show ?thesis
    using slug_loop_chars [of "[]" False "to_ascii_lowercase (trim v)"] set_trim_end_char set_trim_start_char
    unfolding slugify_def Let_def by (smt (verit) empty_set empty_subsetI subset_trans)
qed

lemma dots_apart: "contains_str ''..'' (a @ CHR ''-'' # b) \<longleftrightarrow> contains_str ''..'' a \<or> contains_str ''..'' b"
proof (induction a)
  case (Cons c a)
  have "prefix ''..'' (c # a @ CHR ''-'' # b) \<longleftrightarrow> prefix ''..'' (c # a)" by (cases a) auto
  with Cons show ?case by simp
qed simp

lemma no_dots: "CHR ''.'' \<notin> set a \<Longrightarrow> \<not> contains_str ''..'' a"
  unfolding contains_str_sublist using set_mono_sublist by fastforce

text \<open>
  the id that is made from the goal of a run is accepted exactly when no two dots follow each other in what is
  left of the goal: for a goal such as "wait..." every start without an explicit id is refused.
\<close>

theorem default_run_id_valid_iff:
  assumes "now_stamp \<noteq> []" and "set now_stamp \<subseteq> slug_set - {CHR ''.''}" and "set (sha goal) \<subseteq> slug_set - {CHR ''.''}"
  shows "is_ok (validate_run_id (default_run_id now_stamp sha goal)) \<longleftrightarrow> \<not> contains_str ''..'' (slugify goal)"
proof -
  let ?id = "default_run_id now_stamp sha goal"
  have digest: "set (take 8 (sha goal)) \<subseteq> slug_set - {CHR ''.''}" using assms(3) set_take_subset by fast
  have "set ?id \<subseteq> slug_set"
    using assms(2) digest slugify_chars [of goal] by (auto simp: default_run_id_def slug_set_def)
  moreover have "CHR ''/'' \<notin> slug_set" "CHR 0x5C \<notin> slug_set"
    by (simp_all add: slug_set_def is_ascii_alphanumeric_def is_ascii_alphabetic_def is_digit_def)
  moreover have "\<not> prefix ''.'' ?id" using assms(1,2) by (cases now_stamp) (auto simp: default_run_id_def)
  moreover have "contains_str ''..'' ?id \<longleftrightarrow> contains_str ''..'' (slugify goal)"
    using no_dots [of now_stamp] no_dots [of "take 8 (sha goal)"] assms(2) digest
    by (simp add: default_run_id_def dots_apart) blast
  ultimately show ?thesis using assms(1) by (auto simp: validate_run_id_def is_ok_def default_run_id_def)
qed

theorem default_run_id_valid_iff_witness:
  "\<not> is_ok (validate_run_id (default_run_id ''20260102-030405'' (\<lambda>_. ''0123456789'') ''wait...''))"
proof -
  have "set ''20260102-030405'' \<subseteq> slug_set - {CHR ''.''}" "set ''0123456789'' \<subseteq> slug_set - {CHR ''.''}"
    by (auto simp: slug_set_def is_ascii_alphanumeric_def is_ascii_alphabetic_def is_digit_def)
  moreover have "contains_str ''..'' (slugify ''wait...'')" by code_simp
  ultimately show ?thesis using default_run_id_valid_iff [of "''20260102-030405''" "\<lambda>_. ''0123456789''" "''wait...''"] by simp
qed

subsection \<open>What a start guarantees\<close>

lemma valid_run_id: "is_ok (validate_run_id r) \<Longrightarrow> validate_run_id r = Inr r"
  by (auto simp: validate_run_id_def split: if_splits)

abbreviation start_id :: "'w start_env \<Rightarrow> start_options \<Rightarrow> 'w \<Rightarrow> string" where
  "start_id S opts w \<equiv> opt_get_or (default_run_id (se_stamp S w) (io_sha (se_io S)) (so_goal opts)) (so_run_id opts)"

lemma start_run_Inr:
  assumes "start_run S repo opts w = (Inr dir, w')"
  shows "dir = run_dir_of repo (start_id S opts w)" "is_ok (validate_run_id (start_id S opts w))"
    "so_force opts \<or> \<not> io_exists (se_io S) dir w"
    "\<exists>g u v v'. io_save (se_io S) (path_join dir ''state.json'')
         (first_state (io_now (se_io S) u) repo (start_id S opts w) g (from_lookup (se_lookup S)) opts) v = (Inr (), v')"
proof -
  obtain i where i: "validate_run_id (start_id S opts w) = Inr i"
    using assms unfolding start_run_def Let_def by (auto simp: abind_Inr dest!: sym [where s = "Inr _"])
  then show "is_ok (validate_run_id (start_id S opts w))" by simp
  show "dir = run_dir_of repo (start_id S opts w)" "so_force opts \<or> \<not> io_exists (se_io S) dir w"
    using assms unfolding start_run_def Let_def by (auto simp: abind_Inr split: if_splits)
  show "\<exists>g u v v'. io_save (se_io S) (path_join dir ''state.json'')
         (first_state (io_now (se_io S) u) repo (start_id S opts w) g (from_lookup (se_lookup S)) opts) v = (Inr (), v')"
    using assms unfolding start_run_def Let_def by (auto simp: abind_Inr split: if_splits)
qed

text \<open>
  C21: a start that succeeds began a run with a valid id, which did not exist before unless it is forced, and the
  state it saves has a goal, a criterion of completion and a complete contract, so that the readiness and contract
  gates of the closeout will not refuse it.
\<close>

theorem started_run_is_new_and_ready:
  assumes "cmd_start S repo f w = (Inr dir, w')"
  shows "\<exists>run_id st v v'. dir = run_dir_of repo run_id \<and> validate_run_id run_id = Inr run_id
    \<and> (sf_force f \<or> \<not> io_exists (se_io S) dir w)
    \<and> io_save (se_io S) (path_join dir ''state.json'') st v = (Inr (), v')
    \<and> st_run_id st = run_id \<and> st_current_phase st = ''intake'' \<and> json_array (st_tasks st) = []
    \<and> run_is_ready (assess_run_readiness (st_goal st) (st_done_when st) (st_why st) (st_host_runtime st))
    \<and> contract_is_complete (st_delivery_contract st)"
proof -
  let ?host = "host_of (se_lookup S) (sf_host f)" and ?goal = "opt_get_or [] (sf_goal f)"
  let ?why = "opt_get_or [] (sf_why f)" and ?done_when = "opt_get_or [] (sf_done_when f)"
  let ?c = "new_contract (sf_targets f) (sf_constraints f) (sf_instruments f) (sf_entropy f)"
  let ?opts = "\<lparr> so_run_id = sf_run_id f, so_goal = ?goal, so_why = ?why, so_done_when = ?done_when,
      so_host = ?host, so_contract = ?c, so_force = sf_force f \<rparr>"
  have ready: "run_is_ready (assess_run_readiness ?goal ?done_when ?why ?host)" and complete: "contract_is_complete ?c"
    and run: "start_run S repo ?opts w = (Inr dir, w')"
    using assms by (auto simp: cmd_start_def Let_def run_is_ready_def contract_is_complete_def split: if_splits)
  note r = start_run_Inr [OF run]
  obtain g u v v' where saved: "io_save (se_io S) (path_join dir ''state.json'')
      (first_state (io_now (se_io S) u) repo (start_id S ?opts w) g (from_lookup (se_lookup S)) ?opts) v = (Inr (), v')"
    using r(4) by blast
  let ?st = "first_state (io_now (se_io S) u) repo (start_id S ?opts w) g (from_lookup (se_lookup S)) ?opts"
  have id: "validate_run_id (start_id S ?opts w) = Inr (start_id S ?opts w)"
    using r(2) by (rule valid_run_id)
  have st: "st_run_id ?st = start_id S ?opts w" "st_current_phase ?st = ''intake''" "json_array (st_tasks ?st) = []"
      "st_goal ?st = ?goal" "st_done_when ?st = ?done_when" "st_why ?st = ?why" "st_host_runtime ?st = ?host"
      "st_delivery_contract ?st = ?c"
    by (simp_all add: first_state_def default_state_def json_array_def as_array_def opt_get_or_def)
  have force: "sf_force f \<or> \<not> io_exists (se_io S) dir w" using r(3) by simp
  show ?thesis
    by (intro exI [of _ "start_id S ?opts w"] exI [of _ ?st] exI [of _ v] exI [of _ v'] conjI)
      (use r(1) id force saved st ready complete in \<open>simp_all only:\<close>)
qed

definition demo_start :: "disk start_env" where
  "demo_start = \<lparr> se_io = (disk_io (\<lambda>_. True))\<lparr> io_exists := (\<lambda>_ _. False) \<rparr>, se_lookup = (\<lambda>_. None), se_stamp = (\<lambda>_. ''20260102-030405''),
     se_manifest_dir = ''/m'', se_telemetry = (\<lambda>_. aret ()) \<rparr>"

definition demo_flags :: start_flags where
  "demo_flags = \<lparr> sf_run_id = Some ''r1'', sf_goal = Some ''g'', sf_why = None, sf_done_when = Some ''d'', sf_host = None,
     sf_targets = [], sf_constraints = [], sf_instruments = [], sf_entropy = [], sf_force = False \<rparr>"

definition empty_repo :: disk where
  "empty_repo = \<lparr> dk_states = (\<lambda>_. None), dk_texts = (\<lambda>p. if p = ''/m/templates/run-state.md'' then Some (''- goal:'' @ [CHR 0x0A]) else None),
     dk_events = [] \<rparr>"

definition demo_options :: start_options where
  "demo_options = \<lparr> so_run_id = Some ''r1'', so_goal = ''g'', so_why = [], so_done_when = ''d'', so_host = ''unknown'',
     so_contract = new_contract [] [] [] [], so_force = False \<rparr>"

definition demo_first :: lto_state where
  "demo_first = first_state ''t1'' ''/r'' ''r1'' \<lparr> gs_head = [], gs_branch = ''unknown'', gs_dirty = False \<rparr> (from_lookup (\<lambda>_. None)) demo_options"

lemma demo_flags_run: "cmd_start demo_start ''/r'' demo_flags = start_run demo_start ''/r'' demo_options"
proof -
  have "ra_missing (assess_run_readiness ''g'' ''d'' [] ''unknown'') = []"
    "co_missing (completeness_missing (new_contract [] [] [] [])) = []"
    "host_of (se_lookup demo_start) None = ''unknown''" by code_simp+
  then show ?thesis by (simp add: cmd_start_def demo_flags_def demo_options_def opt_get_or_def)
qed

lemma demo_looks:
  "validate_run_id ''r1'' = Inr ''r1''" "run_dir_of ''/r'' ''r1'' = ''/r/.lto/r1''"
  "io_exists (se_io demo_start) ''/r/.lto/r1'' empty_repo = False"
  "fst (git_status (io_git (se_io demo_start)) empty_repo ''/r'') = \<lparr> gs_head = [], gs_branch = ''unknown'', gs_dirty = False \<rparr>"
  by code_simp+

lemma demo_disk_moves:
  "w_mkdir (io_git (se_io demo_start)) d p = (Inr (), d)" "snd (git_status (io_git (se_io demo_start)) d p) = d"
  "io_save (se_io demo_start) p st d = (Inr (), d\<lparr> dk_states := (dk_states d)(p := Some st) \<rparr>)"
  by (simp_all add: demo_start_def disk_io_def disk_world_def git_status_def git_head_def git_branch_def git_dirty_def
      git_stdout_def Let_def)

lemma ok_abind:
  "is_ok (fst (abind m k w)) \<longleftrightarrow> is_ok (fst (m w)) \<and> is_ok (fst (k (projr (fst (m w))) (snd (m w))))"
  by (auto simp: abind_def split: prod.splits sum.splits)

lemma demo_registers:
  "is_ok (fst (register_file (se_io demo_start) ''/r'' ''r1'' (path_join ''/r/.lto/r1'' ''state.json'')
     (start_meta demo_first ''state_json'' ''machine state'') d))"
  "is_ok (fst (register_file (se_io demo_start) ''/r'' ''r1'' (path_join ''/r/.lto/r1'' ''run-state.md'')
     (start_meta demo_first ''run_state_md'' ''human-readable run state'') d))"
  by code_simp+

lemma demo_texts:
  "is_ok (fst (io_put (se_io demo_start) p t d))" "is_ok (fst (io_replace (se_io demo_start) p t d))"
  "\<not> io_exists (se_io demo_start) p d" "is_ok (fst (tell E r ev d))" "is_ok (fst (aignore m d))"
  by (simp_all add: demo_start_def disk_io_def disk_put_def disk_write_def tell_def aignore_def)

lemma demo_template:
  "is_ok (read_text (se_io demo_start) (path_join (path_join (se_manifest_dir demo_start) ''templates'') ''run-state.md'')
     (empty_repo\<lparr> dk_states := m \<rparr>))"
  by code_simp

lemma demo_writes:
  "is_ok (fst (write_start_files demo_start ''/r'' ''r1'' ''/r/.lto/r1'' demo_first (empty_repo\<lparr> dk_states := m \<rparr>)))"
proof -
  let ?d = "empty_repo\<lparr> dk_states := m \<rparr>"
  let ?p = "path_join (path_join (se_manifest_dir demo_start) ''templates'') ''run-state.md''"
  obtain t where "read_text (se_io demo_start) ?p ?d = Inr t"
    using demo_template [of m] by (cases "read_text (se_io demo_start) ?p ?d") auto
  then have "acatch (aread (read_text (se_io demo_start) ?p)) h ?d = (Inr t, ?d)" for h
    by (simp add: acatch_def aread_def)
  then show ?thesis
    unfolding write_start_files_def Let_def
    by (simp add: ok_abind demo_disk_moves demo_texts demo_registers sync_md_file_def aret_def)
qed

lemma demo_starts: "fst (cmd_start demo_start ''/r'' demo_flags empty_repo) = Inr ''/r/.lto/r1''"
proof -
  let ?E = "se_io demo_start" and ?d = "empty_repo\<lparr> dk_states := (dk_states empty_repo)(''/r/.lto/r1/state.json'' := Some demo_first) \<rparr>"
  obtain d where "write_start_files demo_start ''/r'' ''r1'' ''/r/.lto/r1'' demo_first ?d = (Inr (), d)"
    using demo_writes [of "(dk_states empty_repo)(''/r/.lto/r1/state.json'' := Some demo_first)"]
    by (cases "write_start_files demo_start ''/r'' ''r1'' ''/r/.lto/r1'' demo_first ?d"; cases "fst (write_start_files demo_start ''/r'' ''r1'' ''/r/.lto/r1'' demo_first ?d)") auto
  moreover have "io_now ?E d = ''t1''" for d by (simp add: demo_start_def disk_io_def)
  moreover have "start_id demo_start demo_options empty_repo = ''r1''" by (simp add: demo_options_def opt_get_or_def)
  moreover have "git_status (io_git ?E) empty_repo ''/r'' = (\<lparr> gs_head = [], gs_branch = ''unknown'', gs_dirty = False \<rparr>, empty_repo)"
    using demo_looks(4) demo_disk_moves(2) by (intro prod_eqI) simp_all
  moreover have "path_join ''/r/.lto/r1'' ''state.json'' = ''/r/.lto/r1/state.json''" by code_simp
  moreover have "se_lookup demo_start = (\<lambda>_. None)" by (simp add: demo_start_def)
  ultimately show ?thesis
    by (simp add: demo_flags_run start_run_def Let_def abind_def aread_def ask_git_def aret_def demo_looks demo_disk_moves
        demo_first_def [symmetric])
qed

theorem started_run_is_new_and_ready_witness:
  "\<exists>st v v'. io_save (se_io demo_start) ''/r/.lto/r1/state.json'' st v = (Inr (), v')
     \<and> run_is_ready (assess_run_readiness (st_goal st) (st_done_when st) (st_why st) (st_host_runtime st))"
proof -
  obtain w' where "cmd_start demo_start ''/r'' demo_flags empty_repo = (Inr ''/r/.lto/r1'', w')"
    using demo_starts by (metis prod.collapse)
  moreover have "path_join ''/r/.lto/r1'' ''state.json'' = ''/r/.lto/r1/state.json''" by code_simp
  ultimately show ?thesis
    using started_run_is_new_and_ready [of demo_start "''/r''" demo_flags empty_repo "''/r/.lto/r1''" w'] by auto
qed

text \<open>
  The template is read from the sources after the state has been saved; where they are not, the run is left
  behind, and the next start finds it.
\<close>

lemma start_without_template_fails:
  assumes "\<And>v. \<not> is_ok (read_text (se_io S) (path_join (path_join (se_manifest_dir S) ''templates'') ''run-state.md'') v)"
  shows "\<not> is_ok (fst (start_run S repo opts w))"
    and "fst (write_start_files S repo run_id dir st w) = Inl (''failed to read '' @ (path_join (path_join (se_manifest_dir S) ''templates'') ''run-state.md''))"
    and "snd (write_start_files S repo run_id dir st w) = w"
proof -
  let ?t = "path_join (path_join (se_manifest_dir S) ''templates'') ''run-state.md''"
  have *: "write_start_files S repo run_id dir st w = (Inl (''failed to read '' @ (?t)), w)" for run_id dir st w
  proof -
    obtain e where "read_text (se_io S) ?t w = Inl e" using assms [of w] by (cases "read_text (se_io S) ?t w") (auto simp: is_ok_def)
    then show ?thesis by (simp add: write_start_files_def Let_def abind_def acatch_def aread_def afail_def)
  qed
  then show "fst (write_start_files S repo run_id dir st w) = Inl (''failed to read '' @ (?t))"
    "snd (write_start_files S repo run_id dir st w) = w" by simp_all
  show "\<not> is_ok (fst (start_run S repo opts w))"
  proof
    assume "is_ok (fst (start_run S repo opts w))"
    then obtain d w' where "start_run S repo opts w = (Inr d, w')"
      by (cases "start_run S repo opts w") (auto simp: is_ok_def split: sum.splits)
    then show False unfolding start_run_def Let_def by (auto simp: abind_Inr *)
  qed
qed

end
