(* ===== verification/Lto_Judge.thy ===== *)
theory Lto_Judge
  imports Lto_Audit Lto_Redact Lto_Dispatch_Goal Lto_Agent_Turn
begin

text \<open>
  \<open>src/src/llm_judge.rs\<close> and \<open>lto judge\<close> of \<open>src/src/commands/ops.rs\<close>: the verdict on the tasks of a run, and the
  judge of another family that compares two replies on frozen evidence. Regular expressions, SHA-256 and serde's
  printing are arguments.
\<close>

subsection \<open>Frozen evidence\<close>

definition MAX_JUDGE_INPUT_BYTES :: nat where
  "MAX_JUDGE_INPUT_BYTES = 256 * 1024"

definition JUDGE_POOL :: "string list" where
  "JUDGE_POOL = [''codex'', ''pi'', ''agy'', ''claude'']"

record frozen_evidence =
  fe_evidence_hash :: string
  fe_frozen_inputs :: "(string, string) btree"
  fe_redaction :: string

text \<open>Line ends are those of Unix before anything is redacted.\<close>

definition unix_lines :: "string \<Rightarrow> string" where
  "unix_lines t = replace_char CHR 0x0D CHR 0x0A (replace_str [CHR 0x0D, CHR 0x0A] [CHR 0x0A] t)"

definition normalize_and_redact :: "redactor \<Rightarrow> string \<Rightarrow> string" where
  "normalize_and_redact R t = trim (redact_secrets_and_paths R (unix_lines t))"

definition canonical_inputs :: "redactor \<Rightarrow> string \<Rightarrow> string \<Rightarrow> string \<Rightarrow> (string, string) btree" where
  "canonical_inputs R brief baseline_reply candidate_reply =
     bt_of_list [(''brief'', normalize_and_redact R brief), (''baseline_reply'', normalize_and_redact R baseline_reply),
       (''candidate_reply'', normalize_and_redact R candidate_reply)]"

text \<open>Strings and numbers are printed by serde (\<open>quote\<close>), the rest with Python's spaces and sorted keys.\<close>

fun python_style_json :: "(json \<Rightarrow> string) \<Rightarrow> json \<Rightarrow> string" where
  "python_style_json quote JNull = ''null''"
| "python_style_json quote (JBool b) = (if b then ''true'' else ''false'')"
| "python_style_json quote (JStr s) = quote (JStr s)"
| "python_style_json quote (JArr xs) = (''['' @ (join_str '', '' (map (python_style_json quote) xs)) @ '']'')"
| "python_style_json quote (JObj m) =
     ''{'' @ join_str '', '' (map snd (sort_key fst
              (map (\<lambda>(k, v). (k, ((quote (JStr k)) @ '': '' @ (python_style_json quote v)))) m))) @ ''}''"
| "python_style_json quote (JInt n) = quote (JInt n)"
| "python_style_json quote (JFloat f) = quote (JFloat f)"

definition sha256_prefixed :: "(string \<Rightarrow> string) \<Rightarrow> string \<Rightarrow> string" where
  "sha256_prefixed sha canonical = (''sha256:'' @ (sha canonical))"

definition inputs_json :: "(string, string) btree \<Rightarrow> json" where
  "inputs_json inputs = JObj (map (\<lambda>(k, v). (k, JStr v)) inputs)"

definition frozen_json :: "frozen_evidence \<Rightarrow> json" where
  "frozen_json fz =
     jobj [(''evidence_hash'', JStr (fe_evidence_hash fz)), (''frozen_inputs'', inputs_json (fe_frozen_inputs fz)),
       (''redaction'', JStr (fe_redaction fz))]"

definition freeze_bundle :: "(json \<Rightarrow> string) \<Rightarrow> (string \<Rightarrow> string) \<Rightarrow> redactor \<Rightarrow> string \<Rightarrow> string \<Rightarrow> string \<Rightarrow> frozen_evidence" where
  "freeze_bundle quote sha R brief baseline_reply candidate_reply =
     (let inputs = canonical_inputs R brief baseline_reply candidate_reply in
      \<lparr> fe_evidence_hash = sha256_prefixed sha (python_style_json quote (inputs_json inputs)),
        fe_frozen_inputs = inputs, fe_redaction = ''applied'' \<rparr>)"

definition freeze_evidence ::
    "'w run_io \<Rightarrow> redactor \<Rightarrow> string \<Rightarrow> string \<Rightarrow> string \<Rightarrow> string \<Rightarrow> ('w, frozen_evidence) act" where
  "freeze_evidence E R case_dir brief baseline_reply candidate_reply =
     (let fz = freeze_bundle (io_show E) (io_sha E) R brief baseline_reply candidate_reply in
      abind (\<lambda>w. w_mkdir (io_git E) w case_dir) (\<lambda>_.
      abind (io_put E (path_join case_dir ''frozen-evidence.json'') (io_pretty E (frozen_json fz) @ [CHR 0x0A])) (\<lambda>_. aret fz)))"

definition frozen_input :: "frozen_evidence \<Rightarrow> string \<Rightarrow> string" where
  "frozen_input fz k = opt_get_or [] (bt_get (fe_frozen_inputs fz) k)"

definition build_judge_prompt :: "frozen_evidence \<Rightarrow> string" where
  "build_judge_prompt fz = join_str [CHR 0x0A]
     [(''# LTO eval-run '' @ [CHR 0xE4, CHR 0xB8, CHR 0xBB, CHR 0xE8, CHR 0xA7, CHR 0x82, CHR 0xE5, CHR 0x88, CHR 0xA4, CHR 0xE8, CHR 0xAF, CHR 0xBB, CHR 0xE7, CHR 0xAE, CHR 0x80, CHR 0xE6, CHR 0x8A, CHR 0xA5, CHR 0xEF, CHR 0xBC, CHR 0x88, CHR 0xE5, CHR 0xBC, CHR 0x82, CHR 0xE6, CHR 0x9E, CHR 0x84] @ '' judge'' @ [CHR 0xEF, CHR 0xBC, CHR 0x89]),
      [],
      (''- evidence_hash: '' @ (fe_evidence_hash fz)),
      (''- '' @ [CHR 0xE8, CHR 0xAF, CHR 0x81, CHR 0xE6, CHR 0x8D, CHR 0xAE, CHR 0xE5, CHR 0xB7, CHR 0xB2] @ '' redact'' @ [CHR 0xEF, CHR 0xBC, CHR 0x88, CHR 0xE7, CHR 0xA7, CHR 0x81, CHR 0xE6, CHR 0x9C, CHR 0x89, CHR 0xE8, CHR 0xB7, CHR 0xAF, CHR 0xE5, CHR 0xBE, CHR 0x84] @ ''/secret '' @ [CHR 0xE5, CHR 0xB7, CHR 0xB2, CHR 0xE8, CHR 0x84, CHR 0xB1, CHR 0xE6, CHR 0x95, CHR 0x8F, CHR 0xEF, CHR 0xBC, CHR 0x89, CHR 0xE3, CHR 0x80, CHR 0x82, CHR 0xE5, CHR 0x8F, CHR 0xAA, CHR 0xE4, CHR 0xBE, CHR 0x9D, CHR 0xE6, CHR 0x8D, CHR 0xAE, CHR 0xE4, CHR 0xB8, CHR 0x8B, CHR 0xE9, CHR 0x9D, CHR 0xA2, CHR 0xE5, CHR 0x86, CHR 0x85, CHR 0xE5, CHR 0xAE, CHR 0xB9, CHR 0xE5, CHR 0x88, CHR 0xA4, CHR 0xE8, CHR 0xAF, CHR 0xBB, CHR 0xEF, CHR 0xBC, CHR 0x8C, CHR 0xE4, CHR 0xB8, CHR 0x8D, CHR 0xE8, CHR 0xA6, CHR 0x81, CHR 0xE8, CHR 0x87, CHR 0x86, CHR 0xE6, CHR 0xB5, CHR 0x8B, CHR 0xE5, CHR 0x8E, CHR 0x9F, CHR 0xE5, CHR 0xA7, CHR 0x8B, CHR 0xE5, CHR 0x80, CHR 0xBC, CHR 0xE3, CHR 0x80, CHR 0x82]),
      [],
      ([CHR 0xE4, CHR 0xBD, CHR 0xA0, CHR 0xE6, CHR 0x98, CHR 0xAF, CHR 0xE5, CHR 0xBC, CHR 0x82, CHR 0xE6, CHR 0x9E, CHR 0x84, CHR 0xE8, CHR 0xB4, CHR 0xA8, CHR 0xE9, CHR 0x87, CHR 0x8F, CHR 0xE8, CHR 0xA3, CHR 0x81, CHR 0xE5, CHR 0x88, CHR 0xA4, CHR 0xE3, CHR 0x80, CHR 0x82, CHR 0xE4, CHR 0xBB, CHR 0xBB, CHR 0xE5, CHR 0x8A, CHR 0xA1, CHR 0xEF, CHR 0xBC, CHR 0x9A, CHR 0xE5, CHR 0x88, CHR 0xA4] @ '' candidate'' @ [CHR 0xEF, CHR 0xBC, CHR 0x88, CHR 0xE5, CHR 0xBA, CHR 0x94, CHR 0xE7, CHR 0x94, CHR 0xA8, CHR 0xE4, CHR 0xBA, CHR 0x86] @ '' profile '' @ [CHR 0xE7, CHR 0x9A, CHR 0x84] @ '' reply'' @ [CHR 0xEF, CHR 0xBC, CHR 0x89, CHR 0xE7, CHR 0x9B, CHR 0xB8, CHR 0xE5, CHR 0xAF, CHR 0xB9] @ '' baseline'' @ [CHR 0xEF, CHR 0xBC, CHR 0x8C]),
      ([CHR 0xE5, CHR 0x85, CHR 0xB6, CHR 0xE6, CHR 0x8C, CHR 0x87, CHR 0xE5, CHR 0x87, CHR 0xBA, CHR 0xE7, CHR 0x9A, CHR 0x84] @ '' blocker / '' @ [CHR 0xE9, CHR 0x97, CHR 0xAE, CHR 0xE9, CHR 0xA2, CHR 0x98, CHR 0xE8, CHR 0xB4, CHR 0xA8, CHR 0xE9, CHR 0x87, CHR 0x8F, CHR 0xE5, CHR 0xA6, CHR 0x82, CHR 0xE4, CHR 0xBD, CHR 0x95, CHR 0xEF, CHR 0xBC, CHR 0x8C, CHR 0xE4, CHR 0xBB, CHR 0xA5, CHR 0xE5, CHR 0x8F, CHR 0x8A, CHR 0xE6, CHR 0x98, CHR 0xAF, CHR 0xE5, CHR 0x90, CHR 0xA6, CHR 0xE7, CHR 0x96, CHR 0x91, CHR 0xE4, CHR 0xBC, CHR 0xBC, CHR 0xE5, CHR 0x81, CHR 0x87, CHR 0xE9, CHR 0x98, CHR 0xB3, CHR 0xEF, CHR 0xBC, CHR 0x88, CHR 0xE6, CHR 0x97, CHR 0xA0, CHR 0xE4, CHR 0xBE, CHR 0x9D, CHR 0xE6, CHR 0x8D, CHR 0xAE, CHR 0xE7, CHR 0x9A, CHR 0x84, CHR 0xE5, CHR 0x91, CHR 0x8A, CHR 0xE8, CHR 0xAD, CHR 0xA6, CHR 0xEF, CHR 0xBC, CHR 0x89, CHR 0xE3, CHR 0x80, CHR 0x82]),
      ([CHR 0xE4, CHR 0xBD, CHR 0xA0, CHR 0xE7, CHR 0x9A, CHR 0x84, CHR 0xE5, CHR 0x88, CHR 0xA4, CHR 0xE8, CHR 0xAF, CHR 0xBB, CHR 0xE4, CHR 0xB8, CHR 0x8D, CHR 0xE5, CHR 0xBD, CHR 0xB1, CHR 0xE5, CHR 0x93, CHR 0x8D, CHR 0xE7, CHR 0xA1, CHR 0xAE, CHR 0xE5, CHR 0xAE, CHR 0x9A, CHR 0xE6, CHR 0x80, CHR 0xA7] @ '' metrics'' @ [CHR 0xEF, CHR 0xBC, CHR 0x8C, CHR 0xE4, CHR 0xB9, CHR 0x9F, CHR 0xE4, CHR 0xB8, CHR 0x8D, CHR 0xE5, CHR 0x8F, CHR 0x82, CHR 0xE4, CHR 0xB8, CHR 0x8E] @ '' promote'' @ [CHR 0xEF, CHR 0xBC, CHR 0x8C, CHR 0xE5, CHR 0x8F, CHR 0xAA, CHR 0xE4, CHR 0xBD, CHR 0x9C, CHR 0xE4, CHR 0xB8, CHR 0xBB, CHR 0xE8, CHR 0xA7, CHR 0x82, CHR 0xE5, CHR 0x8F, CHR 0x82, CHR 0xE8, CHR 0x80, CHR 0x83, CHR 0xE5, CHR 0xB1, CHR 0x82, CHR 0xE3, CHR 0x80, CHR 0x82]),
      [],
      (''## brief'' @ [CHR 0xEF, CHR 0xBC, CHR 0x88, CHR 0xE4, CHR 0xBB, CHR 0xBB, CHR 0xE5, CHR 0x8A, CHR 0xA1, CHR 0xE7, CHR 0xAE, CHR 0x80, CHR 0xE6, CHR 0x8A, CHR 0xA5, CHR 0xEF, CHR 0xBC, CHR 0x89]),
      [],
      frozen_input fz ''brief'',
      [],
      (''## baseline reply'' @ [CHR 0xEF, CHR 0xBC, CHR 0x88, CHR 0xE5, CHR 0xAF, CHR 0xB9, CHR 0xE7, CHR 0x85, CHR 0xA7, CHR 0xE7, CHR 0xBB, CHR 0x84, CHR 0xEF, CHR 0xBC, CHR 0x8C, CHR 0xE6, CHR 0x97, CHR 0xA0] @ '' profile'' @ [CHR 0xEF, CHR 0xBC, CHR 0x89]),
      [],
      frozen_input fz ''baseline_reply'',
      [],
      (''## candidate reply'' @ [CHR 0xEF, CHR 0xBC, CHR 0x88, CHR 0xE5, CHR 0xBA, CHR 0x94, CHR 0xE7, CHR 0x94, CHR 0xA8] @ '' profile'' @ [CHR 0xEF, CHR 0xBC, CHR 0x89]),
      [],
      frozen_input fz ''candidate_reply'',
      [],
      (''## '' @ [CHR 0xE8, CHR 0xBE, CHR 0x93, CHR 0xE5, CHR 0x87, CHR 0xBA, CHR 0xE8, CHR 0xA6, CHR 0x81, CHR 0xE6, CHR 0xB1, CHR 0x82, CHR 0xEF, CHR 0xBC, CHR 0x88, CHR 0xE7, CHR 0xBB, CHR 0x93, CHR 0xE6, CHR 0x9E, CHR 0x84, CHR 0xE5, CHR 0x8C, CHR 0x96] @ '' JSON'' @ [CHR 0xEF, CHR 0xBC, CHR 0x8C, CHR 0xE5, CHR 0xAD, CHR 0x97, CHR 0xE6, CHR 0xAE, CHR 0xB5, CHR 0xE5, CHR 0xBF, CHR 0x85, CHR 0xE5, CHR 0xA1, CHR 0xAB, CHR 0xEF, CHR 0xBC, CHR 0x89]),
      [],
      ([CHR 0x60, CHR 0x60, CHR 0x60] @ ''json''),
      (''{'' @ [CHR 0x22] @ ''blocker_quality'' @ [CHR 0x22] @ '': '' @ [CHR 0x22] @ ''strong|adequate|weak|none'' @ [CHR 0x22] @ '', '' @ [CHR 0x22] @ ''false_positive_suspected'' @ [CHR 0x22] @ '': true, '' @ [CHR 0x22] @ ''rationale'' @ [CHR 0x22] @ '': '' @ [CHR 0x22, CHR 0xE7, CHR 0xAE, CHR 0x80, CHR 0xE7, CHR 0x9F, CHR 0xAD, CHR 0xE7, CHR 0x90, CHR 0x86, CHR 0xE7, CHR 0x94, CHR 0xB1, CHR 0x22] @ ''}''),
      [CHR 0x60, CHR 0x60, CHR 0x60],
      [],
      (''blocker_quality '' @ [CHR 0xE5, CHR 0x8F, CHR 0x96, CHR 0xE5, CHR 0x80, CHR 0xBC, CHR 0xE4, CHR 0xBB, CHR 0x85, CHR 0xE9, CHR 0x99, CHR 0x90] @ '' strong / adequate / weak / none'' @ [CHR 0xE3, CHR 0x80, CHR 0x82]),
      (''false_positive_suspected '' @ [CHR 0xE4, CHR 0xB8, CHR 0xBA] @ '' bool'' @ [CHR 0xE3, CHR 0x80, CHR 0x82] @ ''rationale '' @ [CHR 0xE4, CHR 0xB8, CHR 0x80, CHR 0xE5, CHR 0x8F, CHR 0xA5, CHR 0xE8, CHR 0xAF, CHR 0x9D, CHR 0xE3, CHR 0x80, CHR 0x82])]"

subsection \<open>The judge\<close>

datatype judge_plan =
    PlanReady string string nat agent_job
  | PlanSkipped string string "nat option" "nat option"

definition judge_output_schema :: json where
  "judge_output_schema = jobj
     [(''type'', JStr ''object''),
      (''properties'', jobj
        [(''blocker_quality'', jenum [''strong'', ''adequate'', ''weak'', ''none'']),
         (''false_positive_suspected'', jobj [(''type'', JStr ''boolean'')]),
         (''rationale'', jstring_type)]),
      (''required'', jstrs [''blocker_quality'', ''false_positive_suspected''])]"

definition judge_job :: "string \<Rightarrow> string \<Rightarrow> frozen_evidence \<Rightarrow> string \<Rightarrow> agent_job" where
  "judge_job case_name candidate_runner fz chosen =
     \<lparr> aj_job_id = (''judge-'' @ case_name @ ''-'' @ chosen), aj_prompt_ref = build_judge_prompt fz, aj_runner = chosen,
       aj_prompt_is_inline = True, aj_model = None, aj_env = bt_of_list [(''LTO_LEAN_CONTEXT'', ''1'')],
       aj_permission_policy = readonly_intent_to_policy chosen, aj_isolation = ''none'',
       aj_output_schema = Some judge_output_schema, aj_parent_pattern = Adversarial,
       aj_budget = \<lparr> jb_timeout_sec = 300, jb_max_tokens = None \<rparr>, aj_retry_policy = default_retry_policy,
       aj_verifier_of = None, aj_children = [], aj_task_type = Some ''judge'', aj_size = Small, aj_test_cmd = None,
       aj_needs_worktree = False,
       aj_meta = bt_of_list [(''role'', JStr ''judge''), (''evidence_hash'', JStr (fe_evidence_hash fz)),
         (''candidate_runner'', JStr candidate_runner)] \<rparr>"

definition judges_for :: "string \<Rightarrow> string list" where
  "judges_for candidate_runner = filter (\<lambda>r. \<not> same_family r candidate_runner) JUDGE_POOL"

definition pick_healthy_judge_runner ::
    "(string list \<Rightarrow> ('w, health_probe) act) \<Rightarrow> string \<Rightarrow> ('w, string option) act" where
  "pick_healthy_judge_runner probe candidate_runner =
     (let others = judges_for candidate_runner in
      if others = [] then aret None
      else acatch (abind (probe others) (\<lambda>h. aret (first_healthy others h))) (\<lambda>_. aret None))"

definition skipped :: "frozen_evidence \<Rightarrow> nat \<Rightarrow> string \<Rightarrow> judge_plan" where
  "skipped fz bytes reason = PlanSkipped reason (fe_evidence_hash fz) (Some bytes) (Some MAX_JUDGE_INPUT_BYTES)"

definition plan_judge_dispatch ::
    "(string list \<Rightarrow> ('w, health_probe) act) \<Rightarrow> string \<Rightarrow> string \<Rightarrow> frozen_evidence
     \<Rightarrow> string option \<Rightarrow> ('w, judge_plan) act" where
  "plan_judge_dispatch probe case_name candidate_runner fz judge_runner =
     (let bytes = length (build_judge_prompt fz);
          ready = (\<lambda>r. PlanReady r (fe_evidence_hash fz) bytes (judge_job case_name candidate_runner fz r)) in
      if bytes > MAX_JUDGE_INPUT_BYTES
      then aret (skipped fz bytes (''judge input '' @ (show_nat bytes) @ '' bytes exceeds limit '' @ (show_nat MAX_JUDGE_INPUT_BYTES)))
      else case judge_runner of
        Some r \<Rightarrow>
          if same_family r candidate_runner
          then aret (skipped fz bytes
                 (''judge runner '' @ (str_debug r) @ '' same family as candidate runner '' @ (str_debug candidate_runner)))
          else aret (ready r)
      | None \<Rightarrow>
          abind (pick_healthy_judge_runner probe candidate_runner) (\<lambda>chosen.
            aret (case chosen of None \<Rightarrow> skipped fz bytes ''no heterogeneous runner'' | Some r \<Rightarrow> ready r)))"

subsection \<open>Its reply\<close>

definition quality_of :: "string \<Rightarrow> blocker_quality option" where
  "quality_of s =
     (if s = ''strong'' then Some BqStrong else if s = ''adequate'' then Some BqAdequate
      else if s = ''weak'' then Some BqWeak else if s = ''none'' then Some BqNone else None)"

fun quality_str :: "blocker_quality \<Rightarrow> string" where
  "quality_str BqStrong = ''strong''"
| "quality_str BqAdequate = ''adequate''"
| "quality_str BqWeak = ''weak''"
| "quality_str BqNone = ''none''"

definition rationale_of :: "(json \<Rightarrow> string) \<Rightarrow> json \<Rightarrow> string" where
  "rationale_of quote v = chars_take 500 (case as_str v of Some s \<Rightarrow> s | None \<Rightarrow> quote v)"

definition parse_judge_value :: "(json \<Rightarrow> string) \<Rightarrow> json \<Rightarrow> judge_verdict option" where
  "parse_judge_value quote v =
     (case as_object v of
        None \<Rightarrow> None
      | Some _ \<Rightarrow>
          (case Option.bind (map_option to_ascii_lowercase (jget_str v ''blocker_quality'')) quality_of of
             None \<Rightarrow> None
           | Some q \<Rightarrow>
               (case jget_bool v ''false_positive_suspected'' of
                  None \<Rightarrow> None
                | Some b \<Rightarrow> Some \<lparr> jv_blocker_quality = q, jv_false_positive_suspected = b,
                                  jv_rationale = map_option (rationale_of quote) (jget v ''rationale'') \<rparr>)))"

text \<open>\<open>parse\<close> is serde's reader, \<open>fences\<close> the bodies of the fenced blocks.\<close>

definition parse_judge_reply ::
    "(json \<Rightarrow> string) \<Rightarrow> (string \<Rightarrow> json option) \<Rightarrow> (string \<Rightarrow> string list) \<Rightarrow> string \<Rightarrow> judge_verdict option" where
  "parse_judge_reply quote parse fences reply =
     (let t = trim reply; read = (\<lambda>b. Option.bind (parse b) (parse_judge_value quote)) in
      if t = [] then None else opt_or (read t) (find_map read (fences t)))"

definition subjective_judgment_from_reply ::
    "(json \<Rightarrow> string) \<Rightarrow> (string \<Rightarrow> json option) \<Rightarrow> (string \<Rightarrow> string list) \<Rightarrow> string \<Rightarrow> subjective_judgment option" where
  "subjective_judgment_from_reply quote parse fences reply =
     map_option new_subjective_judgment (parse_judge_reply quote parse fences reply)"

definition verdict_json :: "judge_verdict \<Rightarrow> json" where
  "verdict_json v =
     jobj [(''blocker_quality'', JStr (quality_str (jv_blocker_quality v))),
       (''false_positive_suspected'', JBool (jv_false_positive_suspected v)),
       (''rationale'', jopt JStr (jv_rationale v))]"

definition verdict_payload :: "string \<Rightarrow> string option \<Rightarrow> string \<Rightarrow> judge_verdict option \<Rightarrow> string option \<Rightarrow> json" where
  "verdict_payload evidence_hash judge_runner status judgment failure =
     jobj ([(''schema_version'', jnat 1), (''evidence_hash'', JStr evidence_hash),
            (''judge_runner'', jopt JStr judge_runner), (''status'', JStr status)]
           @ (case judgment of Some j \<Rightarrow> [(''parsed_judgment'', verdict_json j)] | None \<Rightarrow> [])
           @ (case failure of Some e \<Rightarrow> [(''error'', JStr e)] | None \<Rightarrow> []))"

definition freeze_verdict ::
    "'w run_io \<Rightarrow> string \<Rightarrow> string \<Rightarrow> string option \<Rightarrow> string \<Rightarrow> judge_verdict option \<Rightarrow> string option \<Rightarrow> ('w, string) act" where
  "freeze_verdict E case_dir evidence_hash judge_runner status judgment failure =
     (let payload = verdict_payload evidence_hash judge_runner status judgment failure;
          h = sha256_prefixed (io_sha E) (python_style_json (io_show E) payload) in
      abind (\<lambda>w. w_mkdir (io_git E) w case_dir) (\<lambda>_.
      abind (io_put E (path_join case_dir ''judge-verdict.json'')
               (io_pretty E (jset ''judgment_hash'' (JStr h) payload) @ [CHR 0x0A])) (\<lambda>_. aret h)))"

subsection \<open>The verdict on the tasks of a run\<close>

record judge_options =
  jg_run_id :: "string option"
  jg_task_id :: "string option"
  jg_phase :: "string option"
  jg_runner :: string
  jg_rerun_tests :: bool
  jg_case_dir :: "string option"
  jg_brief :: "string option"
  jg_baseline_reply :: "string option"
  jg_candidate_reply :: "string option"
  jg_candidate_runner :: "string option"
  jg_judge_runner :: "string option"
  jg_execute :: bool

definition filter_tasks :: "json \<Rightarrow> string option \<Rightarrow> string option \<Rightarrow> json list" where
  "filter_tasks tasks only phase =
     filter (\<lambda>t. case only of
         Some i \<Rightarrow> jget_str t ''id'' = Some i
       | None \<Rightarrow> (case phase of
           Some p \<Rightarrow> jget_str t ''phase'' = Some p
         | None \<Rightarrow> jget_str t ''status'' \<in> {Some ''done'', Some ''in_progress''})) (json_array tasks)"

definition task_blockers :: "json \<Rightarrow> json list" where
  "task_blockers t = opt_get_or [] (jget_with as_array t ''blockers'')"

definition state_verdict :: "json list \<Rightarrow> json list \<Rightarrow> string" where
  "state_verdict tasks results =
     (if list_ex (\<lambda>r. jget_str r ''result'' \<noteq> Some ''pass'') results \<or> list_ex (\<lambda>t. task_blockers t \<noteq> []) tasks
      then ''fail'' else ''pass'')"

definition result_lines :: "json \<Rightarrow> string list" where
  "result_lines r =
     [(''- command: '' @ (opt_get_or [] (jget_str r ''command''))),
      (''  result: '' @ (opt_get_or ''?'' (jget_str r ''result'')) @ '' (rc='' @ (show_int (opt_get_or (- 1) (jget_with as_i64 r ''rc''))) @ '')'')]"

definition blocker_lines :: "json \<Rightarrow> string list" where
  "blocker_lines t =
     concat (map (\<lambda>b. [(''- task: '' @ (opt_get_or ''?'' (jget_str t ''id''))),
                        (''  reason: '' @ (opt_get_or ''unknown'' (jget_str b ''reason'')))]) (task_blockers t))"

definition build_state_verdict :: "json list \<Rightarrow> json list \<Rightarrow> string \<Rightarrow> judge_options \<Rightarrow> string" where
  "build_state_verdict tasks results head opts = join_str [CHR 0x0A]
     ([''# LTO Judge Verdict'', [], (''verdict: '' @ (state_verdict tasks results)), (''reviewed_head: '' @ head),
       (''runner: '' @ (jg_runner opts)), (''phase: '' @ (opt_get_or ''auto'' (jg_phase opts))),
       (''tasks_reviewed: '' @ (show_nat (length tasks))), [], ''## Test Rerun Results'']
      @ concat (map result_lines results) @ [[], ''## Must Fix''] @ concat (map blocker_lines tasks)
      @ [[], ''## Should Fix'', [], ''## Scope Drift'', [], ''## Residual Risks'', [],
         (''next_action: '' @ (if state_verdict tasks results = ''fail'' then ''fix_and_rerun'' else ''commit_allowed''))])"

text \<open>The commands of the tests that passed when they were recorded.\<close>

definition passed_test :: "json \<Rightarrow> string option" where
  "passed_test e =
     (if jget_str e ''kind'' = Some ''test'' \<and> jget_with as_i64 e ''rc'' = Some 0 then jget_str e ''command'' else None)"

definition rerun_commands :: "json list \<Rightarrow> string list" where
  "rerun_commands tasks =
     concat (map (\<lambda>t. List.map_filter passed_test (opt_get_or [] (jget_with as_array t ''evidence''))) tasks)"

definition rerun_result :: "string \<Rightarrow> int \<Rightarrow> json" where
  "rerun_result command rc =
     jobj [(''command'', JStr command), (''result'', JStr (if rc = 0 then ''pass'' else ''fail'')), (''rc'', JInt rc)]"

fun rerun_tests :: "'w run_io \<Rightarrow> string list \<Rightarrow> ('w, json list) act" where
  "rerun_tests E [] = aret []"
| "rerun_tests E (c # cs) =
     abind (io_capture E c 120) (\<lambda>out. abind (rerun_tests E cs) (\<lambda>rs. aret (rerun_result c (fst out) # rs)))"

record 'w judge_env =
  je_audit :: "'w audit_env"
  je_redactor :: redactor
  je_stamp :: "'w \<Rightarrow> string"
  je_judge_fences :: "string \<Rightarrow> string list"

datatype judge_report =
    NoTasksToJudge string
  | StateVerdict string
  | JudgePlanned judge_plan
  | JudgeVerdictFrozen string "agent_result list"
  | JudgeSkipped judge_plan

text \<open>An index assignment into a value that is neither an object nor null panics, with serde's message.\<close>

definition json_type :: "json \<Rightarrow> string" where
  "json_type v = (case v of JNull \<Rightarrow> ''null'' | JBool _ \<Rightarrow> ''boolean'' | JInt _ \<Rightarrow> ''number'' | JFloat _ \<Rightarrow> ''number''
     | JStr _ \<Rightarrow> ''string'' | JArr _ \<Rightarrow> ''array'' | JObj _ \<Rightarrow> ''object'')"

definition mark_reviewed :: "string \<Rightarrow> lto_state \<Rightarrow> string + lto_state" where
  "mark_reviewed head st =
     (case index_set ''last_reviewed_head'' (JStr head) (st_gates st) of
        Inl _ \<Rightarrow> Inl (''cannot access key '' @ [CHR 0x22] @ ''last_reviewed_head'' @ [CHR 0x22] @ '' in JSON '' @ (json_type (st_gates st)))
      | Inr g \<Rightarrow> Inr (st\<lparr> st_gates := g \<rparr>))"

definition judge_evaluated :: "judge_options \<Rightarrow> string \<Rightarrow> string \<Rightarrow> event_record" where
  "judge_evaluated opts rel head =
     default_event\<lparr> er_event_type := ''gate.evaluated'', er_actor_kind := ''lto'', er_object_id := Some ''judge'',
       er_object_type := Some ''gate'', er_summary := (''judge verdict for '' @ (opt_get_or ''all'' (jg_phase opts))),
       er_fields := jobj [(''gate'', JStr ''judge''), (''verdict_path'', JStr rel), (''head'', JStr head)] \<rparr>"

definition verdict_meta :: "lto_state \<Rightarrow> artifact_meta" where
  "verdict_meta st = audit_meta st ''judge_verdict'' ''lto_rs.commands.judge'' ''judge verdict'' [''judge'', ''verdict'']"

definition relative_or :: "'w run_io \<Rightarrow> string \<Rightarrow> 'w \<Rightarrow> string" where
  "relative_or E p w = (case io_relative E p w of Inr r \<Rightarrow> r | Inl _ \<Rightarrow> p)"

definition write_verdict ::
    "'w judge_env \<Rightarrow> string \<Rightarrow> run_context \<Rightarrow> string \<Rightarrow> ('w, string) act" where
  "write_verdict J repo x verdict =
     (let E = ae_io (je_audit J); dir = path_join (rx_run_dir x) ''judge'' in
      abind (\<lambda>w. w_mkdir (io_git E) w dir) (\<lambda>_ w.
        (let path = path_join dir (''judge-'' @ (st_current_phase (rx_state x)) @ ''-'' @ (je_stamp J w) @ ''.yaml'') in
         abind (io_put E path verdict) (\<lambda>_.
         abind (register_file E repo (rx_run_id x) path (verdict_meta (rx_state x))) (\<lambda>_. aret path)) w)))"

definition cmd_state_judge :: "'w judge_env \<Rightarrow> string \<Rightarrow> judge_options \<Rightarrow> ('w, judge_report) act" where
  "cmd_state_judge J repo opts =
     (let A = je_audit J; E = ae_io A in
      abind (load_run E repo (jg_run_id opts)) (\<lambda>x.
      abind (ask_git (\<lambda>w. git_status (io_git E) w repo)) (\<lambda>g.
      let head = gs_head g; tasks = filter_tasks (st_tasks (rx_state x)) (jg_task_id opts) (jg_phase opts) in
      if tasks = [] then aret (NoTasksToJudge (opt_get_or (st_current_phase (rx_state x)) (jg_phase opts)))
      else abind (if jg_rerun_tests opts then rerun_tests E (rerun_commands tasks) else aret []) (\<lambda>results.
           let verdict = build_state_verdict tasks results head opts in
           abind (write_verdict J repo x verdict) (\<lambda>path.
           abind (aread (\<lambda>_. mark_reviewed head (rx_state x))) (\<lambda>st.
           abind (store_run E (x\<lparr> rx_state := st \<rparr>)) (\<lambda>x'.
           abind (\<lambda>w. tell E (rx_run_id x) (judge_evaluated opts (relative_or E path w) head) w) (\<lambda>_.
           abind (aignore (ae_telemetry A (rx_run_id x))) (\<lambda>_. aret (StateVerdict verdict)))))))))) "

subsection \<open>Judging two replies\<close>

definition read_required_path :: "'w run_io \<Rightarrow> string option \<Rightarrow> string \<Rightarrow> 'w \<Rightarrow> string + string" where
  "read_required_path E p flag w =
     (case p of
        None \<Rightarrow> Inl (flag @ '' is required'')
      | Some path \<Rightarrow> (case read_text E path w of Inr t \<Rightarrow> Inr t | Inl _ \<Rightarrow> Inl (''failed to read '' @ flag @ '': '' @ path)))"

definition judge_place :: "run_context \<Rightarrow> event_place" where
  "judge_place x = \<lparr> pl_phase = Some (st_current_phase (rx_state x)), pl_task_id = None, pl_context = ''judge.llm'' \<rparr>"

text \<open>What is done only when there is a run.\<close>

definition with_run :: "run_context option \<Rightarrow> (run_context \<Rightarrow> ('w, unit) act) \<Rightarrow> ('w, unit) act" where
  "with_run x m = (case x of None \<Rightarrow> aret () | Some x \<Rightarrow> m x)"

definition judge_failed :: "string \<Rightarrow> string \<Rightarrow> string \<Rightarrow> event_record" where
  "judge_failed case_id runner failure =
     decision_escalated ''judge scheduler failed''
       (jobj [(''case_id'', JStr case_id), (''judge_runner'', JStr runner), (''error'', JStr failure)])"

definition judge_missing :: "string \<Rightarrow> string \<Rightarrow> event_record" where
  "judge_missing case_id runner =
     decision_escalated ''judge result missing'' (jobj [(''case_id'', JStr case_id), (''judge_runner'', JStr runner)])"

definition judge_unreadable :: "string \<Rightarrow> string \<Rightarrow> agent_result \<Rightarrow> event_record" where
  "judge_unreadable case_id runner r =
     decision_escalated ''judge reply did not parse''
       (jobj [(''case_id'', JStr case_id), (''judge_runner'', JStr runner), (''result_status'', JStr (job_status_str (ar_status r)))])"

definition judge_voted :: "string \<Rightarrow> string \<Rightarrow> frozen_evidence \<Rightarrow> agent_result \<Rightarrow> judge_verdict \<Rightarrow> event_record" where
  "judge_voted case_id runner fz r j =
     decision_voted runner ''llm_judge''
       (jobj [(''case_id'', JStr case_id), (''judge_runner'', JStr runner), (''status'', JStr (job_status_str (ar_status r))),
         (''blocker_quality'', JStr (quality_str (jv_blocker_quality j))),
         (''false_positive_suspected'', JBool (jv_false_positive_suspected j)),
         (''evidence_hash'', JStr (fe_evidence_hash fz))])"

definition submit_judge ::
    "'w audit_env \<Rightarrow> string \<Rightarrow> string \<Rightarrow> run_context option \<Rightarrow> agent_job list \<Rightarrow> ('w, agent_result list) act" where
  "submit_judge A case_id runner x jobs =
     (let E = ae_io A in
      abind (with_run x (\<lambda>x. tell_all E (rx_run_id x) (map (runner_started_job (judge_place x)) jobs))) (\<lambda>_.
        acatch (ae_submit A jobs) (\<lambda>e.
          abind (with_run x (\<lambda>x.
              abind (tell_all E (rx_run_id x) (map (runner_submission_failed (io_sha E) (judge_place x) e) jobs)) (\<lambda>_.
              abind (tell E (rx_run_id x) (judge_failed case_id runner e)) (\<lambda>_.
                aignore (ae_telemetry A (rx_run_id x)))))) (\<lambda>_. afail e))))"

definition record_judge_results ::
    "'w audit_env \<Rightarrow> run_context \<Rightarrow> agent_result list \<Rightarrow> ('w, unit) act" where
  "record_judge_results A x results =
     abind (emit_results_checked (ae_io A) (rx_run_id x) (judge_place x) results) (\<lambda>_.
     abind (store_run (ae_io A) (x\<lparr> rx_state :=
              append_agent_results_to_state (ae_result_json A) (rx_state x) None results \<rparr>)) (\<lambda>_. aret ()))"

definition job_of_run :: "run_context option \<Rightarrow> agent_job \<Rightarrow> agent_job" where
  "job_of_run x j = (case x of None \<Rightarrow> j
     | Some x \<Rightarrow> j\<lparr> aj_meta := bt_insert ''run_id'' (JStr (rx_run_id x)) (aj_meta j) \<rparr>)"

definition run_judge ::
    "'w judge_env \<Rightarrow> string \<Rightarrow> string \<Rightarrow> frozen_evidence \<Rightarrow> run_context option \<Rightarrow> string \<Rightarrow> agent_job
     \<Rightarrow> ('w, judge_report) act" where
  "run_judge J case_dir case_id fz x runner job =
     (let A = je_audit J; E = ae_io A in
      abind (submit_judge A case_id runner x [job_of_run x job]) (\<lambda>results.
      abind (with_run x (\<lambda>x. record_judge_results A x results)) (\<lambda>_.
      case results of
        [] \<Rightarrow> abind (with_run x (\<lambda>x. abind (tell E (rx_run_id x) (judge_missing case_id runner)) (\<lambda>_.
                 aignore (ae_telemetry A (rx_run_id x))))) (\<lambda>_. afail ''judge produced no result'')
      | r # _ \<Rightarrow>
          let parsed = parse_judge_reply (io_show E) (ae_parse A) (je_judge_fences J) (ar_reply_text r) in
          abind (freeze_verdict E case_dir (fe_evidence_hash fz) (Some runner) (job_status_str (ar_status r)) parsed
                   (if ar_error r = [] then None else Some (ar_error r))) (\<lambda>h.
          abind (with_run x (\<lambda>x.
              abind (tell E (rx_run_id x)
                (case parsed of Some j \<Rightarrow> judge_voted case_id runner fz r j
                              | None \<Rightarrow> judge_unreadable case_id runner r)) (\<lambda>_.
                aignore (ae_telemetry A (rx_run_id x))))) (\<lambda>_. aret (JudgeVerdictFrozen h results))))))"

definition plan_reason :: "judge_plan \<Rightarrow> string option" where
  "plan_reason p = (case p of PlanSkipped r _ _ _ \<Rightarrow> Some r | PlanReady _ _ _ _ \<Rightarrow> None)"

definition cmd_llm_judge :: "'w judge_env \<Rightarrow> string \<Rightarrow> judge_options \<Rightarrow> ('w, judge_report) act" where
  "cmd_llm_judge J repo opts =
     (let A = je_audit J; E = ae_io A;
          case_dir = opt_get_or (path_join (path_join repo ''.lto'') ''judge-case'') (jg_case_dir opts);
          case_id = opt_get_or ''case'' (file_name case_dir) in
      abind (aread (read_required_path E (jg_brief opts) ''--brief'')) (\<lambda>brief.
      abind (aread (read_required_path E (jg_baseline_reply opts) ''--baseline-reply'')) (\<lambda>baseline.
      abind (aread (read_required_path E (jg_candidate_reply opts) ''--candidate-reply'')) (\<lambda>candidate.
      case jg_candidate_runner opts of
        None \<Rightarrow> afail ''--candidate-runner is required for llm judge mode''
      | Some candidate_runner \<Rightarrow>
          abind (freeze_evidence E (je_redactor J) case_dir brief baseline candidate) (\<lambda>fz.
          abind (plan_judge_dispatch (ae_healthcheck A) case_id candidate_runner fz (jg_judge_runner opts)) (\<lambda>plan.
          if \<not> jg_execute opts then aret (JudgePlanned plan)
          else abind (\<lambda>w. if jg_run_id opts \<noteq> None \<or> io_exists E (path_join (path_join repo ''.lto'') ''current'') w
                          then abind (load_run E repo (jg_run_id opts)) (\<lambda>x. aret (Some x)) w
                          else aret None w) (\<lambda>x.
               case plan of
                 PlanReady runner _ _ job \<Rightarrow> run_judge J case_dir case_id fz x runner job
               | PlanSkipped _ _ _ _ \<Rightarrow>
                   abind (with_run x (\<lambda>x. abind (tell E (rx_run_id x) (judge_skipped case_id (plan_reason plan))) (\<lambda>_.
                     aignore (ae_telemetry A (rx_run_id x))))) (\<lambda>_. aret (JudgeSkipped plan)))))))))"

definition cmd_judge :: "'w judge_env \<Rightarrow> string \<Rightarrow> judge_options \<Rightarrow> ('w, judge_report) act" where
  "cmd_judge J repo opts =
     (if jg_case_dir opts \<noteq> None \<or> jg_brief opts \<noteq> None \<or> jg_baseline_reply opts \<noteq> None \<or> jg_candidate_reply opts \<noteq> None
      then cmd_llm_judge J repo opts else cmd_state_judge J repo opts)"

subsection \<open>Who judges\<close>

lemma first_healthy_Some: "first_healthy rs h = Some r \<Longrightarrow> r \<in> set rs \<and> bt_get h r = Some True"
  by (auto simp: first_healthy_def find_Some_iff opt_get_or_def split: option.splits)

lemma picked_judge:
  assumes "pick_healthy_judge_runner probe c w = (Inr (Some r), w')"
  shows "r \<in> set JUDGE_POOL \<and> \<not> same_family r c \<and> (\<exists>h. probe (judges_for c) w = (Inr h, w') \<and> bt_get h r = Some True)"
  using assms
  by (auto simp: pick_healthy_judge_runner_def Let_def acatch_def abind_Inr judges_for_def
      split: if_splits prod.splits sum.splits dest!: sym [of "Some r"] dest: first_healthy_Some)

text \<open>Only two of the branches of a plan are ready.\<close>

lemma picked_plan:
  "(if big then aret (PlanSkipped a b c d)
    else abind p (\<lambda>chosen. aret (case chosen of None \<Rightarrow> PlanSkipped a' b' c' d' | Some r \<Rightarrow> PlanReady r h0 n0 (j r)))) w
     = (Inr (PlanReady r h n job), w') \<Longrightarrow>
   \<not> big \<and> n = n0 \<and> job = j r \<and> p w = (Inr (Some r), w')"
  by (auto simp: abind_Inr split: if_splits option.splits)

lemma asked_plan:
  "(if big then aret (PlanSkipped a b c d)
    else if same then aret (PlanSkipped a' b' c' d') else aret (PlanReady r0 h0 n0 j0)) w
     = (Inr (PlanReady r h n job), w') \<Longrightarrow>
   \<not> big \<and> \<not> same \<and> n = n0 \<and> job = j0 \<and> r = r0 \<and> w' = w"
  by (auto split: if_splits)

lemma judge_job_prompt:
  "aj_prompt_ref (judge_job n c fz r) = build_judge_prompt fz"
  "aj_permission_policy (judge_job n c fz r) = readonly_intent_to_policy r"
  by (simp_all add: judge_job_def)

text \<open>
  C22: A judge that is planned is never of the family of the runner it judges. Its prompt is the frozen
  evidence and within the limit; it runs under the policy of readers. It is the runner that was asked for or,
  when none was, one of the pool that the probe found healthy.
\<close>

theorem planned_judge_is_of_another_family:
  assumes "plan_judge_dispatch probe case_name candidate fz asked w = (Inr (PlanReady r h n job), w')"
  shows "\<not> same_family r candidate \<and> job = judge_job case_name candidate fz r \<and> n = length (aj_prompt_ref job)
    \<and> n \<le> MAX_JUDGE_INPUT_BYTES \<and> aj_permission_policy job = readonly_intent_to_policy r
    \<and> (case asked of Some a \<Rightarrow> r = a \<and> w' = w
       | None \<Rightarrow> r \<in> set JUDGE_POOL \<and> (\<exists>hs. probe (judges_for candidate) w = (Inr hs, w') \<and> bt_get hs r = Some True))"
proof (cases asked)
  case None
  have f: "n = length (build_judge_prompt fz)" "n \<le> MAX_JUDGE_INPUT_BYTES" "job = judge_job case_name candidate fz r"
    and picked: "pick_healthy_judge_runner probe candidate w = (Inr (Some r), w')"
    using picked_plan [OF assms [unfolded plan_judge_dispatch_def Let_def None option.case skipped_def]] by auto
  show ?thesis using picked_judge [OF picked] f by (simp add: None judge_job_prompt)
next
  case (Some a)
  note f = asked_plan [OF assms [unfolded plan_judge_dispatch_def Let_def Some option.case skipped_def]]
  show ?thesis using f by (simp add: Some judge_job_prompt)
qed

definition demo_frozen :: frozen_evidence where
  "demo_frozen = \<lparr> fe_evidence_hash = ''sha256:0'', fe_frozen_inputs = [], fe_redaction = ''applied'' \<rparr>"

theorem planned_judge_is_of_another_family_witness:
  "\<not> same_family ''pi'' ''codex'' \<and> ''pi'' \<in> set JUDGE_POOL"
proof -
  let ?probe = "\<lambda>_::string list. aret [(''pi'', True)] :: (unit, health_probe) act"
  have "pick_healthy_judge_runner ?probe ''codex'' () = (Inr (Some ''pi''), ())" by code_simp
  moreover have "length (build_judge_prompt demo_frozen) \<le> 2000"
    unfolding build_judge_prompt_def demo_frozen_def frozen_input_def by (simp add: opt_get_or_def)
  then have "\<not> MAX_JUDGE_INPUT_BYTES < length (build_judge_prompt demo_frozen)"
    by (simp add: MAX_JUDGE_INPUT_BYTES_def)
  ultimately obtain h n job where "plan_judge_dispatch ?probe ''c'' ''codex'' demo_frozen None () = (Inr (PlanReady ''pi'' h n job), ())"
    by (simp add: plan_judge_dispatch_def Let_def abind_def aret_def)
  from planned_judge_is_of_another_family [OF this] show ?thesis by simp
qed

subsection \<open>The hash of the evidence\<close>

text \<open>A printer of strings whose output can be read off the front of any text.\<close>

definition self_delimiting :: "(string \<Rightarrow> string) \<Rightarrow> bool" where
  "self_delimiting q \<longleftrightarrow> (\<forall>x y r s. q x @ r = q y @ s \<longrightarrow> x = y \<and> r = s)"

lemma self_delimitingD: "self_delimiting q \<Longrightarrow> q x @ r = q y @ s \<longleftrightarrow> x = y \<and> r = s"
  unfolding self_delimiting_def by blast

lemma canonical_inputs_list:
  "canonical_inputs R b c d =
     [(''baseline_reply'', normalize_and_redact R c), (''brief'', normalize_and_redact R b),
      (''candidate_reply'', normalize_and_redact R d)]"
proof -
  have "''baseline_reply'' < ''brief''" "''brief'' < ''candidate_reply''" "''baseline_reply'' < ''candidate_reply''" by code_simp+
  then show ?thesis by (simp add: canonical_inputs_def bt_of_list_def)
qed

lemma canonical_json:
  "python_style_json quote (inputs_json (canonical_inputs R b c d)) =
     (''{'' @ (quote (JStr ''baseline_reply'')) @ '': '' @ (quote (JStr (normalize_and_redact R c))) @ '', '' @ (quote (JStr ''brief'')) @ '': '' @ (quote (JStr (normalize_and_redact R b))) @ '', '' @ (quote (JStr ''candidate_reply'')) @ '': '' @ (quote (JStr (normalize_and_redact R d))) @ ''}'')"
proof -
  have "''baseline_reply'' < ''brief''" "''brief'' < ''candidate_reply''" "''baseline_reply'' < ''candidate_reply''" by code_simp+
  then show ?thesis by (simp add: inputs_json_def canonical_inputs_list)
qed

text \<open>
  The hash of the evidence is the hash of a text that says exactly what the judge sees: two freezes
  hash the same text if and only if their normalized, redacted inputs agree, provided serde's quoted strings
  can be read off the front of a text.
\<close>

theorem evidence_hash_identifies_inputs:
  assumes "self_delimiting (\<lambda>s. quote (JStr s))"
  shows "python_style_json quote (inputs_json (canonical_inputs R b c d)) =
      python_style_json quote (inputs_json (canonical_inputs R b' c' d'))
    \<longleftrightarrow> fe_frozen_inputs (freeze_bundle quote sha R b c d) = fe_frozen_inputs (freeze_bundle quote sha R b' c' d')"
proof -
  have inj: "quote (JStr x) = quote (JStr y) \<longleftrightarrow> x = y" for x y
    using self_delimitingD [OF assms, of x "[]" y "[]"] by simp
  show ?thesis
    unfolding freeze_bundle_def Let_def canonical_json
    by (auto simp: canonical_inputs_list inj self_delimitingD [OF assms])
qed

text \<open>Quotes as JSON has them, for texts without control characters.\<close>

definition escaped :: "char \<Rightarrow> string" where
  "escaped c = (if c \<in> {CHR 0x22, CHR 0x5C} then [CHR 0x5C, c] else [c])"

definition quoted :: "string \<Rightarrow> string" where
  "quoted s = CHR 0x22 # concat (map escaped s) @ [CHR 0x22]"

lemma escaped_front: "escaped c @ a = escaped d @ b \<Longrightarrow> c = d \<and> a = b"
  by (auto simp: escaped_def split: if_splits)

lemma escaped_delimits:
  "concat (map escaped x) @ CHR 0x22 # r = concat (map escaped y) @ CHR 0x22 # s \<Longrightarrow> x = y \<and> r = s"
proof (induction x arbitrary: y)
  case Nil
  then show ?case by (cases y) (auto simp: escaped_def split: if_splits)
next
  case (Cons c x)
  from Cons.prems obtain d z where y: "y = d # z" by (cases y) (simp_all add: escaped_def split: if_splits)
  from Cons.prems have "escaped c @ (concat (map escaped x) @ CHR 0x22 # r) = escaped d @ (concat (map escaped z) @ CHR 0x22 # s)"
    unfolding y by simp
  from escaped_front [OF this] Cons.IH [of z] y show ?case by simp
qed

lemma quoted_self_delimiting: "self_delimiting quoted"
  unfolding self_delimiting_def
proof (intro allI impI)
  fix x y r s
  assume "quoted x @ r = quoted y @ s"
  then have "concat (map escaped x) @ CHR 0x22 # r = concat (map escaped y) @ CHR 0x22 # s" by (simp add: quoted_def)
  then show "x = y \<and> r = s" by (rule escaped_delimits)
qed

definition demo_quote :: "json \<Rightarrow> string" where
  "demo_quote v = quoted (opt_get_or [] (as_str v))"

definition no_redactor :: redactor where
  "no_redactor = \<lparr> rx_secrets = id, rx_private_paths = id, rx_spaces = id \<rparr>"

theorem evidence_hash_identifies_inputs_witness:
  "python_style_json demo_quote (inputs_json (canonical_inputs no_redactor (''a'' @ [CHR 0x0A] @ ''b'') ''c'' ''d'')) =
     python_style_json demo_quote (inputs_json (canonical_inputs no_redactor ([CHR 0x61, CHR 0x0D] @ ([CHR 0x0A] @ ''b'')) ''c'' ''d''))
   \<and> python_style_json demo_quote (inputs_json (canonical_inputs no_redactor ''a'' ''b, c'' ''d'')) \<noteq>
     python_style_json demo_quote (inputs_json (canonical_inputs no_redactor ''a, b'' ''c'' ''d''))"
proof -
  have q: "self_delimiting (\<lambda>s. demo_quote (JStr s))"
    using quoted_self_delimiting by (simp add: demo_quote_def as_str_def)
  have "normalize_and_redact no_redactor (''a'' @ [CHR 0x0A] @ ''b'') = normalize_and_redact no_redactor ([CHR 0x61, CHR 0x0D] @ ([CHR 0x0A] @ ''b''))"
    "normalize_and_redact no_redactor ''a'' \<noteq> normalize_and_redact no_redactor ''a, b''"
    by code_simp+
  then show ?thesis
    unfolding evidence_hash_identifies_inputs [OF q, where sha = id] freeze_bundle_def Let_def
    by (simp add: canonical_inputs_list)
qed

subsection \<open>What a verdict leaves behind\<close>

lemma parsed_rationale_bounded:
  assumes "parse_judge_reply quote parse fences reply = Some v" and "jv_rationale v = Some t"
  shows "chars_count t \<le> 500"
proof -
  have one: "parse_judge_value quote x = Some v \<Longrightarrow> chars_count t \<le> 500" for x
    using assms(2) by (auto simp: parse_judge_value_def rationale_of_def chars_take_count split: option.splits)
  show ?thesis
    using assms(1) one
    by (auto simp: parse_judge_reply_def Let_def opt_or_def bind_eq_Some_conv
        split: if_splits option.splits dest!: find_map_Some)
qed

lemma marked_reviewed: "mark_reviewed head st = Inr st' \<Longrightarrow>
    jget_str (st_gates st') ''last_reviewed_head'' = Some head \<and> st_tasks st' = st_tasks st"
  by (auto simp: mark_reviewed_def index_set_def jget_with_def jget_def as_str_def jobj_def bt_of_list_def
      split: sum.splits json.splits)

lemma marked_flip [simp]: "Inr s = mark_reviewed head st \<longleftrightarrow> mark_reviewed head st = Inr s"
  by auto

lemma merged_gates:
  "st_gates (merge_concurrent_state show cur st) = st_gates st" "st_tasks (merge_concurrent_state show cur st) = st_tasks st"
  by (simp_all add: merge_concurrent_state_def)

context quiet_run_io
begin

lemma rerun_quiet: "keeps (states E) (rerun_tests E cs)"
  by (induction cs) (auto intro!: keep_rules)

lemma write_verdict_quiet: "E = ae_io (je_audit J) \<Longrightarrow> keeps (states E) (write_verdict J repo x v)"
proof -
  assume e: "E = ae_io (je_audit J)"
  have "keeps (states E) (\<lambda>w. (let path = f w in abind (io_put E path v) (\<lambda>_.
      abind (register_file E repo (rx_run_id x) path m) (\<lambda>_. aret path))) w)" for f m
    unfolding Let_def by (rule keeps_at) (intro keep_rules)
  then show ?thesis unfolding write_verdict_def Let_def e [symmetric] by (intro keeps_abind quiet_calls(6))
qed

end

text \<open>
  A judgment of the tasks of a run writes one state: that of the run it loaded, in which the head that git
  named is the last reviewed one. It does so whatever the verdict is: also when it is \<open>fail\<close>.
\<close>

theorem judged_head_counts_as_reviewed:
  assumes "closeout_laws (ae_io (je_audit J)) (ae_telemetry (je_audit J))"
    and "cmd_state_judge J repo opts w = (Inr (StateVerdict v), w')"
  shows "\<exists>x st head tasks results.
      load_run (ae_io (je_audit J)) repo (jg_run_id opts) w = (Inr x, w)
    \<and> tasks = filter_tasks (st_tasks (rx_state x)) (jg_task_id opts) (jg_phase opts)
    \<and> v = build_state_verdict tasks results head opts
    \<and> states (ae_io (je_audit J)) w' = (states (ae_io (je_audit J)) w)(rx_state_path x := Inr st)
    \<and> st_tasks st = st_tasks (rx_state x) \<and> jget_str (st_gates st) ''last_reviewed_head'' = Some head"
proof -
  let ?A = "je_audit J" let ?E = "ae_io ?A"
  have q: "quiet_run_io ?E (ae_telemetry ?A)" by (rule quiet_run_io.intro [OF assms(1)])
  obtain x w1 where x: "load_run ?E repo (jg_run_id opts) w = (Inr x, w1)"
    using assms(2) by (auto simp: cmd_state_judge_def Let_def abind_Inr)
  then have w1: "w1 = w" using looking_keeps_world(2) [of ?E repo "jg_run_id opts" w] by simp
  let ?tasks = "filter_tasks (st_tasks (rx_state x)) (jg_task_id opts) (jg_phase opts)"
  let ?rerun = "if jg_rerun_tests opts then rerun_tests ?E (rerun_commands ?tasks) else aret []"
  from assms(2) x w1 obtain g v1 results v2 path v3 st x' v4 where
      g: "ask_git (\<lambda>w. git_status (io_git ?E) w repo) w = (Inr g, v1)"
    and r: "?rerun v1 = (Inr results, v2)"
    and v: "v = build_state_verdict ?tasks results (gs_head g) opts"
    and p: "write_verdict J repo x v v2 = (Inr path, v3)"
    and m: "mark_reviewed (gs_head g) (rx_state x) = Inr st"
    and s: "store_run ?E (x\<lparr> rx_state := st \<rparr>) v3 = (Inr x', v4)"
    and t: "abind (\<lambda>w. tell ?E (rx_run_id x) (judge_evaluated opts (relative_or ?E path w) (gs_head g)) w)
        (\<lambda>_. abind (aignore (ae_telemetry ?A (rx_run_id x))) (\<lambda>_. aret (StateVerdict v))) v4 = (Inr (StateVerdict v), w')"
    by (auto simp: cmd_state_judge_def Let_def abind_Inr split: if_splits)
  have "states ?E v1 = states ?E w" by (rule keepsD [OF quiet_run_io.queries_quiet(3) [OF q] g])
  moreover have "keeps (states ?E) ?rerun" by (intro keeps_if keeps_pure quiet_run_io.rerun_quiet [OF q])
  then have "states ?E v2 = states ?E v1" using r by (rule keepsD)
  moreover have "states ?E v3 = states ?E v2" by (rule keepsD [OF quiet_run_io.write_verdict_quiet [OF q refl] p])
  moreover from quiet_run_io.store_run_states [OF q s] obtain cur where
    "states ?E v4 = (states ?E v3)(rx_state_path x := Inr (merge_concurrent_state (io_show ?E) cur st))"
    by (auto simp: is_ok_def)
  moreover have "keeps (states ?E) (abind (\<lambda>w. tell ?E (rx_run_id x) (judge_evaluated opts (relative_or ?E path w) (gs_head g)) w)
      (\<lambda>_. abind (aignore (ae_telemetry ?A (rx_run_id x))) (\<lambda>_. aret (StateVerdict v))))"
    by (intro keeps_abind keeps_aignore keeps_pure quiet_run_io.at_quiet(1) [OF q] quiet_run_io.quiet_calls(5) [OF q])
  then have "states ?E w' = states ?E v4" using t by (rule keepsD)
  ultimately show ?thesis
    using x w1 v marked_reviewed [OF m] by (metis merged_gates)
qed

definition demo_judge :: "disk judge_env" where
  "demo_judge = \<lparr> je_audit = demo_audit, je_redactor = no_redactor, je_stamp = (\<lambda>_. ''s''), je_judge_fences = (\<lambda>_. []) \<rparr>"

definition demo_blocked :: lto_state where
  "demo_blocked = (default_state ''t0'')\<lparr> st_run_id := ''r1'', st_current_phase := ''observe'',
     st_tasks := JArr [jobj [(''id'', JStr ''T1''), (''status'', JStr ''done''),
       (''blockers'', JArr [jobj [(''reason'', JStr ''red'')]])]] \<rparr>"

definition demo_blocked_disk :: disk where
  "demo_blocked_disk = \<lparr> dk_states = [''/r/.lto/r1/state.json'' \<mapsto> demo_blocked],
     dk_texts = [''/r/.lto/current'' \<mapsto> (''r1'' @ [CHR 0x0A])], dk_events = [] \<rparr>"

definition demo_judge_options :: judge_options where
  "demo_judge_options = \<lparr> jg_run_id = None, jg_task_id = None, jg_phase = None, jg_runner = ''codex'', jg_rerun_tests = False,
     jg_case_dir = None, jg_brief = None, jg_baseline_reply = None, jg_candidate_reply = None,
     jg_candidate_runner = None, jg_judge_runner = None, jg_execute = False \<rparr>"

definition demo_judged :: "(string + judge_report) \<times> disk" where
  "demo_judged = cmd_state_judge demo_judge ''/r'' demo_judge_options demo_blocked_disk"

definition verdict_text :: "string + judge_report \<Rightarrow> string" where
  "verdict_text r = (case r of Inr (StateVerdict v) \<Rightarrow> v | _ \<Rightarrow> [])"

text \<open>The verdict on a task with a blocker is \<open>fail\<close>, and its head is the last reviewed one.\<close>

lemma failed_verdict_counts_as_review:
  "prefix (''# LTO Judge Verdict'' @ [CHR 0x0A, CHR 0x0A] @ ''verdict: fail'' @ [CHR 0x0A]) (verdict_text (fst demo_judged))"
  "map_option (\<lambda>st. jget_str (st_gates st) ''last_reviewed_head'') (dk_states (snd demo_judged) ''/r/.lto/r1/state.json'')
     = Some (Some [])"
  by code_simp+

theorem judged_head_counts_as_reviewed_witness:
  "\<exists>x st head. load_run (disk_io (\<lambda>_. True)) ''/r'' None demo_blocked_disk = (Inr x, demo_blocked_disk)
     \<and> states (disk_io (\<lambda>_. True)) (snd demo_judged) =
         (states (disk_io (\<lambda>_. True)) demo_blocked_disk)(rx_state_path x := Inr st)
     \<and> jget_str (st_gates st) ''last_reviewed_head'' = Some head"
proof -
  have "verdict_text (fst demo_judged) \<noteq> []" using failed_verdict_counts_as_review(1) by auto
  then obtain v where v: "fst demo_judged = Inr (StateVerdict v)"
    by (auto simp: verdict_text_def split: sum.splits judge_report.splits)
  then have "cmd_state_judge demo_judge ''/r'' demo_judge_options demo_blocked_disk = (Inr (StateVerdict v), snd demo_judged)"
    by (simp add: demo_judged_def prod_eq_iff)
  from judged_head_counts_as_reviewed [OF _ this]
  show ?thesis
    by (simp add: demo_judge_def demo_audit_def demo_judge_options_def quiet_disk.laws) blast
qed

end
