(* ===== verification/Lto_Resume.thy ===== *)
theory Lto_Resume
  imports Lto_Audit_Ledger Lto_Checks Lto_Decision_Record Lto_Run_Io Lto_Telemetry Lto_Dispatch_Goal
begin

text \<open>
  What a person reads: \<open>src/src/commands/resume.rs\<close> (what has to be validated again when the head has moved),
  \<open>src/src/commands/recap.rs\<close> (the run in plain words, and the evidence across runs) and
  \<open>src/src/commands/ledger_check.rs\<close>. What is printed is a list of lines; clocks are arguments.
\<close>

subsection \<open>Checking a ledger\<close>

record ledger_check_report =
  lc_rounds :: "ledger_round list"
  lc_verdict :: ledger_verdict
  lc_diagnostics :: "ledger_diagnostics option"

definition exit_code :: "ledger_check_report \<Rightarrow> int" where
  "exit_code r =
     (case lc_verdict r of NoObservations \<Rightarrow> 0 | Converged \<Rightarrow> 0 | Converging \<Rightarrow> 0 | Rebound \<Rightarrow> 1 | Stalled \<Rightarrow> 1)"

definition render_check :: "ledger_check_report \<Rightarrow> string" where
  "render_check r = join_str [CHR 0x0A]
     [if lc_rounds r = [] then ''no filled rounds yet'' else (''blocker sequence: '' @ (ledger_sequence (lc_rounds r))),
      (''verdict: '' @ (verdict_str (lc_verdict r))),
      case lc_diagnostics r of
        Some d \<Rightarrow> (''diagnostics: '' @ (diagnostics_summary d))
      | None \<Rightarrow> ''diagnostics: unavailable (no observations)''] @ [CHR 0x0A]"

definition has_summary :: "string \<Rightarrow> bool" where
  "has_summary text = list_ex (\<lambda>l. eq_ignore_ascii_case (trim l) ''## Round Summary'') (str_lines text)"

definition evaluate_text :: "string \<Rightarrow> bool \<Rightarrow> string + ledger_check_report" where
  "evaluate_text text strict =
     (if \<not> has_summary text then Inl ''no Round Summary section''
      else case parse_ledger text of
        Inl e \<Rightarrow> Inl (ledger_error_str e)
      | Inr rounds \<Rightarrow> Inr \<lparr> lc_rounds = rounds, lc_verdict = evaluate_ledger rounds strict,
                            lc_diagnostics = diagnose rounds \<rparr>)"

text \<open>The cause of an error is behind the message that names the file.\<close>

definition evaluate_path :: "'w run_io \<Rightarrow> string \<Rightarrow> bool \<Rightarrow> 'w \<Rightarrow> string + ledger_check_report" where
  "evaluate_path E path strict w =
     (case read_text E path w of
        Inl _ \<Rightarrow> Inl (''cannot read ledger '' @ path)
      | Inr t \<Rightarrow> (case evaluate_text t strict of Inl _ \<Rightarrow> Inl (''cannot parse ledger '' @ path) | Inr r \<Rightarrow> Inr r))"

subsection \<open>Resuming\<close>

definition text_or :: "string \<Rightarrow> string \<Rightarrow> string" where
  "text_or v other = (if trim v = [] then other else v)"

definition touched_files :: "json \<Rightarrow> string list" where
  "touched_files tasks =
     bs_of_list (List.map_filter as_str
       (concat (map (\<lambda>t. opt_get_or [] (jget_with as_array t ''touched_files'')) (json_array tasks))))"

definition revalidatable_tasks :: "json \<Rightarrow> string list" where
  "revalidatable_tasks tasks =
     List.map_filter (\<lambda>t. jget_str t ''id'')
       (filter (\<lambda>t. jget_str t ''status'' \<in> {Some ''in_progress'', Some ''done''}) (json_array tasks))"

definition non_pending_tasks :: "json \<Rightarrow> string list" where
  "non_pending_tasks tasks =
     List.map_filter (\<lambda>t. jget_str t ''id'')
       (filter (\<lambda>t. jget_str t ''status'' \<noteq> Some ''pending'') (json_array tasks))"

definition related_files :: "json \<Rightarrow> string list \<Rightarrow> string list" where
  "related_files tasks changed = take 6 (filter (\<lambda>p. p \<in> set (touched_files tasks)) changed)"

text \<open>The warnings and the tasks to validate again, from how the head has moved.\<close>

definition drift_findings ::
    "string \<Rightarrow> string \<Rightarrow> string \<Rightarrow> string list \<Rightarrow> json \<Rightarrow> string list \<times> string list" where
  "drift_findings drift recorded actual changed tasks =
     (let moved = ((short_head recorded) @ [CHR 0xE2, CHR 0x86, CHR 0x92] @ (short_head actual)); related = related_files tasks changed in
      if drift = ''forward'' then
        (if related \<noteq> []
         then ([(''HEAD advanced ('' @ moved @ ''), related files changed: '' @ (join_str '', '' related))], revalidatable_tasks tasks)
         else if touched_files tasks = []
         then ([(''HEAD advanced ('' @ moved @ ''), no task touched_files recorded; file drift precision unavailable'')], [])
         else ([(''HEAD advanced ('' @ moved @ ''), no related file changes'')], []))
      else if drift = ''rewrite''
        then ([(''HEAD rewritten ('' @ (short_head recorded) @ '' not ancestor of '' @ (short_head actual) @ '')'')], revalidatable_tasks tasks)
      else if drift = ''unreachable''
        then ([(''recorded HEAD '' @ (short_head recorded) @ '' unreachable'')], non_pending_tasks tasks)
      else ([], []))"

definition CLOSED_WARNING :: string where
  "CLOSED_WARNING = ''run is closed; resume is read-only and will not reopen tasks or update recorded HEAD''"

definition resume_findings ::
    "string \<Rightarrow> string \<Rightarrow> string \<Rightarrow> string list \<Rightarrow> bool \<Rightarrow> lto_state \<Rightarrow> string list \<times> string list" where
  "resume_findings drift recorded actual changed dirty st =
     (let (warnings, revalidate) = drift_findings drift recorded actual changed (st_tasks st);
          warnings' = warnings @ (if dirty then [''worktree has uncommitted changes outside .lto''] else []) in
      if st_current_phase st = ''closed'' \<and> revalidate \<noteq> [] then (warnings' @ [CLOSED_WARNING], [])
      else (warnings', revalidate))"

definition value_as_line :: "(json \<Rightarrow> string) \<Rightarrow> json \<Rightarrow> nat \<Rightarrow> string" where
  "value_as_line quote v limit =
     chars_take limit (single_line (case as_str v of Some s \<Rightarrow> s | None \<Rightarrow> if is_null v then [] else quote v))"

definition task_mark :: "json \<Rightarrow> string" where
  "task_mark t = ((opt_get_or ''?'' (jget_str t ''id'')) @ '':'' @ (opt_get_or ''unknown'' (jget_str t ''status'')))"

definition last_n :: "nat \<Rightarrow> 'a list \<Rightarrow> 'a list" where
  "last_n n xs = rev (take n (rev xs))"

definition resume_task_summary :: "json \<Rightarrow> string" where
  "resume_task_summary tasks =
     (if json_array tasks = [] then ''none'' else join_str '', '' (map task_mark (last_n 5 (json_array tasks))))"

definition recent_artifact_line :: "json \<Rightarrow> string" where
  "recent_artifact_line e =
     (let kind = opt_get_or ''other'' (jget_str e ''kind'');
          path = opt_get_or ''?'' (opt_or (jget_str e ''relative_path'') (jget_str e ''run_relative_path''));
          summary = opt_get_or [] (jget_str e ''summary'');
          source = (if jget_str e ''source'' = Some ''synthesized'' then '' (synthesized)'' else [])
      in if summary = [] then (''  - '' @ kind @ '': '' @ path @ source)
         else (''  - '' @ kind @ '': '' @ path @ '' '' @ [CHR 0xE2, CHR 0x80, CHR 0x94] @ '' '' @ (chars_take 80 summary) @ source))"

text \<open>The longest pause between two changes of the phase, when it is a day or more.\<close>

definition gap_lines :: "f64 \<Rightarrow> string list" where
  "gap_lines gap =
     (if f_le (Fin 24) gap
      then [[], ([CHR 0xE2, CHR 0x8F, CHR 0xB3] @ '' '' @ [CHR 0xE8, CHR 0xB7, CHR 0x9D, CHR 0xE4, CHR 0xB8, CHR 0x8A, CHR 0xE6, CHR 0xAC, CHR 0xA1, CHR 0xE6, CHR 0xB4, CHR 0xBB, CHR 0xE5, CHR 0x8A, CHR 0xA8, CHR 0xE7, CHR 0xBA, CHR 0xA6] @ '' '' @ (show_u64 (f_to_u64 gap)) @ '' '' @ [CHR 0xE5, CHR 0xB0, CHR 0x8F, CHR 0xE6, CHR 0x97, CHR 0xB6, CHR 0xEF, CHR 0xBC, CHR 0x88] @ (show_uint (uint (f_to_u64 gap) div 24)) @ '' '' @ [CHR 0xE5, CHR 0xA4, CHR 0xA9, CHR 0xEF, CHR 0xBC, CHR 0x89, CHR 0xE3, CHR 0x80, CHR 0x82, CHR 0xE5, CHR 0xBB, CHR 0xBA, CHR 0xE8, CHR 0xAE, CHR 0xAE, CHR 0xE5, CHR 0x85, CHR 0x88, CHR 0xE7, CHR 0xBB, CHR 0x99, CHR 0xE7, CHR 0x94, CHR 0xA8, CHR 0xE6, CHR 0x88, CHR 0xB7, CHR 0xE8, CHR 0xB7, CHR 0x91] @ '' '' @ [CHR 0x60] @ ''lto recap'' @ [CHR 0x60, CHR 0xE2, CHR 0x80, CHR 0x94, CHR 0xE2, CHR 0x80, CHR 0x94, CHR 0xE9, CHR 0x9A, CHR 0x94, CHR 0xE8, CHR 0xBF, CHR 0x99, CHR 0xE4, CHR 0xB9, CHR 0x88, CHR 0xE4, CHR 0xB9, CHR 0x85, CHR 0xEF, CHR 0xBC, CHR 0x8C, CHR 0xE4, CHR 0xBA, CHR 0xBA, CHR 0xE5, CHR 0x8F, CHR 0xAF, CHR 0xE8, CHR 0x83, CHR 0xBD, CHR 0xE5, CHR 0xBF, CHR 0x98, CHR 0xE4, CHR 0xBA, CHR 0x86, CHR 0xE5, CHR 0x9C, CHR 0xA8, CHR 0xE5, CHR 0x81, CHR 0x9A, CHR 0xE4, CHR 0xBB, CHR 0x80, CHR 0xE4, CHR 0xB9, CHR 0x88, CHR 0xE3, CHR 0x80, CHR 0x81, CHR 0xE4, CHR 0xB8, CHR 0xBA, CHR 0xE4, CHR 0xBB, CHR 0x80, CHR 0xE4, CHR 0xB9, CHR 0x88, CHR 0xE3, CHR 0x80, CHR 0x82])]
      else [])"

definition recorded_head_of :: "lto_state \<Rightarrow> string" where
  "recorded_head_of st = text_or (ws_head (st_workspace st)) ''unknown''"

definition capsule ::
    "(json \<Rightarrow> string) \<Rightarrow> lto_state \<Rightarrow> json list \<Rightarrow> f64 \<Rightarrow> string list \<Rightarrow> string list \<Rightarrow> freshness_report \<Rightarrow> string list" where
  "capsule quote st artifacts gap warnings revalidate decisions =
     (let failure = value_as_line quote (st_last_failure st) 120;
          blocked = opt_get_or ''none'' (as_str (st_blocked_by st));
          unresolved = length (opt_get_or [] (jget_with as_array (st_gates st) ''unresolved_blocks'')) in
      [''=== LTO ACTIVE SESSION ==='', (''Run ID: '' @ (st_run_id st)), (''Goal: '' @ (text_or (st_goal st) ''?'')),
        (''Phase: '' @ (text_or (st_current_phase st) ''unknown'')),
        (''Head: '' @ (short_head (recorded_head_of st)) @ '' ('' @ (text_or (ws_dirty_fingerprint (st_workspace st)) ''?'') @ '')''),
        (''Tasks: '' @ (resume_task_summary (st_tasks st)))]
      @ (if failure = [] then [] else [(''Last Failure: '' @ failure)])
      @ [(''Next: '' @ (value_as_line quote (st_next_action st) 120))]
      @ (if blocked = [] \<or> blocked = ''none'' then [] else [(''Blocked: '' @ blocked)])
      @ (if 0 < unresolved then [(''Unresolved Blocks: '' @ (show_nat unresolved))] else [])
      @ [[], render_freshness_text decisions]
      @ (if artifacts = [] then [] else ''Recent Artifacts:'' # map recent_artifact_line artifacts)
      @ (if warnings = [] then [] else [[], ''Warnings:''] @ map (\<lambda>x. (''  '' @ [CHR 0xE2, CHR 0x9A, CHR 0xA0] @ '' '' @ x)) warnings)
      @ (if revalidate = [] then []
         else [[], ([CHR 0xE2, CHR 0x9A, CHR 0xA0] @ '' '' @ (show_nat (length revalidate)) @ '' tasks require revalidation: '' @ (join_str '', '' (take 5 revalidate)))])
      @ gap_lines gap @ [''===========================''])"

record 'w reader =
  re_io :: "'w run_io"
  re_decision :: "json \<Rightarrow> decision_record option"
  re_rfc :: "string \<Rightarrow> (int \<times> int) option"
  re_naive :: "string \<Rightarrow> string + int"
  re_instant :: "'w \<Rightarrow> int"
  re_seconds :: "'w \<Rightarrow> f64"
  re_live :: "string \<Rightarrow> 'w \<Rightarrow> (string \<times> f64 option) list option"

definition latest_of :: "'w run_io \<Rightarrow> string \<Rightarrow> string \<Rightarrow> nat \<Rightarrow> 'w \<Rightarrow> json list" where
  "latest_of E repo run_id limit w =
     latest_artifacts (case bindr (read_text E (manifest_path repo run_id) w) (io_parse E) of
         Inr m \<Rightarrow> Some m | Inl _ \<Rightarrow> None) limit"

text \<open>The lines that are printed, and the tasks to validate again.\<close>

definition resume_report ::
    "'w reader \<Rightarrow> string \<Rightarrow> string option \<Rightarrow> ('w, string list \<times> string list) act" where
  "resume_report R repo run_id =
     (let E = re_io R in
      abind (load_run E repo run_id) (\<lambda>x.
      let st = rx_state x; recorded = recorded_head_of st in
      abind (ask_git (\<lambda>w. git_status (io_git E) w repo)) (\<lambda>actual.
      abind (ask_git (\<lambda>w. head_drift (io_git E) w repo recorded (gs_head actual))) (\<lambda>drift.
      abind (if drift = ''forward''
             then ask_git (\<lambda>w. git_changed_paths (io_git E) w repo recorded (gs_head actual)) else aret []) (\<lambda>changed.
      let (warnings, revalidate) = resume_findings drift recorded (gs_head actual) changed (gs_dirty actual) st in
      abind (ask_git (\<lambda>w. freshness_report_at (re_decision R) (io_git E) repo st (gs_head actual) w)) (\<lambda>decisions.
      abind (aread (\<lambda>w. Inr (latest_of E repo (rx_run_id x) 6 w))) (\<lambda>artifacts.
        aret (capsule (io_show E) st artifacts (max_session_gap_hours (re_rfc R) st) warnings revalidate decisions,
              revalidate))))))))"

definition cmd_resume :: "'w reader \<Rightarrow> string \<Rightarrow> string option \<Rightarrow> ('w, string list) act" where
  "cmd_resume R repo run_id =
     abind (resume_report R repo run_id) (\<lambda>(lines, revalidate).
       if revalidate = [] then aret lines
       else afail ((show_nat (length revalidate)) @ '' tasks require revalidation: '' @ (join_str '', '' revalidate)))"

subsection \<open>Recap\<close>

definition session_gap_human :: "f64 \<Rightarrow> string" where
  "session_gap_human hours =
     (let h = f_to_u64 hours in
      if f_le (Fin 24) hours then ([CHR 0xE4, CHR 0xB8, CHR 0xAD, CHR 0xE9, CHR 0x97, CHR 0xB4, CHR 0xE6, CHR 0x9C, CHR 0x80, CHR 0xE9, CHR 0x95, CHR 0xBF, CHR 0xE5, CHR 0x81, CHR 0x9C, CHR 0xE4, CHR 0xBA, CHR 0x86] @ '' '' @ (show_u64 h) @ '' '' @ [CHR 0xE5, CHR 0xB0, CHR 0x8F, CHR 0xE6, CHR 0x97, CHR 0xB6, CHR 0xEF, CHR 0xBC, CHR 0x88, CHR 0xE7, CHR 0xBA, CHR 0xA6] @ '' '' @ (show_uint (uint h div 24)) @ '' '' @ [CHR 0xE5, CHR 0xA4, CHR 0xA9, CHR 0xEF, CHR 0xBC, CHR 0x89])
      else if f_le (Fin 2) hours then ([CHR 0xE4, CHR 0xB8, CHR 0xAD, CHR 0xE9, CHR 0x97, CHR 0xB4, CHR 0xE5, CHR 0x81, CHR 0x9C, CHR 0xE8, CHR 0xBF, CHR 0x87] @ '' '' @ (show_u64 h) @ '' '' @ [CHR 0xE5, CHR 0xB0, CHR 0x8F, CHR 0xE6, CHR 0x97, CHR 0xB6])
      else [])"

text \<open>The runners with tokens, the dearest first.\<close>

definition runner_shares :: "token_rollup \<Rightarrow> (string \<times> u64) list" where
  "runner_shares r =
     sort_by (\<lambda>a b. snd b \<le> snd a)
       (map (\<lambda>(k, s). (k, rr_tokens s)) (filter (\<lambda>(k, s). 0 < rr_tokens s) (tr_by_runner r)))"

definition token_summary :: "token_rollup \<Rightarrow> string" where
  "token_summary r =
     (if tr_runs_total r = 0 then []
      else if tr_total_tokens r = 0
      then ([CHR 0xE6, CHR 0x9C, CHR 0xAA, CHR 0xE8, CHR 0xAE, CHR 0xA1, CHR 0xE9, CHR 0x87, CHR 0x8F, CHR 0xEF, CHR 0xBC, CHR 0x88] @ (show_u64 (tr_runs_total r)) @ '' '' @ [CHR 0xE6, CHR 0xAC, CHR 0xA1, CHR 0xE6, CHR 0xB4, CHR 0xBE, CHR 0xE5, CHR 0xB7, CHR 0xA5, CHR 0xEF, CHR 0xBC, CHR 0x8C, CHR 0xE6, CHR 0x97, CHR 0xA0] @ '' runner '' @ [CHR 0xE4, CHR 0xB8, CHR 0x8A, CHR 0xE6, CHR 0x8A, CHR 0xA5] @ '' token'' @ [CHR 0xEF, CHR 0xBC, CHR 0x9B] @ ''agy '' @ [CHR 0xE7, CHR 0xAD, CHR 0x89] @ '' CLI '' @ [CHR 0xE4, CHR 0xB8, CHR 0x8D, CHR 0xE6, CHR 0x9A, CHR 0xB4, CHR 0xE9, CHR 0x9C, CHR 0xB2, CHR 0xE7, CHR 0x94, CHR 0xA8, CHR 0xE9, CHR 0x87, CHR 0x8F, CHR 0xEF, CHR 0xBC, CHR 0x89])
      else let by_runner = join_str [CHR 0xEF, CHR 0xBC, CHR 0x8C] (map (\<lambda>(k, n). (k @ '' '' @ (format_tokens n))) (runner_shares r));
               coverage = (if tr_runs_with_tokens r = tr_runs_total r then []
                           else ([CHR 0xEF, CHR 0xBC, CHR 0x88] @ (show_u64 (tr_runs_with_tokens r)) @ ''/'' @ (show_u64 (tr_runs_total r)) @ '' '' @ [CHR 0xE6, CHR 0xAC, CHR 0xA1, CHR 0xE6, CHR 0xB4, CHR 0xBE, CHR 0xE5, CHR 0xB7, CHR 0xA5, CHR 0xE6, CHR 0x9C, CHR 0x89, CHR 0xE8, CHR 0xAE, CHR 0xA1, CHR 0xE9, CHR 0x87, CHR 0x8F, CHR 0xEF, CHR 0xBC, CHR 0x89]));
               elapsed = (if f_lt (Fin 0) (tr_total_elapsed_sec r)
                          then ('' '' @ [CHR 0xC2, CHR 0xB7] @ '' '' @ [CHR 0xE6, CHR 0xB4, CHR 0xBE, CHR 0xE5, CHR 0xB7, CHR 0xA5, CHR 0xE7, CHR 0xB4, CHR 0xAF, CHR 0xE8, CHR 0xAE, CHR 0xA1] @ '' '' @ (format_duration (tr_total_elapsed_sec r))) else [])
           in ([CHR 0xE7, CHR 0xBA, CHR 0xA6] @ '' '' @ (format_tokens (tr_total_tokens r)) @ '' tokens'' @ coverage @ [CHR 0xEF, CHR 0xBC, CHR 0x9A] @ by_runner @ elapsed))"

definition task_title :: "json \<Rightarrow> string" where
  "task_title t = opt_get_or ''?'' (Option.bind (opt_or (jget t ''title'') (jget t ''id'')) as_str)"

definition done_summary :: "json list \<Rightarrow> lto_state \<Rightarrow> string" where
  "done_summary finished st =
     (if finished = [] then
        (let phases = filter (\<lambda>p. p \<noteq> []) (List.map_filter (\<lambda>t. jget_str t ''to'') (json_array (st_phase_transitions st))) in
         if phases = [] then [CHR 0xE8, CHR 0xBF, CHR 0x98, CHR 0xE6, CHR 0xB2, CHR 0xA1, CHR 0xE6, CHR 0x9C, CHR 0x89, CHR 0xE5, CHR 0xAE, CHR 0x8C, CHR 0xE6, CHR 0x88, CHR 0x90, CHR 0xE7, CHR 0x9A, CHR 0x84, CHR 0xE4, CHR 0xBB, CHR 0xBB, CHR 0xE5, CHR 0x8A, CHR 0xA1] else ([CHR 0xE8, CHR 0xB5, CHR 0xB0, CHR 0xE8, CHR 0xBF, CHR 0x87, CHR 0xE9, CHR 0x98, CHR 0xB6, CHR 0xE6, CHR 0xAE, CHR 0xB5, CHR 0xEF, CHR 0xBC, CHR 0x9A] @ (join_str ('' '' @ [CHR 0xE2, CHR 0x86, CHR 0x92] @ '' '') phases)))
      else let titles = map task_title finished;
               more = (if 4 < length titles then ('' '' @ [CHR 0xE7, CHR 0xAD, CHR 0x89] @ '' '' @ (show_nat (length titles)) @ '' '' @ [CHR 0xE9, CHR 0xA1, CHR 0xB9]) else [])
           in ([CHR 0xE5, CHR 0xB7, CHR 0xB2, CHR 0xE5, CHR 0xAE, CHR 0x8C, CHR 0xE6, CHR 0x88, CHR 0x90] @ '' '' @ (show_nat (length finished)) @ '' '' @ [CHR 0xE9, CHR 0xA1, CHR 0xB9, CHR 0xEF, CHR 0xBC, CHR 0x9A] @ (join_str [CHR 0xE3, CHR 0x80, CHR 0x81] (take 4 titles)) @ more))"

definition last_blocker_reason :: "json \<Rightarrow> string" where
  "last_blocker_reason t =
     opt_get_or [] (map_option single_line
       (Option.bind (Option.bind (jget_with as_array t ''blockers'') last_opt) (\<lambda>b. jget_str b ''reason'')))"

definition remaining_parts :: "json list \<Rightarrow> json list \<Rightarrow> string list" where
  "remaining_parts pending blocked =
     (case blocked of
        [] \<Rightarrow> []
      | b # _ \<Rightarrow> (let reason = last_blocker_reason b in
          if reason = [] then [((show_nat (length blocked)) @ '' '' @ [CHR 0xE9, CHR 0xA1, CHR 0xB9, CHR 0xE5, CHR 0x8D, CHR 0xA1, CHR 0xE4, CHR 0xBD, CHR 0x8F])]
          else [((show_nat (length blocked)) @ '' '' @ [CHR 0xE9, CHR 0xA1, CHR 0xB9, CHR 0xE5, CHR 0x8D, CHR 0xA1, CHR 0xE4, CHR 0xBD, CHR 0x8F, CHR 0xEF, CHR 0xBC, CHR 0x88, CHR 0xE5, CHR 0x8D, CHR 0xA1, CHR 0xE5, CHR 0x9C, CHR 0xA8, CHR 0xEF, CHR 0xBC, CHR 0x9A] @ (chars_take 40 reason) @ [CHR 0xEF, CHR 0xBC, CHR 0x89])]))
     @ (if pending = [] then [] else [((show_nat (length pending)) @ '' '' @ [CHR 0xE9, CHR 0xA1, CHR 0xB9, CHR 0xE5, CHR 0xBE, CHR 0x85, CHR 0xE5, CHR 0x81, CHR 0x9A])])"

definition remaining_summary :: "json list \<Rightarrow> json list \<Rightarrow> string \<Rightarrow> string" where
  "remaining_summary pending blocked done_when =
     (let parts = remaining_parts pending blocked in
      if parts = [] then
        (if trim done_when = [] then [CHR 0xE7, CHR 0x9C, CHR 0x8B, CHR 0xE8, CHR 0xB5, CHR 0xB7, CHR 0xE6, CHR 0x9D, CHR 0xA5, CHR 0xE4, CHR 0xBB, CHR 0xBB, CHR 0xE5, CHR 0x8A, CHR 0xA1, CHR 0xE9, CHR 0x83, CHR 0xBD, CHR 0xE5, CHR 0xAE, CHR 0x8C, CHR 0xE6, CHR 0x88, CHR 0x90, CHR 0xE4, CHR 0xBA, CHR 0x86] else ([CHR 0xE7, CHR 0x9C, CHR 0x8B, CHR 0xE8, CHR 0xB5, CHR 0xB7, CHR 0xE6, CHR 0x9D, CHR 0xA5, CHR 0xE9, CHR 0x83, CHR 0xBD, CHR 0xE5, CHR 0x81, CHR 0x9A, CHR 0xE5, CHR 0xAE, CHR 0x8C, CHR 0xE4, CHR 0xBA, CHR 0x86, CHR 0xE3, CHR 0x80, CHR 0x82, CHR 0xE9, CHR 0xAA, CHR 0x8C, CHR 0xE6, CHR 0x94, CHR 0xB6, CHR 0xE6, CHR 0xA0, CHR 0x87, CHR 0xE5, CHR 0x87, CHR 0x86, CHR 0xEF, CHR 0xBC, CHR 0x9A] @ (single_line done_when)))
      else join_str [CHR 0xEF, CHR 0xBC, CHR 0x9B] parts
           @ (if trim done_when = [] then [] else ([CHR 0xE3, CHR 0x80, CHR 0x82, CHR 0xE7, CHR 0xAE, CHR 0x97, CHR 0xE5, CHR 0x81, CHR 0x9A, CHR 0xE5, CHR 0xAE, CHR 0x8C, CHR 0xE7, CHR 0x9A, CHR 0x84, CHR 0xE6, CHR 0xA0, CHR 0x87, CHR 0xE5, CHR 0x87, CHR 0x86, CHR 0xEF, CHR 0xBC, CHR 0x9A] @ (single_line done_when))))"

definition next_for_human :: "lto_state \<Rightarrow> json list \<Rightarrow> string \<Rightarrow> string \<Rightarrow> string" where
  "next_for_human st blocked next_action blocked_by =
     (if st_current_phase st = ''closed'' then ([CHR 0xE8, CHR 0xBF, CHR 0x99, CHR 0xE4, CHR 0xB8, CHR 0xAA, CHR 0xE4, CHR 0xBB, CHR 0xBB, CHR 0xE5, CHR 0x8A, CHR 0xA1, CHR 0xE5, CHR 0xB7, CHR 0xB2, CHR 0xE7, CHR 0xBB, CHR 0x8F, CHR 0xE6, CHR 0x94, CHR 0xB6, CHR 0xE5, CHR 0xB0, CHR 0xBE, CHR 0xEF, CHR 0xBC, CHR 0x88] @ ''closed'' @ [CHR 0xEF, CHR 0xBC, CHR 0x89, CHR 0xE3, CHR 0x80, CHR 0x82, CHR 0xE5, CHR 0x8F, CHR 0xAF, CHR 0xE4, CHR 0xBB, CHR 0xA5, CHR 0xE5, CHR 0xBC, CHR 0x80, CHR 0xE6, CHR 0x96, CHR 0xB0, CHR 0xE7, CHR 0x9A, CHR 0x84, CHR 0xE4, CHR 0xBA, CHR 0x86, CHR 0xE3, CHR 0x80, CHR 0x82])
      else if trim blocked_by \<noteq> [] \<and> blocked_by \<noteq> ''none'' then ([CHR 0xE9, CHR 0x9C, CHR 0x80, CHR 0xE8, CHR 0xA6, CHR 0x81, CHR 0xE4, CHR 0xBD, CHR 0xA0, CHR 0xE5, CHR 0xA4, CHR 0x84, CHR 0xE7, CHR 0x90, CHR 0x86, CHR 0xEF, CHR 0xBC, CHR 0x9A] @ (single_line blocked_by))
      else if blocked \<noteq> [] then ([CHR 0xE5, CHR 0x86, CHR 0xB3, CHR 0xE5, CHR 0xAE, CHR 0x9A, CHR 0xE6, CHR 0x80, CHR 0x8E, CHR 0xE4, CHR 0xB9, CHR 0x88, CHR 0xE5, CHR 0xA4, CHR 0x84, CHR 0xE7, CHR 0x90, CHR 0x86, CHR 0xE9, CHR 0x82, CHR 0xA3] @ '' '' @ (show_nat (length blocked)) @ '' '' @ [CHR 0xE4, CHR 0xB8, CHR 0xAA, CHR 0xE5, CHR 0x8D, CHR 0xA1, CHR 0xE4, CHR 0xBD, CHR 0x8F, CHR 0xE7, CHR 0x9A, CHR 0x84, CHR 0xE4, CHR 0xBB, CHR 0xBB, CHR 0xE5, CHR 0x8A, CHR 0xA1, CHR 0xEF, CHR 0xBC, CHR 0x88, CHR 0xE4, CHR 0xBF, CHR 0xAE, CHR 0xE3, CHR 0x80, CHR 0x81, CHR 0xE8, CHR 0xB7, CHR 0xB3, CHR 0xE8, CHR 0xBF, CHR 0x87, CHR 0xE3, CHR 0x80, CHR 0x81, CHR 0xE8, CHR 0xBF, CHR 0x98, CHR 0xE6, CHR 0x98, CHR 0xAF, CHR 0xE6, CHR 0x8D, CHR 0xA2, CHR 0xE6, CHR 0x80, CHR 0x9D, CHR 0xE8, CHR 0xB7, CHR 0xAF, CHR 0xEF, CHR 0xBC, CHR 0x89])
      else if trim next_action \<noteq> [] then single_line next_action
      else ([CHR 0xE8, CHR 0xB7, CHR 0x91] @ '' '' @ [CHR 0x60] @ ''lto next'' @ [CHR 0x60] @ '' '' @ [CHR 0xE7, CHR 0x9C, CHR 0x8B, CHR 0xE7, CHR 0xB3, CHR 0xBB, CHR 0xE7, CHR 0xBB, CHR 0x9F, CHR 0xE5, CHR 0xBB, CHR 0xBA, CHR 0xE8, CHR 0xAE, CHR 0xAE, CHR 0xE7, CHR 0x9A, CHR 0x84, CHR 0xE4, CHR 0xB8, CHR 0x8B, CHR 0xE4, CHR 0xB8, CHR 0x80, CHR 0xE6, CHR 0xAD, CHR 0xA5, CHR 0xEF, CHR 0xBC, CHR 0x8C, CHR 0xE6, CHR 0x88, CHR 0x96, CHR 0xE7, CHR 0xBB, CHR 0xA7, CHR 0xE7, CHR 0xBB, CHR 0xAD, CHR 0xE6, CHR 0x8E, CHR 0xA8, CHR 0xE8, CHR 0xBF, CHR 0x9B, CHR 0xE5, CHR 0xBE, CHR 0x85, CHR 0xE5, CHR 0x81, CHR 0x9A, CHR 0xE9, CHR 0xA1, CHR 0xB9]))"

definition artifact_mark :: "json \<Rightarrow> string" where
  "artifact_mark e =
     (let marker = (if jget_str e ''source'' = Some ''synthesized'' then ''*'' else []);
          kind = opt_get_or ''other'' (jget_str e ''kind'');
          path = opt_get_or ''?'' (Option.bind (opt_or (jget e ''run_relative_path'') (jget e ''relative_path'')) as_str)
      in (kind @ '':'' @ path @ marker))"

definition artifact_summary :: "json list \<Rightarrow> string" where
  "artifact_summary entries =
     (if entries = [] then [CHR 0xE6, CHR 0x9C, CHR 0xAA, CHR 0xE5, CHR 0x8F, CHR 0x91, CHR 0xE7, CHR 0x8E, CHR 0xB0, CHR 0xE5, CHR 0xB7, CHR 0xB2, CHR 0xE7, CHR 0x99, CHR 0xBB, CHR 0xE8, CHR 0xAE, CHR 0xB0, CHR 0xE4, CHR 0xBA, CHR 0xA7, CHR 0xE7, CHR 0x89, CHR 0xA9] else join_str [CHR 0xEF, CHR 0xBC, CHR 0x9B] (map artifact_mark entries))"

text \<open>The extension of a file's name, unless the name has nothing before its last dot.\<close>

definition extension_of :: "string \<Rightarrow> string option" where
  "extension_of n =
     (if CHR ''.'' \<in> set n \<and> tl (dropWhile (\<lambda>c. c \<noteq> CHR ''.'') (rev n)) \<noteq> []
      then Some (rev (takeWhile (\<lambda>c. c \<noteq> CHR ''.'') (rev n))) else None)"

text \<open>The age of a log and how it is said; a log without a time of change is left out.\<close>

definition running_job :: "f64 \<Rightarrow> f64 \<Rightarrow> string \<times> f64 option \<Rightarrow> string option" where
  "running_job now window_sec p =
     (case p of (name, changed) \<Rightarrow>
        if extension_of name \<noteq> Some ''log'' then None
        else case changed of
          None \<Rightarrow> None
        | Some secs \<Rightarrow>
            (let age = f_add now (f_neg secs) in
             if f_le age window_sec then
               Some ((stem_of name) @ [CHR 0xEF, CHR 0xBC, CHR 0x88] @ (if f_lt age (Fin 1) then [CHR 0xE5, CHR 0x88, CHR 0x9A, CHR 0xE6, CHR 0x9C, CHR 0x89, CHR 0xE8, CHR 0xBE, CHR 0x93, CHR 0xE5, CHR 0x87, CHR 0xBA] else ((show_u64 (f_to_u64 age)) @ [CHR 0xE7, CHR 0xA7, CHR 0x92, CHR 0xE5, CHR 0x89, CHR 0x8D, CHR 0xE6, CHR 0x9C, CHR 0x89, CHR 0xE8, CHR 0xBE, CHR 0x93, CHR 0xE5, CHR 0x87, CHR 0xBA])) @ [CHR 0xEF, CHR 0xBC, CHR 0x89])
             else None))"

definition running_jobs :: "f64 \<Rightarrow> f64 \<Rightarrow> (string \<times> f64 option) list option \<Rightarrow> string list" where
  "running_jobs now window_sec entries =
     (case entries of None \<Rightarrow> [] | Some es \<Rightarrow> sort (List.map_filter (running_job now window_sec) es))"

definition with_status :: "string \<Rightarrow> lto_state \<Rightarrow> json list" where
  "with_status s st = filter (\<lambda>t. jget_str t ''status'' = Some s) (json_array (st_tasks st))"

definition render_recap :: "'w reader \<Rightarrow> lto_state \<Rightarrow> string \<Rightarrow> string \<Rightarrow> bool \<Rightarrow> f64 \<Rightarrow> 'w \<Rightarrow> string" where
  "render_recap R st run_id repo include_artifacts live_window_sec w =
     (let E = re_io R;
          why = (if trim (st_why st) \<noteq> [] then st_why st else st_original_user_request st);
          gap = session_gap_human (max_session_gap_hours (re_rfc R) st);
          blocked = with_status ''blocked'' st;
          rollup = token_rollup_of (io_result_of E) st;
          budget = check_budget (re_rfc R) (re_naive R) (Some (st_budget st)) (st_started_at st)
                     (tr_total_tokens rollup) (io_now E w);
          running = running_jobs (re_seconds R w) live_window_sec (re_live R (path_join (run_dir_of repo run_id) ''live'') w)
      in join_str [CHR 0x0A]
       ([([CHR 0xE2, CHR 0x95, CHR 0xAD, CHR 0xE2, CHR 0x94, CHR 0x80] @ '' LTO Recap '' @ [CHR 0xE2, CHR 0x94, CHR 0x80] @ '' '' @ [CHR 0xE7, CHR 0xBB, CHR 0x99, CHR 0xE4, CHR 0xBA, CHR 0xBA, CHR 0xE7, CHR 0x9C, CHR 0x8B, CHR 0xE7, CHR 0x9A, CHR 0x84, CHR 0xE5, CHR 0x9B, CHR 0x9E, CHR 0xE9, CHR 0xA1, CHR 0xBE, CHR 0xEF, CHR 0xBC, CHR 0x88, CHR 0xE4, CHR 0xB8, CHR 0x8D, CHR 0xE6, CHR 0x98, CHR 0xAF, CHR 0xE7, CHR 0xBB, CHR 0x99] @ '' AI '' @ [CHR 0xE7, CHR 0x9C, CHR 0x8B, CHR 0xE7, CHR 0x9A, CHR 0x84, CHR 0xE7, CHR 0x8A, CHR 0xB6, CHR 0xE6, CHR 0x80, CHR 0x81, CHR 0xEF, CHR 0xBC, CHR 0x89]), [CHR 0xE2, CHR 0x94, CHR 0x82], ([CHR 0xE2, CHR 0x94, CHR 0x82] @ '' '' @ [CHR 0xE4, CHR 0xBD, CHR 0xA0, CHR 0xE5, CHR 0xBD, CHR 0x93, CHR 0xE5, CHR 0x88, CHR 0x9D, CHR 0xE8, CHR 0xA6, CHR 0x81, CHR 0xE5, CHR 0x81, CHR 0x9A, CHR 0xE4, CHR 0xBB, CHR 0x80, CHR 0xE4, CHR 0xB9, CHR 0x88] @ '' '' @ [CHR 0xE2, CHR 0x94, CHR 0x80, CHR 0xE2, CHR 0x94, CHR 0x80] @ '' '' @ (text_or (st_goal st) (''('' @ [CHR 0xE6, CHR 0x9C, CHR 0xAA, CHR 0xE8, CHR 0xAE, CHR 0xB0, CHR 0xE5, CHR 0xBD, CHR 0x95, CHR 0xE7, CHR 0x9B, CHR 0xAE, CHR 0xE6, CHR 0xA0, CHR 0x87] @ '')'')))]
        @ [if trim why \<noteq> [] \<and> why \<noteq> st_goal st then ([CHR 0xE2, CHR 0x94, CHR 0x82] @ '' '' @ [CHR 0xE4, CHR 0xB8, CHR 0xBA, CHR 0xE4, CHR 0xBB, CHR 0x80, CHR 0xE4, CHR 0xB9, CHR 0x88, CHR 0xE8, CHR 0xA6, CHR 0x81, CHR 0xE5, CHR 0x81, CHR 0x9A] @ '' '' @ [CHR 0xE2, CHR 0x94, CHR 0x80, CHR 0xE2, CHR 0x94, CHR 0x80, CHR 0xE2, CHR 0x94, CHR 0x80, CHR 0xE2, CHR 0x94, CHR 0x80, CHR 0xE2, CHR 0x94, CHR 0x80, CHR 0xE2, CHR 0x94, CHR 0x80] @ '' '' @ (single_line why))
           else ([CHR 0xE2, CHR 0x94, CHR 0x82] @ '' '' @ [CHR 0xE4, CHR 0xB8, CHR 0xBA, CHR 0xE4, CHR 0xBB, CHR 0x80, CHR 0xE4, CHR 0xB9, CHR 0x88, CHR 0xE8, CHR 0xA6, CHR 0x81, CHR 0xE5, CHR 0x81, CHR 0x9A] @ '' '' @ [CHR 0xE2, CHR 0x94, CHR 0x80, CHR 0xE2, CHR 0x94, CHR 0x80, CHR 0xE2, CHR 0x94, CHR 0x80, CHR 0xE2, CHR 0x94, CHR 0x80, CHR 0xE2, CHR 0x94, CHR 0x80, CHR 0xE2, CHR 0x94, CHR 0x80] @ '' '' @ [CHR 0xEF, CHR 0xBC, CHR 0x88, CHR 0xE6, CHR 0x9C, CHR 0xAA, CHR 0xE8, CHR 0xAE, CHR 0xB0, CHR 0xE5, CHR 0xBD, CHR 0x95] @ '' '' @ [CHR 0xE2, CHR 0x80, CHR 0x94] @ '' '' @ [CHR 0xE4, CHR 0xB8, CHR 0x8B, CHR 0xE6, CHR 0xAC, CHR 0xA1] @ '' lto start '' @ [CHR 0xE5, CHR 0x8A, CHR 0xA0] @ '' --why '' @ [CHR 0xE8, CHR 0xA1, CHR 0xA5, CHR 0xE4, CHR 0xB8, CHR 0x8A, CHR 0xEF, CHR 0xBC, CHR 0x89])]
        @ [([CHR 0xE2, CHR 0x94, CHR 0x82] @ '' '' @ [CHR 0xE8, CHR 0xB7, CHR 0x91, CHR 0xE4, CHR 0xBA, CHR 0x86, CHR 0xE5, CHR 0xA4, CHR 0x9A, CHR 0xE4, CHR 0xB9, CHR 0x85] @ '' '' @ [CHR 0xE2, CHR 0x94, CHR 0x80, CHR 0xE2, CHR 0x94, CHR 0x80, CHR 0xE2, CHR 0x94, CHR 0x80, CHR 0xE2, CHR 0x94, CHR 0x80, CHR 0xE2, CHR 0x94, CHR 0x80, CHR 0xE2, CHR 0x94, CHR 0x80, CHR 0xE2, CHR 0x94, CHR 0x80, CHR 0xE2, CHR 0x94, CHR 0x80] @ '' '' @ (elapsed_human (re_rfc R) (re_instant R w) (st_started_at st))) @ (if gap = [] then [] else ([CHR 0xEF, CHR 0xBC, CHR 0x8C] @ gap))]
        @ [([CHR 0xE2, CHR 0x94, CHR 0x82] @ '' '' @ [CHR 0xE5, CHR 0xB7, CHR 0xB2, CHR 0xE7, CHR 0xBB, CHR 0x8F, CHR 0xE5, CHR 0x81, CHR 0x9A, CHR 0xE5, CHR 0x88, CHR 0xB0, CHR 0xE5, CHR 0x93, CHR 0xAA] @ '' '' @ [CHR 0xE2, CHR 0x94, CHR 0x80, CHR 0xE2, CHR 0x94, CHR 0x80, CHR 0xE2, CHR 0x94, CHR 0x80, CHR 0xE2, CHR 0x94, CHR 0x80, CHR 0xE2, CHR 0x94, CHR 0x80, CHR 0xE2, CHR 0x94, CHR 0x80] @ '' '' @ (done_summary (with_status ''done'' st) st)),
           ([CHR 0xE2, CHR 0x94, CHR 0x82] @ '' '' @ [CHR 0xE8, CHR 0xBF, CHR 0x98, CHR 0xE5, CHR 0x89, CHR 0xA9, CHR 0xE4, CHR 0xBB, CHR 0x80, CHR 0xE4, CHR 0xB9, CHR 0x88] @ '' '' @ [CHR 0xE2, CHR 0x94, CHR 0x80, CHR 0xE2, CHR 0x94, CHR 0x80, CHR 0xE2, CHR 0x94, CHR 0x80, CHR 0xE2, CHR 0x94, CHR 0x80, CHR 0xE2, CHR 0x94, CHR 0x80, CHR 0xE2, CHR 0x94, CHR 0x80, CHR 0xE2, CHR 0x94, CHR 0x80, CHR 0xE2, CHR 0x94, CHR 0x80] @ '' '' @ (remaining_summary (with_status ''pending'' st) blocked (st_done_when st)))]
        @ (if token_summary rollup = [] then [] else [([CHR 0xE2, CHR 0x94, CHR 0x82] @ '' '' @ [CHR 0xE8, CHR 0x8A, CHR 0xB1, CHR 0xE4, CHR 0xBA, CHR 0x86, CHR 0xE5, CHR 0xA4, CHR 0x9A, CHR 0xE5, CHR 0xB0, CHR 0x91] @ '' token '' @ [CHR 0xE2, CHR 0x94, CHR 0x80, CHR 0xE2, CHR 0x94, CHR 0x80] @ '' '' @ (token_summary rollup))])
        @ map (\<lambda>x. ([CHR 0xE2, CHR 0x94, CHR 0x82] @ '' '' @ x)) (bc_warnings budget)
        @ [([CHR 0xE2, CHR 0x94, CHR 0x82] @ '' '' @ [CHR 0xE7, CHR 0x8E, CHR 0xB0, CHR 0xE5, CHR 0x9C, CHR 0xA8, CHR 0xE8, CHR 0xBD, CHR 0xAE, CHR 0xE5, CHR 0x88, CHR 0xB0, CHR 0xE4, CHR 0xBD, CHR 0xA0] @ '' '' @ [CHR 0xE2, CHR 0x94, CHR 0x80, CHR 0xE2, CHR 0x94, CHR 0x80, CHR 0xE2, CHR 0x94, CHR 0x80, CHR 0xE2, CHR 0x94, CHR 0x80, CHR 0xE2, CHR 0x94, CHR 0x80, CHR 0xE2, CHR 0x94, CHR 0x80] @ '' '' @ (next_for_human st blocked (opt_get_or [] (as_str (st_next_action st))) (opt_get_or ''none'' (as_str (st_blocked_by st)))))]
        @ (if include_artifacts then [([CHR 0xE2, CHR 0x94, CHR 0x82] @ '' '' @ [CHR 0xE5, CHR 0x85, CHR 0xB3, CHR 0xE9, CHR 0x94, CHR 0xAE, CHR 0xE4, CHR 0xBA, CHR 0xA7, CHR 0xE7, CHR 0x89, CHR 0xA9] @ '' '' @ [CHR 0xE2, CHR 0x94, CHR 0x80, CHR 0xE2, CHR 0x94, CHR 0x80, CHR 0xE2, CHR 0x94, CHR 0x80, CHR 0xE2, CHR 0x94, CHR 0x80, CHR 0xE2, CHR 0x94, CHR 0x80, CHR 0xE2, CHR 0x94, CHR 0x80, CHR 0xE2, CHR 0x94, CHR 0x80, CHR 0xE2, CHR 0x94, CHR 0x80] @ '' '' @ (artifact_summary (latest_of E repo run_id 5 w)))] else [])
        @ (if running = [] then [] else [([CHR 0xE2, CHR 0x94, CHR 0x82] @ '' '' @ [CHR 0xE5, CHR 0xBD, CHR 0x93, CHR 0xE5, CHR 0x89, CHR 0x8D, CHR 0xE5, CHR 0x9C, CHR 0xA8, CHR 0xE8, CHR 0xB7, CHR 0x91] @ '' '' @ [CHR 0xE2, CHR 0x94, CHR 0x80, CHR 0xE2, CHR 0x94, CHR 0x80, CHR 0xE2, CHR 0x94, CHR 0x80, CHR 0xE2, CHR 0x94, CHR 0x80, CHR 0xE2, CHR 0x94, CHR 0x80, CHR 0xE2, CHR 0x94, CHR 0x80, CHR 0xE2, CHR 0x94, CHR 0x80, CHR 0xE2, CHR 0x94, CHR 0x80] @ '' '' @ (join_str [CHR 0xEF, CHR 0xBC, CHR 0x9B] running))])
        @ [[CHR 0xE2, CHR 0x94, CHR 0x82], ([CHR 0xE2, CHR 0x95, CHR 0xB0, CHR 0xE2, CHR 0x94, CHR 0x80] @ '' run: '' @ run_id @ ''  phase: '' @ (text_or (st_current_phase st) ''?''))]))"

definition evidence_failure_rate :: "cross_run_entry \<Rightarrow> f64" where
  "evidence_failure_rate e =
     (if ee_distinct_runs e = 0 then Fin 0 else f_div (f_of_nat (ce_failed e)) (f_of_nat (ee_distinct_runs e)))"

definition format_opt_seconds :: "f64 option \<Rightarrow> string" where
  "format_opt_seconds v = (case v of Some x \<Rightarrow> ((show_tenths x) @ ''s'') | None \<Rightarrow> ''-'')"

definition format_opt_float :: "f64 option \<Rightarrow> string" where
  "format_opt_float v = (case v of Some x \<Rightarrow> show_tenths x | None \<Rightarrow> ''-'')"

definition percent :: "f64 \<Rightarrow> string" where
  "percent rate = ((show_tenths (f_mul rate (Fin 100))) @ ''%'')"

definition evidence_row :: "cross_run_entry \<Rightarrow> string" where
  "evidence_row e =
     (''| '' @ (ee_runner e) @ '' | '' @ (ee_model e) @ '' | '' @ (ee_task_type e) @ '' | '' @ (ce_time_window e) @ '' | '' @ (show_nat (ee_distinct_runs e)) @ '' | '' @ (percent (evidence_failure_rate e)) @ '' | '' @ (format_opt_seconds (ce_avg_elapsed_sec e)) @ '' | '' @ (format_opt_float (ce_avg_retry e)) @ '' | '' @ (format_opt_float (ce_avg_audit_rounds e)) @ '' | '' @ (show_nat (ce_agent_dispatch_completed e)) @ '' | '' @ (if ee_subjective e then [CHR 0xE4, CHR 0xB8, CHR 0xBB, CHR 0xE8, CHR 0xA7, CHR 0x82, CHR 0xE9, CHR 0x9D, CHR 0x9E, CHR 0xE6, CHR 0xB5, CHR 0x8B, CHR 0xE9, CHR 0x87, CHR 0x8F] else [CHR 0xE5, CHR 0xAE, CHR 0xA2, CHR 0xE8, CHR 0xA7, CHR 0x82, CHR 0xE6, CHR 0xB5, CHR 0x8B, CHR 0xE9, CHR 0x87, CHR 0x8F]) @ '' |'')"

definition evidence_signals :: "cross_run_entry \<Rightarrow> string list" where
  "evidence_signals e =
     (let rate = evidence_failure_rate e; rounds = opt_get_or (Fin 0) (ce_avg_audit_rounds e) in
      (if f_le (fl (3 / 10)) rate \<and> 3 \<le> ee_distinct_runs e
       then [(''WARN '' @ (ee_runner e) @ '' ('' @ (ee_model e) @ '') '' @ [CHR 0xE5, CHR 0x9C, CHR 0xA8] @ '' '' @ (ee_task_type e) @ '' '' @ [CHR 0xE7, CHR 0xB1, CHR 0xBB, CHR 0xE4, CHR 0xBB, CHR 0xBB, CHR 0xE5, CHR 0x8A, CHR 0xA1] @ '' failure_rate='' @ (percent rate) @ '' over '' @ (show_nat (ee_distinct_runs e)) @ '' distinct runs'' @ [CHR 0xE3, CHR 0x80, CHR 0x82])]
       else [])
      @ (if f_le (Fin 3) rounds
         then [(''WARN '' @ (ee_runner e) @ '' ('' @ (ee_model e) @ '') '' @ [CHR 0xE5, CHR 0x85, CHR 0xB3, CHR 0xE8, CHR 0x81, CHR 0x94] @ '' runs '' @ [CHR 0xE5, CHR 0xB9, CHR 0xB3, CHR 0xE5, CHR 0x9D, CHR 0x87] @ '' audit '' @ [CHR 0xE6, CHR 0x94, CHR 0xB6, CHR 0xE6, CHR 0x95, CHR 0x9B, CHR 0xE8, CHR 0xBD, CHR 0xAE, CHR 0xE6, CHR 0xAC, CHR 0xA1] @ '' '' @ (show_tenths rounds) @ [CHR 0xE3, CHR 0x80, CHR 0x82])] else []))"

definition render_evidence_brief :: "evidence_report \<Rightarrow> string" where
  "render_evidence_brief ev =
     (let intro = [''=== LTO Cross-Run Tuning Brief ==='', ([CHR 0xE5, CHR 0x8F, CHR 0xAA, CHR 0xE8, CHR 0xAF, CHR 0xBB, CHR 0xE5, CHR 0x88, CHR 0x86, CHR 0xE6, CHR 0x9E, CHR 0x90, CHR 0xEF, CHR 0xBC, CHR 0x9A, CHR 0xE4, CHR 0xB8, CHR 0x8D, CHR 0xE5, CHR 0x86, CHR 0x99, CHR 0xE9, CHR 0x85, CHR 0x8D, CHR 0xE7, CHR 0xBD, CHR 0xAE, CHR 0xE3, CHR 0x80, CHR 0x81, CHR 0xE4, CHR 0xB8, CHR 0x8D, CHR 0xE6, CHR 0x94, CHR 0xB9] @ '' runner '' @ [CHR 0xE4, CHR 0xBC, CHR 0x98, CHR 0xE5, CHR 0x85, CHR 0x88, CHR 0xE7, CHR 0xBA, CHR 0xA7, CHR 0xE3, CHR 0x80, CHR 0x81, CHR 0xE4, CHR 0xB8, CHR 0x8D, CHR 0xE8, CHR 0x87, CHR 0xAA, CHR 0xE5, CHR 0x8A, CHR 0xA8] @ '' route/promote'' @ [CHR 0xE3, CHR 0x80, CHR 0x82]),
                   (''runs_scanned: '' @ (show_nat (cr_run_count ev))), []];
          signals = concat (map evidence_signals (cr_entries ev))
      in join_str [CHR 0x0A]
       (if cr_entries ev = [] then intro @ [([CHR 0xE6, CHR 0x9C, CHR 0xAA, CHR 0xE5, CHR 0x8F, CHR 0x91, CHR 0xE7, CHR 0x8E, CHR 0xB0, CHR 0xE5, CHR 0x8F, CHR 0xAF, CHR 0xE7, CHR 0x94, CHR 0xA8, CHR 0xE7, CHR 0x9A, CHR 0x84] @ '' runner.finished '' @ [CHR 0xE6, CHR 0x88, CHR 0x96] @ '' agent.dispatch.completed '' @ [CHR 0xE4, CHR 0xBA, CHR 0x8B, CHR 0xE4, CHR 0xBB, CHR 0xB6, CHR 0xE3, CHR 0x80, CHR 0x82])]
        else intro
          @ [(''| Runner | Model | '' @ [CHR 0xE4, CHR 0xBB, CHR 0xBB, CHR 0xE5, CHR 0x8A, CHR 0xA1, CHR 0xE7, CHR 0xB1, CHR 0xBB, CHR 0xE5, CHR 0x9E, CHR 0x8B] @ '' | '' @ [CHR 0xE6, CHR 0x97, CHR 0xB6, CHR 0xE9, CHR 0x97, CHR 0xB4, CHR 0xE7, CHR 0xAA, CHR 0x97] @ '' | distinct runs | '' @ [CHR 0xE5, CHR 0xA4, CHR 0xB1, CHR 0xE8, CHR 0xB4, CHR 0xA5, CHR 0xE7, CHR 0x8E, CHR 0x87] @ '' | '' @ [CHR 0xE5, CHR 0xB9, CHR 0xB3, CHR 0xE5, CHR 0x9D, CHR 0x87, CHR 0xE8, CHR 0x80, CHR 0x97, CHR 0xE6, CHR 0x97, CHR 0xB6] @ '' | '' @ [CHR 0xE5, CHR 0xB9, CHR 0xB3, CHR 0xE5, CHR 0x9D, CHR 0x87] @ '' retry | '' @ [CHR 0xE5, CHR 0xB9, CHR 0xB3, CHR 0xE5, CHR 0x9D, CHR 0x87] @ '' audit '' @ [CHR 0xE8, CHR 0xBD, CHR 0xAE, CHR 0xE6, CHR 0xAC, CHR 0xA1] @ '' | dispatch.completed | '' @ [CHR 0xE8, CHR 0xAF, CHR 0x84, CHR 0xE4, CHR 0xBC, CHR 0xB0, CHR 0xE7, CHR 0xB1, CHR 0xBB, CHR 0xE5, CHR 0x9E, CHR 0x8B] @ '' |''),
             ''| :--- | :--- | :--- | :--- | ---: | ---: | ---: | ---: | ---: | ---: | :--- |'']
          @ map evidence_row (cr_entries ev) @ [[], (''=== '' @ [CHR 0xE6, CHR 0xB4, CHR 0xBE, CHR 0xE7, CHR 0x94, CHR 0x9F, CHR 0xE4, CHR 0xBF, CHR 0xA1, CHR 0xE5, CHR 0x8F, CHR 0xB7] @ '' ==='')]
          @ (if signals = [] then [[CHR 0xE6, CHR 0x9C, CHR 0xAA, CHR 0xE5, CHR 0x8F, CHR 0x91, CHR 0xE7, CHR 0x8E, CHR 0xB0, CHR 0xE8, CHR 0xBE, CHR 0xBE, CHR 0xE5, CHR 0x88, CHR 0xB0, CHR 0xE9, CHR 0x98, CHR 0x88, CHR 0xE5, CHR 0x80, CHR 0xBC, CHR 0xE7, CHR 0x9A, CHR 0x84, CHR 0xE9, CHR 0xAB, CHR 0x98, CHR 0xE5, CHR 0xA4, CHR 0xB1, CHR 0xE8, CHR 0xB4, CHR 0xA5, CHR 0xE7, CHR 0x8E, CHR 0x87, CHR 0xE6, CHR 0x88, CHR 0x96, CHR 0xE5, CHR 0xAE, CHR 0xA1, CHR 0xE8, CHR 0xAE, CHR 0xA1, CHR 0xE5, CHR 0x8F, CHR 0x8D, CHR 0xE5, CHR 0xA4, CHR 0x8D, CHR 0xE7, CHR 0xBF, CHR 0xBB, CHR 0xE8, CHR 0xBD, CHR 0xA6, CHR 0xE4, CHR 0xBF, CHR 0xA1, CHR 0xE5, CHR 0x8F, CHR 0xB7, CHR 0xE3, CHR 0x80, CHR 0x82]] else signals)))"

text \<open>\<open>evidence\<close> is the evidence across the runs of the repository, as the telemetry gathers it.\<close>

definition cmd_recap ::
    "'w reader \<Rightarrow> ('w \<Rightarrow> string + evidence_report) \<Rightarrow> string \<Rightarrow> string option \<Rightarrow> bool \<Rightarrow> bool \<Rightarrow> ('w, string) act" where
  "cmd_recap R evidence repo run_id artifacts mine =
     (if mine then aread (\<lambda>w. bindr (evidence w) (\<lambda>ev. Inr (render_evidence_brief ev)))
      else abind (load_run (re_io R) repo run_id) (\<lambda>x.
             aread (\<lambda>w. Inr (render_recap R (rx_state x) (rx_run_id x) repo artifacts (Fin 120) w))))"

subsection \<open>Properties\<close>

lemma related_files_iff: "related_files tasks changed \<noteq> [] \<longleftrightarrow> set changed \<inter> set (touched_files tasks) \<noteq> {}"
  by (auto simp: related_files_def filter_empty_conv)

lemma revalidatable_not_pending: "set (revalidatable_tasks tasks) \<subseteq> set (non_pending_tasks tasks)"
  by (auto simp: revalidatable_tasks_def non_pending_tasks_def List.map_filter_def)

text \<open>
  A run that is resumed asks for tasks to be validated again exactly when it is not closed and its head was
  rewritten, or it can no longer be reached, or it has advanced over files that its tasks touched, and there are
  such tasks. It never asks for a pending task, and warns whenever the head has moved or the worktree is dirty.
\<close>

theorem resume_revalidates_what_moved:
  "(snd (resume_findings drift recorded actual changed dirty st) \<noteq> [] \<longleftrightarrow>
      st_current_phase st \<noteq> ''closed'' \<and>
      (drift = ''rewrite'' \<and> revalidatable_tasks (st_tasks st) \<noteq> []
       \<or> drift = ''unreachable'' \<and> non_pending_tasks (st_tasks st) \<noteq> []
       \<or> drift = ''forward'' \<and> set changed \<inter> set (touched_files (st_tasks st)) \<noteq> {} \<and> revalidatable_tasks (st_tasks st) \<noteq> []))
   \<and> set (snd (resume_findings drift recorded actual changed dirty st)) \<subseteq> set (non_pending_tasks (st_tasks st))
   \<and> (fst (resume_findings drift recorded actual changed dirty st) \<noteq> [] \<longleftrightarrow>
        dirty \<or> drift \<in> {''forward'', ''rewrite'', ''unreachable''})"
  using revalidatable_not_pending [of "st_tasks st"] related_files_iff [of "st_tasks st" changed]
  by (auto simp: resume_findings_def drift_findings_def Let_def)

text \<open>
  What the capsule says of the time since the last activity is the longest pause between two changes of the
  phase: here the run moved on two days ago and once more since, at whatever time it is read.
\<close>

definition paused_run :: lto_state where
  "paused_run = (default_state ''t'')\<lparr> st_phase_transitions := JArr (map (\<lambda>t. jobj [(''at'', JStr t)]) [''a'', ''b'', ''c'']) \<rparr>"

definition paused_times :: "string \<Rightarrow> (int \<times> int) option" where
  "paused_times t = map_of [(''a'', (0, 0)), (''b'', (172800000000000, 0)), (''c'', (172860000000000, 0))] t"

lemma gap_is_not_since_last_activity:
  "gap_lines (max_session_gap_hours paused_times paused_run) \<noteq> []"
  "gap_lines (max_session_gap_hours (\<lambda>t. if t = ''c'' then paused_times t else None) paused_run) = []"
  by code_simp+

lemma strict_scan: "scan_pairs True ps = Converging \<Longrightarrow> scan_pairs False ps = Converging"
  by (induction ps) (auto split: if_splits)

lemma strict_evaluation:
  "evaluate_ledger rounds True \<notin> {Rebound, Stalled} \<Longrightarrow> evaluate_ledger rounds False = evaluate_ledger rounds True"
proof -
  assume good: "evaluate_ledger rounds True \<notin> {Rebound, Stalled}"
  have "scan_pairs True ps \<notin> {Rebound, Stalled} \<Longrightarrow> scan_pairs True ps = Converging" for ps
    using scan_pairs_range [of True ps] by (cases "scan_pairs True ps") auto
  with strict_scan have "scan_pairs True ps \<notin> {Rebound, Stalled} \<Longrightarrow> scan_pairs False ps = scan_pairs True ps" for ps
    by metis
  with good show ?thesis by (auto simp: evaluate_ledger_def Let_def)
qed

text \<open>
  A ledger that passes the strict check passes the other one with the same report, and what a check
  returns as its exit code is 1 exactly for the verdicts Rebound and Stalled.
\<close>

theorem strict_ledger_check_is_stricter:
  assumes "evaluate_text text True = Inr r"
  shows "(exit_code r = 0 \<longrightarrow> evaluate_text text False = Inr r)
    \<and> (exit_code r = 1 \<longleftrightarrow> lc_verdict r \<in> {Rebound, Stalled}) \<and> (exit_code r = 0 \<longleftrightarrow> lc_verdict r \<notin> {Rebound, Stalled})"
proof -
  have code: "exit_code r = 0 \<longleftrightarrow> lc_verdict r \<notin> {Rebound, Stalled}" "exit_code r = 1 \<longleftrightarrow> lc_verdict r \<in> {Rebound, Stalled}"
    by (cases "lc_verdict r"; simp add: exit_code_def)+
  show ?thesis
    using assms strict_evaluation unfolding code
    by (auto simp: evaluate_text_def split: if_splits sum.splits)
qed

theorem strict_ledger_check_is_stricter_witness:
  "\<exists>r. evaluate_text sample_ledger True = Inr r \<and> exit_code r = 0 \<and> evaluate_text sample_ledger False = Inr r"
proof -
  have "''## Round Summary'' \<in> set (str_lines sample_ledger)" "trim ''## Round Summary'' = ''## Round Summary''" by code_simp+
  then have "has_summary sample_ledger" by (auto simp: has_summary_def list_ex_iff intro!: bexI eq_ignore_ascii_case_refl)
  moreover have "map_sum id (\<lambda>rs. evaluate_ledger rs True) (parse_ledger sample_ledger) = Inr Converging" by code_simp
  then obtain rs where "parse_ledger sample_ledger = Inr rs" "evaluate_ledger rs True = Converging"
    by (cases "parse_ledger sample_ledger") auto
  ultimately obtain r where r: "evaluate_text sample_ledger True = Inr r" "exit_code r = 0"
    by (simp add: evaluate_text_def exit_code_def)
  from strict_ledger_check_is_stricter [OF r(1)] r show ?thesis by auto
qed

end
