(* ===== verification/Spec2Isabelle.thy ===== *)
theory Spec2Isabelle
  imports Lto_Audit_Ledger Lto_Attempts Lto_Decision Lto_Budget Lto_State Lto_Workspace
    Lto_Task_View Lto_Run_Steps Lto_Agent_Turn Lto_Tmux Lto_Event_Emit Lto_Prune
    Lto_Contract Lto_Closeout Lto_Telemetry Lto_Audit_Dispatch Lto_Audit Lto_Start Lto_Judge Lto_Resume
begin

text \<open>
  A verification library for \<open>lto-rs\<close>, the Rust core of Long Task Orchestration (\<open>src/src\<close>).

  The program. A run lives in \<open>.lto/RUN\<close>: \<open>state.json\<close> (goal, phase, tasks, gates, risks, windows),
  \<open>run-state.md\<close> for people, \<open>events.jsonl\<close>, and \<open>audit-ledger.md\<close> with the rounds of its reviews.
  Commands load the state, decide, act and save it: tasks are added, executed and updated; a route
  says what is next; the autopilot runs what a worker may run; reviewers and voters are batches of
  agent jobs that the scheduler runs in parallel; goals are dispatched to agents in terminal windows
  that report when their turn is over; checks and gates say whether a run may go on or be closed.

  The theories, each named after what it models, every definition after its item in the source:

  - \<open>Lto_Prelude\<close>, \<open>Lto_Strings\<close>, \<open>Lto_Float\<close>, \<open>Lto_Json\<close>: what the standard library and serde's value type
    are to the program. Strings are lists of UTF-8 bytes, \<open>u64\<close> and \<open>u32\<close> are words (with saturating
    addition and multiplication), floats are rationals rounded to 53 bits with infinities and NaN,
    results are sums whose left side is the error, \<open>BTreeMap\<close> is a sorted list of pairs.
  - \<open>Lto_Ledger\<close> (\<open>ledger.rs\<close>) and \<open>Lto_Audit_Ledger\<close> (\<open>audit_ledger.rs\<close>): the Markdown table of review
    rounds, its parser, verdict and diagnostics, and the append of a round.
  - \<open>Lto_Worktree\<close> (\<open>process.rs\<close>, \<open>worktree.rs\<close>, \<open>merge_review.rs\<close>), \<open>Lto_Agent_Job\<close> (\<open>agent_job.rs\<close>),
    \<open>Lto_Dispatch\<close> (\<open>dispatch.rs\<close>), \<open>Lto_Scheduler\<close>, \<open>Lto_Submit\<close>, \<open>Lto_Attempts\<close> (\<open>scheduler.rs\<close>): jobs and their
    policies, the choice of a runner, batches with dependencies, retries, worktrees and reviews.
  - \<open>Lto_Findings\<close> (\<open>audit.rs\<close>) and \<open>Lto_Decision\<close> (\<open>decision.rs\<close>): review findings, votes and rounds.
  - \<open>Lto_Budget\<close> (\<open>budget.rs\<close>), \<open>Lto_State\<close> (\<open>state.rs\<close>), \<open>Lto_Run_Store\<close> and \<open>Lto_Workspace\<close>
    (\<open>commands/util.rs\<close>): budgets, the state record, saves that merge with what is on disk, git
    queries, the synchronised Markdown file and the artifact manifest.
  - \<open>Lto_Redact\<close> (\<open>redact.rs\<close>), \<open>Lto_Events\<close> (\<open>events.rs\<close>), \<open>Lto_Event_Emit\<close> (\<open>event_emit.rs\<close>): what may
    leave the tool, the append-only log with its lock, and the events that are built.
  - \<open>Lto_Observability\<close> (\<open>run_observability.rs\<close>, \<open>effect.rs\<close>, \<open>autonomous_gate.rs\<close>), \<open>Lto_Tasks\<close>,
    \<open>Lto_Autopilot\<close>, \<open>Lto_Run_Steps\<close>, \<open>Lto_Checks\<close> (\<open>commands/ops.rs\<close>), \<open>Lto_Task_View\<close> (\<open>resources/task.rs\<close>,
    \<open>commands/get.rs\<close>, \<open>commands/describe.rs\<close>): tasks, phases, the route, the autopilot and its gate,
    \<open>lto check\<close> and the hooks.
  - \<open>Lto_Dispatch_Goal\<close> (\<open>dispatch_goal.rs\<close>), \<open>Lto_Agent_Turn\<close> (\<open>agent_turn.rs\<close>), \<open>Lto_Tmux\<close>
    (\<open>tmux_runner.rs\<close>): goals sent to agents in windows, their reports, and the pane of tmux.
  - \<open>Lto_Decision_Record\<close> (\<open>commands/decision.rs\<close>), \<open>Lto_Prune\<close> (\<open>commands/prune.rs\<close>).
  - \<open>Lto_Run_Io\<close>: the files of a run as a record of actions on a world (reads, atomic writes, events,
    the clock), on which \<open>Lto_Contract\<close> (\<open>commands/contract.rs\<close>), \<open>Lto_Closeout\<close> (\<open>commands/closeout.rs\<close>),
    \<open>Lto_Audit\<close> and \<open>Lto_Start\<close> (\<open>lto audit\<close> and \<open>lto start\<close> of \<open>cli.rs\<close>, with \<open>host_env.rs\<close>) are written.
  - \<open>Lto_Telemetry\<close> (\<open>telemetry.rs\<close>): the telemetry of a run and the evidence across runs.
  - \<open>Lto_Audit_Dispatch\<close> (\<open>audit_dispatch.rs\<close>): which agents review, and the jobs they get.
  - \<open>Lto_Judge\<close> (\<open>llm_judge.rs\<close>, \<open>lto judge\<close>): the verdict on tasks and the judge of two replies.
  - \<open>Lto_Resume\<close> (\<open>commands/resume.rs\<close>, \<open>commands/recap.rs\<close>, \<open>commands/ledger_check.rs\<close>): what people read.

  How state and effects correspond. A pure function of the source is a function; a command that reads
  and writes takes the state it loads and returns the state it saves with its result, or threads a
  world of type \<open>'w\<close> through an environment record whose fields are the calls it makes (git, a shell,
  a multiplexer, files, clocks). Nothing is assumed of such a field but what a hypothesis of the
  property names. Errors are messages where the text matters and constructors where it does not.

  What the lemmas show, in the order of the theories: the verdict of a series and the agreement of
  the diagnostics with it, the round trip of an appended round; which policies a runner accepts;
  what a batch returns, that it never ends in a panic, that the order of completion is irrelevant
  and that acyclic batches complete; bounds on retries and back-off; where worktrees go; when a vote
  converges and which pick wins; when a budget is exceeded; merged saves keep both writers' windows;
  the Markdown file follows the state; reads of the log return what was emitted, and redaction
  reaches every string; invariants of the tasks under every sequence of commands, when the route
  closes out, what DONE means, and that an unchanged run stalls; what autonomous work needs; the
  order of calls of a dispatch, that its failure leaves no active window, that a window is closed at
  most once; that a tmux job returns, which files it touches, which panes it may type into; what a
  passed check guarantees; that pruning keeps the history; that a contract is changed in both files
  or in neither, what a closed run went through and that a refused closeout leaves the state alone;
  that every run counts once in the evidence across runs; that reviewers are of other families and
  which of them are skipped, what the round of an audit counts and that a risk it discovers stays
  open; that a started run is new and ready; that a judge is of another family and sees exactly the
  evidence that is hashed, and what its verdict leaves behind; what a resumed run has to validate again.

  Interfaces are locales, interpreted on the model: \<open>batch_runner\<close> (what a dependency plan needs of the
  way a round is run), \<open>keyed_merge\<close> (merging by key), \<open>tmux_wait\<close> (a poll loop with a deadline, for
  the six loops of the tmux runner), \<open>quiet_run_io\<close> (files that read back what was written, for the
  commands on the files of a run).

  Bounds and fuel. Recursion is structural or has its measure: a dependency plan loses a job in each
  round, a retry loop counts to its maximum, a parser consumes its text. A poll loop that ends only
  because time passes is a partial function with an option for its result; that it returns is proved
  in the locale \<open>tmux_wait\<close>: a round that goes on comes closer to the deadline or uses up one of the
  answers that may be missing. Next
  ids and suffixes are searched among one more candidate than there are entries, so that one is free.
  The waiter of the event log is given
  the sequence of the logs it sees. Widths are kept where the code
  computes with them (counts of blockers, event ids, tokens, back-off); sizes of files and of lists
  are natural numbers, since no list is as long as a \<open>usize\<close> allows.

  Not modelled. Serde's derived readers and writers of whole records, SHA-256, regular expressions,
  chrono, processes, sockets, file permissions and file locks of the operating system are parameters
  or arguments. The parts of \<open>cli.rs\<close> and \<open>main.rs\<close> that declare the command line and pass its values
  to the commands above have no logic of their own. The other multiplexers (\<open>herdr_runner.rs\<close>,
  \<open>orca_runner.rs\<close>, \<open>paseo_runner.rs\<close>), the plugins (\<open>plugin.rs\<close>, \<open>plugin_eval_run.rs\<close>), the wake-up
  sockets (\<open>notify.rs\<close>) are listed in the manifest with the reason.
\<close>

end
